(* ===== verification/Prelude.thy ===== *)
theory Prelude
  imports Main "HOL-Library.AList" "HOL-Library.Multiset" "HOL-Library.Char_ord"
    "HOL-Library.List_Lexorder"
begin

text \<open>
  What every component shares: the faults a Go function can end in, the combinators
  for functions that return \<open>(value, error)\<close> with and without a mutable state, Go maps
  as association lists, and the loop that deletes from a slice while ranging over it.
\<close>

named_theorems op_simps \<open>unfolding of the error and state combinators\<close>
named_theorems go_map \<open>lookups in updated association lists\<close>


section \<open>Errors, panics and results\<close>

text \<open>
  An error value keeps its format string and the strings printed into it
  (\<open>errors.Errorf\<close>, \<open>fmt.Errorf\<close>, \<open>errors.New\<close>), or wraps another error
  (\<open>errors.Wrapf\<close>), or is a status the cluster answered with a reason and a message.
\<close>

datatype error =
    Errorf string "string list"
  | Wrapf error string "string list"
  | StatusError string string

text \<open>A call ends normally, with an error, in a run-time panic, or by stopping the process.\<close>

datatype fault = Err error | Panic string | Exit string

type_synonym 'a result = "fault + 'a"

text \<open>
  \<open>errors.Wrapf err ...\<close> of an error; a panic passes through unchanged, since no code of
  the program recovers.
\<close>

fun wrap_fault :: "string \<Rightarrow> string list \<Rightarrow> fault \<Rightarrow> fault" where
  "wrap_fault fmt args (Err e) = Err (Wrapf e fmt args)"
| "wrap_fault fmt args (Panic p) = Panic p"
| "wrap_fault fmt args (Exit p) = Exit p"

definition fails :: "string \<Rightarrow> string list \<Rightarrow> 'a result" where
  "fails fmt args = Inl (Err (Errorf fmt args))"

definition bindR :: "'a result \<Rightarrow> ('a \<Rightarrow> 'b result) \<Rightarrow> 'b result" where
  "bindR m k = (case m of Inl f \<Rightarrow> Inl f | Inr a \<Rightarrow> k a)"

definition wrapR :: "string \<Rightarrow> string list \<Rightarrow> 'a result \<Rightarrow> 'a result" where
  "wrapR fmt args m = (case m of Inl f \<Rightarrow> Inl (wrap_fault fmt args f) | Inr a \<Rightarrow> Inr a)"

fun mapR :: "('a \<Rightarrow> 'b result) \<Rightarrow> 'a list \<Rightarrow> 'b list result" where
  "mapR f [] = Inr []"
| "mapR f (x # xs) = bindR (f x) (\<lambda>y. bindR (mapR f xs) (\<lambda>ys. Inr (y # ys)))"

definition is_ok :: "'a result \<Rightarrow> bool" where
  "is_ok m = (case m of Inl _ \<Rightarrow> False | Inr _ \<Rightarrow> True)"

lemma bindR_simps [simp]:
  "bindR (Inl f) k = Inl f"
  "bindR (Inr a) k = k a"
  by (simp_all add: bindR_def)

lemma wrapR_simps [simp]:
  "wrapR fmt args (Inl f) = Inl (wrap_fault fmt args f)"
  "wrapR fmt args (Inr a) = Inr a"
  by (simp_all add: wrapR_def)

lemma is_ok_simps [simp]:
  "is_ok (Inl f) = False"
  "is_ok (Inr a) = True"
  by (simp_all add: is_ok_def)

lemma bindR_Inr_iff: "bindR m k = Inr b \<longleftrightarrow> (\<exists>a. m = Inr a \<and> k a = Inr b)"
  by (cases m) auto

lemma wrapR_Inr_iff [simp]: "wrapR fmt args m = Inr b \<longleftrightarrow> m = Inr b"
  by (cases m) auto

lemma is_ok_iff: "is_ok m \<longleftrightarrow> (\<exists>a. m = Inr a)"
  by (cases m) auto

lemma fails_neq_Inr [simp]: "fails fmt args \<noteq> Inr a"
  by (simp add: fails_def)

lemma mapR_Inr_length: "mapR f xs = Inr ys \<Longrightarrow> length ys = length xs"
  by (induction xs arbitrary: ys) (auto simp: bindR_Inr_iff)

lemma mapR_Inr_nth: "mapR f xs = Inr ys \<Longrightarrow> i < length xs \<Longrightarrow> f (xs ! i) = Inr (ys ! i)"
proof (induction xs arbitrary: ys i)
  case (Cons x xs)
  then show ?case by (cases i) (auto simp: bindR_Inr_iff)
qed simp

lemma mapR_Inr_set: "mapR f xs = Inr ys \<Longrightarrow> y \<in> set ys \<Longrightarrow> \<exists>x\<in>set xs. f x = Inr y"
  by (induction xs arbitrary: ys) (auto simp: bindR_Inr_iff)

lemma mapR_all_ok: "(\<And>x. x \<in> set xs \<Longrightarrow> f x = Inr (g x)) \<Longrightarrow> mapR f xs = Inr (map g xs)"
  by (induction xs) auto

lemma mapR_first_error:
  "(\<And>x. x \<in> set xs \<Longrightarrow> f x = Inr (g x)) \<Longrightarrow> f y = Inl e \<Longrightarrow> mapR f (xs @ y # ys) = Inl e"
  by (induction xs) auto


section \<open>Operations on a state that may fail\<close>

text \<open>
  The cluster, the disk and objects mutated through a pointer are states. An operation
  returns its result and the state it leaves behind, also when it fails: what was written
  before an error stays written.
\<close>

type_synonym ('s, 'a) op = "'s \<Rightarrow> 'a result \<times> 's"

definition return :: "'a \<Rightarrow> ('s, 'a) op" where
  "return a = (\<lambda>s. (Inr a, s))"

definition fault :: "fault \<Rightarrow> ('s, 'a) op" where
  "fault f = (\<lambda>s. (Inl f, s))"

definition failing :: "string \<Rightarrow> string list \<Rightarrow> ('s, 'a) op" where
  "failing fmt args = fault (Err (Errorf fmt args))"

definition lift :: "'a result \<Rightarrow> ('s, 'a) op" where
  "lift m = (\<lambda>s. (m, s))"

definition bind :: "('s, 'a) op \<Rightarrow> ('a \<Rightarrow> ('s, 'b) op) \<Rightarrow> ('s, 'b) op" where
  "bind m k = (\<lambda>s. case m s of (Inl f, s') \<Rightarrow> (Inl f, s') | (Inr a, s') \<Rightarrow> k a s')"

definition wrapping :: "string \<Rightarrow> string list \<Rightarrow> ('s, 'a) op \<Rightarrow> ('s, 'a) op" where
  "wrapping fmt args m = (\<lambda>s. case m s of (r, s') \<Rightarrow> (wrapR fmt args r, s'))"

text \<open>The error of a call is looked at and the run goes on; a panic still ends it.\<close>

definition attempt :: "('s, 'a) op \<Rightarrow> ('s, error + 'a) op" where
  "attempt m = (\<lambda>s. case m s of
      (Inl (Err e), s') \<Rightarrow> (Inr (Inl e), s')
    | (Inl f, s') \<Rightarrow> (Inl f, s')
    | (Inr a, s') \<Rightarrow> (Inr (Inr a), s'))"

definition get_state :: "('s, 's) op" where
  "get_state = (\<lambda>s. (Inr s, s))"

definition modify :: "('s \<Rightarrow> 's) \<Rightarrow> ('s, unit) op" where
  "modify f = (\<lambda>s. (Inr (), f s))"

text \<open>An operation of the second component of a pair of states.\<close>

definition on_snd :: "('s, 'a) op \<Rightarrow> ('t \<times> 's, 'a) op" where
  "on_snd m = (\<lambda>(t, s). case m s of (r, s') \<Rightarrow> (r, (t, s')))"

fun each :: "('a \<Rightarrow> ('s, unit) op) \<Rightarrow> 'a list \<Rightarrow> ('s, unit) op" where
  "each f [] = return ()"
| "each f (x # xs) = bind (f x) (\<lambda>_. each f xs)"

text \<open>A loop that carries a value through its iterations.\<close>

fun fold_op :: "('a \<Rightarrow> 'b \<Rightarrow> ('s, 'b) op) \<Rightarrow> 'a list \<Rightarrow> 'b \<Rightarrow> ('s, 'b) op" where
  "fold_op f [] b = return b"
| "fold_op f (x # xs) b = bind (f x b) (fold_op f xs)"

lemma op_apply [op_simps]:
  "return a s = (Inr a, s)"
  "fault g s = (Inl g, s)"
  "failing fmt args s = (Inl (Err (Errorf fmt args)), s)"
  "lift r s = (r, s)"
  "get_state s = (Inr s, s)"
  "modify h s = (Inr (), h s)"
  by (simp_all add: return_def fault_def failing_def lift_def get_state_def modify_def)

lemma bind_apply [op_simps]:
  "bind m k s = (case m s of (Inl f, s') \<Rightarrow> (Inl f, s') | (Inr a, s') \<Rightarrow> k a s')"
  by (simp add: bind_def)

lemma wrapping_apply [op_simps]:
  "wrapping fmt args m s = (wrapR fmt args (fst (m s)), snd (m s))"
  by (simp add: wrapping_def split: prod.split)

lemma attempt_apply [op_simps]:
  "attempt m s = (case m s of
      (Inl (Err e), s') \<Rightarrow> (Inr (Inl e), s')
    | (Inl f, s') \<Rightarrow> (Inl f, s')
    | (Inr a, s') \<Rightarrow> (Inr (Inr a), s'))"
  by (simp add: attempt_def)

lemma on_snd_apply [op_simps]:
  "on_snd m ts = (fst (m (snd ts)), (fst ts, snd (m (snd ts))))"
  by (simp add: on_snd_def split: prod.split)

lemma bind_return [simp]: "bind (return a) k = k a"
  by (simp add: bind_def return_def)

lemma bind_fault [simp]: "bind (fault f) k = fault f"
  by (simp add: bind_def fault_def)

lemma bind_failing [simp]: "bind (failing fmt args) k = failing fmt args"
  by (simp add: failing_def)

lemma bind_assoc: "bind (bind m k) h = bind m (\<lambda>a. bind (k a) h)"
  by (rule ext) (simp add: bind_def split: prod.split sum.split)

lemma bind_ok: "m s = (Inr a, s') \<Longrightarrow> bind m k s = k a s'"
  by (simp add: bind_def)

lemma bind_err: "m s = (Inl f, s') \<Longrightarrow> bind m k s = (Inl f, s')"
  by (simp add: bind_def)

lemma bind_ok_iff:
  "bind m k s = (Inr b, t) \<longleftrightarrow> (\<exists>a s'. m s = (Inr a, s') \<and> k a s' = (Inr b, t))"
  by (auto simp: bind_def split: prod.splits sum.splits)

lemma bind_okE:
  assumes "bind m k s = (Inr b, t)"
  obtains a s' where "m s = (Inr a, s')" and "k a s' = (Inr b, t)"
  using assms by (auto simp: bind_ok_iff)

lemma lift_ok_iff [simp]: "lift r s = (Inr a, t) \<longleftrightarrow> r = Inr a \<and> t = s"
  by (auto simp: lift_def)

lemma return_ok_iff [simp]: "return a s = (Inr b, t) \<longleftrightarrow> b = a \<and> t = s"
  by (auto simp: return_def)

lemma failing_not_ok [simp]: "failing fmt args s = (Inr b, t) \<longleftrightarrow> False" "fault f s = (Inr b, t) \<longleftrightarrow> False"
  by (simp_all add: failing_def fault_def)

lemma wrapping_ok_iff [simp]: "wrapping fmt args m s = (Inr a, t) \<longleftrightarrow> m s = (Inr a, t)"
  by (cases "m s") (auto simp: wrapping_def)

lemma wrapping_ok: "m s = (Inr a, s') \<Longrightarrow> wrapping fmt args m s = (Inr a, s')"
  by simp

lemma wrapping_err: "m s = (Inl f, s') \<Longrightarrow> wrapping fmt args m s = (Inl (wrap_fault fmt args f), s')"
  by (simp add: wrapping_def)

lemma attempt_ok_iff:
  "attempt m s = (Inr r, t) \<longleftrightarrow>
     (\<exists>a. r = Inr a \<and> m s = (Inr a, t)) \<or> (\<exists>e. r = Inl e \<and> m s = (Inl (Err e), t))"
  by (cases "m s") (auto simp: attempt_def split: sum.splits fault.splits)

lemma each_append: "each f (xs @ ys) = bind (each f xs) (\<lambda>_. each f ys)"
  by (induction xs) (simp_all add: bind_assoc)

lemma fold_op_append: "fold_op f (xs @ ys) b = bind (fold_op f xs b) (fold_op f ys)"
  by (induction xs arbitrary: b) (auto simp: bind_assoc intro!: arg_cong [where f = "bind _"])

text \<open>An operation that only reads leaves the state as it found it.\<close>

definition reads :: "('s, 'a) op \<Rightarrow> bool" where
  "reads m \<longleftrightarrow> (\<forall>s. snd (m s) = s)"

lemma reads_intros [intro]:
  "reads (return a)"
  "reads (fault g)"
  "reads (failing fmt args)"
  "reads (lift r)"
  by (simp_all add: reads_def op_simps)

lemma reads_bind [intro]: "reads m \<Longrightarrow> (\<And>a. reads (k a)) \<Longrightarrow> reads (bind m k)"
  unfolding reads_def by (auto simp: bind_def split: prod.splits sum.splits) (metis sndI)+

lemma reads_wrapping [intro]: "reads m \<Longrightarrow> reads (wrapping fmt args m)"
  by (simp add: reads_def op_simps)

lemma reads_attempt [intro]: "reads m \<Longrightarrow> reads (attempt m)"
  unfolding reads_def by (auto simp: attempt_def split: prod.splits sum.splits fault.splits) (metis sndI)+

lemma readsD: "reads m \<Longrightarrow> m s = (r, t) \<Longrightarrow> t = s"
  by (metis reads_def sndI)

text \<open>An operation that leaves what \<open>f\<close> sees of the state as it found it, also when it fails.\<close>

definition preserves :: "('s \<Rightarrow> 'b) \<Rightarrow> ('s, 'a) op \<Rightarrow> bool" where
  "preserves f m \<longleftrightarrow> (\<forall>s. f (snd (m s)) = f s)"

lemma preserves_intros [intro]:
  "preserves f (return a)"
  "preserves f (fault g)"
  "preserves f (failing fmt args)"
  "preserves f (lift r)"
  "preserves f get_state"
  by (simp_all add: preserves_def op_simps)

lemma preserves_bind [intro]: "preserves f m \<Longrightarrow> (\<And>a. preserves f (k a)) \<Longrightarrow> preserves f (bind m k)"
  unfolding preserves_def bind_def by (auto split: prod.splits sum.splits) (metis sndI)+

lemma preserves_wrapping [intro]: "preserves f m \<Longrightarrow> preserves f (wrapping fmt args m)"
  by (simp add: preserves_def op_simps)

lemma preserves_if [intro]:
  "(b \<Longrightarrow> preserves f m) \<Longrightarrow> (\<not> b \<Longrightarrow> preserves f n) \<Longrightarrow> preserves f (if b then m else n)"
  by simp

lemma preserves_each: "(\<And>x. x \<in> set xs \<Longrightarrow> preserves f (g x)) \<Longrightarrow> preserves f (each g xs)"
  by (induction xs) auto

lemma preservesD: "preserves f m \<Longrightarrow> m s = (r, t) \<Longrightarrow> f t = f s"
  by (metis preserves_def sndI)

end
