(* ===== verification/GoData.thy ===== *)
theory GoData
  imports Prelude
begin

text \<open>
  Go's containers as the components use them. A \<open>map[string]T\<close> is an association list
  with lookups by its first entry for a key; the order in which a \<open>range\<close> over a map
  delivers the keys is a parameter, any permutation of them. Deleting from a slice in
  the body of a \<open>range\<close> over the same slice is modelled with its backing array.
\<close>


section \<open>Maps\<close>

type_synonym 'v gomap = "(string \<times> 'v) list"

text \<open>\<open>v, ok := m[k]\<close>, with the zero value for an absent string, \<open>m[k] = v\<close>, \<open>delete(m, k)\<close>.\<close>

definition lookup :: "'v gomap \<Rightarrow> string \<Rightarrow> 'v option" where
  "lookup m k = map_of m k"

definition get_str :: "string gomap \<Rightarrow> string \<Rightarrow> string" where
  "get_str m k = (case lookup m k of None \<Rightarrow> [] | Some v \<Rightarrow> v)"

definition has_key :: "'v gomap \<Rightarrow> string \<Rightarrow> bool" where
  "has_key m k = (lookup m k \<noteq> None)"

definition put :: "string \<Rightarrow> 'v \<Rightarrow> 'v gomap \<Rightarrow> 'v gomap" where
  "put k v m = AList.update k v m"

definition remove_key :: "string \<Rightarrow> 'v gomap \<Rightarrow> 'v gomap" where
  "remove_key k m = filter (\<lambda>e. fst e \<noteq> k) m"

definition keys_of :: "'v gomap \<Rightarrow> string list" where
  "keys_of m = map fst m"

text \<open>The keys of a map occur once: what Go guarantees of every map value.\<close>

definition wf_map :: "'v gomap \<Rightarrow> bool" where
  "wf_map m \<longleftrightarrow> distinct (keys_of m)"

text \<open>The entries in the order in which one \<open>range\<close> delivers them.\<close>

definition range_map :: "(string list \<Rightarrow> string list) \<Rightarrow> 'v gomap \<Rightarrow> (string \<times> 'v) list" where
  "range_map ord m = map (\<lambda>k. (k, the (lookup m k))) (ord (keys_of m))"

definition map_order :: "(string list \<Rightarrow> string list) \<Rightarrow> bool" where
  "map_order ord \<longleftrightarrow> (\<forall>ks. mset (ord ks) = mset ks)"

lemma lookup_put [go_map, simp]: "lookup (put k v m) k' = (if k' = k then Some v else lookup m k')"
  by (simp add: lookup_def put_def update_conv)

lemma lookup_remove [go_map, simp]:
  "lookup (remove_key k m) k' = (if k' = k then None else lookup m k')"
  by (induction m) (auto simp: lookup_def remove_key_def)

lemma lookup_Nil [simp]: "lookup [] k = None"
  by (simp add: lookup_def)

lemma lookup_Cons: "lookup ((k, v) # m) k' = (if k' = k then Some v else lookup m k')"
  by (simp add: lookup_def)

lemma get_put [go_map, simp]: "get_str (put k v m) k' = (if k' = k then v else get_str m k')"
  by (simp add: get_str_def)

lemma has_key_put [go_map, simp]: "has_key (put k v m) k' \<longleftrightarrow> k' = k \<or> has_key m k'"
  by (simp add: has_key_def)

lemma set_keys_put [simp]: "set (keys_of (put k v m)) = insert k (set (keys_of m))"
  by (simp add: keys_of_def put_def dom_update)

lemma wf_put [simp, intro]: "wf_map m \<Longrightarrow> wf_map (put k v m)"
  by (simp add: wf_map_def keys_of_def put_def distinct_update)

lemma wf_Nil [simp, intro]: "wf_map []"
  by (simp add: wf_map_def keys_of_def)

lemma wf_single [simp, intro]: "wf_map [(k, v)]"
  by (simp add: wf_map_def keys_of_def)

lemma wf_remove [simp, intro]: "wf_map m \<Longrightarrow> wf_map (remove_key k m)"
  by (simp add: wf_map_def keys_of_def remove_key_def distinct_map_filter)

lemma lookup_None_iff: "lookup m k = None \<longleftrightarrow> k \<notin> set (keys_of m)"
  by (simp add: lookup_def keys_of_def map_of_eq_None_iff)

lemma map_orderD: "map_order ord \<Longrightarrow> set (ord ks) = set ks"
  by (metis map_order_def set_mset_mset)

lemma map_order_distinct: "map_order ord \<Longrightarrow> distinct (ord ks) \<longleftrightarrow> distinct ks"
  by (metis map_order_def mset_eq_imp_distinct_iff)

lemma map_order_length: "map_order ord \<Longrightarrow> length (ord ks) = length ks"
  by (metis map_order_def mset_eq_length)

lemma map_order_id [simp, intro]: "map_order (\<lambda>ks. ks)"
  by (simp add: map_order_def)

lemma map_order_rev [simp, intro]: "map_order rev"
  by (simp add: map_order_def)

lemma lookup_map_key:
  "lookup (map (\<lambda>k. (k, f k)) ks) k = (if k \<in> set ks then Some (f k) else None)"
  by (induction ks) (auto simp: lookup_def)

lemma lookup_range_map [simp]:
  assumes "map_order ord"
  shows "lookup (range_map ord m) k = lookup m k"
proof (cases "k \<in> set (keys_of m)")
  case True
  then obtain v where "lookup m k = Some v" using lookup_None_iff by fastforce
  with True assms show ?thesis by (simp add: range_map_def lookup_map_key map_orderD)
next
  case False
  with assms have "lookup (range_map ord m) k = None"
    by (simp add: range_map_def lookup_map_key map_orderD)
  moreover from False have "lookup m k = None" by (rule lookup_None_iff [THEN iffD2])
  ultimately show ?thesis by simp
qed

lemma keys_range_map [simp]: "keys_of (range_map ord m) = ord (keys_of m)"
  by (simp add: range_map_def keys_of_def comp_def)

lemma wf_range_map: "map_order ord \<Longrightarrow> wf_map m \<Longrightarrow> wf_map (range_map ord m)"
  by (simp add: wf_map_def map_order_distinct)

lemma set_range_map:
  assumes "map_order ord" and "wf_map m"
  shows "set (range_map ord m) = set m"
proof -
  have "distinct (map fst m)" using assms(2) by (simp add: wf_map_def keys_of_def)
  then have eq: "(fst e, the (lookup m (fst e))) = e" if "e \<in> set m" for e
    using that by (cases e) (simp add: lookup_def)
  have "set (range_map ord m) = (\<lambda>e. (fst e, the (lookup m (fst e)))) ` set m"
    by (simp add: range_map_def map_orderD [OF assms(1)] keys_of_def image_image)
  also have "\<dots> = (\<lambda>e. e) ` set m" by (rule image_cong) (simp_all add: eq)
  finally show ?thesis by simp
qed


section \<open>Deleting from a slice while ranging over it\<close>

text \<open>
  \<^verbatim>\<open>for i, x := range s { if match(x) { s = append(s[:i], s[i+1:]...) } }\<close>

  \<open>range\<close> evaluates the slice once: the loop runs over the original length and reads the
  backing array at each index. \<open>append\<close> writes into that array in place, so the elements
  behind the deleted one move one place down, the array keeps its last element, and the
  slice is one shorter. A deletion at an index past the shortened slice panics.
  \<open>cur\<close> is the slice, \<open>arr\<close> its backing array over the original length.
\<close>

fun delete_loop ::
  "('a \<Rightarrow> bool) \<Rightarrow> nat \<Rightarrow> nat \<Rightarrow> 'a list \<Rightarrow> 'a list \<Rightarrow> bool \<Rightarrow> (bool \<times> 'a list) result" where
  "delete_loop P 0 i cur arr found = Inr (found, cur)"
| "delete_loop P (Suc n) i cur arr found =
     (if P (arr ! i)
      then if length cur < i + 1 then Inl (Panic ''slice bounds out of range'')
           else let cur' = take i cur @ drop (i + 1) cur
                in delete_loop P n (i + 1) cur' (cur' @ drop (length cur') arr) True
      else delete_loop P n (i + 1) cur arr found)"

text \<open>The whole loop, with the flag some of the callers keep: was anything deleted?\<close>

definition delete_in_range :: "('a \<Rightarrow> bool) \<Rightarrow> 'a list \<Rightarrow> (bool \<times> 'a list) result" where
  "delete_in_range P xs = delete_loop P (length xs) 0 xs xs False"

lemma delete_loop_none:
  "(\<And>j. i \<le> j \<Longrightarrow> j < i + n \<Longrightarrow> \<not> P (arr ! j)) \<Longrightarrow>
   delete_loop P n i cur arr found = Inr (found, cur)"
proof (induction n arbitrary: i)
  case (Suc n)
  from Suc.prems [of i] have "\<not> P (arr ! i)" by simp
  moreover have "delete_loop P n (i + 1) cur arr found = Inr (found, cur)"
    by (rule Suc.IH) (use Suc.prems in auto)
  ultimately show ?case by simp
qed simp

lemma delete_in_range_none:
  "(\<And>x. x \<in> set xs \<Longrightarrow> \<not> P x) \<Longrightarrow> delete_in_range P xs = Inr (False, xs)"
  unfolding delete_in_range_def by (rule delete_loop_none) simp

lemma delete_loop_skip:
  "(\<And>j. i \<le> j \<Longrightarrow> j < i + m \<Longrightarrow> \<not> P (arr ! j)) \<Longrightarrow>
   delete_loop P (m + n) i cur arr found = delete_loop P n (i + m) cur arr found"
proof (induction m arbitrary: i)
  case (Suc m)
  from Suc.prems [of i] have "\<not> P (arr ! i)" by simp
  moreover have "delete_loop P (m + n) (i + 1) cur arr found = delete_loop P n (i + 1 + m) cur arr found"
    by (rule Suc.IH) (use Suc.prems in auto)
  ultimately show ?case by (simp add: algebra_simps)
qed simp

text \<open>Up to the first match nothing happens; the first match is deleted.\<close>

lemma delete_in_range_first:
  assumes "\<And>y. y \<in> set ys \<Longrightarrow> \<not> P y" and "P x"
  shows "delete_in_range P (ys @ x # zs) =
    delete_loop P (length zs) (Suc (length ys)) (ys @ zs) (ys @ zs @ drop (length zs) (x # zs)) True"
proof -
  let ?xs = "ys @ x # zs"
  have "delete_loop P (length ys + Suc (length zs)) 0 ?xs ?xs False =
        delete_loop P (Suc (length zs)) (0 + length ys) ?xs ?xs False"
    by (rule delete_loop_skip) (use assms(1) in \<open>auto simp: nth_append\<close>)
  then show ?thesis
    using assms(2) by (simp add: delete_in_range_def nth_append Let_def)
qed

lemma nth_shifted:
  "zs \<noteq> [] \<Longrightarrow> j < length zs \<Longrightarrow> (zs @ drop (length zs) (x # zs)) ! (Suc j) \<in> set zs"
proof -
  assume ne: "zs \<noteq> []" and j: "j < length zs"
  from ne have "drop (length zs) (x # zs) = [last zs]"
    by (metis append_butlast_last_id append_eq_conv_conj append_Cons length_Cons
        length_append_singleton)
  with ne j show ?thesis
    by (auto simp: nth_append)
qed

theorem delete_in_range_unique:
  assumes "\<And>y. y \<in> set ys \<union> set zs \<Longrightarrow> \<not> P y" and "P x"
  shows "delete_in_range P (ys @ x # zs) = Inr (True, ys @ zs)"
proof (cases "zs = []")
  case True
  with assms show ?thesis by (simp add: delete_in_range_first)
next
  case False
  have "delete_loop P (length zs) (Suc (length ys)) (ys @ zs) (ys @ zs @ drop (length zs) (x # zs)) True
        = Inr (True, ys @ zs)"
  proof (rule delete_loop_none)
    fix j assume j: "Suc (length ys) \<le> j" "j < Suc (length ys) + length zs"
    then obtain k where k: "j = length ys + Suc k" "k < length zs"
      by (metis add_Suc add_less_cancel_left le_Suc_ex plus_1_eq_Suc add.commute add_Suc_right)
    have "(zs @ drop (length zs) (x # zs)) ! Suc k \<in> set zs"
      by (rule nth_shifted) (use False k in auto)
    with k assms(1) show "\<not> P ((ys @ zs @ drop (length zs) (x # zs)) ! j)"
      by (simp add: nth_append)
  qed
  with assms show ?thesis by (simp add: delete_in_range_first)
qed

text \<open>With at most one matching element the loop deletes exactly what it means to.\<close>

theorem delete_in_range_filter:
  assumes "length (filter P xs) \<le> 1"
  shows "delete_in_range P xs = Inr (\<exists>x\<in>set xs. P x, filter (\<lambda>x. \<not> P x) xs)"
proof (cases "\<exists>x\<in>set xs. P x")
  case False
  then show ?thesis by (simp add: delete_in_range_none filter_id_conv)
next
  case True
  then obtain ys x zs where xs: "xs = ys @ x # zs" "P x" and ys: "\<forall>y\<in>set ys. \<not> P y"
    by (metis split_list_first_prop)
  from assms xs have "filter P zs = []" by simp
  then have zs: "\<forall>y\<in>set zs. \<not> P y" by (simp add: filter_empty_conv)
  have "delete_in_range P xs = Inr (True, ys @ zs)"
    unfolding xs(1) by (rule delete_in_range_unique) (use xs(2) ys zs in auto)
  moreover have "filter (\<lambda>x. \<not> P x) xs = ys @ zs"
    using xs ys zs by (simp add: filter_id_conv)
  ultimately show ?thesis using True by simp
qed

lemma filter_key_le_1: "distinct (map f xs) \<Longrightarrow> length (filter (\<lambda>x. f x = k) xs) \<le> 1"
proof (induction xs)
  case (Cons a xs)
  then show ?case
    by (auto simp: filter_empty_conv image_iff)
qed simp

corollary delete_in_range_key:
  assumes "distinct (map f xs)"
  shows "delete_in_range (\<lambda>x. f x = k) xs = Inr (k \<in> f ` set xs, filter (\<lambda>x. f x \<noteq> k) xs)"
  using delete_in_range_filter [OF filter_key_le_1 [OF assms]] by auto

text \<open>
  With two matching elements of which one is the last of the slice, the loop panics: after
  the first deletion the last element is still in the backing array at the last index.
\<close>

lemma take_length_append: "take (length xs) (xs @ ys) = xs"
  by simp

lemma delete_loop_last_panics:
  assumes "n > 0" and "length arr = i + n" and "length cur < length arr"
    and "take (length cur) arr = cur" and "P (last arr)"
  shows "delete_loop P n i cur arr found = Inl (Panic ''slice bounds out of range'')"
  using assms
proof (induction n arbitrary: i cur arr found)
  case (Suc n)
  show ?case
  proof (cases "n = 0")
    case True
    with Suc.prems have "arr ! i = last arr"
      by (metis add_diff_cancel_right' last_conv_nth length_greater_0_conv less_nat_zero_code
          Suc_eq_plus1 zero_less_Suc add.left_neutral list.size(3))
    with True Suc.prems show ?thesis by simp
  next
    case False
    show ?thesis
    proof (cases "P (arr ! i)")
      case False
      then show ?thesis using Suc.IH [of arr "i + 1" cur found] Suc.prems \<open>n \<noteq> 0\<close> by simp
    next
      case True
      show ?thesis
      proof (cases "length cur < i + 1")
        case True
        with \<open>P (arr ! i)\<close> show ?thesis by simp
      next
        case False
        let ?cur = "take i cur @ drop (i + 1) cur"
        let ?arr = "?cur @ drop (length ?cur) arr"
        have pl: "P (last ?arr)" using False Suc.prems by (auto simp: last_append last_drop)
        have tk: "take (length ?cur) ?arr = ?cur" by (rule take_length_append)
        have l1: "length ?arr = i + 1 + n" and l2: "length ?cur < length ?arr"
          using False Suc.prems by auto
        have "delete_loop P n (i + 1) ?cur ?arr True = Inl (Panic ''slice bounds out of range'')"
          using \<open>n \<noteq> 0\<close> by (intro Suc.IH [OF _ l1 l2 tk pl]) simp
        with False \<open>P (arr ! i)\<close> show ?thesis by (simp add: Let_def)
      qed
    qed
  qed
qed simp

theorem delete_in_range_two_panics:
  assumes "P x" and "x \<in> set xs" and "P y"
  shows "delete_in_range P (xs @ [y]) = Inl (Panic ''slice bounds out of range'')"
proof -
  obtain us a vs where xs: "xs = us @ a # vs" "P a" and us: "\<forall>u\<in>set us. \<not> P u"
    using assms(1,2) split_list_first_prop [of xs P] by blast
  have "delete_in_range P (us @ a # (vs @ [y])) =
      delete_loop P (length (vs @ [y])) (Suc (length us)) (us @ vs @ [y])
        (us @ (vs @ [y]) @ drop (length (vs @ [y])) (a # vs @ [y])) True"
    by (rule delete_in_range_first) (use xs us in auto)
  also have "drop (length (vs @ [y])) (a # vs @ [y]) = [y]" by simp
  also have "delete_loop P (length (vs @ [y])) (Suc (length us)) (us @ vs @ [y])
        (us @ (vs @ [y]) @ [y]) True = Inl (Panic ''slice bounds out of range'')"
    by (rule delete_loop_last_panics) (use assms(3) in auto)
  finally show ?thesis using xs(1) by simp
qed

end
