(* ===== verification/GoLib.thy ===== *)
theory GoLib
  imports GoData
begin

text \<open>
  The functions of Go's standard library the source calls: \<open>strings\<close>, \<open>strconv\<close>,
  \<open>path/filepath\<close> on a Unix host. A string is its list of bytes; case mapping and white
  space are those of ASCII, so the model speaks of ASCII input where the source folds
  case or trims. Separators are single bytes, as in every call of the source.
\<close>


section \<open>Package strings\<close>

fun split_on :: "char \<Rightarrow> string \<Rightarrow> string list" where
  "split_on c [] = [[]]"
| "split_on c (x # xs) =
     (if x = c then [] # split_on c xs
      else case split_on c xs of [] \<Rightarrow> [[x]] | h # t \<Rightarrow> (x # h) # t)"

text \<open>\<open>strings.SplitN(s, sep, 2)\<close>\<close>

definition split_two :: "char \<Rightarrow> string \<Rightarrow> string list" where
  "split_two c s = (if c \<in> set s
     then [takeWhile (\<lambda>x. x \<noteq> c) s, tl (dropWhile (\<lambda>x. x \<noteq> c) s)] else [s])"

fun join_with :: "string \<Rightarrow> string list \<Rightarrow> string" where
  "join_with sep [] = []"
| "join_with sep [x] = x"
| "join_with sep (x # y # ys) = x @ sep @ join_with sep (y # ys)"

definition is_upper :: "char \<Rightarrow> bool" where
  "is_upper c \<longleftrightarrow> 65 \<le> (of_char c :: nat) \<and> (of_char c :: nat) \<le> 90"

definition is_lower :: "char \<Rightarrow> bool" where
  "is_lower c \<longleftrightarrow> 97 \<le> (of_char c :: nat) \<and> (of_char c :: nat) \<le> 122"

definition is_digit :: "char \<Rightarrow> bool" where
  "is_digit c \<longleftrightarrow> 48 \<le> (of_char c :: nat) \<and> (of_char c :: nat) \<le> 57"

definition is_alnum :: "char \<Rightarrow> bool" where
  "is_alnum c \<longleftrightarrow> is_upper c \<or> is_lower c \<or> is_digit c"

definition lower_char :: "char \<Rightarrow> char" where
  "lower_char c = (if is_upper c then char_of ((of_char c :: nat) + 32) else c)"

definition upper_char :: "char \<Rightarrow> char" where
  "upper_char c = (if is_lower c then char_of ((of_char c :: nat) - 32) else c)"

definition to_lower :: "string \<Rightarrow> string" where
  "to_lower s = map lower_char s"

definition to_upper :: "string \<Rightarrow> string" where
  "to_upper s = map upper_char s"

definition equal_fold :: "string \<Rightarrow> string \<Rightarrow> bool" where
  "equal_fold a b \<longleftrightarrow> to_lower a = to_lower b"

definition has_prefix :: "string \<Rightarrow> string \<Rightarrow> bool" where
  "has_prefix s p \<longleftrightarrow> take (length p) s = p"

definition has_suffix :: "string \<Rightarrow> string \<Rightarrow> bool" where
  "has_suffix s p \<longleftrightarrow> has_prefix (rev s) (rev p)"

definition trim_prefix :: "string \<Rightarrow> string \<Rightarrow> string" where
  "trim_prefix s p = (if has_prefix s p then drop (length p) s else s)"

definition trim_suffix :: "string \<Rightarrow> string \<Rightarrow> string" where
  "trim_suffix s p = (if has_suffix s p then take (length s - length p) s else s)"

fun contains_str :: "string \<Rightarrow> string \<Rightarrow> bool" where
  "contains_str [] p \<longleftrightarrow> p = []"
| "contains_str (x # xs) p \<longleftrightarrow> has_prefix (x # xs) p \<or> contains_str xs p"

text \<open>\<open>strings.Replace(s, old, new, -1)\<close> for single bytes\<close>

definition replace_char :: "char \<Rightarrow> char \<Rightarrow> string \<Rightarrow> string" where
  "replace_char a b s = map (\<lambda>x. if x = a then b else x) s"

definition is_space :: "char \<Rightarrow> bool" where
  "is_space c \<longleftrightarrow> c = CHR '' '' \<or> (9 \<le> (of_char c :: nat) \<and> (of_char c :: nat) \<le> 13)"

definition strip_suffix :: "(char \<Rightarrow> bool) \<Rightarrow> string \<Rightarrow> string" where
  "strip_suffix p s = rev (dropWhile p (rev s))"

definition trim_space :: "string \<Rightarrow> string" where
  "trim_space s = strip_suffix is_space (dropWhile is_space s)"

text \<open>The part of a string after the last occurrence of a byte, all of it if there is none.\<close>

definition after_last :: "char \<Rightarrow> string \<Rightarrow> string" where
  "after_last c s = rev (takeWhile (\<lambda>x. x \<noteq> c) (rev s))"

subsection \<open>Facts\<close>

lemma split_on_nonempty [simp]: "split_on c s \<noteq> []"
  by (cases s) (auto split: list.split)

lemma split_on_none: "c \<notin> set s \<Longrightarrow> split_on c s = [s]"
  by (induction s) auto

lemma split_on_append: "c \<notin> set a \<Longrightarrow> split_on c (a @ c # b) = a # split_on c b"
  by (induction a) auto

lemma split_on_pieces: "p \<in> set (split_on c s) \<Longrightarrow> c \<notin> set p"
proof (induction s arbitrary: p)
  case (Cons x xs)
  then show ?case
    by (cases "split_on c xs") (auto split: if_splits)
qed simp

lemma split_on_length: "length (split_on c s) = Suc (count_list s c)"
proof (induction s)
  case (Cons x xs)
  then show ?case by (cases "split_on c xs") auto
qed simp

lemma split_on_length_1: "length (split_on c s) = 1 \<longleftrightarrow> c \<notin> set s"
  by (simp add: split_on_length count_list_0_iff)

lemma join_split: "join_with [c] (split_on c s) = s"
proof (induction s)
  case (Cons x xs)
  show ?case
  proof (cases "split_on c xs")
    case (Cons h t)
    with \<open>join_with [c] (split_on c xs) = xs\<close> show ?thesis
      by (cases t) auto
  qed simp
qed simp

lemma split_join:
  "xs \<noteq> [] \<Longrightarrow> (\<And>x. x \<in> set xs \<Longrightarrow> c \<notin> set x) \<Longrightarrow> split_on c (join_with [c] xs) = xs"
proof (induction "[c]" xs rule: join_with.induct)
  case (3 x y ys)
  then show ?case by (simp add: split_on_append)
qed (auto simp: split_on_none)

lemma join_with_Cons: "xs \<noteq> [] \<Longrightarrow> join_with sep (x # xs) = x @ sep @ join_with sep xs"
  by (cases xs) auto

lemma split_two_app: "c \<notin> set a \<Longrightarrow> split_two c (a @ c # b) = [a, b]"
proof -
  assume "c \<notin> set a"
  then have "takeWhile (\<lambda>x. x \<noteq> c) (a @ c # b) = a" "dropWhile (\<lambda>x. x \<noteq> c) (a @ c # b) = c # b"
    by (auto simp: takeWhile_append dropWhile_append takeWhile_eq_all_conv)
  then show ?thesis by (simp add: split_two_def)
qed

lemma split_two_none: "c \<notin> set s \<Longrightarrow> split_two c s = [s]"
  by (simp add: split_two_def)

lemma split_two_Some: "c \<in> set s \<Longrightarrow> \<exists>a b. s = a @ c # b \<and> c \<notin> set a \<and> split_two c s = [a, b]"
  using split_list_first [of c s] split_two_app by metis

lemma length_map_case [simp]: "length (to_lower s) = length s" "length (to_upper s) = length s"
  by (simp_all add: to_lower_def to_upper_def)

lemma lower_upper_disjoint [simp]: "is_upper c \<Longrightarrow> \<not> is_lower c"
  by (simp add: is_upper_def is_lower_def)

lemma lower_char_lower [simp]: "is_upper c \<Longrightarrow> is_lower (lower_char c)"
  by (simp add: is_upper_def is_lower_def lower_char_def)

lemma not_upper_lower_char [simp]: "\<not> is_upper (lower_char c)"
  by (cases "is_upper c") (simp_all add: lower_upper_disjoint is_upper_def is_lower_def lower_char_def)

lemma lower_char_idem [simp]: "lower_char (lower_char c) = lower_char c"
  by (metis lower_char_def not_upper_lower_char)

lemma to_lower_idem [simp]: "to_lower (to_lower s) = to_lower s"
  by (simp add: to_lower_def)

lemma equal_fold_refl [simp]: "equal_fold a a"
  by (simp add: equal_fold_def)

lemma equal_fold_lower [simp]: "equal_fold a (to_lower b) = equal_fold a b" "equal_fold (to_lower a) b = equal_fold a b"
  by (simp_all add: equal_fold_def)

lemma has_prefix_app [simp]: "has_prefix (p @ s) p"
  by (simp add: has_prefix_def)

lemma trim_prefix_app [simp]: "trim_prefix (p @ s) p = s"
  by (simp add: trim_prefix_def)

lemma set_replace_char [simp]: "a \<noteq> b \<Longrightarrow> a \<notin> set (replace_char a b s)"
  by (auto simp: replace_char_def)

lemma length_replace_char [simp]: "length (replace_char a b s) = length s"
  by (simp add: replace_char_def)

lemma replace_char_none: "a \<notin> set s \<Longrightarrow> replace_char a b s = s"
  by (auto simp: replace_char_def intro!: map_idI)

lemma set_strip_suffix: "set (strip_suffix p s) \<subseteq> set s"
  by (auto simp: strip_suffix_def dest: set_dropWhileD)

lemma strip_suffix_last: "strip_suffix p s \<noteq> [] \<Longrightarrow> \<not> p (last (strip_suffix p s))"
  unfolding strip_suffix_def by (simp add: last_rev hd_dropWhile)

lemma strip_suffix_id: "(s \<noteq> [] \<Longrightarrow> \<not> p (last s)) \<Longrightarrow> strip_suffix p s = s"
  by (cases s rule: rev_cases) (auto simp: strip_suffix_def)

lemma strip_suffix_idem [simp]: "strip_suffix p (strip_suffix p s) = strip_suffix p s"
  by (rule strip_suffix_id) (rule strip_suffix_last)

lemma strip_suffix_hd:
  "s = [] \<or> \<not> p (hd s) \<Longrightarrow> strip_suffix p s = [] \<or> hd (strip_suffix p s) = hd s"
proof -
  assume hd: "s = [] \<or> \<not> p (hd s)"
  have "\<exists>t. s = strip_suffix p s @ t"
    by (metis dropWhile_eq_drop rev_rev_ident rev_append takeWhile_dropWhile_id strip_suffix_def)
  then obtain t where "s = strip_suffix p s @ t" ..
  then show ?thesis by (metis hd_append2)
qed

lemma strip_suffix_app: "\<not> p x \<Longrightarrow> strip_suffix p (xs @ [x]) = xs @ [x]"
  by (simp add: strip_suffix_def)


section \<open>Package strconv\<close>

definition digit_char :: "nat \<Rightarrow> char" where
  "digit_char d = char_of (48 + d)"

definition digit_val :: "char \<Rightarrow> nat" where
  "digit_val c = (of_char c :: nat) - 48"

fun show_nat :: "nat \<Rightarrow> string" where
  "show_nat n = (if n < 10 then [digit_char n] else show_nat (n div 10) @ [digit_char (n mod 10)])"

declare show_nat.simps [simp del]

definition show_int :: "int \<Rightarrow> string" where
  "show_int i = (if i < 0 then CHR ''-'' # show_nat (nat (- i)) else show_nat (nat i))"

definition digits_val :: "string \<Rightarrow> nat" where
  "digits_val s = foldl (\<lambda>n c. 10 * n + digit_val c) 0 s"

definition parse_digits :: "string \<Rightarrow> nat option" where
  "parse_digits s = (if s \<noteq> [] \<and> list_all is_digit s then Some (digits_val s) else None)"

text \<open>\<open>strconv.ParseInt(s, 10, bits)\<close>\<close>

definition parse_int :: "nat \<Rightarrow> string \<Rightarrow> int result" where
  "parse_int bits s =
     (let neg = (case s of c # _ \<Rightarrow> c = CHR ''-'' | [] \<Rightarrow> False);
          body = (case s of c # t \<Rightarrow> if c = CHR ''-'' \<or> c = CHR ''+'' then t else s | [] \<Rightarrow> s)
      in case parse_digits body of
           None \<Rightarrow> fails ''strconv.ParseInt: parsing %s: invalid syntax'' [s]
         | Some n \<Rightarrow> let v = (if neg then - int n else int n)
                     in if - (2 ^ (bits - 1)) \<le> v \<and> v < 2 ^ (bits - 1) then Inr v
                        else fails ''strconv.ParseInt: parsing %s: value out of range'' [s])"

text \<open>\<open>strconv.ParseBool\<close>\<close>

definition parse_bool :: "string \<Rightarrow> bool result" where
  "parse_bool s =
     (if s \<in> set [''1'', ''t'', ''T'', ''TRUE'', ''true'', ''True''] then Inr True
      else if s \<in> set [''0'', ''f'', ''F'', ''FALSE'', ''false'', ''False''] then Inr False
      else fails ''strconv.ParseBool: parsing %s: invalid syntax'' [s])"

lemma of_char_digit [simp]: "d < 10 \<Longrightarrow> (of_char (digit_char d) :: nat) = 48 + d"
  by (simp add: digit_char_def)

lemma digit_char_facts [simp]:
  "d < 10 \<Longrightarrow> is_digit (digit_char d)"
  "d < 10 \<Longrightarrow> digit_val (digit_char d) = d"
  by (simp_all add: is_digit_def digit_val_def)

lemma is_digit_not_sign [simp]: "\<not> is_digit CHR ''-''" "\<not> is_digit CHR ''+''"
  by (simp_all add: is_digit_def)

lemma show_nat_digits: "list_all is_digit (show_nat n) \<and> show_nat n \<noteq> []"
proof (induction n rule: show_nat.induct)
  case (1 n)
  then show ?case by (subst (1 2) show_nat.simps) auto
qed

lemma digits_val_show: "digits_val (show_nat n) = n"
proof (induction n rule: show_nat.induct)
  case (1 n)
  then show ?case by (subst show_nat.simps) (auto simp: digits_val_def)
qed

lemma parse_digits_show [simp]: "parse_digits (show_nat n) = Some n"
  by (simp add: parse_digits_def show_nat_digits digits_val_show)

lemma show_nat_Cons: "\<exists>c t. show_nat n = c # t \<and> is_digit c"
  using show_nat_digits [of n] by (cases "show_nat n") auto

theorem parse_show_int:
  assumes "- (2 ^ (bits - 1)) \<le> i" and "i < 2 ^ (bits - 1)"
  shows "parse_int bits (show_int i) = Inr i"
proof (cases "i < 0")
  case True
  with assms show ?thesis by (simp add: parse_int_def show_int_def Let_def)
next
  case False
  obtain c t where ct: "show_nat (nat i) = c # t" "is_digit c" using show_nat_Cons by blast
  then have "c \<noteq> CHR ''-''" "c \<noteq> CHR ''+''" by auto
  with False assms ct show ?thesis
    using parse_digits_show [of "nat i"] by (simp add: parse_int_def show_int_def Let_def)
qed

lemma parse_int_bounds:
  "parse_int bits s = Inr v \<Longrightarrow> - (2 ^ (bits - 1)) \<le> v \<and> v < 2 ^ (bits - 1)"
  by (auto simp: parse_int_def Let_def split: option.splits if_splits)

lemma show_int_inject: "show_int i = show_int j \<Longrightarrow> i = j"
proof -
  assume eq: "show_int i = show_int j"
  let ?n = "nat (\<bar>i\<bar> + \<bar>j\<bar>)" and ?b = "nat (\<bar>i\<bar> + \<bar>j\<bar>) + 1"
  have "?n < 2 ^ ?n" by (rule less_exp)
  then have "int ?n < int (2 ^ ?n)" by (simp only: of_nat_less_iff)
  then have "\<bar>i\<bar> + \<bar>j\<bar> < 2 ^ (?b - 1)" by simp
  then have "parse_int ?b (show_int i) = Inr i" "parse_int ?b (show_int j) = Inr j"
    by (intro parse_show_int; linarith)+
  with eq show ?thesis by simp
qed


section \<open>Package filepath\<close>

text \<open>\<open>filepath.Clean\<close>: the lexically shortest path, \<open>..\<close> eliminated where it can be.\<close>

fun clean_step :: "bool \<Rightarrow> string list \<Rightarrow> string \<Rightarrow> string list" where
  "clean_step rooted st c =
     (if c = ''..'' then
        (case st of
           [] \<Rightarrow> if rooted then [] else [''..'']
         | t # r \<Rightarrow> if t = ''..'' then ''..'' # st else r)
      else c # st)"

definition path_parts :: "string \<Rightarrow> string list" where
  "path_parts p = filter (\<lambda>c. c \<noteq> [] \<and> c \<noteq> ''.'') (split_on CHR ''/'' p)"

definition path_clean :: "string \<Rightarrow> string" where
  "path_clean p =
     (let rooted = has_prefix p ''/'';
          st = rev (foldl (clean_step rooted) [] (path_parts p))
      in if rooted then CHR ''/'' # join_with ''/'' st
         else if st = [] then ''.'' else join_with ''/'' st)"

definition path_join :: "string list \<Rightarrow> string" where
  "path_join es =
     (case filter (\<lambda>e. e \<noteq> []) es of [] \<Rightarrow> [] | es' \<Rightarrow> path_clean (join_with ''/'' es'))"

definition path_base :: "string \<Rightarrow> string" where
  "path_base p =
     (if p = [] then ''.''
      else let q = strip_suffix (\<lambda>c. c = CHR ''/'') p
           in if q = [] then ''/'' else after_last CHR ''/'' q)"

text \<open>\<open>filepath.Ext\<close>: the suffix from the last dot of the last path element.\<close>

definition path_ext :: "string \<Rightarrow> string" where
  "path_ext p =
     (let b = after_last CHR ''/'' p
      in if CHR ''.'' \<in> set b then CHR ''.'' # after_last CHR ''.'' b else [])"

definition path_dir :: "string \<Rightarrow> string" where
  "path_dir p = path_clean (take (length p - length (after_last CHR ''/'' p)) p)"

lemma after_last_no [simp]: "c \<notin> set (after_last c s)"
  by (auto simp: after_last_def dest: set_takeWhileD)

lemma path_base_no_slash: "path_base p \<noteq> ''/'' \<Longrightarrow> CHR ''/'' \<notin> set (path_base p)"
  using after_last_no [of "CHR ''/''" "strip_suffix (\<lambda>c. c = CHR ''/'') p"]
  by (auto simp: path_base_def Let_def simp del: after_last_no split: if_splits)

end
