(* ===== verification/Objects.thy ===== *)
theory Objects
  imports GoLib
begin

text \<open>
  The Kubernetes and OpenShift objects the components build and read: the API types the
  source imports (\<open>metav1\<close>, \<open>corev1\<close>, \<open>appsv1\<close>, \<open>routev1\<close>, \<open>buildv1\<close>, \<open>imagev1\<close>), with
  the fields the source uses. A pointer that the source tests for nil or dereferences is
  an \<open>option\<close>; a quantity is known by the canonical text its \<open>String\<close> method prints.
\<close>

record type_meta =
  tm_kind :: string
  tm_api_version :: string

record object_meta =
  om_name :: string
  om_namespace :: string
  om_labels :: "string gomap"
  om_annotations :: "string gomap"
  om_generation :: int

definition named_meta :: "string \<Rightarrow> object_meta" where
  "named_meta n = \<lparr>om_name = n, om_namespace = [], om_labels = [], om_annotations = [],
     om_generation = 0\<rparr>"

datatype quantity = Quantity string

definition zero_quantity :: quantity where
  "zero_quantity = Quantity ''0''"

fun quantity_string :: "quantity \<Rightarrow> string" where
  "quantity_string (Quantity s) = s"

record resource_requirements =
  rr_limits :: "quantity gomap"
  rr_requests :: "quantity gomap"

record container_port =
  cp_name :: string
  cp_port :: int
  cp_protocol :: string

record env_var =
  ev_name :: string
  ev_value :: string

record volume_mount =
  vm_name :: string
  vm_path :: string
  vm_sub_path :: string

record volume =
  vol_name :: string
  vol_claim :: "string option"
  vol_empty_dir :: bool

text \<open>An \<open>EnvFromSource\<close> is its \<open>SecretRef\<close>: the secret's name, or nil.\<close>

type_synonym env_from = "string option"

record container =
  ct_name :: string
  ct_image :: string
  ct_ports :: "container_port list"
  ct_command :: "string list"
  ct_args :: "string list"
  ct_mounts :: "volume_mount list"
  ct_env :: "env_var list"
  ct_env_from :: "env_from list"
  ct_resources :: resource_requirements

definition no_resources :: resource_requirements where
  "no_resources = \<lparr>rr_limits = [], rr_requests = []\<rparr>"

definition empty_container :: container where
  "empty_container = \<lparr>ct_name = [], ct_image = [], ct_ports = [], ct_command = [], ct_args = [],
     ct_mounts = [], ct_env = [], ct_env_from = [], ct_resources = no_resources\<rparr>"

record pod_template =
  pt_labels :: "string gomap"
  pt_annotations :: "string gomap"
  pt_init :: "container list"
  pt_containers :: "container list"
  pt_volumes :: "volume list"

record object_ref =
  ref_kind :: string
  ref_name :: string
  ref_namespace :: string

record image_change =
  ic_automatic :: bool
  ic_containers :: "string list"
  ic_from :: object_ref

record trigger =
  tr_type :: string
  tr_image_change :: "image_change option"

record dc_condition =
  cond_type :: string
  cond_reason :: string

record dc_status =
  st_latest_version :: int
  st_observed_generation :: int
  st_replicas :: int
  st_updated_replicas :: int
  st_available_replicas :: int
  st_conditions :: "dc_condition list"

record dc_spec =
  sp_replicas :: int
  sp_strategy :: string
  sp_selector :: "string gomap"
  sp_template :: "pod_template option"
  sp_triggers :: "trigger list"

record dc =
  dc_meta :: object_meta
  dc_spec :: dc_spec
  dc_status :: dc_status

definition no_status :: dc_status where
  "no_status = \<lparr>st_latest_version = 0, st_observed_generation = 0, st_replicas = 0,
     st_updated_replicas = 0, st_available_replicas = 0, st_conditions = []\<rparr>"

record pvc =
  pvc_meta :: object_meta
  pvc_size :: quantity
  pvc_access_modes :: "string list"

text \<open>\<open>intstr.IntOrString\<close> and its \<open>IntValue\<close>, which drops the error of \<open>Atoi\<close>.\<close>

datatype int_or_string = FromInt int | FromString string

fun int_value :: "int_or_string \<Rightarrow> int" where
  "int_value (FromInt i) = i"
| "int_value (FromString s) = (case parse_int 64 s of Inl _ \<Rightarrow> 0 | Inr i \<Rightarrow> i)"

record route =
  rt_meta :: object_meta
  rt_host :: string
  rt_to :: object_ref
  rt_port :: "int_or_string option"
  rt_tls :: bool

record service_port =
  sv_name :: string
  sv_port :: int
  sv_protocol :: string
  sv_target :: int_or_string

record service =
  svc_meta :: object_meta
  svc_ports :: "service_port list"
  svc_selector :: "string gomap"

record secret =
  sec_meta :: object_meta
  sec_type :: string
  sec_string_data :: "string gomap"

record build_config =
  bc_meta :: object_meta
  bc_output :: object_ref
  bc_git_uri :: string
  bc_git_ref :: string
  bc_source_type :: string
  bc_builder :: object_ref
  bc_env :: "env_var list"
  bc_last_version :: int

text \<open>A tag of an image stream with the images it went through, newest first.\<close>

record tag_history =
  th_tag :: string
  th_images :: "string list"

text \<open>A tag of the specification of an image stream, and an \<open>ImageStreamTag\<close> object.\<close>

record tag_reference =
  tg_name :: string
  tg_annotations :: "string gomap"

record image_stream =
  is_meta :: object_meta
  is_spec_tags :: "tag_reference list"
  is_status_tags :: "tag_history list"

text \<open>The meta data of a builder image, decoded: exposed ports, labels (nil or a map), working directory.\<close>

record image_stream_image =
  isi_name :: string
  isi_exposed_ports :: "unit gomap"
  isi_labels :: "string gomap option"
  isi_working_dir :: string

text \<open>A dereference of the pod template's pointer.\<close>

definition template_of :: "dc \<Rightarrow> pod_template result" where
  "template_of d = (case sp_template (dc_spec d) of
     None \<Rightarrow> Inl (Panic ''nil pointer dereference: Spec.Template'') | Some t \<Rightarrow> Inr t)"

definition set_template :: "pod_template \<Rightarrow> dc \<Rightarrow> dc" where
  "set_template t d = d\<lparr>dc_spec := (dc_spec d)\<lparr>sp_template := Some t\<rparr>\<rparr>"

lemma template_of_set [simp]: "template_of (set_template t d) = Inr t"
  by (simp add: template_of_def set_template_def)

lemma set_template_frame [simp]:
  "dc_meta (set_template t d) = dc_meta d"
  "dc_status (set_template t d) = dc_status d"
  "sp_template (dc_spec (set_template t d)) = Some t"
  "sp_triggers (dc_spec (set_template t d)) = sp_triggers (dc_spec d)"
  "sp_selector (dc_spec (set_template t d)) = sp_selector (dc_spec d)"
  by (simp_all add: set_template_def)

lemma set_template_twice [simp]: "set_template t (set_template t' d) = set_template t d"
  by (simp add: set_template_def)

lemma template_of_Inr [simp]: "template_of d = Inr t \<longleftrightarrow> sp_template (dc_spec d) = Some t"
  by (simp add: template_of_def split: option.split)

lemma set_template_same: "template_of d = Inr t \<Longrightarrow> set_template t d = d"
  by (cases d) (auto simp: set_template_def)

end
