(* ===== verification/Util.thy ===== *)
theory Util
  imports Objects
begin

text \<open>
  \<open>pkg/util/util.go\<close>: names, selectors, ports, glob and ignore rules. Randomness, the
  glob library, the current user and the working directory are parameters.
\<close>


section \<open>Selectors and membership\<close>

text \<open>One iteration of the loop of \<open>ConvertLabelsToSelector\<close>: \<open>isFirst\<close> and \<open>selector\<close>.\<close>

fun selector_step :: "bool \<times> string \<Rightarrow> string \<times> string \<Rightarrow> bool \<times> string" where
  "selector_step (isFirst, selector) (k, v) =
     (if isFirst then
        (if v = [] then (False, selector @ k) else (False, k @ ''='' @ v))
      else
        (if v = [] then (False, selector @ '','' @ k) else (False, selector @ '','' @ k @ ''='' @ v)))"

definition ConvertLabelsToSelector :: "(string list \<Rightarrow> string list) \<Rightarrow> string gomap \<Rightarrow> string" where
  "ConvertLabelsToSelector ord labels = snd (foldl selector_step (True, []) (range_map ord labels))"

fun In :: "string list \<Rightarrow> string \<Rightarrow> bool" where
  "In [] v = False"
| "In (item # arr) v = (if item = v then True else In arr v)"

definition SliceDifference :: "string list \<Rightarrow> string list \<Rightarrow> string list" where
  "SliceDifference s1 s2 =
     (let mb = foldl (\<lambda>m x. put x True m) [] s1
      in foldl (\<lambda>difference x. if has_key mb x then difference else difference @ [x]) [] s2)"

definition RemoveDuplicates :: "(string list \<Rightarrow> string list) \<Rightarrow> string list \<Rightarrow> string list" where
  "RemoveDuplicates ord s =
     (let m = foldl (\<lambda>m item. if has_key m item then m else put item True m) [] s
      in map fst (range_map ord m))"

definition GetSortedKeys :: "(string list \<Rightarrow> string list) \<Rightarrow> string gomap \<Rightarrow> string list" where
  "GetSortedKeys ord mapping = sort (map fst (range_map ord mapping))"

definition GetSplitValuesFromStr :: "string \<Rightarrow> string list" where
  "GetSplitValuesFromStr inputStr =
     (if length inputStr = 0 then [] else map trim_space (split_on CHR '','' inputStr))"

text \<open>A parameter that is not \<open>key=value\<close> stops the process (\<open>glog.Fatalf\<close>).\<close>

fun ConvertKeyValue_loop :: "string list \<Rightarrow> string gomap \<Rightarrow> string gomap result" where
  "ConvertKeyValue_loop [] result = Inr result"
| "ConvertKeyValue_loop (param # params) result =
     (case split_on CHR ''='' param of
        [k, v] \<Rightarrow> ConvertKeyValue_loop params (put k v result)
      | _ \<Rightarrow> Inl (Exit (''Parameter '' @ param @ '' is not in the expected key=value format'')))"

definition ConvertKeyValueStringToMap :: "string list \<Rightarrow> string gomap result" where
  "ConvertKeyValueStringToMap params = ConvertKeyValue_loop params []"


section \<open>Object names\<close>

definition maxAllowedNamespacedStringLength :: int where
  "maxAllowedNamespacedStringLength = 63 - int (length ''-s2idata'') - 1"

definition TruncateString :: "string \<Rightarrow> int \<Rightarrow> string result" where
  "TruncateString str maxLen =
     (if maxLen = -1 then Inr str
      else if int (length str) > maxLen then
        (if maxLen < 0 then Inl (Panic ''slice bounds out of range'')
         else Inr (take (nat maxLen) str))
      else Inr str)"

definition NamespaceOpenShiftObject :: "string \<Rightarrow> string \<Rightarrow> string result" where
  "NamespaceOpenShiftObject componentName applicationName =
     (if componentName = [] then fails ''namespacing: component name cannot be blank'' []
      else if applicationName = [] then fails ''namespacing: application name cannot be blank'' []
      else let originalName = replace_char CHR ''/'' CHR ''-'' componentName @ ''-'' @ applicationName
           in TruncateString originalName maxAllowedNamespacedStringLength)"

definition ExtractComponentType :: "string \<Rightarrow> string" where
  "ExtractComponentType namespacedVersionedComponentType =
     (let s = split_on CHR ''/'' namespacedVersionedComponentType;
          versionedString = (if length s = 2 then s ! 1 else s ! 0)
      in split_on CHR '':'' versionedString ! 0)"

text \<open>Image name, component type, component name, component version.\<close>

definition ParseComponentImageName :: "string \<Rightarrow> string \<times> string \<times> string \<times> string" where
  "ParseComponentImageName imageName =
     (if CHR '':'' \<in> set imageName then
        let versionSplit = split_on CHR '':'' imageName;
            componentType = versionSplit ! 0
        in (imageName, componentType, ExtractComponentType componentType, versionSplit ! 1)
      else (imageName, imageName, ExtractComponentType imageName, ''latest''))"

text \<open>
  The regular expressions of \<open>GetDNS1123Name\<close>: every run of bytes outside
  \<open>[a-zA-Z0-9_-]\<close> becomes one dash; \<open>Replace("--", "-", -1)\<close> scans once from the left;
  the anchored patterns strip what is not alphanumeric from the two ends, and leave a
  string alone whose kept part holds a newline, which \<open>.\<close> does not match.
\<close>

definition name_char :: "char \<Rightarrow> bool" where
  "name_char c \<longleftrightarrow> is_alnum c \<or> c = CHR ''_'' \<or> c = CHR ''-''"

function replace_runs :: "string \<Rightarrow> string" where
  "replace_runs [] = []"
| "replace_runs (x # xs) =
     (if name_char x then x # replace_runs xs
      else CHR ''-'' # replace_runs (dropWhile (\<lambda>c. \<not> name_char c) xs))"
  by pat_completeness auto
termination
  by (relation "measure length") (auto simp: le_imp_less_Suc length_dropWhile_le)

fun replace_dashes :: "string \<Rightarrow> string" where
  "replace_dashes (x # y # xs) =
     (if x = CHR ''-'' \<and> y = CHR ''-'' then CHR ''-'' # replace_dashes xs
      else x # replace_dashes (y # xs))"
| "replace_dashes xs = xs"

definition newline :: char where
  "newline = CHR 0x0A"

definition removeNonAlphaPrefix :: "string \<Rightarrow> string" where
  "removeNonAlphaPrefix input =
     (let rest = dropWhile (\<lambda>c. \<not> is_alnum c) input
      in if newline \<in> set rest then input else rest)"

definition removeNonAlphaSuffix :: "string \<Rightarrow> string" where
  "removeNonAlphaSuffix input =
     (let front = strip_suffix (\<lambda>c. \<not> is_alnum c) input
      in if newline \<in> set front then input else front)"

definition GetDNS1123Name :: "string \<Rightarrow> string" where
  "GetDNS1123Name str =
     removeNonAlphaSuffix (removeNonAlphaPrefix (replace_dashes (replace_runs str)))"

text \<open>
  \<open>GenerateRandomString n\<close>: \<open>n\<close> letters of \<open>letterRunes\<close> picked by the indices \<open>picks\<close>
  that \<open>rand.Intn(26)\<close> delivers.
\<close>

definition letterRunes :: string where
  "letterRunes = ''abcdefghijklmnopqrstuvwxyz''"

definition GenerateRandomString :: "nat list \<Rightarrow> nat \<Rightarrow> string" where
  "GenerateRandomString picks n = map (\<lambda>i. letterRunes ! ((picks ! i) mod length letterRunes)) [0..<n]"

text \<open>
  The retry loop of \<open>GetRandomName\<close>. \<open>suffix t\<close> is the random string of trial \<open>t\<close>, with
  trial 0 the first candidate; \<open>name\<close> stays the first candidate through all trials.
\<close>

function random_retry ::
  "string \<Rightarrow> (int \<Rightarrow> string) \<Rightarrow> string list \<Rightarrow> int \<Rightarrow> int \<Rightarrow> string result" where
  "random_retry name suffix existList retries trial =
     (let trial = trial + 1;
          prevName = name @ ''-'' @ suffix trial;
          ok = In existList prevName
      in if trial \<ge> retries then
           fails ''failed to generate a unique name even after %d retrials'' [show_int retries]
         else if ok then random_retry name suffix existList retries trial
         else Inr prevName)"
  by pat_completeness auto
termination
  by (relation "measure (\<lambda>(_, _, _, retries, trial). nat (retries - trial))") auto

declare random_retry.simps [simp del]

definition GetRandomName ::
  "(int \<Rightarrow> string) \<Rightarrow> string \<Rightarrow> int \<Rightarrow> string list \<Rightarrow> int \<Rightarrow> string result" where
  "GetRandomName suffix prefix prefixMaxLen existList retries =
     bindR (TruncateString (GetDNS1123Name (to_lower prefix)) prefixMaxLen) (\<lambda>prefix.
       let name = prefix @ ''-'' @ suffix 0
       in if In existList name then random_retry name suffix existList retries 0
          else Inr name)"


section \<open>Files and URLs\<close>

definition WIN :: string where
  "WIN = ''windows''"

definition ReadFilePath :: "string \<Rightarrow> string \<Rightarrow> string result" where
  "ReadFilePath uPath os =
     (if os = WIN then
        (case replace_char CHR ''/'' (CHR 0x5C) uPath of
           [] \<Rightarrow> Inl (Panic ''slice bounds out of range'')
         | _ # location \<Rightarrow> Inr location)
      else Inr uPath)"

definition GenFileURL :: "string \<Rightarrow> string \<Rightarrow> string" where
  "GenFileURL location currOS =
     ''file://'' @ (if currOS = WIN then ''/'' @ replace_char (CHR 0x5C) CHR ''/'' location
                    else location)"

text \<open>\<open>filepath.Abs\<close> with the answer of \<open>os.Getwd\<close> as a parameter.\<close>

definition path_abs :: "string result \<Rightarrow> string \<Rightarrow> string result" where
  "path_abs cwd p = (if has_prefix p ''/'' then Inr (path_clean p)
                     else bindR cwd (\<lambda>wd. Inr (path_join [wd, p])))"

definition GetAbsPath :: "string \<Rightarrow> string result \<Rightarrow> string result \<Rightarrow> string \<Rightarrow> string result" where
  "GetAbsPath customHomeDir currentUserHome cwd path =
     bindR (if has_prefix path ''~'' then
              bindR (if length customHomeDir > 0 then Inr customHomeDir
                     else wrapR ''unable to resolve %s to absolute path'' [path] currentUserHome)
                (\<lambda>dir. Inr (if length path > 1 then path_join [dir, tl path] else dir))
            else Inr path)
       (\<lambda>path. wrapR ''unable to resolve %s to absolute path'' [path] (path_abs cwd path))"

definition GetAbsGlobExps :: "string \<Rightarrow> string list \<Rightarrow> string list" where
  "GetAbsGlobExps directory globExps =
     foldl (\<lambda>absGlobExps globExp. absGlobExps @ [path_join [directory, globExp]]) [] globExps"

text \<open>
  \<open>stat\<close> answers whether \<open>os.Stat\<close> succeeds; \<open>open_lines\<close> is \<open>os.Open\<close> followed by the
  lines \<open>ReadLine\<close> delivers and the error that ended the reading, if it was not \<open>io.EOF\<close>.
  The rules read before such an error are returned beside it.
\<close>

definition keep_rule :: "string \<Rightarrow> bool" where
  "keep_rule line \<longleftrightarrow>
     length (trim_space line) > 0 \<and> \<not> has_prefix line ''#'' \<and> \<not> has_prefix line ''.git''"

definition GetIgnoreRulesFromDirectory ::
  "(string \<Rightarrow> bool) \<Rightarrow> (string \<Rightarrow> (string list \<times> error option) result) \<Rightarrow> string \<Rightarrow>
   (string list \<times> error option) result" where
  "GetIgnoreRulesFromDirectory stat open_lines directory =
     (let rules = [''.git''];
          odoignore = path_join [directory, ''.odoignore''];
          gitignore = path_join [directory, ''.gitignore'']
      in if \<not> stat odoignore \<and> \<not> stat gitignore then Inr (rules, None)
         else bindR (open_lines (if stat odoignore then odoignore else gitignore))
           (\<lambda>(lines, err).
              Inr (foldl (\<lambda>rules line. if keep_rule line then rules @ [line] else rules) rules lines,
                   err)))"

text \<open>The \<open>gobwas/glob\<close> library compiles a pattern to a matcher or fails.\<close>

fun IsGlobExpMatch :: "(string \<Rightarrow> (string \<Rightarrow> bool) result) \<Rightarrow> string \<Rightarrow> string list \<Rightarrow> bool result" where
  "IsGlobExpMatch compile strToMatch [] = Inr False"
| "IsGlobExpMatch compile strToMatch (globExp # globExps) =
     bindR (compile (replace_char (CHR 0x5C) CHR ''/'' globExp)) (\<lambda>pattern.
       if pattern (replace_char (CHR 0x5C) CHR ''/'' strToMatch) then Inr True
       else IsGlobExpMatch compile strToMatch globExps)"

text \<open>Host, port and scheme of a URL come from \<open>url.Parse\<close>, service ports from \<open>net.LookupPort\<close>.\<close>

record parsed_url =
  url_host :: string
  url_port :: string
  url_scheme :: string

definition GetHostWithPort ::
  "(string \<Rightarrow> parsed_url result) \<Rightarrow> (string \<Rightarrow> int result) \<Rightarrow> string \<Rightarrow> string result" where
  "GetHostWithPort parse lookup_port inputURL =
     bindR (wrapR ''error while getting port for url %s '' [inputURL] (parse inputURL)) (\<lambda>u.
       if url_port u = [] then
         bindR (wrapR ''error while getting port for url %s '' [inputURL] (lookup_port (url_scheme u)))
           (\<lambda>portInt. Inr (url_host u @ '':'' @ show_int portInt))
       else Inr (url_host u))"


section \<open>Ports, quantities, output flags\<close>

definition ContainerPort_of_string :: "string \<Rightarrow> container_port result" where
  "ContainerPort_of_string port =
     (let splits = split_on CHR ''/'' port
      in if length splits < 1 \<or> length splits > 2 then fails ''unable to parse the port string %s'' [port]
         else case parse_int 32 (splits ! 0) of
             Inl _ \<Rightarrow> fails ''invalid port number %s'' [splits ! 0]
           | Inr portNumber \<Rightarrow>
               bindR (if length splits = 2 then
                        (if to_upper (splits ! 1) = ''TCP'' then Inr ''TCP''
                         else if to_upper (splits ! 1) = ''UDP'' then Inr ''UDP''
                         else fails ''invalid port protocol %s'' [splits ! 1])
                      else Inr ''TCP'')
                 (\<lambda>portProto. Inr \<lparr>cp_name = show_int portNumber @ ''-'' @ to_lower portProto,
                    cp_port = portNumber, cp_protocol = portProto\<rparr>))"

definition GetContainerPortsFromStrings :: "string list \<Rightarrow> container_port list result" where
  "GetContainerPortsFromStrings ports = mapR ContainerPort_of_string ports"

record ResourceRequirementInfo =
  rri_type :: string
  rri_min :: quantity
  rri_max :: quantity

text \<open>\<open>resource.MustParse\<close> panics where \<open>ParseQuantity\<close> fails.\<close>

definition must_parse :: "(string \<Rightarrow> quantity result) \<Rightarrow> string \<Rightarrow> quantity result" where
  "must_parse parse s = (case parse s of Inl _ \<Rightarrow> Inl (Panic (''cannot parse '' @ s)) | Inr q \<Rightarrow> Inr q)"

definition FetchResourceQuantity ::
  "(string \<Rightarrow> quantity result) \<Rightarrow> string \<Rightarrow> string \<Rightarrow> string \<Rightarrow> string \<Rightarrow>
   ResourceRequirementInfo option result" where
  "FetchResourceQuantity parse resourceType minQ maxQ request =
     (if minQ = [] \<and> maxQ = [] \<and> request = [] then Inr None
      else bindR (if minQ \<noteq> [] then must_parse parse minQ else Inr zero_quantity) (\<lambda>minResource.
        bindR (if maxQ \<noteq> [] then must_parse parse maxQ else Inr zero_quantity) (\<lambda>maxResource.
        if request \<noteq> [] \<and> (minQ = [] \<or> maxQ = []) then
          bindR (must_parse parse request) (\<lambda>minResource.
          bindR (must_parse parse request) (\<lambda>maxResource.
            Inr (Some \<lparr>rri_type = resourceType, rri_min = minResource, rri_max = maxResource\<rparr>)))
        else Inr (Some \<lparr>rri_type = resourceType, rri_min = minResource, rri_max = maxResource\<rparr>))))"

definition CheckOutputFlag :: "string \<Rightarrow> bool" where
  "CheckOutputFlag outputFlag = (if outputFlag = ''json'' \<or> outputFlag = [] then True else False)"

definition MachineOutput :: "('a \<Rightarrow> string result) \<Rightarrow> string \<Rightarrow> 'a \<Rightarrow> string result" where
  "MachineOutput marshal outputFlag resource =
     (if outputFlag = ''json'' then marshal resource else Inr [])"


section \<open>Lemmas: membership, selectors, keys\<close>

lemma In_iff [simp]: "In arr v \<longleftrightarrow> v \<in> set arr"
  by (induction arr) auto

definition selector_entry :: "string \<times> string \<Rightarrow> string" where
  "selector_entry kv = (if snd kv = [] then fst kv else fst kv @ ''='' @ snd kv)"

lemma selector_step_fold:
  "foldl selector_step (False, sel) es =
     (False, sel @ concat (map (\<lambda>e. '','' @ selector_entry e) es))"
  by (induction es arbitrary: sel) (auto simp: selector_entry_def)

lemma join_with_concat:
  "join_with sep (x # xs) = x @ concat (map (\<lambda>y. sep @ y) xs)"
  by (induction xs arbitrary: x) auto

lemma selector_fold_join:
  "snd (foldl selector_step (True, []) es) = join_with '','' (map selector_entry es)"
proof (cases es)
  case (Cons e es')
  obtain k v where "e = (k, v)" by (cases e)
  with Cons show ?thesis
    by (simp add: selector_step_fold join_with_concat selector_entry_def comp_def)
qed simp

lemma selector_join:
  "ConvertLabelsToSelector ord labels = join_with '','' (map selector_entry (range_map ord labels))"
  by (simp add: ConvertLabelsToSelector_def selector_fold_join)

text \<open>Keys and values as Kubernetes allows them in labels hold neither separator.\<close>

definition clean_labels :: "string gomap \<Rightarrow> bool" where
  "clean_labels labels \<longleftrightarrow>
     (\<forall>(k, v) \<in> set labels. CHR '','' \<notin> set k \<and> CHR ''='' \<notin> set k \<and> CHR '','' \<notin> set v)"

fun requirement_of :: "string \<Rightarrow> string \<times> string" where
  "requirement_of r = (case split_two CHR ''='' r of [k, v] \<Rightarrow> (k, v) | _ \<Rightarrow> (r, []))"

definition requirements :: "string \<Rightarrow> (string \<times> string) list" where
  "requirements sel = (if sel = [] then [] else map requirement_of (split_on CHR '','' sel))"

lemma requirement_of_entry: "CHR ''='' \<notin> set k \<Longrightarrow> requirement_of (selector_entry (k, v)) = (k, v)"
  using split_two_app [of "CHR ''=''" k v] split_two_none [of "CHR ''=''" k]
  by (simp add: selector_entry_def)

lemma clean_labels_cong: "set l1 = set l2 \<Longrightarrow> clean_labels l1 = clean_labels l2"
  by (simp add: clean_labels_def)

lemma map_order_Nil [simp]: "map_order ord \<Longrightarrow> ord ks = [] \<longleftrightarrow> ks = []"
  by (metis length_0_conv map_order_length)

lemma requirements_of_selector:
  assumes "map_order ord" and "wf_map labels" and "clean_labels labels"
    and "\<forall>(k, v) \<in> set labels. k \<noteq> []"
  shows "requirements (ConvertLabelsToSelector ord labels) = range_map ord labels"
proof (cases "range_map ord labels")
  case Nil
  then show ?thesis by (simp add: selector_join requirements_def)
next
  case (Cons e es)
  let ?es = "range_map ord labels"
  have set_es: "set ?es = set labels" by (rule set_range_map [OF assms(1,2)])
  then have clean: "clean_labels ?es" using assms(3) clean_labels_cong by blast
  have nonempty: "ConvertLabelsToSelector ord labels \<noteq> []"
  proof -
    have "fst e \<noteq> []" using assms(4) set_es Cons by (cases e) auto
    then show ?thesis by (simp add: selector_join Cons selector_entry_def join_with_concat)
  qed
  have "split_on CHR '','' (ConvertLabelsToSelector ord labels) = map selector_entry ?es"
    unfolding selector_join
  proof (rule split_join)
    fix x assume "x \<in> set (map selector_entry ?es)"
    then obtain k v where "(k, v) \<in> set ?es" "x = selector_entry (k, v)" by auto
    with clean show "CHR '','' \<notin> set x" by (auto simp: clean_labels_def selector_entry_def)
  qed (use Cons in simp)
  moreover have "map requirement_of (map selector_entry ?es) = ?es"
  proof (unfold map_map, rule map_idI)
    fix e assume e: "e \<in> set ?es"
    obtain k v where kv: "e = (k, v)" by (cases e)
    with e clean have "CHR ''='' \<notin> set k" by (auto simp: clean_labels_def)
    with kv show "(requirement_of \<circ> selector_entry) e = e"
      by (simp add: requirement_of_entry del: requirement_of.simps)
  qed
  ultimately show ?thesis using nonempty by (simp add: requirements_def)
qed

lemma fold_put_keys:
  "has_key (foldl (\<lambda>m x. put x True m) m s) k \<longleftrightarrow> k \<in> set s \<or> has_key m k"
  by (induction s arbitrary: m) auto

lemma fold_difference:
  "foldl (\<lambda>difference x. if P x then difference else difference @ [x]) d s = d @ filter (\<lambda>x. \<not> P x) s"
  by (induction s arbitrary: d) auto

lemma SliceDifference_filter: "SliceDifference s1 s2 = filter (\<lambda>x. x \<notin> set s1) s2"
  
proof -
  have "has_key (foldl (\<lambda>m x. put x True m) [] s1) x \<longleftrightarrow> x \<in> set s1" for x
    by (simp add: fold_put_keys) (simp add: has_key_def)
  then show ?thesis by (simp add: SliceDifference_def Let_def fold_difference)
qed

lemma dedup_fold:
  "wf_map m \<Longrightarrow>
   wf_map (foldl (\<lambda>m item. if has_key m item then m else put item True m) m s) \<and>
   set (keys_of (foldl (\<lambda>m item. if has_key m item then m else put item True m) m s))
     = set (keys_of m) \<union> set s"
proof (induction s arbitrary: m)
  case (Cons x s)
  show ?case
  proof (cases "has_key m x")
    case True
    then have "x \<in> set (keys_of m)" using lookup_None_iff has_key_def by metis
    with True Cons show ?thesis by auto
  next
    case False
    with Cons.IH [of "put x True m"] Cons.prems show ?thesis by auto
  qed
qed simp

lemma RemoveDuplicates_spec:
  assumes "map_order ord"
  shows "distinct (RemoveDuplicates ord s) \<and> set (RemoveDuplicates ord s) = set s"
proof -
  let ?m = "foldl (\<lambda>m item. if has_key m item then m else put item True m) [] s"
  have "map fst (range_map ord ?m) = ord (keys_of ?m)"
    by (metis keys_of_def keys_range_map)
  moreover have "wf_map ?m \<and> set (keys_of ?m) = set s"
    using dedup_fold [of "[]" s] by (simp add: keys_of_def)
  ultimately show ?thesis
    using assms by (simp add: RemoveDuplicates_def Let_def map_order_distinct map_orderD wf_map_def)
qed

lemma GetSortedKeys_eq:
  "map_order ord \<Longrightarrow> GetSortedKeys ord m = sort (keys_of m)"
  by (metis GetSortedKeys_def keys_of_def keys_range_map map_order_def properties_for_sort
      mset_sort sorted_sort)


section \<open>Lemmas: names\<close>

lemma TruncateString_le:
  "0 \<le> n \<Longrightarrow> TruncateString s n = Inr (take (nat n) s)"
  by (auto simp: TruncateString_def)

lemma max_length [simp]: "maxAllowedNamespacedStringLength = 54"
  by (simp add: maxAllowedNamespacedStringLength_def)

lemma NamespaceOpenShiftObject_Inr:
  "NamespaceOpenShiftObject c a = Inr n \<longleftrightarrow>
     c \<noteq> [] \<and> a \<noteq> [] \<and> n = take 54 (replace_char CHR ''/'' CHR ''-'' c @ ''-'' @ a)"
  by (auto simp: NamespaceOpenShiftObject_def TruncateString_le Let_def)

lemma NamespaceOpenShiftObject_ok:
  "c \<noteq> [] \<Longrightarrow> a \<noteq> [] \<Longrightarrow>
   NamespaceOpenShiftObject c a = Inr (take 54 (replace_char CHR ''/'' CHR ''-'' c @ ''-'' @ a))"
  by (simp add: NamespaceOpenShiftObject_Inr)

lemma namespaced_short:
  "NamespaceOpenShiftObject c a = Inr n \<Longrightarrow> length n \<le> 54 \<and> length (n @ ''-s2idata'') \<le> 63"
  by (auto simp: NamespaceOpenShiftObject_Inr)

lemma replace_runs_chars: "c \<in> set (replace_runs s) \<Longrightarrow> name_char c"
  by (induction s rule: replace_runs.induct) (auto simp: name_char_def split: if_splits)

lemma replace_runs_id: "list_all name_char s \<Longrightarrow> replace_runs s = s"
  by (induction s) auto

lemma replace_dashes_set: "set (replace_dashes s) \<subseteq> set s"
  by (induction s rule: replace_dashes.induct) auto

fun double_dash :: "string \<Rightarrow> bool" where
  "double_dash (x # y # xs) \<longleftrightarrow> x = CHR ''-'' \<and> y = CHR ''-'' \<or> double_dash (y # xs)"
| "double_dash _ \<longleftrightarrow> False"

lemma replace_dashes_id: "\<not> double_dash s \<Longrightarrow> replace_dashes s = s"
  by (induction s rule: replace_dashes.induct) auto

lemma newline_not_name_char [simp]: "\<not> name_char newline"
  by (simp add: name_char_def newline_def is_alnum_def is_upper_def is_lower_def is_digit_def)

lemma name_chars_no_newline: "list_all name_char s \<Longrightarrow> set t \<subseteq> set s \<Longrightarrow> newline \<notin> set t"
  by (metis list_all_iff newline_not_name_char subsetD)

lemma set_dropWhile_subset: "set (dropWhile P s) \<subseteq> set s"
  by (metis set_dropWhileD subsetI)

lemma removeNonAlphaPrefix_clean:
  "list_all name_char s \<Longrightarrow> removeNonAlphaPrefix s = dropWhile (\<lambda>c. \<not> is_alnum c) s"
  by (simp add: removeNonAlphaPrefix_def Let_def name_chars_no_newline [OF _ set_dropWhile_subset])

lemma removeNonAlphaSuffix_clean:
  "list_all name_char s \<Longrightarrow> removeNonAlphaSuffix s = strip_suffix (\<lambda>c. \<not> is_alnum c) s"
  by (simp add: removeNonAlphaSuffix_def Let_def name_chars_no_newline [OF _ set_strip_suffix])

lemma GetDNS1123Name_clean:
  "GetDNS1123Name s = strip_suffix (\<lambda>c. \<not> is_alnum c)
     (dropWhile (\<lambda>c. \<not> is_alnum c) (replace_dashes (replace_runs s)))"
proof -
  have all: "list_all name_char (replace_dashes (replace_runs s))"
    using replace_dashes_set replace_runs_chars by (fastforce simp: list_all_iff)
  then have "list_all name_char (dropWhile (\<lambda>c. \<not> is_alnum c) (replace_dashes (replace_runs s)))"
    by (auto simp: list_all_iff dest: set_dropWhileD)
  with all show ?thesis
    by (simp add: GetDNS1123Name_def removeNonAlphaPrefix_clean removeNonAlphaSuffix_clean)
qed

lemma GetDNS1123Name_chars: "c \<in> set (GetDNS1123Name s) \<Longrightarrow> name_char c"
proof -
  let ?d = "dropWhile (\<lambda>c. \<not> is_alnum c) (replace_dashes (replace_runs s))"
  assume "c \<in> set (GetDNS1123Name s)"
  then have "c \<in> set ?d" using set_strip_suffix by (auto simp: GetDNS1123Name_clean)
  then have "c \<in> set (replace_dashes (replace_runs s))" by (rule subsetD [OF set_dropWhile_subset])
  then show ?thesis using replace_dashes_set replace_runs_chars by blast
qed

lemma GetDNS1123Name_ends:
  assumes "GetDNS1123Name s \<noteq> []"
  shows "is_alnum (hd (GetDNS1123Name s)) \<and> is_alnum (last (GetDNS1123Name s))"
proof -
  let ?d = "dropWhile (\<lambda>c. \<not> is_alnum c) (replace_dashes (replace_runs s))"
  let ?n = "strip_suffix (\<lambda>c. \<not> is_alnum c) ?d"
  have n: "GetDNS1123Name s = ?n" by (rule GetDNS1123Name_clean)
  have "?d \<noteq> []"
  proof
    assume "?d = []"
    then have "?n = []" by (simp only: strip_suffix_def rev.simps dropWhile.simps)
    with assms n show False by simp
  qed
  then have "is_alnum (hd ?d)" using hd_dropWhile [of "\<lambda>c. \<not> is_alnum c"] by blast
  then have "hd ?n = hd ?d" using strip_suffix_hd [of ?d "\<lambda>c. \<not> is_alnum c"] assms n by simp
  moreover have "is_alnum (last ?n)" using strip_suffix_last assms n by fastforce
  ultimately show ?thesis using \<open>is_alnum (hd ?d)\<close> n by simp
qed

lemma GetDNS1123Name_id:
  assumes "list_all name_char s" and "\<not> double_dash s" and "s \<noteq> []"
    and "is_alnum (hd s)" and "is_alnum (last s)"
  shows "GetDNS1123Name s = s"
proof -
  have "dropWhile (\<lambda>c. \<not> is_alnum c) s = s" using assms by (cases s) auto
  with assms show ?thesis
    by (simp add: GetDNS1123Name_clean replace_runs_id replace_dashes_id strip_suffix_id)
qed

lemma random_retry_unfold:
  "random_retry name suffix existList retries trial =
     (if trial + 1 \<ge> retries
      then fails ''failed to generate a unique name even after %d retrials'' [show_int retries]
      else if name @ ''-'' @ suffix (trial + 1) \<in> set existList
      then random_retry name suffix existList retries (trial + 1)
      else Inr (name @ ''-'' @ suffix (trial + 1)))"
  by (subst random_retry.simps) (simp add: Let_def)

lemma random_retry_fresh:
  "random_retry name suffix existList retries trial = Inr n \<Longrightarrow>
   n \<notin> set existList \<and> (\<exists>t. trial < t \<and> t < retries \<and> n = name @ ''-'' @ suffix t)"
proof (induction "nat (retries - trial)" arbitrary: trial rule: less_induct)
  case less
  let ?c = "name @ ''-'' @ suffix (trial + 1)"
  from less.prems have lt: "trial + 1 < retries"
    by (subst (asm) random_retry_unfold) (simp split: if_splits)
  show ?case
  proof (cases "?c \<in> set existList")
    case True
    with less.prems lt have "random_retry name suffix existList retries (trial + 1) = Inr n"
      by (subst (asm) random_retry_unfold) simp
    with less.hyps [of "trial + 1"] lt show ?thesis by force
  next
    case False
    with less.prems lt have "n = ?c" by (subst (asm) random_retry_unfold) simp
    with False lt show ?thesis by force
  qed
qed

lemma random_retry_finds:
  assumes "trial < t" and "t < retries" and "name @ ''-'' @ suffix t \<notin> set existList"
  shows "is_ok (random_retry name suffix existList retries trial)"
  using assms
proof (induction "nat (retries - trial)" arbitrary: trial rule: less_induct)
  case less
  show ?case
  proof (cases "name @ ''-'' @ suffix (trial + 1) \<in> set existList")
    case True
    with less.prems have "trial + 1 < t" by (cases "t = trial + 1") auto
    with less True show ?thesis by (subst random_retry_unfold) auto
  next
    case False
    with less.prems show ?thesis by (subst random_retry_unfold) simp
  qed
qed


section \<open>Properties\<close>

lemma shown_proto: "to_upper (to_lower ''TCP'') = ''TCP''" "to_upper ''TCP'' = ''TCP''" "to_upper ''UDP'' = ''UDP''"
  by code_simp+

lemma show_int_no_slash: "CHR ''/'' \<notin> set (show_int i)"
proof -
  have "CHR ''/'' \<notin> set (show_nat n)" for n
  proof
    assume "CHR ''/'' \<in> set (show_nat n)"
    then have "is_digit CHR ''/''" using show_nat_digits [of n] by (auto simp: list_all_iff)
    then show False by (simp add: is_digit_def)
  qed
  then show ?thesis by (auto simp: show_int_def)
qed

text \<open>\<open>GetDNS1123Name\<close> gives a name of alphanumerics, dashes and underscores whose first and
  last bytes, if there are any, are alphanumeric, whatever the input.\<close>

theorem GetDNS1123Name_shape:
  "list_all name_char (GetDNS1123Name s) \<and>
   (GetDNS1123Name s = [] \<or> is_alnum (hd (GetDNS1123Name s)) \<and> is_alnum (last (GetDNS1123Name s)))"
  using GetDNS1123Name_chars GetDNS1123Name_ends by (auto simp: list_all_iff)

text \<open>\<open>GetRandomName\<close> succeeds exactly when the first candidate is free or one of the
  trials 1 to \<open>retries - 1\<close> is, and what it returns is not in the list: the trial with the
  number \<open>retries\<close> is made but its name is never used.\<close>

theorem GetRandomName_spec:
  assumes "TruncateString (GetDNS1123Name (to_lower prefix)) maxLen = Inr p"
  shows "(is_ok (GetRandomName suffix prefix maxLen existList retries) \<longleftrightarrow>
      p @ ''-'' @ suffix 0 \<notin> set existList
      \<or> (\<exists>t. 0 < t \<and> t < retries \<and> p @ ''-'' @ suffix 0 @ ''-'' @ suffix t \<notin> set existList))
    \<and> (case GetRandomName suffix prefix maxLen existList retries of
         Inl _ \<Rightarrow> True | Inr n \<Rightarrow> n \<notin> set existList)"
proof (cases "p @ ''-'' @ suffix 0 \<in> set existList")
  case True
  let ?r = "random_retry (p @ ''-'' @ suffix 0) suffix existList retries 0"
  have eq: "GetRandomName suffix prefix maxLen existList retries = ?r"
    using assms True by (simp add: GetRandomName_def)
  have "is_ok ?r \<longleftrightarrow> (\<exists>t. 0 < t \<and> t < retries \<and> (p @ ''-'' @ suffix 0) @ ''-'' @ suffix t \<notin> set existList)"
    using random_retry_fresh [of "p @ ''-'' @ suffix 0" suffix existList retries 0]
      random_retry_finds [of 0 _ retries "p @ ''-'' @ suffix 0" suffix existList]
    unfolding is_ok_iff by metis
  moreover have "case ?r of Inl _ \<Rightarrow> True | Inr n \<Rightarrow> n \<notin> set existList"
    using random_retry_fresh by (auto split: sum.split)
  ultimately show ?thesis using True by (simp add: eq)
qed (use assms in \<open>simp add: GetRandomName_def\<close>)

theorem GetRandomName_spec_witness:
  "GetRandomName (\<lambda>t. if t = 0 then ''ab'' else ''cd'') ''App'' 12 [''app-ab''] 3 = Inr ''app-ab-cd'' \<and>
   (is_ok (GetRandomName (\<lambda>t. if t = 0 then ''ab'' else ''cd'') ''App'' 12 [''app-ab''] 1) \<longleftrightarrow>
      ''app'' @ ''-'' @ ''ab'' \<notin> set [''app-ab''])"
proof -
  have t: "TruncateString (GetDNS1123Name (to_lower ''App'')) 12 = Inr ''app''" by code_simp
  have 1: "GetRandomName (\<lambda>t. if t = 0 then ''ab'' else ''cd'') ''App'' 12 [''app-ab''] 3 = Inr ''app-ab-cd''"
    using t by (simp add: GetRandomName_def random_retry_unfold)
  show ?thesis
    using 1 GetRandomName_spec [OF t, of "\<lambda>t. if t = 0 then ''ab'' else ''cd''" "[''app-ab'']" 1] by auto
qed

text \<open>A port printed as \<open>PORT/PROTOCOL\<close> is read back by \<open>GetContainerPortsFromStrings\<close>
  for every 32 bit number, with the name the program gives ports, and without the
  protocol it is TCP.\<close>

theorem ContainerPort_roundtrip:
  assumes "- (2 ^ 31) \<le> p" and "p < 2 ^ 31" and "proto \<in> {''TCP'', ''UDP''}"
  shows "GetContainerPortsFromStrings [show_int p @ ''/'' @ proto, show_int p] =
    Inr [\<lparr>cp_name = show_int p @ ''-'' @ to_lower proto, cp_port = p, cp_protocol = proto\<rparr>,
         \<lparr>cp_name = show_int p @ ''-tcp'', cp_port = p, cp_protocol = ''TCP''\<rparr>]"
proof -
  have parse: "parse_int 32 (show_int p) = Inr p" using parse_show_int [of 32 p] assms(1,2) by simp
  have "CHR ''/'' \<notin> set proto" using assms(3) by auto
  then have 1: "split_on CHR ''/'' (show_int p @ CHR ''/'' # proto) = [show_int p, proto]"
    by (simp add: split_on_append split_on_none show_int_no_slash)
  have 2: "split_on CHR ''/'' (show_int p) = [show_int p]"
    by (simp add: split_on_none show_int_no_slash)
  have low: "to_lower ''TCP'' = ''tcp''" by code_simp
  have "ContainerPort_of_string (show_int p @ CHR ''/'' # proto) =
      Inr \<lparr>cp_name = show_int p @ ''-'' @ to_lower proto, cp_port = p, cp_protocol = proto\<rparr>"
    using assms(3) parse 1 shown_proto by (auto simp: ContainerPort_of_string_def Let_def)
  moreover have "ContainerPort_of_string (show_int p) =
      Inr \<lparr>cp_name = show_int p @ ''-tcp'', cp_port = p, cp_protocol = ''TCP''\<rparr>"
    using parse 2 by (simp add: ContainerPort_of_string_def Let_def low)
  ultimately show ?thesis by (simp add: GetContainerPortsFromStrings_def)
qed

theorem ContainerPort_roundtrip_witness:
  "GetContainerPortsFromStrings [show_int 8080 @ ''/'' @ ''UDP'', show_int 8080] =
    Inr [\<lparr>cp_name = show_int 8080 @ ''-'' @ to_lower ''UDP'', cp_port = 8080, cp_protocol = ''UDP''\<rparr>,
         \<lparr>cp_name = show_int 8080 @ ''-tcp'', cp_port = 8080, cp_protocol = ''TCP''\<rparr>]"
  by (rule ContainerPort_roundtrip) simp_all

text \<open>The path part of the file URL made by \<open>GenFileURL\<close> is turned back into the location by
  \<open>ReadFilePath\<close>, on Windows for locations written with backslashes.\<close>

theorem FileURL_roundtrip:
  assumes "os \<noteq> WIN \<or> CHR ''/'' \<notin> set location"
  shows "ReadFilePath (drop (length ''file://'') (GenFileURL location os)) os = Inr location"
proof (cases "os = WIN")
  case True
  with assms have "map (\<lambda>x. if x = CHR ''/'' then CHR 0x5C else x)
      (map (\<lambda>x. if x = CHR 0x5C then CHR ''/'' else x) location) = location"
    by (induction location) auto
  with True show ?thesis by (simp add: ReadFilePath_def GenFileURL_def replace_char_def)
qed (simp add: ReadFilePath_def GenFileURL_def)

theorem FileURL_roundtrip_witness:
  "ReadFilePath (drop (length ''file://'') (GenFileURL [CHR ''C'', CHR '':'', CHR 0x5C, CHR ''a''] WIN)) WIN
    = Inr [CHR ''C'', CHR '':'', CHR 0x5C, CHR ''a'']"
  by (rule FileURL_roundtrip) simp

text \<open>\<open>RemoveDuplicates\<close> returns every element of the slice once, in whatever order the map
  is iterated.\<close>

theorem RemoveDuplicates_correct:
  assumes "map_order ord"
  shows "distinct (RemoveDuplicates ord s) \<and> set (RemoveDuplicates ord s) = set s"
  by (rule RemoveDuplicates_spec [OF assms])

theorem RemoveDuplicates_correct_witness:
  "distinct (RemoveDuplicates rev [''a'', ''b'', ''a'']) \<and>
   set (RemoveDuplicates rev [''a'', ''b'', ''a'']) = set [''a'', ''b'', ''a'']"
  by (rule RemoveDuplicates_correct) simp

end
