(* ===== verification/Labels.thy ===== *)
theory Labels
  imports Util
begin

text \<open>
  The label packages of \<open>pkg/application\<close>, \<open>pkg/component\<close>, \<open>pkg/storage\<close> and \<open>pkg/url\<close>:
  what is stamped on the objects of an application, component, storage or URL, and the
  contract that makes them findable again through a label selector.
\<close>

section \<open>The label sets\<close>

definition ApplicationLabel :: string where
  "ApplicationLabel = ''app.kubernetes.io/name''"

definition AdditionalApplicationLabels :: "string list" where
  "AdditionalApplicationLabels = [''app'']"

definition AppGetLabels :: "string \<Rightarrow> bool \<Rightarrow> string gomap" where
  "AppGetLabels application additional =
     (let labels = [(ApplicationLabel, application)]
      in if additional
         then foldl (\<lambda>labels additionalLabel. put additionalLabel application labels) labels
                AdditionalApplicationLabels
         else labels)"

definition ComponentLabel :: string where
  "ComponentLabel = ''app.kubernetes.io/component-name''"

definition ComponentTypeLabel :: string where
  "ComponentTypeLabel = ''app.kubernetes.io/component-type''"

definition ComponentTypeVersion :: string where
  "ComponentTypeVersion = ''app.kubernetes.io/component-version''"

definition ComponentGetLabels :: "string \<Rightarrow> string \<Rightarrow> bool \<Rightarrow> string gomap" where
  "ComponentGetLabels componentName applicationName additional =
     put ComponentLabel componentName (AppGetLabels applicationName additional)"

definition StorageLabel :: string where
  "StorageLabel = ''app.kubernetes.io/storage-name''"

definition StorageGetLabels :: "string \<Rightarrow> string \<Rightarrow> string \<Rightarrow> bool \<Rightarrow> string gomap" where
  "StorageGetLabels storageName componentName applicationName additional =
     put StorageLabel storageName (ComponentGetLabels componentName applicationName additional)"

definition URLLabel :: string where
  "URLLabel = ''app.kubernetes.io/url-name''"

definition UrlGetLabels :: "string \<Rightarrow> string \<Rightarrow> string \<Rightarrow> bool \<Rightarrow> string gomap" where
  "UrlGetLabels urlName componentName applicationName additional =
     put URLLabel urlName (ComponentGetLabels componentName applicationName additional)"

lemmas label_keys =
  ApplicationLabel_def ComponentLabel_def ComponentTypeLabel_def ComponentTypeVersion_def
  StorageLabel_def URLLabel_def AdditionalApplicationLabels_def

lemma label_keys_distinct [simp]:
  "ApplicationLabel \<noteq> ComponentLabel" "ComponentLabel \<noteq> ApplicationLabel"
  "ApplicationLabel \<noteq> StorageLabel" "StorageLabel \<noteq> ApplicationLabel"
  "ApplicationLabel \<noteq> URLLabel" "URLLabel \<noteq> ApplicationLabel"
  "ComponentLabel \<noteq> StorageLabel" "StorageLabel \<noteq> ComponentLabel"
  "ComponentLabel \<noteq> URLLabel" "URLLabel \<noteq> ComponentLabel"
  "ComponentLabel \<noteq> ComponentTypeLabel" "ComponentTypeLabel \<noteq> ComponentLabel"
  "ComponentLabel \<noteq> ''app''" "''app'' \<noteq> ComponentLabel"
  "ApplicationLabel \<noteq> ''app''" "''app'' \<noteq> ApplicationLabel"
  "StorageLabel \<noteq> ''app''" "URLLabel \<noteq> ''app''"
  "''app'' \<noteq> StorageLabel" "''app'' \<noteq> URLLabel"
  by (simp_all add: label_keys)

lemma label_keys_clean [simp]:
  "CHR '','' \<notin> set ApplicationLabel" "CHR ''='' \<notin> set ApplicationLabel" "ApplicationLabel \<noteq> []"
  "CHR '','' \<notin> set ComponentLabel" "CHR ''='' \<notin> set ComponentLabel" "ComponentLabel \<noteq> []"
  "CHR '','' \<notin> set StorageLabel" "CHR ''='' \<notin> set StorageLabel" "StorageLabel \<noteq> []"
  "CHR '','' \<notin> set URLLabel" "CHR ''='' \<notin> set URLLabel" "URLLabel \<noteq> []"
  by (simp_all add: label_keys)

lemma lookup_app_labels:
  "lookup (AppGetLabels a b) k =
     (if k = ApplicationLabel then Some a else if b \<and> k = ''app'' then Some a else None)"
  by (simp add: AppGetLabels_def AdditionalApplicationLabels_def lookup_Cons Let_def)

lemma AppGetLabels_single: "AppGetLabels a False = [(ApplicationLabel, a)]"
  by (simp add: AppGetLabels_def)

lemma lookup_component_labels:
  "lookup (ComponentGetLabels c a b) k =
     (if k = ComponentLabel then Some c else lookup (AppGetLabels a b) k)"
  by (simp add: ComponentGetLabels_def)

lemma lookup_storage_labels:
  "lookup (StorageGetLabels s c a b) k =
     (if k = StorageLabel then Some s else lookup (ComponentGetLabels c a b) k)"
  by (simp add: StorageGetLabels_def)

lemma lookup_url_labels:
  "lookup (UrlGetLabels u c a b) k =
     (if k = URLLabel then Some u else lookup (ComponentGetLabels c a b) k)"
  by (simp add: UrlGetLabels_def)

lemmas lookup_labels [simp] =
  lookup_app_labels lookup_component_labels lookup_storage_labels lookup_url_labels

lemma wf_app_labels [simp]: "wf_map (AppGetLabels a b)"
  by (simp add: AppGetLabels_def AdditionalApplicationLabels_def Let_def)

lemma wf_labels [simp]:
  "wf_map (ComponentGetLabels c a b)"
  "wf_map (StorageGetLabels s c a b)"
  "wf_map (UrlGetLabels u c a b)"
  by (simp_all add: ComponentGetLabels_def StorageGetLabels_def UrlGetLabels_def)


section \<open>Selection\<close>

text \<open>
  What the API server does with the requirements of a selector: \<open>k=v\<close> asks for the value,
  a bare key only for the label.
\<close>

definition selects :: "(string \<times> string) list \<Rightarrow> string gomap \<Rightarrow> bool" where
  "selects reqs labels \<longleftrightarrow>
     list_all (\<lambda>(k, v). if v = [] then has_key labels k else lookup labels k = Some v) reqs"

text \<open>A name that can stand as the value of a requirement.\<close>

definition label_value :: "string \<Rightarrow> bool" where
  "label_value v \<longleftrightarrow> v \<noteq> [] \<and> CHR '','' \<notin> set v"

text \<open>
  The contract of a label package: the labels used to find things are among those stamped
  on creation, and they tell apart what has different names.
\<close>

locale label_scheme =
  fixes labels :: "'n \<Rightarrow> bool \<Rightarrow> string gomap"
    and names :: "'n \<Rightarrow> string list"
  assumes wf: "wf_map (labels n b)"
    and additional: "lookup (labels n False) k = Some v \<Longrightarrow> lookup (labels n True) k = Some v"
    and entries: "(k, v) \<in> set (labels n False) \<Longrightarrow>
      k \<noteq> [] \<and> CHR '','' \<notin> set k \<and> CHR ''='' \<notin> set k \<and> v \<in> set (names n)"
    and separate: "(\<And>k v. lookup (labels n False) k = Some v \<Longrightarrow> lookup (labels m b) k = Some v) \<Longrightarrow> n = m"
begin

lemma requirements_labels:
  assumes "map_order ord" and "list_all label_value (names n)"
  shows "requirements (ConvertLabelsToSelector ord (labels n False)) = range_map ord (labels n False)"
proof (rule requirements_of_selector [OF assms(1) wf])
  show "clean_labels (labels n False)" "\<forall>(k, v)\<in>set (labels n False). k \<noteq> []"
    using entries assms(2) by (force simp: clean_labels_def list_all_iff label_value_def)+
qed

lemma mem_iff_lookup: "(k, v) \<in> set (labels n b) \<longleftrightarrow> lookup (labels n b) k = Some v"
  using wf [of n b] by (simp add: wf_map_def keys_of_def lookup_def)

text \<open>A selector made of the labels of \<open>n\<close> matches what was created for \<open>n\<close> and nothing else.\<close>

lemma selector_exact:
  assumes "map_order ord" and "list_all label_value (names n)"
  shows "selects (requirements (ConvertLabelsToSelector ord (labels n False))) (labels m b) \<longleftrightarrow> n = m"
proof -
  have "selects (requirements (ConvertLabelsToSelector ord (labels n False))) (labels m b) \<longleftrightarrow>
      (\<forall>k v. lookup (labels n False) k = Some v \<longrightarrow> lookup (labels m b) k = Some v)"
  proof -
    have "v \<noteq> []" if "lookup (labels n False) k = Some v" for k v
      using that entries assms(2) by (auto simp: mem_iff_lookup [symmetric] list_all_iff label_value_def)
    then show ?thesis
      unfolding requirements_labels [OF assms] selects_def list_all_iff
        set_range_map [OF assms(1) wf] by (force simp: mem_iff_lookup)
  qed
  also have "\<dots> \<longleftrightarrow> n = m"
  proof
    show "n = m" if "\<forall>k v. lookup (labels n False) k = Some v \<longrightarrow> lookup (labels m b) k = Some v"
      using that separate [of n m b] by blast
    show "\<forall>k v. lookup (labels n False) k = Some v \<longrightarrow> lookup (labels m b) k = Some v" if "n = m"
      using that additional by (cases b) simp_all
  qed
  finally show ?thesis .
qed

end

lemma mem_app_labels: "(k, v) \<in> set (AppGetLabels a False) \<longleftrightarrow> k = ApplicationLabel \<and> v = a"
  by (auto simp: AppGetLabels_single)

lemma mem_put: "(k, v) \<in> set (put k' v' m) \<Longrightarrow> (k = k' \<and> v = v') \<or> (k, v) \<in> set m"
  by (induction m) (auto simp: put_def split: if_splits)

lemma mem_component_labels:
  "(k, v) \<in> set (ComponentGetLabels c a False) \<Longrightarrow>
     k = ComponentLabel \<and> v = c \<or> k = ApplicationLabel \<and> v = a"
  unfolding ComponentGetLabels_def by (auto dest!: mem_put simp: mem_app_labels)

lemma mem_storage_labels:
  "(k, v) \<in> set (StorageGetLabels s c a False) \<Longrightarrow>
     k = StorageLabel \<and> v = s \<or> k = ComponentLabel \<and> v = c \<or> k = ApplicationLabel \<and> v = a"
  unfolding StorageGetLabels_def by (auto dest!: mem_put mem_component_labels)

lemma mem_url_labels:
  "(k, v) \<in> set (UrlGetLabels u c a False) \<Longrightarrow>
     k = URLLabel \<and> v = u \<or> k = ComponentLabel \<and> v = c \<or> k = ApplicationLabel \<and> v = a"
  unfolding UrlGetLabels_def by (auto dest!: mem_put mem_component_labels)

text \<open>Each package interprets the contract on its own label set.\<close>

interpretation app_scheme: label_scheme AppGetLabels "\<lambda>a. [a]"
proof unfold_locales
  fix n m :: string and b
  assume *: "\<And>k v. lookup (AppGetLabels n False) k = Some v \<Longrightarrow> lookup (AppGetLabels m b) k = Some v"
  show "n = m" using * [of ApplicationLabel n] by simp
qed (auto simp: mem_app_labels split: if_splits)

interpretation component_scheme: label_scheme
  "\<lambda>n. ComponentGetLabels (fst n) (snd n)" "\<lambda>n. [fst n, snd n]"
proof unfold_locales
  fix n m :: "string \<times> string" and b
  assume *: "\<And>k v. lookup (ComponentGetLabels (fst n) (snd n) False) k = Some v
      \<Longrightarrow> lookup (ComponentGetLabels (fst m) (snd m) b) k = Some v"
  show "n = m" using * [of ApplicationLabel "snd n"] * [of ComponentLabel "fst n"]
    by (simp add: prod_eq_iff)
qed (auto dest!: mem_component_labels split: if_splits)

interpretation storage_scheme: label_scheme
  "\<lambda>n. StorageGetLabels (fst n) (fst (snd n)) (snd (snd n))" "\<lambda>n. [fst n, fst (snd n), snd (snd n)]"
proof unfold_locales
  fix n m :: "string \<times> string \<times> string" and b
  assume *: "\<And>k v. lookup (StorageGetLabels (fst n) (fst (snd n)) (snd (snd n)) False) k = Some v
      \<Longrightarrow> lookup (StorageGetLabels (fst m) (fst (snd m)) (snd (snd m)) b) k = Some v"
  show "n = m" using * [of ApplicationLabel "snd (snd n)"] * [of ComponentLabel "fst (snd n)"]
      * [of StorageLabel "fst n"] by (simp add: prod_eq_iff)
qed (auto dest!: mem_storage_labels split: if_splits)

interpretation url_scheme: label_scheme
  "\<lambda>n. UrlGetLabels (fst n) (fst (snd n)) (snd (snd n))" "\<lambda>n. [fst n, fst (snd n), snd (snd n)]"
proof unfold_locales
  fix n m :: "string \<times> string \<times> string" and b
  assume *: "\<And>k v. lookup (UrlGetLabels (fst n) (fst (snd n)) (snd (snd n)) False) k = Some v
      \<Longrightarrow> lookup (UrlGetLabels (fst m) (fst (snd m)) (snd (snd m)) b) k = Some v"
  show "n = m" using * [of ApplicationLabel "snd (snd n)"] * [of ComponentLabel "fst (snd n)"]
      * [of URLLabel "fst n"] by (simp add: prod_eq_iff)
qed (auto dest!: mem_url_labels split: if_splits)

lemma app_selector_selects:
  assumes "map_order ord" and "label_value a"
  shows "selects (requirements (ConvertLabelsToSelector ord (AppGetLabels a False))) labels
    \<longleftrightarrow> lookup labels ApplicationLabel = Some a"
proof -
  have "requirements (ConvertLabelsToSelector ord (AppGetLabels a False)) = range_map ord (AppGetLabels a False)"
    by (rule app_scheme.requirements_labels) (use assms in simp_all)
  then show ?thesis using assms
    by (auto simp: selects_def list_all_iff set_range_map label_value_def AppGetLabels_single)
qed


section \<open>Properties\<close>

text \<open>The selector made from the labels of a component matches the objects stamped for that
  component of that application, and no objects of another component or application.\<close>

theorem component_selector_exact:
  assumes "map_order ord" and "label_value cmp" and "label_value app"
  shows "selects (requirements (ConvertLabelsToSelector ord (ComponentGetLabels cmp app False)))
      (ComponentGetLabels cmp' app' additional) \<longleftrightarrow> cmp' = cmp \<and> app' = app"
  using component_scheme.selector_exact [of ord "(cmp, app)" "(cmp', app')" additional] assms
  by auto

theorem component_selector_exact_witness:
  "selects (requirements (ConvertLabelsToSelector rev (ComponentGetLabels ''nodejs'' ''app'' False)))
      (ComponentGetLabels ''nodejs'' ''app'' True) \<longleftrightarrow> ''nodejs'' = ''nodejs'' \<and> ''app'' = ''app''"
  by (rule component_selector_exact) (simp_all add: label_value_def)

text \<open>The selector made from the labels of a storage matches the claims stamped for that
  storage of that component and application, and no others.\<close>

theorem storage_selector_exact:
  assumes "map_order ord" and "label_value st" and "label_value cmp" and "label_value app"
  shows "selects (requirements (ConvertLabelsToSelector ord (StorageGetLabels st cmp app False)))
      (StorageGetLabels st' cmp' app' additional) \<longleftrightarrow> st' = st \<and> cmp' = cmp \<and> app' = app"
  using storage_scheme.selector_exact [of ord "(st, cmp, app)" "(st', cmp', app')" additional] assms
  by auto

theorem storage_selector_exact_witness:
  "selects (requirements (ConvertLabelsToSelector (\<lambda>ks. ks) (StorageGetLabels ''data'' ''nodejs'' ''app'' False)))
      (StorageGetLabels ''logs'' ''nodejs'' ''app'' True) \<longleftrightarrow>
    ''logs'' = ''data'' \<and> ''nodejs'' = ''nodejs'' \<and> ''app'' = ''app''"
  by (rule storage_selector_exact) (simp_all add: label_value_def)

end
