(* ===== verification/ConfigFiles.thy ===== *)
theory ConfigFiles
  imports Labels
begin

text \<open>
  \<open>pkg/util/config_util.go\<close>: configuration files on disk, and structs accessed by field
  name. The disk is a state; \<open>yaml.Marshal\<close> and \<open>yaml.Unmarshal\<close> are parameters; a struct
  seen through \<open>reflect\<close> is the list of its fields with a nil test and a reset for each.
\<close>


section \<open>The disk\<close>

text \<open>
  Files with their contents, directories, and the paths the process may not read or write.
\<close>

record disk =
  dk_files :: "string gomap"
  dk_dirs :: "string list"
  dk_unreadable :: "string list"
  dk_unwritable :: "string list"

text \<open>\<open>os.IsNotExist\<close> of the error of \<open>os.Stat\<close>\<close>

definition not_exist :: "disk \<Rightarrow> string \<Rightarrow> bool" where
  "not_exist d p \<longleftrightarrow> \<not> has_key (dk_files d) p \<and> p \<notin> set (dk_dirs d)"

text \<open>A path and the directories above it.\<close>

definition dirs_above :: "string \<Rightarrow> string list" where
  "dirs_above p = filter (\<lambda>d. d \<noteq> []) (map (\<lambda>i. take i p) (filter (\<lambda>i. p ! i = CHR ''/'') [0..<length p])) @ [p]"

definition mkdir_all :: "string \<Rightarrow> (disk, unit) op" where
  "mkdir_all p = (\<lambda>d.
     if list_ex (\<lambda>q. has_key (dk_files d) q) (dirs_above p) then
       (fails ''mkdir %s: not a directory'' [p], d)
     else if list_ex (\<lambda>q. q \<in> set (dk_unwritable d)) (dirs_above p) then
       (fails ''mkdir %s: permission denied'' [p], d)
     else (Inr (), d\<lparr>dk_dirs := dk_dirs d @ filter (\<lambda>q. q \<notin> set (dk_dirs d)) (dirs_above p)\<rparr>))"

text \<open>\<open>os.Create\<close> and \<open>ioutil.WriteFile\<close>: the file is created or truncated, then filled.\<close>

definition write_file :: "string \<Rightarrow> string \<Rightarrow> (disk, unit) op" where
  "write_file p data = (\<lambda>d.
     if p \<in> set (dk_dirs d) then (fails ''open %s: is a directory'' [p], d)
     else if p \<in> set (dk_unwritable d) then (fails ''open %s: permission denied'' [p], d)
     else if path_dir p \<notin> set (dk_dirs d) then (fails ''open %s: no such file or directory'' [p], d)
     else (Inr (), d\<lparr>dk_files := put p data (dk_files d)\<rparr>))"

definition create_file :: "string \<Rightarrow> (disk, unit) op" where
  "create_file p = write_file p []"

definition read_file :: "string \<Rightarrow> (disk, string) op" where
  "read_file p = (\<lambda>d.
     (case lookup (dk_files d) p of
        None \<Rightarrow> fails ''open %s: no such file or directory'' [p]
      | Some data \<Rightarrow> if p \<in> set (dk_unreadable d) then fails ''open %s: permission denied'' [p]
          else Inr data, d))"

text \<open>\<open>os.RemoveAll\<close>: the path and everything below it.\<close>

definition remove_all :: "string \<Rightarrow> (disk, unit) op" where
  "remove_all p = (\<lambda>d.
     if p \<in> set (dk_unwritable d) then (fails ''unlinkat %s: permission denied'' [p], d)
     else (Inr (), d\<lparr>dk_files := filter (\<lambda>e. p \<notin> set (dirs_above (fst e))) (dk_files d),
                    dk_dirs := filter (\<lambda>q. p \<notin> set (dirs_above q)) (dk_dirs d)\<rparr>))"


section \<open>Reading and writing a configuration\<close>

record 'c yaml =
  marshal :: "'c \<Rightarrow> string result"
  unmarshal :: "string \<Rightarrow> 'c \<Rightarrow> 'c result"

definition CreateIfNotExists :: "string \<Rightarrow> (disk, unit) op" where
  "CreateIfNotExists configFile =
     bind get_state (\<lambda>d.
     bind (if not_exist d (path_dir configFile)
           then wrapping ''unable to create directory'' [] (mkdir_all (path_dir configFile))
           else return ()) (\<lambda>_.
     bind get_state (\<lambda>d.
       if not_exist d configFile
       then wrapping ''unable to create config file'' [] (create_file configFile)
       else return ())))"

definition GetFromFile :: "'c yaml \<Rightarrow> 'c \<Rightarrow> string \<Rightarrow> (disk, 'c) op" where
  "GetFromFile y c filename =
     bind (wrapping ''unable to read file %v'' [filename] (read_file filename)) (\<lambda>configData.
       wrapping ''unable to unmarshal odo config file'' [] (lift (unmarshal y configData c)))"

definition WriteToFile :: "'c yaml \<Rightarrow> 'c \<Rightarrow> string \<Rightarrow> (disk, unit) op" where
  "WriteToFile y c filename =
     bind (wrapping ''unable to marshal odo config data'' [] (lift (marshal y c))) (\<lambda>data.
     bind (CreateIfNotExists filename) (\<lambda>_.
       wrapping ''unable to write config to file %v'' [] (write_file filename data)))"


section \<open>Structs by field name\<close>

text \<open>
  The fields of a struct type, whether a field is nil, and its reset to the zero value.
\<close>

record 'c fields =
  fld_names :: "string list"
  fld_nil :: "string \<Rightarrow> 'c \<Rightarrow> bool"
  fld_reset :: "string \<Rightarrow> 'c \<Rightarrow> 'c"

definition CaseInsensitive :: "string \<Rightarrow> string \<Rightarrow> bool" where
  "CaseInsensitive parameter word = equal_fold word parameter"

text \<open>\<open>FieldByNameFunc\<close> gives no field when several match.\<close>

definition field_by_name :: "'c fields \<Rightarrow> (string \<Rightarrow> bool) \<Rightarrow> string option" where
  "field_by_name r match = (case filter match (fld_names r) of [n] \<Rightarrow> Some n | _ \<Rightarrow> None)"

definition IsSet :: "'c fields \<Rightarrow> 'c \<Rightarrow> string \<Rightarrow> bool" where
  "IsSet r info parameter =
     (case field_by_name r (CaseInsensitive parameter) of
        None \<Rightarrow> False
      | Some n \<Rightarrow> if fld_nil r n info then False else True)"

text \<open>\<open>canSet\<close>: the struct was passed by pointer and the field is exported.\<close>

definition DeleteConfiguration :: "'c fields \<Rightarrow> bool \<Rightarrow> 'c \<Rightarrow> string \<Rightarrow> 'c result" where
  "DeleteConfiguration r canSet info parameter =
     (case field_by_name r (CaseInsensitive parameter) of
        None \<Rightarrow> fails ''unknown parameter :'%s' is not a parameter in odo config'' [parameter]
      | Some n \<Rightarrow> if canSet then Inr (fld_reset r n info)
          else fails ''cannot set %s to nil'' [parameter])"

definition GetLowerCaseParameters :: "string list \<Rightarrow> bool gomap" where
  "GetLowerCaseParameters parameters = foldl (\<lambda>result v. put (to_lower v) True result) [] parameters"


subsection \<open>Facts\<close>

lemma lookup_foldl_put:
  "lookup (foldl (\<lambda>m v. put (f v) b m) m0 vs) k = (if k \<in> f ` set vs then Some b else lookup m0 k)"
  by (induction vs arbitrary: m0) auto

lemma GetLowerCaseParameters_has:
  "has_key (GetLowerCaseParameters ps) k \<longleftrightarrow> k \<in> to_lower ` set ps"
  by (auto simp: GetLowerCaseParameters_def has_key_def lookup_foldl_put)

lemma mkdir_all_ok:
  "mkdir_all p d = (Inr (), d') \<Longrightarrow>
     d' = d\<lparr>dk_dirs := dk_dirs d @ filter (\<lambda>q. q \<notin> set (dk_dirs d)) (dirs_above p)\<rparr>"
  by (auto simp: mkdir_all_def split: if_splits)

lemma write_file_ok_iff:
  "write_file p data d = (Inr (), d') \<longleftrightarrow>
     p \<notin> set (dk_dirs d) \<and> p \<notin> set (dk_unwritable d) \<and> path_dir p \<in> set (dk_dirs d)
     \<and> d' = d\<lparr>dk_files := put p data (dk_files d)\<rparr>"
  by (auto simp: write_file_def split: if_splits)

lemma write_file_lookup:
  "write_file p data d = (Inr (), d') \<Longrightarrow>
     lookup (dk_files d') q = (if q = p then Some data else lookup (dk_files d) q)"
  by (auto simp: write_file_ok_iff)

lemma CreateIfNotExists_other_files:
  "CreateIfNotExists p d = (r, d') \<Longrightarrow> q \<noteq> p \<Longrightarrow> lookup (dk_files d') q = lookup (dk_files d) q"
  by (auto simp: CreateIfNotExists_def op_simps mkdir_all_def create_file_def write_file_def fails_def
      split: if_splits)

lemma CreateIfNotExists_same_file:
  "CreateIfNotExists p d = (r, d') \<Longrightarrow> lookup (dk_files d) p = Some data
    \<Longrightarrow> lookup (dk_files d') p = Some data"
  by (auto simp: CreateIfNotExists_def op_simps mkdir_all_def create_file_def write_file_def fails_def
      not_exist_def has_key_def split: if_splits)

text \<open>A successful write leaves the marshalled configuration in the file and touches no other file.\<close>

lemma WriteToFile_ok:
  assumes "WriteToFile y c p d = (Inr (), d')"
  shows "\<exists>data. marshal y c = Inr data
    \<and> lookup (dk_files d') = (lookup (dk_files d))(p \<mapsto> data)"
proof -
  from assms obtain data d1 where data: "marshal y c = Inr data"
    and d1: "CreateIfNotExists p d = (Inr (), d1)" and w: "write_file p data d1 = (Inr (), d')"
    by (auto simp: WriteToFile_def bind_ok_iff lift_def)
  have "lookup (dk_files d') q = ((lookup (dk_files d))(p \<mapsto> data)) q" for q
    using write_file_lookup [OF w, of q] CreateIfNotExists_other_files [OF d1, of q] by simp
  with data show ?thesis by auto
qed

lemma CreateIfNotExists_frame:
  "CreateIfNotExists p d = (r, d') \<Longrightarrow>
     dk_unreadable d' = dk_unreadable d \<and> dk_unwritable d' = dk_unwritable d"
  by (auto simp: CreateIfNotExists_def op_simps mkdir_all_def create_file_def write_file_def fails_def
      split: if_splits)

lemma WriteToFile_frame:
  "WriteToFile y c p d = (r, d') \<Longrightarrow>
     dk_unreadable d' = dk_unreadable d \<and> dk_unwritable d' = dk_unwritable d"
  using CreateIfNotExists_frame [of p d]
  by (auto simp: WriteToFile_def op_simps write_file_def fails_def
      split: if_splits sum.splits prod.splits)

text \<open>
  What the code relies on of \<open>yaml\<close>: unmarshalling into the empty target \<open>c0\<close> what was
  marshalled gives the value back. It is asked only of the values in \<open>keeps\<close>: an
  \<open>omitempty\<close> field that is an empty list is not written, and comes back as nil.
\<close>

definition yaml_roundtrip :: "'c yaml \<Rightarrow> 'c \<Rightarrow> ('c \<Rightarrow> bool) \<Rightarrow> bool" where
  "yaml_roundtrip y c0 keeps \<longleftrightarrow>
     (\<forall>c data. keeps c \<longrightarrow> marshal y c = Inr data \<longrightarrow> unmarshal y data c0 = Inr c)"

lemma WriteToFile_GetFromFile:
  assumes "yaml_roundtrip y c0 keeps" and "keeps c" and "p \<notin> set (dk_unreadable d)"
    and "WriteToFile y c p d = (Inr (), d')"
  shows "GetFromFile y c0 p d' = (Inr c, d')"
proof -
  obtain data where data: "marshal y c = Inr data" "lookup (dk_files d') p = Some data"
    using WriteToFile_ok [OF assms(4)] by auto
  moreover have "p \<notin> set (dk_unreadable d')"
    using assms(3) WriteToFile_frame [OF assms(4)] by simp
  ultimately show ?thesis
    using assms(1,2) by (simp add: GetFromFile_def read_file_def op_simps yaml_roundtrip_def)
qed

lemma field_by_name_map_of:
  assumes "distinct (map f (fld_names r))" and "\<And>w. match w \<longleftrightarrow> f w = k"
  shows "field_by_name r match = map_of (map (\<lambda>n. (f n, n)) (fld_names r)) k"
proof -
  have "(case filter (\<lambda>w. f w = k) ns of [n] \<Rightarrow> Some n | _ \<Rightarrow> None) = map_of (map (\<lambda>n. (f n, n)) ns) k"
    if "distinct (map f ns)" for ns
    using that
  proof (induction ns)
    case (Cons a ns)
    show ?case
    proof (cases "f a = k")
      case True
      with Cons.prems have "filter (\<lambda>w. f w = k) ns = []"
        by (auto simp: filter_empty_conv image_iff)
      with True show ?thesis by simp
    qed (use Cons in auto)
  qed simp
  moreover have "match = (\<lambda>w. f w = k)" using assms(2) by auto
  ultimately show ?thesis using assms(1) by (simp add: field_by_name_def)
qed

lemma field_by_name_SomeD: "field_by_name r match = Some n \<Longrightarrow> n \<in> set (fld_names r) \<and> match n"
proof -
  assume "field_by_name r match = Some n"
  then have "filter match (fld_names r) = [n]"
    by (auto simp: field_by_name_def split: list.splits)
  then have "n \<in> set (filter match (fld_names r))" by simp
  then show ?thesis by simp
qed



section \<open>Contracts\<close>

text \<open>
  A store of named parameters: what is set is set, what is deleted is not, parameters are
  known by name up to case, and an unknown one is an error that changes nothing.
\<close>

locale param_store =
  fixes set_param :: "string \<Rightarrow> 'v \<Rightarrow> ('s, unit) op"
    and delete_param :: "string \<Rightarrow> ('s, unit) op"
    and set_in :: "'s \<Rightarrow> string \<Rightarrow> bool"
    and supported :: "string \<Rightarrow> bool"
  assumes set_sets: "set_param p v s = (Inr (), s') \<Longrightarrow> supported p \<and> set_in s' p"
    and delete_unsets: "delete_param p s = (Inr (), s') \<Longrightarrow> supported p \<and> \<not> set_in s' p"
    and unknown: "\<not> supported p \<Longrightarrow>
      (\<exists>e. set_param p v s = (Inl (Err e), s)) \<and> (\<exists>e. delete_param p s = (Inl (Err e), s))"
    and by_lower: "to_lower p = to_lower q \<Longrightarrow> supported p = supported q \<and> set_in s p = set_in s q"
begin

lemma set_then_delete:
  assumes "bind (set_param p v) (\<lambda>_. delete_param q) s = (Inr (), s')" and "to_lower p = to_lower q"
  shows "\<not> set_in s' p"
proof -
  obtain s1 where "delete_param q s1 = (Inr (), s')" using assms(1) by (auto simp: bind_ok_iff)
  then have "\<not> set_in s' q" by (rule delete_unsets [THEN conjunct2])
  with by_lower [OF assms(2), of s'] show ?thesis by simp
qed

lemma delete_then_set:
  assumes "bind (delete_param q) (\<lambda>_. set_param p v) s = (Inr (), s')" and "to_lower p = to_lower q"
  shows "set_in s' q"
proof -
  obtain s1 where "set_param p v s1 = (Inr (), s')" using assms(1) by (auto simp: bind_ok_iff)
  then have "set_in s' p" by (rule set_sets [THEN conjunct2])
  with by_lower [OF assms(2), of s'] show ?thesis by simp
qed

lemma ok_supported:
  "set_param p v s = (Inr (), s') \<Longrightarrow> supported p" "delete_param p s = (Inr (), s') \<Longrightarrow> supported p"
  by (drule set_sets, simp) (drule delete_unsets, simp)

end

text \<open>A list of items with a name each: additions go to the end, a deletion removes the name.\<close>

locale keyed_list =
  fixes entries :: "'s \<Rightarrow> 'i list"
    and key :: "'i \<Rightarrow> string"
    and add :: "'i \<Rightarrow> ('s, 'r) op"
    and del :: "string \<Rightarrow> ('s, unit) op"
  assumes add_entries: "add i s = (Inr r, s') \<Longrightarrow> entries s' = entries s @ [i]"
    and del_entries: "distinct (map key (entries s)) \<Longrightarrow> del k s = (Inr (), s') \<Longrightarrow>
      entries s' = filter (\<lambda>i. key i \<noteq> k) (entries s)"
begin

lemma add_distinct:
  "distinct (map key (entries s)) \<Longrightarrow> key i \<notin> key ` set (entries s) \<Longrightarrow> add i s = (Inr r, s')
    \<Longrightarrow> distinct (map key (entries s'))"
  using add_entries by fastforce

lemma del_distinct:
  "distinct (map key (entries s)) \<Longrightarrow> del k s = (Inr (), s') \<Longrightarrow> distinct (map key (entries s'))"
  using del_entries by (simp add: distinct_map_filter)

lemma del_gone:
  "distinct (map key (entries s)) \<Longrightarrow> del k s = (Inr (), s') \<Longrightarrow> k \<notin> key ` set (entries s')"
  using del_entries by auto

lemma add_then_del:
  assumes "distinct (map key (entries s))" and "key i \<notin> key ` set (entries s)"
    and "bind (add i) (\<lambda>_. del (key i)) s = (Inr (), s')"
  shows "entries s' = entries s"
proof -
  obtain r s1 where s1: "add i s = (Inr r, s1)" and s2: "del (key i) s1 = (Inr (), s')"
    using assms(3) by (auto simp: bind_ok_iff)
  have "entries s' = filter (\<lambda>j. key j \<noteq> key i) (entries s @ [i])"
    using del_entries [OF add_distinct [OF assms(1,2) s1] s2] add_entries [OF s1] by simp
  with assms(2) show ?thesis by (auto simp: filter_id_conv image_iff)
qed

end

end
