(* ===== verification/Preference.thy ===== *)
theory Preference
  imports ConfigFiles
begin

text \<open>
  \<open>pkg/preference/preference.go\<close>: the global preferences of the user. The operations run on
  the pair of the \<open>PreferenceInfo\<close> and the disk.
\<close>

definition DefaultTimeout :: int where
  "DefaultTimeout = 1"

definition supportedParameterDescriptions :: "string gomap" where
  "supportedParameterDescriptions =
     [(''UpdateNotification'', ''Controls if an update notification is shown or not (true or false)''),
      (''NamePrefix'', ''Default prefix is the current directory name. Use this value to set a default name prefix''),
      (''Timeout'', ''Timeout (in seconds) for OpenShift server connection check'')]"

record OdoSettings =
  os_update_notification :: "bool option"
  os_name_prefix :: "string option"
  os_timeout :: "int option"

definition no_odo_settings :: OdoSettings where
  "no_odo_settings = \<lparr>os_update_notification = None, os_name_prefix = None, os_timeout = None\<rparr>"

type_synonym preference = "type_meta \<times> OdoSettings"

record PreferenceInfo =
  pi_filename :: string
  pi_type_meta :: type_meta
  pi_settings :: OdoSettings

type_synonym pref_state = "PreferenceInfo \<times> disk"

definition odo_table :: "(string \<times> (OdoSettings \<Rightarrow> bool) \<times> (OdoSettings \<Rightarrow> OdoSettings)) list" where
  "odo_table =
     [(''UpdateNotification'', \<lambda>c. os_update_notification c = None, os_update_notification_update (\<lambda>_. None)),
      (''NamePrefix'', \<lambda>c. os_name_prefix c = None, os_name_prefix_update (\<lambda>_. None)),
      (''Timeout'', \<lambda>c. os_timeout c = None, os_timeout_update (\<lambda>_. None))]"

definition odo_fields :: "OdoSettings fields" where
  "odo_fields = \<lparr>fld_names = map fst odo_table,
     fld_nil = (\<lambda>n. fst (the (map_of odo_table n))),
     fld_reset = (\<lambda>n. snd (the (map_of odo_table n)))\<rparr>"

text \<open>\<open>env\<close> is \<open>os.LookupEnv\<close>, \<open>home\<close> the home directory \<open>user.Current\<close> answers with.\<close>

definition getPreferenceFile :: "string option \<Rightarrow> string \<Rightarrow> string result \<Rightarrow> string result" where
  "getPreferenceFile env customHomeDir home =
     (case env of
        Some env \<Rightarrow> Inr env
      | None \<Rightarrow>
          if length customHomeDir \<noteq> 0 then Inr (path_join [customHomeDir, ''.odo'', ''preference.yaml''])
          else bindR home (\<lambda>h. Inr (path_join [h, ''.odo'', ''preference.yaml''])))"

definition NewPreference :: preference where
  "NewPreference =
     (\<lparr>tm_kind = ''Preference'', tm_api_version = ''odo.openshift.io/v1alpha1''\<rparr>, no_odo_settings)"

definition NewPreferenceInfo ::
  "preference yaml \<Rightarrow> string option \<Rightarrow> string \<Rightarrow> string result \<Rightarrow> (disk, PreferenceInfo) op" where
  "NewPreferenceInfo y env customHomeDir home =
     bind (wrapping ''unable to get odo config file'' [] (lift (getPreferenceFile env customHomeDir home)))
       (\<lambda>configFile. bind get_state (\<lambda>d.
         if not_exist d configFile
         then return \<lparr>pi_filename = configFile, pi_type_meta = fst NewPreference,
                      pi_settings = snd NewPreference\<rparr>
         else bind (GetFromFile y NewPreference configFile) (\<lambda>(tm, os).
           return \<lparr>pi_filename = configFile, pi_type_meta = tm, pi_settings = os\<rparr>)))"

definition GetSupportedParameters :: "string list" where
  "GetSupportedParameters = GetSortedKeys (\<lambda>ks. ks) supportedParameterDescriptions"

definition lowerCaseParameters :: "bool gomap" where
  "lowerCaseParameters = GetLowerCaseParameters GetSupportedParameters"

definition asSupportedParameter :: "string \<Rightarrow> string \<times> bool" where
  "asSupportedParameter param =
     (let lower = to_lower param
      in (lower, case lookup lowerCaseParameters lower of None \<Rightarrow> False | Some b \<Rightarrow> b))"

definition FormatSupportedParameters :: string where
  "FormatSupportedParameters =
     (let body = foldl (\<lambda>r v. r @ v @ '' - '' @ get_str supportedParameterDescriptions v @ [newline])
                   [] GetSupportedParameters
      in [newline] @ ''Available Parameters:'' @ [newline] @ body)"

definition pref_update :: "string \<Rightarrow> string \<Rightarrow> string \<Rightarrow> (OdoSettings \<Rightarrow> OdoSettings) result" where
  "pref_update parameter p v =
     (if p = ''timeout'' then
        bindR (wrapR ''unable to set %s to %s'' [parameter, v] (parse_int 64 v)) (\<lambda>typedval.
          if typedval < 0 then fails ''cannot set timeout to less than 0'' []
          else Inr (os_timeout_update (\<lambda>_. Some typedval)))
      else if p = ''updatenotification'' then
        bindR (wrapR ''unable to set %s to %s'' [parameter, v] (parse_bool (to_lower v)))
          (\<lambda>b. Inr (os_update_notification_update (\<lambda>_. Some b)))
      else if p = ''nameprefix'' then Inr (os_name_prefix_update (\<lambda>_. Some v))
      else Inr (\<lambda>c. c))"

definition pref_write :: "preference yaml \<Rightarrow> string \<Rightarrow> PreferenceInfo \<Rightarrow> (pref_state, unit) op" where
  "pref_write y parameter pref =
     bind (modify (\<lambda>s. (pref, snd s))) (\<lambda>_.
       wrapping ''unable to set %s'' [parameter]
         (on_snd (WriteToFile y (pi_type_meta pref, pi_settings pref) (pi_filename pref))))"

definition PrefSetConfiguration :: "preference yaml \<Rightarrow> string \<Rightarrow> string \<Rightarrow> (pref_state, unit) op" where
  "PrefSetConfiguration y parameter v =
     (case asSupportedParameter parameter of
        (p, True) \<Rightarrow> bind (lift (pref_update parameter p v)) (\<lambda>f. bind get_state (\<lambda>s.
           pref_write y parameter ((fst s)\<lparr>pi_settings := f (pi_settings (fst s))\<rparr>)))
      | (p, False) \<Rightarrow> failing ''unknown parameter :'%s' is not a parameter in odo preference'' [parameter])"

definition PrefDeleteConfiguration :: "preference yaml \<Rightarrow> string \<Rightarrow> (pref_state, unit) op" where
  "PrefDeleteConfiguration y parameter =
     (case asSupportedParameter parameter of
        (p, True) \<Rightarrow> bind get_state (\<lambda>s.
           bind (lift (DeleteConfiguration odo_fields True (pi_settings (fst s)) p)) (\<lambda>os.
             pref_write y parameter ((fst s)\<lparr>pi_settings := os\<rparr>)))
      | (p, False) \<Rightarrow>
          failing ''unknown parameter :'%s' is not a parameter in the odo preference'' [parameter])"

definition PrefIsSet :: "PreferenceInfo \<Rightarrow> string \<Rightarrow> bool" where
  "PrefIsSet c parameter = IsSet odo_fields (pi_settings c) parameter"

definition GetTimeout :: "PreferenceInfo \<Rightarrow> int" where
  "GetTimeout c = (case os_timeout (pi_settings c) of None \<Rightarrow> DefaultTimeout | Some t \<Rightarrow> t)"

definition GetUpdateNotification :: "PreferenceInfo \<Rightarrow> bool" where
  "GetUpdateNotification c =
     (case os_update_notification (pi_settings c) of None \<Rightarrow> True | Some b \<Rightarrow> b)"

definition GetNamePrefix :: "PreferenceInfo \<Rightarrow> string" where
  "GetNamePrefix c = (case os_name_prefix (pi_settings c) of None \<Rightarrow> [] | Some p \<Rightarrow> p)"


section \<open>Facts\<close>

definition pref_parameters :: "string list" where
  "pref_parameters = [''updatenotification'', ''nameprefix'', ''timeout'']"

lemma lower_supported_pref: "to_lower ` set GetSupportedParameters = set pref_parameters"
proof -
  have "map to_lower (map fst supportedParameterDescriptions) = pref_parameters"
    by code_simp
  then have "to_lower ` set (map fst supportedParameterDescriptions) = set pref_parameters"
    by (metis set_map)
  then show ?thesis
    by (simp add: GetSupportedParameters_def GetSortedKeys_def range_map_def keys_of_def comp_def)
qed

lemma asSupportedParameter_eq:
  "asSupportedParameter p = (to_lower p, to_lower p \<in> set pref_parameters)"
  by (auto simp: asSupportedParameter_def lowerCaseParameters_def Let_def
      GetLowerCaseParameters_def lookup_foldl_put lower_supported_pref split: option.split)

definition odo_by_lower :: "(string \<times> string) list" where
  "odo_by_lower = [(''updatenotification'', ''UpdateNotification''), (''nameprefix'', ''NamePrefix''),
     (''timeout'', ''Timeout'')]"

lemma odo_names_lower: "map (\<lambda>n. (to_lower n, n)) (map fst odo_table) = odo_by_lower"
  unfolding odo_table_def list.map fst_conv by code_simp

lemma field_of_pref:
  "field_by_name odo_fields (CaseInsensitive p) = map_of odo_by_lower (to_lower p)"
proof -
  have names: "map (\<lambda>n. (to_lower n, n)) (fld_names odo_fields) = odo_by_lower"
    unfolding odo_names_lower [symmetric] by (simp add: odo_fields_def)
  then have "map to_lower (fld_names odo_fields) = map fst odo_by_lower"
    unfolding names [symmetric] by (simp add: comp_def)
  also have "distinct \<dots>" by (simp add: odo_by_lower_def)
  finally show ?thesis
    using field_by_name_map_of [of to_lower odo_fields "CaseInsensitive p" "to_lower p"]
    unfolding names by (simp add: CaseInsensitive_def equal_fold_def)
qed

lemma odo_fields_simps [simp]:
  "fld_nil odo_fields n = fst (the (map_of odo_table n))"
  "fld_reset odo_fields n = snd (the (map_of odo_table n))"
  by (simp_all add: odo_fields_def)

lemma pref_parameter_cases:
  "q \<in> set pref_parameters \<Longrightarrow> q = ''updatenotification'' \<or> q = ''nameprefix'' \<or> q = ''timeout''"
  by (simp only: pref_parameters_def list.set insert_iff empty_iff simp_thms)

text \<open>\<open>IsSet\<close> and the reset of a parameter by its lower case name.\<close>

definition pref_set_lower :: "string \<Rightarrow> OdoSettings \<Rightarrow> bool" where
  "pref_set_lower q os = (case map_of odo_by_lower q of
     None \<Rightarrow> False | Some n \<Rightarrow> \<not> fst (the (map_of odo_table n)) os)"

lemma PrefIsSet_lower: "PrefIsSet c p = pref_set_lower (to_lower p) (pi_settings c)"
  by (simp add: PrefIsSet_def IsSet_def field_of_pref pref_set_lower_def split: option.split)

lemma pref_set_lower_simps [simp]:
  "pref_set_lower ''updatenotification'' os \<longleftrightarrow> os_update_notification os \<noteq> None"
  "pref_set_lower ''nameprefix'' os \<longleftrightarrow> os_name_prefix os \<noteq> None"
  "pref_set_lower ''timeout'' os \<longleftrightarrow> os_timeout os \<noteq> None"
  by (simp_all add: pref_set_lower_def odo_by_lower_def odo_table_def)

lemma pref_update_sets:
  "pref_update parameter q v = Inr f \<Longrightarrow> q \<in> set pref_parameters \<Longrightarrow> pref_set_lower q (f os)"
  by (drule pref_parameter_cases)
    (elim disjE; auto simp: pref_update_def bindR_Inr_iff fails_def split: if_splits)

lemma pref_write_ok:
  "pref_write y parameter c (c0, d) = (Inr (), (c', d')) \<Longrightarrow>
     c' = c \<and> WriteToFile y (pi_type_meta c, pi_settings c) (pi_filename c) d = (Inr (), d')"
  by (cases "WriteToFile y (pi_type_meta c, pi_settings c) (pi_filename c) d")
    (auto simp: pref_write_def op_simps)

lemma PrefSetConfiguration_ok:
  assumes "PrefSetConfiguration y p v (c, d) = (Inr (), (c', d'))"
  shows "to_lower p \<in> set pref_parameters \<and> (\<exists>f. pref_update p (to_lower p) v = Inr f
    \<and> c' = c\<lparr>pi_settings := f (pi_settings c)\<rparr>
    \<and> WriteToFile y (pi_type_meta c', pi_settings c') (pi_filename c') d = (Inr (), d'))"
  using assms
  by (auto simp: PrefSetConfiguration_def asSupportedParameter_eq bind_ok_iff op_apply
      split: bool.splits dest!: pref_write_ok)

lemma PrefDeleteConfiguration_ok:
  assumes "PrefDeleteConfiguration y p (c, d) = (Inr (), (c', d'))"
  shows "to_lower p \<in> set pref_parameters \<and> (\<exists>n. map_of odo_by_lower (to_lower p) = Some n
    \<and> c' = c\<lparr>pi_settings := snd (the (map_of odo_table n)) (pi_settings c)\<rparr>
    \<and> WriteToFile y (pi_type_meta c', pi_settings c') (pi_filename c') d = (Inr (), d'))"
proof -
  have idem: "to_lower (to_lower p) = to_lower p" by (simp add: to_lower_def lower_char_idem)
  show ?thesis
    using assms
    by (auto simp: PrefDeleteConfiguration_def asSupportedParameter_eq bind_ok_iff op_apply
        DeleteConfiguration_def field_of_pref idem
        split: bool.splits option.splits dest!: pref_write_ok)
qed

lemma pref_reset_unsets:
  "q \<in> set pref_parameters \<Longrightarrow> map_of odo_by_lower q = Some n \<Longrightarrow>
     \<not> pref_set_lower q (snd (the (map_of odo_table n)) os)"
  by (drule pref_parameter_cases)
    (elim disjE; auto simp: odo_by_lower_def odo_table_def)

interpretation preferences: param_store "PrefSetConfiguration y" "PrefDeleteConfiguration y"
  "\<lambda>s. PrefIsSet (fst s)" "\<lambda>p. to_lower p \<in> set pref_parameters" for y
proof unfold_locales
  fix p v and s s' :: pref_state
  assume "PrefSetConfiguration y p v s = (Inr (), s')"
  then show "to_lower p \<in> set pref_parameters \<and> PrefIsSet (fst s') p"
    by (cases s; cases s') (auto simp: PrefIsSet_lower pref_update_sets dest!: PrefSetConfiguration_ok)
next
  fix p and s s' :: pref_state
  assume "PrefDeleteConfiguration y p s = (Inr (), s')"
  then show "to_lower p \<in> set pref_parameters \<and> \<not> PrefIsSet (fst s') p"
    by (cases s; cases s') (auto simp: PrefIsSet_lower pref_reset_unsets dest!: PrefDeleteConfiguration_ok)
next
  fix p v and s :: pref_state
  assume "to_lower p \<notin> set pref_parameters"
  then show "(\<exists>e. PrefSetConfiguration y p v s = (Inl (Err e), s))
      \<and> (\<exists>e. PrefDeleteConfiguration y p s = (Inl (Err e), s))"
    by (simp add: PrefSetConfiguration_def PrefDeleteConfiguration_def asSupportedParameter_eq op_simps)
next
  fix p q and s :: pref_state
  assume "to_lower p = to_lower q"
  then show "(to_lower p \<in> set pref_parameters) = (to_lower q \<in> set pref_parameters)
      \<and> PrefIsSet (fst s) p = PrefIsSet (fst s) q"
    by (simp add: PrefIsSet_lower)
qed

text \<open>No operation can bring the timeout below zero.\<close>

definition timeout_ok :: "OdoSettings \<Rightarrow> bool" where
  "timeout_ok os = (case os_timeout os of None \<Rightarrow> True | Some t \<Rightarrow> 0 \<le> t)"

lemma pref_update_timeout:
  "pref_update parameter q v = Inr f \<Longrightarrow> timeout_ok os \<Longrightarrow> timeout_ok (f os)"
  by (auto simp: pref_update_def bindR_Inr_iff timeout_ok_def fails_def split: if_splits)




section \<open>Properties\<close>

text \<open>No successful operation on the preferences brings the timeout below zero, a set timeout
  is what \<open>GetTimeout\<close> returns, and deleting it, or the lack of one, gives the default.\<close>

theorem timeout_never_negative:
  assumes "timeout_ok (pi_settings pref)"
    and "PrefSetConfiguration y p v (pref, d) = (Inr (), (pref', d'))
      \<or> PrefDeleteConfiguration y p (pref, d) = (Inr (), (pref', d'))"
  shows "timeout_ok (pi_settings pref') \<and> 0 \<le> GetTimeout pref'"
proof -
  have reset: "timeout_ok (snd (the (map_of odo_table n)) os)"
    if "map_of odo_by_lower (to_lower p) = Some n" "timeout_ok os" for n os
    using that by (auto simp: odo_by_lower_def odo_table_def timeout_ok_def split: if_splits)
  from assms(2) have "timeout_ok (pi_settings pref')"
  proof
    assume "PrefSetConfiguration y p v (pref, d) = (Inr (), (pref', d'))"
    from PrefSetConfiguration_ok [OF this] assms(1) show ?thesis
      using pref_update_timeout by auto
  next
    assume "PrefDeleteConfiguration y p (pref, d) = (Inr (), (pref', d'))"
    from PrefDeleteConfiguration_ok [OF this] assms(1) show ?thesis using reset by auto
  qed
  then show ?thesis by (auto simp: timeout_ok_def GetTimeout_def DefaultTimeout_def split: option.splits)
qed

theorem timeout_never_negative_witness:
  "\<exists>pref' d'. PrefSetConfiguration \<lparr>marshal = \<lambda>_. Inr ''x'', unmarshal = \<lambda>_ c. Inr c\<rparr> ''Timeout'' ''5''
      (\<lparr>pi_filename = ''/h/p.yaml'', pi_type_meta = fst NewPreference, pi_settings = no_odo_settings\<rparr>,
       \<lparr>dk_files = [], dk_dirs = [''/h''], dk_unreadable = [], dk_unwritable = []\<rparr>) = (Inr (), (pref', d'))
    \<and> 0 \<le> GetTimeout pref' \<and> GetTimeout pref' = 5"
proof -
  let ?y = "\<lparr>marshal = \<lambda>_. Inr ''x'', unmarshal = \<lambda>_ c. Inr c\<rparr> :: preference yaml"
  let ?p = "\<lparr>pi_filename = ''/h/p.yaml'', pi_type_meta = fst NewPreference, pi_settings = no_odo_settings\<rparr>"
  let ?p' = "?p\<lparr>pi_settings := no_odo_settings\<lparr>os_timeout := Some 5\<rparr>\<rparr>"
  let ?d = "\<lparr>dk_files = [], dk_dirs = [''/h''], dk_unreadable = [], dk_unwritable = []\<rparr>"
  have dir: "path_dir ''/h/p.yaml'' = ''/h''" by code_simp
  have low: "to_lower ''Timeout'' = ''timeout''" by code_simp
  have five: "parse_int 64 ''5'' = Inr 5" by code_simp
  have ok: "PrefSetConfiguration ?y ''Timeout'' ''5'' (?p, ?d) =
      (Inr (), (?p', ?d\<lparr>dk_files := [(''/h/p.yaml'', ''x'')]\<rparr>))"
    using dir five
    by (simp add: PrefSetConfiguration_def asSupportedParameter_eq low pref_parameters_def op_simps
        pref_update_def pref_write_def WriteToFile_def CreateIfNotExists_def create_file_def
        write_file_def not_exist_def has_key_def put_def)
  have "timeout_ok (pi_settings ?p)" by (simp add: timeout_ok_def no_odo_settings_def)
  then have "0 \<le> GetTimeout ?p'" using timeout_never_negative [OF _ disjI1 [OF ok]] by simp
  moreover have "GetTimeout ?p' = 5" by (simp add: GetTimeout_def)
  ultimately show ?thesis using ok by blast
qed

end
