(* ===== verification/EnvVars.thy ===== *)
theory EnvVars
  imports ConfigFiles
begin

text \<open>
  \<open>pkg/config/env_var.go\<close>: the list of environment variables of a local configuration.
\<close>

type_synonym env_var_list = "env_var list"

definition ToStringSlice :: "env_var_list \<Rightarrow> string list" where
  "ToStringSlice evl = foldl (\<lambda>envSlice e. envSlice @ [ev_name e @ ''='' @ ev_value e]) [] evl"

definition Merge :: "(string list \<Rightarrow> string list) \<Rightarrow> env_var_list \<Rightarrow> env_var_list \<Rightarrow> env_var_list" where
  "Merge ord evl other =
     (let newEvl = evl @ other;
          uniqueMap = foldl (\<lambda>m e. put (ev_name e) (ev_value e) m) [] newEvl
      in foldl (\<lambda>dedup (key, v). dedup @ [\<lparr>ev_name = key, ev_value = v\<rparr>]) [] (range_map ord uniqueMap))"

definition NewEnvVarFromString :: "string \<Rightarrow> env_var result" where
  "NewEnvVarFromString envStr =
     (let envList = split_two CHR ''='' envStr
      in if length envList < 2 then fails ''invalid environment variable format'' []
         else Inr \<lparr>ev_name = trim_space (envList ! 0), ev_value = trim_space (envList ! 1)\<rparr>)"

definition NewEnvVarListFromSlice :: "string list \<Rightarrow> env_var_list result" where
  "NewEnvVarListFromSlice envList = mapR NewEnvVarFromString envList"

definition RemoveEnvVarsFromList :: "env_var_list \<Rightarrow> string list \<Rightarrow> env_var_list" where
  "RemoveEnvVarsFromList envVarList keys =
     foldl (\<lambda>new e. if In keys (ev_name e) then new else new @ [e]) [] envVarList"


section \<open>Facts\<close>

lemma foldl_snoc: "foldl (\<lambda>acc x. acc @ [f x]) acc xs = acc @ map f xs"
  by (induction xs arbitrary: acc) auto

lemma foldl_snoc_pair: "foldl (\<lambda>acc (k, v). acc @ [f k v]) acc xs = acc @ map (\<lambda>(k, v). f k v) xs"
  by (induction xs arbitrary: acc) auto

lemma foldl_keep: "foldl (\<lambda>acc x. if P x then acc else acc @ [x]) acc xs = acc @ filter (\<lambda>x. \<not> P x) xs"
  by (induction xs arbitrary: acc) auto

lemma RemoveEnvVarsFromList_eq:
  "RemoveEnvVarsFromList evl keys = filter (\<lambda>e. ev_name e \<notin> set keys) evl"
  by (simp add: RemoveEnvVarsFromList_def foldl_keep)

text \<open>The value a variable has in a list: the last one counts.\<close>

definition env_lookup :: "env_var_list \<Rightarrow> string \<Rightarrow> string option" where
  "env_lookup evl n = map_of (map (\<lambda>e. (ev_name e, ev_value e)) (rev evl)) n"

lemma env_lookup_snoc: "env_lookup (evl @ [e]) n = (if ev_name e = n then Some (ev_value e) else env_lookup evl n)"
  by (simp add: env_lookup_def)

lemma env_lookup_append:
  "env_lookup (xs @ ys) n = (case env_lookup ys n of None \<Rightarrow> env_lookup xs n | Some v \<Rightarrow> Some v)"
  by (simp add: env_lookup_def map_add_def split: option.split)

definition env_map :: "env_var_list \<Rightarrow> string gomap" where
  "env_map evl = foldl (\<lambda>m e. put (ev_name e) (ev_value e) m) [] evl"

lemma lookup_env_map: "lookup (env_map evl) n = env_lookup evl n"
proof (induction evl rule: rev_induct)
  case (snoc e evl)
  then show ?case by (simp add: env_map_def env_lookup_snoc)
qed (simp add: env_map_def env_lookup_def)

lemma wf_env_map: "wf_map (env_map evl)"
proof (induction evl rule: rev_induct)
  case (snoc e evl)
  then show ?case by (simp add: env_map_def)
qed (simp add: env_map_def)

lemma Merge_eq:
  "Merge ord evl other = map (\<lambda>(k, v). \<lparr>ev_name = k, ev_value = v\<rparr>) (range_map ord (env_map (evl @ other)))"
  by (simp add: Merge_def env_map_def foldl_snoc_pair Let_def)

lemma map_of_rev: "distinct (map fst m) \<Longrightarrow> map_of (rev m) n = map_of m n"
  by (rule fun_cong [OF map_of_inject_set [THEN iffD2]]) (simp_all add: rev_map [symmetric])

lemma env_lookup_records:
  "wf_map m \<Longrightarrow> env_lookup (map (\<lambda>(k, v). \<lparr>ev_name = k, ev_value = v\<rparr>) m) n = lookup m n"
proof -
  assume wf: "wf_map m"
  have "env_lookup (map (\<lambda>(k, v). \<lparr>ev_name = k, ev_value = v\<rparr>) m) n = map_of (rev m) n"
    by (simp add: env_lookup_def rev_map comp_def split_def)
  also have "\<dots> = map_of m n"
    using wf by (simp add: map_of_rev wf_map_def keys_of_def)
  finally show ?thesis by (simp add: lookup_def)
qed

lemma Merge_names:
  assumes "map_order ord"
  shows "distinct (map ev_name (Merge ord evl other))"
    and "set (map ev_name (Merge ord evl other)) = ev_name ` (set evl \<union> set other)"
proof -
  have names: "map ev_name (Merge ord evl other) = ord (keys_of (env_map (evl @ other)))"
    using keys_range_map [of ord "env_map (evl @ other)"]
    by (simp add: Merge_eq keys_of_def comp_def split_def)
  show "distinct (map ev_name (Merge ord evl other))"
    using wf_env_map [of "evl @ other"] assms by (simp add: names wf_map_def map_order_distinct)
  have keys: "set (keys_of (env_map es)) = ev_name ` set es" for es
  proof (induction es rule: rev_induct)
    case (snoc e es)
    then show ?case by (simp add: env_map_def)
  qed (simp add: env_map_def keys_of_def)
  show "set (map ev_name (Merge ord evl other)) = ev_name ` (set evl \<union> set other)"
    unfolding names map_orderD [OF assms] keys by auto
qed

lemma env_lookup_Merge:
  assumes "map_order ord"
  shows "env_lookup (Merge ord evl other) n = env_lookup (evl @ other) n"
  by (simp add: Merge_eq env_lookup_records wf_range_map assms wf_env_map lookup_env_map)

text \<open>A variable that survives being printed and read: no \<open>=\<close> in the name, no spaces around.\<close>

definition clean_env :: "env_var \<Rightarrow> bool" where
  "clean_env e \<longleftrightarrow> CHR ''='' \<notin> set (ev_name e) \<and> trim_space (ev_name e) = ev_name e
     \<and> trim_space (ev_value e) = ev_value e"

lemma split_two_at: "c \<notin> set a \<Longrightarrow> split_two c (a @ c # b) = [a, b]"
  by (induction a) (auto simp: split_two_def)

lemma NewEnvVarFromString_printed:
  "clean_env e \<Longrightarrow> NewEnvVarFromString (ev_name e @ ''='' @ ev_value e) = Inr e"
  by (simp add: NewEnvVarFromString_def split_two_at clean_env_def)

lemma ToStringSlice_eq: "ToStringSlice evl = map (\<lambda>e. ev_name e @ ''='' @ ev_value e) evl"
  by (simp add: ToStringSlice_def foldl_snoc)

lemma mapR_map: "mapR f (map g xs) = mapR (\<lambda>x. f (g x)) xs"
  by (induction xs) auto

lemma env_slice_roundtrip:
  "list_all clean_env evl \<Longrightarrow> NewEnvVarListFromSlice (ToStringSlice evl) = Inr evl"
  unfolding NewEnvVarListFromSlice_def ToStringSlice_eq mapR_map
  by (induction evl) (simp_all add: NewEnvVarFromString_printed [simplified])




section \<open>Properties\<close>

text \<open>\<open>Merge\<close> keeps one entry per variable of either list, and the value of a variable is the
  one that comes last, in whatever order the map is iterated.\<close>

theorem Merge_last_wins:
  assumes "map_order ord"
  shows "distinct (map ev_name (Merge ord evl other))
    \<and> set (map ev_name (Merge ord evl other)) = ev_name ` (set evl \<union> set other)
    \<and> env_lookup (Merge ord evl other) n = env_lookup (evl @ other) n"
  using Merge_names [OF assms] env_lookup_Merge [OF assms] by blast

theorem Merge_last_wins_witness:
  "env_lookup (Merge rev [\<lparr>ev_name = ''A'', ev_value = ''1''\<rparr>] [\<lparr>ev_name = ''A'', ev_value = ''2''\<rparr>]) ''A''
     = Some ''2''"
  using Merge_last_wins [of rev "[\<lparr>ev_name = ''A'', ev_value = ''1''\<rparr>]"
      "[\<lparr>ev_name = ''A'', ev_value = ''2''\<rparr>]" "''A''"]
  by (simp add: env_lookup_def)

text \<open>Environment variables printed with \<open>ToStringSlice\<close> are read back unchanged by
  \<open>NewEnvVarListFromSlice\<close> when their names hold no \<open>=\<close> and no spaces stand around names
  and values.\<close>

theorem env_slice_read_back:
  assumes "list_all clean_env evl"
  shows "NewEnvVarListFromSlice (ToStringSlice evl) = Inr evl"
  by (rule env_slice_roundtrip [OF assms])

theorem env_slice_read_back_witness:
  "NewEnvVarListFromSlice (ToStringSlice [\<lparr>ev_name = ''PORT'', ev_value = ''a=b c''\<rparr>]) =
     Inr [\<lparr>ev_name = ''PORT'', ev_value = ''a=b c''\<rparr>]"
  by (rule env_slice_read_back) (simp add: clean_env_def trim_space_def strip_suffix_def is_space_def)

end
