(* ===== verification/Volumes.thy ===== *)
theory Volumes
  imports EnvVars
begin

text \<open>
  What \<open>pkg/occlient/volumes.go\<close> and parts of \<open>pkg/occlient/occlient.go\<close> do to a
  \<open>DeploymentConfig\<close> in memory: volumes, volume mounts, environment variables, containers.
  Functions that write through a \<open>*DeploymentConfig\<close> are operations on that object; what
  they wrote before an error stays written.
\<close>


section \<open>Names\<close>

definition supervisordVolumeName :: string where
  "supervisordVolumeName = ''odo-supervisord-shared-data''"

definition getAppRootVolumeName :: "string \<Rightarrow> string" where
  "getAppRootVolumeName dcName = dcName @ ''-s2idata''"

definition IsAppSupervisorDVolume :: "string \<Rightarrow> string \<Rightarrow> bool" where
  "IsAppSupervisorDVolume volumeName dcName =
     (if volumeName = getAppRootVolumeName dcName then True else False)"

text \<open>\<open>rnd\<close> is the random string of this call.\<close>

definition generateVolumeNameFromPVC :: "string \<Rightarrow> string \<Rightarrow> string" where
  "generateVolumeNameFromPVC rnd pvc = pvc @ ''-'' @ rnd @ ''-volume''"


section \<open>Reading and writing through the pod template\<close>

definition the_template :: "(dc, pod_template) op" where
  "the_template = bind get_state (\<lambda>d. lift (template_of d))"

definition put_template :: "pod_template \<Rightarrow> (dc, unit) op" where
  "put_template t = modify (set_template t)"

text \<open>\<open>xs[i] = f(xs[i])\<close> of the first container, when there is one.\<close>

definition update_first :: "('a \<Rightarrow> 'a) \<Rightarrow> 'a list \<Rightarrow> 'a list" where
  "update_first f xs = (case xs of [] \<Rightarrow> [] | x # ys \<Rightarrow> f x # ys)"


section \<open>Volumes of a claim\<close>

definition AddPVCToDeploymentConfig :: "string \<Rightarrow> string \<Rightarrow> string \<Rightarrow> (dc, unit) op" where
  "AddPVCToDeploymentConfig rnd pvc path =
     (let volumeName = generateVolumeNameFromPVC rnd pvc in
      bind get_state (\<lambda>d.
        case sp_template (dc_spec d) of
          None \<Rightarrow> failing ''TemplatePodSpec in %s DeploymentConfig is empty'' [om_name (dc_meta d)]
        | Some t \<Rightarrow>
            let t' = t\<lparr>pt_volumes := pt_volumes t @
                       [\<lparr>vol_name = volumeName, vol_claim = Some pvc, vol_empty_dir = False\<rparr>]\<rparr>
            in bind (put_template t') (\<lambda>_.
               if length (pt_containers t') = 0 then
                 failing ''DeploymentConfig %s doesn't have any Containers defined'' [om_name (dc_meta d)]
               else put_template (t'\<lparr>pt_containers := update_first
                      (\<lambda>c. c\<lparr>ct_mounts := ct_mounts c @
                         [\<lparr>vm_name = volumeName, vm_path = path, vm_sub_path = []\<rparr>]\<rparr>)
                      (pt_containers t')\<rparr>))))"

text \<open>A volume without a claim (\<open>EmptyDir\<close>) is skipped.\<close>

definition getVolumeNamesFromPVC :: "string \<Rightarrow> dc \<Rightarrow> string list result" where
  "getVolumeNamesFromPVC pvc d = bindR (template_of d) (\<lambda>t.
     Inr (foldl (\<lambda>volumes volume.
            case vol_claim volume of
              None \<Rightarrow> volumes
            | Some claim \<Rightarrow> if claim = pvc then volumes @ [vol_name volume] else volumes)
          [] (pt_volumes t)))"

definition removeVolumeFromDC :: "string \<Rightarrow> (dc, bool) op" where
  "removeVolumeFromDC vol = bind the_template (\<lambda>t.
     bind (lift (delete_in_range (\<lambda>v. vol_name v = vol) (pt_volumes t))) (\<lambda>(found, volumes).
     bind (put_template (t\<lparr>pt_volumes := volumes\<rparr>)) (\<lambda>_. return found)))"

fun remove_mount_from :: "string \<Rightarrow> container list \<Rightarrow> (bool \<times> container list) result" where
  "remove_mount_from vm [] = Inr (False, [])"
| "remove_mount_from vm (c # cs) =
     bindR (delete_in_range (\<lambda>m. vm_name m = vm) (ct_mounts c)) (\<lambda>(found, mounts).
     bindR (remove_mount_from vm cs) (\<lambda>(found', cs').
       Inr (found \<or> found', c\<lparr>ct_mounts := mounts\<rparr> # cs')))"

definition removeVolumeMountFromDC :: "string \<Rightarrow> (dc, bool) op" where
  "removeVolumeMountFromDC vm = bind the_template (\<lambda>t.
     bind (lift (remove_mount_from vm (pt_containers t))) (\<lambda>(found, containers).
     bind (put_template (t\<lparr>pt_containers := containers\<rparr>)) (\<lambda>_. return found)))"

text \<open>
  The unmounting loop of \<open>addOrRemoveVolumeAndVolumeMount\<close>: it deletes from the mounts it
  ranges over, and for each deleted mount ranges over the volumes and deletes from them.
\<close>

fun unmount_loop ::
  "(string \<Rightarrow> bool) \<Rightarrow> nat \<Rightarrow> nat \<Rightarrow> volume_mount list \<Rightarrow> volume_mount list \<Rightarrow> volume list \<Rightarrow>
   (volume_mount list \<times> volume list) result" where
  "unmount_loop unmount 0 i cur arr volumes = Inr (cur, volumes)"
| "unmount_loop unmount (Suc n) i cur arr volumes =
     (let volumeMount = arr ! i in
      if unmount (vm_path volumeMount) then
        (if length cur < i + 1 then Inl (Panic ''slice bounds out of range'')
         else let cur' = take i cur @ drop (i + 1) cur in
           bindR (delete_in_range (\<lambda>v. vol_name v = vm_name volumeMount) volumes) (\<lambda>(found, volumes').
             unmount_loop unmount n (i + 1) cur' (cur' @ drop (length cur') arr) volumes'))
      else unmount_loop unmount n (i + 1) cur arr volumes)"

definition unmount_all :: "(string \<Rightarrow> bool) \<Rightarrow> (dc, unit) op" where
  "unmount_all unmount = bind the_template (\<lambda>t.
     case pt_containers t of
       [] \<Rightarrow> fault (Panic ''index out of range'')
     | c # cs \<Rightarrow>
         bind (lift (unmount_loop unmount (length (ct_mounts c)) 0 (ct_mounts c) (ct_mounts c)
                (pt_volumes t)))
           (\<lambda>(mounts, volumes).
             put_template (t\<lparr>pt_containers := c\<lparr>ct_mounts := mounts\<rparr> # cs, pt_volumes := volumes\<rparr>)))"

text \<open>
  \<open>storageToMount\<close> gives the name of the claim for a path, \<open>storageUnMount\<close> the storage at a
  path; \<open>rnd i\<close> is the random string of the \<open>i\<close>-th claim mounted.
\<close>

definition addOrRemoveVolumeAndVolumeMount ::
  "(string list \<Rightarrow> string list) \<Rightarrow> (nat \<Rightarrow> string) \<Rightarrow> string gomap \<Rightarrow> string gomap \<Rightarrow> (dc, unit) op" where
  "addOrRemoveVolumeAndVolumeMount ord rnd storageToMount storageUnMount =
     bind the_template (\<lambda>t.
       if length (pt_containers t) = 0 \<or> length (pt_containers t) > 1 then
         failing ''more than one container found in dc'' []
       else bind (unmount_all (has_key storageUnMount)) (\<lambda>_.
         each (\<lambda>(i, path, pvc).
             wrapping ''unable to add pvc to deployment config'' [] (AddPVCToDeploymentConfig (rnd i) pvc path))
           (List.enumerate 0 (range_map ord storageToMount))))"


section \<open>Volumes when a deployment is replaced\<close>

definition copy_mounts :: "container \<Rightarrow> container \<Rightarrow> container" where
  "copy_mounts matchingContainer c =
     (let dcVolumeMountsMap = foldl (\<lambda>m vm. put (vm_name vm) True m) [] (ct_mounts c)
      in c\<lparr>ct_mounts := foldl (\<lambda>ms vm.
            if vm_name vm = supervisordVolumeName then ms
            else if \<not> has_key dcVolumeMountsMap (vm_name vm) then ms @ [vm] else ms)
          (ct_mounts c) (ct_mounts matchingContainer)\<rparr>)"

fun update_named :: "string \<Rightarrow> (container \<Rightarrow> container) \<Rightarrow> container list \<Rightarrow> container list" where
  "update_named n f [] = []"
| "update_named n f (c # cs) = (if ct_name c = n then f c # cs else c # update_named n f cs)"

definition copy_volumes :: "volume list \<Rightarrow> volume list \<Rightarrow> volume list" where
  "copy_volumes current volumes =
     (let dcVolumeMap = foldl (\<lambda>m v. put (vol_name v) True m) [] volumes
      in foldl (\<lambda>vs v. if vol_name v = supervisordVolumeName then vs
                       else if \<not> has_key dcVolumeMap (vol_name v) then vs @ [v] else vs)
           volumes current)"

definition copyVolumesAndVolumeMounts :: "dc \<Rightarrow> container \<Rightarrow> (dc, unit) op" where
  "copyVolumesAndVolumeMounts currentDC matchingContainer = bind the_template (\<lambda>t.
     bind (put_template (t\<lparr>pt_containers :=
         update_named (ct_name matchingContainer) (copy_mounts matchingContainer) (pt_containers t)\<rparr>)) (\<lambda>_.
     bind (lift (template_of currentDC)) (\<lambda>ct. bind the_template (\<lambda>t.
       put_template (t\<lparr>pt_volumes := copy_volumes (pt_volumes ct) (pt_volumes t)\<rparr>)))))"

definition removeTracesOfSupervisordFromDC :: "(dc, unit) op" where
  "removeTracesOfSupervisordFromDC = bind get_state (\<lambda>d.
     let dcName = om_name (dc_meta d) in
     bind (removeVolumeFromDC (getAppRootVolumeName dcName)) (\<lambda>found.
     if \<not> found then failing (''unable to find volume in dc with name: '' @ dcName) []
     else bind (removeVolumeMountFromDC (getAppRootVolumeName dcName)) (\<lambda>found.
     if \<not> found then failing (''unable to find volume mount in dc with name: '' @ dcName) []
     else bind the_template (\<lambda>t.
       bind (lift (delete_in_range (\<lambda>c. ct_name c = ''copy-files-to-volume'') (pt_init t))) (\<lambda>(found, init).
         put_template (t\<lparr>pt_init := init\<rparr>))))))"


section \<open>Reading a deployment\<close>

definition GetVolumeMountsFromDC :: "dc \<Rightarrow> volume_mount list result" where
  "GetVolumeMountsFromDC d = bindR (template_of d) (\<lambda>t.
     Inr (foldl (\<lambda>volumeMounts container. volumeMounts @ ct_mounts container) [] (pt_containers t)))"

fun empty_dir_in :: "string \<Rightarrow> volume list \<Rightarrow> bool" where
  "empty_dir_in n [] = False"
| "empty_dir_in n (volume # vs) =
     (if n = vol_name volume then (if vol_empty_dir volume then True else empty_dir_in n vs)
      else empty_dir_in n vs)"

definition IsVolumeAnEmptyDir :: "string \<Rightarrow> dc \<Rightarrow> bool result" where
  "IsVolumeAnEmptyDir volumeMountName d =
     bindR (template_of d) (\<lambda>t. Inr (empty_dir_in volumeMountName (pt_volumes t)))"

fun claim_in :: "string \<Rightarrow> volume list \<Rightarrow> string" where
  "claim_in n [] = []"
| "claim_in n (volume # vs) =
     (if vol_name volume = n then (case vol_claim volume of Some claim \<Rightarrow> claim | None \<Rightarrow> claim_in n vs)
      else claim_in n vs)"

definition GetPVCNameFromVolumeMountName :: "string \<Rightarrow> dc \<Rightarrow> string result" where
  "GetPVCNameFromVolumeMountName volumeMountName d =
     bindR (template_of d) (\<lambda>t. Inr (claim_in volumeMountName (pt_volumes t)))"

fun find_container :: "container list \<Rightarrow> string \<Rightarrow> container result" where
  "find_container [] name = fails ''Unable to find container'' []"
| "find_container (container # containers) name =
     (if ct_name container = name then Inr container else find_container containers name)"

definition FindContainer :: "container list \<Rightarrow> string \<Rightarrow> container result" where
  "FindContainer containers name =
     (if name = [] then
        fails ''Invalid parameter for FindContainer, unable to find a blank container'' []
      else find_container containers name)"


section \<open>Environment variables\<close>

definition uniqueAppendOrOverwriteEnvVars :: "env_var list \<Rightarrow> env_var list \<Rightarrow> env_var list" where
  "uniqueAppendOrOverwriteEnvVars existingEnvs envVars =
     (let mapExistingEnvs = foldl (\<lambda>m e. put (ev_name e) e m) [] existingEnvs;
          mapExistingEnvs = foldl (\<lambda>m e. put (ev_name e) e m) mapExistingEnvs envVars;
          (retVal, mapExistingEnvs) =
            foldl (\<lambda>(r, m) e. case lookup m (ev_name e) of
                     Some val \<Rightarrow> (r @ [val], remove_key (ev_name e) m) | None \<Rightarrow> (r, m))
              ([], mapExistingEnvs) existingEnvs
      in foldl (\<lambda>r e. case lookup mapExistingEnvs (ev_name e) of Some val \<Rightarrow> r @ [val] | None \<Rightarrow> r)
           retVal envVars)"

text \<open>The first variable of the name is deleted, then the loop breaks.\<close>

fun deleteEnvVars :: "env_var list \<Rightarrow> string \<Rightarrow> env_var list" where
  "deleteEnvVars [] envTobeDeleted = []"
| "deleteEnvVars (envVar # es) envTobeDeleted =
     (if ev_name envVar = envTobeDeleted then es else envVar # deleteEnvVars es envTobeDeleted)"

definition updateEnvVar :: "env_var list \<Rightarrow> (dc, unit) op" where
  "updateEnvVar envVars = bind get_state (\<lambda>d. bind the_template (\<lambda>t.
     if length (pt_containers t) \<noteq> 1 then
       failing ''expected exactly one container in Deployment Config %v, got %v''
         [om_name (dc_meta d), show_nat (length (pt_containers t))]
     else put_template (t\<lparr>pt_containers := update_first (\<lambda>c. c\<lparr>ct_env := envVars\<rparr>) (pt_containers t)\<rparr>)))"

text \<open>\<open>keys\<close> holds the names seen so far.\<close>

fun input_env_loop :: "string list \<Rightarrow> int gomap \<Rightarrow> env_var list \<Rightarrow> env_var list result" where
  "input_env_loop [] keys inputEnvVars = Inr inputEnvVars"
| "input_env_loop (env # envs) keys inputEnvVars =
     (let splits = split_two CHR ''='' env in
      if length splits < 2 then
        fails ''invalid syntax for env, please specify a VariableName=Value pair'' []
      else if has_key keys (splits ! 0) then
        fails ''multiple values found for VariableName: %s'' [splits ! 0]
      else input_env_loop envs (put (splits ! 0) 1 keys)
             (inputEnvVars @ [\<lparr>ev_name = splits ! 0, ev_value = splits ! 1\<rparr>]))"

definition GetInputEnvVarsFromStrings :: "string list \<Rightarrow> env_var list result" where
  "GetInputEnvVarsFromStrings envVars = input_env_loop envVars [] []"


section \<open>Facts\<close>

lemma the_template_apply [op_simps]: "the_template d = (template_of d, d)"
  by (simp add: the_template_def op_simps)

lemma put_template_apply [op_simps]: "put_template t d = (Inr (), set_template t d)"
  by (simp add: put_template_def op_simps)

lemma the_template_ok [simp]:
  "the_template d = (Inr t, d') \<longleftrightarrow> sp_template (dc_spec d) = Some t \<and> d' = d"
  by (auto simp: op_simps)

subsection \<open>Adding a claim\<close>

definition added_volume :: "string \<Rightarrow> string \<Rightarrow> volume" where
  "added_volume rnd pvc =
     \<lparr>vol_name = generateVolumeNameFromPVC rnd pvc, vol_claim = Some pvc, vol_empty_dir = False\<rparr>"

definition added_mount :: "string \<Rightarrow> string \<Rightarrow> string \<Rightarrow> volume_mount" where
  "added_mount rnd pvc path =
     \<lparr>vm_name = generateVolumeNameFromPVC rnd pvc, vm_path = path, vm_sub_path = []\<rparr>"

definition template_with_claim :: "string \<Rightarrow> string \<Rightarrow> string \<Rightarrow> pod_template \<Rightarrow> pod_template" where
  "template_with_claim rnd pvc path t = t\<lparr>pt_volumes := pt_volumes t @ [added_volume rnd pvc],
     pt_containers := update_first (\<lambda>c. c\<lparr>ct_mounts := ct_mounts c @ [added_mount rnd pvc path]\<rparr>)
       (pt_containers t)\<rparr>"

lemma AddPVC_ok:
  assumes "sp_template (dc_spec d) = Some t" and "pt_containers t \<noteq> []"
  shows "AddPVCToDeploymentConfig rnd pvc path d = (Inr (), set_template (template_with_claim rnd pvc path t) d)"
  using assms
  by (simp add: AddPVCToDeploymentConfig_def op_simps Let_def template_with_claim_def added_volume_def
      added_mount_def)

text \<open>On an empty list of containers the call fails after it has added the volume.\<close>

lemma AddPVC_no_containers:
  assumes "sp_template (dc_spec d) = Some t" and "pt_containers t = []"
  shows "AddPVCToDeploymentConfig rnd pvc path d =
    (Inl (Err (Errorf ''DeploymentConfig %s doesn't have any Containers defined'' [om_name (dc_meta d)])),
     set_template (t\<lparr>pt_volumes := pt_volumes t @ [added_volume rnd pvc]\<rparr>) d)"
  using assms by (simp add: AddPVCToDeploymentConfig_def op_simps Let_def added_volume_def)

lemma AddPVC_no_template:
  "sp_template (dc_spec d) = None \<Longrightarrow> AddPVCToDeploymentConfig rnd pvc path d =
     (Inl (Err (Errorf ''TemplatePodSpec in %s DeploymentConfig is empty'' [om_name (dc_meta d)])), d)"
  by (simp add: AddPVCToDeploymentConfig_def op_simps Let_def)

lemma update_first_simps [simp]:
  "update_first f [] = []"
  "update_first f (x # xs) = f x # xs"
  "length (update_first f xs) = length xs"
  "update_first f xs = [] \<longleftrightarrow> xs = []"
  by (simp_all add: update_first_def split: list.split)

subsection \<open>Unmounting\<close>

lemma unmount_loop_skip:
  "(\<And>j. i \<le> j \<Longrightarrow> j < i + m \<Longrightarrow> \<not> u (vm_path (arr ! j))) \<Longrightarrow>
   unmount_loop u (m + n) i cur arr vols = unmount_loop u n (i + m) cur arr vols"
proof (induction m arbitrary: i)
  case (Suc m)
  from Suc.prems [of i] have "\<not> u (vm_path (arr ! i))" by simp
  moreover have "unmount_loop u (m + n) (i + 1) cur arr vols = unmount_loop u n (i + 1 + m) cur arr vols"
    by (rule Suc.IH) (use Suc.prems in auto)
  ultimately show ?case by (simp add: algebra_simps)
qed simp

lemma unmount_loop_none:
  "(\<And>j. i \<le> j \<Longrightarrow> j < i + n \<Longrightarrow> \<not> u (vm_path (arr ! j))) \<Longrightarrow>
   unmount_loop u n i cur arr vols = Inr (cur, vols)"
  using unmount_loop_skip [of i n u arr 0 cur vols] by simp

text \<open>With one mount to remove, that mount and the volumes of its name go, and nothing else.\<close>

lemma unmount_loop_one:
  assumes "\<And>y. y \<in> set ys \<union> set zs \<Longrightarrow> \<not> u (vm_path y)" and "u (vm_path x)"
    and "distinct (map vol_name vols)"
  shows "unmount_loop u (length (ys @ x # zs)) 0 (ys @ x # zs) (ys @ x # zs) vols =
    Inr (ys @ zs, filter (\<lambda>v. vol_name v \<noteq> vm_name x) vols)"
proof -
  let ?xs = "ys @ x # zs" and ?arr = "ys @ zs @ drop (length zs) (x # zs)"
  let ?vols = "filter (\<lambda>v. vol_name v \<noteq> vm_name x) vols"
  have del: "delete_in_range (\<lambda>v. vol_name v = vm_name x) vols =
      Inr (vm_name x \<in> vol_name ` set vols, ?vols)"
    by (rule delete_in_range_key [OF assms(3)])
  have "unmount_loop u (length ys + Suc (length zs)) 0 ?xs ?xs vols =
      unmount_loop u (Suc (length zs)) (0 + length ys) ?xs ?xs vols"
    by (rule unmount_loop_skip) (use assms(1) in \<open>auto simp: nth_append\<close>)
  also have "\<dots> = unmount_loop u (length zs) (Suc (length ys)) (ys @ zs) ?arr ?vols"
    using assms(2) del by (simp add: nth_append Let_def)
  also have "\<dots> = Inr (ys @ zs, ?vols)"
  proof (rule unmount_loop_none)
    fix j assume j: "Suc (length ys) \<le> j" "j < Suc (length ys) + length zs"
    then obtain k where k: "j = length ys + Suc k" "k < length zs"
      by (metis add_Suc add_less_cancel_left le_Suc_ex plus_1_eq_Suc add.commute add_Suc_right)
    have "(zs @ drop (length zs) (x # zs)) ! Suc k \<in> set zs"
      by (rule nth_shifted) (use k in auto)
    with k assms(1) show "\<not> u (vm_path (?arr ! j))"
      by (simp add: nth_append)
  qed
  finally show ?thesis by simp
qed

subsection \<open>Copying volumes\<close>

lemma has_key_foldl_put:
  "has_key (foldl (\<lambda>m x. put (f x) b m) m0 xs) k \<longleftrightarrow> k \<in> f ` set xs \<or> has_key m0 k"
  by (induction xs arbitrary: m0) auto

lemma foldl_select:
  "foldl (\<lambda>acc x. if P x then acc else if \<not> Q x then acc @ [x] else acc) acc xs
     = acc @ filter (\<lambda>x. \<not> P x \<and> \<not> Q x) xs"
  by (induction xs arbitrary: acc) auto

lemma has_key_Nil [simp]: "\<not> has_key [] k"
  by (simp add: has_key_def)

lemma copy_volumes_eq:
  "copy_volumes current vols = vols @
     filter (\<lambda>v. vol_name v \<noteq> supervisordVolumeName \<and> vol_name v \<notin> vol_name ` set vols) current"
  by (simp add: copy_volumes_def foldl_select has_key_foldl_put)

lemma copy_mounts_eq:
  "copy_mounts mc c = c\<lparr>ct_mounts := ct_mounts c @
     filter (\<lambda>m. vm_name m \<noteq> supervisordVolumeName \<and> vm_name m \<notin> vm_name ` set (ct_mounts c))
       (ct_mounts mc)\<rparr>"
  by (simp add: copy_mounts_def foldl_select has_key_foldl_put)

lemma copyVolumes_ok:
  assumes "sp_template (dc_spec d) = Some t" and "sp_template (dc_spec cur) = Some ct"
  shows "copyVolumesAndVolumeMounts cur mc d = (Inr (), set_template
    (t\<lparr>pt_containers := update_named (ct_name mc) (copy_mounts mc) (pt_containers t),
       pt_volumes := copy_volumes (pt_volumes ct) (pt_volumes t)\<rparr>) d)"
  using assms by (simp add: copyVolumesAndVolumeMounts_def op_simps template_of_def)

lemma set_update_named: "c' \<in> set (update_named n f cs) \<Longrightarrow> c' \<in> set cs \<or> (\<exists>c\<in>set cs. ct_name c = n \<and> c' = f c)"
  by (induction cs) (auto split: if_splits)

text \<open>Every mount of a container finds its volume in the pod.\<close>

definition mounts_backed :: "pod_template \<Rightarrow> bool" where
  "mounts_backed t \<longleftrightarrow>
     (\<forall>c\<in>set (pt_containers t). vm_name ` set (ct_mounts c) \<subseteq> vol_name ` set (pt_volumes t))"

lemma template_with_claim_backed:
  "mounts_backed t \<Longrightarrow> mounts_backed (template_with_claim rnd pvc path t)"
  by (cases "pt_containers t")
    (force simp: mounts_backed_def template_with_claim_def added_volume_def added_mount_def)+

lemma copied_backed:
  assumes "mounts_backed t" and "mounts_backed ct" and "mc \<in> set (pt_containers ct)"
  shows "mounts_backed (t\<lparr>pt_containers := update_named n (copy_mounts mc) (pt_containers t),
       pt_volumes := copy_volumes (pt_volumes ct) (pt_volumes t)\<rparr>)"
proof -
  let ?vs = "copy_volumes (pt_volumes ct) (pt_volumes t)"
  have old: "vol_name ` set (pt_volumes t) \<subseteq> vol_name ` set ?vs"
    by (auto simp: copy_volumes_eq)
  have new: "n \<in> vol_name ` set ?vs" if "n \<in> vol_name ` set (pt_volumes ct)" "n \<noteq> supervisordVolumeName" for n
    using that by (auto simp: copy_volumes_eq image_iff)
  have "vm_name ` set (ct_mounts c) \<subseteq> vol_name ` set ?vs"
    if "c \<in> set (update_named n (copy_mounts mc) (pt_containers t))" for c
    using set_update_named [OF that]
  proof (elim disjE bexE conjE)
    assume "c \<in> set (pt_containers t)"
    with assms(1) old show ?thesis unfolding mounts_backed_def by blast
  next
    fix c0 assume c0: "c0 \<in> set (pt_containers t)" and c: "c = copy_mounts mc c0"
    have "vm_name ` set (ct_mounts c0) \<subseteq> vol_name ` set ?vs"
      using assms(1) old c0 unfolding mounts_backed_def by blast
    moreover have "vm_name m \<in> vol_name ` set ?vs"
      if "m \<in> set (ct_mounts mc)" "vm_name m \<noteq> supervisordVolumeName" for m
      using new [OF _ that(2)] assms(2,3) that(1) unfolding mounts_backed_def by blast
    ultimately show ?thesis by (auto simp: c copy_mounts_eq)
  qed
  then show ?thesis by (simp add: mounts_backed_def)
qed



subsection \<open>Mounting and unmounting together\<close>

definition claims_added :: "(nat \<Rightarrow> string) \<Rightarrow> (nat \<times> string \<times> string) list \<Rightarrow> pod_template \<Rightarrow> pod_template" where
  "claims_added rnd es t = foldl (\<lambda>t (i, path, pvc). template_with_claim (rnd i) pvc path t) t es"

lemma template_with_claim_containers [simp]:
  "pt_containers (template_with_claim rnd pvc path t) = [] \<longleftrightarrow> pt_containers t = []"
  by (simp add: template_with_claim_def)

lemma wrapped_AddPVC:
  assumes "sp_template (dc_spec d) = Some t" and "pt_containers t \<noteq> []"
  shows "bind (wrapping fmt args (AddPVCToDeploymentConfig rnd pvc path)) k d =
    k () (set_template (template_with_claim rnd pvc path t) d)"
  using AddPVC_ok [OF assms] by (simp add: bind_apply wrapping_apply)

lemma each_AddPVC:
  assumes "sp_template (dc_spec d) = Some t" and "pt_containers t \<noteq> []"
  shows "each (\<lambda>(i, path, pvc).
      wrapping ''unable to add pvc to deployment config'' [] (AddPVCToDeploymentConfig (rnd i) pvc path)) es d
    = (Inr (), set_template (claims_added rnd es t) d)"
  using assms
proof (induction es arbitrary: d t)
  case Nil
  then show ?case by (simp add: claims_added_def op_simps set_template_same)
next
  case (Cons e es)
  obtain i path pvc where e: "e = (i, path, pvc)" by (cases e) auto
  have "each (\<lambda>(i, path, pvc).
      wrapping ''unable to add pvc to deployment config'' [] (AddPVCToDeploymentConfig (rnd i) pvc path)) es
      (set_template (template_with_claim (rnd i) pvc path t) d)
    = (Inr (), set_template (claims_added rnd es (template_with_claim (rnd i) pvc path t))
        (set_template (template_with_claim (rnd i) pvc path t) d))"
    by (rule Cons.IH) (use Cons.prems in simp_all)
  then show ?case
    by (simp add: e claims_added_def wrapped_AddPVC [OF Cons.prems])
qed

lemma claims_added_backed: "mounts_backed t \<Longrightarrow> mounts_backed (claims_added rnd es t)"
proof (induction es arbitrary: t)
  case (Cons e es)
  then show ?case by (cases e) (simp add: claims_added_def template_with_claim_backed)
qed (simp add: claims_added_def)

text \<open>The template after the mount \<open>m\<close> and its volume have been taken out.\<close>

definition without_mount :: "volume_mount \<Rightarrow> volume_mount list \<Rightarrow> container \<Rightarrow> pod_template \<Rightarrow> pod_template" where
  "without_mount m ms c t = t\<lparr>pt_containers := [c\<lparr>ct_mounts := ms\<rparr>],
     pt_volumes := filter (\<lambda>v. vol_name v \<noteq> vm_name m) (pt_volumes t)\<rparr>"

lemma addOrRemove_one:
  assumes t: "sp_template (dc_spec d) = Some t" and c: "pt_containers t = [c]"
    and ms: "ct_mounts c = ys @ m # zs" and m: "has_key unmount (vm_path m)"
    and others: "\<And>x. x \<in> set ys \<union> set zs \<Longrightarrow> \<not> has_key unmount (vm_path x)"
    and vols: "distinct (map vol_name (pt_volumes t))"
  shows "addOrRemoveVolumeAndVolumeMount ord rnd mount unmount d = (Inr (), set_template
    (claims_added rnd (List.enumerate 0 (range_map ord mount)) (without_mount m (ys @ zs) c t)) d)"
proof -
  let ?t = "without_mount m (ys @ zs) c t"
  have un: "unmount_all (has_key unmount) d = (Inr (), set_template ?t d)"
    using unmount_loop_one [of ys zs "has_key unmount" m "pt_volumes t"] others m vols
    by (simp add: unmount_all_def op_simps t c ms without_mount_def template_of_def)
  have "each (\<lambda>(i, path, pvc).
      wrapping ''unable to add pvc to deployment config'' [] (AddPVCToDeploymentConfig (rnd i) pvc path))
      (List.enumerate 0 (range_map ord mount)) (set_template ?t d)
    = (Inr (), set_template (claims_added rnd (List.enumerate 0 (range_map ord mount)) ?t) (set_template ?t d))"
    by (rule each_AddPVC) (simp_all add: without_mount_def)
  with un show ?thesis
    by (simp add: addOrRemoveVolumeAndVolumeMount_def bind_apply the_template_apply template_of_def t c)
qed

lemma addOrRemove_none:
  assumes t: "sp_template (dc_spec d) = Some t" and c: "pt_containers t = [c]"
    and none: "\<And>x. x \<in> set (ct_mounts c) \<Longrightarrow> \<not> has_key unmount (vm_path x)"
  shows "addOrRemoveVolumeAndVolumeMount ord rnd mount unmount d = (Inr (), set_template
    (claims_added rnd (List.enumerate 0 (range_map ord mount)) t) d)"
proof -
  have loop: "unmount_loop (has_key unmount) (length (ct_mounts c)) 0 (ct_mounts c) (ct_mounts c) (pt_volumes t)
      = Inr (ct_mounts c, pt_volumes t)"
    by (rule unmount_loop_none) (simp add: none)
  have same: "t\<lparr>pt_containers := [c\<lparr>ct_mounts := ct_mounts c\<rparr>], pt_volumes := pt_volumes t\<rparr> = t"
    using c by simp
  have "unmount_all (has_key unmount) d = (Inr (), d)"
    using loop t by (simp add: unmount_all_def op_simps c same template_of_def set_template_same)
  moreover have "each (\<lambda>(i, path, pvc).
      wrapping ''unable to add pvc to deployment config'' [] (AddPVCToDeploymentConfig (rnd i) pvc path))
      (List.enumerate 0 (range_map ord mount)) d
    = (Inr (), set_template (claims_added rnd (List.enumerate 0 (range_map ord mount)) t) d)"
    by (rule each_AddPVC) (simp_all add: t c)
  ultimately show ?thesis
    by (simp add: addOrRemoveVolumeAndVolumeMount_def bind_apply the_template_apply template_of_def t c)
qed

subsection \<open>Removing supervisord\<close>

lemma removeVolumeFromDC_ok:
  assumes "sp_template (dc_spec d) = Some t" and "distinct (map vol_name (pt_volumes t))"
  shows "removeVolumeFromDC vol d = (Inr (vol \<in> vol_name ` set (pt_volumes t)),
    set_template (t\<lparr>pt_volumes := filter (\<lambda>v. vol_name v \<noteq> vol) (pt_volumes t)\<rparr>) d)"
  using assms by (simp add: removeVolumeFromDC_def op_simps template_of_def delete_in_range_key)

definition without_mounts :: "string \<Rightarrow> container \<Rightarrow> container" where
  "without_mounts vm c = c\<lparr>ct_mounts := filter (\<lambda>m. vm_name m \<noteq> vm) (ct_mounts c)\<rparr>"

lemma remove_mount_from_ok:
  assumes "\<And>c. c \<in> set cs \<Longrightarrow> distinct (map vm_name (ct_mounts c))"
  shows "remove_mount_from vm cs =
    Inr (\<exists>c\<in>set cs. vm \<in> vm_name ` set (ct_mounts c), map (without_mounts vm) cs)"
  using assms by (induction cs) (auto simp: delete_in_range_key without_mounts_def)

lemma removeVolumeMountFromDC_ok:
  assumes "sp_template (dc_spec d) = Some t"
    and "\<And>c. c \<in> set (pt_containers t) \<Longrightarrow> distinct (map vm_name (ct_mounts c))"
  shows "removeVolumeMountFromDC vm d =
    (Inr (\<exists>c\<in>set (pt_containers t). vm \<in> vm_name ` set (ct_mounts c)),
     set_template (t\<lparr>pt_containers := map (without_mounts vm) (pt_containers t)\<rparr>) d)"
  using assms by (simp add: removeVolumeMountFromDC_def op_simps template_of_def remove_mount_from_ok)

definition without_supervisord :: "string \<Rightarrow> pod_template \<Rightarrow> pod_template" where
  "without_supervisord vol t = t\<lparr>pt_volumes := filter (\<lambda>v. vol_name v \<noteq> vol) (pt_volumes t),
     pt_containers := map (without_mounts vol) (pt_containers t),
     pt_init := filter (\<lambda>c. ct_name c \<noteq> ''copy-files-to-volume'') (pt_init t)\<rparr>"

lemma removeTraces_ok:
  assumes t: "sp_template (dc_spec d) = Some t"
    and "distinct (map vol_name (pt_volumes t))" and "distinct (map ct_name (pt_init t))"
    and "\<And>c. c \<in> set (pt_containers t) \<Longrightarrow> distinct (map vm_name (ct_mounts c))"
    and vol: "vol = getAppRootVolumeName (om_name (dc_meta d))"
    and "vol \<in> vol_name ` set (pt_volumes t)"
    and "\<exists>c\<in>set (pt_containers t). vol \<in> vm_name ` set (ct_mounts c)"
  shows "removeTracesOfSupervisordFromDC d = (Inr (), set_template (without_supervisord vol t) d)"
proof -
  let ?d1 = "set_template (t\<lparr>pt_volumes := filter (\<lambda>v. vol_name v \<noteq> vol) (pt_volumes t)\<rparr>) d"
  have "removeVolumeFromDC vol d = (Inr True, ?d1)"
    using removeVolumeFromDC_ok [OF t assms(2), of vol] assms(6) by simp
  moreover have "removeVolumeMountFromDC vol ?d1 = (Inr True, set_template
      (t\<lparr>pt_volumes := filter (\<lambda>v. vol_name v \<noteq> vol) (pt_volumes t),
         pt_containers := map (without_mounts vol) (pt_containers t)\<rparr>) d)"
    using removeVolumeMountFromDC_ok [of ?d1 "t\<lparr>pt_volumes := filter (\<lambda>v. vol_name v \<noteq> vol) (pt_volumes t)\<rparr>" vol]
      assms(4,7) by simp
  ultimately show ?thesis
    using assms(3) delete_in_range_key [of ct_name "pt_init t"]
    by (simp add: removeTracesOfSupervisordFromDC_def Let_def op_simps vol [symmetric] template_of_def
        without_supervisord_def)
qed

subsection \<open>Overwriting environment variables\<close>

lemma unique_pass:
  assumes "\<And>n e. lookup m n = Some e \<Longrightarrow> ev_name e = n"
  shows "\<exists>ns m'. foldl (\<lambda>(r, m) e. case lookup m (ev_name e) of
      Some val \<Rightarrow> (r @ [val], remove_key (ev_name e) m) | None \<Rightarrow> (r, m)) (r, m) es
    = (r @ map (\<lambda>n. the (lookup m n)) ns, m')
    \<and> distinct ns \<and> set ns = ev_name ` set es \<inter> {n. lookup m n \<noteq> None}
    \<and> (\<forall>n. lookup m' n = (if n \<in> ev_name ` set es then None else lookup m n))"
proof (induction es rule: rev_induct)
  case (snoc e es)
  then obtain ns m' where *: "foldl (\<lambda>(r, m) e. case lookup m (ev_name e) of
      Some val \<Rightarrow> (r @ [val], remove_key (ev_name e) m) | None \<Rightarrow> (r, m)) (r, m) es
    = (r @ map (\<lambda>n. the (lookup m n)) ns, m')" "distinct ns"
    "set ns = ev_name ` set es \<inter> {n. lookup m n \<noteq> None}"
    "\<And>n. lookup m' n = (if n \<in> ev_name ` set es then None else lookup m n)"
    by blast
  show ?case
  proof (cases "lookup m' (ev_name e)")
    case None
    have "\<forall>n. lookup m' n = (if n \<in> ev_name ` set (es @ [e]) then None else lookup m n)"
      using None *(4) by auto
    moreover have "set ns = ev_name ` set (es @ [e]) \<inter> {n. lookup m n \<noteq> None}"
      using None *(3,4) by (auto split: if_splits)
    ultimately show ?thesis using * None by simp blast
  next
    case (Some val)
    with *(4) have new: "ev_name e \<notin> ev_name ` set es" "lookup m (ev_name e) = Some val"
      by (auto split: if_splits)
    have "\<forall>n. lookup (remove_key (ev_name e) m') n = (if n \<in> ev_name ` set (es @ [e]) then None else lookup m n)"
      using *(4) by simp
    moreover have "set (ns @ [ev_name e]) = ev_name ` set (es @ [e]) \<inter> {n. lookup m n \<noteq> None}"
      using *(3) new(2) by auto
    moreover have "distinct (ns @ [ev_name e])" using *(2,3) new(1) by auto
    moreover have "foldl (\<lambda>(r, m) e. case lookup m (ev_name e) of
      Some val \<Rightarrow> (r @ [val], remove_key (ev_name e) m) | None \<Rightarrow> (r, m)) (r, m) (es @ [e])
    = (r @ map (\<lambda>n. the (lookup m n)) (ns @ [ev_name e]), remove_key (ev_name e) m')"
      using *(1) Some new(2) by simp
    ultimately show ?thesis by blast
  qed
qed auto


definition env_objects :: "env_var list \<Rightarrow> env_var gomap" where
  "env_objects es = foldl (\<lambda>m e. put (ev_name e) e m) [] es"

lemma env_objects_snoc: "env_objects (es @ [e]) = put (ev_name e) e (env_objects es)"
  by (simp add: env_objects_def)

lemma env_objects_name: "lookup (env_objects es) n = Some e \<Longrightarrow> ev_name e = n"
  by (induction es rule: rev_induct)
    (auto simp: env_objects_snoc split: if_splits, simp add: env_objects_def)

lemma env_objects_value: "map_option ev_value (lookup (env_objects es) n) = env_lookup es n"
proof (induction es rule: rev_induct)
  case (snoc e es)
  then show ?case by (simp add: env_objects_snoc env_lookup_snoc)
qed (simp add: env_objects_def env_lookup_def)

lemma env_objects_dom: "lookup (env_objects es) n \<noteq> None \<longleftrightarrow> n \<in> ev_name ` set es"
proof (induction es rule: rev_induct)
  case (snoc e es)
  then show ?case by (auto simp: env_objects_snoc)
qed (simp add: env_objects_def)

lemma foldl_collect:
  "foldl (\<lambda>r e. case f e of Some val \<Rightarrow> r @ [val] | None \<Rightarrow> r) r xs =
     r @ map (\<lambda>e. the (f e)) (filter (\<lambda>e. f e \<noteq> None) xs)"
  by (induction xs arbitrary: r) (auto split: option.split)

lemma env_lookup_map:
  assumes "\<And>n. n \<in> set ks \<Longrightarrow> ev_name (g n) = n"
  shows "env_lookup (map g ks) n = (if n \<in> set ks then Some (ev_value (g n)) else None)"
  using assms
proof (induction ks rule: rev_induct)
  case (snoc k ks)
  then show ?case by (auto simp: env_lookup_snoc)
qed (simp add: env_lookup_def)

text \<open>The names in the result, each with the object that came last.\<close>

lemma uniqueAppend_eq:
  "\<exists>ns. uniqueAppendOrOverwriteEnvVars ex new =
      map (\<lambda>n. the (lookup (env_objects (ex @ new)) n))
        (ns @ map ev_name (filter (\<lambda>e. ev_name e \<notin> ev_name ` set ex) new))
    \<and> distinct ns \<and> set ns = ev_name ` set ex"
proof -
  let ?M = "env_objects (ex @ new)"
  obtain ns m' where p: "foldl (\<lambda>(r, m) e. case lookup m (ev_name e) of
      Some val \<Rightarrow> (r @ [val], remove_key (ev_name e) m) | None \<Rightarrow> (r, m)) ([], ?M) ex
    = ([] @ map (\<lambda>n. the (lookup ?M n)) ns, m')" "distinct ns"
    "set ns = ev_name ` set ex \<inter> {n. lookup ?M n \<noteq> None}"
    "\<And>n. lookup m' n = (if n \<in> ev_name ` set ex then None else lookup ?M n)"
    using unique_pass [of ?M "[]" ex] env_objects_name by blast
  have M: "foldl (\<lambda>m e. put (ev_name e) e m) (foldl (\<lambda>m e. put (ev_name e) e m) [] ex) new = ?M"
    by (simp add: env_objects_def)
  have "set ns = ev_name ` set ex"
    using p(3) env_objects_dom [of "ex @ new"] by auto
  moreover have "uniqueAppendOrOverwriteEnvVars ex new =
      map (\<lambda>n. the (lookup ?M n)) ns @
      map (\<lambda>e. the (lookup m' (ev_name e))) (filter (\<lambda>e. lookup m' (ev_name e) \<noteq> None) new)"
    using p(1) by (simp add: uniqueAppendOrOverwriteEnvVars_def M Let_def foldl_collect)
  moreover have "filter (\<lambda>e. lookup m' (ev_name e) \<noteq> None) new = filter (\<lambda>e. ev_name e \<notin> ev_name ` set ex) new"
    using env_objects_dom [of "ex @ new"] by (intro filter_cong) (auto simp: p(4))
  moreover have "map (\<lambda>e. the (lookup m' (ev_name e))) (filter (\<lambda>e. ev_name e \<notin> ev_name ` set ex) new)
      = map (\<lambda>e. the (lookup ?M (ev_name e))) (filter (\<lambda>e. ev_name e \<notin> ev_name ` set ex) new)"
    by (intro map_cong) (auto simp: p(4))
  ultimately show ?thesis using p(2) by (intro exI [of _ ns]) (simp add: comp_def)
qed

lemma uniqueAppend_spec:
  shows "env_lookup (uniqueAppendOrOverwriteEnvVars ex new) n = env_lookup (ex @ new) n"
    and "set (map ev_name (uniqueAppendOrOverwriteEnvVars ex new)) = ev_name ` (set ex \<union> set new)"
    and "distinct (map ev_name new) \<Longrightarrow> distinct (map ev_name (uniqueAppendOrOverwriteEnvVars ex new))"
proof -
  let ?g = "\<lambda>n. the (lookup (env_objects (ex @ new)) n)"
  let ?new = "map ev_name (filter (\<lambda>e. ev_name e \<notin> ev_name ` set ex) new)"
  obtain ns where eq: "uniqueAppendOrOverwriteEnvVars ex new = map ?g (ns @ ?new)"
    and ns: "distinct ns" "set ns = ev_name ` set ex"
    using uniqueAppend_eq by blast
  have keys: "set (ns @ ?new) = ev_name ` (set ex \<union> set new)" using ns(2) by auto
  have name: "ev_name (?g n) = n" if "n \<in> set (ns @ ?new)" for n
  proof -
    have "n \<in> ev_name ` set (ex @ new)" using that unfolding keys by auto
    then obtain e where "lookup (env_objects (ex @ new)) n = Some e"
      using env_objects_dom [of "ex @ new" n] by auto
    with env_objects_name show ?thesis by auto
  qed
  have names: "map ev_name (map ?g (ns @ ?new)) = ns @ ?new"
    unfolding map_map by (rule map_idI) (simp only: comp_apply name)
  show "set (map ev_name (uniqueAppendOrOverwriteEnvVars ex new)) = ev_name ` (set ex \<union> set new)"
    unfolding eq names keys ..
  show "distinct (map ev_name (uniqueAppendOrOverwriteEnvVars ex new))" if "distinct (map ev_name new)"
    unfolding eq names using ns that by (auto simp: distinct_map_filter) (metis imageI)
  show "env_lookup (uniqueAppendOrOverwriteEnvVars ex new) n = env_lookup (ex @ new) n"
  proof (cases "n \<in> ev_name ` set (ex @ new)")
    case True
    then obtain e where e: "lookup (env_objects (ex @ new)) n = Some e"
      using env_objects_dom [of "ex @ new" n] by auto
    have "n \<in> set (ns @ ?new)" using True unfolding keys by auto
    then have "env_lookup (map ?g (ns @ ?new)) n = Some (ev_value e)"
      using env_lookup_map [of "ns @ ?new" ?g n] name e by (simp only: if_True option.sel)
    then show ?thesis unfolding eq using env_objects_value [of "ex @ new" n] e by simp
  next
    case False
    then have "n \<notin> set (ns @ ?new)" unfolding keys by auto
    then have "env_lookup (map ?g (ns @ ?new)) n = None"
      using env_lookup_map [of "ns @ ?new" ?g n] name by (simp only: if_False)
    moreover have "lookup (env_objects (ex @ new)) n = None"
      using False env_objects_dom [of "ex @ new" n] by blast
    ultimately show ?thesis unfolding eq using env_objects_value [of "ex @ new" n] by simp
  qed
qed


section \<open>Properties\<close>

lemma without_mount_backed:
  assumes "mounts_backed t" and "pt_containers t = [c]" and "ct_mounts c = ys @ m # zs"
    and "vm_name m \<notin> vm_name ` (set ys \<union> set zs)"
  shows "mounts_backed (without_mount m (ys @ zs) c t)"
proof -
  have "vm_name x \<in> vol_name ` {v \<in> set (pt_volumes t). vol_name v \<noteq> vm_name m}"
    if "x \<in> set ys \<union> set zs" for x
  proof -
    have "vm_name x \<in> vol_name ` set (pt_volumes t)"
      using assms(1-3) that by (auto simp: mounts_backed_def)
    moreover have "vm_name x \<in> vm_name ` (set ys \<union> set zs)" using that by (rule imageI)
    then have "vm_name x \<noteq> vm_name m" using assms(4) by metis
    ultimately show ?thesis by auto
  qed
  then show ?thesis by (auto simp: mounts_backed_def without_mount_def)
qed

text \<open>With one container and one mount at a path to unmount, \<open>addOrRemoveVolumeAndVolumeMount\<close>
  takes out that mount and the volumes of its name, then adds a volume and a mount for each
  claim to mount, in the order the map is iterated; every mount still has its volume.\<close>

theorem mounts_exchanged:
  assumes "sp_template (dc_spec d) = Some t" and "pt_containers t = [c]"
    and "ct_mounts c = ys @ m # zs" and "has_key unmount (vm_path m)"
    and "\<And>x. x \<in> set ys \<union> set zs \<Longrightarrow> \<not> has_key unmount (vm_path x) \<and> vm_name x \<noteq> vm_name m"
    and "distinct (map vol_name (pt_volumes t))" and "mounts_backed t"
  shows "addOrRemoveVolumeAndVolumeMount ord rnd mount unmount d = (Inr (), set_template
      (claims_added rnd (List.enumerate 0 (range_map ord mount)) (without_mount m (ys @ zs) c t)) d)
    \<and> mounts_backed
      (claims_added rnd (List.enumerate 0 (range_map ord mount)) (without_mount m (ys @ zs) c t))"
proof
  show "addOrRemoveVolumeAndVolumeMount ord rnd mount unmount d = (Inr (), set_template
      (claims_added rnd (List.enumerate 0 (range_map ord mount)) (without_mount m (ys @ zs) c t)) d)"
    by (rule addOrRemove_one) (use assms in auto)
  have "vm_name m \<notin> vm_name ` (set ys \<union> set zs)" using assms(5) by force
  then show "mounts_backed
      (claims_added rnd (List.enumerate 0 (range_map ord mount)) (without_mount m (ys @ zs) c t))"
    using without_mount_backed assms(2,3,7) by (intro claims_added_backed) auto
qed

text \<open>A deployment with one container that mounts the volumes of the given names at \<open>/name\<close>.\<close>

definition example_template :: "string list \<Rightarrow> pod_template" where
  "example_template ns = \<lparr>pt_labels = [], pt_annotations = [], pt_init = [],
     pt_containers = [empty_container\<lparr>ct_name := ''web'',
       ct_mounts := map (\<lambda>n. \<lparr>vm_name = n, vm_path = ''/'' @ n, vm_sub_path = []\<rparr>) ns\<rparr>],
     pt_volumes = map (\<lambda>n. \<lparr>vol_name = n, vol_claim = Some (n @ ''-pvc''), vol_empty_dir = False\<rparr>) ns\<rparr>"

definition example_dc :: "string list \<Rightarrow> dc" where
  "example_dc ns = \<lparr>dc_meta = named_meta ''web-app'',
     dc_spec = \<lparr>sp_replicas = 1, sp_strategy = ''Recreate'', sp_selector = [],
       sp_template = Some (example_template ns), sp_triggers = []\<rparr>,
     dc_status = no_status\<rparr>"

theorem mounts_exchanged_witness:
  "\<exists>t. addOrRemoveVolumeAndVolumeMount (\<lambda>ks. ks) (\<lambda>_. ''abcde'') [(''/new'', ''new-pvc'')] [(''/b'', ''b'')]
      (example_dc [''a'', ''b'']) = (Inr (), set_template t (example_dc [''a'', ''b'']))
    \<and> map vol_name (pt_volumes t) = [''a'', ''new-pvc-abcde-volume''] \<and> mounts_backed t"
proof -
  let ?m = "\<lambda>n. \<lparr>vm_name = n, vm_path = ''/'' @ n, vm_sub_path = []\<rparr>"
  let ?c = "hd (pt_containers (example_template [''a'', ''b'']))"
  let ?t = "claims_added (\<lambda>_. ''abcde'') (List.enumerate 0 (range_map (\<lambda>ks. ks) [(''/new'', ''new-pvc'')]))
      (without_mount (?m ''b'') ([?m ''a''] @ []) ?c (example_template [''a'', ''b'']))"
  have "addOrRemoveVolumeAndVolumeMount (\<lambda>ks. ks) (\<lambda>_. ''abcde'') [(''/new'', ''new-pvc'')] [(''/b'', ''b'')]
      (example_dc [''a'', ''b'']) = (Inr (), set_template ?t (example_dc [''a'', ''b''])) \<and> mounts_backed ?t"
    by (rule mounts_exchanged) (auto simp: example_dc_def example_template_def has_key_def lookup_Cons mounts_backed_def)
  moreover have "map vol_name (pt_volumes ?t) = [''a'', ''new-pvc-abcde-volume'']"
    by (simp add: claims_added_def without_mount_def template_with_claim_def added_volume_def example_template_def
        generateVolumeNameFromPVC_def range_map_def keys_of_def lookup_Cons)
  ultimately show ?thesis by (intro exI [of _ ?t]) (simp only: simp_thms)
qed

text \<open>The unmounting loop does to the mounts what deleting in a range does.\<close>

lemma unmount_loop_deletes:
  "distinct (map vol_name vols) \<Longrightarrow>
     map_sum id fst (unmount_loop u n i cur arr vols) =
     map_sum id snd (delete_loop (\<lambda>m. u (vm_path m)) n i cur arr f)"
proof (induction n arbitrary: i cur arr vols f)
  case (Suc n)
  show ?case
  proof (cases "u (vm_path (arr ! i)) \<and> \<not> length cur < i + 1")
    case True
    let ?vols = "filter (\<lambda>v. vol_name v \<noteq> vm_name (arr ! i)) vols"
    let ?cur = "take i cur @ drop (i + 1) cur"
    let ?arr = "?cur @ drop (length ?cur) arr"
    have d: "distinct (map vol_name ?vols)" using Suc.prems by (rule distinct_map_filter)
    have "unmount_loop u (Suc n) i cur arr vols = unmount_loop u n (i + 1) ?cur ?arr ?vols"
      unfolding unmount_loop.simps Let_def delete_in_range_key [OF Suc.prems]
      by (simp only: True if_True if_False bindR_simps prod.case simp_thms)
    moreover have "delete_loop (\<lambda>m. u (vm_path m)) (Suc n) i cur arr f =
        delete_loop (\<lambda>m. u (vm_path m)) n (i + 1) ?cur ?arr True"
      unfolding delete_loop.simps Let_def by (simp only: True if_True if_False simp_thms)
    ultimately show ?thesis by (simp only: Suc.IH [OF d])
  next
    case False
    then consider "\<not> u (vm_path (arr ! i))" | "u (vm_path (arr ! i))" "length cur < i + 1" by blast
    then show ?thesis
    proof cases
      case 1
      then show ?thesis using Suc.IH [OF Suc.prems, of "i + 1" cur arr f] by (simp add: Let_def)
    next
      case 2
      then show ?thesis by (simp add: Let_def)
    qed
  qed
qed simp

text \<open>When two mounts are to be removed in one pass and one of them is the last of the
  container, the loop runs past the end of the slice it shortens and panics; the deployment
  is not changed on the cluster.\<close>

theorem two_unmounts_panic:
  assumes "sp_template (dc_spec d) = Some t" and "pt_containers t = [c]"
    and "ct_mounts c = ms @ [m]" and "has_key unmount (vm_path m)"
    and "\<exists>x\<in>set ms. has_key unmount (vm_path x)" and "distinct (map vol_name (pt_volumes t))"
  shows "fst (addOrRemoveVolumeAndVolumeMount ord rnd mount unmount d) = Inl (Panic ''slice bounds out of range'')"
proof -
  obtain x where x: "x \<in> set ms" "has_key unmount (vm_path x)" using assms(5) by blast
  have "delete_loop (\<lambda>m. has_key unmount (vm_path m)) (length (ms @ [m])) 0 (ms @ [m]) (ms @ [m]) False
      = Inl (Panic ''slice bounds out of range'')"
    using delete_in_range_two_panics [of "\<lambda>m. has_key unmount (vm_path m)" x ms m] x assms(4)
    by (simp add: delete_in_range_def)
  then have "map_sum id fst (unmount_loop (has_key unmount) (length (ms @ [m])) 0 (ms @ [m]) (ms @ [m]) (pt_volumes t))
      = Inl (Panic ''slice bounds out of range'')"
    by (simp only: unmount_loop_deletes [OF assms(6), where f = False] map_sum.simps id_apply)
  then have "unmount_loop (has_key unmount) (length (ms @ [m])) 0 (ms @ [m]) (ms @ [m]) (pt_volumes t)
      = Inl (Panic ''slice bounds out of range'')"
    by (cases "unmount_loop (has_key unmount) (length (ms @ [m])) 0 (ms @ [m]) (ms @ [m]) (pt_volumes t)") simp_all
  then have "unmount_all (has_key unmount) d = (Inl (Panic ''slice bounds out of range''), d)"
    using assms(1-3) by (simp add: unmount_all_def bind_apply the_template_apply template_of_def op_apply)
  then show ?thesis
    using assms(1,2) by (simp add: addOrRemoveVolumeAndVolumeMount_def bind_apply the_template_apply template_of_def)
qed

theorem two_unmounts_panic_witness:
  "fst (addOrRemoveVolumeAndVolumeMount (\<lambda>ks. ks) (\<lambda>_. ''abcde'') [] [(''/a'', ''a''), (''/b'', ''b'')]
     (example_dc [''a'', ''b''])) = Inl (Panic ''slice bounds out of range'')"
  by (rule two_unmounts_panic [of _ "example_template [''a'', ''b'']" _
        "[\<lparr>vm_name = ''a'', vm_path = ''/a'', vm_sub_path = []\<rparr>]"])
    (auto simp: example_dc_def example_template_def has_key_def lookup_Cons)

text \<open>C29. Adding a claim and copying the volumes of another deployment keep the invariant that
  every mount of a container has its volume in the pod, also when they fail.\<close>

theorem mounts_stay_backed:
  assumes "sp_template (dc_spec d) = Some t" and "mounts_backed t"
    and "sp_template (dc_spec cur) = Some ct" and "mounts_backed ct" and "mc \<in> set (pt_containers ct)"
  shows "(case sp_template (dc_spec (snd (AddPVCToDeploymentConfig rnd pvc path d))) of
      None \<Rightarrow> False | Some t' \<Rightarrow> mounts_backed t')
    \<and> (case sp_template (dc_spec (snd (copyVolumesAndVolumeMounts cur mc d))) of
      None \<Rightarrow> False | Some t' \<Rightarrow> mounts_backed t')"
proof
  show "case sp_template (dc_spec (snd (AddPVCToDeploymentConfig rnd pvc path d))) of
      None \<Rightarrow> False | Some t' \<Rightarrow> mounts_backed t'"
  proof (cases "pt_containers t = []")
    case True
    with assms(1,2) show ?thesis by (simp add: AddPVC_no_containers mounts_backed_def)
  next
    case False
    with assms(1,2) show ?thesis by (simp add: AddPVC_ok template_with_claim_backed)
  qed
  show "case sp_template (dc_spec (snd (copyVolumesAndVolumeMounts cur mc d))) of
      None \<Rightarrow> False | Some t' \<Rightarrow> mounts_backed t'"
    using copied_backed [OF assms(2,4,5)] by (simp add: copyVolumes_ok [OF assms(1,3)])
qed

theorem mounts_stay_backed_witness:
  "case sp_template (dc_spec (snd (AddPVCToDeploymentConfig ''abcde'' ''pvc'' ''/x'' (example_dc [''a''])))) of
      None \<Rightarrow> False | Some t' \<Rightarrow> mounts_backed t'"
proof -
  let ?t = "example_template [''a'']"
  have t: "sp_template (dc_spec (example_dc [''a''])) = Some ?t" by (simp add: example_dc_def)
  have b: "mounts_backed ?t" by (simp add: mounts_backed_def example_template_def)
  show ?thesis
    using mounts_stay_backed [OF t b t b, of "hd (pt_containers ?t)" "''abcde''" "''pvc''" "''/x''"]
    by (simp add: example_template_def)
qed

text \<open>\<open>removeTracesOfSupervisordFromDC\<close> succeeds on a deployment with the volume of supervisord
  and a mount of it, and leaves no volume, mount or copying init container of that name; with
  distinct names everything else stays.\<close>

theorem supervisord_removed:
  assumes "sp_template (dc_spec d) = Some t" and "distinct (map vol_name (pt_volumes t))"
    and "distinct (map ct_name (pt_init t))"
    and "\<And>c. c \<in> set (pt_containers t) \<Longrightarrow> distinct (map vm_name (ct_mounts c))"
    and "vol = getAppRootVolumeName (om_name (dc_meta d))" and "vol \<in> vol_name ` set (pt_volumes t)"
    and "\<exists>c\<in>set (pt_containers t). vol \<in> vm_name ` set (ct_mounts c)"
  shows "removeTracesOfSupervisordFromDC d = (Inr (), set_template (without_supervisord vol t) d)
    \<and> vol \<notin> vol_name ` set (pt_volumes (without_supervisord vol t))
    \<and> vol \<notin> vm_name ` (\<Union>c\<in>set (pt_containers (without_supervisord vol t)). set (ct_mounts c))
    \<and> ''copy-files-to-volume'' \<notin> ct_name ` set (pt_init (without_supervisord vol t))"
  using removeTraces_ok [OF assms] by (auto simp: without_supervisord_def without_mounts_def)

theorem supervisord_removed_witness:
  "removeTracesOfSupervisordFromDC (example_dc [''data'', ''web-app-s2idata'']) =
     (Inr (), set_template (without_supervisord ''web-app-s2idata'' (example_template [''data'', ''web-app-s2idata'']))
        (example_dc [''data'', ''web-app-s2idata'']))"
  by (rule supervisord_removed [THEN conjunct1])
    (auto simp: example_dc_def example_template_def getAppRootVolumeName_def named_meta_def)

text \<open>\<open>uniqueAppendOrOverwriteEnvVars\<close> keeps the names of both lists, each name has the value it
  has last in the two lists together, and when the new variables have distinct names no name
  occurs twice.\<close>

theorem env_overwritten:
  assumes "distinct (map ev_name new)"
  shows "distinct (map ev_name (uniqueAppendOrOverwriteEnvVars ex new))
    \<and> set (map ev_name (uniqueAppendOrOverwriteEnvVars ex new)) = ev_name ` (set ex \<union> set new)
    \<and> env_lookup (uniqueAppendOrOverwriteEnvVars ex new) n = env_lookup (ex @ new) n"
  using uniqueAppend_spec assms by blast

theorem env_overwritten_witness:
  "env_lookup (uniqueAppendOrOverwriteEnvVars [\<lparr>ev_name = ''A'', ev_value = ''1''\<rparr>, \<lparr>ev_name = ''B'', ev_value = ''2''\<rparr>]
     [\<lparr>ev_name = ''A'', ev_value = ''3''\<rparr>]) ''A'' = Some ''3''"
  using env_overwritten [of "[\<lparr>ev_name = ''A'', ev_value = ''3''\<rparr>]"
      "[\<lparr>ev_name = ''A'', ev_value = ''1''\<rparr>, \<lparr>ev_name = ''B'', ev_value = ''2''\<rparr>]" "''A''"]
  by (simp add: env_lookup_def)

text \<open>The volume name of a deployment named by \<open>NamespaceOpenShiftObject\<close>, the longest name the
  program derives, stays within the 63 bytes of a DNS label; the object name itself has at
  most 54 and no slash from the component.\<close>

theorem object_names_bounded:
  assumes "NamespaceOpenShiftObject cmp app = Inr n"
  shows "length n \<le> 54 \<and> length (getAppRootVolumeName n) \<le> 63
    \<and> n = take 54 (replace_char CHR ''/'' CHR ''-'' cmp @ ''-'' @ app)"
  using assms by (auto simp: NamespaceOpenShiftObject_Inr getAppRootVolumeName_def)

theorem object_names_bounded_witness:
  "\<exists>n. NamespaceOpenShiftObject ''web/ui'' ''app'' = Inr n \<and> n = ''web-ui-app'' \<and> length (getAppRootVolumeName n) \<le> 63"
proof -
  have "NamespaceOpenShiftObject ''web/ui'' ''app'' = Inr ''web-ui-app''"
    by (simp add: NamespaceOpenShiftObject_Inr replace_char_def)
  with object_names_bounded [OF this] show ?thesis by blast
qed

end
