(* ===== verification/LocalConfig.thy ===== *)
theory LocalConfig
  imports EnvVars
begin

text \<open>
  \<open>pkg/config/config.go\<close> and \<open>pkg/config/storage.go\<close>: the local configuration of a
  component, its parameters, its list of URLs and its list of storages. Every setter writes
  the whole configuration back to its file. The operations run on the pair of the
  \<open>LocalConfigInfo\<close> and the disk.
\<close>


section \<open>Source types\<close>

text \<open>\<open>SrcType\<close> is a string type with four named constants.\<close>

type_synonym SrcType = string

definition GIT :: SrcType where "GIT = ''git''"
definition LOCAL :: SrcType where "LOCAL = ''local''"
definition BINARY :: SrcType where "BINARY = ''binary''"
definition NONE :: SrcType where "NONE = []"

definition GetSrcType :: "string \<Rightarrow> SrcType result" where
  "GetSrcType ctStr =
     (if to_lower ctStr = GIT then Inr GIT
      else if to_lower ctStr = LOCAL then Inr LOCAL
      else if to_lower ctStr = BINARY then Inr BINARY
      else fails ''Unsupported component source type: %s'' [ctStr])"


section \<open>The configuration\<close>

record ComponentStorageSettings =
  css_name :: string
  css_size :: string
  css_path :: string

record ConfigUrl =
  cu_name :: string
  cu_port :: int

record ComponentSettings =
  cs_type :: "string option"
  cs_source_location :: "string option"
  cs_ref :: "string option"
  cs_source_type :: "SrcType option"
  cs_ports :: "string list option"
  cs_application :: "string option"
  cs_project :: "string option"
  cs_name :: "string option"
  cs_min_memory :: "string option"
  cs_max_memory :: "string option"
  cs_storage :: "ComponentStorageSettings list option"
  cs_ignore :: "bool option"
  cs_min_cpu :: "string option"
  cs_max_cpu :: "string option"
  cs_envs :: "env_var_list option"
  cs_url :: "ConfigUrl list option"

definition no_settings :: ComponentSettings where
  "no_settings = \<lparr>cs_type = None, cs_source_location = None, cs_ref = None, cs_source_type = None,
     cs_ports = None, cs_application = None, cs_project = None, cs_name = None,
     cs_min_memory = None, cs_max_memory = None, cs_storage = None, cs_ignore = None,
     cs_min_cpu = None, cs_max_cpu = None, cs_envs = None, cs_url = None\<rparr>"

text \<open>The fields as \<open>reflect\<close> sees them: name, nil test, reset.\<close>

definition settings_table ::
  "(string \<times> (ComponentSettings \<Rightarrow> bool) \<times> (ComponentSettings \<Rightarrow> ComponentSettings)) list" where
  "settings_table =
     [(''Type'', \<lambda>c. cs_type c = None, cs_type_update (\<lambda>_. None)),
      (''SourceLocation'', \<lambda>c. cs_source_location c = None, cs_source_location_update (\<lambda>_. None)),
      (''Ref'', \<lambda>c. cs_ref c = None, cs_ref_update (\<lambda>_. None)),
      (''SourceType'', \<lambda>c. cs_source_type c = None, cs_source_type_update (\<lambda>_. None)),
      (''Ports'', \<lambda>c. cs_ports c = None, cs_ports_update (\<lambda>_. None)),
      (''Application'', \<lambda>c. cs_application c = None, cs_application_update (\<lambda>_. None)),
      (''Project'', \<lambda>c. cs_project c = None, cs_project_update (\<lambda>_. None)),
      (''Name'', \<lambda>c. cs_name c = None, cs_name_update (\<lambda>_. None)),
      (''MinMemory'', \<lambda>c. cs_min_memory c = None, cs_min_memory_update (\<lambda>_. None)),
      (''MaxMemory'', \<lambda>c. cs_max_memory c = None, cs_max_memory_update (\<lambda>_. None)),
      (''Storage'', \<lambda>c. cs_storage c = None, cs_storage_update (\<lambda>_. None)),
      (''Ignore'', \<lambda>c. cs_ignore c = None, cs_ignore_update (\<lambda>_. None)),
      (''MinCPU'', \<lambda>c. cs_min_cpu c = None, cs_min_cpu_update (\<lambda>_. None)),
      (''MaxCPU'', \<lambda>c. cs_max_cpu c = None, cs_max_cpu_update (\<lambda>_. None)),
      (''Envs'', \<lambda>c. cs_envs c = None, cs_envs_update (\<lambda>_. None)),
      (''Url'', \<lambda>c. cs_url c = None, cs_url_update (\<lambda>_. None))]"

definition settings_fields :: "ComponentSettings fields" where
  "settings_fields = \<lparr>fld_names = map fst settings_table,
     fld_nil = (\<lambda>n. fst (the (map_of settings_table n))),
     fld_reset = (\<lambda>n. snd (the (map_of settings_table n)))\<rparr>"

type_synonym proxy_config = "type_meta \<times> ComponentSettings"

record LocalConfigInfo =
  lci_filename :: string
  lci_type_meta :: type_meta
  lci_settings :: ComponentSettings
  lci_file_exists :: bool

type_synonym local_state = "LocalConfigInfo \<times> disk"

definition lci_state :: "(local_state, LocalConfigInfo) op" where
  "lci_state = bind get_state (\<lambda>s. return (fst s))"

definition set_settings :: "(ComponentSettings \<Rightarrow> ComponentSettings) \<Rightarrow> (local_state, unit) op" where
  "set_settings f = modify (\<lambda>(lci, d). (lci\<lparr>lci_settings := f (lci_settings lci)\<rparr>, d))"

definition NewLocalConfig_meta :: type_meta where
  "NewLocalConfig_meta = \<lparr>tm_kind = ''LocalConfig'', tm_api_version = ''odo.openshift.io/v1alpha1''\<rparr>"

definition newProxyLocalConfig :: proxy_config where
  "newProxyLocalConfig = (NewLocalConfig_meta, no_settings)"

text \<open>\<open>env\<close> is the answer of \<open>os.LookupEnv\<close>, \<open>cwd\<close> that of \<open>os.Getwd\<close>.\<close>

definition getLocalConfigFile :: "string option \<Rightarrow> string result \<Rightarrow> string \<Rightarrow> string result" where
  "getLocalConfigFile env cwd cfgDir =
     (case env of
        Some env \<Rightarrow> Inr env
      | None \<Rightarrow> bindR (if cfgDir = [] then cwd else Inr cfgDir)
                 (\<lambda>cfgDir. Inr (path_join [cfgDir, ''.odo'', ''config.yaml''])))"

definition getFromFile :: "proxy_config yaml \<Rightarrow> string \<Rightarrow> (disk, proxy_config) op" where
  "getFromFile y filename = GetFromFile y newProxyLocalConfig filename"

definition NewLocalConfigInfo ::
  "proxy_config yaml \<Rightarrow> string option \<Rightarrow> string result \<Rightarrow> string \<Rightarrow> (disk, LocalConfigInfo) op" where
  "NewLocalConfigInfo y env cwd cfgDir =
     bind (wrapping ''unable to get odo config file'' [] (lift (getLocalConfigFile env cwd cfgDir)))
       (\<lambda>configFile. bind get_state (\<lambda>d.
         let c = \<lparr>lci_filename = configFile, lci_type_meta = NewLocalConfig_meta,
                  lci_settings = no_settings, lci_file_exists = True\<rparr>
         in if not_exist d configFile then return (c\<lparr>lci_file_exists := False\<rparr>)
            else bind (getFromFile y configFile) (\<lambda>(tm, cs).
                   return (c\<lparr>lci_type_meta := tm, lci_settings := cs\<rparr>))))"

definition writeToFile :: "proxy_config yaml \<Rightarrow> (local_state, unit) op" where
  "writeToFile y = bind lci_state (\<lambda>lci.
     on_snd (WriteToFile y (lci_type_meta lci, lci_settings lci) (lci_filename lci)))"


section \<open>Supported parameters\<close>

definition supportedLocalParameterDescriptions :: "string gomap" where
  "supportedLocalParameterDescriptions =
     [(''Type'', ''The type of component''),
      (''Name'', ''The name of the component''),
      (''Application'', ''Application is the name of application the component needs to be part of''),
      (''Project'', ''Project is the name of the project the component is part of''),
      (''SourceLocation'', ''The path indicates the location of binary file or git source''),
      (''SourceType'', ''Type of component source - git/binary/local''),
      (''Ref'', ''Git ref to use for creating component from git source''),
      (''Ports'', ''Ports to be opened in the component''),
      (''MinMemory'', ''The minimum memory a component is provided''),
      (''MaxMemory'', ''The maximum memory a component can consume''),
      (''Memory'', ''The minimum and maximum memory a component can consume''),
      (''Ignore'', ''Consider the .odoignore file for push and watch''),
      (''MinCPU'', ''The minimum CPU a component can consume''),
      (''MaxCPU'', ''The maximum CPU a component can consume''),
      (''Storage'', ''Storage of the component''),
      (''CPU'', ''The minimum and maximum CPU a component can consume''),
      (''Url'', ''URL to access the component'')]"

text \<open>
  The keys come sorted, in whatever order the map delivers them (\<open>GetSortedKeys_eq\<close>), so the
  package variables are computed with one order.
\<close>

definition GetLocallySupportedParameters :: "string list" where
  "GetLocallySupportedParameters = GetSortedKeys (\<lambda>ks. ks) supportedLocalParameterDescriptions"

definition lowerCaseLocalParameters :: "bool gomap" where
  "lowerCaseLocalParameters = GetLowerCaseParameters GetLocallySupportedParameters"

definition FormatLocallySupportedParameters :: string where
  "FormatLocallySupportedParameters =
     (let body = foldl (\<lambda>r v. r @ v @ '' - '' @ get_str supportedLocalParameterDescriptions v @ [newline])
                   [] GetLocallySupportedParameters
      in [newline] @ ''Available Local Parameters:'' @ [newline] @ body)"

definition asLocallySupportedParameter :: "string \<Rightarrow> string \<times> bool" where
  "asLocallySupportedParameter param =
     (let lower = to_lower param
      in (lower, case lookup lowerCaseLocalParameters lower of None \<Rightarrow> False | Some b \<Rightarrow> b))"


section \<open>Setting, testing and deleting a parameter\<close>

text \<open>What a caller passes as the \<open>interface{}\<close> value.\<close>

datatype cfg_value =
    VString string
  | VStorage ComponentStorageSettings
  | VUrl ConfigUrl
  | VOther

fun as_string :: "cfg_value \<Rightarrow> string" where
  "as_string (VString s) = s"
| "as_string _ = []"

fun as_storage :: "cfg_value \<Rightarrow> ComponentStorageSettings" where
  "as_storage (VStorage s) = s"
| "as_storage _ = \<lparr>css_name = [], css_size = [], css_path = []\<rparr>"

fun as_url :: "cfg_value \<Rightarrow> ConfigUrl result" where
  "as_url (VUrl u) = Inr u"
| "as_url _ = Inl (Panic ''interface conversion: not config.ConfigUrl'')"

definition append_opt :: "'a \<Rightarrow> 'a list option \<Rightarrow> 'a list option" where
  "append_opt x xs = (case xs of Some ys \<Rightarrow> Some (ys @ [x]) | None \<Rightarrow> Some [x])"

definition set_parameter :: "string \<Rightarrow> cfg_value \<Rightarrow> (ComponentSettings \<Rightarrow> ComponentSettings) result" where
  "set_parameter parameter v =
     (let strValue = as_string v in
      if parameter = ''type'' then Inr (cs_type_update (\<lambda>_. Some strValue))
      else if parameter = ''application'' then Inr (cs_application_update (\<lambda>_. Some strValue))
      else if parameter = ''project'' then Inr (cs_project_update (\<lambda>_. Some strValue))
      else if parameter = ''sourcetype'' then
        bindR (wrapR ''unable to set %s to %s'' [parameter, strValue] (GetSrcType strValue))
          (\<lambda>t. Inr (cs_source_type_update (\<lambda>_. Some t)))
      else if parameter = ''ref'' then Inr (cs_ref_update (\<lambda>_. Some strValue))
      else if parameter = ''sourcelocation'' then Inr (cs_source_location_update (\<lambda>_. Some strValue))
      else if parameter = ''ports'' then Inr (cs_ports_update (\<lambda>_. Some (split_on CHR '','' strValue)))
      else if parameter = ''name'' then Inr (cs_name_update (\<lambda>_. Some strValue))
      else if parameter = ''minmemory'' then Inr (cs_min_memory_update (\<lambda>_. Some strValue))
      else if parameter = ''maxmemory'' then Inr (cs_max_memory_update (\<lambda>_. Some strValue))
      else if parameter = ''memory'' then
        Inr (\<lambda>c. c\<lparr>cs_max_memory := Some strValue, cs_min_memory := Some strValue\<rparr>)
      else if parameter = ''ignore'' then
        bindR (wrapR ''unable to set %s to %s'' [parameter, strValue] (parse_bool (to_lower strValue)))
          (\<lambda>b. Inr (cs_ignore_update (\<lambda>_. Some b)))
      else if parameter = ''mincpu'' then Inr (cs_min_cpu_update (\<lambda>_. Some strValue))
      else if parameter = ''maxcpu'' then Inr (cs_max_cpu_update (\<lambda>_. Some strValue))
      else if parameter = ''storage'' then Inr (cs_storage_update (append_opt (as_storage v)))
      else if parameter = ''cpu'' then
        Inr (\<lambda>c. c\<lparr>cs_min_cpu := Some strValue, cs_max_cpu := Some strValue\<rparr>)
      else if parameter = ''url'' then
        bindR (as_url v) (\<lambda>u. Inr (cs_url_update (append_opt u)))
      else Inr (\<lambda>c. c))"

definition unknown_local :: "string \<Rightarrow> (local_state, 'a) op" where
  "unknown_local parameter =
     failing ''unknown parameter :'%s' is not a parameter in local odo config'' [parameter]"

definition SetConfiguration :: "proxy_config yaml \<Rightarrow> string \<Rightarrow> cfg_value \<Rightarrow> (local_state, unit) op" where
  "SetConfiguration y parameter v =
     (case asLocallySupportedParameter parameter of
        (p, True) \<Rightarrow> bind (lift (set_parameter p v)) (\<lambda>f. bind (set_settings f) (\<lambda>_. writeToFile y))
      | (p, False) \<Rightarrow> unknown_local parameter)"

definition DeleteConfigDir :: "(local_state, unit) op" where
  "DeleteConfigDir = bind lci_state (\<lambda>lci. on_snd (remove_all (path_dir (lci_filename lci))))"

definition LocalIsSet :: "LocalConfigInfo \<Rightarrow> string \<Rightarrow> bool" where
  "LocalIsSet lci parameter =
     (let cs = lci_settings lci; p = to_lower parameter in
      if p = ''cpu'' then
        (cs_min_cpu cs \<noteq> None \<and> cs_max_cpu cs \<noteq> None) \<and> the (cs_min_cpu cs) = the (cs_max_cpu cs)
      else if p = ''memory'' then
        (cs_min_memory cs \<noteq> None \<and> cs_max_memory cs \<noteq> None)
          \<and> the (cs_min_memory cs) = the (cs_max_memory cs)
      else IsSet settings_fields cs parameter)"

definition LocalDeleteConfiguration :: "proxy_config yaml \<Rightarrow> string \<Rightarrow> (local_state, unit) op" where
  "LocalDeleteConfiguration y parameter =
     (case asLocallySupportedParameter parameter of
        (p, True) \<Rightarrow>
          bind (if p = ''cpu'' then set_settings (\<lambda>c. c\<lparr>cs_min_cpu := None, cs_max_cpu := None\<rparr>)
                else if p = ''memory'' then
                  set_settings (\<lambda>c. c\<lparr>cs_min_memory := None, cs_max_memory := None\<rparr>)
                else bind lci_state (\<lambda>lci.
                  bind (lift (DeleteConfiguration settings_fields True (lci_settings lci) p))
                    (\<lambda>cs. set_settings (\<lambda>_. cs))))
            (\<lambda>_. writeToFile y)
      | (p, False) \<Rightarrow> unknown_local parameter)"

text \<open>Both loops delete from the slice they range over.\<close>

definition DeleteUrl :: "proxy_config yaml \<Rightarrow> string \<Rightarrow> (local_state, unit) op" where
  "DeleteUrl y parameter =
     bind lci_state (\<lambda>lci.
     bind (lift (case cs_url (lci_settings lci) of
              None \<Rightarrow> Inl (Panic ''nil pointer dereference: Url'')
            | Some urls \<Rightarrow> delete_in_range (\<lambda>u. cu_name u = parameter) urls)) (\<lambda>(found, urls).
     bind (set_settings (cs_url_update (\<lambda>_. Some urls))) (\<lambda>_. writeToFile y)))"

definition LocalGetStorage :: "LocalConfigInfo \<Rightarrow> ComponentStorageSettings list" where
  "LocalGetStorage lci = (case cs_storage (lci_settings lci) of None \<Rightarrow> [] | Some s \<Rightarrow> s)"

definition DeleteFromConfigurationList ::
  "proxy_config yaml \<Rightarrow> string \<Rightarrow> string \<Rightarrow> (local_state, unit) op" where
  "DeleteFromConfigurationList y parameter v =
     (case asLocallySupportedParameter parameter of
        (p, True) \<Rightarrow>
          (if p = ''storage'' then
             bind lci_state (\<lambda>lci.
             bind (lift (delete_in_range (\<lambda>s. css_name s = v) (LocalGetStorage lci))) (\<lambda>(found, storages).
             bind (set_settings (cs_storage_update (map_option (\<lambda>_. storages)))) (\<lambda>_. writeToFile y)))
           else unknown_local parameter)
      | (p, False) \<Rightarrow> unknown_local parameter)"

definition SetComponentSettings :: "proxy_config yaml \<Rightarrow> ComponentSettings \<Rightarrow> (local_state, unit) op" where
  "SetComponentSettings y cs = bind (set_settings (\<lambda>_. cs)) (\<lambda>_. writeToFile y)"

definition SetEnvVars :: "proxy_config yaml \<Rightarrow> env_var_list \<Rightarrow> (local_state, unit) op" where
  "SetEnvVars y envVars = bind (set_settings (cs_envs_update (\<lambda>_. Some envVars))) (\<lambda>_. writeToFile y)"


section \<open>Getters\<close>

definition LocalGetEnvVars :: "LocalConfigInfo \<Rightarrow> env_var_list" where
  "LocalGetEnvVars lci = (case cs_envs (lci_settings lci) of None \<Rightarrow> [] | Some v \<Rightarrow> v)"

definition LocalGetType :: "LocalConfigInfo \<Rightarrow> string" where
  "LocalGetType lci = (case cs_type (lci_settings lci) of None \<Rightarrow> [] | Some v \<Rightarrow> v)"

definition LocalGetSourceLocation :: "LocalConfigInfo \<Rightarrow> string" where
  "LocalGetSourceLocation lci = (case cs_source_location (lci_settings lci) of None \<Rightarrow> [] | Some v \<Rightarrow> v)"

definition LocalGetRef :: "LocalConfigInfo \<Rightarrow> string" where
  "LocalGetRef lci = (case cs_ref (lci_settings lci) of None \<Rightarrow> [] | Some v \<Rightarrow> v)"

definition LocalGetSourceType :: "LocalConfigInfo \<Rightarrow> string" where
  "LocalGetSourceType lci = (case cs_source_type (lci_settings lci) of None \<Rightarrow> [] | Some v \<Rightarrow> v)"

definition LocalGetApplication :: "LocalConfigInfo \<Rightarrow> string" where
  "LocalGetApplication lci = (case cs_application (lci_settings lci) of None \<Rightarrow> [] | Some v \<Rightarrow> v)"

definition LocalGetProject :: "LocalConfigInfo \<Rightarrow> string" where
  "LocalGetProject lci = (case cs_project (lci_settings lci) of None \<Rightarrow> [] | Some v \<Rightarrow> v)"

definition LocalGetName :: "LocalConfigInfo \<Rightarrow> string" where
  "LocalGetName lci = (case cs_name (lci_settings lci) of None \<Rightarrow> [] | Some v \<Rightarrow> v)"

definition LocalGetMinMemory :: "LocalConfigInfo \<Rightarrow> string" where
  "LocalGetMinMemory lci = (case cs_min_memory (lci_settings lci) of None \<Rightarrow> [] | Some v \<Rightarrow> v)"

definition LocalGetMaxMemory :: "LocalConfigInfo \<Rightarrow> string" where
  "LocalGetMaxMemory lci = (case cs_max_memory (lci_settings lci) of None \<Rightarrow> [] | Some v \<Rightarrow> v)"

definition LocalGetMinCPU :: "LocalConfigInfo \<Rightarrow> string" where
  "LocalGetMinCPU lci = (case cs_min_cpu (lci_settings lci) of None \<Rightarrow> [] | Some v \<Rightarrow> v)"

definition LocalGetMaxCPU :: "LocalConfigInfo \<Rightarrow> string" where
  "LocalGetMaxCPU lci = (case cs_max_cpu (lci_settings lci) of None \<Rightarrow> [] | Some v \<Rightarrow> v)"

definition LocalGetPorts :: "LocalConfigInfo \<Rightarrow> string list" where
  "LocalGetPorts lci = (case cs_ports (lci_settings lci) of None \<Rightarrow> [] | Some v \<Rightarrow> v)"

definition LocalGetIgnore :: "LocalConfigInfo \<Rightarrow> bool" where
  "LocalGetIgnore lci = (case cs_ignore (lci_settings lci) of None \<Rightarrow> False | Some v \<Rightarrow> v)"

definition LocalGetUrl :: "LocalConfigInfo \<Rightarrow> ConfigUrl list" where
  "LocalGetUrl lci = (case cs_url (lci_settings lci) of None \<Rightarrow> [] | Some v \<Rightarrow> v)"

lemmas local_getters =
  LocalGetEnvVars_def LocalGetType_def LocalGetSourceLocation_def LocalGetRef_def
  LocalGetSourceType_def LocalGetApplication_def LocalGetProject_def LocalGetName_def
  LocalGetMinMemory_def LocalGetMaxMemory_def LocalGetMinCPU_def LocalGetMaxCPU_def
  LocalGetPorts_def LocalGetIgnore_def LocalGetUrl_def LocalGetStorage_def

text \<open>
  \<open>strings.Trim(s, ".odo")\<close> strips the bytes \<open>.\<close>, \<open>o\<close> and \<open>d\<close> from both ends, not the suffix.
  \<open>parse\<close> is \<open>url.Parse\<close>; \<open>abs_path\<close> is the path that \<open>GetAbsPath\<close> gives in the process
  environment, also beside an error: the error is dropped. \<open>FromSlash\<close> is the identity where the separator is a slash.
\<close>

definition trim_odo :: "string \<Rightarrow> string" where
  "trim_odo s = strip_suffix (\<lambda>c. c \<in> set ''.odo'') (dropWhile (\<lambda>c. c \<in> set ''.odo'') s)"

definition GetOSSourcePath ::
  "(string \<Rightarrow> parsed_url result) \<Rightarrow> (string \<Rightarrow> string) \<Rightarrow> LocalConfigInfo \<Rightarrow> string result" where
  "GetOSSourcePath parse abs_path lci =
     (let sourceType = LocalGetSourceType lci;
          sourceLocation = LocalGetSourceLocation lci;
          componentContext = trim_odo (path_dir (lci_filename lci))
      in if sourceLocation = [] then fails ''Blank source location provided'' []
         else if sourceType = GIT then Inr sourceLocation
         else if (case parse sourceLocation of Inl _ \<Rightarrow> True
                  | Inr u \<Rightarrow> url_scheme u = ''https'' \<or> url_scheme u = ''http'')
         then fails ''URL %s passed even though source type is: %s'' [sourceLocation, sourceType]
         else Inr (abs_path (path_join [componentContext, sourceLocation])))"


section \<open>The storage list\<close>

definition LocalStorageCreate ::
  "proxy_config yaml \<Rightarrow> string \<Rightarrow> string \<Rightarrow> string \<Rightarrow> (local_state, ComponentStorageSettings) op" where
  "LocalStorageCreate y name sz path =
     (let storage = \<lparr>css_name = name, css_size = sz, css_path = path\<rparr>
      in bind (SetConfiguration y ''storage'' (VStorage storage)) (\<lambda>_. return storage))"

fun storage_exists_in :: "string \<Rightarrow> ComponentStorageSettings list \<Rightarrow> bool" where
  "storage_exists_in storageName [] = False"
| "storage_exists_in storageName (storage # ss) =
     (if storageName = css_name storage then True else storage_exists_in storageName ss)"

definition LocalStorageExists :: "LocalConfigInfo \<Rightarrow> string \<Rightarrow> bool" where
  "LocalStorageExists lci storageName = storage_exists_in storageName (LocalGetStorage lci)"

definition LocalStorageList :: "LocalConfigInfo \<Rightarrow> ComponentStorageSettings list" where
  "LocalStorageList lci = foldl (\<lambda>storageList s. storageList @
     [\<lparr>css_name = css_name s, css_size = css_size s, css_path = css_path s\<rparr>]) [] (LocalGetStorage lci)"

fun validate_storage_in ::
  "string \<Rightarrow> string \<Rightarrow> ComponentStorageSettings list \<Rightarrow> unit result" where
  "validate_storage_in storageName storagePath [] = Inr ()"
| "validate_storage_in storageName storagePath (storage # ss) =
     (if css_name storage = storageName then
        fails ''there already is a storage with the name %s'' [storageName]
      else if css_path storage = storagePath then
        fails ''there already is a storage mounted at %s'' [storagePath]
      else validate_storage_in storageName storagePath ss)"

definition LocalValidateStorage :: "LocalConfigInfo \<Rightarrow> string \<Rightarrow> string \<Rightarrow> unit result" where
  "LocalValidateStorage lci storageName storagePath =
     validate_storage_in storageName storagePath (LocalGetStorage lci)"

definition LocalStorageDelete :: "proxy_config yaml \<Rightarrow> string \<Rightarrow> (local_state, unit) op" where
  "LocalStorageDelete y name = bind lci_state (\<lambda>lci.
     if \<not> LocalStorageExists lci name then failing ''storage named %s doesn't exists'' [name]
     else DeleteFromConfigurationList y ''storage'' name)"

definition LocalGetMountPath :: "LocalConfigInfo \<Rightarrow> string \<Rightarrow> string" where
  "LocalGetMountPath lci storageName =
     foldl (\<lambda>mPath s. if css_name s = storageName then css_path s else mPath) [] (LocalStorageList lci)"


section \<open>Facts\<close>

lemma mem_supported: "p \<in> set GetLocallySupportedParameters \<longleftrightarrow> p \<in> set (map fst supportedLocalParameterDescriptions)"
  by (simp add: GetLocallySupportedParameters_def GetSortedKeys_def range_map_def keys_of_def comp_def)

text \<open>The parameters \<open>SetConfiguration\<close> knows, in lower case.\<close>

definition local_parameters :: "string list" where
  "local_parameters =
     [''type'', ''name'', ''application'', ''project'', ''sourcelocation'', ''sourcetype'', ''ref'',
      ''ports'', ''minmemory'', ''maxmemory'', ''memory'', ''ignore'', ''mincpu'', ''maxcpu'',
      ''storage'', ''cpu'', ''url'']"

lemma lower_supported: "to_lower ` set GetLocallySupportedParameters = set local_parameters"
proof -
  have "map to_lower (map fst supportedLocalParameterDescriptions) = local_parameters"
    by code_simp
  then have "to_lower ` set (map fst supportedLocalParameterDescriptions) = set local_parameters"
    by (metis set_map)
  then show ?thesis using mem_supported by blast
qed

lemma asLocallySupportedParameter_eq:
  "asLocallySupportedParameter p = (to_lower p, to_lower p \<in> set local_parameters)"
  by (auto simp: asLocallySupportedParameter_def lowerCaseLocalParameters_def Let_def
      GetLowerCaseParameters_def lookup_foldl_put lower_supported split: option.split)

lemma foldl_append_map: "foldl (\<lambda>acc x. acc @ [f x]) [] xs = map f xs"
  using foldl_snoc [of f "[]" xs] by simp

lemma LocalStorageList_eq [simp]: "LocalStorageList lci = LocalGetStorage lci"
proof -
  have "(\<lambda>s. \<lparr>css_name = css_name s, css_size = css_size s, css_path = css_path s\<rparr>)
      = (\<lambda>s. s :: ComponentStorageSettings)" by auto
  then show ?thesis unfolding LocalStorageList_def foldl_append_map by simp
qed

lemma LocalStorageExists_iff [simp]:
  "LocalStorageExists lci n \<longleftrightarrow> n \<in> css_name ` set (LocalGetStorage lci)"
proof -
  have "storage_exists_in n ss \<longleftrightarrow> n \<in> css_name ` set ss" for ss
    by (induction ss) auto
  then show ?thesis by (simp add: LocalStorageExists_def)
qed

text \<open>The fields by their names in lower case.\<close>

definition settings_by_lower :: "(string \<times> string) list" where
  "settings_by_lower =
     [(''type'', ''Type''), (''sourcelocation'', ''SourceLocation''), (''ref'', ''Ref''),
      (''sourcetype'', ''SourceType''), (''ports'', ''Ports''), (''application'', ''Application''),
      (''project'', ''Project''), (''name'', ''Name''), (''minmemory'', ''MinMemory''),
      (''maxmemory'', ''MaxMemory''), (''storage'', ''Storage''), (''ignore'', ''Ignore''),
      (''mincpu'', ''MinCPU''), (''maxcpu'', ''MaxCPU''), (''envs'', ''Envs''), (''url'', ''Url'')]"

lemma field_names_lower:
  "map (\<lambda>n. (to_lower n, n)) (map fst settings_table) = settings_by_lower"
  unfolding settings_table_def list.map fst_conv by code_simp

lemma field_of_parameter:
  "field_by_name settings_fields (CaseInsensitive p) = map_of settings_by_lower (to_lower p)"
proof -
  have d: "distinct (map to_lower (fld_names settings_fields))"
  proof -
    have "map to_lower (fld_names settings_fields) = map fst settings_by_lower"
      unfolding field_names_lower [symmetric] settings_fields_def by (simp add: comp_def)
    also have "distinct \<dots>" by (simp add: settings_by_lower_def)
    finally show ?thesis .
  qed
  have names: "map (\<lambda>n. (to_lower n, n)) (fld_names settings_fields) = settings_by_lower"
    unfolding field_names_lower [symmetric] by (simp add: settings_fields_def)
  show ?thesis
    using field_by_name_map_of [of to_lower settings_fields "CaseInsensitive p" "to_lower p"] d
    unfolding names by (simp add: CaseInsensitive_def equal_fold_def)
qed

lemma settings_fields_nil_simps [simp]:
  "fld_nil settings_fields n = fst (the (map_of settings_table n))"
  "fld_reset settings_fields n = snd (the (map_of settings_table n))"
  by (simp_all add: settings_fields_def)

text \<open>\<open>IsSet\<close> by the lower case name, and what each parameter sets.\<close>

definition set_by_lower :: "string \<Rightarrow> ComponentSettings \<Rightarrow> bool" where
  "set_by_lower q cs =
     (if q = ''cpu'' then cs_min_cpu cs \<noteq> None \<and> cs_max_cpu cs \<noteq> None \<and> cs_min_cpu cs = cs_max_cpu cs
      else if q = ''memory'' then
        cs_min_memory cs \<noteq> None \<and> cs_max_memory cs \<noteq> None \<and> cs_min_memory cs = cs_max_memory cs
      else case map_of settings_by_lower q of
          None \<Rightarrow> False | Some n \<Rightarrow> \<not> fst (the (map_of settings_table n)) cs)"

lemma LocalIsSet_lower: "LocalIsSet lci p = set_by_lower (to_lower p) (lci_settings lci)"
  by (auto simp: LocalIsSet_def set_by_lower_def IsSet_def field_of_parameter Let_def split: option.split)

lemma set_by_lower_simps [simp]:
  "set_by_lower ''type'' cs \<longleftrightarrow> cs_type cs \<noteq> None"
  "set_by_lower ''name'' cs \<longleftrightarrow> cs_name cs \<noteq> None"
  "set_by_lower ''application'' cs \<longleftrightarrow> cs_application cs \<noteq> None"
  "set_by_lower ''project'' cs \<longleftrightarrow> cs_project cs \<noteq> None"
  "set_by_lower ''sourcelocation'' cs \<longleftrightarrow> cs_source_location cs \<noteq> None"
  "set_by_lower ''sourcetype'' cs \<longleftrightarrow> cs_source_type cs \<noteq> None"
  "set_by_lower ''ref'' cs \<longleftrightarrow> cs_ref cs \<noteq> None"
  "set_by_lower ''ports'' cs \<longleftrightarrow> cs_ports cs \<noteq> None"
  "set_by_lower ''minmemory'' cs \<longleftrightarrow> cs_min_memory cs \<noteq> None"
  "set_by_lower ''maxmemory'' cs \<longleftrightarrow> cs_max_memory cs \<noteq> None"
  "set_by_lower ''ignore'' cs \<longleftrightarrow> cs_ignore cs \<noteq> None"
  "set_by_lower ''mincpu'' cs \<longleftrightarrow> cs_min_cpu cs \<noteq> None"
  "set_by_lower ''maxcpu'' cs \<longleftrightarrow> cs_max_cpu cs \<noteq> None"
  "set_by_lower ''storage'' cs \<longleftrightarrow> cs_storage cs \<noteq> None"
  "set_by_lower ''url'' cs \<longleftrightarrow> cs_url cs \<noteq> None"
  "set_by_lower ''envs'' cs \<longleftrightarrow> cs_envs cs \<noteq> None"
  by (simp_all add: set_by_lower_def settings_by_lower_def settings_table_def)

lemma set_by_lower_pairs [simp]:
  "set_by_lower ''cpu'' cs \<longleftrightarrow> cs_min_cpu cs \<noteq> None \<and> cs_min_cpu cs = cs_max_cpu cs"
  "set_by_lower ''memory'' cs \<longleftrightarrow> cs_min_memory cs \<noteq> None \<and> cs_min_memory cs = cs_max_memory cs"
  by (cases "cs_max_cpu cs"; auto simp: set_by_lower_def)
    (cases "cs_max_memory cs"; auto simp: set_by_lower_def)

lemma set_parameter_simps [simp]:
  "set_parameter ''type'' v = Inr (cs_type_update (\<lambda>_. Some (as_string v)))"
  "set_parameter ''name'' v = Inr (cs_name_update (\<lambda>_. Some (as_string v)))"
  "set_parameter ''application'' v = Inr (cs_application_update (\<lambda>_. Some (as_string v)))"
  "set_parameter ''project'' v = Inr (cs_project_update (\<lambda>_. Some (as_string v)))"
  "set_parameter ''sourcelocation'' v = Inr (cs_source_location_update (\<lambda>_. Some (as_string v)))"
  "set_parameter ''ref'' v = Inr (cs_ref_update (\<lambda>_. Some (as_string v)))"
  "set_parameter ''ports'' v = Inr (cs_ports_update (\<lambda>_. Some (split_on CHR '','' (as_string v))))"
  "set_parameter ''minmemory'' v = Inr (cs_min_memory_update (\<lambda>_. Some (as_string v)))"
  "set_parameter ''maxmemory'' v = Inr (cs_max_memory_update (\<lambda>_. Some (as_string v)))"
  "set_parameter ''memory'' v =
     Inr (\<lambda>c. c\<lparr>cs_max_memory := Some (as_string v), cs_min_memory := Some (as_string v)\<rparr>)"
  "set_parameter ''mincpu'' v = Inr (cs_min_cpu_update (\<lambda>_. Some (as_string v)))"
  "set_parameter ''maxcpu'' v = Inr (cs_max_cpu_update (\<lambda>_. Some (as_string v)))"
  "set_parameter ''cpu'' v =
     Inr (\<lambda>c. c\<lparr>cs_min_cpu := Some (as_string v), cs_max_cpu := Some (as_string v)\<rparr>)"
  "set_parameter ''storage'' v = Inr (cs_storage_update (append_opt (as_storage v)))"
  "set_parameter ''url'' v = bindR (as_url v) (\<lambda>u. Inr (cs_url_update (append_opt u)))"
  by (simp_all add: set_parameter_def Let_def)

lemma set_parameter_parsed:
  "set_parameter ''sourcetype'' v =
     bindR (wrapR ''unable to set %s to %s'' [''sourcetype'', as_string v] (GetSrcType (as_string v)))
       (\<lambda>t. Inr (cs_source_type_update (\<lambda>_. Some t)))"
  "set_parameter ''ignore'' v =
     bindR (wrapR ''unable to set %s to %s'' [''ignore'', as_string v] (parse_bool (to_lower (as_string v))))
       (\<lambda>b. Inr (cs_ignore_update (\<lambda>_. Some b)))"
  by (simp_all add: set_parameter_def Let_def)

lemma append_opt_not_None [simp]: "append_opt x xs \<noteq> None" "\<exists>ys. append_opt x xs = Some ys"
  by (simp_all add: append_opt_def split: option.split)

lemma local_parameter_cases:
  "q \<in> set local_parameters \<Longrightarrow>
     q = ''type'' \<or> q = ''name'' \<or> q = ''application'' \<or> q = ''project'' \<or> q = ''sourcelocation''
     \<or> q = ''sourcetype'' \<or> q = ''ref'' \<or> q = ''ports'' \<or> q = ''minmemory'' \<or> q = ''maxmemory''
     \<or> q = ''memory'' \<or> q = ''ignore'' \<or> q = ''mincpu'' \<or> q = ''maxcpu'' \<or> q = ''storage''
     \<or> q = ''cpu'' \<or> q = ''url''"
  by (simp only: local_parameters_def list.set insert_iff empty_iff simp_thms)

lemma set_parameter_sets:
  assumes "set_parameter q v = Inr f" and "q \<in> set local_parameters"
  shows "set_by_lower q (f cs)"
  using local_parameter_cases [OF assms(2)]
  by (elim disjE) (use assms(1) in \<open>auto simp: set_parameter_parsed bindR_Inr_iff\<close>)

lemma set_settings_apply [op_simps]:
  "set_settings f (lci, d) = (Inr (), (lci\<lparr>lci_settings := f (lci_settings lci)\<rparr>, d))"
  by (simp add: set_settings_def op_simps)

lemma lci_state_apply [op_simps]: "lci_state (lci, d) = (Inr lci, (lci, d))"
  by (simp add: lci_state_def op_simps)

lemma writeToFile_apply:
  "writeToFile y (lci, d) =
     (let (r, d') = WriteToFile y (lci_type_meta lci, lci_settings lci) (lci_filename lci) d
      in (r, (lci, d')))"
  by (simp add: writeToFile_def op_simps split: prod.split)

lemma writeToFile_lci: "writeToFile y (lci, d) = (r, (lci', d')) \<Longrightarrow> lci' = lci"
  by (auto simp: writeToFile_apply Let_def split: prod.splits)

text \<open>The characteristic equation of the setter.\<close>

lemma SetConfiguration_ok_iff:
  "SetConfiguration y p v (lci, d) = (Inr (), (lci', d')) \<longleftrightarrow>
     to_lower p \<in> set local_parameters \<and>
     (\<exists>f. set_parameter (to_lower p) v = Inr f
        \<and> lci' = lci\<lparr>lci_settings := f (lci_settings lci)\<rparr>
        \<and> writeToFile y (lci', d) = (Inr (), (lci', d')))"
  by (auto simp: SetConfiguration_def asLocallySupportedParameter_eq bind_ok_iff op_apply
      set_settings_apply unknown_local_def dest: writeToFile_lci split: bool.splits)

lemma SetConfiguration_unknown:
  "to_lower p \<notin> set local_parameters \<Longrightarrow> SetConfiguration y p v s =
     (Inl (Err (Errorf ''unknown parameter :'%s' is not a parameter in local odo config'' [p])), s)"
  by (simp add: SetConfiguration_def asLocallySupportedParameter_eq unknown_local_def op_simps)

definition reset_by_lower :: "string \<Rightarrow> ComponentSettings \<Rightarrow> ComponentSettings" where
  "reset_by_lower q =
     (if q = ''cpu'' then (\<lambda>c. c\<lparr>cs_min_cpu := None, cs_max_cpu := None\<rparr>)
      else if q = ''memory'' then (\<lambda>c. c\<lparr>cs_min_memory := None, cs_max_memory := None\<rparr>)
      else snd (the (map_of settings_table (the (map_of settings_by_lower q)))))"

lemma supported_has_field:
  "q \<in> set local_parameters \<Longrightarrow> q \<noteq> ''cpu'' \<Longrightarrow> q \<noteq> ''memory'' \<Longrightarrow> \<exists>n. map_of settings_by_lower q = Some n"
  by (drule local_parameter_cases) (elim disjE; simp add: settings_by_lower_def)

lemma LocalDeleteConfiguration_ok_iff:
  "LocalDeleteConfiguration y p (lci, d) = (Inr (), (lci', d')) \<longleftrightarrow>
     to_lower p \<in> set local_parameters
     \<and> lci' = lci\<lparr>lci_settings := reset_by_lower (to_lower p) (lci_settings lci)\<rparr>
     \<and> writeToFile y (lci', d) = (Inr (), (lci', d'))"
proof (cases "to_lower p \<in> set local_parameters")
  case True
  show ?thesis
  proof (cases "to_lower p = ''cpu'' \<or> to_lower p = ''memory''")
    case False
    with True obtain n where "map_of settings_by_lower (to_lower p) = Some n"
      using supported_has_field by blast
    with True False show ?thesis
      by (auto simp: LocalDeleteConfiguration_def asLocallySupportedParameter_eq bind_ok_iff op_simps
          DeleteConfiguration_def field_of_parameter reset_by_lower_def dest: writeToFile_lci)
  qed (use True in \<open>auto simp: LocalDeleteConfiguration_def asLocallySupportedParameter_eq bind_ok_iff
      op_simps reset_by_lower_def dest: writeToFile_lci\<close>)
qed (auto simp: LocalDeleteConfiguration_def asLocallySupportedParameter_eq unknown_local_def op_simps)

lemma LocalDeleteConfiguration_unknown:
  "to_lower p \<notin> set local_parameters \<Longrightarrow> LocalDeleteConfiguration y p s =
     (Inl (Err (Errorf ''unknown parameter :'%s' is not a parameter in local odo config'' [p])), s)"
  by (simp add: LocalDeleteConfiguration_def asLocallySupportedParameter_eq unknown_local_def op_simps)

lemma reset_unsets: "q \<in> set local_parameters \<Longrightarrow> \<not> set_by_lower q (reset_by_lower q cs)"
  by (drule local_parameter_cases)
    (elim disjE; simp add: reset_by_lower_def settings_by_lower_def settings_table_def)



section \<open>The contracts of the store and of the two lists\<close>

interpretation local_params: param_store "SetConfiguration y" "LocalDeleteConfiguration y"
  "\<lambda>s. LocalIsSet (fst s)" "\<lambda>p. to_lower p \<in> set local_parameters" for y
proof unfold_locales
  fix p v and s s' :: local_state
  assume "SetConfiguration y p v s = (Inr (), s')"
  then show "to_lower p \<in> set local_parameters \<and> LocalIsSet (fst s') p"
    using set_parameter_sets
    by (cases s; cases s') (auto simp: SetConfiguration_ok_iff LocalIsSet_lower)
next
  fix p and s s' :: local_state
  assume "LocalDeleteConfiguration y p s = (Inr (), s')"
  then show "to_lower p \<in> set local_parameters \<and> \<not> LocalIsSet (fst s') p"
    using reset_unsets
    by (cases s; cases s') (auto simp: LocalDeleteConfiguration_ok_iff LocalIsSet_lower)
next
  fix p v and s :: local_state
  assume "to_lower p \<notin> set local_parameters"
  then show "(\<exists>e. SetConfiguration y p v s = (Inl (Err e), s))
      \<and> (\<exists>e. LocalDeleteConfiguration y p s = (Inl (Err e), s))"
    by (simp add: SetConfiguration_unknown LocalDeleteConfiguration_unknown)
next
  fix p q and s :: local_state
  assume "to_lower p = to_lower q"
  then show "(to_lower p \<in> set local_parameters) = (to_lower q \<in> set local_parameters)
      \<and> LocalIsSet (fst s) p = LocalIsSet (fst s) q"
    by (simp add: LocalIsSet_lower)
qed

lemma lower_words [simp]:
  "to_lower ''storage'' = ''storage''" "to_lower ''url'' = ''url''"
  by code_simp+

lemma listed_words [simp]:
  "''storage'' \<in> set local_parameters" "''url'' \<in> set local_parameters"
  by (simp_all add: local_parameters_def)

lemma SetConfiguration_storage:
  "SetConfiguration y ''storage'' (VStorage st) (lci, d) = (Inr (), (lci', d')) \<Longrightarrow>
     LocalGetStorage lci' = LocalGetStorage lci @ [st]"
  by (auto simp: SetConfiguration_ok_iff LocalGetStorage_def append_opt_def split: option.split)

lemma SetConfiguration_url:
  "SetConfiguration y ''url'' (VUrl u) (lci, d) = (Inr (), (lci', d')) \<Longrightarrow>
     LocalGetUrl lci' = LocalGetUrl lci @ [u]"
  by (auto simp: SetConfiguration_ok_iff LocalGetUrl_def append_opt_def split: option.split)

lemma DeleteUrl_ok:
  assumes "distinct (map cu_name (LocalGetUrl lci))"
    and "DeleteUrl y n (lci, d) = (Inr (), (lci', d'))"
  shows "lci' = lci\<lparr>lci_settings := (lci_settings lci)
           \<lparr>cs_url := Some (filter (\<lambda>u. cu_name u \<noteq> n) (LocalGetUrl lci))\<rparr>\<rparr>
    \<and> writeToFile y (lci', d) = (Inr (), (lci', d'))"
proof (cases "cs_url (lci_settings lci)")
  case None
  with assms(2) show ?thesis by (simp add: DeleteUrl_def op_simps)
next
  case (Some urls)
  with assms have "delete_in_range (\<lambda>u. cu_name u = n) urls =
      Inr (n \<in> cu_name ` set urls, filter (\<lambda>u. cu_name u \<noteq> n) urls)"
    by (simp add: delete_in_range_key LocalGetUrl_def)
  with Some assms(2) show ?thesis
    by (auto simp: DeleteUrl_def bind_ok_iff op_apply lci_state_apply set_settings_apply LocalGetUrl_def
        dest: writeToFile_lci)
qed

lemma DeleteStorage_ok:
  assumes "distinct (map css_name (LocalGetStorage lci))"
    and "DeleteFromConfigurationList y ''storage'' n (lci, d) = (Inr (), (lci', d'))"
  shows "LocalGetStorage lci' = filter (\<lambda>s. css_name s \<noteq> n) (LocalGetStorage lci)
    \<and> writeToFile y (lci', d) = (Inr (), (lci', d'))"
proof -
  have "delete_in_range (\<lambda>u. css_name u = n) (LocalGetStorage lci) =
      Inr (n \<in> css_name ` set (LocalGetStorage lci), filter (\<lambda>u. css_name u \<noteq> n) (LocalGetStorage lci))"
    using assms(1) by (simp add: delete_in_range_key)
  with assms(2) show ?thesis
    by (auto simp: DeleteFromConfigurationList_def asLocallySupportedParameter_eq bind_ok_iff op_apply
        lci_state_apply set_settings_apply LocalGetStorage_def
        split: option.splits dest: writeToFile_lci)
qed

interpretation local_storage: keyed_list "\<lambda>s. LocalGetStorage (fst s)" css_name
  "\<lambda>i :: ComponentStorageSettings. LocalStorageCreate y (css_name i) (css_size i) (css_path i)" "LocalStorageDelete y" for y
proof unfold_locales
  fix i :: ComponentStorageSettings and r and s s' :: local_state
  assume "LocalStorageCreate y (css_name i) (css_size i) (css_path i) s = (Inr r, s')"
  then show "LocalGetStorage (fst s') = LocalGetStorage (fst s) @ [i]"
    by (cases s; cases s')
      (auto simp: LocalStorageCreate_def Let_def bind_ok_iff op_apply dest!: SetConfiguration_storage)
next
  fix k and s s' :: local_state
  assume "distinct (map css_name (LocalGetStorage (fst s)))" "LocalStorageDelete y k s = (Inr (), s')"
  then show "LocalGetStorage (fst s') = filter (\<lambda>i. css_name i \<noteq> k) (LocalGetStorage (fst s))"
    by (cases s; cases s')
      (auto simp: LocalStorageDelete_def bind_ok_iff lci_state_apply op_apply
        dest: DeleteStorage_ok split: if_splits)
qed

interpretation local_urls: keyed_list "\<lambda>s. LocalGetUrl (fst s)" cu_name
  "\<lambda>u. SetConfiguration y ''url'' (VUrl u)" "DeleteUrl y" for y
proof unfold_locales
  fix i r and s s' :: local_state
  assume "SetConfiguration y ''url'' (VUrl i) s = (Inr r, s')"
  then show "LocalGetUrl (fst s') = LocalGetUrl (fst s) @ [i]"
    by (cases s; cases s') (auto dest: SetConfiguration_url)
next
  fix k and s s' :: local_state
  assume "distinct (map cu_name (LocalGetUrl (fst s)))" "DeleteUrl y k s = (Inr (), s')"
  then show "LocalGetUrl (fst s') = filter (\<lambda>i. cu_name i \<noteq> k) (LocalGetUrl (fst s))"
    by (cases s; cases s') (auto dest!: DeleteUrl_ok simp: LocalGetUrl_def [of "a\<lparr>lci_settings := c\<rparr>" for a c])
qed



section \<open>The file and the configuration agree\<close>

text \<open>The file holds what is in memory: reading it gives the configuration back.\<close>

definition in_sync :: "proxy_config yaml \<Rightarrow> local_state \<Rightarrow> bool" where
  "in_sync y s \<longleftrightarrow> (case s of (lci, d) \<Rightarrow>
     fst (getFromFile y (lci_filename lci) d) = Inr (lci_type_meta lci, lci_settings lci))"

text \<open>An empty list of environment variables is dropped by \<open>omitempty\<close>.\<close>

definition kept_by_yaml :: "proxy_config \<Rightarrow> bool" where
  "kept_by_yaml c \<longleftrightarrow> cs_envs (snd c) \<noteq> Some []"

lemma writeToFile_in_sync:
  assumes "yaml_roundtrip y newProxyLocalConfig kept_by_yaml"
    and "writeToFile y (lci, d) = (Inr (), s')"
    and "cs_envs (lci_settings lci) \<noteq> Some []" and "lci_filename lci \<notin> set (dk_unreadable d)"
  shows "in_sync y s'"
proof -
  obtain d' where s': "s' = (lci, d')"
    and w: "WriteToFile y (lci_type_meta lci, lci_settings lci) (lci_filename lci) d = (Inr (), d')"
    using assms(2) by (auto simp: writeToFile_apply Let_def split: prod.splits)
  have "GetFromFile y newProxyLocalConfig (lci_filename lci) d' =
      (Inr (lci_type_meta lci, lci_settings lci), d')"
    by (rule WriteToFile_GetFromFile [OF assms(1) _ assms(4) w])
      (use assms(3) in \<open>simp add: kept_by_yaml_def\<close>)
  then show ?thesis by (simp add: in_sync_def getFromFile_def s')
qed

lemma set_parameter_envs:
  "set_parameter q v = Inr f \<Longrightarrow> cs_envs (f cs) = cs_envs cs"
  by (auto simp: set_parameter_def Let_def bindR_Inr_iff split: if_splits)




section \<open>Properties\<close>

text \<open>A file system with one project directory, and a configuration in it.\<close>

definition example_disk :: disk where
  "example_disk = \<lparr>dk_files = [], dk_dirs = [''/p/.odo''], dk_unreadable = [], dk_unwritable = []\<rparr>"

definition example_lci :: "ComponentSettings \<Rightarrow> LocalConfigInfo" where
  "example_lci cs = \<lparr>lci_filename = ''/p/.odo/config.yaml'', lci_type_meta = NewLocalConfig_meta,
     lci_settings = cs, lci_file_exists = True\<rparr>"

text \<open>A marshaller for a single configuration.\<close>

definition one_yaml :: "proxy_config \<Rightarrow> proxy_config yaml" where
  "one_yaml c = \<lparr>marshal = (\<lambda>c'. if c' = c then Inr ''x'' else fails ''unsupported'' []),
     unmarshal = (\<lambda>_ _. Inr c)\<rparr>"

lemma one_yaml_roundtrip: "yaml_roundtrip (one_yaml c) c0 keeps"
  by (auto simp: yaml_roundtrip_def one_yaml_def)

lemma example_write:
  "WriteToFile (one_yaml c) c ''/p/.odo/config.yaml'' example_disk =
     (Inr (), example_disk\<lparr>dk_files := [(''/p/.odo/config.yaml'', ''x'')]\<rparr>)"
proof -
  have "path_dir ''/p/.odo/config.yaml'' = ''/p/.odo''" by code_simp
  then show ?thesis
    by (simp add: WriteToFile_def one_yaml_def example_disk_def CreateIfNotExists_def op_simps
        create_file_def write_file_def not_exist_def has_key_def put_def)
qed

lemma example_writeToFile:
  "writeToFile (one_yaml (NewLocalConfig_meta, cs)) (example_lci cs, example_disk) =
     (Inr (), (example_lci cs, example_disk\<lparr>dk_files := [(''/p/.odo/config.yaml'', ''x'')]\<rparr>))"
  using example_write [of "(NewLocalConfig_meta, cs)"] by (simp add: writeToFile_apply example_lci_def)

text \<open>C39. When \<open>SetConfiguration\<close> succeeds the parameter is known, it is set, and the file holds
  the configuration in memory: reading it gives the same type and settings.\<close>

theorem SetConfiguration_persists:
  assumes "SetConfiguration y p v (lci, d) = (Inr (), (lci', d'))"
    and "yaml_roundtrip y newProxyLocalConfig kept_by_yaml"
    and "cs_envs (lci_settings lci) \<noteq> Some []" and "lci_filename lci \<notin> set (dk_unreadable d)"
  shows "to_lower p \<in> set local_parameters \<and> LocalIsSet lci' p \<and> in_sync y (lci', d')"
proof -
  from assms(1) obtain f where f: "set_parameter (to_lower p) v = Inr f"
    and lci': "lci' = lci\<lparr>lci_settings := f (lci_settings lci)\<rparr>"
    and w: "writeToFile y (lci', d) = (Inr (), (lci', d'))"
    by (auto simp: SetConfiguration_ok_iff)
  have "in_sync y (lci', d')"
    by (rule writeToFile_in_sync [OF assms(2) w])
      (use assms(3,4) in \<open>simp_all add: lci' set_parameter_envs [OF f]\<close>)
  with local_params.set_sets [OF assms(1)] show ?thesis by simp
qed

theorem SetConfiguration_persists_witness:
  "\<exists>d'. SetConfiguration (one_yaml (NewLocalConfig_meta, no_settings\<lparr>cs_name := Some ''web''\<rparr>)) ''Name''
      (VString ''web'') (example_lci no_settings, example_disk)
      = (Inr (), (example_lci (no_settings\<lparr>cs_name := Some ''web''\<rparr>), d'))
    \<and> LocalIsSet (example_lci (no_settings\<lparr>cs_name := Some ''web''\<rparr>)) ''Name''"
proof -
  let ?cs = "no_settings\<lparr>cs_name := Some ''web''\<rparr>"
  have "to_lower ''Name'' = ''name''" by code_simp
  then have ok: "SetConfiguration (one_yaml (NewLocalConfig_meta, ?cs)) ''Name'' (VString ''web'')
      (example_lci no_settings, example_disk) =
      (Inr (), (example_lci ?cs, example_disk\<lparr>dk_files := [(''/p/.odo/config.yaml'', ''x'')]\<rparr>))"
    using example_writeToFile [of ?cs]
    by (simp add: SetConfiguration_ok_iff local_parameters_def) (simp add: example_lci_def)
  have "LocalIsSet (example_lci ?cs) ''Name''"
    using SetConfiguration_persists [OF ok one_yaml_roundtrip]
    by (simp add: example_lci_def no_settings_def example_disk_def)
  with ok show ?thesis by blast
qed

text \<open>A parameter that was set and then deleted, under any spelling of its name, is not set,
  and the deletion leaves the file in agreement with the configuration.\<close>

theorem set_then_delete_unsets:
  assumes "bind (SetConfiguration y p v) (\<lambda>_. LocalDeleteConfiguration y p') s = (Inr (), s')"
    and "to_lower p = to_lower p'"
  shows "\<not> LocalIsSet (fst s') p"
  using local_params.set_then_delete [OF assms] .

theorem set_then_delete_unsets_witness:
  "\<exists>s'. bind (SetConfiguration \<lparr>marshal = \<lambda>_. Inr ''x'', unmarshal = \<lambda>_ c. Inr c\<rparr> ''CPU'' (VString ''1''))
      (\<lambda>_. LocalDeleteConfiguration \<lparr>marshal = \<lambda>_. Inr ''x'', unmarshal = \<lambda>_ c. Inr c\<rparr> ''cpu'')
      (example_lci no_settings, example_disk) = (Inr (), s') \<and> \<not> LocalIsSet (fst s') ''CPU''"
proof -
  let ?y = "\<lparr>marshal = \<lambda>_. Inr ''x'', unmarshal = \<lambda>_ c. Inr c\<rparr> :: proxy_config yaml"
  let ?d = "example_disk\<lparr>dk_files := [(''/p/.odo/config.yaml'', ''x'')]\<rparr>"
  let ?cs = "no_settings\<lparr>cs_min_cpu := Some ''1'', cs_max_cpu := Some ''1''\<rparr>"
  have dir: "path_dir ''/p/.odo/config.yaml'' = ''/p/.odo''" by code_simp
  have low: "to_lower ''CPU'' = ''cpu''" "to_lower ''cpu'' = ''cpu''" by code_simp+
  have in_list: "''cpu'' \<in> set local_parameters" by (simp add: local_parameters_def)
  have w: "writeToFile ?y (example_lci cs, d) = (Inr (), (example_lci cs, ?d))"
    if "d = example_disk \<or> d = ?d" for cs d
    using that dir
    by (auto simp: writeToFile_apply WriteToFile_def example_disk_def CreateIfNotExists_def op_simps
        create_file_def write_file_def not_exist_def has_key_def put_def example_lci_def lookup_Cons)
  have 1: "SetConfiguration ?y ''CPU'' (VString ''1'') (example_lci no_settings, example_disk) =
      (Inr (), (example_lci ?cs, ?d))"
    using w [of example_disk ?cs] low in_list
    by (simp add: SetConfiguration_ok_iff) (simp add: example_lci_def no_settings_def)
  have 2: "LocalDeleteConfiguration ?y ''cpu'' (example_lci ?cs, ?d) = (Inr (), (example_lci no_settings, ?d))"
    using w [of ?d no_settings] low in_list
    by (simp add: LocalDeleteConfiguration_ok_iff)
      (simp add: example_lci_def reset_by_lower_def no_settings_def)
  have ok: "bind (SetConfiguration ?y ''CPU'' (VString ''1'')) (\<lambda>_. LocalDeleteConfiguration ?y ''cpu'')
      (example_lci no_settings, example_disk) = (Inr (), (example_lci no_settings, ?d))"
    using 1 2 by (simp add: bind_apply)
  show ?thesis
    using ok set_then_delete_unsets [OF ok] low by auto
qed

text \<open>With distinct URL names, a successful \<open>DeleteUrl\<close> removes exactly the URL of that name
  and writes the configuration; no other setting changes.\<close>

theorem DeleteUrl_removes:
  assumes "distinct (map cu_name (LocalGetUrl lci))"
    and "DeleteUrl y n (lci, d) = (Inr (), (lci', d'))"
  shows "LocalGetUrl lci' = filter (\<lambda>u. cu_name u \<noteq> n) (LocalGetUrl lci)
    \<and> lci_settings lci' = (lci_settings lci)\<lparr>cs_url := Some (LocalGetUrl lci')\<rparr>
    \<and> writeToFile y (lci', d) = (Inr (), (lci', d'))"
  using DeleteUrl_ok [OF assms] by (auto simp: LocalGetUrl_def [of "lci\<lparr>lci_settings := c\<rparr>" for c])

theorem DeleteUrl_removes_witness:
  "\<exists>lci' d'. DeleteUrl (one_yaml (NewLocalConfig_meta, no_settings\<lparr>cs_url := Some [\<lparr>cu_name = ''b'', cu_port = 2\<rparr>]\<rparr>)) ''a''
      (example_lci (no_settings\<lparr>cs_url := Some [\<lparr>cu_name = ''a'', cu_port = 1\<rparr>, \<lparr>cu_name = ''b'', cu_port = 2\<rparr>]\<rparr>),
       example_disk) = (Inr (), (lci', d'))
    \<and> LocalGetUrl lci' = [\<lparr>cu_name = ''b'', cu_port = 2\<rparr>]"
proof -
  let ?urls = "[\<lparr>cu_name = ''a'', cu_port = 1\<rparr>, \<lparr>cu_name = ''b'', cu_port = 2\<rparr>]"
  let ?lci = "example_lci (no_settings\<lparr>cs_url := Some ?urls\<rparr>)"
  let ?cs = "no_settings\<lparr>cs_url := Some [\<lparr>cu_name = ''b'', cu_port = 2\<rparr>]\<rparr>"
  have d: "distinct (map cu_name (LocalGetUrl ?lci))" by (simp add: LocalGetUrl_def example_lci_def)
  have upd: "?lci\<lparr>lci_settings := (lci_settings ?lci)\<lparr>cs_url := Some [\<lparr>cu_name = ''b'', cu_port = 2\<rparr>]\<rparr>\<rparr>
      = example_lci ?cs" by (simp add: example_lci_def)
  have del: "delete_in_range (\<lambda>u. cu_name u = ''a'') ?urls = Inr (True, [\<lparr>cu_name = ''b'', cu_port = 2\<rparr>])"
    using delete_in_range_key [of cu_name ?urls "''a''"] by simp
  have ok: "DeleteUrl (one_yaml (NewLocalConfig_meta, ?cs)) ''a'' (?lci, example_disk) =
     (Inr (), (example_lci ?cs, example_disk\<lparr>dk_files := [(''/p/.odo/config.yaml'', ''x'')]\<rparr>))"
    using example_writeToFile [of ?cs] del upd
    by (simp add: DeleteUrl_def bind_apply op_apply lci_state_apply set_settings_apply)
      (simp add: example_lci_def bind_apply op_apply set_settings_apply)
  have "LocalGetUrl (example_lci ?cs) = filter (\<lambda>u. cu_name u \<noteq> ''a'') (LocalGetUrl ?lci)"
    using DeleteUrl_removes [OF d ok] by simp
  also have "\<dots> = [\<lparr>cu_name = ''b'', cu_port = 2\<rparr>]" by (simp add: LocalGetUrl_def example_lci_def)
  finally show ?thesis using ok by blast
qed

text \<open>When the last URL has the name and an earlier one has it too, \<open>DeleteUrl\<close> runs past the
  end of the slice it shortens and panics before anything is written.\<close>

theorem DeleteUrl_duplicate_panics:
  assumes "cs_url (lci_settings lci) = Some (us @ [u])" and "cu_name u = n" and "n \<in> cu_name ` set us"
  shows "fst (DeleteUrl y n (lci, d)) = Inl (Panic ''slice bounds out of range'')
    \<and> snd (snd (DeleteUrl y n (lci, d))) = d"
proof -
  from assms(3) obtain x where "x \<in> set us" "cu_name x = n" by auto
  then have "delete_in_range (\<lambda>u. cu_name u = n) (us @ [u]) = Inl (Panic ''slice bounds out of range'')"
    using assms(2) by (intro delete_in_range_two_panics) auto
  with assms(1) show ?thesis
    by (simp add: DeleteUrl_def bind_apply op_apply lci_state_apply)
qed

theorem DeleteUrl_duplicate_panics_witness:
  "fst (DeleteUrl (one_yaml (NewLocalConfig_meta, no_settings)) ''a''
     (example_lci (no_settings\<lparr>cs_url := Some [\<lparr>cu_name = ''a'', cu_port = 1\<rparr>, \<lparr>cu_name = ''a'', cu_port = 2\<rparr>]\<rparr>),
     example_disk)) = Inl (Panic ''slice bounds out of range'')"
  by (rule DeleteUrl_duplicate_panics
      [of _ "[\<lparr>cu_name = ''a'', cu_port = 1\<rparr>]" "\<lparr>cu_name = ''a'', cu_port = 2\<rparr>", THEN conjunct1])
    (simp_all add: example_lci_def)

text \<open>Creating a storage that \<open>ValidateStorage\<close> accepts keeps the names and the paths of the
  storage list distinct, and deleting it again restores the list.\<close>

theorem validated_storage:
  assumes "distinct (map css_name (LocalGetStorage lci))" and "distinct (map css_path (LocalGetStorage lci))"
    and "LocalValidateStorage lci n path = Inr ()"
    and "LocalStorageCreate y n sz path (lci, d) = (Inr st, (lci1, d1))"
  shows "distinct (map css_name (LocalGetStorage lci1)) \<and> distinct (map css_path (LocalGetStorage lci1))
    \<and> LocalGetStorage lci1 = LocalGetStorage lci @ [\<lparr>css_name = n, css_size = sz, css_path = path\<rparr>]
    \<and> (case LocalStorageDelete y n (lci1, d1) of (Inr _, (lci2, d2)) \<Rightarrow> LocalGetStorage lci2 = LocalGetStorage lci
       | _ \<Rightarrow> True)"
proof -
  have free: "validate_storage_in n path ss = Inr () \<Longrightarrow> n \<notin> css_name ` set ss \<and> path \<notin> css_path ` set ss" for ss
    by (induction ss) (auto simp: fails_def split: if_splits)
  then have new: "n \<notin> css_name ` set (LocalGetStorage lci)" "path \<notin> css_path ` set (LocalGetStorage lci)"
    using assms(3) by (auto simp: LocalValidateStorage_def)
  let ?i = "\<lparr>css_name = n, css_size = sz, css_path = path\<rparr>"
  have create: "LocalStorageCreate y (css_name ?i) (css_size ?i) (css_path ?i) (lci, d) = (Inr st, (lci1, d1))"
    using assms(4) by simp
  have 1: "LocalGetStorage lci1 = LocalGetStorage lci @ [?i]"
    using local_storage.add_entries [OF create] by simp
  have "LocalGetStorage lci2 = LocalGetStorage lci"
    if "LocalStorageDelete y n (lci1, d1) = (Inr (), (lci2, d2))" for lci2 d2
    using local_storage.add_then_del [of "(lci, d)" ?i y "(lci2, d2)"] assms(1) new create that
    by (simp add: bind_apply)
  then have 2: "case LocalStorageDelete y n (lci1, d1) of (Inr _, (lci2, d2)) \<Rightarrow> LocalGetStorage lci2 = LocalGetStorage lci
       | _ \<Rightarrow> True"
    by (auto split: prod.splits sum.splits)
  from 1 2 new assms(1,2) show ?thesis by simp
qed

theorem validated_storage_witness:
  "\<exists>lci1 d1. LocalStorageCreate (one_yaml (NewLocalConfig_meta, no_settings\<lparr>cs_storage := Some [\<lparr>css_name = ''db'', css_size = ''1Gi'', css_path = ''/data''\<rparr>]\<rparr>))
      ''db'' ''1Gi'' ''/data'' (example_lci no_settings, example_disk) =
      (Inr \<lparr>css_name = ''db'', css_size = ''1Gi'', css_path = ''/data''\<rparr>, (lci1, d1))
    \<and> LocalGetStorage lci1 = [\<lparr>css_name = ''db'', css_size = ''1Gi'', css_path = ''/data''\<rparr>]"
proof -
  let ?st = "\<lparr>css_name = ''db'', css_size = ''1Gi'', css_path = ''/data''\<rparr>"
  let ?cs = "no_settings\<lparr>cs_storage := Some [?st]\<rparr>"
  have set: "SetConfiguration (one_yaml (NewLocalConfig_meta, ?cs)) ''storage'' (VStorage ?st)
      (example_lci no_settings, example_disk) =
      (Inr (), (example_lci ?cs, example_disk\<lparr>dk_files := [(''/p/.odo/config.yaml'', ''x'')]\<rparr>))"
    using example_writeToFile [of ?cs]
    by (simp add: SetConfiguration_ok_iff) (simp add: example_lci_def no_settings_def append_opt_def)
  have ok: "LocalStorageCreate (one_yaml (NewLocalConfig_meta, ?cs)) ''db'' ''1Gi'' ''/data''
      (example_lci no_settings, example_disk) =
      (Inr ?st, (example_lci ?cs, example_disk\<lparr>dk_files := [(''/p/.odo/config.yaml'', ''x'')]\<rparr>))"
    using set by (simp add: LocalStorageCreate_def Let_def bind_apply op_apply)
  have "LocalGetStorage (example_lci no_settings) = []"
    by (simp add: LocalGetStorage_def example_lci_def no_settings_def)
  then show ?thesis
    using ok validated_storage [OF _ _ _ ok] by (auto simp: LocalValidateStorage_def)
qed

end
