(* ===== verification/Templates.thy ===== *)
theory Templates
  imports Volumes LocalConfig
begin

text \<open>
  \<open>pkg/occlient/templates.go\<close>: the deployment and build configurations the client generates,
  the init containers, volumes and mounts of the supervisord bootstrap.
\<close>

record CommonImageMeta =
  ci_name :: string
  ci_tag :: string
  ci_namespace :: string
  ci_ports :: "container_port list"

record SupervisorDUpdateParams =
  su_existing_dc :: dc
  su_object_meta :: object_meta
  su_image_meta :: CommonImageMeta
  su_env_var :: "env_var list"
  su_env_from :: "env_from list"
  su_resources :: "resource_requirements option"

definition image_trigger :: "bool \<Rightarrow> string list \<Rightarrow> string \<Rightarrow> string \<Rightarrow> trigger" where
  "image_trigger automatic containers name namespace =
     \<lparr>tr_type = ''ImageChange'', tr_image_change = Some \<lparr>ic_automatic = automatic,
        ic_containers = containers,
        ic_from = \<lparr>ref_kind = ''ImageStreamTag'', ref_name = name, ref_namespace = namespace\<rparr>\<rparr>\<rparr>"

text \<open>Only the first container of the name gets the resources, if any were given.\<close>

definition with_resources :: "string \<Rightarrow> resource_requirements option \<Rightarrow> container list \<Rightarrow> container list" where
  "with_resources name resources cs =
     (case resources of None \<Rightarrow> cs
      | Some r \<Rightarrow> update_named name (\<lambda>c. c\<lparr>ct_resources := r\<rparr>) cs)"

definition generateSupervisordDeploymentConfig ::
  "object_meta \<Rightarrow> CommonImageMeta \<Rightarrow> env_var list \<Rightarrow> env_from list \<Rightarrow> resource_requirements option \<Rightarrow> dc" where
  "generateSupervisordDeploymentConfig commonObjectMeta commonImageMeta envVar envFrom resourceRequirements =
     (let ns = (if ci_namespace commonImageMeta = [] then ''openshift'' else ci_namespace commonImageMeta);
          name = om_name commonObjectMeta;
          app_container = \<lparr>ct_name = name, ct_image = '' '', ct_ports = ci_ports commonImageMeta,
            ct_command = [''/var/lib/supervisord/bin/dumb-init'', ''--''],
            ct_args = [''/var/lib/supervisord/bin/supervisord'', ''-c'',
                       ''/var/lib/supervisord/conf/supervisor.conf''],
            ct_mounts = [\<lparr>vm_name = supervisordVolumeName, vm_path = ''/var/lib/supervisord'',
                          vm_sub_path = []\<rparr>],
            ct_env = envVar, ct_env_from = envFrom, ct_resources = no_resources\<rparr>
      in \<lparr>dc_meta = commonObjectMeta,
          dc_spec = \<lparr>sp_replicas = 1, sp_strategy = ''Recreate'',
            sp_selector = [(''deploymentconfig'', name)],
            sp_template = Some \<lparr>pt_labels = [(''deploymentconfig'', name)],
              pt_annotations = [(''alpha.image.policy.openshift.io/resolve-names'', ''*'')],
              pt_init = [],
              pt_containers = with_resources name resourceRequirements [app_container],
              pt_volumes = [\<lparr>vol_name = supervisordVolumeName, vol_claim = None, vol_empty_dir = True\<rparr>]\<rparr>,
            sp_triggers = [\<lparr>tr_type = ''ConfigChange'', tr_image_change = None\<rparr>,
              image_trigger True [name, ''copy-files-to-volume'']
                (ci_name commonImageMeta @ '':'' @ ci_tag commonImageMeta) ns]\<rparr>,
          dc_status = no_status\<rparr>)"

text \<open>
  The result shares its pod template with the existing configuration, so the existing one
  changes as well; the model returns the one object.
\<close>

definition updateSupervisorDeploymentConfig :: "SupervisorDUpdateParams \<Rightarrow> dc result" where
  "updateSupervisorDeploymentConfig p =
     (let d = (su_existing_dc p)\<lparr>dc_meta := su_object_meta p\<rparr>;
          name = om_name (su_object_meta p)
      in bindR (template_of d) (\<lambda>t.
           Inr (if length (pt_containers t) > 0 then
             set_template (t\<lparr>pt_containers := update_first (\<lambda>c.
               let c = c\<lparr>ct_name := name, ct_ports := ci_ports (su_image_meta p),
                         ct_env := su_env_var p, ct_env_from := su_env_from p\<rparr>
               in case su_resources p of
                    Some r \<Rightarrow> if ct_name c = name then c\<lparr>ct_resources := r\<rparr> else c
                  | None \<Rightarrow> c) (pt_containers t)\<rparr>) d
           else d)))"

definition FetchContainerResourceLimits :: "container \<Rightarrow> resource_requirements" where
  "FetchContainerResourceLimits container = ct_resources container"

definition parseResourceQuantity :: "(string \<Rightarrow> quantity result) \<Rightarrow> string \<Rightarrow> quantity result" where
  "parseResourceQuantity parse resQuantity = parse resQuantity"

definition put_quantity ::
  "(string \<Rightarrow> quantity result) \<Rightarrow> string \<Rightarrow> string \<Rightarrow> string \<Rightarrow> quantity gomap \<Rightarrow> quantity gomap result" where
  "put_quantity parse message key v m =
     (if v \<noteq> [] then bindR (wrapR message [] (parseResourceQuantity parse v)) (\<lambda>q. Inr (put key q m))
      else Inr m)"

definition GetResourceRequirementsFromCmpSettings ::
  "(string \<Rightarrow> quantity result) \<Rightarrow> LocalConfigInfo \<Rightarrow> resource_requirements result" where
  "GetResourceRequirementsFromCmpSettings parse cfg =
     bindR (put_quantity parse ''failed to parse the min cpu'' ''cpu'' (LocalGetMinCPU cfg) []) (\<lambda>requests.
     bindR (put_quantity parse ''failed to parse max cpu'' ''cpu'' (LocalGetMaxCPU cfg) []) (\<lambda>limits.
     bindR (put_quantity parse ''failed to parse min memory'' ''memory'' (LocalGetMinMemory cfg) requests)
       (\<lambda>requests.
     bindR (put_quantity parse ''failed to parse max memory'' ''memory'' (LocalGetMaxMemory cfg) limits)
       (\<lambda>limits. Inr \<lparr>rr_limits = limits, rr_requests = requests\<rparr>))))"

definition generateGitDeploymentConfig ::
  "object_meta \<Rightarrow> string \<Rightarrow> container_port list \<Rightarrow> env_var list \<Rightarrow> resource_requirements option \<Rightarrow> dc" where
  "generateGitDeploymentConfig commonObjectMeta img containerPorts envVars resourceRequirements =
     (let name = om_name commonObjectMeta;
          app_container = empty_container\<lparr>ct_image := img, ct_name := name,
            ct_ports := containerPorts, ct_env := envVars\<rparr>
      in \<lparr>dc_meta = commonObjectMeta,
          dc_spec = \<lparr>sp_replicas = 1, sp_strategy = ''Recreate'',
            sp_selector = [(''deploymentconfig'', name)],
            sp_template = Some \<lparr>pt_labels = [(''deploymentconfig'', name)], pt_annotations = [],
              pt_init = [],
              pt_containers = with_resources name resourceRequirements [app_container],
              pt_volumes = []\<rparr>,
            sp_triggers = [\<lparr>tr_type = ''ConfigChange'', tr_image_change = None\<rparr>,
              image_trigger False [name] img []]\<rparr>,
          dc_status = no_status\<rparr>)"

definition generateBuildConfig :: "object_meta \<Rightarrow> string \<Rightarrow> string \<Rightarrow> string \<Rightarrow> string \<Rightarrow> build_config" where
  "generateBuildConfig commonObjectMeta gitURL gitRef imageName imageNamespace =
     \<lparr>bc_meta = commonObjectMeta,
      bc_output = \<lparr>ref_kind = ''ImageStreamTag'', ref_name = om_name commonObjectMeta @ '':latest'',
                   ref_namespace = []\<rparr>,
      bc_git_uri = gitURL, bc_git_ref = gitRef, bc_source_type = ''Git'',
      bc_builder = \<lparr>ref_kind = ''ImageStreamTag'', ref_name = imageName, ref_namespace = imageNamespace\<rparr>,
      bc_env = [], bc_last_version = 0\<rparr>"


section \<open>The supervisord bootstrap\<close>

text \<open>The shell script of the init container, passed as its one argument.\<close>

definition copy_script :: "string list" where
  "copy_script =
     [''SRC=/opt/app-root'', ''DEST=/mnt/app-root'', '''',
      ''if [ -f $DEST/.delete-volume ]; then'', ''    rm -rf $DEST'', ''fi'',
      '' if [ -d $DEST ]; then'', ''    if [ -f $DEST/.sync-volume ]; then'',
      ''        if ! [[ \"$JUPYTER_SYNC_VOLUME\" =~ ^(false|no|n|0)$ ]]; then'',
      ''            JUPYTER_SYNC_VOLUME=yes'', ''        fi'', ''    fi'',
      ''     if [[ \"$JUPYTER_SYNC_VOLUME\" =~ ^(true|yes|y|1)$ ]]; then'',
      ''        rsync -ar --ignore-existing $SRC/. $DEST'', ''    fi'', ''     exit'', ''fi'',
      '' if [ -d $DEST.setup-volume ]; then'', ''    rm -rf $DEST.setup-volume'', ''fi'', '''',
      ''mkdir -p $DEST.setup-volume'', ''tar -C $SRC -cf - . | tar -C $DEST.setup-volume -xvf -'',
      ''mv $DEST.setup-volume $DEST'']"

definition script_text :: "string list \<Rightarrow> string" where
  "script_text ls = newline # concat (map (\<lambda>l. l @ [newline]) ls)"

definition addBootstrapVolumeCopyInitContainer :: "string \<Rightarrow> (dc, unit) op" where
  "addBootstrapVolumeCopyInitContainer dcName = bind the_template (\<lambda>t.
     case pt_containers t of
       [] \<Rightarrow> fault (Panic ''index out of range'')
     | c # cs \<Rightarrow> put_template (t\<lparr>pt_init := pt_init t @
         [empty_container\<lparr>ct_name := ''copy-files-to-volume'', ct_image := ct_image c,
            ct_command := [''sh'', ''-c''], ct_args := [script_text copy_script @ [CHR 9, CHR 9, CHR 9]],
            ct_mounts := [\<lparr>vm_name = getAppRootVolumeName dcName, vm_path = ''/mnt'',
                           vm_sub_path = []\<rparr>]\<rparr>]\<rparr>))"

text \<open>\<open>env\<close> is the answer of \<open>os.LookupEnv\<close>.\<close>

definition defaultBootstrapperImage :: string where
  "defaultBootstrapperImage = ''quay.io/openshiftdo/supervisord:0.7.0''"

definition getBootstrapperImage :: "string option \<Rightarrow> string" where
  "getBootstrapperImage env = (case env of Some env \<Rightarrow> env | None \<Rightarrow> defaultBootstrapperImage)"

definition addBootstrapSupervisordInitContainer :: "string \<Rightarrow> (dc, unit) op" where
  "addBootstrapSupervisordInitContainer bootstrapper = bind the_template (\<lambda>t.
     put_template (t\<lparr>pt_init := pt_init t @
       [empty_container\<lparr>ct_name := ''copy-supervisord'', ct_image := bootstrapper,
          ct_mounts := [\<lparr>vm_name = supervisordVolumeName, vm_path = ''/var/lib/supervisord'',
                         vm_sub_path = []\<rparr>],
          ct_command := [''/usr/bin/cp''],
          ct_args := [''-r'', ''/opt/supervisord'', ''/var/lib/'']\<rparr>]\<rparr>))"

definition addBootstrapVolume :: "string \<Rightarrow> (dc, unit) op" where
  "addBootstrapVolume dcName = bind the_template (\<lambda>t.
     put_template (t\<lparr>pt_volumes := pt_volumes t @
       [\<lparr>vol_name = getAppRootVolumeName dcName, vol_claim = Some (getAppRootVolumeName dcName),
         vol_empty_dir = False\<rparr>]\<rparr>))"

definition bootstrap_mount :: "string \<Rightarrow> volume_mount" where
  "bootstrap_mount dcName = \<lparr>vm_name = getAppRootVolumeName dcName, vm_path = ''/opt/app-root'',
     vm_sub_path = ''app-root''\<rparr>"

definition addBootstrapVolumeMount :: "string \<Rightarrow> (dc, unit) op" where
  "addBootstrapVolumeMount dcName = bind the_template (\<lambda>t.
     put_template (t\<lparr>pt_containers :=
       map (\<lambda>c. c\<lparr>ct_mounts := ct_mounts c @ [bootstrap_mount dcName]\<rparr>) (pt_containers t)\<rparr>))"


section \<open>Facts\<close>

text \<open>
  A generated configuration selects the pods of its own template, runs one container named
  after it, and every mount of that container has its volume.
\<close>

definition consistent_dc :: "dc \<Rightarrow> bool" where
  "consistent_dc d \<longleftrightarrow>
     (case sp_template (dc_spec d) of None \<Rightarrow> False
      | Some t \<Rightarrow> selects (sp_selector (dc_spec d)) (pt_labels t)
          \<and> map ct_name (pt_containers t) = [om_name (dc_meta d)]
          \<and> mounts_backed t \<and> distinct (map vol_name (pt_volumes t)))"

lemma map_name_update_named:
  "(\<And>c. ct_name (f c) = ct_name c) \<Longrightarrow> map ct_name (update_named n f cs) = map ct_name cs"
  by (induction cs) auto

lemma with_resources_names [simp]: "map ct_name (with_resources n r cs) = map ct_name cs"
  by (cases r) (simp_all add: with_resources_def map_name_update_named)

lemma with_resources_single [simp]:
  "with_resources n r [c] = [if ct_name c = n then (case r of None \<Rightarrow> c | Some q \<Rightarrow> c\<lparr>ct_resources := q\<rparr>) else c]"
  by (cases r) (simp_all add: with_resources_def)

lemma template_of_supervisord:
  "template_of (generateSupervisordDeploymentConfig m i ev ef r) = Inr t \<Longrightarrow>
     pt_volumes t = [\<lparr>vol_name = supervisordVolumeName, vol_claim = None, vol_empty_dir = True\<rparr>]
     \<and> (\<exists>c. pt_containers t = [c] \<and> ct_name c = om_name m \<and> map vm_name (ct_mounts c) = [supervisordVolumeName]
            \<and> ct_env c = ev \<and> ct_env_from c = ef)"
  by (auto simp: generateSupervisordDeploymentConfig_def Let_def split: option.splits)

lemma consistent_supervisord:
  "om_name m \<noteq> [] \<Longrightarrow> consistent_dc (generateSupervisordDeploymentConfig m i ev ef r)"
  by (simp add: consistent_dc_def generateSupervisordDeploymentConfig_def Let_def selects_def
      lookup_Cons mounts_backed_def split: option.split)

lemma consistent_git:
  "om_name m \<noteq> [] \<Longrightarrow> consistent_dc (generateGitDeploymentConfig m img ports ev r)"
  by (simp add: consistent_dc_def generateGitDeploymentConfig_def Let_def selects_def
      lookup_Cons mounts_backed_def empty_container_def split: option.split)

lemma git_no_volumes:
  "template_of (generateGitDeploymentConfig m img ports ev r) = Inr t \<Longrightarrow> pt_volumes t = []"
  by (auto simp: generateGitDeploymentConfig_def Let_def)

text \<open>Requests come from the minima and limits from the maxima that are set, and only from these.\<close>

definition quantity_of :: "(string \<Rightarrow> quantity result) \<Rightarrow> string \<Rightarrow> quantity option" where
  "quantity_of parse v = (if v = [] then None else case parse v of Inl _ \<Rightarrow> None | Inr q \<Rightarrow> Some q)"

lemma put_quantity_ok:
  "put_quantity parse msg key v m = Inr m' \<Longrightarrow>
     lookup m' = (\<lambda>k. if k = key \<and> v \<noteq> [] then quantity_of parse v else lookup m k)"
  by (auto simp: put_quantity_def bindR_Inr_iff parseResourceQuantity_def quantity_of_def split: if_splits)

lemma requirements_lookup:
  assumes "GetResourceRequirementsFromCmpSettings parse cfg = Inr r"
  shows "lookup (rr_requests r) ''cpu'' = quantity_of parse (LocalGetMinCPU cfg)"
    "lookup (rr_requests r) ''memory'' = quantity_of parse (LocalGetMinMemory cfg)"
    "lookup (rr_limits r) ''cpu'' = quantity_of parse (LocalGetMaxCPU cfg)"
    "lookup (rr_limits r) ''memory'' = quantity_of parse (LocalGetMaxMemory cfg)"
proof -
  obtain m1 l1 m2 l2 where
    "put_quantity parse ''failed to parse the min cpu'' ''cpu'' (LocalGetMinCPU cfg) [] = Inr m1"
    "put_quantity parse ''failed to parse max cpu'' ''cpu'' (LocalGetMaxCPU cfg) [] = Inr l1"
    "put_quantity parse ''failed to parse min memory'' ''memory'' (LocalGetMinMemory cfg) m1 = Inr m2"
    "put_quantity parse ''failed to parse max memory'' ''memory'' (LocalGetMaxMemory cfg) l1 = Inr l2"
    and r: "r = \<lparr>rr_limits = l2, rr_requests = m2\<rparr>"
    using assms by (auto simp: GetResourceRequirementsFromCmpSettings_def bindR_Inr_iff)
  note q = this(1-4) [THEN put_quantity_ok]
  show "lookup (rr_requests r) ''cpu'' = quantity_of parse (LocalGetMinCPU cfg)"
    "lookup (rr_requests r) ''memory'' = quantity_of parse (LocalGetMinMemory cfg)"
    "lookup (rr_limits r) ''cpu'' = quantity_of parse (LocalGetMaxCPU cfg)"
    "lookup (rr_limits r) ''memory'' = quantity_of parse (LocalGetMaxMemory cfg)"
    by (simp_all add: r q quantity_of_def)
qed


section \<open>Properties\<close>

text \<open>Both generated deployment configurations select the pods of their own template, run one
  container named after them, and have the volume of every mount.\<close>

theorem generated_dcs_consistent:
  assumes "om_name m \<noteq> []"
  shows "consistent_dc (generateSupervisordDeploymentConfig m i ev ef r)
    \<and> consistent_dc (generateGitDeploymentConfig m img ports ev r)"
  using consistent_supervisord [OF assms] consistent_git [OF assms] by blast

theorem generated_dcs_consistent_witness:
  "consistent_dc (generateGitDeploymentConfig (named_meta ''web-app'') ''nodejs:latest'' [] [] None)"
  using generated_dcs_consistent [of "named_meta ''web-app''"] by (simp add: named_meta_def)

text \<open>The resource requirements made from a configuration request the minima and limit the
  maxima that are set, for CPU and memory, and nothing where a setting is missing.\<close>

theorem resource_requirements_from_settings:
  assumes "GetResourceRequirementsFromCmpSettings parse cfg = Inr r"
  shows "lookup (rr_requests r) ''cpu'' = quantity_of parse (LocalGetMinCPU cfg)
    \<and> lookup (rr_requests r) ''memory'' = quantity_of parse (LocalGetMinMemory cfg)
    \<and> lookup (rr_limits r) ''cpu'' = quantity_of parse (LocalGetMaxCPU cfg)
    \<and> lookup (rr_limits r) ''memory'' = quantity_of parse (LocalGetMaxMemory cfg)"
  using requirements_lookup [OF assms] by blast

theorem resource_requirements_from_settings_witness:
  "\<exists>r. GetResourceRequirementsFromCmpSettings (\<lambda>s. Inr (Quantity s))
      (example_lci (no_settings\<lparr>cs_max_cpu := Some ''2''\<rparr>)) = Inr r
    \<and> lookup (rr_limits r) ''cpu'' = Some (Quantity ''2'') \<and> lookup (rr_requests r) ''cpu'' = None"
proof -
  let ?cfg = "example_lci (no_settings\<lparr>cs_max_cpu := Some ''2''\<rparr>)"
  let ?r = "\<lparr>rr_limits = [(''cpu'', Quantity ''2'')], rr_requests = []\<rparr>"
  have get: "LocalGetMaxCPU ?cfg = ''2''" "LocalGetMinCPU ?cfg = []" "LocalGetMinMemory ?cfg = []"
    "LocalGetMaxMemory ?cfg = []"
    by (simp_all add: local_getters example_lci_def no_settings_def)
  have ok: "GetResourceRequirementsFromCmpSettings (\<lambda>s. Inr (Quantity s)) ?cfg = Inr ?r"
    by (simp add: GetResourceRequirementsFromCmpSettings_def get put_quantity_def parseResourceQuantity_def put_def)
  show ?thesis
    using ok resource_requirements_from_settings [OF ok] by (auto simp: get quantity_of_def)
qed

end
