(* ===== verification/Client.thy ===== *)
theory Client
  imports Templates
begin

text \<open>
  The cluster client of \<open>pkg/occlient\<close>: the calls of the Kubernetes and OpenShift API as
  parameters over an abstract cluster state, and the client's operations on single
  resources, selectors and image streams. A call may fail, and may change the state when it does.
\<close>


section \<open>The API\<close>

datatype list_options = ByLabels string | ByField string string | Everything

record ('s, 'a) resource_api =
  ra_list :: "string \<Rightarrow> list_options \<Rightarrow> ('s, 'a list) op"
  ra_get :: "string \<Rightarrow> string \<Rightarrow> ('s, 'a) op"
  ra_create :: "string \<Rightarrow> 'a \<Rightarrow> ('s, 'a) op"
  ra_update :: "string \<Rightarrow> 'a \<Rightarrow> ('s, 'a) op"
  ra_delete :: "string \<Rightarrow> string \<Rightarrow> ('s, unit) op"
  ra_delete_all :: "string \<Rightarrow> list_options \<Rightarrow> ('s, unit) op"

record service_instance =
  si_meta :: object_meta
  si_class :: string
  si_plan :: string
  si_parameters :: string
  si_conditions :: "string list"

record service_binding =
  sb_meta :: object_meta
  sb_instance :: string
  sb_secret :: string

text \<open>Service classes and plans of the service catalog; \<open>raw\<close> fields hold JSON as text.\<close>

record service_class =
  sc_name :: string
  sc_external_name :: string
  sc_external_id :: string
  sc_bindable :: bool
  sc_description :: string
  sc_tags :: "string list"
  sc_broker :: string
  sc_metadata :: string

record service_plan =
  pl_external_name :: string
  pl_description :: string
  pl_class_ref :: string
  pl_metadata :: string
  pl_schema :: string

text \<open>
  A client: its namespace, the order in which its maps are iterated, the source of the
  indices of \<open>GenerateRandomString\<close>, \<open>resource.ParseQuantity\<close>, and the API groups.
\<close>

record 's client =
  cl_namespace :: string
  cl_order :: "string list \<Rightarrow> string list"
  cl_picks :: "('s, nat list) op"
  cl_parse_quantity :: "string \<Rightarrow> quantity result"
  cl_dcs :: "('s, dc) resource_api"
  cl_patch_dc :: "string \<Rightarrow> string \<Rightarrow> string \<Rightarrow> ('s, dc) op"
  cl_instantiate_dc :: "string \<Rightarrow> string \<Rightarrow> ('s, string) op"
  cl_bcs :: "('s, build_config) resource_api"
  cl_instantiate_bc :: "string \<Rightarrow> string \<Rightarrow> ('s, string) op"
  cl_pvcs :: "('s, pvc) resource_api"
  cl_services :: "('s, service) resource_api"
  cl_routes :: "('s, route) resource_api"
  cl_secrets :: "('s, secret) resource_api"
  cl_image_streams :: "('s, image_stream) resource_api"
  cl_stream_tags :: "string \<Rightarrow> ('s, tag_reference list) op"
  cl_isi_get :: "string \<Rightarrow> string \<Rightarrow> ('s, image_stream_image) op"
  cl_instances :: "('s, service_instance) resource_api"
  cl_bindings :: "('s, service_binding) resource_api"
  cl_classes :: "list_options \<Rightarrow> ('s, service_class list) op"
  cl_plans :: "list_options \<Rightarrow> ('s, service_plan list) op"
  cl_projects :: "('s, object_meta) resource_api"


section \<open>Error texts\<close>

text \<open>\<open>Error()\<close> of an error value: each verb of the format takes the next argument.\<close>

fun sprintf :: "string \<Rightarrow> string list \<Rightarrow> string" where
  "sprintf [] args = []"
| "sprintf [c] args = [c]"
| "sprintf (c # v # fmt) args =
     (if c = CHR ''%'' then (case args of [] \<Rightarrow> ''%!'' @ v # ''(MISSING)'' @ sprintf fmt []
                             | a # rest \<Rightarrow> a @ sprintf fmt rest)
      else c # sprintf (v # fmt) args)"

fun error_text :: "error \<Rightarrow> string" where
  "error_text (Errorf fmt args) = sprintf fmt args"
| "error_text (Wrapf e fmt args) = sprintf fmt args @ '': '' @ error_text e"
| "error_text (StatusError reason msg) = msg"

fun is_conflict :: "error \<Rightarrow> bool" where
  "is_conflict (StatusError reason msg) \<longleftrightarrow> reason = ''Conflict''"
| "is_conflict _ \<longleftrightarrow> False"

text \<open>
  \<open>retry.RetryOnConflict\<close> of client-go with the steps left: a conflict is tried again, the
  last conflict is the error when the steps are used up.
\<close>

fun retry_on_conflict :: "nat \<Rightarrow> ('s, unit) op \<Rightarrow> ('s, unit) op" where
  "retry_on_conflict 0 fn = failing ''timed out waiting for the condition'' []"
| "retry_on_conflict (Suc n) fn = bind (attempt fn) (\<lambda>r. case r of
     Inr _ \<Rightarrow> return ()
   | Inl e \<Rightarrow> if is_conflict e \<and> n \<noteq> 0 then retry_on_conflict n fn else fault (Err e))"


section \<open>Projects, labels, lists\<close>

definition GetCurrentProjectName :: "'s client \<Rightarrow> string" where
  "GetCurrentProjectName c = cl_namespace c"

definition GetProjectNames :: "'s client \<Rightarrow> ('s, string list) op" where
  "GetProjectNames c =
     bind (wrapping ''unable to list projects'' [] (ra_list (cl_projects c) [] Everything)) (\<lambda>projects.
       return (foldl (\<lambda>names p. names @ [om_name p]) [] projects))"

text \<open>A project that is not found or forbidden is nil without an error.\<close>

definition GetProject :: "'s client \<Rightarrow> string \<Rightarrow> ('s, object_meta option) op" where
  "GetProject c projectName =
     bind (attempt (ra_get (cl_projects c) [] projectName)) (\<lambda>r. case r of
       Inr prj \<Rightarrow> return (Some prj)
     | Inl (StatusError reason msg) \<Rightarrow>
         if reason = ''NotFound'' \<or> reason = ''Forbidden'' then return None
         else fault (Err (StatusError reason msg))
     | Inl e \<Rightarrow> fault (Err e))"

definition addLabelsToArgs :: "'s client \<Rightarrow> string gomap option \<Rightarrow> string list \<Rightarrow> string list" where
  "addLabelsToArgs c labels args =
     (case labels of None \<Rightarrow> args
      | Some m \<Rightarrow>
          let labelsString = foldl (\<lambda>ls (k, v). ls @ [k @ ''='' @ v]) [] (range_map (cl_order c) m)
          in args @ [''--labels''] @ [join_with '','' labelsString])"

definition selector_of :: "'s client \<Rightarrow> string gomap \<Rightarrow> string" where
  "selector_of c labels = ConvertLabelsToSelector (cl_order c) labels"

definition GetDeploymentConfigLabelValues :: "'s client \<Rightarrow> string \<Rightarrow> string \<Rightarrow> ('s, string list) op" where
  "GetDeploymentConfigLabelValues c label selector =
     bind (wrapping ''unable to list DeploymentConfigs'' []
            (ra_list (cl_dcs c) (cl_namespace c) (ByLabels selector))) (\<lambda>dcs.
       return (sort (foldl (\<lambda>values elem.
           foldl (\<lambda>values (key, val). if key = label then values @ [val] else values) values
             (range_map (cl_order c) (om_labels (dc_meta elem)))) [] dcs)))"

definition GetServiceInstanceList :: "'s client \<Rightarrow> string \<Rightarrow> ('s, service_instance list) op" where
  "GetServiceInstanceList c selector = wrapping ''unable to list ServiceInstances'' []
     (ra_list (cl_instances c) (cl_namespace c) (ByLabels selector))"

definition GetServiceInstanceLabelValues :: "'s client \<Rightarrow> string \<Rightarrow> string \<Rightarrow> ('s, string list) op" where
  "GetServiceInstanceLabelValues c label selector =
     bind (wrapping ''unable to list ServiceInstances'' []
            (ra_list (cl_instances c) (cl_namespace c) (ByLabels selector))) (\<lambda>svcs.
       return (sort (foldl (\<lambda>values elem.
           foldl (\<lambda>values (key, val). if key = label then values @ [val] else values) values
             (range_map (cl_order c) (om_labels (si_meta elem)))) [] svcs)))"

definition GetDeploymentConfigsFromSelector :: "'s client \<Rightarrow> string \<Rightarrow> ('s, dc list) op" where
  "GetDeploymentConfigsFromSelector c selector = wrapping ''unable to list DeploymentConfigs'' []
     (if selector \<noteq> [] then ra_list (cl_dcs c) (cl_namespace c) (ByLabels selector)
      else ra_list (cl_dcs c) (cl_namespace c) (ByField ''metadata.namespace'' (cl_namespace c)))"

definition GetServicesFromSelector :: "'s client \<Rightarrow> string \<Rightarrow> ('s, service list) op" where
  "GetServicesFromSelector c selector = wrapping ''unable to list Services'' []
     (ra_list (cl_services c) (cl_namespace c) (ByLabels selector))"

definition DEPLOYMENT_CONFIG_NOT_FOUND :: error where
  "DEPLOYMENT_CONFIG_NOT_FOUND = Errorf ''Requested deployment config does not exist'' []"

definition quote_char :: char where
  "quote_char = CHR 0x22"

definition not_found_text :: "string \<Rightarrow> string" where
  "not_found_text name = ''deploymentconfigs.apps.openshift.io '' @ [quote_char] @ name @ [quote_char] @ '' not found''"

definition GetDeploymentConfigFromName :: "'s client \<Rightarrow> string \<Rightarrow> ('s, dc) op" where
  "GetDeploymentConfigFromName c name =
     bind (attempt (ra_get (cl_dcs c) (cl_namespace c) name)) (\<lambda>r. case r of
       Inr d \<Rightarrow> return d
     | Inl err \<Rightarrow>
         if \<not> contains_str (error_text err) (not_found_text name)
         then fault (Err (Wrapf err ''unable to get DeploymentConfig %s'' [name]))
         else fault (Err DEPLOYMENT_CONFIG_NOT_FOUND))"

definition GetPVCsFromSelector :: "'s client \<Rightarrow> string \<Rightarrow> ('s, pvc list) op" where
  "GetPVCsFromSelector c selector = wrapping ''unable to get PVCs for selector: %v'' [selector]
     (ra_list (cl_pvcs c) (cl_namespace c) (ByLabels selector))"

definition GetPVCNamesFromSelector :: "'s client \<Rightarrow> string \<Rightarrow> ('s, string list) op" where
  "GetPVCNamesFromSelector c selector =
     bind (wrapping ''unable to get PVCs from selector'' [] (GetPVCsFromSelector c selector)) (\<lambda>pvcs.
       return (foldl (\<lambda>names pvc. names @ [om_name (pvc_meta pvc)]) [] pvcs))"

definition GetPVCFromName :: "'s client \<Rightarrow> string \<Rightarrow> ('s, pvc) op" where
  "GetPVCFromName c pvcName = ra_get (cl_pvcs c) (cl_namespace c) pvcName"

definition GetOneDeploymentConfigFromSelector :: "'s client \<Rightarrow> string \<Rightarrow> ('s, dc) op" where
  "GetOneDeploymentConfigFromSelector c selector =
     bind (wrapping ''unable to get DeploymentConfigs for the selector: %v'' [selector]
            (GetDeploymentConfigsFromSelector c selector)) (\<lambda>dcs.
       case dcs of
         [] \<Rightarrow> failing ''no Deployment Config was found for the selector: %v'' [selector]
       | [d] \<Rightarrow> return d
       | _ \<Rightarrow> failing ''multiple Deployment Configs exist for the selector: %v. Only one must be present'' [selector])"

definition GetOneServiceFromSelector :: "'s client \<Rightarrow> string \<Rightarrow> ('s, service) op" where
  "GetOneServiceFromSelector c selector =
     bind (wrapping ''unable to get services for the selector: %v'' [selector]
            (GetServicesFromSelector c selector)) (\<lambda>services.
       case services of
         [] \<Rightarrow> failing ''no Service was found for the selector: %v'' [selector]
       | [d] \<Rightarrow> return d
       | _ \<Rightarrow> failing ''multiple Services exist for the selector: %v. Only one must be present'' [selector])"

definition ListSecrets :: "'s client \<Rightarrow> string \<Rightarrow> ('s, secret list) op" where
  "ListSecrets c labelSelector = wrapping ''unable to get secret list'' []
     (ra_list (cl_secrets c) (cl_namespace c)
       (if length labelSelector > 0 then ByLabels labelSelector else Everything))"

definition GetSecret :: "'s client \<Rightarrow> string \<Rightarrow> string \<Rightarrow> ('s, secret) op" where
  "GetSecret c name namespace =
     wrapping ''unable to get the secret %s'' [''nil''] (ra_get (cl_secrets c) namespace name)"

definition GetBuildConfigFromName :: "'s client \<Rightarrow> string \<Rightarrow> ('s, build_config) op" where
  "GetBuildConfigFromName c name = wrapping ''unable to get BuildConfig %s'' [name]
     (ra_get (cl_bcs c) (cl_namespace c) name)"

definition GetEnvVarsFromDC :: "'s client \<Rightarrow> string \<Rightarrow> ('s, env_var list) op" where
  "GetEnvVarsFromDC c dcName =
     bind (wrapping ''error occurred while retrieving the dc'' [] (GetDeploymentConfigFromName c dcName)) (\<lambda>d.
     bind (lift (template_of d)) (\<lambda>t.
       case pt_containers t of
         [ct] \<Rightarrow> return (ct_env ct)
       | _ \<Rightarrow> failing ''expected exactly one container in Deployment Config %v, got %v''
                [om_name (dc_meta d), show_nat (length (pt_containers t))]))"


section \<open>Persistent volume claims, routes, services, secrets\<close>

definition CreatePVC :: "'s client \<Rightarrow> string \<Rightarrow> string \<Rightarrow> string gomap \<Rightarrow> ('s, pvc) op" where
  "CreatePVC c name sz labels =
     bind (wrapping ''unable to parse size: %v'' [sz] (lift (cl_parse_quantity c sz))) (\<lambda>q.
       wrapping ''unable to create PVC'' [] (ra_create (cl_pvcs c) (cl_namespace c)
         \<lparr>pvc_meta = (named_meta name)\<lparr>om_labels := labels\<rparr>, pvc_size = q,
          pvc_access_modes = [''ReadWriteOnce'']\<rparr>))"

definition UpdatePVCLabels :: "'s client \<Rightarrow> pvc \<Rightarrow> string gomap \<Rightarrow> ('s, unit) op" where
  "UpdatePVCLabels c p labels =
     bind (wrapping ''unable to remove storage label from PVC'' []
            (ra_update (cl_pvcs c) (cl_namespace c)
              (p\<lparr>pvc_meta := (pvc_meta p)\<lparr>om_labels := labels\<rparr>\<rparr>))) (\<lambda>_. return ())"

definition DeletePVC :: "'s client \<Rightarrow> string \<Rightarrow> ('s, unit) op" where
  "DeletePVC c name = ra_delete (cl_pvcs c) (cl_namespace c) name"

definition CreateRoute ::
  "'s client \<Rightarrow> string \<Rightarrow> string \<Rightarrow> int_or_string \<Rightarrow> string gomap \<Rightarrow> ('s, route) op" where
  "CreateRoute c name serviceName portNumber labels =
     wrapping ''error creating route'' [] (ra_create (cl_routes c) (cl_namespace c)
       \<lparr>rt_meta = (named_meta name)\<lparr>om_labels := labels\<rparr>, rt_host = [],
        rt_to = \<lparr>ref_kind = ''Service'', ref_name = serviceName, ref_namespace = []\<rparr>,
        rt_port = Some portNumber, rt_tls = False\<rparr>)"

definition DeleteRoute :: "'s client \<Rightarrow> string \<Rightarrow> ('s, unit) op" where
  "DeleteRoute c name = wrapping ''unable to delete route'' [] (ra_delete (cl_routes c) (cl_namespace c) name)"

definition ListRoutes :: "'s client \<Rightarrow> string \<Rightarrow> ('s, route list) op" where
  "ListRoutes c labelSelector = wrapping ''unable to get route list'' []
     (ra_list (cl_routes c) (cl_namespace c) (ByLabels labelSelector))"

definition ListRouteNames :: "'s client \<Rightarrow> string \<Rightarrow> ('s, string list) op" where
  "ListRouteNames c labelSelector =
     bind (wrapping ''unable to list routes'' [] (ListRoutes c labelSelector)) (\<lambda>routes.
       return (foldl (\<lambda>names r. names @ [om_name (rt_meta r)]) [] routes))"

definition service_port_of :: "container_port \<Rightarrow> service_port" where
  "service_port_of p = \<lparr>sv_name = cp_name p, sv_port = cp_port p, sv_protocol = cp_protocol p,
     sv_target = FromInt (cp_port p)\<rparr>"

definition CreateService :: "'s client \<Rightarrow> object_meta \<Rightarrow> container_port list \<Rightarrow> ('s, service) op" where
  "CreateService c commonObjectMeta containerPorts =
     (let svcPorts = foldl (\<lambda>ps p. ps @ [service_port_of p]) [] containerPorts
      in wrapping ''unable to create Service for %s'' [om_name commonObjectMeta]
           (ra_create (cl_services c) (cl_namespace c)
             \<lparr>svc_meta = commonObjectMeta, svc_ports = svcPorts,
              svc_selector = [(''deploymentconfig'', om_name commonObjectMeta)]\<rparr>))"

definition CreateSecret :: "'s client \<Rightarrow> object_meta \<Rightarrow> string gomap \<Rightarrow> ('s, unit) op" where
  "CreateSecret c objectMeta data =
     bind (wrapping ''unable to create secret for %s'' [om_name objectMeta]
            (ra_create (cl_secrets c) (cl_namespace c)
              \<lparr>sec_meta = objectMeta, sec_type = ''Opaque'', sec_string_data = data\<rparr>)) (\<lambda>_. return ())"

definition ComponentPortAnnotationName :: string where
  "ComponentPortAnnotationName = ''component-port''"

definition secretKeyName :: "string \<Rightarrow> string \<Rightarrow> string" where
  "secretKeyName componentName baseKeyName =
     ''COMPONENT_'' @ replace_char CHR ''-'' CHR ''_'' (to_upper componentName) @ ''_'' @ to_upper baseKeyName"

text \<open>
  One secret per port. The annotations map is shared with the caller; the annotation is
  deleted again only when every secret was created.
\<close>

definition createSecrets :: "'s client \<Rightarrow> string \<Rightarrow> object_meta \<Rightarrow> service \<Rightarrow> ('s, unit) op" where
  "createSecrets c componentName commonObjectMeta svc =
     each (\<lambda>svcPort.
       let portAsString = show_int (sv_port svcPort);
           meta = commonObjectMeta\<lparr>om_name := om_name commonObjectMeta @ ''-'' @ portAsString,
             om_annotations := put ComponentPortAnnotationName portAsString (om_annotations commonObjectMeta)\<rparr>
       in wrapping ''unable to create Secret for %s'' [om_name meta]
            (CreateSecret c meta (put (secretKeyName componentName ''port'') portAsString
               [(secretKeyName componentName ''host'', om_name (svc_meta svc))])))
       (svc_ports svc)"


section \<open>Updates of deployment and build configurations\<close>

definition UpdateBuildConfig :: "'s client \<Rightarrow> string \<Rightarrow> string \<Rightarrow> string gomap \<Rightarrow> ('s, unit) op" where
  "UpdateBuildConfig c buildConfigName gitURL annotations =
     (if gitURL = [] then failing ''gitURL for UpdateBuildConfig must not be blank'' []
      else bind (wrapping ''unable to get the BuildConfig file'' [] (GetBuildConfigFromName c buildConfigName))
        (\<lambda>bc. bind (wrapping ''unable to update the component'' []
          (ra_update (cl_bcs c) (cl_namespace c)
            (bc\<lparr>bc_git_uri := gitURL, bc_git_ref := [], bc_source_type := ''Git'',
                bc_meta := (bc_meta bc)\<lparr>om_annotations := annotations\<rparr>\<rparr>))) (\<lambda>_. return ())))"

definition UpdateDCAnnotations :: "'s client \<Rightarrow> string \<Rightarrow> string gomap \<Rightarrow> ('s, unit) op" where
  "UpdateDCAnnotations c dcName annotations =
     bind (wrapping ''unable to get DeploymentConfig %s'' [dcName] (GetDeploymentConfigFromName c dcName)) (\<lambda>d.
     bind (wrapping ''unable to uDeploymentConfig config %s'' [dcName]
        (ra_update (cl_dcs c) (cl_namespace c)
          (d\<lparr>dc_meta := (dc_meta d)\<lparr>om_annotations := annotations\<rparr>\<rparr>))) (\<lambda>_. return ()))"

text \<open>Runs an operation on a deployment configuration in memory and gives the object it leaves.\<close>

definition editing :: "(dc, unit) op \<Rightarrow> dc \<Rightarrow> ('s, dc) op" where
  "editing m d = (case m d of (Inl f, _) \<Rightarrow> fault f | (Inr _, d') \<Rightarrow> return d')"

definition SetupForSupervisor ::
  "'s client \<Rightarrow> string \<Rightarrow> string gomap \<Rightarrow> string gomap \<Rightarrow> ('s, unit) op" where
  "SetupForSupervisor c dcName annotations labels =
     bind (wrapping ''unable to get DeploymentConfig %s'' [dcName] (GetDeploymentConfigFromName c dcName)) (\<lambda>d.
     bind (editing (bind (addBootstrapVolumeCopyInitContainer dcName) (\<lambda>_.
                    bind (addBootstrapVolume dcName) (\<lambda>_. addBootstrapVolumeMount dcName)))
            (d\<lparr>dc_meta := (dc_meta d)\<lparr>om_annotations := annotations\<rparr>\<rparr>)) (\<lambda>d'.
     bind (wrapping ''unable to uDeploymentConfig config %s'' [dcName]
            (ra_update (cl_dcs c) (cl_namespace c) d')) (\<lambda>_.
     bind (wrapping ''unable to create PVC for %s'' [dcName]
            (CreatePVC c (getAppRootVolumeName dcName) ''1Gi'' labels)) (\<lambda>_. return ()))))"

definition AddEnvironmentVariablesToDeploymentConfig :: "'s client \<Rightarrow> env_var list \<Rightarrow> dc \<Rightarrow> ('s, unit) op" where
  "AddEnvironmentVariablesToDeploymentConfig c envs d =
     bind (lift (template_of d)) (\<lambda>t.
       if length (pt_containers t) \<noteq> 1 then
         failing ''expected exactly one container in Deployment Config %v, got %v''
           [om_name (dc_meta d), show_nat (length (pt_containers t))]
       else bind (wrapping ''unable to update Deployment Config %v'' [om_name (dc_meta d)]
              (ra_update (cl_dcs c) (cl_namespace c)
                (set_template (t\<lparr>pt_containers :=
                   update_first (\<lambda>ct. ct\<lparr>ct_env := ct_env ct @ envs\<rparr>) (pt_containers t)\<rparr>) d))) (\<lambda>_. return ()))"

definition RemoveVolumeFromDeploymentConfig :: "'s client \<Rightarrow> string \<Rightarrow> string \<Rightarrow> ('s, unit) op" where
  "RemoveVolumeFromDeploymentConfig c pvc dcName =
     wrapping ''updating Deployment Config %v failed'' [dcName] (retry_on_conflict 4 (
       bind (wrapping ''unable to get Deployment Config: %v'' [dcName] (GetDeploymentConfigFromName c dcName)) (\<lambda>d.
       bind (lift (getVolumeNamesFromPVC pvc d)) (\<lambda>volumeNames.
         case volumeNames of
           [] \<Rightarrow> failing ''no volume found for PVC %v in DC %v, expected one'' [pvc, om_name (dc_meta d)]
         | [volumeName] \<Rightarrow>
             bind (editing (bind (removeVolumeFromDC volumeName) (\<lambda>found.
                 if \<not> found then failing (''could not find volume '%v' in Deployment Config '%v'' @ [CHR 0x27]) [volumeName, om_name (dc_meta d)]
                 else bind (removeVolumeMountFromDC volumeName) (\<lambda>found.
                   if \<not> found then failing ''could not find volumeMount: %v in Deployment Config: %v'' [volumeName]
                   else return ()))) d) (\<lambda>d'.
             bind (ra_update (cl_dcs c) (cl_namespace c) d') (\<lambda>_. return ()))
         | _ \<Rightarrow> failing ''found more than one volume for PVC %v in DC %v, expected one'' [pvc, om_name (dc_meta d)]))))"

definition GetLatestBuildName :: "'s client \<Rightarrow> string \<Rightarrow> ('s, string) op" where
  "GetLatestBuildName c buildConfigName =
     bind (wrapping ''unable to get the latest build name'' []
            (ra_get (cl_bcs c) (cl_namespace c) buildConfigName)) (\<lambda>bc.
       return (buildConfigName @ ''-'' @ show_int (bc_last_version bc)))"

definition StartBuild :: "'s client \<Rightarrow> string \<Rightarrow> ('s, string) op" where
  "StartBuild c name = wrapping ''unable to instantiate BuildConfig for %s'' [name]
     (cl_instantiate_bc c (cl_namespace c) name)"

definition StartDeployment :: "'s client \<Rightarrow> string \<Rightarrow> ('s, string) op" where
  "StartDeployment c deploymentName =
     (if deploymentName = [] then failing ''deployment name is empty'' []
      else wrapping ''unable to instantiate Deployment for %s'' [deploymentName]
             (cl_instantiate_dc c (cl_namespace c) deploymentName))"

definition DeleteBuildConfig :: "'s client \<Rightarrow> object_meta \<Rightarrow> ('s, unit) op" where
  "DeleteBuildConfig c commonObjectMeta =
     ra_delete_all (cl_bcs c) (cl_namespace c) (ByLabels (selector_of c (om_labels commonObjectMeta)))"



section \<open>Deleting by label, service instances, links\<close>

text \<open>The error texts gathered so far, and one more when a call fails.\<close>

definition noting :: "string \<Rightarrow> ('s, 'a) op \<Rightarrow> string list \<Rightarrow> ('s, string list) op" where
  "noting message m errorList =
     bind (attempt m) (\<lambda>r. return (case r of Inl _ \<Rightarrow> errorList @ [message] | Inr _ \<Rightarrow> errorList))"

definition Delete :: "'s client \<Rightarrow> string gomap \<Rightarrow> ('s, unit) op" where
  "Delete c labels =
     (let ns = cl_namespace c; sel = ByLabels (selector_of c labels) in
      bind (noting ''unable to delete deploymentconfig'' (ra_delete_all (cl_dcs c) ns sel) []) (\<lambda>errs.
      bind (noting ''unable to delete route'' (ra_delete_all (cl_routes c) ns sel) errs) (\<lambda>errs.
      bind (noting ''unable to delete buildconfig'' (ra_delete_all (cl_bcs c) ns sel) errs) (\<lambda>errs.
      bind (noting ''unable to delete imagestream'' (ra_delete_all (cl_image_streams c) ns sel) errs) (\<lambda>errs.
      bind (attempt (ra_list (cl_services c) ns sel)) (\<lambda>svcs.
      bind (fold_op (\<lambda>svc. noting ''unable to delete service''
                (ra_delete (cl_services c) ns (om_name (svc_meta svc))))
              (case svcs of Inl _ \<Rightarrow> [] | Inr ss \<Rightarrow> ss)
              (case svcs of Inl _ \<Rightarrow> errs @ [''unable to list services''] | Inr _ \<Rightarrow> errs)) (\<lambda>errs.
      bind (noting ''unable to delete volume'' (ra_delete_all (cl_pvcs c) ns sel) errs) (\<lambda>errs.
      bind (noting ''unable to delete secret'' (ra_delete_all (cl_secrets c) ns sel) errs) (\<lambda>errs.
        let errString = join_with '','' errs
        in if length errString \<noteq> 0 then failing errString [] else return ())))))))))"

definition DeleteServiceInstance :: "'s client \<Rightarrow> string gomap \<Rightarrow> ('s, unit) op" where
  "DeleteServiceInstance c labels =
     bind (wrapping ''unable to list service instance'' [] (GetServiceInstanceList c (selector_of c labels)))
       (each (\<lambda>i.
          bind (wrapping ''unable to delete serviceBinding'' []
                 (ra_delete (cl_bindings c) (cl_namespace c) (om_name (si_meta i)))) (\<lambda>_.
            wrapping ''unable to delete serviceInstance'' []
              (ra_delete (cl_instances c) (cl_namespace c) (om_name (si_meta i))))))"

definition CreateServiceBinding :: "'s client \<Rightarrow> string \<Rightarrow> string \<Rightarrow> ('s, unit) op" where
  "CreateServiceBinding c bindingName namespace =
     bind (wrapping ''Creation of the secret failed'' [] (ra_create (cl_bindings c) namespace
       \<lparr>sb_meta = (named_meta bindingName)\<lparr>om_namespace := namespace\<rparr>,
        sb_instance = bindingName, sb_secret = bindingName\<rparr>)) (\<lambda>_. return ())"

text \<open>\<open>json\<close> is \<open>json.Marshal\<close> of a map of strings.\<close>

definition serviceInstanceParameters :: "(string gomap \<Rightarrow> string result) \<Rightarrow> string gomap \<Rightarrow> string result" where
  "serviceInstanceParameters json params = json params"

definition CreateServiceInstance ::
  "(string gomap \<Rightarrow> string result) \<Rightarrow> 's client \<Rightarrow> string \<Rightarrow> string \<Rightarrow> string \<Rightarrow> string gomap \<Rightarrow>
   string gomap \<Rightarrow> ('s, unit) op" where
  "CreateServiceInstance json c serviceName serviceType servicePlan parameters labels =
     bind (wrapping ''unable to create the service instance parameters'' []
            (lift (serviceInstanceParameters json parameters))) (\<lambda>raw.
     bind (wrapping ''unable to create the service instance %s for the service type %s and plan %s''
            [serviceName, serviceType, servicePlan]
            (ra_create (cl_instances c) (cl_namespace c)
              \<lparr>si_meta = (named_meta serviceName)\<lparr>om_namespace := cl_namespace c, om_labels := labels\<rparr>,
               si_class = serviceType, si_plan = servicePlan, si_parameters = raw, si_conditions = []\<rparr>)) (\<lambda>_.
       wrapping ''unable to create the secret %s for the service instance'' [serviceName]
         (CreateServiceBinding c serviceName (cl_namespace c))))"

definition patchDCOfComponent ::
  "'s client \<Rightarrow> string \<Rightarrow> string \<Rightarrow> (dc \<Rightarrow> string result) option \<Rightarrow> ('s, unit) op" where
  "patchDCOfComponent c componentName applicationName dcPatchProvider =
     bind (lift (NamespaceOpenShiftObject componentName applicationName)) (\<lambda>dcName.
     bind (wrapping ''Unable to locate DeploymentConfig for component %s of application %s''
            [componentName, applicationName] (ra_get (cl_dcs c) (cl_namespace c) dcName)) (\<lambda>d.
       case dcPatchProvider of
         Some provider \<Rightarrow>
           bind (wrapping ''Unable to create a patch for the DeploymentConfig'' [] (lift (provider d))) (\<lambda>patch.
           bind (wrapping ''DeploymentConfig not patched %s'' [om_name (dc_meta d)]
                  (cl_patch_dc c (cl_namespace c) dcName patch)) (\<lambda>_. return ()))
       | None \<Rightarrow> return ()))"

text \<open>\<open>q\<close> puts the double quotes of the JSON patch around a word.\<close>

definition q :: "string \<Rightarrow> string" where
  "q s = [quote_char] @ s @ [quote_char]"

definition first_container :: "dc \<Rightarrow> container result" where
  "first_container d = bindR (template_of d) (\<lambda>t.
     case pt_containers t of [] \<Rightarrow> Inl (Panic ''index out of range'') | c # _ \<Rightarrow> Inr c)"

definition link_patch :: "string \<Rightarrow> dc \<Rightarrow> string result" where
  "link_patch secretName d = bindR (first_container d) (\<lambda>ct.
     if length (ct_env_from ct) > 0 then
       Inr (''[{ '' @ q ''op'' @ '': '' @ q ''add'' @ '', '' @ q ''path'' @ '': ''
         @ q ''/spec/template/spec/containers/0/envFrom/0'' @ '', '' @ q ''value'' @ '': {''
         @ q ''secretRef'' @ '': {'' @ q ''name'' @ '': '' @ q secretName @ ''}} }]'')
     else
       Inr (''[{ '' @ q ''op'' @ '': '' @ q ''add'' @ '', '' @ q ''path'' @ '': ''
         @ q ''/spec/template/spec/containers/0/envFrom'' @ '', '' @ q ''value'' @ '': [{''
         @ q ''secretRef'' @ '': {'' @ q ''name'' @ '': '' @ q secretName @ ''}}] }]''))"

definition LinkSecret :: "'s client \<Rightarrow> string \<Rightarrow> string \<Rightarrow> string \<Rightarrow> ('s, unit) op" where
  "LinkSecret c secretName componentName applicationName =
     patchDCOfComponent c componentName applicationName (Some (link_patch secretName))"

text \<open>An entry without a secret reference before the one looked for is a nil dereference.\<close>

fun link_index :: "string \<Rightarrow> nat \<Rightarrow> env_from list \<Rightarrow> nat option result" where
  "link_index secretName i [] = Inr None"
| "link_index secretName i (env # envs) =
     (case env of
        None \<Rightarrow> Inl (Panic ''nil pointer dereference: SecretRef'')
      | Some n \<Rightarrow> if n = secretName then Inr (Some i) else link_index secretName (Suc i) envs)"

definition unlink_patch :: "string \<Rightarrow> dc \<Rightarrow> string result" where
  "unlink_patch secretName d = bindR (first_container d) (\<lambda>ct.
     bindR (link_index secretName 0 (ct_env_from ct)) (\<lambda>i. case i of
         None \<Rightarrow> fails ''DeploymentConfig does not contain a link to %s'' [secretName]
       | Some i \<Rightarrow>
           Inr (''[{'' @ q ''op'' @ '': '' @ q ''remove'' @ '', '' @ q ''path'' @ '': ''
             @ q (''/spec/template/spec/containers/0/envFrom/'' @ show_nat i) @ ''}]'')))"

definition UnlinkSecret :: "'s client \<Rightarrow> string \<Rightarrow> string \<Rightarrow> string \<Rightarrow> ('s, unit) op" where
  "UnlinkSecret c secretName componentName applicationName =
     patchDCOfComponent c componentName applicationName (Some (unlink_patch secretName))"


section \<open>Facts\<close>

lemma editing_ok_iff: "editing m d s = (Inr d', s') \<longleftrightarrow> m d = (Inr (), d') \<and> s' = s"
  by (auto simp: editing_def op_simps split: prod.splits sum.splits)

lemma editing_reads [intro]: "reads (editing m d)"
  by (auto simp: editing_def reads_def op_simps split: prod.split sum.split)

lemma link_index_Some:
  "link_index n i es = Inr (Some k) \<Longrightarrow> i \<le> k \<and> k - i < length es \<and> es ! (k - i) = Some n
     \<and> (\<forall>j<k - i. es ! j \<noteq> Some n)"
proof (induction es arbitrary: i)
  case (Cons e es)
  show ?case
  proof (cases "e = Some n")
    case True
    with Cons.prems show ?thesis by simp
  next
    case False
    with Cons.prems obtain m where e: "e = Some m" "m \<noteq> n" and "link_index n (Suc i) es = Inr (Some k)"
      by (cases e) (auto split: if_splits)
    then have IH: "Suc i \<le> k \<and> k - Suc i < length es \<and> es ! (k - Suc i) = Some n
        \<and> (\<forall>j<k - Suc i. es ! j \<noteq> Some n)"
      using Cons.IH by blast
    then have k: "k - i = Suc (k - Suc i)" by arith
    have "\<forall>j<k - i. (e # es) ! j \<noteq> Some n"
    proof (intro allI impI)
      fix j assume "j < k - i"
      then show "(e # es) ! j \<noteq> Some n" using IH e k by (cases j) auto
    qed
    with IH k show ?thesis by simp
  qed
qed simp

text \<open>Every attempt of a retried call that is not the last one ended in a conflict.\<close>

lemma retry_ok:
  "retry_on_conflict n fn s = (Inr (), s') \<Longrightarrow> \<exists>s0. fn s0 = (Inr (), s')"
proof (induction n arbitrary: s)
  case (Suc n)
  then show ?case
    by (cases "fn s") (auto simp: op_simps split: sum.splits fault.splits if_splits)
qed (simp add: op_simps)

end
