(* ===== verification/Cluster.thy ===== *)
theory Cluster
  imports Client
begin

text \<open>
  A cluster in memory that behaves as the API documents: objects of a kind have distinct
  names, a listing answers with what its selector matches, creation of an existing name
  and access to an absent one fail with a status. It instantiates the client's parameters
  on concrete inputs; no property of the program is restricted to it.
\<close>

record cluster =
  k_dcs :: "dc list"
  k_bcs :: "build_config list"
  k_pvcs :: "pvc list"
  k_services :: "service list"
  k_routes :: "route list"
  k_secrets :: "secret list"
  k_streams :: "image_stream list"
  k_instances :: "service_instance list"
  k_bindings :: "service_binding list"
  k_projects :: "object_meta list"
  k_tags :: "tag_reference list"
  k_classes :: "service_class list"
  k_plans :: "service_plan list"

definition empty_cluster :: cluster where
  "empty_cluster = \<lparr>k_dcs = [], k_bcs = [], k_pvcs = [], k_services = [], k_routes = [],
     k_secrets = [], k_streams = [], k_instances = [], k_bindings = [], k_projects = [],
     k_tags = [], k_classes = [], k_plans = []\<rparr>"

definition status_not_found :: "string \<Rightarrow> fault" where
  "status_not_found n = Err (StatusError ''NotFound'' (n @ '' not found''))"

definition status_exists :: "string \<Rightarrow> fault" where
  "status_exists n = Err (StatusError ''AlreadyExists'' (n @ '' already exists''))"

fun listed_by :: "list_options \<Rightarrow> object_meta \<Rightarrow> bool" where
  "listed_by (ByLabels sel) m \<longleftrightarrow> selects (requirements sel) (om_labels m)"
| "listed_by (ByField f v) m \<longleftrightarrow> (f = ''metadata.name'' \<longrightarrow> om_name m = v)"
| "listed_by Everything m \<longleftrightarrow> True"

definition store_api ::
  "('s \<Rightarrow> 'a list) \<Rightarrow> (('a list \<Rightarrow> 'a list) \<Rightarrow> 's \<Rightarrow> 's) \<Rightarrow> ('a \<Rightarrow> object_meta) \<Rightarrow> ('s, 'a) resource_api" where
  "store_api get upd meta = \<lparr>
     ra_list = (\<lambda>ns opts s. (Inr (filter (\<lambda>a. listed_by opts (meta a)) (get s)), s)),
     ra_get = (\<lambda>ns n s. case find (\<lambda>a. om_name (meta a) = n) (get s) of
        None \<Rightarrow> (Inl (status_not_found n), s) | Some a \<Rightarrow> (Inr a, s)),
     ra_create = (\<lambda>ns a s. if om_name (meta a) \<in> (\<lambda>b. om_name (meta b)) ` set (get s)
        then (Inl (status_exists (om_name (meta a))), s) else (Inr a, upd (\<lambda>as. as @ [a]) s)),
     ra_update = (\<lambda>ns a s. if om_name (meta a) \<in> (\<lambda>b. om_name (meta b)) ` set (get s)
        then (Inr a, upd (map (\<lambda>b. if om_name (meta b) = om_name (meta a) then a else b)) s)
        else (Inl (status_not_found (om_name (meta a))), s)),
     ra_delete = (\<lambda>ns n s. if n \<in> (\<lambda>b. om_name (meta b)) ` set (get s)
        then (Inr (), upd (filter (\<lambda>b. om_name (meta b) \<noteq> n)) s)
        else (Inl (status_not_found n), s)),
     ra_delete_all = (\<lambda>ns opts s. (Inr (), upd (filter (\<lambda>a. \<not> listed_by opts (meta a))) s))\<rparr>"

text \<open>A client of that cluster in the project \<open>ns\<close>.\<close>

definition memory_client :: "string \<Rightarrow> cluster client" where
  "memory_client ns = \<lparr>cl_namespace = ns, cl_order = (\<lambda>ks. ks), cl_picks = return [0, 1, 2, 3, 4],
     cl_parse_quantity = (\<lambda>s. if s = [] then fails ''quantities must match the regular expression'' [] else Inr (Quantity s)),
     cl_dcs = store_api k_dcs k_dcs_update dc_meta,
     cl_patch_dc = (\<lambda>ns n patch. failing ''patch not supported'' []),
     cl_instantiate_dc = (\<lambda>ns n. return n),
     cl_bcs = store_api k_bcs k_bcs_update bc_meta,
     cl_instantiate_bc = (\<lambda>ns n. return n),
     cl_pvcs = store_api k_pvcs k_pvcs_update pvc_meta,
     cl_services = store_api k_services k_services_update svc_meta,
     cl_routes = store_api k_routes k_routes_update rt_meta,
     cl_secrets = store_api k_secrets k_secrets_update sec_meta,
     cl_image_streams = store_api k_streams k_streams_update is_meta,
     cl_stream_tags = (\<lambda>ns s. (Inr (k_tags s), s)),
     cl_isi_get = (\<lambda>ns n s. (Inl (status_not_found n), s)),
     cl_instances = store_api k_instances k_instances_update si_meta,
     cl_bindings = store_api k_bindings k_bindings_update sb_meta,
     cl_classes = (\<lambda>opts s. (Inr (filter (\<lambda>c. case opts of
        ByField f v \<Rightarrow> f = ''spec.externalName'' \<longrightarrow> sc_external_name c = v | _ \<Rightarrow> True) (k_classes s)), s)),
     cl_plans = (\<lambda>opts s. (Inr (filter (\<lambda>p. case opts of
        ByField f v \<Rightarrow> f = ''spec.clusterServiceClassRef.name'' \<longrightarrow> pl_class_ref p = v | _ \<Rightarrow> True) (k_plans s)), s)),
     cl_projects = store_api k_projects k_projects_update (\<lambda>m. m)\<rparr>"


section \<open>Properties\<close>

text \<open>Unlinking a secret sends a patch that removes the first reference to that secret from the
  environment sources of the component's first container; without such a reference there is
  no patch and no success.\<close>

theorem unlink_removes_first_link:
  assumes "UnlinkSecret c n cmp app s = (Inr (), s')"
  shows "\<exists>dcName d s1 ct k r. NamespaceOpenShiftObject cmp app = Inr dcName
    \<and> ra_get (cl_dcs c) (cl_namespace c) dcName s = (Inr d, s1) \<and> first_container d = Inr ct
    \<and> k < length (ct_env_from ct) \<and> ct_env_from ct ! k = Some n \<and> (\<forall>j<k. ct_env_from ct ! j \<noteq> Some n)
    \<and> cl_patch_dc c (cl_namespace c) dcName (''[{'' @ q ''op'' @ '': '' @ q ''remove'' @ '', '' @ q ''path'' @ '': ''
         @ q (''/spec/template/spec/containers/0/envFrom/'' @ show_nat k) @ ''}]'') s1 = (Inr r, s')"
proof -
  from assms obtain dcName d s1 patch r where 1: "NamespaceOpenShiftObject cmp app = Inr dcName"
    "ra_get (cl_dcs c) (cl_namespace c) dcName s = (Inr d, s1)"
    and patch: "unlink_patch n d = Inr patch"
    and 2: "cl_patch_dc c (cl_namespace c) dcName patch s1 = (Inr r, s')"
    unfolding UnlinkSecret_def patchDCOfComponent_def option.case by (elim bind_okE) auto
  from patch obtain ct k where ct: "first_container d = Inr ct"
    and k: "link_index n 0 (ct_env_from ct) = Inr (Some k)"
    and p: "patch = ''[{'' @ q ''op'' @ '': '' @ q ''remove'' @ '', '' @ q ''path'' @ '': ''
         @ q (''/spec/template/spec/containers/0/envFrom/'' @ show_nat k) @ ''}]''"
    by (auto simp: unlink_patch_def bindR_Inr_iff split: option.splits)
  from link_index_Some [OF k] 1 2 ct p show ?thesis by auto
qed

definition linked_dc :: dc where
  "linked_dc = \<lparr>dc_meta = named_meta ''web-shop'', dc_spec = \<lparr>sp_replicas = 1, sp_strategy = ''Recreate'',
     sp_selector = [], sp_template = Some \<lparr>pt_labels = [], pt_annotations = [], pt_init = [],
       pt_containers = [empty_container\<lparr>ct_name := ''web'', ct_env_from := [Some ''db'', Some ''mq'']\<rparr>],
       pt_volumes = []\<rparr>, sp_triggers = []\<rparr>, dc_status = no_status\<rparr>"

text \<open>A client whose patches are accepted when they remove the second source.\<close>

definition patching_client :: "cluster client" where
  "patching_client = (memory_client ''p'')\<lparr>cl_patch_dc := (\<lambda>ns n patch.
     if patch = ''[{'' @ q ''op'' @ '': '' @ q ''remove'' @ '', '' @ q ''path'' @ '': ''
         @ q (''/spec/template/spec/containers/0/envFrom/'' @ show_nat 1) @ ''}]''
     then return linked_dc else failing ''patch refused'' [])\<rparr>"

theorem unlink_removes_first_link_witness:
  "\<exists>ct k. first_container linked_dc = Inr ct \<and> k < length (ct_env_from ct) \<and> ct_env_from ct ! k = Some ''mq''"
proof -
  let ?s = "empty_cluster\<lparr>k_dcs := [linked_dc]\<rparr>"
  have n: "NamespaceOpenShiftObject ''web'' ''shop'' = Inr ''web-shop''" by code_simp
  have g: "ra_get (cl_dcs patching_client) (cl_namespace patching_client) ''web-shop'' ?s = (Inr linked_dc, ?s)"
    by (simp add: patching_client_def memory_client_def store_api_def linked_dc_def named_meta_def)
  have "unlink_patch ''mq'' linked_dc = Inr (''[{'' @ q ''op'' @ '': '' @ q ''remove'' @ '', '' @ q ''path'' @ '': ''
         @ q (''/spec/template/spec/containers/0/envFrom/'' @ show_nat 1) @ ''}]'')"
    by (simp add: unlink_patch_def first_container_def template_of_def linked_dc_def)
  then have "UnlinkSecret patching_client ''mq'' ''web'' ''shop'' ?s = (Inr (), ?s)"
    by (simp add: UnlinkSecret_def patchDCOfComponent_def n g bind_apply wrapping_apply op_apply)
      (simp add: patching_client_def op_apply)
  from unlink_removes_first_link [OF this] n g show ?thesis by auto
qed

text \<open>The object sent to the cluster when a claim is taken out of a deployment.\<close>

definition without_volume :: "string \<Rightarrow> pod_template \<Rightarrow> pod_template" where
  "without_volume v t = t\<lparr>pt_volumes := filter (\<lambda>x. vol_name x \<noteq> v) (pt_volumes t),
     pt_containers := map (without_mounts v) (pt_containers t)\<rparr>"

text \<open>When taking a claim out of a deployment configuration succeeds, the configuration read last
  had exactly one volume for the claim, and what was sent back is that configuration without the
  volume and without its mounts (names being distinct), everything else unchanged.\<close>

theorem removed_volume_is_gone:
  assumes "RemoveVolumeFromDeploymentConfig c pvc n s = (Inr (), s')"
  shows "\<exists>s0 d s1 t v d' r. GetDeploymentConfigFromName c n s0 = (Inr d, s1)
    \<and> sp_template (dc_spec d) = Some t \<and> getVolumeNamesFromPVC pvc d = Inr [v]
    \<and> ra_update (cl_dcs c) (cl_namespace c) d' s1 = (Inr r, s')
    \<and> (distinct (map vol_name (pt_volumes t))
        \<and> (\<forall>ct\<in>set (pt_containers t). distinct (map vm_name (ct_mounts ct)))
       \<longrightarrow> d' = set_template (without_volume v t) d)"
proof -
  let ?edit = "\<lambda>v d. bind (removeVolumeFromDC v) (\<lambda>found.
                 if \<not> found then failing (''could not find volume '%v' in Deployment Config '%v'' @ [CHR 0x27]) [v, om_name (dc_meta d)]
                 else bind (removeVolumeMountFromDC v) (\<lambda>found.
                   if \<not> found then failing ''could not find volumeMount: %v in Deployment Config: %v'' [v]
                   else return ()))"
  from assms obtain s0 d s1 vs where d: "GetDeploymentConfigFromName c n s0 = (Inr d, s1)"
    and vs: "getVolumeNamesFromPVC pvc d = Inr vs"
    and rest: "(case vs of
           [] \<Rightarrow> failing ''no volume found for PVC %v in DC %v, expected one'' [pvc, om_name (dc_meta d)]
         | [volumeName] \<Rightarrow>
             bind (editing (?edit volumeName d) d) (\<lambda>d'.
             bind (ra_update (cl_dcs c) (cl_namespace c) d') (\<lambda>_. return ()))
         | _ \<Rightarrow> failing ''found more than one volume for PVC %v in DC %v, expected one'' [pvc, om_name (dc_meta d)]) s1
      = (Inr (), s')"
    unfolding RemoveVolumeFromDeploymentConfig_def wrapping_ok_iff
    by (auto dest!: retry_ok elim!: bind_okE)
  from rest obtain v d' r where v: "vs = [v]" and e: "?edit v d d = (Inr (), d')"
    and r: "ra_update (cl_dcs c) (cl_namespace c) d' s1 = (Inr r, s')"
    by (auto simp: bind_ok_iff [of "editing _ _"] bind_ok_iff [of "ra_update _ _ _"] editing_ok_iff
        split: list.splits)
  from vs obtain t where t: "sp_template (dc_spec d) = Some t"
    by (auto simp: getVolumeNamesFromPVC_def template_of_def bindR_Inr_iff split: option.splits)
  have "d' = set_template (without_volume v t) d" if dv: "distinct (map vol_name (pt_volumes t))"
    and dm: "\<forall>ct\<in>set (pt_containers t). distinct (map vm_name (ct_mounts ct))"
  proof -
    let ?t1 = "t\<lparr>pt_volumes := filter (\<lambda>x. vol_name x \<noteq> v) (pt_volumes t)\<rparr>"
    have "removeVolumeMountFromDC v (set_template ?t1 d) =
        (Inr (\<exists>c\<in>set (pt_containers t). v \<in> vm_name ` set (ct_mounts c)),
         set_template (without_volume v t) d)"
      using removeVolumeMountFromDC_ok [of "set_template ?t1 d" ?t1 v] dm by (simp add: without_volume_def)
    with e removeVolumeFromDC_ok [OF t dv, of v] show ?thesis
      by (auto simp: bind_apply op_apply split: if_splits)
  qed
  with d t vs v r show ?thesis by blast
qed

theorem removed_volume_is_gone_witness:
  "fst (RemoveVolumeFromDeploymentConfig (memory_client ''p'') ''data-pvc'' ''web-app''
      (empty_cluster\<lparr>k_dcs := [example_dc [''data'', ''logs'']]\<rparr>)) = Inr ()
   \<and> (\<exists>d' r s0 s1. ra_update (cl_dcs (memory_client ''p'')) ''p'' d' s1 = (Inr r, s0))"
proof -
  let ?d = "example_dc [''data'', ''logs'']" and ?c = "memory_client ''p''"
  let ?s = "empty_cluster\<lparr>k_dcs := [?d]\<rparr>"
  let ?t = "example_template [''data'', ''logs'']"
  have t: "sp_template (dc_spec ?d) = Some ?t" by (simp add: example_dc_def)
  have dv: "distinct (map vol_name (pt_volumes ?t))" by (simp add: example_template_def)
  have dm: "distinct (map vm_name (ct_mounts ct))" if "ct \<in> set (pt_containers ?t)" for ct
    using that by (simp add: example_template_def)
  let ?t1 = "?t\<lparr>pt_volumes := filter (\<lambda>x. vol_name x \<noteq> ''data'') (pt_volumes ?t)\<rparr>"
  have g: "GetDeploymentConfigFromName ?c ''web-app'' ?s = (Inr ?d, ?s)"
    by (simp add: GetDeploymentConfigFromName_def bind_apply attempt_apply op_apply memory_client_def
        store_api_def example_dc_def named_meta_def)
  have v: "getVolumeNamesFromPVC ''data-pvc'' ?d = Inr [''data'']"
    by (simp add: getVolumeNamesFromPVC_def template_of_def example_dc_def example_template_def)
  have r1: "removeVolumeFromDC ''data'' ?d = (Inr True, set_template ?t1 ?d)"
    using removeVolumeFromDC_ok [OF t dv, of "''data''"] by (simp add: example_template_def)
  have r2: "removeVolumeMountFromDC ''data'' (set_template ?t1 ?d) =
      (Inr True, set_template (without_volume ''data'' ?t) ?d)"
    using removeVolumeMountFromDC_ok [of "set_template ?t1 ?d" ?t1 "''data''"] dm
    by (simp add: without_volume_def example_template_def)
  have u: "ra_update (cl_dcs ?c) ''p'' (set_template (without_volume ''data'' ?t) ?d) ?s =
      (Inr (set_template (without_volume ''data'' ?t) ?d), empty_cluster\<lparr>k_dcs := [set_template (without_volume ''data'' ?t) ?d]\<rparr>)"
    by (simp add: memory_client_def store_api_def set_template_def)
  have ns: "cl_namespace ?c = ''p''" by (simp add: memory_client_def)
  have ok: "RemoveVolumeFromDeploymentConfig ?c ''data-pvc'' ''web-app'' ?s =
      (Inr (), empty_cluster\<lparr>k_dcs := [set_template (without_volume ''data'' ?t) ?d]\<rparr>)"
    by (simp add: RemoveVolumeFromDeploymentConfig_def numeral_eq_Suc bind_apply attempt_apply wrapping_apply op_apply
        g v ns editing_def r1 r2 u)
  from removed_volume_is_gone [OF ok] ok ns show ?thesis by auto
qed

end
