(* ===== verification/Images.thy ===== *)
theory Images
  imports Cluster
begin

text \<open>
  Image references and image streams of \<open>pkg/occlient/occlient.go\<close>: which image a name
  means, in which namespace it is found, the ports it exposes and the S2I paths of its
  labels. The meta data of an image is taken decoded; the JSON decoder is not modelled.
\<close>

text \<open>Namespace, name, tag and digest of an image reference.\<close>

definition ParseImageName :: "string \<Rightarrow> (string \<times> string \<times> string \<times> string) result" where
  "ParseImageName img =
     (let digestParts = split_on CHR ''@'' img;
          invalid = fails ''invalid image reference %s'' [img]
      in if length digestParts = 2 then
           (if digestParts ! 0 \<noteq> [] \<and> digestParts ! 1 \<noteq> [] then
              let nameParts = split_on CHR ''/'' (digestParts ! 0)
              in if length nameParts = 2 then Inr (nameParts ! 0, nameParts ! 1, [], digestParts ! 1)
                 else Inr ([], nameParts ! 0, [], digestParts ! 1)
            else invalid)
         else if length digestParts = 1 \<and> digestParts ! 0 \<noteq> [] then
           (let tagParts = split_on CHR '':'' img
            in if length tagParts = 2 then
                 (if tagParts ! 0 \<noteq> [] then
                    let nameParts = split_on CHR ''/'' (tagParts ! 0)
                    in if length nameParts = 2 then Inr (nameParts ! 0, nameParts ! 1, tagParts ! 1, [])
                       else Inr ([], tagParts ! 0, tagParts ! 1, [])
                  else invalid)
               else if length tagParts = 1 then
                 (let nameParts = split_on CHR ''/'' (tagParts ! 0)
                  in if length nameParts = 2 then Inr (nameParts ! 0, nameParts ! 1, ''latest'', [])
                     else Inr ([], tagParts ! 0, ''latest'', []))
               else invalid)
         else invalid)"

definition exposed_port :: "string \<Rightarrow> container_port result" where
  "exposed_port exposedPort =
     (let splits = split_on CHR ''/'' exposedPort
      in if length splits \<noteq> 2 then fails ''invalid port %s'' [exposedPort]
         else bindR (wrapR ''invalid port number %s'' [splits ! 0] (parse_int 32 (splits ! 0))) (\<lambda>portNumber.
           bindR (if to_upper (splits ! 1) = ''TCP'' then Inr ''TCP''
                  else if to_upper (splits ! 1) = ''UDP'' then Inr ''UDP''
                  else fails ''invalid port protocol %s'' [splits ! 1]) (\<lambda>portProto.
             Inr \<lparr>cp_name = show_int portNumber @ ''-'' @ to_lower portProto,
                  cp_port = portNumber, cp_protocol = portProto\<rparr>)))"

definition getExposedPortsFromISI ::
  "(string list \<Rightarrow> string list) \<Rightarrow> image_stream_image \<Rightarrow> container_port list result" where
  "getExposedPortsFromISI ord img = mapR (\<lambda>e. exposed_port (fst e)) (range_map ord (isi_exposed_ports img))"

definition GetExposedPorts :: "'s client \<Rightarrow> image_stream_image \<Rightarrow> container_port list result" where
  "GetExposedPorts c imageStreamImage =
     wrapR ''unable to get exported ports from image %+v'' [isi_name imageStreamImage]
       (getExposedPortsFromISI (cl_order c) imageStreamImage)"

definition GetImageStreams :: "'s client \<Rightarrow> string \<Rightarrow> ('s, image_stream list) op" where
  "GetImageStreams c namespace = wrapping ''unable to list imagestreams'' []
     (ra_list (cl_image_streams c) namespace Everything)"

definition GetImageStreamsNames :: "'s client \<Rightarrow> string \<Rightarrow> ('s, string list) op" where
  "GetImageStreamsNames c namespace =
     bind (wrapping ''unable to get image streams'' [] (GetImageStreams c namespace)) (\<lambda>iss.
       return (foldl (\<lambda>names i. names @ [om_name (is_meta i)]) [] iss))"

definition imageStreamExists :: "'s client \<Rightarrow> string \<Rightarrow> string \<Rightarrow> ('s, bool) op" where
  "imageStreamExists c name namespace =
     bind (attempt (GetImageStreamsNames c namespace)) (\<lambda>r. case r of
       Inl _ \<Rightarrow> return False
     | Inr names \<Rightarrow> return (In names name))"

fun tag_in :: "tag_history list \<Rightarrow> string \<Rightarrow> bool" where
  "tag_in [] imageTag = False"
| "tag_in (tag # tags) imageTag = (if th_tag tag = imageTag then True else tag_in tags imageTag)"

definition isTagInImageStream :: "image_stream \<Rightarrow> string \<Rightarrow> bool" where
  "isTagInImageStream i imageTag = tag_in (is_status_tags i) imageTag"

definition OpenShiftNameSpace :: string where
  "OpenShiftNameSpace = ''openshift''"

text \<open>
  \<open>err\<close> is the error kept from the current namespace; the message of the second lookup
  calls its \<open>Error\<close> method, which is a nil dereference when there is none.
\<close>

definition openshift_stream ::
  "'s client \<Rightarrow> error option \<Rightarrow> string \<Rightarrow> string \<Rightarrow> string \<Rightarrow> ('s, image_stream) op" where
  "openshift_stream c err imageName imageTag currentProjectName =
     bind (attempt (ra_get (cl_image_streams c) OpenShiftNameSpace imageName)) (\<lambda>r2. case r2 of
       Inl e \<Rightarrow>
         (case err of
            None \<Rightarrow> fault (Panic ''nil pointer dereference: err.Error()'')
          | Some er \<Rightarrow> fault (Err (Wrapf e (''%s'' @ [newline] @ ''.no match found for : %s in namespace %s'')
              [error_text er, imageName, OpenShiftNameSpace])))
     | Inr i \<Rightarrow>
         if isTagInImageStream i imageTag then return i
         else failing ''image stream %s with tag %s not found in openshift and %s namespaces''
                [imageName, imageTag, currentProjectName])"

definition GetImageStream :: "'s client \<Rightarrow> string \<Rightarrow> string \<Rightarrow> string \<Rightarrow> ('s, image_stream) op" where
  "GetImageStream c imageNS imageName imageTag =
     (let currentProjectName = GetCurrentProjectName c in
      if imageNS = [] then
        bind (attempt (ra_get (cl_image_streams c) currentProjectName imageName)) (\<lambda>r1.
          let err = (case r1 of
                Inl e \<Rightarrow> Some (Wrapf e ''no match found for : %s in namespace %s'' [imageName, currentProjectName])
              | Inr _ \<Rightarrow> None)
          in case r1 of
            Inr i \<Rightarrow>
              if isTagInImageStream i imageTag then return i
              else openshift_stream c err imageName imageTag currentProjectName
          | Inl _ \<Rightarrow> openshift_stream c err imageName imageTag currentProjectName)
      else
        bind (wrapping ''no match found for %s in namespace %s'' [imageName, imageNS]
               (ra_get (cl_image_streams c) imageNS imageName)) (\<lambda>i.
          if \<not> isTagInImageStream i imageTag then
            failing ''image stream %s with tag %s not found in %s namespaces'' [imageName, imageTag, currentProjectName]
          else return i))"


text \<open>The image of the newest item of the first tag of the name.\<close>

fun tag_items :: "tag_history list \<Rightarrow> string \<Rightarrow> string list option" where
  "tag_items [] imageTag = None"
| "tag_items (tag # tags) imageTag = (if th_tag tag = imageTag then Some (th_images tag) else tag_items tags imageTag)"

definition GetImageStreamImage :: "'s client \<Rightarrow> image_stream \<Rightarrow> string \<Rightarrow> ('s, image_stream_image) op" where
  "GetImageStreamImage c imageStream imageTag =
     (let imageNS = om_namespace (is_meta imageStream); imageName = om_name (is_meta imageStream) in
      case tag_items (is_status_tags imageStream) imageTag of
        Some (tagDigest # _) \<Rightarrow>
          let imageStreamImageName = imageName @ ''@'' @ tagDigest
          in wrapping ''unable to find ImageStreamImage with  %s digest'' [imageStreamImageName]
               (cl_isi_get c imageNS imageStreamImageName)
      | Some [] \<Rightarrow> failing ''unable to find tag %s for image %s'' [imageTag, imageName]
      | None \<Rightarrow> failing ''unable to find tag %s for image %s'' [imageTag, imageName])"

fun getS2ILabelValue :: "string gomap \<Rightarrow> string list \<Rightarrow> string" where
  "getS2ILabelValue labels [] = []"
| "getS2ILabelValue labels (label # ls) =
     (case lookup labels label of Some retVal \<Rightarrow> retVal | None \<Rightarrow> getS2ILabelValue labels ls)"

record S2IPaths =
  s2_protocol :: string
  s2_scripts_path :: string
  s2_src_or_bin :: string
  s2_deployment_dir :: string
  s2_working_dir :: string
  s2_backup :: string
  s2_builder :: string

definition no_s2i_paths :: S2IPaths where
  "no_s2i_paths = \<lparr>s2_protocol = [], s2_scripts_path = [], s2_src_or_bin = [], s2_deployment_dir = [],
     s2_working_dir = [], s2_backup = [], s2_builder = []\<rparr>"

definition S2IDeploymentsDir :: "string list" where
  "S2IDeploymentsDir = [''com.redhat.deployments-dir'', ''org.jboss.deployments-dir'']"

definition DefaultS2ISrcOrBinPath :: string where
  "DefaultS2ISrcOrBinPath = ''/tmp''"

definition DefaultS2ISrcBackupDir :: string where
  "DefaultS2ISrcBackupDir = ''/opt/app-root/src-backup''"

text \<open>Protocol and path of a scripts URL.\<close>

definition scripts_location :: "string \<Rightarrow> (string \<times> string) result" where
  "scripts_location url =
     (if has_prefix url ''image://'' then Inr (''image://'', trim_prefix url ''image://'')
      else if has_prefix url ''file://'' then Inr (''file://'', trim_prefix url ''file://'')
      else if has_prefix url ''http(s)://'' then Inr (''http(s)://'', url)
      else fails ''Unknown scripts url %s'' [url])"

definition GetS2IMetaInfoFromBuilderImg :: "image_stream_image \<Rightarrow> S2IPaths result" where
  "GetS2IMetaInfoFromBuilderImg builderImage =
     (case isi_labels builderImage of
        None \<Rightarrow> Inr no_s2i_paths
      | Some labels \<Rightarrow>
          let url = get_str labels ''io.openshift.s2i.scripts-url'';
              src = get_str labels ''io.openshift.s2i.destination'';
              builder = get_str labels ''name'';
              src = (if src = [] then DefaultS2ISrcOrBinPath else src);
              dest = getS2ILabelValue labels S2IDeploymentsDir
          in bindR (scripts_location url) (\<lambda>(protocol, path).
               Inr \<lparr>s2_protocol = protocol, s2_scripts_path = path, s2_src_or_bin = src,
                    s2_deployment_dir = dest, s2_working_dir = isi_working_dir builderImage,
                    s2_backup = DefaultS2ISrcBackupDir, s2_builder = builder\<rparr>))"

definition CreateBuildConfig ::
  "'s client \<Rightarrow> object_meta \<Rightarrow> string \<Rightarrow> string \<Rightarrow> string \<Rightarrow> env_var list \<Rightarrow> ('s, build_config) op" where
  "CreateBuildConfig c commonObjectMeta builderImage gitURL gitRef envVars =
     bind (wrapping ''unable to parse image name'' [] (lift (ParseImageName builderImage)))
       (\<lambda>(imageNS, imageName, imageTag, digest).
     bind (wrapping ''unable to retrieve image stream for CreateBuildConfig'' []
            (GetImageStream c imageNS imageName imageTag)) (\<lambda>imageStream.
       let bc = generateBuildConfig commonObjectMeta gitURL gitRef (imageName @ '':'' @ imageTag)
                  (om_namespace (is_meta imageStream));
           bc = (if length envVars > 0 then bc\<lparr>bc_env := envVars\<rparr> else bc)
       in bind (wrapping ''unable to create BuildConfig for %s'' [om_name commonObjectMeta]
                 (ra_create (cl_bcs c) (cl_namespace c) bc)) (\<lambda>_. return bc)))"


section \<open>Facts\<close>

lemma isTagInImageStream_iff: "isTagInImageStream i t \<longleftrightarrow> t \<in> th_tag ` set (is_status_tags i)"
proof -
  have "tag_in ts t \<longleftrightarrow> t \<in> th_tag ` set ts" for ts by (induction ts) auto
  then show ?thesis by (simp add: isTagInImageStream_def)
qed

text \<open>Where a reference without a namespace is found: the project first, then \<open>openshift\<close>.\<close>

lemma GetImageStream_current:
  assumes "ra_get (cl_image_streams c) (cl_namespace c) n s = (Inr i, s')" and "isTagInImageStream i t"
  shows "GetImageStream c [] n t s = (Inr i, s')"
  using assms by (simp add: GetImageStream_def GetCurrentProjectName_def op_simps Let_def)

lemma GetImageStream_openshift:
  assumes "ra_get (cl_image_streams c) (cl_namespace c) n s = (Inl (Err e), s1)"
    and "ra_get (cl_image_streams c) OpenShiftNameSpace n s1 = (Inr i, s2)" and "isTagInImageStream i t"
  shows "GetImageStream c [] n t s = (Inr i, s2)"
  using assms
  by (simp add: GetImageStream_def GetCurrentProjectName_def op_simps Let_def openshift_stream_def)

text \<open>A stream without the tag in the project, and none in \<open>openshift\<close>: a nil dereference.\<close>

lemma GetImageStream_nil:
  assumes "ra_get (cl_image_streams c) (cl_namespace c) n s = (Inr i, s1)" and "\<not> isTagInImageStream i t"
    and "ra_get (cl_image_streams c) OpenShiftNameSpace n s1 = (Inl (Err e), s2)"
  shows "GetImageStream c [] n t s = (Inl (Panic ''nil pointer dereference: err.Error()''), s2)"
  using assms
  by (simp add: GetImageStream_def GetCurrentProjectName_def op_simps Let_def openshift_stream_def)

lemma openshift_stream_ok:
  assumes "openshift_stream c err n t cur s = (Inr i, s')"
  shows "isTagInImageStream i t \<and> ra_get (cl_image_streams c) OpenShiftNameSpace n s = (Inr i, s')"
proof -
  obtain r s1 where "attempt (ra_get (cl_image_streams c) OpenShiftNameSpace n) s = (Inr r, s1)"
    and k: "(case r of
       Inl e \<Rightarrow>
         (case err of
            None \<Rightarrow> fault (Panic ''nil pointer dereference: err.Error()'')
          | Some er \<Rightarrow> fault (Err (Wrapf e (''%s'' @ [newline] @ ''.no match found for : %s in namespace %s'')
              [error_text er, n, OpenShiftNameSpace])))
     | Inr i \<Rightarrow>
         if isTagInImageStream i t then return i
         else failing ''image stream %s with tag %s not found in openshift and %s namespaces''
                [n, t, cur]) s1 = (Inr i, s')"
    using assms unfolding openshift_stream_def bind_ok_iff by blast
  then show ?thesis
    by (cases r) (auto simp: op_apply attempt_ok_iff split: option.splits if_splits)
qed

lemma GetImageStream_ok:
  assumes "GetImageStream c ns n t s = (Inr i, s')"
  shows "isTagInImageStream i t \<and>
    (\<exists>s0. if ns = [] then ra_get (cl_image_streams c) (cl_namespace c) n s0 = (Inr i, s')
                      \<or> ra_get (cl_image_streams c) OpenShiftNameSpace n s0 = (Inr i, s')
     else ra_get (cl_image_streams c) ns n s0 = (Inr i, s'))"
proof (cases "ns = []")
  case False
  with assms show ?thesis
    by (auto simp: GetImageStream_def bind_ok_iff op_apply split: if_splits)
next
  case True
  obtain r s1 where g: "ra_get (cl_image_streams c) (cl_namespace c) n s = (r, s1)" by fastforce
  show ?thesis
  proof (cases "\<exists>j. r = Inr j \<and> isTagInImageStream j t")
    case here: True
    then obtain j where "r = Inr j" "isTagInImageStream j t" by blast
    with GetImageStream_current [of c n s j s1 t] g assms True show ?thesis by auto
  next
    case False
    with assms True g obtain err where "openshift_stream c err n t (cl_namespace c) s1 = (Inr i, s')"
      by (cases r) (auto simp: GetImageStream_def GetCurrentProjectName_def Let_def bind_apply attempt_apply
          split: fault.splits if_splits)
    from openshift_stream_ok [OF this] True show ?thesis by auto
  qed
qed

text \<open>A reference as its parts spell it.\<close>

definition image_ref :: "string \<Rightarrow> string \<Rightarrow> string \<Rightarrow> string" where
  "image_ref ns n tag = (if ns = [] then [] else ns @ ''/'') @ n @ (if tag = [] then [] else '':'' @ tag)"

definition ref_part :: "string \<Rightarrow> bool" where
  "ref_part s \<longleftrightarrow> s \<noteq> [] \<and> CHR ''/'' \<notin> set s \<and> CHR '':'' \<notin> set s \<and> CHR ''@'' \<notin> set s"


lemma split_on_two: "c \<notin> set a \<Longrightarrow> c \<notin> set b \<Longrightarrow> split_on c (a @ c # b) = [a, b]"
  by (simp add: split_on_append split_on_none)

lemma ParseImageName_tagged:
  assumes "ref_part n" and "ns \<noteq> [] \<longrightarrow> ref_part ns" and "tag \<noteq> [] \<longrightarrow> ref_part tag"
  shows "ParseImageName (image_ref ns n tag) = Inr (ns, n, if tag = [] then ''latest'' else tag, [])"
proof -
  define body where "body = (if ns = [] then n else ns @ CHR ''/'' # n)"
  have body: "body \<noteq> []" "CHR '':'' \<notin> set body" "CHR ''@'' \<notin> set body"
    and parts: "split_on CHR ''/'' body = (if ns = [] then [n] else [ns, n])"
    using assms(1,2) by (auto simp: body_def ref_part_def split_on_none split_on_two)
  have img: "image_ref ns n tag = (if tag = [] then body else body @ CHR '':'' # tag)"
    by (simp add: image_ref_def body_def)
  have at: "CHR ''@'' \<notin> set (image_ref ns n tag)"
    using body assms(3) by (auto simp: img ref_part_def)
  then have "split_on CHR ''@'' (image_ref ns n tag) = [image_ref ns n tag]" by (rule split_on_none)
  moreover have "image_ref ns n tag \<noteq> []" using body by (simp add: img)
  moreover have "split_on CHR '':'' (image_ref ns n tag) = (if tag = [] then [body] else [body, tag])"
    using body assms(3) by (auto simp: img ref_part_def split_on_none split_on_two)
  ultimately show ?thesis
    using parts body by (auto simp: ParseImageName_def Let_def body_def)
qed

text \<open>An exposed port in the form the program itself prints.\<close>

lemma exposed_port_bounds:
  "exposed_port e = Inr p \<Longrightarrow> - (2 ^ 31) \<le> cp_port p \<and> cp_port p < 2 ^ 31 \<and> cp_protocol p \<in> {''TCP'', ''UDP''}"
  using parse_int_bounds [of 32]
  by (auto simp: exposed_port_def Let_def bindR_Inr_iff fails_def split: if_splits)






section \<open>Properties\<close>

text \<open>An image reference put together from a namespace, a name and a tag is read back
  as these parts; a reference without a tag means the tag \<open>latest\<close>.\<close>

theorem image_reference_roundtrip:
  assumes "ref_part n" and "ns \<noteq> [] \<longrightarrow> ref_part ns" and "tag \<noteq> [] \<longrightarrow> ref_part tag"
  shows "ParseImageName (image_ref ns n tag) = Inr (ns, n, if tag = [] then ''latest'' else tag, [])"
  using assms by (rule ParseImageName_tagged)

theorem image_reference_roundtrip_witness:
  "image_ref ''openshift'' ''nodejs'' ''8'' = ''openshift/nodejs:8''
   \<and> ParseImageName (image_ref ''openshift'' ''nodejs'' ''8'') = Inr (''openshift'', ''nodejs'', ''8'', [])"
  using image_reference_roundtrip [of "''nodejs''" "''openshift''" "''8''"]
  by (simp add: ref_part_def image_ref_def)

text \<open>An image stream that is returned has the tag that was asked for, and was read in the
  namespace of the reference or, when it names none, in the current project or in \<open>openshift\<close>.\<close>

theorem image_stream_found:
  assumes "GetImageStream c ns n t s = (Inr i, s')"
  shows "t \<in> th_tag ` set (is_status_tags i) \<and>
    (\<exists>s0. \<exists>k \<in> (if ns = [] then {cl_namespace c, OpenShiftNameSpace} else {ns}).
        ra_get (cl_image_streams c) k n s0 = (Inr i, s'))"
  using GetImageStream_ok [OF assms] by (auto simp: isTagInImageStream_iff)

definition example_stream :: "string \<Rightarrow> image_stream" where
  "example_stream t = \<lparr>is_meta = named_meta ''nodejs'',
     is_spec_tags = [\<lparr>tg_name = t, tg_annotations = [(''tags'', ''builder,nodejs'')]\<rparr>],
     is_status_tags = [\<lparr>th_tag = t, th_images = [''sha256:0'']\<rparr>]\<rparr>"

theorem image_stream_found_witness:
  "\<exists>i. GetImageStream (memory_client ''app'') [] ''nodejs'' ''8'' (empty_cluster\<lparr>k_streams := [example_stream ''8'']\<rparr>)
      = (Inr i, empty_cluster\<lparr>k_streams := [example_stream ''8'']\<rparr>)
    \<and> ''8'' \<in> th_tag ` set (is_status_tags i)"
proof -
  let ?s = "empty_cluster\<lparr>k_streams := [example_stream ''8'']\<rparr>"
  have g: "GetImageStream (memory_client ''app'') [] ''nodejs'' ''8'' ?s = (Inr (example_stream ''8''), ?s)"
    by (rule GetImageStream_current)
      (simp_all add: memory_client_def store_api_def example_stream_def named_meta_def isTagInImageStream_iff)
  have "''8'' \<in> th_tag ` set (is_status_tags (example_stream ''8''))"
    by (rule conjunct1 [OF image_stream_found [OF g]])
  with g show ?thesis by (intro exI conjI)
qed

text \<open>When the current project has the stream without the tag and \<open>openshift\<close> does not
  have the stream, the lookup ends in a nil dereference: the error of the first lookup,
  which there was none of, is printed.\<close>

theorem image_stream_nil_panic:
  assumes "ra_get (cl_image_streams c) (cl_namespace c) n s = (Inr i, s1)"
    and "t \<notin> th_tag ` set (is_status_tags i)"
    and "ra_get (cl_image_streams c) OpenShiftNameSpace n s1 = (Inl (Err e), s2)"
  shows "GetImageStream c [] n t s = (Inl (Panic ''nil pointer dereference: err.Error()''), s2)"
  using assms by (intro GetImageStream_nil [of c n s i s1]) (simp_all add: isTagInImageStream_iff)

text \<open>A cluster whose streams answer in the project \<open>app\<close> only.\<close>

definition app_only_client :: "cluster client" where
  "app_only_client = (memory_client ''app'')\<lparr>cl_image_streams :=
     (store_api k_streams k_streams_update is_meta)\<lparr>ra_get := (\<lambda>ns n s.
       if ns = ''app'' then ra_get (store_api k_streams k_streams_update is_meta) ns n s
       else (Inl (status_not_found n), s))\<rparr>\<rparr>"

theorem image_stream_nil_panic_witness:
  "fst (GetImageStream app_only_client [] ''nodejs'' ''10'' (empty_cluster\<lparr>k_streams := [example_stream ''8'']\<rparr>))
     = Inl (Panic ''nil pointer dereference: err.Error()'')"
  using image_stream_nil_panic [of app_only_client "''nodejs''" "empty_cluster\<lparr>k_streams := [example_stream ''8'']\<rparr>"
      "example_stream ''8''" "empty_cluster\<lparr>k_streams := [example_stream ''8'']\<rparr>" "''10''"
      "StatusError ''NotFound'' ''nodejs not found''" "empty_cluster\<lparr>k_streams := [example_stream ''8'']\<rparr>"]
  by (simp add: app_only_client_def memory_client_def store_api_def example_stream_def named_meta_def
      OpenShiftNameSpace_def status_not_found_def)

lemma exposed_port_eq:
  assumes "split_on CHR ''/'' e = [a, b]" and "parse_int 32 a = Inr n"
    and "to_upper b = p" and "p = ''TCP'' \<or> p = ''UDP''" and "to_lower p = l"
  shows "exposed_port e = Inr \<lparr>cp_name = show_int n @ ''-'' @ l, cp_port = n, cp_protocol = p\<rparr>"
  using assms by (auto simp: exposed_port_def Let_def)

text \<open>The ports read from an image are numbers of 32 bits with the protocol TCP or UDP, one
  for each exposed port of the image, in the order the map is iterated.\<close>

theorem exposed_ports_valid:
  assumes "GetExposedPorts c i = Inr ps"
  shows "length ps = length (range_map (cl_order c) (isi_exposed_ports i))
    \<and> (\<forall>p\<in>set ps. - (2 ^ 31) \<le> cp_port p \<and> cp_port p < 2 ^ 31 \<and> cp_protocol p \<in> {''TCP'', ''UDP''})"
proof -
  have m: "mapR (\<lambda>e. exposed_port (fst e)) (range_map (cl_order c) (isi_exposed_ports i)) = Inr ps"
    using assms by (simp add: GetExposedPorts_def getExposedPortsFromISI_def)
  show ?thesis
  proof (intro conjI ballI)
    show "length ps = length (range_map (cl_order c) (isi_exposed_ports i))" by (rule mapR_Inr_length [OF m])
    fix p assume "p \<in> set ps"
    then obtain e where "exposed_port (fst e) = Inr p" using mapR_Inr_set [OF m, of p] by auto
    from exposed_port_bounds [OF this]
    show "- (2 ^ 31) \<le> cp_port p" "cp_port p < 2 ^ 31" "cp_protocol p \<in> {''TCP'', ''UDP''}" by blast+
  qed
qed

theorem exposed_ports_valid_witness:
  "\<exists>ps. GetExposedPorts (memory_client ''app'') \<lparr>isi_name = ''nodejs'', isi_exposed_ports = [(''8080/tcp'', ()), (''53/udp'', ())],
      isi_labels = None, isi_working_dir = []\<rparr> = Inr ps \<and> length ps = 2"
proof -
  let ?i = "\<lparr>isi_name = ''nodejs'', isi_exposed_ports = [(''8080/tcp'', ()), (''53/udp'', ())],
      isi_labels = None, isi_working_dir = []\<rparr>"
  let ?ps = "[\<lparr>cp_name = show_int 8080 @ ''-'' @ ''tcp'', cp_port = 8080, cp_protocol = ''TCP''\<rparr>,
      \<lparr>cp_name = show_int 53 @ ''-'' @ ''udp'', cp_port = 53, cp_protocol = ''UDP''\<rparr>]"
  have "range_map (\<lambda>ks. ks) (isi_exposed_ports ?i) = [(''8080/tcp'', ()), (''53/udp'', ())]"
    by (simp add: range_map_def keys_of_def)
  moreover have "exposed_port ''8080/tcp'' = Inr \<lparr>cp_name = show_int 8080 @ ''-'' @ ''tcp'', cp_port = 8080, cp_protocol = ''TCP''\<rparr>"
    by (rule exposed_port_eq [of _ "''8080''" "''tcp''"]) code_simp+
  moreover have "exposed_port ''53/udp'' = Inr \<lparr>cp_name = show_int 53 @ ''-'' @ ''udp'', cp_port = 53, cp_protocol = ''UDP''\<rparr>"
    by (rule exposed_port_eq [of _ "''53''" "''udp''"]) code_simp+
  ultimately have g: "GetExposedPorts (memory_client ''app'') ?i = Inr ?ps"
    by (simp add: GetExposedPorts_def getExposedPortsFromISI_def memory_client_def)
  with exposed_ports_valid [OF g] show ?thesis by (intro exI [of _ ?ps]) simp
qed

end
