(* ===== verification/Storage.thy ===== *)
theory Storage
  imports Cluster
begin

text \<open>
  \<open>pkg/storage/storage.go\<close>: storage of a component, kept as labelled persistent volume
  claims, and the comparison of the storage in the configuration with that in the cluster
  during \<open>odo push\<close>.
\<close>


section \<open>Storage objects\<close>

record Storage =
  sg_type :: type_meta
  sg_name :: string
  sg_size :: string
  sg_path :: string

record StorageList =
  sl_type :: type_meta
  sl_items :: "Storage list"

definition GetMachineReadableFormatForList :: "Storage list \<Rightarrow> StorageList" where
  "GetMachineReadableFormatForList storage =
     \<lparr>sl_type = \<lparr>tm_kind = ''List'', tm_api_version = ''odo.openshift.io/v1alpha1''\<rparr>, sl_items = storage\<rparr>"

definition GetMachineReadableFormat :: "string \<Rightarrow> string \<Rightarrow> string \<Rightarrow> Storage" where
  "GetMachineReadableFormat storageName storageSize storagePath =
     \<lparr>sg_type = \<lparr>tm_kind = ''storage'', tm_api_version = ''odo.openshift.io/v1alpha1''\<rparr>,
      sg_name = storageName, sg_size = storageSize, sg_path = storagePath\<rparr>"

definition no_storage :: Storage where
  "no_storage = \<lparr>sg_type = \<lparr>tm_kind = [], tm_api_version = []\<rparr>, sg_name = [], sg_size = [], sg_path = []\<rparr>"

fun storage_get :: "Storage list \<Rightarrow> string \<Rightarrow> Storage" where
  "storage_get [] storageName = no_storage"
| "storage_get (storage # ss) storageName =
     (if sg_name storage = storageName then storage else storage_get ss storageName)"

definition generatePVCNameFromStorageName :: "string \<Rightarrow> string" where
  "generatePVCNameFromStorageName storage = storage @ ''-pvc''"

definition getStorageFromPVC :: "pvc \<Rightarrow> string" where
  "getStorageFromPVC p =
     (if \<not> has_key (om_labels (pvc_meta p)) StorageLabel then []
      else get_str (om_labels (pvc_meta p)) StorageLabel)"


section \<open>Creating, deleting, mounting, unmounting\<close>

definition StorageCreate ::
  "'s client \<Rightarrow> string \<Rightarrow> string \<Rightarrow> string \<Rightarrow> string \<Rightarrow> ('s, pvc) op" where
  "StorageCreate c name sz componentName applicationName =
     bind (wrapping ''unable to create namespaced name'' [] (lift (NamespaceOpenShiftObject name applicationName)))
       (\<lambda>namespaced.
         wrapping ''unable to create PVC'' []
           (CreatePVC c (generatePVCNameFromStorageName namespaced) sz
             (StorageGetLabels name componentName applicationName True)))"

definition getPVCNameFromStorageName :: "'s client \<Rightarrow> string \<Rightarrow> ('s, string) op" where
  "getPVCNameFromStorageName c storageName =
     (let selector = selector_of c [(StorageLabel, storageName)] in
      bind (wrapping ''unable to get PVC names for selector %v'' [selector] (GetPVCNamesFromSelector c selector))
        (\<lambda>pvcs. case pvcs of
           [n] \<Rightarrow> return n
         | _ \<Rightarrow> failing ''expected exactly one PVC attached to storage %v, but got %v, %v''
                  [storageName, show_nat (length pvcs), join_with '' '' pvcs]))"

definition component_dc :: "'s client \<Rightarrow> string \<Rightarrow> string \<Rightarrow> ('s, dc) op" where
  "component_dc c componentName applicationName =
     GetOneDeploymentConfigFromSelector c (selector_of c (ComponentGetLabels componentName applicationName False))"

definition Unmount :: "'s client \<Rightarrow> string \<Rightarrow> string \<Rightarrow> string \<Rightarrow> bool \<Rightarrow> ('s, unit) op" where
  "Unmount c storageName componentName applicationName updateLabels =
     bind (wrapping ''unable to get Deployment Config for component: %v in application: %v''
            [componentName, applicationName] (component_dc c componentName applicationName)) (\<lambda>d.
     bind (wrapping ''unable to get PVC for storage %v'' [storageName]
            (getPVCNameFromStorageName c storageName)) (\<lambda>pvcName.
     bind (wrapping ''unable to remove volume: %v from Deployment Config: %v'' [pvcName, om_name (dc_meta d)]
            (RemoveVolumeFromDeploymentConfig c pvcName (om_name (dc_meta d)))) (\<lambda>_.
     bind (wrapping ''unable to get PersistentVolumeClaim from name: %v'' [pvcName]
            (GetPVCFromName c pvcName)) (\<lambda>p.
       let pvcLabels = put StorageLabel storageName (AppGetLabels applicationName True)
       in if updateLabels then
            wrapping ''unable to remove storage label from : %v'' [om_name (pvc_meta p)]
              (UpdatePVCLabels c p pvcLabels)
          else return ()))))"

definition StorageDelete :: "'s client \<Rightarrow> string \<Rightarrow> ('s, unit) op" where
  "StorageDelete c name =
     bind (wrapping ''unable to get PVC for storage %v'' [name] (getPVCNameFromStorageName c name)) (\<lambda>pvcName.
       wrapping ''unable to delete PVC %v'' [pvcName] (DeletePVC c pvcName))"

text \<open>With several claims the error wrapped is nil, so the call ends without one.\<close>

definition GetComponentNameFromStorageName :: "'s client \<Rightarrow> string \<Rightarrow> ('s, string) op" where
  "GetComponentNameFromStorageName c storageName =
     bind (wrapping ''unable to list the pvcs'' []
            (GetPVCsFromSelector c (selector_of c [(StorageLabel, storageName)]))) (\<lambda>pvcs.
       if length pvcs > 1 then return []
       else if length pvcs = 1 then return (get_str (om_labels (pvc_meta (pvcs ! 0))) ComponentLabel)
       else return [])"

text \<open>
  The deployment configuration the claim is added to is the copy in memory; it is not sent
  back to the cluster. \<open>GenerateRandomString(nameLength)\<close> draws from the client's source.
\<close>

definition Mount :: "'s client \<Rightarrow> string \<Rightarrow> string \<Rightarrow> string \<Rightarrow> string \<Rightarrow> ('s, unit) op" where
  "Mount c path storageName componentName applicationName =
     bind (wrapping ''unable to get the component name associated with the storage'' []
            (GetComponentNameFromStorageName c storageName)) (\<lambda>storageComponent.
     if storageComponent \<noteq> [] then
       failing ''the given storage is already mounted to the component %v'' [storageComponent]
     else
     bind (wrapping ''unable to create namespaced name'' []
            (lift (NamespaceOpenShiftObject storageName applicationName))) (\<lambda>namespaced.
     bind (wrapping ''unable to get the pvc from the storage name'' []
            (GetPVCFromName c (generatePVCNameFromStorageName namespaced))) (\<lambda>p.
     bind (wrapping ''unable to get Deployment Config for component: %v in application: %v''
            [componentName, applicationName] (component_dc c componentName applicationName)) (\<lambda>d.
     bind (cl_picks c) (\<lambda>picks.
     bind (wrapping ''unable to add PVC to DeploymentConfig'' []
            (editing (AddPVCToDeploymentConfig (GenerateRandomString picks 5) (om_name (pvc_meta p)) path) d)) (\<lambda>_.
       wrapping ''unable to update the pvc'' []
         (UpdatePVCLabels c p (StorageGetLabels storageName componentName applicationName True))))))))"


section \<open>Listing\<close>

text \<open>Storage names of the volume mounts with their paths.\<close>

fun mounted_loop ::
  "dc \<Rightarrow> pvc gomap \<Rightarrow> volume_mount list \<Rightarrow> string gomap \<Rightarrow> string gomap result" where
  "mounted_loop d pvcMap [] mounted = Inr mounted"
| "mounted_loop d pvcMap (volumeMount # vms) mounted =
     bindR (IsVolumeAnEmptyDir (vm_name volumeMount) d) (\<lambda>isEmpty.
       if isEmpty then mounted_loop d pvcMap vms mounted
       else bindR (GetPVCNameFromVolumeMountName (vm_name volumeMount) d) (\<lambda>pvcName.
         if pvcName = [] then fails ''no PVC associated with Volume Mount %v'' [vm_name volumeMount]
         else case lookup pvcMap pvcName of
             None \<Rightarrow>
               if IsAppSupervisorDVolume (vm_name volumeMount) (om_name (dc_meta d))
               then mounted_loop d pvcMap vms mounted
               else fails ''unable to get PVC %v'' [pvcName]
           | Some p \<Rightarrow>
               mounted_loop d pvcMap vms (put (getStorageFromPVC p) (vm_path volumeMount) mounted)))"

text \<open>The claims of the application that belong to the component or to none.\<close>

definition listed_pvc :: "string \<Rightarrow> string \<Rightarrow> pvc \<Rightarrow> bool" where
  "listed_pvc componentName applicationName p =
     (let labels = om_labels (pvc_meta p) in
      (\<not> has_key labels ComponentLabel \<or> get_str labels ComponentLabel = componentName)
      \<and> (has_key labels ApplicationLabel \<and> get_str labels ApplicationLabel = applicationName))"

definition storage_of_pvc :: "string \<Rightarrow> pvc \<Rightarrow> Storage" where
  "storage_of_pvc path p = GetMachineReadableFormat (getStorageFromPVC p) (quantity_string (pvc_size p)) path"

fun listed_loop ::
  "(pvc \<Rightarrow> bool) \<Rightarrow> (pvc \<Rightarrow> string) \<Rightarrow> pvc list \<Rightarrow> Storage list \<Rightarrow> Storage list result" where
  "listed_loop listed path [] storage = Inr storage"
| "listed_loop listed path (p # pvcs) storage =
     (if listed p then
        (if om_name (pvc_meta p) = [] then fails ''no PVC associated'' []
         else listed_loop listed path pvcs (storage @ [storage_of_pvc (path p) p]))
      else listed_loop listed path pvcs storage)"

definition claims_by_name :: "pvc list \<Rightarrow> pvc gomap" where
  "claims_by_name pvcs = foldl (\<lambda>m p. put (om_name (pvc_meta p)) p m) [] pvcs"

text \<open>The part of \<open>List\<close> after the two reads.\<close>

definition storage_listing :: "string \<Rightarrow> string \<Rightarrow> dc \<Rightarrow> pvc list \<Rightarrow> Storage list result" where
  "storage_listing componentName applicationName d pvcs =
     bindR (GetVolumeMountsFromDC d) (\<lambda>volumeMounts.
     bindR (mounted_loop d (claims_by_name pvcs) volumeMounts []) (\<lambda>mountedStorageMap.
       listed_loop (listed_pvc componentName applicationName)
         (\<lambda>p. get_str mountedStorageMap (getStorageFromPVC p)) pvcs []))"

definition StorageListAll :: "'s client \<Rightarrow> string \<Rightarrow> string \<Rightarrow> ('s, StorageList) op" where
  "StorageListAll c componentName applicationName =
     bind (wrapping ''unable to get Deployment Config associated with component %v'' [componentName]
            (component_dc c componentName applicationName)) (\<lambda>d.
     bind (wrapping ''unable to get PVC using selector %v'' [StorageLabel]
            (GetPVCsFromSelector c StorageLabel)) (\<lambda>pvcs.
     bind (lift (storage_listing componentName applicationName d pvcs)) (\<lambda>storage.
       return (GetMachineReadableFormatForList storage))))"

definition ListMounted :: "'s client \<Rightarrow> string \<Rightarrow> string \<Rightarrow> ('s, StorageList) op" where
  "ListMounted c componentName applicationName =
     bind (wrapping ''unable to get storage of component %v'' [componentName]
            (StorageListAll c componentName applicationName)) (\<lambda>storageList.
       return (GetMachineReadableFormatForList (foldl (\<lambda>mounted storage.
         if sg_path storage \<noteq> [] then mounted @ [storage] else mounted) [] (sl_items storageList))))"

definition unmounted_pvc :: "string \<Rightarrow> pvc \<Rightarrow> bool" where
  "unmounted_pvc applicationName p =
     (let labels = om_labels (pvc_meta p) in
      \<not> has_key labels ComponentLabel
      \<and> (has_key labels ApplicationLabel \<and> get_str labels ApplicationLabel = applicationName))"

definition ListUnmounted :: "'s client \<Rightarrow> string \<Rightarrow> ('s, StorageList) op" where
  "ListUnmounted c applicationName =
     bind (wrapping ''unable to get PVC using selector %v'' [StorageLabel]
            (GetPVCsFromSelector c StorageLabel)) (\<lambda>pvcs.
     bind (lift (listed_loop (unmounted_pvc applicationName) (\<lambda>_. []) pvcs [])) (\<lambda>storage.
       return (GetMachineReadableFormatForList storage)))"

definition StorageExists :: "'s client \<Rightarrow> string \<Rightarrow> string \<Rightarrow> ('s, bool) op" where
  "StorageExists c storageName applicationName =
     (let labels = put StorageLabel storageName [(ApplicationLabel, applicationName)] in
      bind (wrapping ''unable to list storage for application %v'' [applicationName]
             (GetPVCsFromSelector c (selector_of c labels))) (\<lambda>pvcs.
        if length pvcs \<le> 0 then return False else return True))"

fun is_mounted_in :: "string \<Rightarrow> Storage list \<Rightarrow> bool" where
  "is_mounted_in storageName [] = False"
| "is_mounted_in storageName (storage # ss) =
     (if sg_name storage = storageName
      then (if sg_path storage \<noteq> [] then True else is_mounted_in storageName ss)
      else is_mounted_in storageName ss)"

definition IsMounted :: "'s client \<Rightarrow> string \<Rightarrow> string \<Rightarrow> string \<Rightarrow> ('s, bool) op" where
  "IsMounted c storageName componentName applicationName =
     bind (wrapping ''unable to list storage for component %v'' [componentName]
            (StorageListAll c componentName applicationName)) (\<lambda>storageList.
       return (is_mounted_in storageName (sl_items storageList)))"

fun name_at_path :: "string \<Rightarrow> Storage list \<Rightarrow> string" where
  "name_at_path path [] = []"
| "name_at_path path (storage # ss) = (if sg_path storage = path then sg_name storage else name_at_path path ss)"

definition GetStorageNameFromMountPath :: "'s client \<Rightarrow> string \<Rightarrow> string \<Rightarrow> string \<Rightarrow> ('s, string) op" where
  "GetStorageNameFromMountPath c path componentName applicationName =
     bind (wrapping ''unable to list storage for component %v'' [componentName]
            (StorageListAll c componentName applicationName)) (\<lambda>storageList.
       return (name_at_path path (sl_items storageList)))"


section \<open>Push\<close>

definition by_name :: "Storage list \<Rightarrow> Storage gomap" where
  "by_name ss = foldl (\<lambda>m s. put (sg_name s) s m) [] ss"

text \<open>One storage of the cluster: kept, deleted, or a mismatch.\<close>

definition push_delete ::
  "'s client \<Rightarrow> Storage gomap \<Rightarrow> Storage \<Rightarrow> string gomap \<Rightarrow> ('s, string gomap) op" where
  "push_delete c storageConfigNames storage unmounted =
     (case lookup storageConfigNames (sg_name storage) of
        None \<Rightarrow> bind (StorageDelete c (sg_name storage)) (\<lambda>_.
                  return (put (sg_path storage) (sg_name storage) unmounted))
      | Some val \<Rightarrow>
          if sg_name storage = sg_name val then
            (if sg_size val \<noteq> sg_size storage \<or> sg_path val \<noteq> sg_path storage
             then failing ''config mismatch for storage with the same name %s'' [sg_name storage]
             else return unmounted)
          else return unmounted)"

text \<open>One storage of the configuration: created unless the cluster has it.\<close>

definition push_create ::
  "'s client \<Rightarrow> Storage gomap \<Rightarrow> string \<Rightarrow> string \<Rightarrow> Storage \<Rightarrow> pvc gomap \<Rightarrow> ('s, pvc gomap) op" where
  "push_create c storageClusterNames componentName applicationName storage mounted =
     (if \<not> has_key storageClusterNames (sg_name storage) then
        bind (StorageCreate c (sg_name storage) (sg_size storage) componentName applicationName) (\<lambda>createdPVC.
          return (put (sg_path storage) createdPVC mounted))
      else return mounted)"

definition Push ::
  "'s client \<Rightarrow> StorageList \<Rightarrow> string \<Rightarrow> string \<Rightarrow> bool \<Rightarrow> ('s, pvc gomap \<times> string gomap) op" where
  "Push c storageList componentName applicationName isComponentExists =
     bind (if isComponentExists
           then bind (ListMounted c componentName applicationName) (\<lambda>l. return (sl_items l))
           else return []) (\<lambda>cluster.
     bind (fold_op (push_delete c (by_name (sl_items storageList))) cluster []) (\<lambda>unmounted.
     bind (fold_op (push_create c (by_name cluster) componentName applicationName) (sl_items storageList) [])
       (\<lambda>mounted. return (mounted, unmounted))))"



section \<open>Facts\<close>

subsection \<open>Listing\<close>

lemma listed_loop_ok_iff:
  "listed_loop listed path pvcs storage = Inr r \<longleftrightarrow>
     (\<forall>p\<in>set pvcs. listed p \<longrightarrow> om_name (pvc_meta p) \<noteq> [])
     \<and> r = storage @ map (\<lambda>p. storage_of_pvc (path p) p) (filter listed pvcs)"
  by (induction pvcs arbitrary: storage) auto

lemma mounted_loop_lookup:
  assumes "mounted_loop d pvcMap vms mounted = Inr m" and "lookup m n = Some path"
  shows "lookup mounted n = Some path \<or> (\<exists>vm\<in>set vms. vm_path vm = path \<and>
    (\<exists>claim p. GetPVCNameFromVolumeMountName (vm_name vm) d = Inr claim \<and> claim \<noteq> []
       \<and> lookup pvcMap claim = Some p \<and> getStorageFromPVC p = n))"
  using assms
proof (induction vms arbitrary: mounted)
  case (Cons vm vms)
  from Cons.prems(1) obtain e where e: "IsVolumeAnEmptyDir (vm_name vm) d = Inr e"
    by (auto simp: bindR_Inr_iff)
  show ?case
  proof (cases e)
    case True
    with e Cons show ?thesis by auto
  next
    case False
    with e Cons.prems(1) obtain claim where claim: "GetPVCNameFromVolumeMountName (vm_name vm) d = Inr claim"
      "claim \<noteq> []"
      by (auto simp: bindR_Inr_iff fails_def split: if_splits)
    show ?thesis
    proof (cases "lookup pvcMap claim")
      case None
      with e False claim Cons.prems(1) have "mounted_loop d pvcMap vms mounted = Inr m"
        by (auto simp: fails_def split: if_splits)
      with Cons.IH Cons.prems(2) show ?thesis by auto
    next
      case (Some p)
      with e False claim Cons.prems(1)
      have "mounted_loop d pvcMap vms (put (getStorageFromPVC p) (vm_path vm) mounted) = Inr m" by simp
      from Cons.IH [OF this Cons.prems(2)] show ?thesis
        using claim Some by (auto split: if_splits)
    qed
  qed
qed simp

lemma claims_by_name_mem: "lookup (claims_by_name pvcs) n = Some p \<Longrightarrow> p \<in> set pvcs \<and> om_name (pvc_meta p) = n"
proof (induction pvcs rule: rev_induct)
  case (snoc x pvcs)
  have "claims_by_name (pvcs @ [x]) = put (om_name (pvc_meta x)) x (claims_by_name pvcs)"
    by (simp add: claims_by_name_def)
  with snoc show ?case by (cases "n = om_name (pvc_meta x)") simp_all
qed (simp add: claims_by_name_def)

lemma storage_listing_ok:
  assumes "storage_listing cmp app d pvcs = Inr st"
  obtains vms m where "GetVolumeMountsFromDC d = Inr vms"
    and "mounted_loop d (claims_by_name pvcs) vms [] = Inr m"
    and "st = map (\<lambda>p. storage_of_pvc (get_str m (getStorageFromPVC p)) p) (filter (listed_pvc cmp app) pvcs)"
proof -
  from assms obtain vms m where "GetVolumeMountsFromDC d = Inr vms"
    and "mounted_loop d (claims_by_name pvcs) vms [] = Inr m"
    and "listed_loop (listed_pvc cmp app) (\<lambda>p. get_str m (getStorageFromPVC p)) pvcs [] = Inr st"
    unfolding storage_listing_def bindR_Inr_iff by (elim exE conjE)
  with that show thesis by (simp add: listed_loop_ok_iff)
qed

text \<open>What a successful listing read, and what it gives back.\<close>

lemma StorageListAll_ok:
  assumes "StorageListAll c cmp app s = (Inr l, s')"
  obtains d s1 pvcs where "component_dc c cmp app s = (Inr d, s1)"
    and "ra_list (cl_pvcs c) (cl_namespace c) (ByLabels StorageLabel) s1 = (Inr pvcs, s')"
    and "storage_listing cmp app d pvcs = Inr (sl_items l)"
proof -
  from assms obtain d s1 where 1: "component_dc c cmp app s = (Inr d, s1)"
    and r: "bind (wrapping ''unable to get PVC using selector %v'' [StorageLabel]
            (GetPVCsFromSelector c StorageLabel)) (\<lambda>pvcs.
     bind (lift (storage_listing cmp app d pvcs)) (\<lambda>storage.
       return (GetMachineReadableFormatForList storage))) s1 = (Inr l, s')"
    unfolding StorageListAll_def by - (erule bind_okE, simp)
  from r obtain pvcs where "ra_list (cl_pvcs c) (cl_namespace c) (ByLabels StorageLabel) s1 = (Inr pvcs, s')"
    and "storage_listing cmp app d pvcs = Inr (sl_items l)"
    by (elim bind_okE) (auto simp: GetPVCsFromSelector_def GetMachineReadableFormatForList_def)
  with 1 show thesis by (rule that)
qed

lemma ListMounted_ok:
  assumes "ListMounted c cmp app s = (Inr l, s')"
  shows "\<exists>all. StorageListAll c cmp app s = (Inr all, s')
    \<and> sl_items l = filter (\<lambda>x. sg_path x \<noteq> []) (sl_items all)"
proof -
  have "foldl (\<lambda>mounted x. if sg_path x \<noteq> [] then mounted @ [x] else mounted) [] xs
      = filter (\<lambda>x. sg_path x \<noteq> []) xs" for xs :: "Storage list"
    by (induction xs rule: rev_induct) auto
  with assms show ?thesis
    by (auto simp: ListMounted_def bind_ok_iff op_apply GetMachineReadableFormatForList_def)
qed

lemma get_str_Some: "get_str m k = v \<Longrightarrow> v \<noteq> [] \<Longrightarrow> lookup m k = Some v"
  by (auto simp: get_str_def split: option.splits)

subsection \<open>Push against its plan\<close>

lemma by_name_snoc: "by_name (ss @ [s]) = put (sg_name s) s (by_name ss)"
  by (simp add: by_name_def)

lemma by_name_Nil [simp]: "by_name [] = []"
  by (simp add: by_name_def)

lemma by_name_mem: "lookup (by_name ss) n = Some v \<Longrightarrow> v \<in> set ss \<and> sg_name v = n"
  by (induction ss rule: rev_induct) (auto simp: by_name_snoc split: if_splits)

lemma by_name_dom: "lookup (by_name ss) n = None \<longleftrightarrow> n \<notin> sg_name ` set ss"
  by (induction ss rule: rev_induct) (auto simp: by_name_snoc)

lemma by_name_distinct:
  "distinct (map sg_name ss) \<Longrightarrow> s \<in> set ss \<Longrightarrow> lookup (by_name ss) (sg_name s) = Some s"
proof (induction ss rule: rev_induct)
  case (snoc x ss)
  show ?case
  proof (cases "s = x")
    case False
    with snoc.prems have "s \<in> set ss" by simp
    moreover from this have "sg_name s \<in> sg_name ` set ss" by simp
    with snoc.prems have "sg_name s \<noteq> sg_name x" by auto
    ultimately have "s \<in> set ss" "sg_name s \<noteq> sg_name x" by simp_all
    with snoc show ?thesis by (simp add: by_name_snoc)
  qed (simp add: by_name_snoc)
qed simp

text \<open>What the cluster has and the configuration does not, and the other way round.\<close>

definition stale :: "Storage list \<Rightarrow> Storage list \<Rightarrow> Storage list" where
  "stale config cluster = filter (\<lambda>s. sg_name s \<notin> sg_name ` set config) cluster"

definition mismatch :: "Storage list \<Rightarrow> Storage \<Rightarrow> bool" where
  "mismatch config s = (case lookup (by_name config) (sg_name s) of
     None \<Rightarrow> False | Some v \<Rightarrow> sg_size v \<noteq> sg_size s \<or> sg_path v \<noteq> sg_path s)"

definition delete_one :: "'s client \<Rightarrow> Storage \<Rightarrow> string gomap \<Rightarrow> ('s, string gomap) op" where
  "delete_one c storage unmounted = bind (StorageDelete c (sg_name storage)) (\<lambda>_.
     return (put (sg_path storage) (sg_name storage) unmounted))"

definition create_one ::
  "'s client \<Rightarrow> string \<Rightarrow> string \<Rightarrow> Storage \<Rightarrow> pvc gomap \<Rightarrow> ('s, pvc gomap) op" where
  "create_one c cmp app storage mounted =
     bind (StorageCreate c (sg_name storage) (sg_size storage) cmp app) (\<lambda>p.
       return (put (sg_path storage) p mounted))"

lemma delete_one_ok_iff:
  "delete_one c x u s = (Inr u', s') \<longleftrightarrow>
     StorageDelete c (sg_name x) s = (Inr (), s') \<and> u' = put (sg_path x) (sg_name x) u"
  by (auto simp: delete_one_def bind_ok_iff)

lemma create_one_ok_iff:
  "create_one c cmp app x m s = (Inr m', s') \<longleftrightarrow>
     (\<exists>p. StorageCreate c (sg_name x) (sg_size x) cmp app s = (Inr p, s') \<and> m' = put (sg_path x) p m)"
  by (auto simp: create_one_def bind_ok_iff)

lemma push_delete_eq:
  "push_delete c (by_name config) s u =
     (if sg_name s \<notin> sg_name ` set config then delete_one c s u
      else if mismatch config s
      then failing ''config mismatch for storage with the same name %s'' [sg_name s]
      else return u)"
proof (cases "lookup (by_name config) (sg_name s)")
  case None
  then have "sg_name s \<notin> sg_name ` set config" by (simp add: by_name_dom)
  with None show ?thesis by (simp add: push_delete_def delete_one_def)
next
  case (Some v)
  with by_name_mem by_name_dom [of config "sg_name s"] show ?thesis
    by (auto simp: push_delete_def mismatch_def)
qed

lemma push_create_eq:
  "push_create c (by_name cluster) cmp app s m =
     (if sg_name s \<notin> sg_name ` set cluster then create_one c cmp app s m else return m)"
  using by_name_dom [of cluster "sg_name s"]
  by (auto simp: push_create_def create_one_def has_key_def)

lemma deletes_ok:
  "(\<And>s. s \<in> set cluster \<Longrightarrow> \<not> mismatch config s) \<Longrightarrow>
     fold_op (push_delete c (by_name config)) cluster u = fold_op (delete_one c) (stale config cluster) u"
proof (induction cluster arbitrary: u)
  case (Cons s ss)
  from Cons.prems have "\<not> mismatch config s" by simp
  moreover have "fold_op (push_delete c (by_name config)) ss = fold_op (delete_one c) (stale config ss)"
    using Cons by (intro ext) simp
  ultimately show ?case by (simp add: push_delete_eq [of c config s] stale_def)
qed (simp add: stale_def)

lemma creates_ok:
  "fold_op (push_create c (by_name cluster) cmp app) config m =
     fold_op (create_one c cmp app) (stale cluster config) m"
proof (induction config arbitrary: m)
  case (Cons s ss)
  have "fold_op (push_create c (by_name cluster) cmp app) ss = fold_op (create_one c cmp app) (stale cluster ss)"
    using Cons.IH by (intro ext) simp
  then show ?case by (simp add: push_create_eq [of c cluster cmp app s] stale_def)
qed (simp add: stale_def)

text \<open>Push is: delete what is stale, then create what is missing.\<close>

definition push_plan ::
  "'s client \<Rightarrow> string \<Rightarrow> string \<Rightarrow> Storage list \<Rightarrow> Storage list \<Rightarrow> ('s, pvc gomap \<times> string gomap) op" where
  "push_plan c cmp app config cluster =
     bind (fold_op (delete_one c) (stale config cluster) []) (\<lambda>u.
     bind (fold_op (create_one c cmp app) (stale cluster config) []) (\<lambda>m. return (m, u)))"

lemma Push_refines_plan:
  assumes "ListMounted c cmp app s = (Inr cluster, s1)"
    and "\<And>x. x \<in> set (sl_items cluster) \<Longrightarrow> \<not> mismatch (sl_items config) x"
  shows "Push c config cmp app True s = push_plan c cmp app (sl_items config) (sl_items cluster) s1"
  using assms
  by (simp add: Push_def push_plan_def bind_apply return_def deletes_ok creates_ok)

lemma Push_new_component:
  "Push c config cmp app False = push_plan c cmp app (sl_items config) []"
  by (simp add: Push_def push_plan_def creates_ok stale_def)

text \<open>A mismatch stops the run after the deletions before it.\<close>

lemma Push_mismatch:
  assumes "ListMounted c cmp app s = (Inr cluster, s1)" and "sl_items cluster = xs @ x # ys"
    and "\<And>y. y \<in> set xs \<Longrightarrow> \<not> mismatch (sl_items config) y" and "mismatch (sl_items config) x"
    and "fold_op (delete_one c) (stale (sl_items config) xs) [] s1 = (Inr u, s2)"
  shows "Push c config cmp app True s =
    (Inl (Err (Errorf ''config mismatch for storage with the same name %s'' [sg_name x])), s2)"
proof -
  have "sg_name x \<in> sg_name ` set (sl_items config)"
    using assms(4) by_name_dom [of "sl_items config" "sg_name x"]
    by (auto simp: mismatch_def split: option.splits)
  with assms(4) have "push_delete c (by_name (sl_items config)) x u =
      failing ''config mismatch for storage with the same name %s'' [sg_name x]"
    by (simp add: push_delete_eq)
  moreover have "fold_op (push_delete c (by_name (sl_items config))) (xs @ x # ys) [] s1 =
      bind (fold_op (delete_one c) (stale (sl_items config) xs) [])
        (fold_op (push_delete c (by_name (sl_items config))) (x # ys)) s1"
    by (simp only: fold_op_append deletes_ok [OF assms(3)])
  ultimately show ?thesis
    using assms(1,2,5) by (simp add: Push_def bind_apply return_def op_apply)
qed

lemma stale_same_names: "sg_name ` set xs \<subseteq> sg_name ` set ys \<Longrightarrow> stale ys xs = []"
  by (auto simp: stale_def filter_empty_conv)

lemma delete_one_keys:
  "fold_op (delete_one c) ss u s = (Inr u', s') \<Longrightarrow>
     has_key u' p \<longleftrightarrow> p \<in> sg_path ` set ss \<or> has_key u p"
proof (induction ss arbitrary: u s)
  case (Cons x ss)
  then obtain s1 where "fold_op (delete_one c) ss (put (sg_path x) (sg_name x) u) s1 = (Inr u', s')"
    by (auto simp: bind_ok_iff delete_one_ok_iff)
  from Cons.IH [OF this] show ?case by auto
qed (simp add: op_apply)

lemma create_one_keys:
  "fold_op (create_one c cmp app) ss m s = (Inr m', s') \<Longrightarrow>
     has_key m' p \<longleftrightarrow> p \<in> sg_path ` set ss \<or> has_key m p"
proof (induction ss arbitrary: m s)
  case (Cons x ss)
  then obtain q s1 where "fold_op (create_one c cmp app) ss (put (sg_path x) q m) s1 = (Inr m', s')"
    by (auto simp: bind_ok_iff create_one_ok_iff)
  from Cons.IH [OF this] show ?case by auto
qed (simp add: op_apply)

lemma push_plan_keys:
  assumes "push_plan c cmp app config cluster s = (Inr (m, u), s')"
  shows "has_key u p \<longleftrightarrow> p \<in> sg_path ` set (stale config cluster)"
    and "has_key m p \<longleftrightarrow> p \<in> sg_path ` set (stale cluster config)"
  using assms
  by (auto simp: push_plan_def bind_ok_iff op_apply delete_one_keys create_one_keys)





section \<open>Properties\<close>

text \<open>C3. Pushing the storage of an existing component, when no storage of the same name differs,
  deletes exactly the mounted storage that is not in the configuration, then creates exactly
  the configured storage that is not mounted, each in its order, and does nothing else.\<close>

theorem push_follows_plan:
  assumes "ListMounted c cmp app s = (Inr cluster, s1)"
    and "\<And>x. x \<in> set (sl_items cluster) \<Longrightarrow> \<not> mismatch (sl_items config) x"
  shows "Push c config cmp app True s =
    bind (fold_op (delete_one c) (filter (\<lambda>x. sg_name x \<notin> sg_name ` set (sl_items config)) (sl_items cluster)) []) (\<lambda>u.
    bind (fold_op (create_one c cmp app) (filter (\<lambda>x. sg_name x \<notin> sg_name ` set (sl_items cluster)) (sl_items config)) [])
      (\<lambda>m. return (m, u))) s1"
proof -
  have "Push c config cmp app True s = push_plan c cmp app (sl_items config) (sl_items cluster) s1"
    by (rule Push_refines_plan [OF assms(1)]) (rule assms(2))
  then show ?thesis unfolding push_plan_def stale_def .
qed

text \<open>The component \<open>web\<close> of \<open>shop\<close> with the storage \<open>data\<close> mounted at \<open>/data\<close>.\<close>

definition data_pvc :: pvc where
  "data_pvc = \<lparr>pvc_meta = (named_meta ''data-pvc'')\<lparr>om_labels := StorageGetLabels ''data'' ''web'' ''shop'' True\<rparr>,
     pvc_size = Quantity ''1Gi'', pvc_access_modes = [''ReadWriteOnce'']\<rparr>"

definition web_dc :: dc where
  "web_dc = (example_dc [''data''])\<lparr>dc_meta :=
     (named_meta ''web-shop'')\<lparr>om_labels := ComponentGetLabels ''web'' ''shop'' True\<rparr>\<rparr>"

definition web_cluster :: cluster where
  "web_cluster = empty_cluster\<lparr>k_dcs := [web_dc], k_pvcs := [data_pvc]\<rparr>"

definition listed_data :: Storage where
  "listed_data = GetMachineReadableFormat ''data'' ''1Gi'' ''/data''"

lemma web_component_dc: "component_dc (memory_client ''p'') ''web'' ''shop'' web_cluster = (Inr web_dc, web_cluster)"
proof -
  let ?sel = "ConvertLabelsToSelector (\<lambda>ks. ks) (ComponentGetLabels ''web'' ''shop'' False)"
  have "selects (requirements ?sel) (ComponentGetLabels ''web'' ''shop'' True)"
    using component_scheme.selector_exact [of "\<lambda>ks. ks" "(''web'', ''shop'')" "(''web'', ''shop'')" True]
    by (simp add: label_value_def map_order_def)
  moreover have "?sel \<noteq> []"
  proof
    assume "?sel = []"
    then have "requirements ?sel = []" by (simp add: requirements_def)
    moreover have "requirements ?sel = range_map (\<lambda>ks. ks) (ComponentGetLabels ''web'' ''shop'' False)"
      using component_scheme.requirements_labels [of "\<lambda>ks. ks" "(''web'', ''shop'')"]
      by (simp add: label_value_def map_order_def)
    ultimately show False by (simp add: range_map_def keys_of_def ComponentGetLabels_def AppGetLabels_def put_def)
  qed
  ultimately show ?thesis
    by (simp add: component_dc_def GetOneDeploymentConfigFromSelector_def GetDeploymentConfigsFromSelector_def
        selector_of_def bind_apply wrapping_apply op_apply memory_client_def store_api_def web_cluster_def web_dc_def)
qed

lemma web_storage: "storage_listing ''web'' ''shop'' web_dc [data_pvc] = Inr [listed_data]"
proof -
  have "GetVolumeMountsFromDC web_dc = Inr [\<lparr>vm_name = ''data'', vm_path = ''/data'', vm_sub_path = []\<rparr>]"
    by (simp add: GetVolumeMountsFromDC_def template_of_def web_dc_def example_dc_def example_template_def)
  moreover have "IsVolumeAnEmptyDir ''data'' web_dc = Inr False"
    by (simp add: IsVolumeAnEmptyDir_def template_of_def web_dc_def example_dc_def example_template_def)
  moreover have "GetPVCNameFromVolumeMountName ''data'' web_dc = Inr ''data-pvc''"
    by (simp add: GetPVCNameFromVolumeMountName_def template_of_def web_dc_def example_dc_def example_template_def)
  moreover have "claims_by_name [data_pvc] = [(''data-pvc'', data_pvc)]"
    by (simp add: claims_by_name_def data_pvc_def named_meta_def put_def)
  moreover have "getStorageFromPVC data_pvc = ''data''"
    by (simp add: getStorageFromPVC_def data_pvc_def get_str_def has_key_def)
  moreover have "listed_pvc ''web'' ''shop'' data_pvc" "om_name (pvc_meta data_pvc) \<noteq> []"
    "quantity_string (pvc_size data_pvc) = ''1Gi''"
    by (simp_all add: listed_pvc_def data_pvc_def get_str_def has_key_def named_meta_def)
  ultimately show ?thesis
    by (simp add: storage_listing_def lookup_Cons listed_data_def storage_of_pvc_def get_str_def put_def)
qed

lemma web_listed: "StorageListAll (memory_client ''p'') ''web'' ''shop'' web_cluster =
    (Inr (GetMachineReadableFormatForList [listed_data]), web_cluster)"
proof -
  have "selects (requirements StorageLabel) (StorageGetLabels ''data'' ''web'' ''shop'' True)" by code_simp
  then have "GetPVCsFromSelector (memory_client ''p'') StorageLabel web_cluster = (Inr [data_pvc], web_cluster)"
    by (simp add: GetPVCsFromSelector_def wrapping_apply memory_client_def store_api_def web_cluster_def data_pvc_def)
  with web_component_dc web_storage show ?thesis
    by (simp add: StorageListAll_def bind_apply wrapping_apply op_apply)
qed

lemma web_mounted: "ListMounted (memory_client ''p'') ''web'' ''shop'' web_cluster =
    (Inr (GetMachineReadableFormatForList [listed_data]), web_cluster)"
  by (simp add: ListMounted_def bind_apply wrapping_apply op_apply web_listed GetMachineReadableFormatForList_def
      listed_data_def GetMachineReadableFormat_def)

theorem push_follows_plan_witness:
  "Push (memory_client ''p'') (GetMachineReadableFormatForList []) ''web'' ''shop'' True web_cluster =
    bind (delete_one (memory_client ''p'') listed_data []) (\<lambda>u. return ([], u)) web_cluster"
  using push_follows_plan [OF web_mounted, of "GetMachineReadableFormatForList []"]
  by (simp add: mismatch_def GetMachineReadableFormatForList_def bind_apply op_apply split: prod.split sum.split)

text \<open>A push that succeeds reports the paths it changed: unmounted are the paths of the mounted
  storage missing from the configuration, mounted those of the configured storage missing from
  the cluster.\<close>

theorem push_reports_changes:
  assumes "Push c config cmp app True s = (Inr (mounted, unmounted), s')"
    and "ListMounted c cmp app s = (Inr cluster, s1)"
    and "\<And>x. x \<in> set (sl_items cluster) \<Longrightarrow> \<not> mismatch (sl_items config) x"
  shows "(has_key unmounted p \<longleftrightarrow> (\<exists>x\<in>set (sl_items cluster). sg_path x = p
      \<and> sg_name x \<notin> sg_name ` set (sl_items config)))
    \<and> (has_key mounted p \<longleftrightarrow> (\<exists>x\<in>set (sl_items config). sg_path x = p
      \<and> sg_name x \<notin> sg_name ` set (sl_items cluster)))"
proof -
  have "Push c config cmp app True s = push_plan c cmp app (sl_items config) (sl_items cluster) s1"
    by (rule Push_refines_plan [OF assms(2)]) (rule assms(3))
  with assms(1) have "push_plan c cmp app (sl_items config) (sl_items cluster) s1 = (Inr (mounted, unmounted), s')"
    by simp
  note keys = push_plan_keys [OF this, of p]
  have mem: "p \<in> sg_path ` set (stale xs ys) \<longleftrightarrow>
      (\<exists>x\<in>set ys. sg_path x = p \<and> sg_name x \<notin> sg_name ` set xs)" for xs ys :: "Storage list"
    by (auto simp: stale_def)
  show ?thesis unfolding keys mem by (rule conjI) (rule refl)+
qed

theorem push_reports_changes_witness:
  "\<exists>s'. Push (memory_client ''p'') (GetMachineReadableFormatForList []) ''web'' ''shop'' True web_cluster
      = (Inr ([], [(''/data'', ''data'')]), s') \<and> has_key [(''/data'', ''data'')] ''/data''"
proof -
  let ?c = "memory_client ''p''" and ?none = "GetMachineReadableFormatForList []"
  let ?sel = "ConvertLabelsToSelector (\<lambda>ks. ks) [(StorageLabel, ''data'')]"
  have n: "sl_items ?none = []" "sl_items (GetMachineReadableFormatForList [listed_data]) = [listed_data]"
    by (simp_all add: GetMachineReadableFormatForList_def)
  have "selects (requirements ?sel) (StorageGetLabels ''data'' ''web'' ''shop'' True)" by code_simp
  then have "StorageDelete ?c ''data'' web_cluster = (Inr (), web_cluster\<lparr>k_pvcs := []\<rparr>)"
    by (simp add: StorageDelete_def getPVCNameFromStorageName_def GetPVCNamesFromSelector_def GetPVCsFromSelector_def
        DeletePVC_def selector_of_def bind_apply wrapping_apply op_apply Let_def memory_client_def store_api_def
        web_cluster_def data_pvc_def named_meta_def)
  then have "delete_one ?c listed_data [] web_cluster = (Inr [(''/data'', ''data'')], web_cluster\<lparr>k_pvcs := []\<rparr>)"
    by (simp add: delete_one_def bind_apply op_apply listed_data_def GetMachineReadableFormat_def put_def)
  then have p: "Push ?c ?none ''web'' ''shop'' True web_cluster = (Inr ([], [(''/data'', ''data'')]), web_cluster\<lparr>k_pvcs := []\<rparr>)"
    by (subst Push_refines_plan [OF web_mounted])
      (simp_all add: push_plan_def n stale_def mismatch_def bind_apply op_apply)
  have "has_key [(''/data'', ''data'')] ''/data''"
    using push_reports_changes [OF p web_mounted, of "''/data''"]
    by (simp add: n mismatch_def listed_data_def GetMachineReadableFormat_def GetMachineReadableFormatForList_def)
  with p show ?thesis by (intro exI conjI)
qed

text \<open>A push of what is mounted already changes nothing: it reports no path and leaves the cluster
  as the listing left it.\<close>

theorem push_idle:
  assumes "ListMounted c cmp app s = (Inr cluster, s1)"
    and "sg_name ` set (sl_items cluster) = sg_name ` set (sl_items config)"
    and "\<And>x. x \<in> set (sl_items cluster) \<Longrightarrow> \<not> mismatch (sl_items config) x"
  shows "Push c config cmp app True s = (Inr ([], []), s1)"
proof -
  have "stale (sl_items config) (sl_items cluster) = []" "stale (sl_items cluster) (sl_items config) = []"
    by (rule stale_same_names, simp add: assms(2))+
  moreover have "Push c config cmp app True s = push_plan c cmp app (sl_items config) (sl_items cluster) s1"
    by (rule Push_refines_plan [OF assms(1)]) (rule assms(3))
  ultimately show ?thesis by (simp add: push_plan_def bind_apply op_apply)
qed

theorem push_idle_witness:
  "Push (memory_client ''p'') (GetMachineReadableFormatForList [listed_data]) ''web'' ''shop'' True web_cluster
     = (Inr ([], []), web_cluster)"
  by (rule push_idle [OF web_mounted])
    (simp_all add: GetMachineReadableFormatForList_def mismatch_def by_name_def lookup_Cons put_def)

text \<open>C27. A storage whose size or path differs from that of the same name in the configuration is an
  error, and what was stale before it in the listing has been deleted by then.\<close>

theorem push_mismatch_after_deletes:
  assumes "ListMounted c cmp app s = (Inr cluster, s1)" and "sl_items cluster = xs @ x # ys"
    and "\<And>y. y \<in> set xs \<Longrightarrow> \<not> mismatch (sl_items config) y" and "mismatch (sl_items config) x"
    and "fold_op (delete_one c) (stale (sl_items config) xs) [] s1 = (Inr u, s2)"
  shows "Push c config cmp app True s =
    (Inl (Err (Errorf ''config mismatch for storage with the same name %s'' [sg_name x])), s2)"
  using assms by (rule Push_mismatch)

theorem push_mismatch_after_deletes_witness:
  "Push (memory_client ''p'') (GetMachineReadableFormatForList [GetMachineReadableFormat ''data'' ''2Gi'' ''/data''])
      ''web'' ''shop'' True web_cluster
    = (Inl (Err (Errorf ''config mismatch for storage with the same name %s'' [sg_name listed_data])), web_cluster)"
  by (rule push_mismatch_after_deletes [OF web_mounted, of "[]" _ "[]"])
    (simp_all add: GetMachineReadableFormatForList_def mismatch_def by_name_def lookup_Cons put_def stale_def
      listed_data_def GetMachineReadableFormat_def op_apply)

text \<open>C28. Every storage listed for a component is a claim of its application that belongs to the
  component or to none, with the claim's size; a path that is shown is the path of a mount of
  the component's container whose claim carries the storage's name.\<close>

theorem listed_storage_is_mounted:
  assumes "StorageListAll c cmp app s = (Inr l, s')" and "x \<in> set (sl_items l)"
  shows "\<exists>d s1 pvcs p. component_dc c cmp app s = (Inr d, s1)
    \<and> ra_list (cl_pvcs c) (cl_namespace c) (ByLabels StorageLabel) s1 = (Inr pvcs, s') \<and> p \<in> set pvcs
    \<and> lookup (om_labels (pvc_meta p)) ApplicationLabel = Some app
    \<and> (case lookup (om_labels (pvc_meta p)) ComponentLabel of None \<Rightarrow> True | Some v \<Rightarrow> v = cmp)
    \<and> sg_name x = getStorageFromPVC p \<and> sg_size x = quantity_string (pvc_size p)
    \<and> (sg_path x = [] \<or> (\<exists>vms vm claim p'. GetVolumeMountsFromDC d = Inr vms \<and> vm \<in> set vms
          \<and> vm_path vm = sg_path x \<and> GetPVCNameFromVolumeMountName (vm_name vm) d = Inr claim
          \<and> p' \<in> set pvcs \<and> om_name (pvc_meta p') = claim \<and> getStorageFromPVC p' = sg_name x))"
proof -
  obtain d s1 pvcs where d: "component_dc c cmp app s = (Inr d, s1)"
    and pvcs: "ra_list (cl_pvcs c) (cl_namespace c) (ByLabels StorageLabel) s1 = (Inr pvcs, s')"
    and l: "storage_listing cmp app d pvcs = Inr (sl_items l)"
    by (rule StorageListAll_ok [OF assms(1)])
  obtain vms m where vms: "GetVolumeMountsFromDC d = Inr vms"
    and m: "mounted_loop d (claims_by_name pvcs) vms [] = Inr m"
    and items: "sl_items l = map (\<lambda>p. storage_of_pvc (get_str m (getStorageFromPVC p)) p) (filter (listed_pvc cmp app) pvcs)"
    by (rule storage_listing_ok [OF l])
  from assms(2) obtain p where p: "p \<in> set pvcs" "listed_pvc cmp app p"
    and x: "x = storage_of_pvc (get_str m (getStorageFromPVC p)) p"
    by (auto simp: items)
  have xs: "sg_name x = getStorageFromPVC p" "sg_size x = quantity_string (pvc_size p)"
    "sg_path x = get_str m (getStorageFromPVC p)"
    by (simp_all add: x storage_of_pvc_def GetMachineReadableFormat_def)
  have "\<exists>vm claim p'. vm \<in> set vms \<and> vm_path vm = sg_path x
      \<and> GetPVCNameFromVolumeMountName (vm_name vm) d = Inr claim
      \<and> p' \<in> set pvcs \<and> om_name (pvc_meta p') = claim \<and> getStorageFromPVC p' = sg_name x" if "sg_path x \<noteq> []"
  proof -
    have "lookup m (sg_name x) = Some (sg_path x)" using get_str_Some [of m "sg_name x" "sg_path x"] xs that by simp
    from mounted_loop_lookup [OF m this] show ?thesis by (fastforce dest: claims_by_name_mem)
  qed
  moreover have "lookup (om_labels (pvc_meta p)) ApplicationLabel = Some app"
    "case lookup (om_labels (pvc_meta p)) ComponentLabel of None \<Rightarrow> True | Some v \<Rightarrow> v = cmp"
    using p(2) by (auto simp: listed_pvc_def Let_def has_key_def get_str_def split: option.splits)
  ultimately show ?thesis using d pvcs p(1) xs(1,2) vms by blast
qed

theorem listed_storage_is_mounted_witness:
  "\<exists>vms vm. GetVolumeMountsFromDC web_dc = Inr vms \<and> vm \<in> set vms \<and> vm_path vm = sg_path listed_data"
proof -
  have "listed_data \<in> set (sl_items (GetMachineReadableFormatForList [listed_data]))"
    by (simp add: GetMachineReadableFormatForList_def)
  note * = listed_storage_is_mounted [OF web_listed this]
  have "sg_path listed_data \<noteq> []" by (simp add: listed_data_def GetMachineReadableFormat_def)
  with * obtain d s1 vms vm where "component_dc (memory_client ''p'') ''web'' ''shop'' web_cluster = (Inr d, s1)"
    and "GetVolumeMountsFromDC d = Inr vms" "vm \<in> set vms" "vm_path vm = sg_path listed_data" by blast
  with web_component_dc show ?thesis by auto
qed

end
