(* ===== verification/Url.thy ===== *)
theory Url
  imports Cluster
begin

text \<open>
  \<open>pkg/url/url.go\<close> and \<open>pkg/secret/secret.go\<close>: the routes of a component as URLs, and the
  secret that holds the coordinates of a component's port.
\<close>

record Url =
  ur_type :: type_meta
  ur_name :: string
  ur_host :: string
  ur_protocol :: string
  ur_port :: int

record UrlList =
  ul_type :: type_meta
  ul_items :: "Url list"

definition no_url :: Url where
  "no_url = \<lparr>ur_type = \<lparr>tm_kind = [], tm_api_version = []\<rparr>, ur_name = [], ur_host = [],
     ur_protocol = [], ur_port = 0\<rparr>"

fun url_get :: "Url list \<Rightarrow> string \<Rightarrow> Url" where
  "url_get [] urlName = no_url"
| "url_get (url # us) urlName = (if ur_name url = urlName then url else url_get us urlName)"

definition getProtocol :: "route \<Rightarrow> string" where
  "getProtocol r = (if rt_tls r then ''https'' else ''http'')"

definition GetURLString :: "string \<Rightarrow> string \<Rightarrow> string" where
  "GetURLString protocol url = protocol @ ''://'' @ url"

text \<open>A route without a port is a nil dereference.\<close>

definition url_format :: "route \<Rightarrow> Url result" where
  "url_format r = (case rt_port r of
     None \<Rightarrow> Inl (Panic ''nil pointer dereference: Spec.Port'')
   | Some p \<Rightarrow> Inr \<lparr>ur_type = \<lparr>tm_kind = ''url'', tm_api_version = ''odo.openshift.io/v1alpha1''\<rparr>,
       ur_name = get_str (om_labels (rt_meta r)) URLLabel, ur_host = rt_host r,
       ur_protocol = getProtocol r, ur_port = int_value p\<rparr>)"

definition url_list_format :: "Url list \<Rightarrow> UrlList" where
  "url_list_format urls =
     \<lparr>ul_type = \<lparr>tm_kind = ''List'', tm_api_version = ''odo.openshift.io/v1alpha1''\<rparr>, ul_items = urls\<rparr>"

definition UrlDelete :: "'s client \<Rightarrow> string \<Rightarrow> string \<Rightarrow> ('s, unit) op" where
  "UrlDelete c urlName applicationName =
     bind (wrapping ''unable to create namespaced name'' [] (lift (NamespaceOpenShiftObject urlName applicationName)))
       (\<lambda>namespaced. DeleteRoute c namespaced)"

definition UrlCreate :: "'s client \<Rightarrow> string \<Rightarrow> int \<Rightarrow> string \<Rightarrow> string \<Rightarrow> ('s, string) op" where
  "UrlCreate c urlName portNumber componentName applicationName =
     (let labels = UrlGetLabels urlName componentName applicationName False in
      bind (wrapping ''unable to create namespaced name'' []
             (lift (NamespaceOpenShiftObject componentName applicationName))) (\<lambda>serviceName.
      bind (wrapping ''unable to create namespaced name'' []
             (lift (NamespaceOpenShiftObject urlName applicationName))) (\<lambda>urlName.
      bind (wrapping ''unable to create route'' []
             (CreateRoute c urlName serviceName (FromInt portNumber) labels)) (\<lambda>r.
        return (GetURLString (getProtocol r) (rt_host r))))))"

definition url_selector :: "string \<Rightarrow> string \<Rightarrow> string" where
  "url_selector componentName applicationName =
     (let labelSelector = ApplicationLabel @ ''='' @ applicationName
      in if componentName \<noteq> [] then labelSelector @ '','' @ ComponentLabel @ ''='' @ componentName
         else labelSelector)"

definition UrlListAll :: "'s client \<Rightarrow> string \<Rightarrow> string \<Rightarrow> ('s, UrlList) op" where
  "UrlListAll c componentName applicationName =
     bind (wrapping ''unable to list route names'' [] (ListRoutes c (url_selector componentName applicationName)))
       (\<lambda>routes. bind (lift (mapR url_format routes)) (\<lambda>urls. return (url_list_format urls)))"

definition UrlExists :: "'s client \<Rightarrow> string \<Rightarrow> string \<Rightarrow> string \<Rightarrow> ('s, bool) op" where
  "UrlExists c urlName componentName applicationName =
     bind (wrapping ''unable to list the urls'' [] (UrlListAll c componentName applicationName)) (\<lambda>urls.
       return (list_ex (\<lambda>url. ur_name url = urlName) (ul_items urls)))"

definition GetComponentServicePortNumbers :: "'s client \<Rightarrow> string \<Rightarrow> string \<Rightarrow> ('s, int list) op" where
  "GetComponentServicePortNumbers c componentName applicationName =
     bind (wrapping ''unable to get the service'' []
       (GetServicesFromSelector c (selector_of c (ComponentGetLabels componentName applicationName False))))
       (\<lambda>services. return (foldl (\<lambda>ports service.
          foldl (\<lambda>ports port. ports @ [sv_port port]) ports (svc_ports service)) [] services))"

definition GetURLName :: "string \<Rightarrow> int \<Rightarrow> string" where
  "GetURLName componentName componentPort =
     (if componentPort = -1 then componentName else componentName @ ''-'' @ show_int componentPort)"

definition choose_port :: "string \<Rightarrow> int \<Rightarrow> int list \<Rightarrow> int result" where
  "choose_port componentName portNumber componentPorts =
     (if portNumber = -1 then
        (if length componentPorts > 1 then
           fails ''port for the component %s is required as it exposes %d ports: %s''
             [componentName, show_nat (length componentPorts), join_with '','' (map show_int componentPorts)]
         else if length componentPorts = 1 then Inr (componentPorts ! 0)
         else fails ''no port is exposed by the component %s'' [componentName])
      else if list_ex (\<lambda>port. portNumber = port) componentPorts then Inr portNumber
      else Inr portNumber)"

definition GetValidPortNumber :: "'s client \<Rightarrow> int \<Rightarrow> string \<Rightarrow> string \<Rightarrow> ('s, int) op" where
  "GetValidPortNumber c portNumber componentName applicationName =
     bind (wrapping ''unable to get exposed ports for component %s'' [componentName]
            (GetComponentServicePortNumbers c componentName applicationName)) (\<lambda>componentPorts.
       lift (choose_port componentName portNumber componentPorts))"


section \<open>The secret of a port\<close>

definition availablePorts :: "secret list \<Rightarrow> string list" where
  "availablePorts secrets = foldl (\<lambda>ports s.
     ports @ [get_str (om_annotations (sec_meta s)) ComponentPortAnnotationName]) [] secrets"

definition choose_secret :: "string \<Rightarrow> string \<Rightarrow> secret list \<Rightarrow> string result" where
  "choose_secret componentName port secrets =
     (if length secrets = 0 then
        fails (''A secret should have been created for component %s. '' @ [newline] @
               ''Please delete the component and recreate it using 'odo create' '') [componentName]
      else if length port = 0 then
        (if length secrets = 1 then Inr (om_name (sec_meta (secrets ! 0)))
         else fails (''Unable to properly link to component %s. '' @
            ''Please select one of the following ports: '%s' by supplying the --port option and rerun the command'')
            [componentName, join_with '','' (availablePorts secrets)])
      else case find (\<lambda>s. get_str (om_annotations (sec_meta s)) ComponentPortAnnotationName = port) secrets of
          Some s \<Rightarrow> Inr (om_name (sec_meta s))
        | None \<Rightarrow> fails (''Unable to properly link to component %s using port %s. '' @
            ''Please select one of the following ports: '%s' by supplying the --port option and rerun the command'')
            [componentName, port, join_with '','' (availablePorts secrets)])"

definition DetermineSecretName :: "'s client \<Rightarrow> string \<Rightarrow> string \<Rightarrow> string \<Rightarrow> ('s, string) op" where
  "DetermineSecretName c componentName applicationName port =
     (let labelSelector = ApplicationLabel @ ''='' @ applicationName @ '','' @ ComponentLabel @ ''='' @ componentName
      in bind (ListSecrets c labelSelector) (\<lambda>secrets. lift (choose_secret componentName port secrets)))"


section \<open>Facts\<close>

lemma url_selector_eq:
  assumes "label_value app" and "label_value cmp"
  shows "url_selector cmp app =
    ConvertLabelsToSelector (\<lambda>ks. ks) [(ApplicationLabel, app), (ComponentLabel, cmp)]"
  using assms by (simp add: url_selector_def selector_join range_map_def keys_of_def lookup_def
      selector_entry_def label_value_def)

text \<open>The selector of the listing finds what was created for the component and nothing else.\<close>

lemma url_selector_exact:
  assumes "label_value app" and "label_value cmp"
  shows "selects (requirements (url_selector cmp app)) (UrlGetLabels u cmp' app' b) \<longleftrightarrow>
    cmp' = cmp \<and> app' = app"
proof -
  have "requirements (url_selector cmp app) =
      range_map (\<lambda>ks. ks) [(ApplicationLabel, app), (ComponentLabel, cmp)]"
    unfolding url_selector_eq [OF assms]
    by (rule requirements_of_selector)
      (use assms in \<open>auto simp: wf_map_def keys_of_def clean_labels_def label_value_def\<close>)
  then show ?thesis using assms
    by (auto simp: range_map_def keys_of_def lookup_Cons selects_def label_value_def)
qed

lemma UrlCreate_ok:
  assumes "UrlCreate c u port cmp app s = (Inr url, s')"
  obtains svc n r where "NamespaceOpenShiftObject cmp app = Inr svc"
    and "NamespaceOpenShiftObject u app = Inr n"
    and "ra_create (cl_routes c) (cl_namespace c)
       \<lparr>rt_meta = (named_meta n)\<lparr>om_labels := UrlGetLabels u cmp app False\<rparr>, rt_host = [],
        rt_to = \<lparr>ref_kind = ''Service'', ref_name = svc, ref_namespace = []\<rparr>,
        rt_port = Some (FromInt port), rt_tls = False\<rparr> s = (Inr r, s')"
    and "url = GetURLString (getProtocol r) (rt_host r)"
proof -
  from assms obtain svc n r where "NamespaceOpenShiftObject cmp app = Inr svc"
    "NamespaceOpenShiftObject u app = Inr n"
    "CreateRoute c n svc (FromInt port) (UrlGetLabels u cmp app False) s = (Inr r, s')"
    "url = GetURLString (getProtocol r) (rt_host r)"
    unfolding UrlCreate_def Let_def by (elim bind_okE) auto
  with that show thesis by (simp add: CreateRoute_def)
qed

lemma UrlListAll_ok:
  assumes "UrlListAll c cmp app s = (Inr l, s')"
  obtains routes where
    "ra_list (cl_routes c) (cl_namespace c) (ByLabels (url_selector cmp app)) s = (Inr routes, s')"
    and "mapR url_format routes = Inr (ul_items l)"
  using assms unfolding UrlListAll_def
  by (elim bind_okE) (auto simp: ListRoutes_def url_list_format_def)

lemma url_format_ok: "url_format r = Inr u \<Longrightarrow> ur_name u = get_str (om_labels (rt_meta r)) URLLabel"
  by (auto simp: url_format_def split: option.splits)

text \<open>An explicit port is never refused; without one the component must expose exactly one.\<close>

lemma choose_port_explicit: "p \<noteq> -1 \<Longrightarrow> choose_port cmp p ports = Inr p"
  by (simp add: choose_port_def)

lemma choose_port_default: "choose_port cmp (-1) ports = Inr p \<longleftrightarrow> ports = [p]"
proof (cases ports)
  case (Cons a as)
  then show ?thesis by (cases as) (auto simp: choose_port_def fails_def)
qed (simp add: choose_port_def fails_def)

lemma choose_secret_port:
  assumes "port \<noteq> []" and "choose_secret cmp port secrets = Inr n"
  shows "\<exists>s\<in>set secrets. om_name (sec_meta s) = n
    \<and> get_str (om_annotations (sec_meta s)) ComponentPortAnnotationName = port"
  using assms
  by (auto simp: choose_secret_def fails_def find_Some_iff split: if_splits option.splits)




section \<open>Properties\<close>

lemma mapR_names:
  "mapR url_format rs = Inr us \<Longrightarrow> map ur_name us = map (\<lambda>r. get_str (om_labels (rt_meta r)) URLLabel) rs"
  by (induction rs arbitrary: us) (auto simp: bindR_Inr_iff url_format_ok)

text \<open>A cluster that holds the routes \<open>odo\<close> made for a list of URL, component and application.\<close>

definition odo_routes :: "(string \<times> string \<times> string) list \<Rightarrow> route list \<Rightarrow> bool" where
  "odo_routes ks rs \<longleftrightarrow>
     list_all2 (\<lambda>(u, cmp, app) r. \<exists>b. om_labels (rt_meta r) = UrlGetLabels u cmp app b) ks rs"

lemma odo_routes_selected:
  assumes "odo_routes ks rs" and "label_value app" and "label_value cmp"
  shows "map (\<lambda>r. get_str (om_labels (rt_meta r)) URLLabel)
      (filter (\<lambda>r. selects (requirements (url_selector cmp app)) (om_labels (rt_meta r))) rs)
    = map fst (filter (\<lambda>k. snd k = (cmp, app)) ks)"
  using assms(1) unfolding odo_routes_def
proof (induction rule: list_all2_induct)
  case (Cons k ks r rs)
  then obtain u cmp' app' b where k: "k = (u, cmp', app')" and "om_labels (rt_meta r) = UrlGetLabels u cmp' app' b"
    by (cases k) auto
  with Cons.IH url_selector_exact [OF assms(2,3)] show ?case by (simp add: get_str_def)
qed simp

text \<open>On a cluster whose routes are those made for a list of URLs, the check whether a URL
  exists answers for the component and the application it is asked about: a URL of the same
  name of another component is not taken for it.\<close>

theorem url_exists_exact:
  assumes "ra_list (cl_routes c) (cl_namespace c) (ByLabels (url_selector cmp app)) s =
      (Inr (filter (\<lambda>r. selects (requirements (url_selector cmp app)) (om_labels (rt_meta r))) rs), s')"
    and "odo_routes ks rs" and "\<And>r. r \<in> set rs \<Longrightarrow> rt_port r \<noteq> None"
    and "label_value app" and "label_value cmp"
  shows "UrlExists c u cmp app s = (Inr ((u, cmp, app) \<in> set ks), s')"
proof -
  let ?rs = "filter (\<lambda>r. selects (requirements (url_selector cmp app)) (om_labels (rt_meta r))) rs"
  have "\<exists>g. \<forall>r\<in>set ?rs. url_format r = Inr (g r)"
  proof (rule bchoice, rule ballI)
    fix r assume "r \<in> set ?rs"
    with assms(3) obtain p where "rt_port r = Some p" by fastforce
    then show "\<exists>u. url_format r = Inr u" by (simp add: url_format_def)
  qed
  then obtain g where "\<And>r. r \<in> set ?rs \<Longrightarrow> url_format r = Inr (g r)" by blast
  then have urls: "mapR url_format ?rs = Inr (map g ?rs)" by (rule mapR_all_ok)
  have "u \<in> set (map ur_name (map g ?rs)) \<longleftrightarrow> (u, cmp, app) \<in> set ks"
    unfolding mapR_names [OF urls] odo_routes_selected [OF assms(2,4,5)] by force
  then have "list_ex (\<lambda>url. ur_name url = u) (map g ?rs) \<longleftrightarrow> (u, cmp, app) \<in> set ks"
    unfolding list_ex_iff by auto
  with urls show ?thesis
    by (simp add: UrlExists_def UrlListAll_def ListRoutes_def bind_apply wrapping_apply op_apply assms(1)
        url_list_format_def)
qed

definition example_route :: "string \<Rightarrow> string \<Rightarrow> route" where
  "example_route u cmp = \<lparr>rt_meta = (named_meta (u @ ''-app''))\<lparr>om_labels := UrlGetLabels u cmp ''app'' False\<rparr>,
     rt_host = u @ ''.example.com'', rt_to = \<lparr>ref_kind = ''Service'', ref_name = cmp, ref_namespace = []\<rparr>,
     rt_port = Some (FromInt 8080), rt_tls = False\<rparr>"

theorem url_exists_exact_witness:
  "UrlExists (memory_client ''p'') ''www'' ''back'' ''app'' (empty_cluster\<lparr>k_routes := [example_route ''www'' ''front'']\<rparr>)
     = (Inr False, empty_cluster\<lparr>k_routes := [example_route ''www'' ''front'']\<rparr>)"
proof -
  have "UrlExists (memory_client ''p'') ''www'' ''back'' ''app'' (empty_cluster\<lparr>k_routes := [example_route ''www'' ''front'']\<rparr>)
     = (Inr ((''www'', ''back'', ''app'') \<in> set [(''www'', ''front'', ''app'')]),
        empty_cluster\<lparr>k_routes := [example_route ''www'' ''front'']\<rparr>)"
    by (rule url_exists_exact [where rs = "[example_route ''www'' ''front'']"])
      (auto simp: memory_client_def store_api_def odo_routes_def example_route_def label_value_def)
  then show ?thesis by simp
qed

text \<open>Creating a URL makes a route to the service of the component, on the given port, that
  the listing of that component's URLs selects and shows under the name of the URL.\<close>

theorem created_url_is_listed:
  assumes "UrlCreate c u port cmp app s = (Inr url, s')" and "label_value app" and "label_value cmp"
  shows "\<exists>r0 r x svc. ra_create (cl_routes c) (cl_namespace c) r0 s = (Inr r, s')
    \<and> url = GetURLString (getProtocol r) (rt_host r)
    \<and> NamespaceOpenShiftObject cmp app = Inr svc
    \<and> rt_to r0 = \<lparr>ref_kind = ''Service'', ref_name = svc, ref_namespace = []\<rparr>
    \<and> selects (requirements (url_selector cmp app)) (om_labels (rt_meta r0))
    \<and> url_format r0 = Inr x \<and> ur_name x = u \<and> ur_port x = port"
proof -
  from UrlCreate_ok [OF assms(1)] obtain svc n r where svc: "NamespaceOpenShiftObject cmp app = Inr svc"
    and n: "NamespaceOpenShiftObject u app = Inr n"
    and create: "ra_create (cl_routes c) (cl_namespace c)
       \<lparr>rt_meta = (named_meta n)\<lparr>om_labels := UrlGetLabels u cmp app False\<rparr>, rt_host = [],
        rt_to = \<lparr>ref_kind = ''Service'', ref_name = svc, ref_namespace = []\<rparr>,
        rt_port = Some (FromInt port), rt_tls = False\<rparr> s = (Inr r, s')" (is "ra_create _ _ ?r0 s = _")
    and url: "url = GetURLString (getProtocol r) (rt_host r)" .
  obtain x where x: "url_format ?r0 = Inr x" "ur_name x = u" "ur_port x = port"
    by (simp add: url_format_def get_str_def)
  have "selects (requirements (url_selector cmp app)) (om_labels (rt_meta ?r0))"
    using url_selector_exact [OF assms(2,3)] by simp
  then show ?thesis
    using create url svc x by (intro exI [of _ ?r0] exI [of _ r] exI [of _ x] exI [of _ svc]) simp
qed

theorem created_url_is_listed_witness:
  "\<exists>url s'. UrlCreate (memory_client ''p'') ''www'' 8080 ''front'' ''app'' empty_cluster = (Inr url, s')
    \<and> (\<exists>r0 r. ra_create (cl_routes (memory_client ''p'')) ''p'' r0 empty_cluster = (Inr r, s')
         \<and> selects (requirements (url_selector ''front'' ''app'')) (om_labels (rt_meta r0)))"
proof -
  let ?r = "\<lparr>rt_meta = (named_meta ''www-app'')\<lparr>om_labels := UrlGetLabels ''www'' ''front'' ''app'' False\<rparr>, rt_host = [],
        rt_to = \<lparr>ref_kind = ''Service'', ref_name = ''front-app'', ref_namespace = []\<rparr>,
        rt_port = Some (FromInt 8080), rt_tls = False\<rparr>"
  have n: "NamespaceOpenShiftObject ''www'' ''app'' = Inr ''www-app''"
    "NamespaceOpenShiftObject ''front'' ''app'' = Inr ''front-app''" by code_simp+
  have u: "UrlCreate (memory_client ''p'') ''www'' 8080 ''front'' ''app'' empty_cluster
      = (Inr (GetURLString (getProtocol ?r) (rt_host ?r)), empty_cluster\<lparr>k_routes := [?r]\<rparr>)"
    by (simp add: UrlCreate_def CreateRoute_def n Let_def op_apply bind_apply wrapping_apply
        memory_client_def store_api_def empty_cluster_def)
  have l: "label_value ''app''" "label_value ''front''" by (simp_all add: label_value_def)
  have ns: "cl_namespace (memory_client ''p'') = ''p''" by (simp add: memory_client_def)
  from created_url_is_listed [OF u l, unfolded ns] u show ?thesis by - (elim exE conjE, intro exI conjI)
qed

text \<open>The port of a URL: without one the component must expose exactly one port, which is
  taken; a port that is given is used as it is, also when the component does not expose it.\<close>

theorem url_port_chosen:
  assumes "GetValidPortNumber c p cmp app s = (Inr port, s')"
  shows "\<exists>ports. GetComponentServicePortNumbers c cmp app s = (Inr ports, s')
    \<and> (if p = -1 then ports = [port] else port = p)"
proof -
  from assms obtain ports where "GetComponentServicePortNumbers c cmp app s = (Inr ports, s')"
    and "choose_port cmp p ports = Inr port"
    unfolding GetValidPortNumber_def by (elim bind_okE) auto
  with choose_port_default [of cmp ports port] choose_port_explicit [of p cmp ports] show ?thesis by auto
qed

theorem url_port_chosen_witness:
  "\<exists>ports. GetComponentServicePortNumbers (memory_client ''p'') ''front'' ''app'' empty_cluster
      = (Inr ports, empty_cluster)
    \<and> (if (9090::int) = -1 then ports = [9090] else (9090::int) = 9090)"
  by (rule url_port_chosen)
    (simp add: GetValidPortNumber_def GetComponentServicePortNumbers_def GetServicesFromSelector_def
      bind_apply wrapping_apply op_apply memory_client_def store_api_def empty_cluster_def choose_port_def)

text \<open>The secret taken for a link to a component is one of the secrets of that component;
  with a port it is one annotated with that port, without one it is the only secret.\<close>

theorem linked_secret_matches:
  assumes "DetermineSecretName c cmp app port s = (Inr n, s')"
  shows "\<exists>secrets. ListSecrets c (ApplicationLabel @ ''='' @ app @ '','' @ ComponentLabel @ ''='' @ cmp) s = (Inr secrets, s')
    \<and> (if port = [] then map (\<lambda>x. om_name (sec_meta x)) secrets = [n]
       else \<exists>x\<in>set secrets. om_name (sec_meta x) = n
         \<and> get_str (om_annotations (sec_meta x)) ComponentPortAnnotationName = port)"
proof -
  from assms obtain secrets where
    l: "ListSecrets c (ApplicationLabel @ ''='' @ app @ '','' @ ComponentLabel @ ''='' @ cmp) s = (Inr secrets, s')"
    and ch: "choose_secret cmp port secrets = Inr n"
    unfolding DetermineSecretName_def Let_def by (elim bind_okE) auto
  have "map (\<lambda>x. om_name (sec_meta x)) secrets = [n]" if "port = []"
    using ch that by (cases secrets) (auto simp: choose_secret_def fails_def split: if_splits)
  with l choose_secret_port [OF _ ch] show ?thesis by auto
qed

definition example_secret :: "string \<Rightarrow> string \<Rightarrow> secret" where
  "example_secret cmp port = \<lparr>sec_meta = (named_meta (cmp @ ''-app-'' @ port))\<lparr>
       om_labels := ComponentGetLabels cmp ''app'' True,
       om_annotations := [(ComponentPortAnnotationName, port)]\<rparr>, sec_type = ''Opaque'', sec_string_data = []\<rparr>"

theorem linked_secret_matches_witness:
  "\<exists>secrets. ListSecrets (memory_client ''p'') (ApplicationLabel @ ''='' @ ''app'' @ '','' @ ComponentLabel @ ''='' @ ''back'')
        (empty_cluster\<lparr>k_secrets := [example_secret ''back'' ''80'', example_secret ''back'' ''443'']\<rparr>)
      = (Inr secrets, empty_cluster\<lparr>k_secrets := [example_secret ''back'' ''80'', example_secret ''back'' ''443'']\<rparr>)
    \<and> (\<exists>x\<in>set secrets. om_name (sec_meta x) = ''back-app-443''
         \<and> get_str (om_annotations (sec_meta x)) ComponentPortAnnotationName = ''443'')"
proof -
  let ?s = "empty_cluster\<lparr>k_secrets := [example_secret ''back'' ''80'', example_secret ''back'' ''443'']\<rparr>"
  let ?sel = "ApplicationLabel @ ''='' @ ''app'' @ '','' @ ComponentLabel @ ''='' @ ''back''"
  have sel: "?sel = url_selector ''back'' ''app''" by (simp add: url_selector_def)
  have "selects (requirements ?sel) (ComponentGetLabels ''back'' ''app'' True)"
    unfolding sel by code_simp
  then have l: "ListSecrets (memory_client ''p'') ?sel ?s = (Inr [example_secret ''back'' ''80'', example_secret ''back'' ''443''], ?s)"
    by (simp add: ListSecrets_def wrapping_apply memory_client_def store_api_def example_secret_def)
  have "choose_secret ''back'' ''443'' [example_secret ''back'' ''80'', example_secret ''back'' ''443''] = Inr ''back-app-443''"
    by (simp add: choose_secret_def example_secret_def get_str_def lookup_Cons named_meta_def)
  with l have d: "DetermineSecretName (memory_client ''p'') ''back'' ''app'' ''443'' ?s = (Inr ''back-app-443'', ?s)"
    by (simp add: DetermineSecretName_def bind_apply op_apply)
  from linked_secret_matches [OF d] show ?thesis by simp
qed

end
