(* ===== verification/Apps.thy ===== *)
theory Apps
  imports Cluster
begin

text \<open>
  \<open>pkg/application/application.go\<close> and \<open>pkg/project/project.go\<close>: applications are the values
  of a label on deployment configurations and service instances; projects are the
  namespaces of the cluster. Creation, deletion and switching of projects, which wait on
  watches or rewrite the kube config, are in the theory \<open>Rollout\<close>.
\<close>

definition AppList :: "'s client \<Rightarrow> ('s, string list) op" where
  "AppList c =
     bind (wrapping ''unable to list applications from deployment config'' []
            (GetDeploymentConfigLabelValues c ApplicationLabel ApplicationLabel)) (\<lambda>dcNames.
     bind (attempt (GetServiceInstanceLabelValues c ApplicationLabel ApplicationLabel)) (\<lambda>r.
       let appNames = (case r of Inl _ \<Rightarrow> dcNames | Inr siNames \<Rightarrow> dcNames @ siNames)
       in return (RemoveDuplicates (cl_order c) appNames)))"

definition AppExists :: "string \<Rightarrow> 's client \<Rightarrow> ('s, bool) op" where
  "AppExists app c = bind (AppList c) (\<lambda>apps. return (list_ex (\<lambda>appName. appName = app) apps))"

definition AppDelete :: "'s client \<Rightarrow> string \<Rightarrow> ('s, unit) op" where
  "AppDelete c name = wrapping ''unable to delete application %s'' [name]
     (Delete c (AppGetLabels name False))"

record Project =
  pj_type :: type_meta
  pj_name :: string
  pj_applications :: "string list"
  pj_active :: bool

definition project_format :: "string \<Rightarrow> bool \<Rightarrow> string list \<Rightarrow> Project" where
  "project_format projectName isActive apps =
     \<lparr>pj_type = \<lparr>tm_kind = ''Project'', tm_api_version = ''odo.openshift.io/v1alpha1''\<rparr>,
      pj_name = projectName, pj_applications = apps, pj_active = isActive\<rparr>"

text \<open>The applications of every project are those of the current one; an error gives none.\<close>

definition DescribeProjects :: "'s client \<Rightarrow> ('s, Project list) op" where
  "DescribeProjects c =
     (let currentProject = GetCurrentProjectName c in
      bind (wrapping ''cannot get all the projects'' [] (GetProjectNames c)) (\<lambda>allProjects.
        fold_op (\<lambda>project projects. bind (attempt (AppList c)) (\<lambda>r.
            let apps = (case r of Inl _ \<Rightarrow> [] | Inr apps \<Rightarrow> apps)
            in return (projects @ [project_format project (project = currentProject) apps])))
          allProjects []))"

definition ProjectExists :: "'s client \<Rightarrow> string \<Rightarrow> ('s, bool) op" where
  "ProjectExists c projectName = bind (GetProject c projectName) (\<lambda>project.
     case project of None \<Rightarrow> return False | Some _ \<Rightarrow> return True)"


section \<open>Facts\<close>

lemma foldl_values:
  "foldl (\<lambda>values (key, val). if key = label then values @ [val] else values) acc es =
     acc @ map snd (filter (\<lambda>e. fst e = label) es)"
  by (induction es arbitrary: acc) auto

lemma mem_range_value:
  assumes "map_order ord" and "wf_map m"
  shows "v \<in> snd ` {e \<in> set (range_map ord m). fst e = k} \<longleftrightarrow> lookup m k = Some v"
proof -
  have "v \<in> snd ` {e \<in> set m. fst e = k} \<longleftrightarrow> (k, v) \<in> set m" by force
  also have "\<dots> \<longleftrightarrow> lookup m k = Some v"
    using assms(2) by (simp add: lookup_def wf_map_def keys_of_def)
  finally show ?thesis using set_range_map [OF assms] by simp
qed

lemma set_foldl_values:
  assumes "map_order ord" and "\<And>x. x \<in> set xs \<Longrightarrow> wf_map (labels x)"
  shows "set (foldl (\<lambda>values x. foldl (\<lambda>values (key, val). if key = label then values @ [val] else values) values
      (range_map ord (labels x))) acc xs) = set acc \<union> {v. \<exists>x\<in>set xs. lookup (labels x) label = Some v}"
  using assms(2)
proof (induction xs arbitrary: acc)
  case (Cons x xs)
  have "set (map snd (filter (\<lambda>e. fst e = label) (range_map ord (labels x))))
      = {v. lookup (labels x) label = Some v}"
    using mem_range_value [OF assms(1) Cons.prems [of x], of _ label] by auto
  with Cons.IH [OF Cons.prems] show ?case by (simp add: foldl_values) blast
qed simp

text \<open>The label values found are those of the objects the selector matched.\<close>

lemma GetDeploymentConfigLabelValues_ok:
  assumes "GetDeploymentConfigLabelValues c label sel s = (Inr vs, s')" and "map_order (cl_order c)"
  obtains dcs where "ra_list (cl_dcs c) (cl_namespace c) (ByLabels sel) s = (Inr dcs, s')"
    and "sorted vs"
    and "(\<And>d. d \<in> set dcs \<Longrightarrow> wf_map (om_labels (dc_meta d))) \<Longrightarrow>
      set vs = {v. \<exists>d\<in>set dcs. lookup (om_labels (dc_meta d)) label = Some v}"
proof -
  from assms(1) obtain dcs where dcs: "ra_list (cl_dcs c) (cl_namespace c) (ByLabels sel) s = (Inr dcs, s')"
    and vs: "vs = sort (foldl (\<lambda>values elem.
           foldl (\<lambda>values (key, val). if key = label then values @ [val] else values) values
             (range_map (cl_order c) (om_labels (dc_meta elem)))) [] dcs)"
    unfolding GetDeploymentConfigLabelValues_def by (elim bind_okE) auto
  show thesis
    by (rule that [OF dcs]) (simp_all add: vs set_foldl_values [OF assms(2), where labels = "\<lambda>d. om_labels (dc_meta d)"])
qed

lemma GetProject_ok_iff:
  "GetProject c n s = (Inr r, s') \<longleftrightarrow>
     (\<exists>p. r = Some p \<and> ra_get (cl_projects c) [] n s = (Inr p, s'))
     \<or> (r = None \<and> (\<exists>reason msg. reason \<in> {''NotFound'', ''Forbidden''}
          \<and> ra_get (cl_projects c) [] n s = (Inl (Err (StatusError reason msg)), s')))"
  by (cases "ra_get (cl_projects c) [] n s")
    (auto simp: GetProject_def bind_apply attempt_apply op_apply split: sum.splits fault.splits error.splits)




section \<open>Properties\<close>

text \<open>Whether an application exists is whether one of the deployment configurations the label
  selects, or one of the service instances when they could be listed, carries its name.\<close>

theorem app_exists_iff:
  assumes "AppExists app c s = (Inr b, s')" and "map_order (cl_order c)"
    and "ra_list (cl_dcs c) (cl_namespace c) (ByLabels ApplicationLabel) s = (Inr dcs, s1)"
    and "ra_list (cl_instances c) (cl_namespace c) (ByLabels ApplicationLabel) s1 = (r, s2)"
    and "\<And>d. d \<in> set dcs \<Longrightarrow> wf_map (om_labels (dc_meta d))"
    and "\<And>xs i. r = Inr xs \<Longrightarrow> i \<in> set xs \<Longrightarrow> wf_map (om_labels (si_meta i))"
  shows "b \<longleftrightarrow> (\<exists>d\<in>set dcs. lookup (om_labels (dc_meta d)) ApplicationLabel = Some app)
    \<or> (\<exists>xs. r = Inr xs \<and> (\<exists>i\<in>set xs. lookup (om_labels (si_meta i)) ApplicationLabel = Some app))"
proof -
  let ?dcs = "sort (foldl (\<lambda>values elem.
           foldl (\<lambda>values (key, val). if key = ApplicationLabel then values @ [val] else values) values
             (range_map (cl_order c) (om_labels (dc_meta elem)))) [] dcs)"
  let ?sis = "\<lambda>xs. sort (foldl (\<lambda>values elem.
           foldl (\<lambda>values (key, val). if key = ApplicationLabel then values @ [val] else values) values
             (range_map (cl_order c) (om_labels (si_meta elem)))) [] xs)"
  have l: "GetDeploymentConfigLabelValues c ApplicationLabel ApplicationLabel s = (Inr ?dcs, s1)"
    by (simp add: GetDeploymentConfigLabelValues_def bind_apply wrapping_apply op_apply assms(3))
  have d: "set ?dcs = {v. \<exists>d\<in>set dcs. lookup (om_labels (dc_meta d)) ApplicationLabel = Some v}"
    by (simp add: set_foldl_values [OF assms(2), where labels = "\<lambda>d. om_labels (dc_meta d)"] assms(5))
  have i: "set (?sis xs) = {v. \<exists>d\<in>set xs. lookup (om_labels (si_meta d)) ApplicationLabel = Some v}" if "r = Inr xs" for xs
    by (simp add: set_foldl_values [OF assms(2), where labels = "\<lambda>d. om_labels (si_meta d)"] assms(6) [OF that])
  have b: "b \<longleftrightarrow> app \<in> set ?dcs \<or> (\<exists>xs. r = Inr xs \<and> app \<in> set (?sis xs))"
  proof (cases r)
    case (Inr xs)
    then have "GetServiceInstanceLabelValues c ApplicationLabel ApplicationLabel s1 = (Inr (?sis xs), s2)"
      by (simp add: GetServiceInstanceLabelValues_def bind_apply wrapping_apply op_apply assms(4))
    with assms(1) l Inr RemoveDuplicates_spec [OF assms(2)] show ?thesis
      by (auto simp: AppExists_def AppList_def bind_apply attempt_apply wrapping_apply op_apply Let_def list_ex_iff)
  next
    case (Inl f)
    then have "GetServiceInstanceLabelValues c ApplicationLabel ApplicationLabel s1
        = (Inl (wrap_fault ''unable to list ServiceInstances'' [] f), s2)"
      by (simp add: GetServiceInstanceLabelValues_def bind_apply wrapping_apply op_apply assms(4))
    with assms(1) l Inl RemoveDuplicates_spec [OF assms(2)] show ?thesis
      by (cases f) (auto simp: AppExists_def AppList_def bind_apply attempt_apply wrapping_apply op_apply Let_def list_ex_iff)
  qed
  then show ?thesis unfolding d using i by auto
qed

text \<open>A cluster with one component \<open>web\<close> of the application \<open>shop\<close>.\<close>

definition shop_cluster :: cluster where
  "shop_cluster = empty_cluster\<lparr>k_dcs := [(example_dc [])\<lparr>dc_meta :=
     (named_meta ''web-shop'')\<lparr>om_labels := ComponentGetLabels ''web'' ''shop'' True\<rparr>\<rparr>]\<rparr>"

theorem app_exists_iff_witness:
  "\<exists>b. AppExists ''shop'' (memory_client ''p'') shop_cluster = (Inr b, shop_cluster) \<and> b"
proof -
  let ?c = "memory_client ''p''" and ?s = shop_cluster
  have sel: "selects (requirements ApplicationLabel) (ComponentGetLabels ''web'' ''shop'' True)" by code_simp
  have o: "map_order (cl_order ?c)" by (simp add: memory_client_def map_order_def)
  have d: "ra_list (cl_dcs ?c) (cl_namespace ?c) (ByLabels ApplicationLabel) ?s = (Inr (k_dcs ?s), ?s)"
    using sel by (simp add: memory_client_def store_api_def shop_cluster_def)
  have i: "ra_list (cl_instances ?c) (cl_namespace ?c) (ByLabels ApplicationLabel) ?s = (Inr [], ?s)"
    by (simp add: memory_client_def store_api_def shop_cluster_def empty_cluster_def)
  obtain b where b: "AppExists ''shop'' ?c ?s = (Inr b, ?s)"
    by (simp add: AppExists_def AppList_def GetDeploymentConfigLabelValues_def GetServiceInstanceLabelValues_def
        bind_apply attempt_apply wrapping_apply op_apply d i Let_def)
  then have "b" using app_exists_iff [OF b o d i] by (simp add: shop_cluster_def)
  with b show ?thesis by (intro exI conjI)
qed

text \<open>A project that is asked for and not found, or that the user may not see, does not exist;
  any other status of the cluster is an error.\<close>

theorem project_exists_iff:
  "ProjectExists c n s = (Inr b, s') \<longleftrightarrow>
     (if b then (\<exists>p. ra_get (cl_projects c) [] n s = (Inr p, s'))
      else (\<exists>reason msg. reason \<in> {''NotFound'', ''Forbidden''}
          \<and> ra_get (cl_projects c) [] n s = (Inl (Err (StatusError reason msg)), s')))"
proof
  assume "ProjectExists c n s = (Inr b, s')"
  then obtain r where "GetProject c n s = (Inr r, s')" and "b = (r \<noteq> None)"
    unfolding ProjectExists_def by (elim bind_okE) (auto split: option.splits)
  then show "if b then (\<exists>p. ra_get (cl_projects c) [] n s = (Inr p, s'))
      else (\<exists>reason msg. reason \<in> {''NotFound'', ''Forbidden''}
          \<and> ra_get (cl_projects c) [] n s = (Inl (Err (StatusError reason msg)), s'))"
    using GetProject_ok_iff [of c n s r s'] by auto
next
  assume *: "if b then (\<exists>p. ra_get (cl_projects c) [] n s = (Inr p, s'))
      else (\<exists>reason msg. reason \<in> {''NotFound'', ''Forbidden''}
          \<and> ra_get (cl_projects c) [] n s = (Inl (Err (StatusError reason msg)), s'))"
  have "\<exists>r. GetProject c n s = (Inr r, s') \<and> b = (r \<noteq> None)"
  proof (cases b)
    case True
    with * GetProject_ok_iff [of c n s "Some p" s' for p] show ?thesis by auto
  next
    case False
    with * GetProject_ok_iff [of c n s None s'] show ?thesis by auto
  qed
  then show "ProjectExists c n s = (Inr b, s')"
    by (auto simp: ProjectExists_def bind_apply op_apply split: option.splits)
qed

end
