(* ===== verification/Rollout.thy ===== *)
theory Rollout
  imports Cluster
begin

text \<open>
  What the client waits for: the roll-out of a deployment (\<open>pkg/occlient/utils.go\<close>), and the
  watches on builds, deployment configurations, pods, secrets and projects of
  \<open>pkg/occlient/occlient.go\<close> with the project commands of \<open>pkg/project/project.go\<close>. A watch is the
  list of what arrives on its channel; a wait that has not returned when the list is used up
  is still blocked, which is the value \<open>None\<close>.
\<close>


section \<open>Roll-out of a deployment\<close>

fun hasTag :: "string list \<Rightarrow> string \<Rightarrow> bool" where
  "hasTag [] requiredTag = False"
| "hasTag (tag # tags) requiredTag = (if tag = requiredTag then True else hasTag tags requiredTag)"

fun condition_of_type :: "dc_condition list \<Rightarrow> string \<Rightarrow> dc_condition option" where
  "condition_of_type [] condType = None"
| "condition_of_type (c # cs) condType = (if cond_type c = condType then Some c else condition_of_type cs condType)"

definition getDeploymentCondition :: "dc_status \<Rightarrow> string \<Rightarrow> dc_condition option" where
  "getDeploymentCondition status condType = condition_of_type (st_conditions status) condType"

definition HasImageChangeTrigger :: "dc \<Rightarrow> bool" where
  "HasImageChangeTrigger config = list_ex (\<lambda>t. tr_type t = ''ImageChange'') (sp_triggers (dc_spec config))"

definition IsDCRolledOut :: "dc \<Rightarrow> int \<Rightarrow> bool" where
  "IsDCRolledOut config desiredRevision =
     (let status = dc_status config; latestRevision = st_latest_version status;
          reason = (\<lambda>cond r. case cond of None \<Rightarrow> False | Some c \<Rightarrow> cond_reason c = r);
          cond = getDeploymentCondition status ''Progressing''
      in if latestRevision = 0 \<and> HasImageChangeTrigger config then False
         else if latestRevision = 0 \<and> length (sp_triggers (dc_spec config)) = 0 then False
         else if desiredRevision > 0 \<and> latestRevision < desiredRevision then False
         else if om_generation (dc_meta config) \<le> st_observed_generation status then
           (if reason cond ''NewReplicationControllerAvailable'' then True
            else if reason cond ''ProgressDeadlineExceeded'' then True
            else if reason cond ''RolloutCancelled'' then True
            else if reason cond ''DeploymentConfigPaused'' then True
            else if st_updated_replicas status < sp_replicas (dc_spec config) then False
            else if st_replicas status > st_updated_replicas status then False
            else if st_available_replicas status < st_updated_replicas status then False
            else False)
         else False)"


section \<open>Watches\<close>

datatype watch_kind = Added | Modified | Deleted | WatchError

text \<open>An event carries an object, or one that is not of the type asked for.\<close>

datatype 'a watch_event = Event watch_kind "'a option"

text \<open>What a \<open>select\<close> or receive picks next: an event, the closed channel, or the timeout.\<close>

datatype 'a signal = Received "'a watch_event" | Closed | Timeout

type_synonym 'a waiting = "'a result option"

record build =
  bd_name :: string
  bd_phase :: string

record pod =
  pd_meta :: object_meta
  pd_phase :: string
  pd_containers :: "container list"

record project =
  pr_name :: string
  pr_phase :: string

text \<open>Nothing watches a build, a secret or a project with a timeout.\<close>

fun wait_build :: "build signal list \<Rightarrow> unit waiting" where
  "wait_build [] = None"
| "wait_build (Received (Event k (Some e)) # es) =
     (if bd_phase e = ''Complete'' then Some (Inr ())
      else if bd_phase e = ''Failed'' \<or> bd_phase e = ''Cancelled'' \<or> bd_phase e = ''Error''
      then Some (fails ''build %s status %s'' [bd_name e, bd_phase e])
      else wait_build es)"
| "wait_build (Received (Event k None) # es) = wait_build es"
| "wait_build (Closed # es) = Some (Inr ())"
| "wait_build (Timeout # es) = wait_build es"

definition WaitForBuildToFinish :: "build signal list result \<Rightarrow> unit waiting" where
  "WaitForBuildToFinish watch = (case wrapR ''unable to watch build'' [] watch of
     Inl f \<Rightarrow> Some (Inl f) | Inr w \<Rightarrow> wait_build w)"

text \<open>A closed channel only leaves the \<open>select\<close>: the loop goes on until the timeout.\<close>

fun wait_dc :: "(dc \<Rightarrow> int \<Rightarrow> bool) \<Rightarrow> int \<Rightarrow> dc signal list \<Rightarrow> dc waiting" where
  "wait_dc waitCond desiredRevision [] = None"
| "wait_dc waitCond desiredRevision (Timeout # es) =
     Some (fails ''Timed out waiting for annotation to update'' [])"
| "wait_dc waitCond desiredRevision (Closed # es) = wait_dc waitCond desiredRevision es"
| "wait_dc waitCond desiredRevision (Received (Event k (Some e)) # es) =
     (if waitCond e desiredRevision then Some (Inr e) else wait_dc waitCond desiredRevision es)"
| "wait_dc waitCond desiredRevision (Received (Event k None) # es) = wait_dc waitCond desiredRevision es"

text \<open>\<open>w.Stop()\<close> is deferred before the error is looked at, on a nil watch when there is one.\<close>

definition WaitAndGetDC :: "dc signal list result \<Rightarrow> int \<Rightarrow> (dc \<Rightarrow> int \<Rightarrow> bool) \<Rightarrow> dc waiting" where
  "WaitAndGetDC watch desiredRevision waitCond = (case watch of
     Inl (Err e) \<Rightarrow> Some (Inl (Panic ''nil pointer dereference: w.Stop''))
   | Inl f \<Rightarrow> Some (Inl f)
   | Inr w \<Rightarrow> wait_dc waitCond desiredRevision w)"

fun wait_pod :: "string \<Rightarrow> string \<Rightarrow> pod signal list \<Rightarrow> pod waiting" where
  "wait_pod selector desiredPhase [] = None"
| "wait_pod selector desiredPhase (Timeout # es) =
     Some (fails (''waited %s but couldn't find running pod matching selector: '%s'' @ [CHR 0x27]) [''4m0s'', selector])"
| "wait_pod selector desiredPhase (Closed # es) = Some (fails ''watch channel was closed'' [])"
| "wait_pod selector desiredPhase (Received (Event k (Some e)) # es) =
     (if pd_phase e = desiredPhase then Some (Inr e)
      else if pd_phase e = ''Failed'' \<or> pd_phase e = ''Unknown''
      then Some (fails ''pod %s status %s'' [om_name (pd_meta e), pd_phase e])
      else wait_pod selector desiredPhase es)"
| "wait_pod selector desiredPhase (Received (Event k None) # es) =
     Some (fails ''unable to convert event object to Pod'' [])"

definition WaitAndGetPod :: "pod signal list result \<Rightarrow> string \<Rightarrow> string \<Rightarrow> pod waiting" where
  "WaitAndGetPod watch selector desiredPhase = (case wrapR ''unable to watch pod'' [] watch of
     Inl f \<Rightarrow> Some (Inl f) | Inr w \<Rightarrow> wait_pod selector desiredPhase w)"

fun wait_secret :: "string \<Rightarrow> secret signal list \<Rightarrow> secret waiting" where
  "wait_secret name [] = None"
| "wait_secret name (Closed # es) =
     Some (fails (''unknown error while waiting for secret '%s'' @ [CHR 0x27]) [name])"
| "wait_secret name (Received (Event k (Some e)) # es) = Some (Inr e)"
| "wait_secret name (Received (Event k None) # es) = wait_secret name es"
| "wait_secret name (Timeout # es) = wait_secret name es"

definition WaitAndGetSecret :: "secret signal list result \<Rightarrow> string \<Rightarrow> secret waiting" where
  "WaitAndGetSecret watch name = (case wrapR ''unable to watch secret'' [] watch of
     Inl f \<Rightarrow> Some (Inl f) | Inr w \<Rightarrow> wait_secret name w)"


section \<open>Projects\<close>

fun wait_project :: "project signal list \<Rightarrow> unit waiting" where
  "wait_project [] = None"
| "wait_project (Closed # es) = Some (Inr ())"
| "wait_project (Received (Event k (Some e)) # es) = Some (Inr ())"
| "wait_project (Received (Event k None) # es) = wait_project es"
| "wait_project (Timeout # es) = wait_project es"

text \<open>
  The watcher made for \<open>wait\<close> is a variable of its own block; the one looked at afterwards is
  still nil.
\<close>

definition CreateNewProject ::
  "('s, project signal list) op \<Rightarrow> (string \<Rightarrow> ('s, unit) op) \<Rightarrow> string \<Rightarrow> bool \<Rightarrow> ('s, unit option) op" where
  "CreateNewProject watch create projectName wait =
     (let watcher = (None :: project signal list option) in
      bind (if wait then bind (wrapping ''unable to watch new project %s creation'' [projectName] watch)
              (\<lambda>watcher. return ()) else return ()) (\<lambda>_.
      bind (wrapping ''unable to create new project %s'' [projectName] (create projectName)) (\<lambda>_.
        case watcher of None \<Rightarrow> return (Some ())
        | Some w \<Rightarrow> (case wait_project w of
            None \<Rightarrow> return None | Some r \<Rightarrow> bind (lift r) (\<lambda>u. return (Some u))))))"

fun wait_deleted :: "string \<Rightarrow> project signal list \<Rightarrow> unit waiting" where
  "wait_deleted name [] = None"
| "wait_deleted name (Closed # es) =
     Some (fails ''received unexpected signal %+v on project watch channel'' [[]])"
| "wait_deleted name (Received (Event k (Some prj)) # es) =
     (if pr_phase prj = [] then
        (if k = Deleted then Some (Inr ())
         else if k = WatchError then Some (fails ''failed watching the deletion of project %s'' [name])
         else wait_deleted name es)
      else wait_deleted name es)"
| "wait_deleted name (Received (Event k None) # es) = wait_deleted name es"
| "wait_deleted name (Timeout # es) = wait_deleted name es"

definition DeleteProject :: "'s client \<Rightarrow> ('s, project signal list) op \<Rightarrow> string \<Rightarrow> ('s, unit option) op" where
  "DeleteProject c watch name =
     bind (wrapping ''unable to delete project'' [] (ra_delete (cl_projects c) [] name)) (\<lambda>_.
     bind (wrapping ''unable to watch project'' [] watch) (\<lambda>w.
       case wait_deleted name w of None \<Rightarrow> return None | Some r \<Rightarrow> bind (lift r) (\<lambda>u. return (Some u))))"

text \<open>The kube config: the namespaces of its contexts and the current context.\<close>

record kube_config =
  kc_contexts :: "string gomap"
  kc_current :: string

definition SetCurrentProject ::
  "('s, kube_config) op \<Rightarrow> (kube_config \<Rightarrow> ('s, unit) op) \<Rightarrow> 's client \<Rightarrow> string \<Rightarrow> ('s, 's client) op" where
  "SetCurrentProject raw modifyConfig c projectName =
     bind (wrapping ''unable to switch to %s project'' [projectName] raw) (\<lambda>rawConfig.
       if \<not> has_key (kc_contexts rawConfig) (kc_current rawConfig)
       then fault (Panic ''nil pointer dereference: Contexts'')
       else bind (wrapping ''unable to switch to %s project'' [projectName]
              (modifyConfig (rawConfig\<lparr>kc_contexts :=
                 put (kc_current rawConfig) projectName (kc_contexts rawConfig)\<rparr>))) (\<lambda>_.
            return (c\<lparr>cl_namespace := projectName\<rparr>)))"

definition ProjectSetCurrent ::
  "('s, kube_config) op \<Rightarrow> (kube_config \<Rightarrow> ('s, unit) op) \<Rightarrow> 's client \<Rightarrow> string \<Rightarrow> ('s, 's client) op" where
  "ProjectSetCurrent raw modifyConfig c projectName =
     wrapping (''unable to set current project to'' @ projectName) [] (SetCurrentProject raw modifyConfig c projectName)"

definition ProjectCreate ::
  "('s, project signal list) op \<Rightarrow> (string \<Rightarrow> ('s, unit) op) \<Rightarrow> string \<Rightarrow> bool \<Rightarrow> ('s, unit option) op" where
  "ProjectCreate watch create projectName wait =
     wrapping ''unable to create new project'' [] (CreateNewProject watch create projectName wait)"

definition ProjectDelete :: "'s client \<Rightarrow> ('s, project signal list) op \<Rightarrow> string \<Rightarrow> ('s, unit option) op" where
  "ProjectDelete c watch projectName =
     wrapping ''unable to delete project'' [] (DeleteProject c watch projectName)"


section \<open>Facts\<close>

lemma hasTag_iff: "hasTag tags t \<longleftrightarrow> t \<in> set tags"
  by (induction tags) auto

lemma condition_of_type_Some:
  "condition_of_type cs t = Some c \<Longrightarrow> c \<in> set cs \<and> cond_type c = t"
  by (induction cs) (auto split: if_splits)

definition terminal_reason :: "string \<Rightarrow> bool" where
  "terminal_reason r \<longleftrightarrow> r \<in> {''NewReplicationControllerAvailable'', ''ProgressDeadlineExceeded'',
     ''RolloutCancelled'', ''DeploymentConfigPaused''}"

lemma IsDCRolledOut_eq:
  "IsDCRolledOut d r \<longleftrightarrow>
     (st_latest_version (dc_status d) \<noteq> 0 \<or> (\<not> HasImageChangeTrigger d \<and> sp_triggers (dc_spec d) \<noteq> []))
     \<and> (r \<le> 0 \<or> r \<le> st_latest_version (dc_status d))
     \<and> om_generation (dc_meta d) \<le> st_observed_generation (dc_status d)
     \<and> (\<exists>c. getDeploymentCondition (dc_status d) ''Progressing'' = Some c \<and> terminal_reason (cond_reason c))"
  by (auto simp: IsDCRolledOut_def Let_def terminal_reason_def split: option.split)

text \<open>What decides a wait for a build: the first signal that ends it.\<close>

fun build_ends :: "build signal \<Rightarrow> unit result option" where
  "build_ends (Received (Event k (Some e))) =
     (if bd_phase e = ''Complete'' then Some (Inr ())
      else if bd_phase e \<in> {''Failed'', ''Cancelled'', ''Error''}
      then Some (fails ''build %s status %s'' [bd_name e, bd_phase e]) else None)"
| "build_ends (Received (Event k None)) = None"
| "build_ends Closed = Some (Inr ())"
| "build_ends Timeout = None"

lemma wait_build_first:
  "wait_build es = (case find (\<lambda>s. build_ends s \<noteq> None) es of None \<Rightarrow> None | Some s \<Rightarrow> build_ends s)"
  by (induction es rule: wait_build.induct) auto

lemma wait_dc_ok: "wait_dc p r es = Some (Inr d) \<Longrightarrow>
    p d r \<and> (\<exists>k. Received (Event k (Some d)) \<in> set es)"
  by (induction p r es rule: wait_dc.induct) (auto simp: fails_def split: if_splits)

lemma wait_dc_ends: "Timeout \<in> set es \<Longrightarrow> wait_dc p r es \<noteq> None"
  by (induction p r es rule: wait_dc.induct) auto

lemma wait_dc_closed: "set es \<subseteq> {Closed} \<Longrightarrow> wait_dc p r es = None"
  by (induction es) auto

lemma wait_deleted_ok: "wait_deleted n es = Some (Inr ()) \<Longrightarrow>
    \<exists>prj. Received (Event Deleted (Some prj)) \<in> set es \<and> pr_phase prj = []"
  by (induction n es rule: wait_deleted.induct) (auto simp: fails_def split: if_splits)

lemma CreateNewProject_eq:
  "CreateNewProject watch create n wait =
     bind (if wait then bind (wrapping ''unable to watch new project %s creation'' [n] watch) (\<lambda>_. return ())
           else return ()) (\<lambda>_.
     bind (wrapping ''unable to create new project %s'' [n] (create n)) (\<lambda>_. return (Some ())))"
  by (simp add: CreateNewProject_def Let_def)




section \<open>Properties\<close>

text \<open>A deployment counts as rolled out exactly when its status is current, its revision has
  reached the one asked for, it is not waiting for a first image or a manual start, and its
  progress condition has one of four final reasons; the replica counts never decide it.\<close>

theorem rollout_decided_by_condition:
  "IsDCRolledOut d r \<longleftrightarrow>
     (st_latest_version (dc_status d) \<noteq> 0 \<or> (\<not> HasImageChangeTrigger d \<and> sp_triggers (dc_spec d) \<noteq> []))
     \<and> (r \<le> 0 \<or> r \<le> st_latest_version (dc_status d))
     \<and> om_generation (dc_meta d) \<le> st_observed_generation (dc_status d)
     \<and> (\<exists>c. getDeploymentCondition (dc_status d) ''Progressing'' = Some c
         \<and> cond_reason c \<in> {''NewReplicationControllerAvailable'', ''ProgressDeadlineExceeded'',
             ''RolloutCancelled'', ''DeploymentConfigPaused''})"
  by (rule IsDCRolledOut_eq [unfolded terminal_reason_def])

definition rolled_dc :: "int \<Rightarrow> dc" where
  "rolled_dc v = (example_dc [])\<lparr>dc_status := \<lparr>st_latest_version = v, st_observed_generation = 3, st_replicas = 1,
     st_updated_replicas = 1, st_available_replicas = 1,
     st_conditions = [\<lparr>cond_type = ''Progressing'', cond_reason = ''NewReplicationControllerAvailable''\<rparr>]\<rparr>\<rparr>"

theorem rollout_decided_by_condition_witness:
  "IsDCRolledOut (rolled_dc 2) 2 \<and> \<not> IsDCRolledOut (rolled_dc 1) 2"
  unfolding rollout_decided_by_condition
  by (simp add: rolled_dc_def getDeploymentCondition_def example_dc_def named_meta_def)

text \<open>The wait for a build is decided by the first signal that can end it: a build that is
  complete, a build that failed, was cancelled or ended in an error, or the closing of the
  watch, which is reported as success; without such a signal the wait is still blocked.\<close>

theorem build_wait_decided_by_first_end:
  "WaitForBuildToFinish (Inr es) =
     (case find (\<lambda>s. build_ends s \<noteq> None) es of None \<Rightarrow> None | Some s \<Rightarrow> build_ends s)"
  by (simp add: WaitForBuildToFinish_def wait_build_first)

text \<open>C38. A wait for a deployment ends when its timeout fires, and a deployment it returns was
  received on the watch and satisfies the condition it waited for.\<close>

theorem dc_wait_ends:
  assumes "Timeout \<in> set es"
  shows "\<exists>r. WaitAndGetDC (Inr es) n cond = Some r
    \<and> (case r of Inl _ \<Rightarrow> True | Inr d \<Rightarrow> cond d n \<and> (\<exists>k. Received (Event k (Some d)) \<in> set es))"
proof -
  obtain r where r: "wait_dc cond n es = Some r" using wait_dc_ends [OF assms, of cond n] by auto
  then have w: "WaitAndGetDC (Inr es) n cond = Some r" by (simp only: WaitAndGetDC_def sum.case)
  show ?thesis
  proof (cases r)
    case (Inl f)
    with w show ?thesis by (intro exI [of _ r] conjI) simp_all
  next
    case (Inr d)
    with wait_dc_ok [of cond n es d] r w show ?thesis by (intro exI [of _ r] conjI) simp_all
  qed
qed

theorem dc_wait_ends_witness:
  "WaitAndGetDC (Inr [Received (Event Modified (Some (rolled_dc 1))), Received (Event Modified (Some (rolled_dc 2))), Timeout])
     2 IsDCRolledOut = Some (Inr (rolled_dc 2))"
proof -
  let ?es = "[Received (Event Modified (Some (rolled_dc 1))), Received (Event Modified (Some (rolled_dc 2))), Timeout]"
  have e: "\<not> IsDCRolledOut (rolled_dc 1) 2" "IsDCRolledOut (rolled_dc 2) 2"
    by (simp_all add: IsDCRolledOut_eq rolled_dc_def terminal_reason_def getDeploymentCondition_def
        example_dc_def named_meta_def)
  obtain r where "WaitAndGetDC (Inr ?es) 2 IsDCRolledOut = Some r"
    using dc_wait_ends [of ?es 2 IsDCRolledOut] by auto
  with e show ?thesis by (simp add: WaitAndGetDC_def)
qed

text \<open>Once the request for a new project succeeded the command returns, whatever its watch has
  received, also when it was asked to wait: nothing is waited for.\<close>

theorem new_project_never_waits:
  assumes "wait \<longrightarrow> watch s = (Inr w, s1)" and "\<not> wait \<longrightarrow> s1 = s" and "create n s1 = (Inr (), s2)"
  shows "CreateNewProject watch create n wait s = (Inr (Some ()), s2)"
  using assms by (cases wait) (simp_all add: CreateNewProject_eq bind_apply wrapping_apply op_apply)

theorem new_project_never_waits_witness:
  "CreateNewProject (return []) (\<lambda>n s. (Inr (), n # s)) ''p'' True [] = (Inr (Some ()), [''p''])"
  by (rule new_project_never_waits) (simp_all add: op_apply)

text \<open>A project deletion that reports success has deleted the project and then received its
  deletion on the watch.\<close>

theorem project_deletion_awaited:
  assumes "DeleteProject c watch n s = (Inr (Some ()), s')"
  shows "\<exists>s1 w prj. ra_delete (cl_projects c) [] n s = (Inr (), s1) \<and> watch s1 = (Inr w, s')
    \<and> Received (Event Deleted (Some prj)) \<in> set w \<and> pr_phase prj = []"
proof -
  from assms obtain s1 w where "ra_delete (cl_projects c) [] n s = (Inr (), s1)" and "watch s1 = (Inr w, s')"
    and "wait_deleted n w = Some (Inr ())"
    unfolding DeleteProject_def by (elim bind_okE) (auto split: option.splits elim!: bind_okE)
  with wait_deleted_ok [of n w] show ?thesis by blast
qed

theorem project_deletion_awaited_witness:
  "\<exists>w prj. w = [Received (Event Modified (Some \<lparr>pr_name = ''p'', pr_phase = ''Terminating''\<rparr>)),
       Received (Event Deleted (Some \<lparr>pr_name = ''p'', pr_phase = []\<rparr>))]
     \<and> Received (Event Deleted (Some prj)) \<in> set w \<and> pr_phase prj = []"
proof -
  let ?w = "[Received (Event Modified (Some \<lparr>pr_name = ''p'', pr_phase = ''Terminating''\<rparr>)),
       Received (Event Deleted (Some \<lparr>pr_name = ''p'', pr_phase = []\<rparr>))]"
  let ?s = "empty_cluster\<lparr>k_projects := [named_meta ''p'']\<rparr>"
  have "DeleteProject (memory_client ''p'') (return ?w) ''p'' ?s = (Inr (Some ()), empty_cluster)"
    by (simp add: DeleteProject_def bind_apply wrapping_apply op_apply memory_client_def store_api_def
        named_meta_def empty_cluster_def)
  from project_deletion_awaited [OF this] show ?thesis by (auto simp: op_apply)
qed

end
