(* ===== verification/Views.thy ===== *)
theory Views
  imports Images
begin

text \<open>
  What an operation leaves alone. A view is what an observer sees of the state of the cluster; a
  client keeps a view of the deployments when no call does anything to it but the writes of
  deployment configurations. The locale states that of the API, its lemmas that the
  operations of \<open>pkg/occlient\<close> that write no deployment keep the view too, so a run that
  writes one deployment can be told from the view before and after it.
\<close>


section \<open>Operations that keep a view\<close>

lemma preserves_attempt: "preserves f m \<Longrightarrow> preserves f (attempt m)"
  unfolding preserves_def by (auto simp: attempt_def split: prod.splits sum.splits fault.splits) (metis sndI)+

lemma preserves_prod: "(\<And>a b. p = (a, b) \<Longrightarrow> preserves f (k a b)) \<Longrightarrow> preserves f (case p of (a, b) \<Rightarrow> k a b)"
  by (cases p) simp

lemma preserves_option:
  "preserves f m \<Longrightarrow> (\<And>a. preserves f (k a)) \<Longrightarrow> preserves f (case r of None \<Rightarrow> m | Some a \<Rightarrow> k a)"
  by (cases r) simp_all

lemma preserves_sum:
  "(\<And>e. preserves f (h e)) \<Longrightarrow> (\<And>a. preserves f (k a)) \<Longrightarrow> preserves f (case r of Inl e \<Rightarrow> h e | Inr a \<Rightarrow> k a)"
  by (cases r) simp_all

lemma preserves_list:
  "preserves f m \<Longrightarrow> (\<And>x xs. preserves f (k x xs)) \<Longrightarrow> preserves f (case l of [] \<Rightarrow> m | x # xs \<Rightarrow> k x xs)"
  by (cases l) simp_all

lemma preserves_each': "(\<And>x. preserves f (g x)) \<Longrightarrow> preserves f (each g xs)"
  by (rule preserves_each)

lemma preserves_fold: "(\<And>x b. preserves f (g x b)) \<Longrightarrow> preserves f (fold_op g xs b)"
  by (induction xs arbitrary: b) auto

lemma reads_preserves: "reads m \<Longrightarrow> preserves f m"
  by (simp add: reads_def preserves_def)

lemma preserves_editing: "preserves f (editing m d)"
  by (rule reads_preserves) (rule editing_reads)

lemmas keeping = preserves_intros preserves_bind preserves_wrapping preserves_attempt preserves_if
  preserves_prod preserves_option preserves_sum preserves_list preserves_each' preserves_fold preserves_editing

text \<open>The calls of an API group that change nothing in a view, and those that read.\<close>

definition quiet_api :: "('s \<Rightarrow> 'b) \<Rightarrow> ('s, 'a) resource_api \<Rightarrow> bool" where
  "quiet_api f api \<longleftrightarrow> (\<forall>ns opts. preserves f (ra_list api ns opts)) \<and> (\<forall>ns n. preserves f (ra_get api ns n))
     \<and> (\<forall>ns a. preserves f (ra_create api ns a)) \<and> (\<forall>ns a. preserves f (ra_update api ns a))
     \<and> (\<forall>ns n. preserves f (ra_delete api ns n)) \<and> (\<forall>ns opts. preserves f (ra_delete_all api ns opts))"

definition quiet_reads :: "('s \<Rightarrow> 'b) \<Rightarrow> ('s, 'a) resource_api \<Rightarrow> bool" where
  "quiet_reads f api \<longleftrightarrow> (\<forall>ns opts. preserves f (ra_list api ns opts)) \<and> (\<forall>ns n. preserves f (ra_get api ns n))"

lemma quiet_apiD:
  assumes "quiet_api f api"
  shows "preserves f (ra_list api ns opts)" "preserves f (ra_get api ns n)" "preserves f (ra_create api ns a)"
    "preserves f (ra_update api ns a)" "preserves f (ra_delete api ns n)" "preserves f (ra_delete_all api ns opts)"
  using assms by (simp_all add: quiet_api_def)

lemma quiet_readsD:
  assumes "quiet_reads f api"
  shows "preserves f (ra_list api ns opts)" "preserves f (ra_get api ns n)"
  using assms by (simp_all add: quiet_reads_def)


section \<open>Views of the deployments\<close>

locale deployment_view =
  fixes c :: "'s client" and f :: "'s \<Rightarrow> 'b"
  assumes dcs: "quiet_reads f (cl_dcs c)"
    and bcs: "quiet_api f (cl_bcs c)" and pvcs: "quiet_api f (cl_pvcs c)"
    and services: "quiet_api f (cl_services c)" and routes: "quiet_api f (cl_routes c)"
    and secrets: "quiet_api f (cl_secrets c)" and streams: "quiet_api f (cl_image_streams c)"
    and picks: "preserves f (cl_picks c)" and builds: "preserves f (cl_instantiate_bc c ns n)"
    and images: "preserves f (cl_isi_get c ns n)"
begin

lemmas calls = quiet_readsD [OF dcs] quiet_apiD [OF bcs] quiet_apiD [OF pvcs] quiet_apiD [OF services]
  quiet_apiD [OF routes] quiet_apiD [OF secrets] quiet_apiD [OF streams] picks builds images

lemma image_lookups:
  "preserves f (GetImageStream c ns n t)" "preserves f (GetImageStreamImage c i t)"
  unfolding GetImageStream_def GetImageStreamImage_def openshift_stream_def Let_def
  by (intro keeping calls)+

lemma deployment_reads:
  "preserves f (GetDeploymentConfigsFromSelector c sel)" "preserves f (GetDeploymentConfigFromName c n)"
  "preserves f (GetOneDeploymentConfigFromSelector c sel)"
  unfolding GetOneDeploymentConfigFromSelector_def GetDeploymentConfigsFromSelector_def
    GetDeploymentConfigFromName_def
  by (intro keeping calls)+

lemma claims:
  "preserves f (CreatePVC c n sz ls)" "preserves f (DeletePVC c n)" "preserves f (GetPVCsFromSelector c sel)"
  "preserves f (GetPVCNamesFromSelector c sel)"
  unfolding CreatePVC_def DeletePVC_def GetPVCNamesFromSelector_def GetPVCsFromSelector_def
  by (intro keeping calls)+

lemma service_and_secrets:
  "preserves f (CreateService c m ps)" "preserves f (createSecrets c n m sv)"
  unfolding CreateService_def createSecrets_def CreateSecret_def Let_def by (intro keeping calls)+

lemma build_configs:
  "preserves f (CreateBuildConfig c m img url r evs)" "preserves f (GetBuildConfigFromName c n)"
  "preserves f (DeleteBuildConfig c m)" "preserves f (UpdateBuildConfig c n url as)"
  "preserves f (StartBuild c n)"
  unfolding CreateBuildConfig_def GetBuildConfigFromName_def DeleteBuildConfig_def UpdateBuildConfig_def
    StartBuild_def Let_def
  by (intro keeping calls image_lookups)+

lemmas operations = calls image_lookups deployment_reads claims service_and_secrets build_configs

end


section \<open>The view of the cluster in memory\<close>

lemma quiet_store_api [intro]:
  "(\<And>g s. f (upd g s) = f s) \<Longrightarrow> quiet_api f (store_api get upd meta)"
  by (auto simp: quiet_api_def store_api_def preserves_def split: option.split)

lemma quiet_store_reads [intro]: "quiet_reads f (store_api get upd meta)"
  by (auto simp: quiet_reads_def store_api_def preserves_def split: option.split)

interpretation memory_view: deployment_view "memory_client ns" k_dcs for ns
  by unfold_locales (auto simp: memory_client_def preserves_def op_simps)

end
