(* ===== verification/Deploy.thy ===== *)
theory Deploy
  imports Views Rollout
begin

text \<open>
  Creating and replacing the deployment of a component in \<open>pkg/occlient/occlient.go\<close>:
  \<open>NewAppS2I\<close> for git components, \<open>BootstrapSupervisoredS2I\<close> for local and binary ones, and
  \<open>PatchCurrentDC\<close> with \<open>UpdateDCToGit\<close> and \<open>UpdateDCToSupervisor\<close>. A value \<open>None\<close> of an
  operation that waits means it is still blocked. The comparison of pod templates is that of
  the fields the model keeps.
\<close>

record CreateArgs =
  ca_name :: string
  ca_source_path :: string
  ca_source_ref :: string
  ca_source_type :: SrcType
  ca_image :: string
  ca_env :: "string list"
  ca_ports :: "string list"
  ca_resources :: "resource_requirements option"
  ca_application :: string
  ca_wait :: bool
  ca_mount :: "pvc gomap"

record UpdateComponentParams =
  ucp_meta :: object_meta
  ucp_limits :: resource_requirements
  ucp_env :: "env_var list"
  ucp_existing :: dc
  ucp_wait_cond :: "dc \<Rightarrow> int \<Rightarrow> bool"
  ucp_image :: CommonImageMeta
  ucp_mount :: "pvc gomap"
  ucp_unmount :: "string gomap"

text \<open>The random names of the volumes, drawn one for each claim that is mounted.\<close>

fun random_names :: "'s client \<Rightarrow> nat \<Rightarrow> ('s, string list) op" where
  "random_names c 0 = return []"
| "random_names c (Suc n) = bind (cl_picks c) (\<lambda>picks.
     bind (random_names c n) (\<lambda>ns. return (GenerateRandomString picks 5 # ns)))"

definition claim_names :: "pvc gomap \<Rightarrow> string gomap" where
  "claim_names m = map (\<lambda>(path, p). (path, om_name (pvc_meta p))) m"

definition exchange_mounts :: "'s client \<Rightarrow> pvc gomap \<Rightarrow> string gomap \<Rightarrow> dc \<Rightarrow> ('s, dc) op" where
  "exchange_mounts c storageToMount storageUnMount d =
     bind (random_names c (length storageToMount)) (\<lambda>ns.
       editing (addOrRemoveVolumeAndVolumeMount (cl_order c) (\<lambda>i. ns ! i)
         (claim_names storageToMount) storageUnMount) d)"

text \<open>The variables that tell the supervisor image where the S2I paths are.\<close>

definition s2i_env_vars :: "S2IPaths \<Rightarrow> env_var list" where
  "s2i_env_vars s2iPaths =
     [\<lparr>ev_name = ''ODO_S2I_SCRIPTS_URL'', ev_value = s2_scripts_path s2iPaths\<rparr>,
      \<lparr>ev_name = ''ODO_S2I_SCRIPTS_PROTOCOL'', ev_value = s2_protocol s2iPaths\<rparr>,
      \<lparr>ev_name = ''ODO_S2I_SRC_BIN_PATH'', ev_value = s2_src_or_bin s2iPaths\<rparr>,
      \<lparr>ev_name = ''ODO_S2I_DEPLOYMENT_DIR'', ev_value = s2_deployment_dir s2iPaths\<rparr>,
      \<lparr>ev_name = ''ODO_S2I_WORKING_DIR'', ev_value = s2_working_dir s2iPaths\<rparr>,
      \<lparr>ev_name = ''ODO_S2I_BUILDER_IMG'', ev_value = s2_builder s2iPaths\<rparr>,
      \<lparr>ev_name = ''ODO_DEPLOYMENT_BACKUP_DIR'', ev_value = ''/opt/app-root/deployment-backup''\<rparr>]"

definition EnvS2ISrcBackupDir :: string where
  "EnvS2ISrcBackupDir = ''ODO_SRC_BACKUP_DIR''"

definition src_backup_env :: "S2IPaths \<Rightarrow> env_var" where
  "src_backup_env s2iPaths = \<lparr>ev_name = EnvS2ISrcBackupDir, ev_value = s2_backup s2iPaths\<rparr>"

text \<open>The ports of the arguments, or those the image exposes when there are none.\<close>

definition container_ports ::
  "'s client \<Rightarrow> string list \<Rightarrow> image_stream_image \<Rightarrow> string \<Rightarrow> string \<Rightarrow> container_port list result" where
  "container_ports c ports imageStreamImage imageName imageTag =
     (if length ports = 0 then
        wrapR ''unable to get exposed ports for %s:%s'' [imageName, imageTag] (GetExposedPorts c imageStreamImage)
      else wrapR ''unable to get container ports from %v'' [''['' @ join_with '' '' ports @ '']''] (GetContainerPortsFromStrings ports))"

text \<open>The ports of the first container of a deployment that was generated.\<close>

definition first_ports :: "dc \<Rightarrow> container_port list result" where
  "first_ports d = bindR (first_container d) (\<lambda>ct. Inr (ct_ports ct))"


section \<open>New deployments\<close>

definition new_image_stream :: "object_meta \<Rightarrow> image_stream" where
  "new_image_stream commonObjectMeta = \<lparr>is_meta = commonObjectMeta, is_spec_tags = [], is_status_tags = []\<rparr>"

definition NewAppS2I :: "'s client \<Rightarrow> CreateArgs \<Rightarrow> object_meta \<Rightarrow> ('s, unit) op" where
  "NewAppS2I c params commonObjectMeta =
     bind (wrapping ''unable to parse image name'' [] (lift (ParseImageName (ca_image params))))
       (\<lambda>(imageNS, imageName, imageTag, digest).
     bind (wrapping ''unable to retrieve ImageStream for NewAppS2I'' []
            (GetImageStream c imageNS imageName imageTag)) (\<lambda>imageStream.
     bind (wrapping ''unable to create s2i app for %s'' [om_name commonObjectMeta]
            (GetImageStreamImage c imageStream imageTag)) (\<lambda>imageStreamImage.
     bind (lift (container_ports c (ca_ports params) imageStreamImage imageName imageTag)) (\<lambda>containerPorts.
     bind (wrapping ''error adding environment variables to the container'' []
            (lift (GetInputEnvVarsFromStrings (ca_env params)))) (\<lambda>inputEnvVars.
     bind (wrapping ''unable to create ImageStream for %s'' [om_name commonObjectMeta]
            (ra_create (cl_image_streams c) (cl_namespace c) (new_image_stream commonObjectMeta))) (\<lambda>_.
     if ca_source_path params = [] then failing ''unable to create buildSource with empty gitURL'' []
     else
     bind (wrapping ''unable to deploy BuildConfig for %s'' [om_name commonObjectMeta]
            (CreateBuildConfig c commonObjectMeta (ca_image params) (ca_source_path params)
              (ca_source_ref params) inputEnvVars)) (\<lambda>buildConfig.
     bind (wrapping ''failed to mount and unmount pvc to dc'' []
            (exchange_mounts c (ca_mount params) []
              (generateGitDeploymentConfig commonObjectMeta (ref_name (bc_output buildConfig))
                containerPorts inputEnvVars (ca_resources params)))) (\<lambda>d.
     bind (wrapping ''unable to create DeploymentConfig for %s'' [om_name commonObjectMeta]
            (ra_create (cl_dcs c) (cl_namespace c) d)) (\<lambda>_.
     bind (lift (first_ports d)) (\<lambda>ports.
     bind (wrapping ''unable to create Service for %s'' [om_name commonObjectMeta]
            (CreateService c commonObjectMeta ports)) (\<lambda>svc.
       createSecrets c (ca_name params) commonObjectMeta svc)))))))))))"

text \<open>What the bootstrap adds to a generated deployment, in place.\<close>

definition add_bootstrap :: "string \<Rightarrow> string \<Rightarrow> (dc, unit) op" where
  "add_bootstrap bootstrapper name =
     bind (addBootstrapVolumeCopyInitContainer name) (\<lambda>_.
     bind (addBootstrapSupervisordInitContainer bootstrapper) (\<lambda>_.
     bind (addBootstrapVolume name) (\<lambda>_. addBootstrapVolumeMount name)))"

text \<open>The variables of the arguments with those of the S2I paths, for a local component also the backup.\<close>

definition bootstrap_envs :: "SrcType \<Rightarrow> env_var list \<Rightarrow> S2IPaths \<Rightarrow> env_var list" where
  "bootstrap_envs sourceType inputEnvs s2iPaths =
     (let inputEnvs = uniqueAppendOrOverwriteEnvVars inputEnvs (s2i_env_vars s2iPaths)
      in if sourceType = LOCAL
         then uniqueAppendOrOverwriteEnvVars inputEnvs [src_backup_env s2iPaths] else inputEnvs)"

definition BootstrapSupervisoredS2I ::
  "string option \<Rightarrow> 's client \<Rightarrow> CreateArgs \<Rightarrow> object_meta \<Rightarrow> ('s, unit) op" where
  "BootstrapSupervisoredS2I env c params commonObjectMeta =
     bind (wrapping ''unable to create new s2i git build '' [] (lift (ParseImageName (ca_image params))))
       (\<lambda>(imageNS, imageName, imageTag, digest).
     bind (wrapping ''Failed to bootstrap supervisored'' []
            (GetImageStream c imageNS imageName imageTag)) (\<lambda>imageStream.
     bind (wrapping ''unable to bootstrap supervisord'' []
            (GetImageStreamImage c imageStream imageTag)) (\<lambda>imageStreamImage.
     bind (lift (container_ports c (ca_ports params) imageStreamImage imageName imageTag)) (\<lambda>containerPorts.
     bind (wrapping ''error adding environment variables to the container'' []
            (lift (GetInputEnvVarsFromStrings (ca_env params)))) (\<lambda>inputEnvs.
     bind (wrapping ''unable to create ImageStream for %s'' [om_name commonObjectMeta]
            (ra_create (cl_image_streams c) (cl_namespace c) (new_image_stream commonObjectMeta))) (\<lambda>_.
     bind (wrapping ''unable to bootstrap supervisord'' []
            (lift (GetS2IMetaInfoFromBuilderImg imageStreamImage))) (\<lambda>s2iPaths.
     let name = om_name commonObjectMeta;
         commonImageMeta = \<lparr>ci_name = imageName, ci_tag = imageTag,
           ci_namespace = om_namespace (is_meta imageStream), ci_ports = containerPorts\<rparr>;
         inputEnvs = bootstrap_envs (ca_source_type params) inputEnvs s2iPaths
     in
     bind (editing (add_bootstrap (getBootstrapperImage env) name)
            (generateSupervisordDeploymentConfig commonObjectMeta commonImageMeta inputEnvs []
              (ca_resources params))) (\<lambda>d.
     bind (wrapping ''failed to mount and unmount pvc to dc'' []
            (exchange_mounts c (ca_mount params) [] d)) (\<lambda>d.
     bind (if length inputEnvs \<noteq> 0
           then wrapping ''unable to add env vars to the container'' [] (editing (updateEnvVar inputEnvs) d)
           else return d) (\<lambda>d.
     bind (wrapping ''unable to create DeploymentConfig for %s'' [name]
            (ra_create (cl_dcs c) (cl_namespace c) d)) (\<lambda>_.
     bind (lift (first_ports d)) (\<lambda>ports.
     bind (wrapping ''unable to create Service for %s'' [name] (CreateService c commonObjectMeta ports)) (\<lambda>svc.
     bind (createSecrets c (ca_name params) commonObjectMeta svc) (\<lambda>_.
     bind (wrapping ''unable to create PVC for %s'' [name]
            (CreatePVC c (getAppRootVolumeName name) ''1Gi'' (om_labels commonObjectMeta))) (\<lambda>_.
       return ())))))))))))))))"


section \<open>Replacing a deployment\<close>

text \<open>The call of the watch with the fault it may end in, as the value \<open>WaitAndGetDC\<close> looks at.\<close>

definition captured :: "('s, 'a) op \<Rightarrow> ('s, 'a result) op" where
  "captured m = (\<lambda>s. case m s of (r, s') \<Rightarrow> (Inr r, s'))"

definition wait_rolled_out ::
  "(string \<Rightarrow> ('s, dc signal list) op) \<Rightarrow> string \<Rightarrow> int \<Rightarrow> (dc \<Rightarrow> int \<Rightarrow> bool) \<Rightarrow> ('s, unit option) op" where
  "wait_rolled_out watch name desiredRevision waitCond =
     bind (captured (watch name)) (\<lambda>w.
       case WaitAndGetDC w desiredRevision waitCond of
         None \<Rightarrow> return None
       | Some r \<Rightarrow> bind (wrapping ''unable to wait for DeploymentConfig %s to update'' [name] (lift r))
           (\<lambda>_. return (Some ())))"

text \<open>The current object with the new specification, annotations and labels.\<close>

definition modified_dc :: "dc \<Rightarrow> dc \<Rightarrow> dc" where
  "modified_dc currentDC d = currentDC\<lparr>dc_spec := dc_spec d,
     dc_meta := (dc_meta currentDC)\<lparr>om_annotations := om_annotations (dc_meta d),
                                    om_labels := om_labels (dc_meta d)\<rparr>\<rparr>"

definition PatchCurrentDC ::
  "'s client \<Rightarrow> (string \<Rightarrow> ('s, dc signal list) op) \<Rightarrow> dc \<Rightarrow> (dc, unit) op option \<Rightarrow> container \<Rightarrow>
   UpdateComponentParams \<Rightarrow> bool \<Rightarrow> ('s, unit option) op" where
  "PatchCurrentDC c watch d prePatchDCHandler existingCmpContainer ucp isGit =
     (let name = om_name (ucp_meta ucp); currentDC = ucp_existing ucp in
      bind (editing (copyVolumesAndVolumeMounts currentDC existingCmpContainer) d) (\<lambda>d.
      bind (case prePatchDCHandler of None \<Rightarrow> return d
            | Some handler \<Rightarrow>
                wrapping ''Unable to correctly update dc %s using the specified prePatch handler'' [name]
                  (editing handler d)) (\<lambda>d.
      bind (exchange_mounts c (ucp_mount ucp) (ucp_unmount ucp) d) (\<lambda>d.
      bind (wrapping ''unable to update DeploymentConfig %s'' [name]
             (ra_update (cl_dcs c) (cl_namespace c) (modified_dc currentDC d))) (\<lambda>updatedDc.
      let desiredRevision = st_latest_version (dc_status currentDC) + 1;
          waiting = wait_rolled_out watch name desiredRevision (ucp_wait_cond ucp)
      in if isGit then
           bind (wrapping ''unable to start deployment'' [] (StartDeployment c (om_name (dc_meta updatedDc))))
             (\<lambda>_. waiting)
         else if sp_template (dc_spec updatedDc) = sp_template (dc_spec currentDC) then return (Some ())
         else waiting)))))"

definition UpdateDCToGit ::
  "'s client \<Rightarrow> (string \<Rightarrow> ('s, dc signal list) op) \<Rightarrow> UpdateComponentParams \<Rightarrow> bool \<Rightarrow> ('s, unit option) op" where
  "UpdateDCToGit c watch ucp isDeleteSupervisordVolumes =
     (let name = om_name (ucp_meta ucp) in
      bind (lift (template_of (ucp_existing ucp))) (\<lambda>t.
      bind (wrapping ''Unable to find container %s'' [name] (lift (FindContainer (pt_containers t) name)))
        (\<lambda>existingCmpContainer.
      if ci_name (ucp_image ucp) = [] then failing ''UpdateDCToGit imageName cannot be blank'' []
      else
      let d = generateGitDeploymentConfig (ucp_meta ucp) (ci_name (ucp_image ucp)) (ci_ports (ucp_image ucp))
                (ucp_env ucp) (Some (ucp_limits ucp))
      in if isDeleteSupervisordVolumes then
           bind (wrapping ''unable to update the current DeploymentConfig %s'' [name]
                  (PatchCurrentDC c watch d (Some removeTracesOfSupervisordFromDC) existingCmpContainer ucp True))
             (\<lambda>r. case r of None \<Rightarrow> return None
              | Some _ \<Rightarrow> bind (wrapping ''unable to delete S2I data PVC from %s'' [name]
                    (DeletePVC c (getAppRootVolumeName name))) (\<lambda>_. return (Some ())))
         else wrapping ''unable to update the current DeploymentConfig %s'' [name]
                (PatchCurrentDC c watch d None existingCmpContainer ucp True))))"

definition UpdateDCToSupervisor ::
  "string option \<Rightarrow> 's client \<Rightarrow> (string \<Rightarrow> ('s, dc signal list) op) \<Rightarrow> UpdateComponentParams \<Rightarrow>
   bool \<Rightarrow> bool \<Rightarrow> ('s, unit option) op" where
  "UpdateDCToSupervisor env c watch ucp isToLocal createPVC =
     (let name = om_name (ucp_meta ucp) in
      bind (lift (template_of (ucp_existing ucp))) (\<lambda>t.
      bind (wrapping ''Unable to find container %s'' [name] (lift (FindContainer (pt_containers t) name)))
        (\<lambda>existingCmpContainer.
      bind (wrapping ''unable to get image stream for CreateBuildConfig'' []
             (GetImageStream c (ci_namespace (ucp_image ucp)) (ci_name (ucp_image ucp)) (ci_tag (ucp_image ucp))))
        (\<lambda>imageStream.
      bind (wrapping ''unable to bootstrap supervisord'' []
             (GetImageStreamImage c imageStream (ci_tag (ucp_image ucp)))) (\<lambda>imageStreamImage.
      bind (wrapping ''unable to bootstrap supervisord'' []
             (lift (GetS2IMetaInfoFromBuilderImg imageStreamImage))) (\<lambda>s2iPaths.
      bind (lift (first_container (ucp_existing ucp))) (\<lambda>cmpContainer.
      let image_meta = (ucp_image ucp)\<lparr>ci_namespace := om_namespace (is_meta imageStream)\<rparr>;
          inputEnvs = uniqueAppendOrOverwriteEnvVars (ucp_env ucp) (s2i_env_vars s2iPaths);
          inputEnvs = (if isToLocal then uniqueAppendOrOverwriteEnvVars inputEnvs [src_backup_env s2iPaths]
                       else deleteEnvVars inputEnvs EnvS2ISrcBackupDir)
      in
      bind (if createPVC then
              bind (editing (add_bootstrap (getBootstrapperImage env) name)
                     (generateSupervisordDeploymentConfig (ucp_meta ucp) image_meta inputEnvs
                       (ct_env_from cmpContainer) (Some (ucp_limits ucp)))) (\<lambda>d.
              bind (wrapping ''unable to create PVC for %s'' [name]
                     (CreatePVC c (getAppRootVolumeName name) ''1Gi'' (om_labels (ucp_meta ucp)))) (\<lambda>_. return d))
            else lift (updateSupervisorDeploymentConfig \<lparr>su_existing_dc = ucp_existing ucp,
                   su_object_meta = ucp_meta ucp, su_image_meta = image_meta, su_env_var = inputEnvs,
                   su_env_from = ct_env_from cmpContainer, su_resources = Some (ucp_limits ucp)\<rparr>)) (\<lambda>d.
        wrapping ''unable to update the current DeploymentConfig %s'' [name]
          (PatchCurrentDC c watch d None existingCmpContainer (ucp\<lparr>ucp_image := image_meta\<rparr>) False)))))))))"


section \<open>Facts\<close>

text \<open>
  The invariant of a component's deployment: its selector chooses the pods of its template,
  whose one container has the component's name and only mounts volumes of the pod.
\<close>

definition runs_component :: "string \<Rightarrow> dc \<Rightarrow> bool" where
  "runs_component n d \<longleftrightarrow> (\<exists>t. sp_template (dc_spec d) = Some t
     \<and> selects (sp_selector (dc_spec d)) (pt_labels t)
     \<and> map ct_name (pt_containers t) = [n] \<and> mounts_backed t)"

lemma runs_componentI:
  assumes "sp_template (dc_spec d) = Some t" and "selects (sp_selector (dc_spec d)) (pt_labels t)"
    and "map ct_name (pt_containers t) = [n]" and "mounts_backed t"
  shows "runs_component n d"
  using assms by (auto simp: runs_component_def)

lemma runs_componentE:
  assumes "runs_component n d"
  obtains t ct where "sp_template (dc_spec d) = Some t" and "pt_containers t = [ct]" and "ct_name ct = n"
    and "selects (sp_selector (dc_spec d)) (pt_labels t)" and "mounts_backed t"
  using assms by (auto simp: runs_component_def)

lemma consistent_runs: "consistent_dc d \<Longrightarrow> runs_component (om_name (dc_meta d)) d"
  by (auto simp: consistent_dc_def runs_component_def split: option.splits)

lemma runs_set_template:
  assumes "runs_component n d" and "sp_template (dc_spec d) = Some t"
    and "pt_labels t' = pt_labels t" and "map ct_name (pt_containers t') = map ct_name (pt_containers t)"
    and "mounts_backed t'"
  shows "runs_component n (set_template t' d)"
  using assms by (auto simp: runs_component_def)

lemma claims_added_frame [simp]:
  "pt_labels (claims_added rnd es t) = pt_labels t"
  "map ct_name (pt_containers (claims_added rnd es t)) = map ct_name (pt_containers t)"
proof -
  have frame: "pt_labels (template_with_claim r pvc path t) = pt_labels t"
    "map ct_name (pt_containers (template_with_claim r pvc path t)) = map ct_name (pt_containers t)" for r pvc path t
    by (cases "pt_containers t"; simp add: template_with_claim_def)+
  show "pt_labels (claims_added rnd es t) = pt_labels t"
    "map ct_name (pt_containers (claims_added rnd es t)) = map ct_name (pt_containers t)"
    by (induction es arbitrary: t) (auto simp: claims_added_def frame)
qed

lemma claims_added_volumes: "set (pt_volumes t) \<subseteq> set (pt_volumes (claims_added rnd es t))"
proof (induction es arbitrary: t)
  case (Cons e es)
  obtain i path pvc where e: "e = (i, path, pvc)" by (cases e) auto
  have "set (pt_volumes t) \<subseteq> set (pt_volumes (template_with_claim (rnd i) pvc path t))"
    by (auto simp: template_with_claim_def)
  with Cons.IH [of "template_with_claim (rnd i) pvc path t"] show ?case
    by (auto simp: claims_added_def e)
qed (simp add: claims_added_def)

lemma exchange_mounts_none:
  assumes "exchange_mounts c mount [] d s = (Inr d', s')"
    and "sp_template (dc_spec d) = Some t" and "pt_containers t = [ct]"
  shows "\<exists>rnd es. d' = set_template (claims_added rnd es t) d"
proof -
  obtain ns s1 where "editing (addOrRemoveVolumeAndVolumeMount (cl_order c) (\<lambda>i. ns ! i)
      (claim_names mount) []) d s1 = (Inr d', s')"
    using assms(1) unfolding exchange_mounts_def by (elim bind_okE)
  moreover have "addOrRemoveVolumeAndVolumeMount (cl_order c) (\<lambda>i. ns ! i) (claim_names mount) [] d =
      (Inr (), set_template (claims_added (\<lambda>i. ns ! i)
        (List.enumerate 0 (range_map (cl_order c) (claim_names mount))) t) d)"
    by (rule addOrRemove_none) (use assms(2,3) in \<open>simp_all add: has_key_def\<close>)
  ultimately show ?thesis by (auto simp: editing_ok_iff)
qed

text \<open>Mounting more claims keeps the invariant, the meta data, and the volumes there were.\<close>

lemma exchange_mounts_runs:
  assumes "exchange_mounts c mount [] d s = (Inr d', s')" and "runs_component n d"
  shows "runs_component n d' \<and> dc_meta d' = dc_meta d
    \<and> (\<forall>t. sp_template (dc_spec d) = Some t \<longrightarrow>
         (\<exists>t'. sp_template (dc_spec d') = Some t' \<and> set (pt_volumes t) \<subseteq> set (pt_volumes t')))"
proof -
  obtain t ct where t: "sp_template (dc_spec d) = Some t" "pt_containers t = [ct]" "mounts_backed t"
    using assms(2) by (rule runs_componentE)
  obtain rnd es where d': "d' = set_template (claims_added rnd es t) d"
    using exchange_mounts_none [OF assms(1) t(1,2)] by blast
  have "runs_component n d'"
    unfolding d' by (rule runs_set_template [OF assms(2) t(1)]) (simp_all add: claims_added_backed t(3))
  with d' t(1) claims_added_volumes [of t rnd es] show ?thesis by simp
qed

lemma updateEnvVar_runs:
  assumes "updateEnvVar evs d = (Inr (), d')" and "runs_component n d"
  shows "runs_component n d' \<and> dc_meta d' = dc_meta d
    \<and> (\<forall>t. sp_template (dc_spec d) = Some t \<longrightarrow> (\<exists>t'. sp_template (dc_spec d') = Some t'
         \<and> pt_volumes t' = pt_volumes t \<and> (\<forall>ct\<in>set (pt_containers t'). ct_env ct = evs)))"
proof -
  obtain t ct where t: "sp_template (dc_spec d) = Some t" "pt_containers t = [ct]"
    "ct_name ct = n" "selects (sp_selector (dc_spec d)) (pt_labels t)" "mounts_backed t"
    using assms(2) by (rule runs_componentE)
  have d': "d' = set_template (t\<lparr>pt_containers := [ct\<lparr>ct_env := evs\<rparr>]\<rparr>) d"
    using assms(1) t(1,2) by (simp add: updateEnvVar_def op_simps template_of_def)
  have "mounts_backed (t\<lparr>pt_containers := [ct\<lparr>ct_env := evs\<rparr>]\<rparr>)"
    using t(2,5) by (simp add: mounts_backed_def)
  then have "runs_component n d'"
    unfolding d' by (intro runs_set_template [OF assms(2) t(1)]) (simp_all add: t(2,3))
  with d' t(1) show ?thesis by simp
qed

text \<open>What the bootstrap leaves: the volume of the claim, mounted, and the two init containers.\<close>

lemma add_bootstrap_runs:
  assumes "add_bootstrap img n d = (Inr (), d')" and "runs_component n d"
  shows "runs_component n d' \<and> dc_meta d' = dc_meta d
    \<and> (\<exists>t'. sp_template (dc_spec d') = Some t' \<and> \<lparr>vol_name = getAppRootVolumeName n,
         vol_claim = Some (getAppRootVolumeName n), vol_empty_dir = False\<rparr> \<in> set (pt_volumes t')
         \<and> (\<forall>ct\<in>set (pt_containers t'). bootstrap_mount n \<in> set (ct_mounts ct)))"
proof -
  obtain t ct where t: "sp_template (dc_spec d) = Some t" "pt_containers t = [ct]"
    "ct_name ct = n" "selects (sp_selector (dc_spec d)) (pt_labels t)" "mounts_backed t"
    using assms(2) by (rule runs_componentE)
  let ?v = "\<lparr>vol_name = getAppRootVolumeName n, vol_claim = Some (getAppRootVolumeName n),
      vol_empty_dir = False\<rparr>"
  have "\<exists>inits. set_template (t\<lparr>pt_init := inits, pt_volumes := pt_volumes t @ [?v],
      pt_containers := [ct\<lparr>ct_mounts := ct_mounts ct @ [bootstrap_mount n]\<rparr>]\<rparr>) d = d'"
    using assms(1) t(1,2)
    by (simp add: add_bootstrap_def addBootstrapVolumeCopyInitContainer_def
        addBootstrapSupervisordInitContainer_def addBootstrapVolume_def addBootstrapVolumeMount_def
        op_simps template_of_def) (rule exI, assumption)
  then obtain inits where d': "d' = set_template (t\<lparr>pt_init := inits, pt_volumes := pt_volumes t @ [?v],
      pt_containers := [ct\<lparr>ct_mounts := ct_mounts ct @ [bootstrap_mount n]\<rparr>]\<rparr>) d"
    by (auto dest: sym)
  have "vm_name m \<in> vol_name ` set (pt_volumes t)" if "m \<in> set (ct_mounts ct)" for m
    using t(2,5) that by (auto simp: mounts_backed_def)
  then have "mounts_backed (t\<lparr>pt_init := inits, pt_volumes := pt_volumes t @ [?v],
      pt_containers := [ct\<lparr>ct_mounts := ct_mounts ct @ [bootstrap_mount n]\<rparr>]\<rparr>)"
    by (auto simp: mounts_backed_def bootstrap_mount_def)
  then have "runs_component n d'"
    unfolding d' by (intro runs_set_template [OF assms(2) t(1)]) (simp_all add: t(2,3))
  then show ?thesis by (simp add: d')
qed

lemma bootstrap_envs_names:
  "ev_name ` set (s2i_env_vars s2iPaths) \<subseteq> ev_name ` set (bootstrap_envs st es s2iPaths)"
  "st = LOCAL \<Longrightarrow> EnvS2ISrcBackupDir \<in> ev_name ` set (bootstrap_envs st es s2iPaths)"
  using uniqueAppend_spec(2) by (auto simp: bootstrap_envs_def Let_def src_backup_env_def)

lemma bootstrap_envs_not_empty: "bootstrap_envs st es s2iPaths \<noteq> []"
  using bootstrap_envs_names(1) [of s2iPaths st es] by (auto simp: s2i_env_vars_def)

text \<open>
  The calls of a bootstrap that succeeded which decide what is deployed; nothing before and
  nothing after the creation of the deployment touches a view of the deployments.
\<close>

context deployment_view
begin

lemma exchange_mounts_view: "preserves f (exchange_mounts c mount unmount d)"
proof -
  have "preserves f (random_names c n)" for n
    by (induction n) (auto intro!: keeping picks)
  then show ?thesis unfolding exchange_mounts_def by (intro keeping)
qed

lemma bootstrap_steps:
  assumes "BootstrapSupervisoredS2I env c params m s = (Inr (), s')"
  shows "\<exists>im es s2iPaths d1 d2 d3 r p s1 s2 s3 s4.
    add_bootstrap (getBootstrapperImage env) (om_name m)
       (generateSupervisordDeploymentConfig m im (bootstrap_envs (ca_source_type params) es s2iPaths) []
         (ca_resources params)) = (Inr (), d1)
    \<and> exchange_mounts c (ca_mount params) [] d1 s1 = (Inr d2, s2)
    \<and> updateEnvVar (bootstrap_envs (ca_source_type params) es s2iPaths) d2 = (Inr (), d3)
    \<and> ra_create (cl_dcs c) (cl_namespace c) d3 s2 = (Inr r, s3)
    \<and> CreatePVC c (getAppRootVolumeName (om_name m)) ''1Gi'' (om_labels m) s4 = (Inr p, s')
    \<and> f s2 = f s \<and> f s' = f s3"
  using assms bootstrap_envs_not_empty
  unfolding BootstrapSupervisoredS2I_def Let_def
  apply (elim bind_okE)
  apply (clarsimp simp only: wrapping_ok_iff lift_ok_iff split: prod.splits)
  apply (elim bind_okE)
  apply (clarsimp simp only: wrapping_ok_iff lift_ok_iff editing_ok_iff length_0_conv if_True if_False not_False_eq_True)
  apply (simp only: return_ok_iff)
  apply (elim conjE, hypsubst)
  apply (frule preservesD [OF image_lookups(1)], frule preservesD [OF image_lookups(2)],
    frule preservesD [OF quiet_apiD(3) [OF streams]], frule preservesD [OF exchange_mounts_view],
    frule preservesD [OF service_and_secrets(1)], frule preservesD [OF service_and_secrets(2)],
    frule preservesD [OF claims(1)])
  apply (intro exI conjI)
        apply assumption+
   apply (simp_all only:)
  done

text \<open>What the bootstrap created.\<close>

lemma bootstrap_created:
  assumes "BootstrapSupervisoredS2I env c params m s = (Inr (), s')" and "om_name m \<noteq> []"
  shows "\<exists>es d t r s1 s2 s3 p paths. ra_create (cl_dcs c) (cl_namespace c) d s1 = (Inr r, s2)
    \<and> dc_meta d = m \<and> runs_component (om_name m) d \<and> sp_template (dc_spec d) = Some t
    \<and> \<lparr>vol_name = getAppRootVolumeName (om_name m), vol_claim = Some (getAppRootVolumeName (om_name m)),
        vol_empty_dir = False\<rparr> \<in> set (pt_volumes t)
    \<and> (\<forall>ct\<in>set (pt_containers t). ct_env ct = bootstrap_envs (ca_source_type params) es paths)
    \<and> CreatePVC c (getAppRootVolumeName (om_name m)) ''1Gi'' (om_labels m) s3 = (Inr p, s')
    \<and> f s1 = f s \<and> f s' = f s2"
proof -
  obtain im es paths d1 d2 d3 r p s1 s2 s3 s4 where
    1: "add_bootstrap (getBootstrapperImage env) (om_name m)
       (generateSupervisordDeploymentConfig m im (bootstrap_envs (ca_source_type params) es paths) []
         (ca_resources params)) = (Inr (), d1)"
    and 2: "exchange_mounts c (ca_mount params) [] d1 s1 = (Inr d2, s2)"
    and 3: "updateEnvVar (bootstrap_envs (ca_source_type params) es paths) d2 = (Inr (), d3)"
    and create: "ra_create (cl_dcs c) (cl_namespace c) d3 s2 = (Inr r, s3)"
    and claim: "CreatePVC c (getAppRootVolumeName (om_name m)) ''1Gi'' (om_labels m) s4 = (Inr p, s')"
    and view: "f s2 = f s" "f s' = f s3"
    using bootstrap_steps [OF assms(1)] by blast
  have meta: "dc_meta (generateSupervisordDeploymentConfig m im evs ef res) = m" for evs ef res
    by (simp add: generateSupervisordDeploymentConfig_def Let_def)
  have r0: "runs_component (om_name m) (generateSupervisordDeploymentConfig m im evs ef res)" for evs ef res
    using consistent_runs [OF consistent_supervisord [OF assms(2), of im evs ef res]] by (simp add: meta)
  note b = add_bootstrap_runs [OF 1 r0]
  note e = exchange_mounts_runs [OF 2 conjunct1 [OF b]]
  note u = updateEnvVar_runs [OF 3 conjunct1 [OF e]]
  from b e u obtain t where t: "sp_template (dc_spec d3) = Some t"
    "\<lparr>vol_name = getAppRootVolumeName (om_name m), vol_claim = Some (getAppRootVolumeName (om_name m)),
        vol_empty_dir = False\<rparr> \<in> set (pt_volumes t)"
    "\<forall>ct\<in>set (pt_containers t). ct_env ct = bootstrap_envs (ca_source_type params) es paths"
    by fastforce
  have "dc_meta d3 = m" "runs_component (om_name m) d3"
    using b e u by (simp_all add: meta)
  with create claim t view show ?thesis by (intro exI conjI)
qed

end

text \<open>Copying what the current deployment had keeps the invariant of the new one.\<close>

lemma copied_runs:
  assumes "copyVolumesAndVolumeMounts cur mc d = (Inr (), d')" and "runs_component n d"
    and "sp_template (dc_spec cur) = Some ct" and "mounts_backed ct" and "mc \<in> set (pt_containers ct)"
  shows "runs_component n d' \<and> dc_meta d' = dc_meta d"
proof -
  obtain t c where t: "sp_template (dc_spec d) = Some t" "pt_containers t = [c]" "mounts_backed t"
    using assms(2) by (rule runs_componentE)
  let ?t = "t\<lparr>pt_containers := update_named (ct_name mc) (copy_mounts mc) (pt_containers t),
       pt_volumes := copy_volumes (pt_volumes ct) (pt_volumes t)\<rparr>"
  have d': "d' = set_template ?t d"
    using assms(1) by (simp add: copyVolumes_ok [OF t(1) assms(3)])
  have "runs_component n d'"
    unfolding d' by (rule runs_set_template [OF assms(2) t(1)])
      (simp_all add: map_name_update_named copy_mounts_def copied_backed [OF t(3) assms(4,5)])
  then show ?thesis by (simp add: d')
qed

lemma modified_dc_frame [simp]:
  "om_name (dc_meta (modified_dc cur d)) = om_name (dc_meta cur)"
  "om_labels (dc_meta (modified_dc cur d)) = om_labels (dc_meta d)"
  "dc_spec (modified_dc cur d) = dc_spec d"
  "dc_status (modified_dc cur d) = dc_status cur"
  by (simp_all add: modified_dc_def)

lemma runs_modified [simp]: "runs_component n (modified_dc cur d) \<longleftrightarrow> runs_component n d"
  by (simp add: runs_component_def)

subsection \<open>The environment of the containers\<close>

definition dc_envs :: "dc \<Rightarrow> env_var list list option" where
  "dc_envs d = map_option (\<lambda>t. map ct_env (pt_containers t)) (sp_template (dc_spec d))"

lemma dc_envs_set_template [simp]: "dc_envs (set_template t d) = Some (map ct_env (pt_containers t))"
  by (simp add: dc_envs_def)

lemma dc_envs_first:
  "dc_envs d = Some (e # es) \<Longrightarrow> \<exists>ct. first_container d = Inr ct \<and> ct_env ct = e"
  by (auto simp: dc_envs_def first_container_def template_of_def map_eq_Cons_conv)

lemma preserves_the_template:
  "(\<And>t d. sp_template (dc_spec d) = Some t \<Longrightarrow> f (snd (k t d)) = f d) \<Longrightarrow> preserves f (bind the_template k)"
  by (auto simp: preserves_def bind_apply the_template_apply template_of_def split: option.splits sum.splits)

lemma preserves_put_template: "map ct_env (pt_containers t) = es \<Longrightarrow> dc_envs d = Some es \<Longrightarrow>
    dc_envs (snd (put_template t d)) = dc_envs d"
  by (simp add: put_template_apply)

lemma map_env_update_first [simp]:
  "(\<And>c. ct_env (f c) = ct_env c) \<Longrightarrow> map ct_env (update_first f cs) = map ct_env cs"
  by (cases cs) (simp_all add: update_first_def)

lemma map_env_update_named [simp]:
  "(\<And>c. ct_env (f c) = ct_env c) \<Longrightarrow> map ct_env (update_named n f cs) = map ct_env cs"
  by (induction cs) auto

lemma remove_mount_from_envs:
  "remove_mount_from vm cs = Inr (b, cs') \<Longrightarrow> map ct_env cs' = map ct_env cs"
  by (induction cs arbitrary: b cs') (auto simp: bindR_Inr_iff split: prod.splits)

lemma editing_preserves_envs [intro]:
  "preserves dc_envs (AddPVCToDeploymentConfig rnd pvc path)"
  "preserves dc_envs (removeVolumeFromDC vol)"
  "preserves dc_envs (removeVolumeMountFromDC vm)"
  "preserves dc_envs (unmount_all u)"
  "preserves dc_envs (copyVolumesAndVolumeMounts cur mc)"
proof -
  show "preserves dc_envs (AddPVCToDeploymentConfig rnd pvc path)"
    by (auto simp: preserves_def AddPVCToDeploymentConfig_def Let_def op_simps dc_envs_def failing_def fault_def
        split: option.splits)
  show "preserves dc_envs (removeVolumeFromDC vol)"
    unfolding removeVolumeFromDC_def
    by (rule preserves_the_template) (auto simp: op_simps dc_envs_def split: sum.splits prod.splits)
  show "preserves dc_envs (removeVolumeMountFromDC vm)"
    unfolding removeVolumeMountFromDC_def
    by (rule preserves_the_template)
      (auto simp: op_simps dc_envs_def dest: remove_mount_from_envs split: sum.splits prod.splits)
  show "preserves dc_envs (unmount_all u)"
    unfolding unmount_all_def
    by (rule preserves_the_template) (auto simp: op_simps dc_envs_def split: list.splits sum.splits prod.splits)
  show "preserves dc_envs (copyVolumesAndVolumeMounts cur mc)"
    unfolding copyVolumesAndVolumeMounts_def
    by (rule preserves_the_template)
      (auto simp: op_simps dc_envs_def copy_mounts_def Let_def template_of_def split: sum.splits)
qed

lemma removeTraces_preserves_envs [intro]: "preserves dc_envs removeTracesOfSupervisordFromDC"
proof -
  have step: "preserves dc_envs (bind the_template (\<lambda>t. bind (lift (delete_in_range P (pt_init t)))
      (\<lambda>(found, init). put_template (t\<lparr>pt_init := init\<rparr>))))" for P
    by (rule preserves_the_template) (auto simp: op_simps dc_envs_def split: sum.splits prod.splits)
  show ?thesis
    unfolding removeTracesOfSupervisordFromDC_def Let_def
    by (rule step preserves_if preserves_intros editing_preserves_envs | rule preserves_bind)+
qed

lemma addOrRemove_preserves_envs [intro]: "preserves dc_envs (addOrRemoveVolumeAndVolumeMount ord rnd mount unmount)"
proof -
  have "preserves dc_envs (each (\<lambda>(i, path, pvc).
      wrapping ''unable to add pvc to deployment config'' [] (AddPVCToDeploymentConfig (rnd i) pvc path)) es)" for es
    by (rule preserves_each) auto
  moreover have "preserves dc_envs the_template"
    by (simp add: preserves_def the_template_apply)
  ultimately show ?thesis
    unfolding addOrRemoveVolumeAndVolumeMount_def
    by (intro preserves_bind preserves_if preserves_intros editing_preserves_envs)
qed

lemma exchange_mounts_preserves_envs:
  assumes "exchange_mounts c mount unmount d s = (Inr d', s')"
  shows "dc_envs d' = dc_envs d"
  using assms preservesD [OF addOrRemove_preserves_envs]
  by (fastforce simp: exchange_mounts_def bind_ok_iff editing_ok_iff)

text \<open>A replacement that succeeded: what was sent, and how the wait ended.\<close>

definition awaited ::
  "(string \<Rightarrow> ('s, dc signal list) op) \<Rightarrow> string \<Rightarrow> int \<Rightarrow> (dc \<Rightarrow> int \<Rightarrow> bool) \<Rightarrow> unit option \<Rightarrow> 's \<Rightarrow> 's \<Rightarrow> bool" where
  "awaited watch name revision waitCond r s s' \<longleftrightarrow> (\<exists>w. watch name s = (w, s') \<and>
     (case WaitAndGetDC w revision waitCond of
        None \<Rightarrow> r = None | Some (Inl f) \<Rightarrow> False | Some (Inr d) \<Rightarrow> r = Some ()))"

lemma wait_rolled_out_ok:
  "wait_rolled_out watch name revision waitCond s = (Inr r, s') \<Longrightarrow> awaited watch name revision waitCond r s s'"
  by (cases "watch name s")
    (auto simp: wait_rolled_out_def captured_def bind_def awaited_def op_simps
      split: option.splits sum.splits)

lemma PatchCurrentDC_steps:
  assumes "PatchCurrentDC c watch d h mc ucp isGit s = (Inr r, s')"
  shows "\<exists>d1 d2 d3 u s2 s3 s4.
    copyVolumesAndVolumeMounts (ucp_existing ucp) mc d = (Inr (), d1)
    \<and> (case h of None \<Rightarrow> d2 = d1 | Some handler \<Rightarrow> handler d1 = (Inr (), d2))
    \<and> exchange_mounts c (ucp_mount ucp) (ucp_unmount ucp) d2 s = (Inr d3, s2)
    \<and> ra_update (cl_dcs c) (cl_namespace c) (modified_dc (ucp_existing ucp) d3) s2 = (Inr u, s3)
    \<and> (if \<not> isGit \<and> sp_template (dc_spec u) = sp_template (dc_spec (ucp_existing ucp))
       then r = Some () \<and> s' = s3
       else awaited watch (om_name (ucp_meta ucp)) (st_latest_version (dc_status (ucp_existing ucp)) + 1)
              (ucp_wait_cond ucp) r s4 s' \<and> (if isGit then snd (StartDeployment c (om_name (dc_meta u)) s3) = s4
              else s4 = s3))"
proof -
  obtain d1 d2 d3 u s1 s2 s3 s4 where
    1: "editing (copyVolumesAndVolumeMounts (ucp_existing ucp) mc) d s = (Inr d1, s1)"
    and 2: "(case h of None \<Rightarrow> return d1 | Some handler \<Rightarrow>
        wrapping ''Unable to correctly update dc %s using the specified prePatch handler''
          [om_name (ucp_meta ucp)] (editing handler d1)) s1 = (Inr d2, s2)"
    and 3: "exchange_mounts c (ucp_mount ucp) (ucp_unmount ucp) d2 s2 = (Inr d3, s3)"
    and 4: "wrapping ''unable to update DeploymentConfig %s'' [om_name (ucp_meta ucp)]
             (ra_update (cl_dcs c) (cl_namespace c) (modified_dc (ucp_existing ucp) d3)) s3 = (Inr u, s4)"
    and w: "(if isGit then
           bind (wrapping ''unable to start deployment'' [] (StartDeployment c (om_name (dc_meta u))))
             (\<lambda>_. wait_rolled_out watch (om_name (ucp_meta ucp))
               (st_latest_version (dc_status (ucp_existing ucp)) + 1) (ucp_wait_cond ucp))
         else if sp_template (dc_spec u) = sp_template (dc_spec (ucp_existing ucp)) then return (Some ())
         else wait_rolled_out watch (om_name (ucp_meta ucp))
               (st_latest_version (dc_status (ucp_existing ucp)) + 1) (ucp_wait_cond ucp)) s4 = (Inr r, s')"
    using assms unfolding PatchCurrentDC_def Let_def by (elim bind_okE) (rule that)
  have "s2 = s"
    using 1 2 by (auto simp: editing_ok_iff split: option.splits)
  with 3 have e: "exchange_mounts c (ucp_mount ucp) (ucp_unmount ucp) d2 s = (Inr d3, s3)" by simp
  have u: "ra_update (cl_dcs c) (cl_namespace c) (modified_dc (ucp_existing ucp) d3) s3 = (Inr u, s4)"
    using 4 by simp
  have h: "case h of None \<Rightarrow> d2 = d1 | Some handler \<Rightarrow> handler d1 = (Inr (), d2)"
    using 2 by (auto simp: editing_ok_iff split: option.splits)
  have c1: "copyVolumesAndVolumeMounts (ucp_existing ucp) mc d = (Inr (), d1)"
    using 1 by (simp add: editing_ok_iff)
  have "\<exists>s5. if \<not> isGit \<and> sp_template (dc_spec u) = sp_template (dc_spec (ucp_existing ucp))
       then r = Some () \<and> s' = s4
       else awaited watch (om_name (ucp_meta ucp)) (st_latest_version (dc_status (ucp_existing ucp)) + 1)
              (ucp_wait_cond ucp) r s5 s' \<and> (if isGit then snd (StartDeployment c (om_name (dc_meta u)) s4) = s5
              else s5 = s4)"
    using w by (cases isGit) (auto simp: bind_ok_iff dest: wait_rolled_out_ok split: if_splits)
  then show ?thesis by (elim exE) (intro exI conjI, rule c1, rule h, rule e, rule u)
qed


text \<open>
  The environment of the first container of what is sent is the one of the new deployment, and
  what is sent is the first write of a deployment.
\<close>

context deployment_view
begin

lemma PatchCurrentDC_view:
  assumes "PatchCurrentDC c watch d h mc ucp isGit s = (Inr r, s')"
  shows "\<exists>d1 d2 d3 u s2 s3 s4.
    copyVolumesAndVolumeMounts (ucp_existing ucp) mc d = (Inr (), d1)
    \<and> (case h of None \<Rightarrow> d2 = d1 | Some handler \<Rightarrow> handler d1 = (Inr (), d2))
    \<and> exchange_mounts c (ucp_mount ucp) (ucp_unmount ucp) d2 s = (Inr d3, s2) \<and> f s2 = f s
    \<and> ra_update (cl_dcs c) (cl_namespace c) (modified_dc (ucp_existing ucp) d3) s2 = (Inr u, s3)
    \<and> (if \<not> isGit \<and> sp_template (dc_spec u) = sp_template (dc_spec (ucp_existing ucp))
       then r = Some () \<and> s' = s3
       else awaited watch (om_name (ucp_meta ucp)) (st_latest_version (dc_status (ucp_existing ucp)) + 1)
              (ucp_wait_cond ucp) r s4 s' \<and> (if isGit then snd (StartDeployment c (om_name (dc_meta u)) s3) = s4
              else s4 = s3))"
proof -
  obtain d1 d2 d3 u s2 s3 s4 where
    "copyVolumesAndVolumeMounts (ucp_existing ucp) mc d = (Inr (), d1)"
    "case h of None \<Rightarrow> d2 = d1 | Some handler \<Rightarrow> handler d1 = (Inr (), d2)"
    and e: "exchange_mounts c (ucp_mount ucp) (ucp_unmount ucp) d2 s = (Inr d3, s2)"
    and "ra_update (cl_dcs c) (cl_namespace c) (modified_dc (ucp_existing ucp) d3) s2 = (Inr u, s3)"
    "if \<not> isGit \<and> sp_template (dc_spec u) = sp_template (dc_spec (ucp_existing ucp))
       then r = Some () \<and> s' = s3
       else awaited watch (om_name (ucp_meta ucp)) (st_latest_version (dc_status (ucp_existing ucp)) + 1)
              (ucp_wait_cond ucp) r s4 s' \<and> (if isGit then snd (StartDeployment c (om_name (dc_meta u)) s3) = s4
              else s4 = s3)"
    using PatchCurrentDC_steps [OF assms] by (elim exE conjE) (rule that)
  with preservesD [OF exchange_mounts_view e] show ?thesis by (intro exI conjI)
qed

lemma PatchCurrentDC_env:
  assumes "PatchCurrentDC c watch d h mc ucp isGit s = (Inr r, s')"
    and "h = None \<or> h = Some removeTracesOfSupervisordFromDC" and "dc_envs d = Some (e # es)"
  shows "\<exists>d' u s1 s2 ct. f s1 = f s \<and> ra_update (cl_dcs c) (cl_namespace c) d' s1 = (Inr u, s2)
    \<and> first_container d' = Inr ct \<and> ct_env ct = e"
proof -
  obtain d1 d2 d3 u s2 s3 where
    1: "copyVolumesAndVolumeMounts (ucp_existing ucp) mc d = (Inr (), d1)"
    and 2: "case h of None \<Rightarrow> d2 = d1 | Some handler \<Rightarrow> handler d1 = (Inr (), d2)"
    and 3: "exchange_mounts c (ucp_mount ucp) (ucp_unmount ucp) d2 s = (Inr d3, s2)" and v: "f s2 = f s"
    and 4: "ra_update (cl_dcs c) (cl_namespace c) (modified_dc (ucp_existing ucp) d3) s2 = (Inr u, s3)"
    using PatchCurrentDC_view [OF assms(1)] by blast
  have "dc_envs d1 = dc_envs d" by (rule preservesD [OF editing_preserves_envs(5) 1])
  moreover have "dc_envs d2 = dc_envs d1"
    using 2 assms(2) preservesD [OF removeTraces_preserves_envs] by auto
  moreover have "dc_envs d3 = dc_envs d2" by (rule exchange_mounts_preserves_envs [OF 3])
  moreover have "dc_envs (modified_dc (ucp_existing ucp) d3) = dc_envs d3" by (simp add: dc_envs_def)
  ultimately show ?thesis using 4 v assms(3) dc_envs_first by fastforce
qed

end

definition s2i_env_names :: "string set" where
  "s2i_env_names = {''ODO_S2I_SCRIPTS_URL'', ''ODO_S2I_SCRIPTS_PROTOCOL'', ''ODO_S2I_SRC_BIN_PATH'',
     ''ODO_S2I_DEPLOYMENT_DIR'', ''ODO_S2I_WORKING_DIR'', ''ODO_S2I_BUILDER_IMG'',
     ''ODO_DEPLOYMENT_BACKUP_DIR'', EnvS2ISrcBackupDir}"

lemma s2i_env_vars_names: "ev_name ` set (s2i_env_vars p) \<subseteq> s2i_env_names"
  by (simp add: s2i_env_vars_def s2i_env_names_def)

lemma deleteEnvVars_subset: "set (deleteEnvVars es n) \<subseteq> set es"
  by (induction es) auto

lemma supervised_env_names:
  "ev_name ` set (uniqueAppendOrOverwriteEnvVars (uniqueAppendOrOverwriteEnvVars es (s2i_env_vars p))
     [src_backup_env p]) \<subseteq> ev_name ` set es \<union> s2i_env_names"
  "ev_name ` set (deleteEnvVars (uniqueAppendOrOverwriteEnvVars es (s2i_env_vars p)) n)
     \<subseteq> ev_name ` set es \<union> s2i_env_names"
proof -
  have a: "ev_name ` set (uniqueAppendOrOverwriteEnvVars ex new) = ev_name ` set ex \<union> ev_name ` set new" for ex new
    using uniqueAppend_spec(2) [of ex new] by (simp add: image_Un)
  have b: "ev_name (src_backup_env p) \<in> s2i_env_names"
    by (simp add: src_backup_env_def s2i_env_names_def)
  show "ev_name ` set (uniqueAppendOrOverwriteEnvVars (uniqueAppendOrOverwriteEnvVars es (s2i_env_vars p))
     [src_backup_env p]) \<subseteq> ev_name ` set es \<union> s2i_env_names"
    using s2i_env_vars_names [of p] b by (auto simp: a)
  have "ev_name ` set (deleteEnvVars (uniqueAppendOrOverwriteEnvVars es (s2i_env_vars p)) n)
      \<subseteq> ev_name ` set (uniqueAppendOrOverwriteEnvVars es (s2i_env_vars p))"
    by (rule image_mono [OF deleteEnvVars_subset])
  then show "ev_name ` set (deleteEnvVars (uniqueAppendOrOverwriteEnvVars es (s2i_env_vars p)) n)
     \<subseteq> ev_name ` set es \<union> s2i_env_names"
    using s2i_env_vars_names [of p] by (auto simp: a)
qed

lemma dc_envs_generated:
  "dc_envs (generateGitDeploymentConfig m img ports ev r) = Some [ev]"
  "dc_envs (generateSupervisordDeploymentConfig m im ev ef r) = Some [ev]"
  by (simp_all add: dc_envs_def generateGitDeploymentConfig_def generateSupervisordDeploymentConfig_def
      Let_def split: option.split)

lemma dc_envs_updated:
  assumes "updateSupervisorDeploymentConfig p = Inr d" and "template_of (su_existing_dc p) = Inr t"
    and "pt_containers t \<noteq> []"
  shows "\<exists>es. dc_envs d = Some (su_env_var p # es)"
proof -
  obtain ct cts where "pt_containers t = ct # cts" using assms(3) by (cases "pt_containers t") auto
  with assms(1,2) show ?thesis
    by (auto simp: updateSupervisorDeploymentConfig_def Let_def template_of_def split: option.splits)
qed

lemma add_bootstrap_preserves_envs: "preserves dc_envs (add_bootstrap img n)"
proof -
  have "preserves dc_envs (addBootstrapVolumeCopyInitContainer n)"
    "preserves dc_envs (addBootstrapSupervisordInitContainer img)"
    "preserves dc_envs (addBootstrapVolume n)" "preserves dc_envs (addBootstrapVolumeMount n)"
    unfolding addBootstrapVolumeCopyInitContainer_def addBootstrapSupervisordInitContainer_def
      addBootstrapVolume_def addBootstrapVolumeMount_def
    by (rule preserves_the_template, simp add: op_simps dc_envs_def split: list.split)+
  then show ?thesis unfolding add_bootstrap_def by (intro preserves_bind)
qed

lemma find_container_nonempty: "find_container cs n = Inr c \<Longrightarrow> cs \<noteq> []"
  by (cases cs) (auto simp: fails_def)

context deployment_view
begin

lemma UpdateDCToGit_env:
  assumes "UpdateDCToGit c watch ucp del s = (Inr r, s')"
  shows "\<exists>d u s1 s2 ct. f s1 = f s \<and> ra_update (cl_dcs c) (cl_namespace c) d s1 = (Inr u, s2)
    \<and> first_container d = Inr ct \<and> ct_env ct = ucp_env ucp"
proof -
  obtain h d mc r1 s1 where "h = None \<or> h = Some removeTracesOfSupervisordFromDC"
    and "d = generateGitDeploymentConfig (ucp_meta ucp) (ci_name (ucp_image ucp)) (ci_ports (ucp_image ucp))
                (ucp_env ucp) (Some (ucp_limits ucp))"
    and "PatchCurrentDC c watch d h mc ucp True s = (Inr r1, s1)"
    using assms by (fastforce simp: UpdateDCToGit_def Let_def bind_ok_iff split: if_splits)
  from PatchCurrentDC_env [OF this(3,1)] dc_envs_generated(1) this(2) show ?thesis by simp
qed

lemma UpdateDCToSupervisor_env:
  assumes "UpdateDCToSupervisor env c watch ucp isToLocal createPVC s = (Inr r, s')"
  shows "\<exists>d u s1 s2 ct. f s1 = f s \<and> ra_update (cl_dcs c) (cl_namespace c) d s1 = (Inr u, s2)
    \<and> first_container d = Inr ct \<and> ev_name ` set (ct_env ct) \<subseteq> ev_name ` set (ucp_env ucp) \<union> s2i_env_names"
proof -
  obtain t mc i ii p im ef d sa s1 s2 where t: "template_of (ucp_existing ucp) = Inr t"
    and mc: "FindContainer (pt_containers t) (om_name (ucp_meta ucp)) = Inr mc"
    and i: "GetImageStream c (ci_namespace (ucp_image ucp)) (ci_name (ucp_image ucp)) (ci_tag (ucp_image ucp)) s
      = (Inr i, sa)"
    and ii: "GetImageStreamImage c i (ci_tag (ucp_image ucp)) sa = (Inr ii, s1)"
    and d: "(if createPVC then
              bind (editing (add_bootstrap (getBootstrapperImage env) (om_name (ucp_meta ucp)))
                     (generateSupervisordDeploymentConfig (ucp_meta ucp) im
                       (if isToLocal then uniqueAppendOrOverwriteEnvVars
                           (uniqueAppendOrOverwriteEnvVars (ucp_env ucp) (s2i_env_vars p)) [src_backup_env p]
                        else deleteEnvVars (uniqueAppendOrOverwriteEnvVars (ucp_env ucp) (s2i_env_vars p))
                               EnvS2ISrcBackupDir) ef (Some (ucp_limits ucp)))) (\<lambda>d.
              bind (wrapping ''unable to create PVC for %s'' [om_name (ucp_meta ucp)]
                     (CreatePVC c (getAppRootVolumeName (om_name (ucp_meta ucp))) ''1Gi'' (om_labels (ucp_meta ucp))))
                (\<lambda>_. return d))
            else lift (updateSupervisorDeploymentConfig \<lparr>su_existing_dc = ucp_existing ucp,
                   su_object_meta = ucp_meta ucp, su_image_meta = im,
                   su_env_var = (if isToLocal then uniqueAppendOrOverwriteEnvVars
                           (uniqueAppendOrOverwriteEnvVars (ucp_env ucp) (s2i_env_vars p)) [src_backup_env p]
                        else deleteEnvVars (uniqueAppendOrOverwriteEnvVars (ucp_env ucp) (s2i_env_vars p))
                               EnvS2ISrcBackupDir),
                   su_env_from = ef, su_resources = Some (ucp_limits ucp)\<rparr>)) s1 = (Inr d, s2)"
    and patch: "PatchCurrentDC c watch d None mc (ucp\<lparr>ucp_image := im\<rparr>) False s2 = (Inr r, s')"
    using assms unfolding UpdateDCToSupervisor_def Let_def
    by (elim bind_okE) (simp only: lift_ok_iff wrapping_ok_iff)
  let ?evs = "if isToLocal then uniqueAppendOrOverwriteEnvVars
       (uniqueAppendOrOverwriteEnvVars (ucp_env ucp) (s2i_env_vars p)) [src_backup_env p]
    else deleteEnvVars (uniqueAppendOrOverwriteEnvVars (ucp_env ucp) (s2i_env_vars p)) EnvS2ISrcBackupDir"
  have "f s2 = f s1"
    by (rule preservesD [where f = f and s = s1, rotated], rule d) (intro keeping claims)
  then have view: "f s2 = f s"
    using preservesD [OF image_lookups(1) i] preservesD [OF image_lookups(2) ii] by simp
  have "pt_containers t \<noteq> []"
    using mc find_container_nonempty by (auto simp: FindContainer_def fails_def split: if_splits)
  note cs = this
  have "\<exists>es. dc_envs d = Some (?evs # es)"
  proof (cases createPVC)
    case True
    obtain d0 where "add_bootstrap (getBootstrapperImage env) (om_name (ucp_meta ucp))
        (generateSupervisordDeploymentConfig (ucp_meta ucp) im ?evs ef (Some (ucp_limits ucp))) = (Inr (), d0)"
      and "d = d0"
      by (rule bind_okE [OF d [unfolded if_P [OF True]]], elim bind_okE) (simp only: editing_ok_iff return_ok_iff)
    then show ?thesis
      using preservesD [OF add_bootstrap_preserves_envs] dc_envs_generated(2) by metis
  next
    case False
    with d have "updateSupervisorDeploymentConfig \<lparr>su_existing_dc = ucp_existing ucp,
         su_object_meta = ucp_meta ucp, su_image_meta = im, su_env_var = ?evs,
         su_env_from = ef, su_resources = Some (ucp_limits ucp)\<rparr> = Inr d"
      by (simp only: if_False lift_ok_iff)
    from dc_envs_updated [OF this _ cs] t show ?thesis by simp
  qed
  then obtain es where envs: "dc_envs d = Some (?evs # es)" by (rule exE)
  have names: "ev_name ` set ?evs \<subseteq> ev_name ` set (ucp_env ucp) \<union> s2i_env_names"
    using supervised_env_names by (cases isToLocal) (simp_all only: if_True if_False)
  from PatchCurrentDC_env [OF patch disjI1 [OF refl] envs]
  obtain d' u s3 s4 ct where "f s3 = f s2" and u: "ra_update (cl_dcs c) (cl_namespace c) d' s3 = (Inr u, s4)"
    "first_container d' = Inr ct" and ct: "ct_env ct = ?evs"
    by (elim exE conjE) (rule that)
  then have "f s3 = f s" using view by simp
  from this u names [folded ct] show ?thesis by (intro exI conjI)
qed

end


section \<open>Properties\<close>


definition stream_client :: "cluster client" where
  "stream_client = (memory_client ''app'')\<lparr>cl_isi_get := (\<lambda>ns n. return
     \<lparr>isi_name = ''nodejs'', isi_exposed_ports = [], isi_labels = Some
        [(''io.openshift.s2i.scripts-url'', ''image:///usr/libexec/s2i'')], isi_working_dir = []\<rparr>)\<rparr>"

definition local_args :: CreateArgs where
  "local_args = \<lparr>ca_name = ''web'', ca_source_path = ''./'', ca_source_ref = [], ca_source_type = LOCAL,
     ca_image = ''nodejs:8'', ca_env = [''A=1''], ca_ports = [], ca_resources = None,
     ca_application = ''app'', ca_wait = False, ca_mount = []\<rparr>"

lemma stream_client_view: "deployment_view stream_client k_dcs"
  by unfold_locales (auto simp: stream_client_def memory_client_def preserves_def op_simps)


text \<open>C5. Replacing a deployment without unmounting anything sends the current object with the new
  specification and labels: it keeps its name and status, runs its one container, has every
  mount backed by a volume, and keeps every volume of the current deployment but the shared one of
  supervisord.\<close>

theorem replaced_deployment:
  assumes "deployment_view c f"
    and "PatchCurrentDC c watch d None mc ucp isGit s = (Inr r, s')" and "ucp_unmount ucp = []"
    and "runs_component n d" and "sp_template (dc_spec (ucp_existing ucp)) = Some ct"
    and "mounts_backed ct" and "mc \<in> set (pt_containers ct)"
  shows "\<exists>d' t' u s1 s2. f s1 = f s \<and> ra_update (cl_dcs c) (cl_namespace c) d' s1 = (Inr u, s2)
    \<and> om_name (dc_meta d') = om_name (dc_meta (ucp_existing ucp))
    \<and> om_labels (dc_meta d') = om_labels (dc_meta d) \<and> dc_status d' = dc_status (ucp_existing ucp)
    \<and> runs_component n d' \<and> sp_template (dc_spec d') = Some t'
    \<and> vol_name ` set (pt_volumes ct) - {supervisordVolumeName} \<subseteq> vol_name ` set (pt_volumes t')"
proof -
  obtain d1 d3 u s2 s3 where 1: "copyVolumesAndVolumeMounts (ucp_existing ucp) mc d = (Inr (), d1)"
    and 2: "exchange_mounts c (ucp_mount ucp) [] d1 s = (Inr d3, s2)" and v: "f s2 = f s"
    and 3: "ra_update (cl_dcs c) (cl_namespace c) (modified_dc (ucp_existing ucp) d3) s2 = (Inr u, s3)"
    using deployment_view.PatchCurrentDC_view [OF assms(1,2)] assms(3) by auto
  note copied = copied_runs [OF 1 assms(4-7)]
  note mounted = exchange_mounts_runs [OF 2 conjunct1 [OF copied]]
  obtain t where t: "sp_template (dc_spec d) = Some t" using assms(4) by (rule runs_componentE)
  obtain t1 where t1: "sp_template (dc_spec d1) = Some t1" "pt_volumes t1 = copy_volumes (pt_volumes ct) (pt_volumes t)"
    using 1 by (auto simp: copyVolumes_ok [OF t assms(5)])
  with mounted obtain t3 where t3: "sp_template (dc_spec d3) = Some t3" "set (pt_volumes t1) \<subseteq> set (pt_volumes t3)"
    by auto
  have "vol_name ` set (pt_volumes ct) - {supervisordVolumeName} \<subseteq> vol_name ` set (pt_volumes t1)"
    by (auto simp: t1(2) copy_volumes_eq)
  with t3(2) have "vol_name ` set (pt_volumes ct) - {supervisordVolumeName} \<subseteq> vol_name ` set (pt_volumes t3)"
    by (meson image_mono subset_trans)
  with 3 v t3(1) copied mounted show ?thesis
    by (intro exI [of _ "modified_dc (ucp_existing ucp) d3"] exI [of _ t3] exI [of _ u] exI [of _ s2]
        exI [of _ s3]) simp
qed

definition no_signals :: "string \<Rightarrow> ('s, 'a signal list) op" where
  "no_signals name = return []"

definition named_template :: "string list \<Rightarrow> pod_template" where
  "named_template ns = (example_template ns)\<lparr>pt_containers :=
     map (\<lambda>c. c\<lparr>ct_name := ''web-app''\<rparr>) (pt_containers (example_template ns))\<rparr>"

definition named_dc :: "string list \<Rightarrow> dc" where
  "named_dc ns = set_template (named_template ns) (example_dc ns)"

definition web_update :: "string list \<Rightarrow> UpdateComponentParams" where
  "web_update ns = \<lparr>ucp_meta = named_meta ''web-app'', ucp_limits = no_resources, ucp_env = [],
     ucp_existing = named_dc ns, ucp_wait_cond = IsDCRolledOut,
     ucp_image = \<lparr>ci_name = ''nodejs'', ci_tag = ''8'', ci_namespace = [], ci_ports = []\<rparr>,
     ucp_mount = [], ucp_unmount = []\<rparr>"

definition web_git_dc :: dc where
  "web_git_dc = generateGitDeploymentConfig (named_meta ''web-app'') ''nodejs'' [] [] None"

theorem replaced_deployment_witness:
  "\<exists>d' t' u s1 s2. k_dcs s1 = [named_dc [''data'']] \<and> ra_update (cl_dcs (memory_client ''app'')) ''app'' d' s1 = (Inr u, s2)
    \<and> runs_component ''web-app'' d' \<and> sp_template (dc_spec d') = Some t'
    \<and> vol_name ` set (pt_volumes (named_template [''data''])) - {supervisordVolumeName}
        \<subseteq> vol_name ` set (pt_volumes t')"
proof -
  let ?s = "empty_cluster\<lparr>k_dcs := [named_dc [''data'']]\<rparr>"
  let ?mc = "hd (pt_containers (named_template [''data'']))"
  have "\<exists>r. fst (PatchCurrentDC (memory_client ''app'') no_signals web_git_dc None ?mc (web_update [''data'']) False ?s) = Inr r"
    by (rule exI [of _ None]) code_simp
  then obtain r s' where p: "PatchCurrentDC (memory_client ''app'') no_signals web_git_dc None ?mc (web_update [''data'']) False ?s
      = (Inr r, s')" by (metis prod.collapse)
  have runs: "runs_component ''web-app'' web_git_dc"
    using consistent_runs [OF consistent_git [of "named_meta ''web-app''" "''nodejs''" "[]" "[]" None]]
    by (simp add: web_git_dc_def named_meta_def generateGitDeploymentConfig_def Let_def)
  have t: "sp_template (dc_spec (ucp_existing (web_update [''data'']))) = Some (named_template [''data''])"
    "ucp_unmount (web_update [''data'']) = []" "?mc \<in> set (pt_containers (named_template [''data'']))"
    by (simp_all add: web_update_def named_dc_def named_template_def example_template_def)
  have b: "mounts_backed (named_template [''data''])"
    by (simp add: mounts_backed_def named_template_def example_template_def)
  obtain d' t' u s1 s2 where 1: "k_dcs s1 = k_dcs ?s" and 2: "runs_component ''web-app'' d'" "sp_template (dc_spec d') = Some t'"
    and 3: "vol_name ` set (pt_volumes (named_template [''data''])) - {supervisordVolumeName} \<subseteq> vol_name ` set (pt_volumes t')"
    and u: "ra_update (cl_dcs (memory_client ''app'')) (cl_namespace (memory_client ''app'')) d' s1 = (Inr u, s2)"
    using replaced_deployment [OF memory_view.deployment_view_axioms p t(2) runs t(1) b t(3)] by blast
  from 1 have "k_dcs s1 = [named_dc [''data'']]" by simp
  moreover from u have "ra_update (cl_dcs (memory_client ''app'')) ''app'' d' s1 = (Inr u, s2)"
    by (simp only: memory_client_def client.simps)
  ultimately show ?thesis using 2 3 by (intro exI conjI)
qed

text \<open>After a replacement of a local or binary component whose update answered with the template
  there was, the client does not wait; in every other case the call returns only when the next
  revision has been seen rolled out, and a git component's deployment is started before.\<close>

theorem replacement_waits:
  assumes "deployment_view c f" and "PatchCurrentDC c watch d h mc ucp isGit s = (Inr r, s')"
  shows "\<exists>d' u s1 s2 s3. f s1 = f s \<and> ra_update (cl_dcs c) (cl_namespace c) d' s1 = (Inr u, s2) \<and>
    (if \<not> isGit \<and> sp_template (dc_spec u) = sp_template (dc_spec (ucp_existing ucp))
     then r = Some () \<and> s' = s2
     else awaited watch (om_name (ucp_meta ucp)) (st_latest_version (dc_status (ucp_existing ucp)) + 1)
            (ucp_wait_cond ucp) r s3 s' \<and>
          s3 = (if isGit then snd (StartDeployment c (om_name (dc_meta u)) s2) else s2))"
  using deployment_view.PatchCurrentDC_view [OF assms] by (auto split: if_splits)

theorem replacement_waits_witness:
  "\<exists>d' u s1 s2. k_dcs s1 = [named_dc [''data'']] \<and> ra_update (cl_dcs (memory_client ''app'')) ''app'' d' s1 = (Inr u, s2) \<and>
    (sp_template (dc_spec u) \<noteq> sp_template (dc_spec (named_dc [''data''])) \<longrightarrow>
      (\<exists>s' (s3::cluster). awaited no_signals ''web-app'' 1 IsDCRolledOut None s3 s'))"
proof -
  let ?s = "empty_cluster\<lparr>k_dcs := [named_dc [''data'']]\<rparr>"
  let ?mc = "hd (pt_containers (named_template [''data'']))"
  have "fst (PatchCurrentDC (memory_client ''app'') no_signals web_git_dc None ?mc (web_update [''data'']) False ?s) = Inr None"
    by code_simp
  then obtain s' where p: "PatchCurrentDC (memory_client ''app'') no_signals web_git_dc None ?mc (web_update [''data'']) False ?s
      = (Inr None, s')" by (metis prod.collapse)
  from replacement_waits [OF memory_view.deployment_view_axioms p] obtain d' u s1 s2 s3 where v: "k_dcs s1 = [named_dc [''data'']]"
    and u: "ra_update (cl_dcs (memory_client ''app'')) ''app'' d' s1 = (Inr u, s2)"
    and aw: "sp_template (dc_spec u) \<noteq> sp_template (dc_spec (named_dc [''data'']))
      \<Longrightarrow> awaited no_signals ''web-app'' 1 IsDCRolledOut None s3 s'"
    by (auto simp: empty_cluster_def web_update_def named_dc_def example_dc_def named_meta_def memory_client_def no_status_def split: if_splits)
  show ?thesis by (intro exI conjI impI, rule v, rule u) (rule aw)
qed

text \<open>C11. When a component is moved from local or binary sources to git, the claim behind its sources
  is deleted last, after the roll-out of the new revision has been seen; a call that is still
  waiting has not deleted it.\<close>

theorem claim_deleted_after_rollout:
  assumes "deployment_view c f" and "UpdateDCToGit c watch ucp True s = (Inr r, s')"
  shows "\<exists>d u s1 s2 s3 w s4. f s1 = f s \<and> ra_update (cl_dcs c) (cl_namespace c) d s1 = (Inr u, s2)
    \<and> s3 = snd (StartDeployment c (om_name (dc_meta u)) s2) \<and> watch (om_name (ucp_meta ucp)) s3 = (w, s4) \<and>
    (case WaitAndGetDC w (st_latest_version (dc_status (ucp_existing ucp)) + 1) (ucp_wait_cond ucp) of
       None \<Rightarrow> r = None \<and> s' = s4
     | Some (Inl e) \<Rightarrow> False
     | Some (Inr u) \<Rightarrow> r = Some () \<and>
         DeletePVC c (getAppRootVolumeName (om_name (ucp_meta ucp))) s4 = (Inr (), s'))"
proof -
  obtain r1 d mc s4 where p: "PatchCurrentDC c watch d (Some removeTracesOfSupervisordFromDC) mc ucp True s
      = (Inr r1, s4)"
    and del: "(case r1 of None \<Rightarrow> return None
              | Some _ \<Rightarrow> bind (wrapping ''unable to delete S2I data PVC from %s'' [om_name (ucp_meta ucp)]
                    (DeletePVC c (getAppRootVolumeName (om_name (ucp_meta ucp))))) (\<lambda>_. return (Some ()))) s4
        = (Inr r, s')"
    using assms(2)
    by (fastforce simp: UpdateDCToGit_def Let_def bind_ok_iff split: if_splits)
  obtain d' u s1 s2 s3 where "f s1 = f s" "ra_update (cl_dcs c) (cl_namespace c) d' s1 = (Inr u, s2)"
    "s3 = snd (StartDeployment c (om_name (dc_meta u)) s2)"
    and aw: "awaited watch (om_name (ucp_meta ucp)) (st_latest_version (dc_status (ucp_existing ucp)) + 1)
      (ucp_wait_cond ucp) r1 s3 s4"
    using deployment_view.PatchCurrentDC_view [OF assms(1) p] by auto
  moreover from aw obtain w where "watch (om_name (ucp_meta ucp)) s3 = (w, s4)"
    and c: "case WaitAndGetDC w (st_latest_version (dc_status (ucp_existing ucp)) + 1) (ucp_wait_cond ucp) of
        None \<Rightarrow> r1 = None | Some (Inl e) \<Rightarrow> False | Some (Inr d) \<Rightarrow> r1 = Some ()"
    unfolding awaited_def by (elim exE conjE) (rule that)
  moreover from c del have "case WaitAndGetDC w (st_latest_version (dc_status (ucp_existing ucp)) + 1) (ucp_wait_cond ucp) of
       None \<Rightarrow> r = None \<and> s' = s4
     | Some (Inl e) \<Rightarrow> False
     | Some (Inr u) \<Rightarrow> r = Some () \<and>
         DeletePVC c (getAppRootVolumeName (om_name (ucp_meta ucp))) s4 = (Inr (), s')"
    by (simp add: bind_ok_iff split: option.splits sum.splits)
  ultimately show ?thesis by (intro exI conjI)
qed

definition rolled_signals :: "string \<Rightarrow> ('s, dc signal list) op" where
  "rolled_signals name = return [Received (Event Modified (Some (rolled_dc 1)))]"

theorem claim_deleted_after_rollout_witness:
  "\<exists>s'. snd (UpdateDCToGit (memory_client ''app'') rolled_signals (web_update [''data'', ''web-app-s2idata'']) True
      (empty_cluster\<lparr>k_dcs := [named_dc [''data'', ''web-app-s2idata'']],
        k_pvcs := [\<lparr>pvc_meta = named_meta ''web-app-s2idata'', pvc_size = zero_quantity, pvc_access_modes = []\<rparr>]\<rparr>)) = s'
    \<and> (\<exists>s1. DeletePVC (memory_client ''app'') ''web-app-s2idata'' s1 = (Inr (), s'))"
proof -
  let ?ucp = "web_update [''data'', ''web-app-s2idata'']"
  let ?s = "empty_cluster\<lparr>k_dcs := [named_dc [''data'', ''web-app-s2idata'']],
        k_pvcs := [\<lparr>pvc_meta = named_meta ''web-app-s2idata'', pvc_size = zero_quantity, pvc_access_modes = []\<rparr>]\<rparr>"
  have "fst (UpdateDCToGit (memory_client ''app'') rolled_signals ?ucp True ?s) = Inr (Some ())"
    by code_simp
  then obtain s' where u: "UpdateDCToGit (memory_client ''app'') rolled_signals ?ucp True ?s = (Inr (Some ()), s')"
    by (metis prod.collapse)
  have "\<exists>s1. DeletePVC (memory_client ''app'') ''web-app-s2idata'' s1 = (Inr (), s')"
    using claim_deleted_after_rollout [OF memory_view.deployment_view_axioms u]
    by (elim exE conjE) (simp add: web_update_def named_meta_def getAppRootVolumeName_def
        split: option.split_asm sum.split_asm, blast)
  with u show ?thesis by simp
qed

end
