(* ===== verification/Validation.thy ===== *)
theory Validation
  imports Client
begin

text \<open>
  Validation of names and of answers to prompts, \<open>pkg/odo/util/validation\<close>. An answer is an
  \<open>interface{}\<close>: a string, an integer, or a value of another type with its
  printed form and whether it is empty (a zero value that is not a boolean).
\<close>

datatype answer = AString string | AInt int | AOther string bool

text \<open>The check of the Kubernetes library: at most 63 bytes, and \<open>[a-z0-9]([-a-z0-9]*[a-z0-9])?\<close>.\<close>

definition label_end :: "char \<Rightarrow> bool" where
  "label_end c \<longleftrightarrow> is_lower c \<or> is_digit c"

definition dns1123_match :: "string \<Rightarrow> bool" where
  "dns1123_match value \<longleftrightarrow> value \<noteq> [] \<and> label_end (hd value) \<and> label_end (last value)
     \<and> list_all (\<lambda>c. label_end c \<or> c = CHR ''-'') value"

definition IsDNS1123Label :: "string \<Rightarrow> string list" where
  "IsDNS1123Label value =
     (if length value > 63 then [''must be no more than 63 characters''] else []) @
     (if \<not> dns1123_match value then
        [''a DNS-1123 label must consist of lower case alphanumeric characters or '' @ [CHR 0x27] @ ''-''
          @ [CHR 0x27] @ '', and must start and end with an alphanumeric character (e.g. '' @ [CHR 0x27]
          @ ''my-name'' @ [CHR 0x27] @ '',  or '' @ [CHR 0x27] @ ''123-abc'' @ [CHR 0x27]
          @ '', regex used for validation is '' @ [CHR 0x27] @ ''[a-z0-9]([-a-z0-9]*[a-z0-9])?''
          @ [CHR 0x27] @ '')''] else [])"

definition ValidateName :: "string \<Rightarrow> unit result" where
  "ValidateName name =
     (let errorList = IsDNS1123Label name
      in if length errorList \<noteq> 0 then fails ''%s is not a valid name:  %s'' [name, join_with '' '' errorList]
         else Inr ())"

text \<open>The printed form of an answer, for \<open>%v\<close>.\<close>

fun show_answer :: "answer \<Rightarrow> string" where
  "show_answer (AString s) = s"
| "show_answer (AInt i) = show_int i"
| "show_answer (AOther s z) = s"

fun NameValidator :: "answer \<Rightarrow> unit result" where
  "NameValidator (AString s) = ValidateName s"
| "NameValidator name = fails ''can only validate strings, got %v'' [show_answer name]"

definition NilValidator :: "answer \<Rightarrow> unit result" where
  "NilValidator a = Inr ()"

text \<open>\<open>strconv.Atoi\<close> has 64 bits; the message prints the text of its error.\<close>

fun fault_text :: "fault \<Rightarrow> string" where
  "fault_text (Err e) = error_text e"
| "fault_text (Panic p) = p"
| "fault_text (Exit p) = p"

fun IntegerValidator :: "answer \<Rightarrow> unit result" where
  "IntegerValidator (AInt i) = Inr ()"
| "IntegerValidator (AString s) = (case parse_int 64 s of
     Inl err \<Rightarrow> fails (''invalid integer value '' @ [CHR 0x27] @ ''%s'' @ [CHR 0x27] @ '': %s'') [s, fault_text err]
   | Inr _ \<Rightarrow> Inr ())"
| "IntegerValidator ans = fails (''don'' @ [CHR 0x27] @ ''t know how to convert %v into an integer'') [show_answer ans]"

text \<open>\<open>exists\<close> is \<open>CheckPathExists\<close>, a question to the file system.\<close>

fun PathValidator :: "(string \<Rightarrow> bool) \<Rightarrow> answer \<Rightarrow> unit result" where
  "PathValidator path_exists (AString s) =
     (if path_exists s then Inr ()
      else fails (''path '' @ [CHR 0x27] @ ''%s'' @ [CHR 0x27] @ '' does not exist on the file system'') [s])"
| "PathValidator path_exists path = fails ''can only validate strings, got %v'' [show_answer path]"

fun PortsValidator :: "answer \<Rightarrow> unit result" where
  "PortsValidator (AString s) =
     bindR (GetContainerPortsFromStrings (GetSplitValuesFromStr s)) (\<lambda>_. Inr ())"
| "PortsValidator portsStr = fails ''can only validate strings, got %v'' [show_answer portsStr]"

definition key_value_part :: "string \<Rightarrow> unit result" where
  "key_value_part part =
     (let kvParts = split_on CHR ''='' part
      in if length kvParts \<noteq> 2 then
           fails (''Part '' @ [CHR 0x27] @ ''%s'' @ [CHR 0x27] @ '' does not have the correct format'') [part]
         else if length (trim_space (kvParts ! 0)) \<noteq> length (kvParts ! 0) \<or>
                 length (trim_space (kvParts ! 1)) \<noteq> length (kvParts ! 1) then
           fails (''Spaces are not allowed in '' @ [CHR 0x27] @ ''%s'' @ [CHR 0x27]) [part]
         else Inr ())"

fun KeyEqValFormatValidator :: "answer \<Rightarrow> unit result" where
  "KeyEqValFormatValidator (AString s) =
     bindR (mapR key_value_part (GetSplitValuesFromStr s)) (\<lambda>_. Inr ())"
| "KeyEqValFormatValidator portsStr = fails ''can only validate strings, got %v'' [show_answer portsStr]"

type_synonym validator = "answer \<Rightarrow> unit result"

record Validatable =
  va_required :: bool
  va_type :: string
  va_additional :: "validator list"

text \<open>\<open>survey.Required\<close>: the zero value of the type is refused.\<close>

fun survey_required :: validator where
  "survey_required (AString s) = (if s = [] then fails ''Value is required'' [] else Inr ())"
| "survey_required (AInt i) = (if i = 0 then fails ''Value is required'' [] else Inr ())"
| "survey_required (AOther s z) = (if z then fails ''Value is required'' [] else Inr ())"

text \<open>\<open>survey.ComposeValidators\<close>: the first error.\<close>

fun ComposeValidators :: "validator list \<Rightarrow> validator" where
  "ComposeValidators [] val = Inr ()"
| "ComposeValidators (v # vs) val = bindR (v val) (\<lambda>_. ComposeValidators vs val)"

definition internalGetValidatorFor :: "Validatable \<Rightarrow> validator \<times> validator list" where
  "internalGetValidatorFor prop =
     (let validatorChain = [];
          validatorChain = (if va_required prop then validatorChain @ [survey_required] else validatorChain);
          validatorChain = (if va_type prop = ''integer'' then validatorChain @ [IntegerValidator] else validatorChain);
          validatorChain = validatorChain @ va_additional prop
      in if length validatorChain > 0 then (ComposeValidators validatorChain, validatorChain)
         else (NilValidator, validatorChain))"

definition GetValidatorFor :: "Validatable \<Rightarrow> validator" where
  "GetValidatorFor prop = fst (internalGetValidatorFor prop)"


section \<open>Facts\<close>

lemma ValidateName_iff: "ValidateName n = Inr () \<longleftrightarrow> length n \<le> 63 \<and> dns1123_match n"
  by (simp add: ValidateName_def IsDNS1123Label_def)

lemma ComposeValidators_ok: "ComposeValidators vs a = Inr () \<longleftrightarrow> (\<forall>v\<in>set vs. v a = Inr ())"
  by (induction vs) (auto simp: bindR_Inr_iff)

lemma validator_chain:
  "GetValidatorFor p a = Inr () \<longleftrightarrow>
     (va_required p \<longrightarrow> survey_required a = Inr ()) \<and>
     (va_type p = ''integer'' \<longrightarrow> IntegerValidator a = Inr ()) \<and>
     (\<forall>v\<in>set (va_additional p). v a = Inr ())"
  by (auto simp: GetValidatorFor_def internalGetValidatorFor_def ComposeValidators_ok NilValidator_def Let_def)

end
