(* ===== verification/Catalog.thy ===== *)
theory Catalog
  imports Images Rollout Validation
begin

text \<open>
  What can be deployed: the builder images of \<open>pkg/catalog\<close>, and the service classes, plans and
  instances of \<open>pkg/service\<close> with the service catalog part of \<open>pkg/occlient/occlient.go\<close>.
\<close>


section \<open>Builder images\<close>

record CatalogImage =
  cg_name :: string
  cg_namespace :: string
  cg_all_tags :: "string list"
  cg_visible_tags :: "string list"

definition GetImageStreamTags :: "'s client \<Rightarrow> string \<Rightarrow> ('s, tag_reference list) op" where
  "GetImageStreamTags c namespace = wrapping ''unable to list imagestreamtags'' [] (cl_stream_tags c namespace)"

definition getAllNonHiddenTags :: "string list \<Rightarrow> string list \<Rightarrow> string list" where
  "getAllNonHiddenTags allTags hiddenTags =
     foldl (\<lambda>result t1. if \<not> list_ex (\<lambda>t2. t1 = t2) hiddenTags then result @ [t1] else result) [] allTags"

text \<open>The annotation \<open>tags\<close> is a list separated by commas.\<close>

definition words_of :: "tag_reference \<Rightarrow> string list" where
  "words_of t = (case lookup (tg_annotations t) ''tags'' of None \<Rightarrow> [] | Some tags \<Rightarrow> split_on CHR '','' tags)"

definition no_tag :: tag_reference where
  "no_tag = \<lparr>tg_name = [], tg_annotations = []\<rparr>"

text \<open>A tag is added to the hidden ones once for each word \<open>hidden\<close> of its object.\<close>

definition hidden_tags :: "tag_reference gomap \<Rightarrow> image_stream \<Rightarrow> string list \<Rightarrow> string list" where
  "hidden_tags imageStreamTagMap imageStream allTags =
     foldl (\<lambda>hidden tag.
       let imageStreamTag = (case lookup imageStreamTagMap (om_name (is_meta imageStream) @ '':'' @ tag) of
             None \<Rightarrow> no_tag | Some t \<Rightarrow> t)
       in foldl (\<lambda>hidden t. if t = ''hidden'' then hidden @ [tag] else hidden) hidden (words_of imageStreamTag))
     [] allTags"

definition catalog_image :: "tag_reference gomap \<Rightarrow> image_stream \<Rightarrow> CatalogImage" where
  "catalog_image imageStreamTagMap imageStream =
     (let allTags = map tg_name (is_spec_tags imageStream)
      in \<lparr>cg_name = om_name (is_meta imageStream), cg_namespace = om_namespace (is_meta imageStream),
          cg_all_tags = allTags,
          cg_visible_tags = getAllNonHiddenTags allTags (hidden_tags imageStreamTagMap imageStream allTags)\<rparr>)"

definition is_builder :: "image_stream \<Rightarrow> bool" where
  "is_builder imageStream = list_ex (\<lambda>t. list_ex (\<lambda>w. w = ''builder'') (words_of t)) (is_spec_tags imageStream)"

definition builder_images :: "tag_reference gomap \<Rightarrow> image_stream list \<Rightarrow> CatalogImage list" where
  "builder_images imageStreamTagMap imageStreams =
     foldl (\<lambda>images i. if is_builder i then images @ [catalog_image imageStreamTagMap i] else images) [] imageStreams"

definition tags_by_name :: "tag_reference list \<Rightarrow> tag_reference gomap" where
  "tags_by_name ts = foldl (\<lambda>m t. put (tg_name t) t m) [] ts"

text \<open>One of two listings may fail; the items of the other are used.\<close>

definition items :: "error + 'a list \<Rightarrow> 'a list" where
  "items r = (case r of Inl _ \<Rightarrow> [] | Inr xs \<Rightarrow> xs)"

definition both_failed :: "string \<Rightarrow> string \<Rightarrow> error + 'a list \<Rightarrow> error + 'a list \<Rightarrow> unit result" where
  "both_failed what namespace r1 r2 = (case (r1, r2) of
     (Inl e1, Inl e2) \<Rightarrow> Inl (Err (Wrapf (Errorf (''%s.'' @ [newline] @ ''%s'') [error_text e1, error_text e2])
        (''Failed to fetch '' @ what @ '' from both openshift and %s namespaces.'' @ [newline] @
         ''Please ensure that a builder imagestream of required version for the component exists in either openshift or %s namespaces'')
        [namespace, namespace]))
   | _ \<Rightarrow> Inr ())"

definition getDefaultBuilderImages :: "'s client \<Rightarrow> ('s, CatalogImage list) op" where
  "getDefaultBuilderImages c =
     (let currentNamespace = GetCurrentProjectName c in
      bind (attempt (GetImageStreams c OpenShiftNameSpace)) (\<lambda>openshiftNS.
      bind (attempt (GetImageStreams c currentNamespace)) (\<lambda>currentNS.
      bind (lift (both_failed ''imagestreams'' currentNamespace openshiftNS currentNS)) (\<lambda>_.
      let imageStreams = items openshiftNS @ items currentNS in
      bind (attempt (GetImageStreamTags c currentNamespace)) (\<lambda>currentNSTags.
      bind (attempt (GetImageStreamTags c OpenShiftNameSpace)) (\<lambda>openshiftNSTags.
      bind (lift (both_failed ''imagestreamtags'' currentNamespace currentNSTags openshiftNSTags)) (\<lambda>_.
        return (builder_images (tags_by_name (items currentNSTags @ items openshiftNSTags)) imageStreams))))))))"

definition CatalogList :: "'s client \<Rightarrow> ('s, CatalogImage list) op" where
  "CatalogList c =
     bind (wrapping ''unable to get image streams'' [] (getDefaultBuilderImages c)) (\<lambda>catalogList.
       if length catalogList = 0 then failing ''unable to retrieve any catalog images from the OpenShift cluster'' []
       else return catalogList)"

definition CatalogSearch :: "'s client \<Rightarrow> string \<Rightarrow> ('s, string list) op" where
  "CatalogSearch c name =
     bind (wrapping ''unable to list components'' [] (CatalogList c)) (\<lambda>componentList.
       return (foldl (\<lambda>result component.
         if contains_str (cg_name component) name \<and> length (cg_visible_tags component) > 0
         then result @ [cg_name component] else result) [] componentList))"

definition names_image :: "string \<Rightarrow> CatalogImage \<Rightarrow> bool" where
  "names_image componentType supported \<longleftrightarrow>
     componentType = cg_name supported \<or> componentType = cg_namespace supported @ ''/'' @ cg_name supported"

definition CatalogExists :: "'s client \<Rightarrow> string \<Rightarrow> ('s, bool) op" where
  "CatalogExists c componentType =
     bind (wrapping ''unable to list catalog'' [] (CatalogList c)) (\<lambda>catalogList.
       return (list_ex (names_image componentType) catalogList))"

definition VersionExists :: "'s client \<Rightarrow> string \<Rightarrow> string \<Rightarrow> ('s, bool) op" where
  "VersionExists c componentType componentVersion =
     bind (wrapping ''unable to list catalog'' [] (CatalogList c)) (\<lambda>catalogList.
       return (list_ex (\<lambda>supported. names_image componentType supported \<and>
         list_ex (\<lambda>tag. componentVersion = tag) (cg_all_tags supported)) catalogList))"


section \<open>Service classes and plans\<close>

definition GetClusterServiceClasses :: "'s client \<Rightarrow> ('s, service_class list) op" where
  "GetClusterServiceClasses c = wrapping ''unable to list cluster service classes'' [] (cl_classes c Everything)"

text \<open>An error is replaced by one that prints it.\<close>

definition restating :: "string \<Rightarrow> string list \<Rightarrow> ('s, 'a) op \<Rightarrow> ('s, 'a) op" where
  "restating fmt args m = bind (attempt m) (\<lambda>r. case r of
     Inl err \<Rightarrow> failing fmt (args @ [error_text err]) | Inr a \<Rightarrow> return a)"

definition GetClusterServiceClass :: "'s client \<Rightarrow> string \<Rightarrow> ('s, service_class) op" where
  "GetClusterServiceClass c serviceName =
     bind (restating ''unable to search classes by name (%s)'' []
            (cl_classes c (ByField ''spec.externalName'' serviceName))) (\<lambda>searchResults.
       if length searchResults = 0 then
         failing (''class '' @ [CHR 0x27] @ ''%s'' @ [CHR 0x27] @ '' not found'') [serviceName]
       else if length searchResults > 1 then
         failing (''more than one matching class found for '' @ [CHR 0x27] @ ''%s'' @ [CHR 0x27]) [serviceName]
       else return (searchResults ! 0))"

definition GetClusterPlansFromServiceName :: "'s client \<Rightarrow> string \<Rightarrow> ('s, service_plan list) op" where
  "GetClusterPlansFromServiceName c serviceName =
     restating (''unable to search plans for service name '' @ [CHR 0x27] @ ''%s'' @ [CHR 0x27] @ '', (%s)'') [serviceName]
       (cl_plans c (ByField ''spec.clusterServiceClassRef.name'' serviceName))"

definition GetServiceBinding :: "'s client \<Rightarrow> string \<Rightarrow> string \<Rightarrow> ('s, service_binding) op" where
  "GetServiceBinding c serviceName namespace = ra_get (cl_bindings c) namespace serviceName"

definition category_of :: "service_class \<Rightarrow> string" where
  "category_of cls = (case sc_tags cls of
     [] \<Rightarrow> ''other'' | t # ts \<Rightarrow> if length t > 0 then t else ''other'')"

definition GetServiceClassesByCategory :: "'s client \<Rightarrow> ('s, service_class list gomap) op" where
  "GetServiceClassesByCategory c = bind (GetClusterServiceClasses c) (\<lambda>classes.
     return (foldl (\<lambda>categories cls.
       put (category_of cls) ((case lookup categories (category_of cls) of None \<Rightarrow> [] | Some cs \<Rightarrow> cs) @ [cls]) categories)
       [] classes))"

text \<open>The error is returned with the map of no plans; the caller sees the error.\<close>

definition GetMatchingPlans :: "'s client \<Rightarrow> service_class \<Rightarrow> ('s, service_plan gomap) op" where
  "GetMatchingPlans c cls =
     bind (cl_plans c (ByField ''spec.clusterServiceClassRef.name'' (sc_external_id cls))) (\<lambda>planList.
       return (foldl (\<lambda>plans v. put (pl_external_name v) v plans) [] planList))"

definition GetAllClusterServicePlans :: "'s client \<Rightarrow> ('s, service_plan list) op" where
  "GetAllClusterServicePlans c = wrapping ''unable to get cluster service plan'' [] (cl_plans c Everything)"

record Service =
  sv_name :: string
  sv_hidden :: bool
  sv_plans :: "string list"

definition service_of :: "service_plan list \<Rightarrow> service_class \<Rightarrow> Service" where
  "service_of planListItems cls =
     \<lparr>sv_name = sc_external_name cls, sv_hidden = hasTag (sc_tags cls) ''hidden'',
      sv_plans = foldl (\<lambda>planList plan.
        if pl_class_ref plan = sc_external_id cls then planList @ [pl_external_name plan] else planList)
        [] planListItems\<rparr>"

definition GetClusterServiceClassExternalNamesAndPlans :: "'s client \<Rightarrow> ('s, Service list) op" where
  "GetClusterServiceClassExternalNamesAndPlans c =
     bind (wrapping ''unable to get cluster service classes'' [] (GetClusterServiceClasses c)) (\<lambda>classes.
     bind (wrapping ''Unable to get service plans'' [] (GetAllClusterServicePlans c)) (\<lambda>planListItems.
       return (map (service_of planListItems) classes)))"

text \<open>\<open>sort.Slice\<close> by name; services of one name keep their order here.\<close>

definition ListCatalog :: "'s client \<Rightarrow> ('s, Service list) op" where
  "ListCatalog c =
     bind (wrapping ''unable to get cluster serviceClassExternalName'' []
            (GetClusterServiceClassExternalNamesAndPlans c)) (\<lambda>services. return (sort_key sv_name services))"

definition ServiceSearch :: "'s client \<Rightarrow> string \<Rightarrow> ('s, Service list) op" where
  "ServiceSearch c name =
     bind (wrapping ''unable to list services'' [] (ListCatalog c)) (\<lambda>serviceList.
       return (foldl (\<lambda>result service.
         if contains_str (sv_name service) name then result @ [service] else result) [] serviceList))"


section \<open>Facts\<close>

lemma foldl_collect_if:
  "foldl (\<lambda>acc x. if P x then acc @ [f x] else acc) acc xs = acc @ map f (filter P xs)"
  by (induction xs arbitrary: acc) auto

lemma getAllNonHiddenTags_eq: "getAllNonHiddenTags ts hs = filter (\<lambda>t. t \<notin> set hs) ts"
  by (simp add: getAllNonHiddenTags_def foldl_collect_if [where f = "\<lambda>x. x"] list_ex_iff)

lemma builder_images_eq: "builder_images m iss = map (catalog_image m) (filter is_builder iss)"
  by (simp add: builder_images_def foldl_collect_if)

lemma hidden_inner: "foldl (\<lambda>hidden t. if t = w then hidden @ [tag] else hidden) hs ws
    = hs @ replicate (count_list ws w) tag"
  by (induction ws arbitrary: hs) (auto simp: replicate_append_same [symmetric])

definition tag_object :: "tag_reference gomap \<Rightarrow> image_stream \<Rightarrow> string \<Rightarrow> tag_reference" where
  "tag_object m i tag = (case lookup m (om_name (is_meta i) @ '':'' @ tag) of None \<Rightarrow> no_tag | Some t \<Rightarrow> t)"

lemma hidden_tags_iff:
  "tag \<in> set (hidden_tags m i ts) \<longleftrightarrow> tag \<in> set ts \<and> ''hidden'' \<in> set (words_of (tag_object m i tag))"
proof -
  have "set (foldl (\<lambda>hidden tag. hidden @ replicate (count_list (ws tag) w) tag) hs ts)
      = set hs \<union> {t \<in> set ts. w \<in> set (ws t)}" for w :: string and ws hs
  proof (induction ts arbitrary: hs)
    case (Cons t ts)
    then show ?case by (auto simp: count_list_0_iff)
  qed simp
  then show ?thesis
    by (simp add: hidden_tags_def Let_def hidden_inner tag_object_def)
qed

text \<open>A tag is shown when its object does not carry the word \<open>hidden\<close>.\<close>

lemma visible_tags_iff:
  "tag \<in> set (cg_visible_tags (catalog_image m i)) \<longleftrightarrow>
     tag \<in> tg_name ` set (is_spec_tags i) \<and> ''hidden'' \<notin> set (words_of (tag_object m i tag))"
  by (auto simp: catalog_image_def Let_def getAllNonHiddenTags_eq hidden_tags_iff)

lemma catalog_image_frame [simp]:
  "cg_name (catalog_image m i) = om_name (is_meta i)"
  "cg_namespace (catalog_image m i) = om_namespace (is_meta i)"
  "cg_all_tags (catalog_image m i) = map tg_name (is_spec_tags i)"
  by (simp_all add: catalog_image_def Let_def)

text \<open>The word \<open>builder\<close> in the annotation of a tag makes a stream a builder image.\<close>

lemma is_builder_iff:
  "is_builder i \<longleftrightarrow> (\<exists>t\<in>set (is_spec_tags i). ''builder'' \<in> set (words_of t))"
  by (auto simp: is_builder_def list_ex_iff)

text \<open>What the four listings answered, an error standing for no items.\<close>

definition catalog_answers ::
  "'s client \<Rightarrow> 's \<Rightarrow> error + image_stream list \<Rightarrow> error + image_stream list \<Rightarrow>
   error + tag_reference list \<Rightarrow> error + tag_reference list \<Rightarrow> 's \<Rightarrow> bool" where
  "catalog_answers c s os cur curt ot s' \<longleftrightarrow> (\<exists>s1 s2 s3.
     attempt (GetImageStreams c OpenShiftNameSpace) s = (Inr os, s1) \<and>
     attempt (GetImageStreams c (cl_namespace c)) s1 = (Inr cur, s2) \<and>
     attempt (GetImageStreamTags c (cl_namespace c)) s2 = (Inr curt, s3) \<and>
     attempt (GetImageStreamTags c OpenShiftNameSpace) s3 = (Inr ot, s'))"

definition answered :: "error + 'a list \<Rightarrow> error + 'a list \<Rightarrow> bool" where
  "answered r1 r2 \<longleftrightarrow> (\<exists>xs. r1 = Inr xs) \<or> (\<exists>xs. r2 = Inr xs)"

lemma both_failed_ok: "answered r1 r2 \<Longrightarrow> both_failed what ns r1 r2 = Inr ()"
  by (cases r1; cases r2) (auto simp: answered_def both_failed_def)

lemma CatalogList_eq:
  assumes "catalog_answers c s os cur curt ot s'" and "answered os cur" and "answered curt ot"
    and "\<exists>i\<in>set (items os) \<union> set (items cur). is_builder i"
  shows "CatalogList c s = (Inr (map (catalog_image (tags_by_name (items curt @ items ot)))
    (filter is_builder (items os @ items cur))), s')"
proof -
  have "getDefaultBuilderImages c s = (Inr (map (catalog_image (tags_by_name (items curt @ items ot)))
    (filter is_builder (items os @ items cur))), s')"
    using assms(1) both_failed_ok [OF assms(2), of "''imagestreams''" "cl_namespace c"]
      both_failed_ok [OF assms(3), of "''imagestreamtags''" "cl_namespace c"]
    by (auto simp: getDefaultBuilderImages_def catalog_answers_def GetCurrentProjectName_def Let_def
        bind_apply lift_def return_def builder_images_eq)
  moreover have "filter is_builder (items os @ items cur) \<noteq> []"
    using assms(4) by (auto simp: filter_empty_conv)
  ultimately show ?thesis
    by (simp add: CatalogList_def bind_apply wrapping_apply return_def)
qed


section \<open>Properties\<close>

text \<open>C30. With at least one of the two namespaces answering each listing and a builder image in what
  they answered, a component type exists when it is the name of a builder stream, with or without
  its namespace; a version exists when that stream has the tag, hidden or not; and a search finds
  the streams whose name contains the term and which have a tag whose object is not hidden.\<close>

theorem catalog_exact:
  assumes "catalog_answers c s os cur curt ot s'" and "answered os cur" and "answered curt ot"
    and "B = {i \<in> set (items os) \<union> set (items cur). is_builder i}" and "B \<noteq> {}"
  shows "CatalogExists c t s = (Inr (\<exists>i\<in>B. t = om_name (is_meta i)
        \<or> t = om_namespace (is_meta i) @ ''/'' @ om_name (is_meta i)), s')
    \<and> VersionExists c t v s = (Inr (\<exists>i\<in>B. (t = om_name (is_meta i)
        \<or> t = om_namespace (is_meta i) @ ''/'' @ om_name (is_meta i)) \<and> v \<in> tg_name ` set (is_spec_tags i)), s')
    \<and> (\<exists>names. CatalogSearch c w s = (Inr names, s') \<and> set names = {om_name (is_meta i) | i. i \<in> B
        \<and> contains_str (om_name (is_meta i)) w
        \<and> (\<exists>tag\<in>tg_name ` set (is_spec_tags i).
             ''hidden'' \<notin> set (words_of (tag_object (tags_by_name (items curt @ items ot)) i tag)))})"
proof -
  let ?m = "tags_by_name (items curt @ items ot)"
  define L where "L = filter is_builder (items os @ items cur)"
  have B: "set L = B" using assms(4) by (auto simp: L_def)
  have l: "CatalogList c s = (Inr (map (catalog_image ?m) L), s')"
    unfolding L_def by (rule CatalogList_eq [OF assms(1-3)]) (use assms(4,5) in auto)
  have "CatalogExists c t s = (Inr (\<exists>i\<in>set L. t = om_name (is_meta i)
        \<or> t = om_namespace (is_meta i) @ ''/'' @ om_name (is_meta i)), s')"
    by (auto simp: CatalogExists_def bind_apply wrapping_apply return_def l list_ex_iff names_image_def)
  moreover have "VersionExists c t v s = (Inr (\<exists>i\<in>set L. (t = om_name (is_meta i)
        \<or> t = om_namespace (is_meta i) @ ''/'' @ om_name (is_meta i)) \<and> v \<in> tg_name ` set (is_spec_tags i)), s')"
    by (auto simp: VersionExists_def bind_apply wrapping_apply return_def l list_ex_iff names_image_def)
  moreover have "\<exists>names. CatalogSearch c w s = (Inr names, s') \<and> set names = {om_name (is_meta i) | i. i \<in> set L
        \<and> contains_str (om_name (is_meta i)) w
        \<and> (\<exists>tag\<in>tg_name ` set (is_spec_tags i). ''hidden'' \<notin> set (words_of (tag_object ?m i tag)))}"
  proof -
    have vis: "cg_visible_tags (catalog_image ?m i) \<noteq> [] \<longleftrightarrow>
        (\<exists>tag\<in>tg_name ` set (is_spec_tags i). ''hidden'' \<notin> set (words_of (tag_object ?m i tag)))" for i
      using visible_tags_iff [of _ ?m i] by (metis ex_in_conv set_empty)
    let ?ns = "map cg_name (filter (\<lambda>x. contains_str (cg_name x) w \<and> cg_visible_tags x \<noteq> []) (map (catalog_image ?m) L))"
    have "CatalogSearch c w s = (Inr ?ns, s')"
      by (simp add: CatalogSearch_def bind_apply wrapping_apply return_def l foldl_collect_if)
    moreover have "set ?ns = {om_name (is_meta i) | i. i \<in> set L
        \<and> contains_str (om_name (is_meta i)) w \<and> cg_visible_tags (catalog_image ?m i) \<noteq> []}"
      by (auto simp: filter_map comp_def)
    ultimately show ?thesis unfolding vis by blast
  qed
  ultimately show ?thesis unfolding B by blast
qed

theorem catalog_exact_witness:
  "fst (VersionExists (memory_client ''app'') ''nodejs'' ''8'' (empty_cluster\<lparr>k_streams := [example_stream ''8''],
      k_tags := [\<lparr>tg_name = ''nodejs:8'', tg_annotations = [(''tags'', ''hidden'')]\<rparr>]\<rparr>)) = Inr True
   \<and> fst (CatalogSearch (memory_client ''app'') ''node'' (empty_cluster\<lparr>k_streams := [example_stream ''8''],
      k_tags := [\<lparr>tg_name = ''nodejs:8'', tg_annotations = [(''tags'', ''hidden'')]\<rparr>]\<rparr>)) = Inr []"
proof -
  let ?t = "\<lparr>tg_name = ''nodejs:8'', tg_annotations = [(''tags'', ''hidden'')]\<rparr>"
  let ?s = "empty_cluster\<lparr>k_streams := [example_stream ''8''], k_tags := [?t]\<rparr>"
  let ?i = "example_stream ''8''"
  have a: "catalog_answers (memory_client ''app'') ?s (Inr [?i]) (Inr [?i]) (Inr [?t]) (Inr [?t]) ?s"
    by (simp add: catalog_answers_def GetImageStreams_def GetImageStreamTags_def memory_client_def store_api_def
        attempt_apply wrapping_apply empty_cluster_def)
  have b: "is_builder ?i"
    by (simp add: is_builder_iff example_stream_def words_of_def lookup_Cons)
  have o: "''8'' \<in> tg_name ` set (is_spec_tags ?i)" "tg_name ` set (is_spec_tags ?i) = {''8''}"
    "om_name (is_meta ?i) = ''nodejs''" by (simp_all add: example_stream_def named_meta_def)
  have h: "''hidden'' \<in> set (words_of (tag_object (tags_by_name [?t, ?t]) ?i ''8''))"
    by (simp add: tag_object_def tags_by_name_def words_of_def o(3) lookup_Cons lookup_put)
  have m: "{i \<in> set (items (Inr [?i])) \<union> set (items (Inr [?i])). is_builder i} = {?i}"
    using b by (auto simp: items_def)
  have n: "answered (Inr [?i]) (Inr [?i])" "answered (Inr [?t]) (Inr [?t])" by (simp_all add: answered_def)
  note e = catalog_exact [OF a n m [symmetric] insert_not_empty, of "''nodejs''" "''8''" "''node''"]
  have none: "{om_name (is_meta i) | i. i \<in> {?i} \<and> contains_str (om_name (is_meta i)) ''node''
      \<and> (\<exists>tag\<in>tg_name ` set (is_spec_tags i).
           ''hidden'' \<notin> set (words_of (tag_object (tags_by_name (items (Inr [?t]) @ items (Inr [?t]))) i tag)))} = {}"
    using h by (simp add: items_def o(2) del: o(1) cong: conj_cong)
  have "\<exists>names. CatalogSearch (memory_client ''app'') ''node'' ?s = (Inr names, ?s) \<and> set names = {}"
    by (rule e [THEN conjunct2, THEN conjunct2, unfolded none])
  then have "fst (CatalogSearch (memory_client ''app'') ''node'' ?s) = Inr []" by (elim exE conjE) simp
  moreover have "VersionExists (memory_client ''app'') ''nodejs'' ''8'' ?s = (Inr True, ?s)"
    using e [THEN conjunct2, THEN conjunct1] o by simp
  ultimately show ?thesis by simp
qed

end
