(* ===== verification/Services.thy ===== *)
theory Services
  imports Catalog
begin

text \<open>
  The services of an application, \<open>pkg/service/service.go\<close>: creation, deletion with the links to
  it, listing with a status, and the parameters of the plans of a service class.
\<close>

record ServiceInfo =
  sf_name :: string
  sf_type :: string
  sf_status :: string

record ServiceClass =
  sk_name :: string
  sk_bindable :: bool
  sk_short :: string
  sk_long :: string
  sk_tags :: "string list"
  sk_versions :: "string list"
  sk_broker :: string

record ServicePlanParameter =
  pp_name :: string
  pp_title :: string
  pp_description :: string
  pp_default :: string
  pp_validatable :: Validatable

record ServicePlan =
  pn_name :: string
  pn_display :: string
  pn_description :: string
  pn_parameters :: "ServicePlanParameter list"

definition NewServicePlanParameter :: "string \<Rightarrow> string \<Rightarrow> string \<Rightarrow> bool \<Rightarrow> ServicePlanParameter" where
  "NewServicePlanParameter name typeName defaultValue required =
     \<lparr>pp_name = name, pp_title = [], pp_description = [], pp_default = defaultValue,
      pp_validatable = \<lparr>va_required = required, va_type = typeName, va_additional = []\<rparr>\<rparr>"

definition provisionedAndBoundStatus :: string where
  "provisionedAndBoundStatus = ''ProvisionedAndBound''"

definition provisionedAndLinkedStatus :: string where
  "provisionedAndLinkedStatus = ''ProvisionedAndLinked''"


section \<open>Instances\<close>

definition ServiceCreate ::
  "(string gomap \<Rightarrow> string result) \<Rightarrow> 's client \<Rightarrow> string \<Rightarrow> string \<Rightarrow> string \<Rightarrow> string gomap \<Rightarrow> string \<Rightarrow>
   ('s, unit) op" where
  "ServiceCreate json c serviceName serviceType servicePlan parameters applicationName =
     (let labels = put ComponentTypeLabel serviceType (ComponentGetLabels serviceName applicationName True)
      in wrapping ''unable to create service instance'' []
           (CreateServiceInstance json c serviceName serviceType servicePlan parameters labels))"

text \<open>
  The links of one deployment: each environment source of its first container that is the
  secret of the service. An error of the unlinking is only logged; a source that is not a
  secret is a nil dereference.
\<close>

definition unlink_dc :: "'s client \<Rightarrow> string \<Rightarrow> string \<Rightarrow> dc \<Rightarrow> ('s, unit) op" where
  "unlink_dc c serviceName applicationName d = bind (lift (first_container d)) (\<lambda>ct.
     each (\<lambda>envFromSourceName. case envFromSourceName of
         None \<Rightarrow> fault (Panic ''nil pointer dereference: SecretRef.Name'')
       | Some n \<Rightarrow>
           if n = serviceName then
             (case lookup (om_labels (dc_meta d)) ComponentLabel of
                Some componentName \<Rightarrow> bind (attempt (UnlinkSecret c serviceName componentName applicationName))
                  (\<lambda>_. return ())
              | None \<Rightarrow> return ())
           else return ()) (ct_env_from ct))"

definition DeleteServiceAndUnlinkComponents :: "'s client \<Rightarrow> string \<Rightarrow> string \<Rightarrow> ('s, unit) op" where
  "DeleteServiceAndUnlinkComponents c serviceName applicationName =
     bind (DeleteServiceInstance c (ComponentGetLabels serviceName applicationName False)) (\<lambda>_.
     bind (wrapping ''unable to list the components in order to check if they need to be unlinked'' []
            (GetDeploymentConfigsFromSelector c (ApplicationLabel @ ''='' @ applicationName))) (\<lambda>componentsDCs.
       each (unlink_dc c serviceName applicationName) componentsDCs))"

definition service_info :: "service_instance \<Rightarrow> ServiceInfo" where
  "service_info elem = \<lparr>sf_name = get_str (om_labels (si_meta elem)) ComponentLabel,
     sf_type = get_str (om_labels (si_meta elem)) ComponentTypeLabel,
     sf_status = (case si_conditions elem of [] \<Rightarrow> ''Unknown'' | r # rs \<Rightarrow> r)\<rparr>"

definition ServiceList :: "'s client \<Rightarrow> string \<Rightarrow> ('s, ServiceInfo list) op" where
  "ServiceList c applicationName =
     bind (wrapping ''unable to list services'' []
            (GetServiceInstanceList c (selector_of c [(ApplicationLabel, applicationName)])))
       (\<lambda>serviceInstanceList. return (map service_info serviceInstanceList))"

text \<open>
  The loop over the deployments leaves after the first environment source it meets, whether
  or not that is the secret.
\<close>

fun linked_in :: "dc list \<Rightarrow> string \<Rightarrow> bool result" where
  "linked_in [] secretName = Inr False"
| "linked_in (d # dcs) secretName = bindR (first_container d) (\<lambda>ct.
     case ct_env_from ct of
       [] \<Rightarrow> linked_in dcs secretName
     | None # envs \<Rightarrow> Inl (Panic ''nil pointer dereference: SecretRef.Name'')
     | Some n # envs \<Rightarrow> Inr (n = secretName))"

definition updateStatusIfMatchingDeploymentExists :: "dc list \<Rightarrow> string \<Rightarrow> ServiceInfo \<Rightarrow> ServiceInfo result" where
  "updateStatusIfMatchingDeploymentExists dcs secretName service =
     bindR (linked_in dcs secretName) (\<lambda>linked.
       Inr (if linked then service\<lparr>sf_status := provisionedAndLinkedStatus\<rparr> else service))"

definition detailed_status :: "secret list \<Rightarrow> dc list \<Rightarrow> ServiceInfo \<Rightarrow> ServiceInfo result" where
  "detailed_status secrets dcs service =
     (case find (\<lambda>secret. om_name (sec_meta secret) = sf_name service) secrets of
        None \<Rightarrow> Inr service
      | Some secret \<Rightarrow> updateStatusIfMatchingDeploymentExists dcs (om_name (sec_meta secret))
          (service\<lparr>sf_status := provisionedAndBoundStatus\<rparr>))"

definition ListWithDetailedStatus :: "'s client \<Rightarrow> string \<Rightarrow> ('s, ServiceInfo list) op" where
  "ListWithDetailedStatus c applicationName =
     bind (ServiceList c applicationName) (\<lambda>services.
     bind (wrapping ''unable to list secrets as part of the bindings check'' [] (ListSecrets c [])) (\<lambda>secrets.
     bind (GetDeploymentConfigsFromSelector c (selector_of c [(ApplicationLabel, applicationName)])) (\<lambda>dcs.
       lift (mapR (detailed_status secrets dcs) services))))"

definition SvcExists :: "'s client \<Rightarrow> string \<Rightarrow> string \<Rightarrow> ('s, bool) op" where
  "SvcExists c serviceName applicationName =
     bind (wrapping ''unable to get the service list'' [] (ServiceList c applicationName)) (\<lambda>serviceList.
       return (list_ex (\<lambda>service. sf_name service = serviceName) serviceList))"


section \<open>Classes and their plans\<close>

text \<open>A decoded JSON value: a string, or another value with what \<open>fmt.Sprint\<close> makes of it.\<close>

datatype json_value = JString string | JOther string

fun sprint_json :: "json_value \<Rightarrow> string" where
  "sprint_json (JString s) = s"
| "sprint_json (JOther s) = s"

text \<open>The type assertion \<open>val.(string)\<close> on the value of a key that is there.\<close>

definition string_value :: "json_value gomap \<Rightarrow> string \<Rightarrow> string \<Rightarrow> string result" where
  "string_value m k dflt = (case lookup m k of
     None \<Rightarrow> Inr dflt
   | Some (JString s) \<Rightarrow> Inr s
   | Some (JOther s) \<Rightarrow> Inl (Panic ''interface conversion: interface {} is not string''))"

fun isRequired :: "string list \<Rightarrow> string \<Rightarrow> bool" where
  "isRequired [] name = False"
| "isRequired (n # ns) name = (if n = name then True else isRequired ns name)"

definition plan_parameters ::
  "(string list \<Rightarrow> string list) \<Rightarrow> string list \<Rightarrow> ServicePlanParameter gomap \<Rightarrow> ServicePlanParameter list" where
  "plan_parameters order required properties = map (\<lambda>(k, v). v\<lparr>pp_name := k,
     pp_validatable := (pp_validatable v)\<lparr>va_required := isRequired required k\<rparr>\<rparr>) (range_map order properties)"

text \<open>
  \<open>parse_meta\<close> and \<open>parse_schema\<close> are \<open>json.Unmarshal\<close> into the two types. The plan is returned as
  far as it has been filled, with the error.
\<close>

definition NewServicePlan ::
  "(string list \<Rightarrow> string list) \<Rightarrow> (string \<Rightarrow> error + json_value gomap) \<Rightarrow>
   (string \<Rightarrow> error + string list \<times> ServicePlanParameter gomap) \<Rightarrow> service_plan \<Rightarrow>
   (ServicePlan \<times> error option) result" where
  "NewServicePlan order parse_meta parse_schema res =
     (let plan = \<lparr>pn_name = pl_external_name res, pn_display = [], pn_description = pl_description res,
                  pn_parameters = []\<rparr>
      in case parse_meta (pl_metadata res) of
           Inl err \<Rightarrow> Inr (plan, Some (Wrapf err ''unable to unmarshal data the given service'' []))
         | Inr externalMetaData \<Rightarrow> bindR (string_value externalMetaData ''displayName'' []) (\<lambda>displayName.
             let plan = plan\<lparr>pn_display := displayName\<rparr>
             in case parse_schema (pl_schema res) of
                  Inl err \<Rightarrow> Inr (plan, Some (Wrapf err ''unable to unmarshal data the given service: %s'' [pl_schema res]))
                | Inr (required, properties) \<Rightarrow>
                    Inr (plan\<lparr>pn_parameters := plan_parameters order required properties\<rparr>, None)))"

definition strip_brackets :: "string \<Rightarrow> string" where
  "strip_brackets s = filter (\<lambda>c. c \<noteq> CHR '']'') (filter (\<lambda>c. c \<noteq> CHR ''['') s)"

text \<open>The error of a plan is dropped.\<close>

definition GetServiceClassAndPlans ::
  "(string \<Rightarrow> error + json_value gomap) \<Rightarrow>
   (string \<Rightarrow> error + string list \<times> ServicePlanParameter gomap) \<Rightarrow> 's client \<Rightarrow> string \<Rightarrow>
   ('s, ServiceClass \<times> ServicePlan list) op" where
  "GetServiceClassAndPlans parse_meta parse_schema c serviceName =
     bind (wrapping ''unable to get the given service'' [] (GetClusterServiceClass c serviceName)) (\<lambda>res.
     case parse_meta (sc_metadata res) of
       Inl err \<Rightarrow> fault (Err (Wrapf err ''unable to unmarshal data the given service'' []))
     | Inr meta \<Rightarrow>
     bind (lift (string_value meta ''longDescription'' [])) (\<lambda>longDescription.
     let service = \<lparr>sk_name = sc_external_name res, sk_bindable = sc_bindable res,
           sk_short = sc_description res, sk_long = longDescription, sk_tags = sc_tags res,
           sk_versions = (case lookup meta ''dependencies'' of None \<Rightarrow> []
             | Some val \<Rightarrow> split_on CHR '' '' (strip_brackets (sprint_json val))),
           sk_broker = sc_broker res\<rparr>
     in bind (wrapping ''unable to get plans for the given service'' []
               (GetClusterPlansFromServiceName c (sc_name res))) (\<lambda>planResults.
        bind (lift (mapR (NewServicePlan (cl_order c) parse_meta parse_schema) planResults)) (\<lambda>plans.
          return (service, map fst plans)))))"


section \<open>Facts\<close>

lemma isRequired_iff: "isRequired ns n \<longleftrightarrow> n \<in> set ns"
  by (induction ns) auto

lemma plan_parameters_spec:
  assumes "map_order order" and "wf_map props"
  shows "set (map pp_name (plan_parameters order required props)) = set (keys_of props)"
    and "p \<in> set (plan_parameters order required props) \<Longrightarrow>
      va_required (pp_validatable p) \<longleftrightarrow> pp_name p \<in> set required"
proof -
  have "set (map pp_name (plan_parameters order required props)) = fst ` set (range_map order props)"
    by (force simp: plan_parameters_def)
  also have "\<dots> = set (keys_of props)"
    using set_range_map [OF assms] by (simp add: keys_of_def)
  finally show "set (map pp_name (plan_parameters order required props)) = set (keys_of props)" .
  show "p \<in> set (plan_parameters order required props) \<Longrightarrow>
      va_required (pp_validatable p) \<longleftrightarrow> pp_name p \<in> set required"
    by (auto simp: plan_parameters_def isRequired_iff)
qed

text \<open>The environment sources of the first container.\<close>

definition sources_of :: "dc \<Rightarrow> env_from list" where
  "sources_of d = (case first_container d of Inl _ \<Rightarrow> [] | Inr ct \<Rightarrow> ct_env_from ct)"

definition has_container :: "dc \<Rightarrow> bool" where
  "has_container d \<longleftrightarrow> is_ok (first_container d)"

lemma linked_in_eq:
  assumes "\<And>d. d \<in> set dcs \<Longrightarrow> has_container d"
  shows "linked_in dcs n = (case find (\<lambda>d. sources_of d \<noteq> []) dcs of
     None \<Rightarrow> Inr False
   | Some d \<Rightarrow> (case hd (sources_of d) of
       None \<Rightarrow> Inl (Panic ''nil pointer dereference: SecretRef.Name'') | Some m \<Rightarrow> Inr (m = n)))"
  using assms
proof (induction dcs)
  case (Cons d dcs)
  then obtain ct where ct: "first_container d = Inr ct"
    by (auto simp: has_container_def is_ok_iff)
  show ?case
  proof (cases "ct_env_from ct")
    case Nil
    with Cons ct show ?thesis by (simp add: sources_of_def)
  next
    case (Cons e es)
    with ct show ?thesis by (simp add: sources_of_def split: option.split)
  qed
qed simp


section \<open>Properties\<close>

text \<open>The detailed status of a service with a secret says that it is linked exactly when the
  first environment source of the first deployment that has any is that secret: a link
  behind another one, or in a later deployment, is not seen, and a source there that is not a
  secret ends in a nil dereference.\<close>

theorem linked_status_by_first_source:
  assumes "\<And>d. d \<in> set dcs \<Longrightarrow> has_container d"
    and "sf_name service \<in> (\<lambda>s. om_name (sec_meta s)) ` set secrets"
  shows "detailed_status secrets dcs service = (case find (\<lambda>d. sources_of d \<noteq> []) dcs of
     None \<Rightarrow> Inr (service\<lparr>sf_status := provisionedAndBoundStatus\<rparr>)
   | Some d \<Rightarrow> (case hd (sources_of d) of
       None \<Rightarrow> Inl (Panic ''nil pointer dereference: SecretRef.Name'')
     | Some m \<Rightarrow> Inr (service\<lparr>sf_status := if m = sf_name service then provisionedAndLinkedStatus
                                           else provisionedAndBoundStatus\<rparr>)))"
proof -
  obtain secret where "find (\<lambda>secret. om_name (sec_meta secret) = sf_name service) secrets = Some secret"
    using assms(2) by (cases "find (\<lambda>secret. om_name (sec_meta secret) = sf_name service) secrets")
      (auto simp: find_None_iff)
  moreover from this have "om_name (sec_meta secret) = sf_name service"
    by (auto simp: find_Some_iff)
  ultimately show ?thesis
    by (simp add: detailed_status_def updateStatusIfMatchingDeploymentExists_def linked_in_eq [OF assms(1)]
        split: option.split)
qed

definition sourced_dc :: "env_from list \<Rightarrow> dc" where
  "sourced_dc es = set_template ((example_template [])\<lparr>pt_containers := [empty_container\<lparr>ct_env_from := es\<rparr>]\<rparr>)
     (example_dc [])"

definition mysql_service :: ServiceInfo where
  "mysql_service = \<lparr>sf_name = ''mysql'', sf_type = ''mysql-apb'', sf_status = ''Ready''\<rparr>"

theorem linked_status_by_first_source_witness:
  "detailed_status [\<lparr>sec_meta = named_meta ''mysql'', sec_type = ''Opaque'', sec_string_data = []\<rparr>]
      [sourced_dc [], sourced_dc [Some ''redis'', Some ''mysql''], sourced_dc [Some ''mysql'']] mysql_service
    = Inr (mysql_service\<lparr>sf_status := provisionedAndBoundStatus\<rparr>)"
proof -
  let ?dcs = "[sourced_dc [], sourced_dc [Some ''redis'', Some ''mysql''], sourced_dc [Some ''mysql'']]"
  have f: "first_container (sourced_dc es) = Inr (empty_container\<lparr>ct_env_from := es\<rparr>)" for es
    by (simp add: sourced_dc_def first_container_def)
  then have s: "sources_of (sourced_dc es) = es" for es by (simp add: sources_of_def)
  have "has_container d" if "d \<in> set ?dcs" for d
    using that f by (auto simp: has_container_def)
  from linked_status_by_first_source [of ?dcs mysql_service "[\<lparr>sec_meta = named_meta ''mysql'', sec_type = ''Opaque'', sec_string_data = []\<rparr>]", OF this]
  show ?thesis by (simp add: s mysql_service_def named_meta_def)
qed

text \<open>Deleting a service deletes its instances first; when the first container of a deployment
  of the application has an environment source that is not a secret ahead of the links, the
  command then ends in a nil dereference and no link is removed.\<close>

theorem service_deleted_before_panic:
  assumes "DeleteServiceInstance c (ComponentGetLabels n app False) s = (Inr (), s1)"
    and "GetDeploymentConfigsFromSelector c (ApplicationLabel @ ''='' @ app) s1 = (Inr (d # ds), s2)"
    and "sources_of d = None # es"
  shows "DeleteServiceAndUnlinkComponents c n app s
    = (Inl (Panic ''nil pointer dereference: SecretRef.Name''), s2)"
proof -
  obtain ct where "first_container d = Inr ct" and "ct_env_from ct = None # es"
    using assms(3) by (auto simp: sources_of_def split: sum.splits)
  then have "unlink_dc c n app d s2 = (Inl (Panic ''nil pointer dereference: SecretRef.Name''), s2)"
    by (simp add: unlink_dc_def op_simps)
  with assms(1,2) show ?thesis
    by (simp add: DeleteServiceAndUnlinkComponents_def op_simps)
qed

theorem service_deleted_before_panic_witness:
  "DeleteServiceAndUnlinkComponents (memory_client ''app'') ''mysql'' ''shop''
     (empty_cluster\<lparr>k_dcs := [(sourced_dc [None, Some ''mysql''])\<lparr>dc_meta :=
        (named_meta ''web-shop'')\<lparr>om_labels := [(ApplicationLabel, ''shop'')]\<rparr>\<rparr>]\<rparr>)
   = (Inl (Panic ''nil pointer dereference: SecretRef.Name''),
      empty_cluster\<lparr>k_dcs := [(sourced_dc [None, Some ''mysql''])\<lparr>dc_meta :=
        (named_meta ''web-shop'')\<lparr>om_labels := [(ApplicationLabel, ''shop'')]\<rparr>\<rparr>]\<rparr>)"
  (is "DeleteServiceAndUnlinkComponents _ _ _ ?s = _")
proof -
  let ?d = "(sourced_dc [None, Some ''mysql''])\<lparr>dc_meta :=
        (named_meta ''web-shop'')\<lparr>om_labels := [(ApplicationLabel, ''shop'')]\<rparr>\<rparr>"
  have del: "DeleteServiceInstance (memory_client ''app'') (ComponentGetLabels ''mysql'' ''shop'' False) ?s = (Inr (), ?s)"
    by (simp add: DeleteServiceInstance_def GetServiceInstanceList_def memory_client_def store_api_def op_simps
        empty_cluster_def)
  have lst: "GetDeploymentConfigsFromSelector (memory_client ''app'') (ApplicationLabel @ ''='' @ ''shop'') ?s
      = (Inr [?d], ?s)"
    by code_simp
  show ?thesis
    by (rule service_deleted_before_panic [OF del lst])
      (simp add: sources_of_def sourced_dc_def first_container_def template_of_def set_template_def)
qed

end
