(* ===== verification/Component.thy ===== *)
theory Component
  imports Deploy Storage Url Preference Catalog
begin

text \<open>
  Components, \<open>pkg/component/component.go\<close>: creation from git, local and binary sources, update from
  one kind of source to another, push of sources into the pod, listing and description, and the
  URLs and storage of the local configuration applied to the cluster.
\<close>

text \<open>
  What a component needs from the cluster and the machine besides the API: logs and watches (the
  signals they receive), commands and copies into a pod, \<open>os.Stat\<close> (whether a path is a directory),
  the working directory, the emptiness test of a directory and the name of the operating system.
\<close>

record 's outside =
  io_build_log :: "string \<Rightarrow> ('s, string) op"
  io_build_watch :: "string \<Rightarrow> ('s, build signal list) op"
  io_dc_watch :: "string \<Rightarrow> ('s, dc signal list) op"
  io_pod_watch :: "string \<Rightarrow> ('s, pod signal list) op"
  io_exec :: "string \<Rightarrow> string list \<Rightarrow> ('s, unit) op"
  io_copy :: "string \<Rightarrow> string \<Rightarrow> string \<Rightarrow> string list \<Rightarrow> string list \<Rightarrow> ('s, unit) op"
  io_stat :: "string \<Rightarrow> bool result"
  io_getwd :: "string result"
  io_readdir :: "string \<Rightarrow> string list result"
  io_os :: string
  io_bootstrapper :: "string option"

text \<open>An operation that may still be blocked, and what follows it once it is not.\<close>

definition bindW :: "('s, 'a option) op \<Rightarrow> ('a \<Rightarrow> ('s, 'b option) op) \<Rightarrow> ('s, 'b option) op" where
  "bindW m k = bind m (\<lambda>r. case r of None \<Rightarrow> return None | Some a \<Rightarrow> k a)"

definition finished :: "('s, unit option) op" where
  "finished = return (Some ())"

text \<open>A wait on the signals a watch receives.\<close>

definition awaiting :: "('s, 'w) op \<Rightarrow> ('w result \<Rightarrow> 'a waiting) \<Rightarrow> ('s, 'a option) op" where
  "awaiting watch wait = bind (captured watch) (\<lambda>w. case wait w of
     None \<Rightarrow> return None | Some r \<Rightarrow> bind (lift r) (\<lambda>a. return (Some a)))"


section \<open>Names\<close>

definition componentSourceURLAnnotation :: string where
  "componentSourceURLAnnotation = ''app.kubernetes.io/url''"

definition ComponentSourceTypeAnnotation :: string where
  "ComponentSourceTypeAnnotation = ''app.kubernetes.io/component-source-type''"

definition componentRandomNamePartsMaxLen :: int where "componentRandomNamePartsMaxLen = 12"
definition componentNameMaxRetries :: int where "componentNameMaxRetries = 3"
definition componentNameMaxLen :: int where "componentNameMaxLen = -1"

definition GetComponentDir :: "string result \<Rightarrow> string \<Rightarrow> SrcType \<Rightarrow> string result" where
  "GetComponentDir getwd path paramType =
     bindR (if paramType = GIT then Inr (trim_suffix (after_last CHR ''/'' path) ''.git'')
            else if paramType = LOCAL then Inr (path_base path)
            else if paramType = BINARY then
              (let filename = path_base path; extension = path_ext filename
               in Inr (take (length filename - length extension) filename))
            else bindR (wrapR ''unable to generate a random name as getting current directory failed'' [] getwd)
                   (\<lambda>currDir. Inr (path_base currDir)))
       (\<lambda>retVal. Inr (trim_space (GetDNS1123Name (to_lower retVal))))"

text \<open>\<open>prefs\<close> is the answer of \<open>preference.New\<close>; \<open>suffix t\<close> the random string of trial \<open>t\<close>.\<close>

definition GetDefaultComponentName ::
  "PreferenceInfo result \<Rightarrow> string result \<Rightarrow> (int \<Rightarrow> string) \<Rightarrow> string \<Rightarrow> SrcType \<Rightarrow> string \<Rightarrow> string list \<Rightarrow>
   string result" where
  "GetDefaultComponentName prefs getwd suffix componentPath componentPathType componentType existing =
     bindR (wrapR ''unable to generate random component name'' [] prefs) (\<lambda>cfg.
     bindR (case os_name_prefix (pi_settings cfg) of
              Some p \<Rightarrow> if p = [] then
                  bindR (wrapR ''unable to generate random component name'' []
                          (GetComponentDir getwd componentPath componentPathType))
                    (\<lambda>prefix. TruncateString prefix componentRandomNamePartsMaxLen)
                else Inr p
            | None \<Rightarrow>
                bindR (wrapR ''unable to generate random component name'' []
                        (GetComponentDir getwd componentPath componentPathType))
                  (\<lambda>prefix. TruncateString prefix componentRandomNamePartsMaxLen)) (\<lambda>prefix.
     bindR (wrapR ''unable to generate random component name'' []
             (GetRandomName suffix (prefix @ ''-'' @ componentType) componentNameMaxLen existing
               componentNameMaxRetries)) (\<lambda>componentName.
       Inr (GetDNS1123Name componentName))))"

fun is_valid_type :: "string list \<Rightarrow> string \<Rightarrow> bool" where
  "is_valid_type [] sourceType = False"
| "is_valid_type (valid # vs) sourceType = (if valid = sourceType then True else is_valid_type vs sourceType)"

definition validateSourceType :: "string \<Rightarrow> bool" where
  "validateSourceType sourceType = is_valid_type [''git'', ''local'', ''binary''] sourceType"


section \<open>Creation\<close>

definition Build :: "'s client \<Rightarrow> 's outside \<Rightarrow> string \<Rightarrow> string \<Rightarrow> bool \<Rightarrow> ('s, unit option) op" where
  "Build c io componentName applicationName wait =
     bind (wrapping ''unable to create namespaced name'' []
            (lift (NamespaceOpenShiftObject componentName applicationName))) (\<lambda>namespaced.
     bind (wrapping ''unable to rebuild %s'' [componentName] (StartBuild c namespaced)) (\<lambda>buildName.
       if wait then
         bind (wrapping ''unable to follow logs for %s'' [buildName] (io_build_log io buildName)) (\<lambda>b.
           wrapping ''unable to build %s, error: %s'' [buildName, b]
             (awaiting (io_build_watch io buildName) WaitForBuildToFinish))
       else finished))"

definition DeployComponent :: "'s client \<Rightarrow> 's outside \<Rightarrow> CreateArgs \<Rightarrow> int \<Rightarrow> ('s, unit option) op" where
  "DeployComponent c io params desiredRevision =
     bind (wrapping ''unable to create namespaced name'' []
            (lift (NamespaceOpenShiftObject (ca_name params) (ca_application params)))) (\<lambda>namespaced.
     bind (wrapping ''unable to create DeploymentConfig for %s'' [namespaced] (StartDeployment c namespaced)) (\<lambda>_.
     bindW (wrapping ''unable to wait for DeploymentConfig %s to update'' [namespaced]
             (awaiting (io_dc_watch io namespaced) (\<lambda>w. WaitAndGetDC w desiredRevision IsDCRolledOut)))
       (\<lambda>_. finished)))"

text \<open>The labels of a new or updated component, and its annotations.\<close>

definition component_labels :: "string \<Rightarrow> string \<Rightarrow> string \<Rightarrow> string \<Rightarrow> string gomap" where
  "component_labels componentName applicationName imageName imageTag =
     put ComponentTypeVersion imageTag (put ComponentTypeLabel imageName
       (ComponentGetLabels componentName applicationName True))"

definition source_annotations :: "string \<Rightarrow> string \<Rightarrow> string gomap" where
  "source_annotations source sourceType =
     put ComponentSourceTypeAnnotation sourceType [(componentSourceURLAnnotation, source)]"

definition common_meta :: "string \<Rightarrow> string gomap \<Rightarrow> string gomap \<Rightarrow> object_meta" where
  "common_meta name labels annotations =
     (named_meta name)\<lparr>om_labels := labels, om_annotations := annotations\<rparr>"

definition CreateFromGit :: "'s client \<Rightarrow> 's outside \<Rightarrow> CreateArgs \<Rightarrow> ('s, unit option) op" where
  "CreateFromGit c io params =
     bind (wrapping ''unable to parse image name'' [] (lift (ParseImageName (ca_image params))))
       (\<lambda>(_, imageName, imageTag, _).
     let labels = component_labels (ca_name params) (ca_application params) imageName imageTag;
         annotations = source_annotations (ca_source_path params) ''git''
     in bind (wrapping ''unable to create namespaced name'' []
               (lift (NamespaceOpenShiftObject (ca_name params) (ca_application params)))) (\<lambda>namespaced.
        bind (wrapping ''unable to create git component %s'' [namespaced]
               (NewAppS2I c params (common_meta namespaced labels annotations))) (\<lambda>_.
        bindW (wrapping ''failed to build component with args %+v'' [ca_name params]
                (Build c io (ca_name params) (ca_application params) (ca_wait params))) (\<lambda>_.
          wrapping ''failed to deploy component with args %+v'' [ca_name params]
            (DeployComponent c io params 1)))))"

definition CreateFromPath :: "'s client \<Rightarrow> 's outside \<Rightarrow> CreateArgs \<Rightarrow> ('s, unit option) op" where
  "CreateFromPath c io params =
     bind (wrapping ''unable to parse image name'' [] (lift (ParseImageName (ca_image params))))
       (\<lambda>(_, imageName, imageTag, _).
     let labels = component_labels (ca_name params) (ca_application params) imageName imageTag;
         annotations = source_annotations (GenFileURL (ca_source_path params) (io_os io)) (ca_source_type params)
     in bind (wrapping ''unable to create namespaced name'' []
               (lift (NamespaceOpenShiftObject (ca_name params) (ca_application params)))) (\<lambda>namespaced.
        bind (BootstrapSupervisoredS2I (io_bootstrapper io) c params (common_meta namespaced labels annotations)) (\<lambda>_.
        if ca_wait params then
          bind (lift (NamespaceOpenShiftObject (get_str labels ComponentLabel) (get_str labels ''app'')))
            (\<lambda>selectorLabels.
               let podSelector = ''deploymentconfig='' @ selectorLabels in
               bindW (awaiting (io_pod_watch io podSelector) (\<lambda>w. WaitAndGetPod w podSelector ''Running'')) (\<lambda>_. finished))
        else finished)))"

definition getStorageFromConfig :: "LocalConfigInfo \<Rightarrow> StorageList" where
  "getStorageFromConfig localConfig = \<lparr>sl_type = \<lparr>tm_kind = [], tm_api_version = []\<rparr>,
     sl_items = foldl (\<lambda>items v. items @ [GetMachineReadableFormat (css_name v) (css_size v) (css_path v)])
       [] (LocalGetStorage localConfig)\<rparr>"

text \<open>The arguments of the creation, from the configuration.\<close>

definition create_args :: "LocalConfigInfo \<Rightarrow> pvc gomap \<Rightarrow> resource_requirements \<Rightarrow> CreateArgs" where
  "create_args cfg mount resources =
     \<lparr>ca_name = LocalGetName cfg, ca_source_path = LocalGetSourceLocation cfg, ca_source_ref = [],
      ca_source_type = LocalGetSourceType cfg, ca_image = LocalGetType cfg,
      ca_env = ToStringSlice (LocalGetEnvVars cfg),
      ca_ports = (if length (LocalGetPorts cfg) > 0 then LocalGetPorts cfg else []),
      ca_resources = Some resources, ca_application = LocalGetApplication cfg, ca_wait = False,
      ca_mount = mount\<rparr>"

definition CreateComponent :: "'s client \<Rightarrow> 's outside \<Rightarrow> LocalConfigInfo \<Rightarrow> ('s, unit option) op" where
  "CreateComponent c io cfg =
     bind (Push c (getStorageFromConfig cfg) (LocalGetName cfg) (LocalGetApplication cfg) False)
       (\<lambda>(storageToBeMounted, _).
     bind (wrapping ''failed to create component'' []
            (lift (GetResourceRequirementsFromCmpSettings (cl_parse_quantity c) cfg))) (\<lambda>resources.
     let args = create_args cfg storageToBeMounted resources;
         cmpSrcType = LocalGetSourceType cfg;
         failed = (\<lambda>m. wrapping ''failed to create component with args %+v'' [ca_name args] m)
     in if cmpSrcType = GIT then
          failed (CreateFromGit c io (args\<lparr>ca_source_ref := LocalGetRef cfg, ca_wait := True\<rparr>))
        else if cmpSrcType = LOCAL then
          bind (wrapping ''failed to get info of path %+v of component %+v'' [ca_source_path args, ca_name args]
                 (lift (io_stat io (ca_source_path args)))) (\<lambda>is_dir.
            if \<not> is_dir then failing ''component creation with args %+v as path needs to be a directory'' [ca_name args]
            else failed (CreateFromPath c io args))
        else if cmpSrcType = BINARY then failed (CreateFromPath c io args)
        else
          bind (wrapping ''failed to create component with current directory as source for the component'' []
                 (lift (io_getwd io))) (\<lambda>dir.
            wrapping [] [] (CreateFromPath c io (args\<lparr>ca_source_type := LOCAL, ca_source_path := dir\<rparr>)))))"

text \<open>Each missing parameter adds a space and its name to the message.\<close>

definition CheckComponentMandatoryParams :: "ComponentSettings \<Rightarrow> unit result" where
  "CheckComponentMandatoryParams cs =
     (let req = [];
          req = (if cs_name cs = None then req @ '' name'' else req);
          req = (if cs_application cs = None then req @ '' application'' else req);
          req = (if cs_project cs = None then req @ '' project name'' else req);
          req = (if cs_source_type cs = None then req @ '' source type'' else req);
          req = (if cs_source_location cs = None then req @ '' source location'' else req);
          req = (if cs_type cs = None then req @ '' type'' else req)
      in if length req > 0 then fails ''missing mandatory parameters:%s'' [req] else Inr ())"

definition ComponentDelete :: "'s client \<Rightarrow> string \<Rightarrow> string \<Rightarrow> ('s, unit) op" where
  "ComponentDelete c componentName applicationName =
     wrapping ''error deleting component %s'' [componentName]
       (Delete c (ComponentGetLabels componentName applicationName False))"


section \<open>Description\<close>

record Component =
  co_type_meta :: type_meta
  co_name :: string
  co_type :: string
  co_source :: string
  co_url :: "string list"
  co_storage :: "string list"
  co_env :: "env_var list"
  co_context :: string
  co_state :: string
  co_linked_components :: "string list gomap"
  co_linked_services :: "string list"

record ComponentList =
  cl_type_meta :: type_meta
  cl_items :: "Component list"

definition component_format :: "string \<Rightarrow> string \<Rightarrow> Component" where
  "component_format componentName componentType =
     \<lparr>co_type_meta = \<lparr>tm_kind = ''Component'', tm_api_version = ''odo.openshift.io/v1alpha1''\<rparr>,
      co_name = componentName, co_type = componentType, co_source = [], co_url = [], co_storage = [],
      co_env = [], co_context = [], co_state = [], co_linked_components = [], co_linked_services = []\<rparr>"

definition component_list_format :: "Component list \<Rightarrow> ComponentList" where
  "component_list_format components =
     \<lparr>cl_type_meta = \<lparr>tm_kind = ''List'', tm_api_version = ''odo.openshift.io/v1alpha1''\<rparr>, cl_items = components\<rparr>"

definition component_selector :: "'s client \<Rightarrow> string \<Rightarrow> string \<Rightarrow> string" where
  "component_selector c componentName applicationName =
     selector_of c (ComponentGetLabels componentName applicationName False)"

definition GetComponentPorts :: "'s client \<Rightarrow> string \<Rightarrow> string \<Rightarrow> ('s, string list) op" where
  "GetComponentPorts c componentName applicationName =
     (let componentSelector = component_selector c componentName applicationName in
      bind (wrapping ''unable to fetch deployment configs for the selector %v'' [componentSelector]
             (GetOneDeploymentConfigFromSelector c componentSelector)) (\<lambda>d.
      bind (lift (template_of d)) (\<lambda>t.
        return (foldl (\<lambda>ports ct. foldl (\<lambda>ports p. ports @ [show_int (cp_port p) @ ''/'' @ cp_protocol p])
                  ports (ct_ports ct)) [] (pt_containers t)))))"

definition GetComponentLinkedSecretNames :: "'s client \<Rightarrow> string \<Rightarrow> string \<Rightarrow> ('s, string list) op" where
  "GetComponentLinkedSecretNames c componentName applicationName =
     (let componentSelector = component_selector c componentName applicationName in
      bind (wrapping ''unable to fetch deployment configs for the selector %v'' [componentSelector]
             (GetOneDeploymentConfigFromSelector c componentSelector)) (\<lambda>d.
      bind (lift (first_container d)) (\<lambda>ct.
        return (foldl (\<lambda>names env. case env of None \<Rightarrow> names | Some n \<Rightarrow> names @ [n]) [] (ct_env_from ct)))))"

text \<open>
  \<open>errors.Wrap\<close> of the nil error is nil: without a type, or with two, the answer is the empty
  type and no error.
\<close>

definition GetComponentType :: "'s client \<Rightarrow> string \<Rightarrow> string \<Rightarrow> ('s, string) op" where
  "GetComponentType c componentName applicationName =
     (let selector = ComponentLabel @ ''='' @ componentName @ '','' @ ApplicationLabel @ ''='' @ applicationName in
      bind (wrapping ''unable to get type of %s component'' []
             (GetDeploymentConfigLabelValues c ComponentTypeLabel selector)) (\<lambda>componentImageTypes.
        case componentImageTypes of
          [] \<Rightarrow> return []
        | t # ts \<Rightarrow> if list_ex (\<lambda>componentImageType. t \<noteq> componentImageType) (t # ts) then return []
                    else return t))"

definition GetComponentSource :: "'s client \<Rightarrow> string \<Rightarrow> string \<Rightarrow> ('s, string \<times> string) op" where
  "GetComponentSource c componentName applicationName =
     bind (wrapping ''unable to create namespaced name'' []
            (lift (NamespaceOpenShiftObject componentName applicationName))) (\<lambda>namespaced.
     bind (wrapping ''unable to get source path for component %s'' [componentName]
            (GetDeploymentConfigFromName c namespaced)) (\<lambda>deploymentConfig.
       let sourcePath = get_str (om_annotations (dc_meta deploymentConfig)) componentSourceURLAnnotation;
           sourceType = get_str (om_annotations (dc_meta deploymentConfig)) ComponentSourceTypeAnnotation
       in if \<not> validateSourceType sourceType then
            failing ''unsupported component source type %s'' [sourceType]
          else return (sourceType, sourcePath)))"

text \<open>What the secrets a component links to say: the ports of components, the names of services.\<close>

definition link_of ::
  "'s client \<Rightarrow> string \<Rightarrow> string \<Rightarrow> string list gomap \<times> string list \<Rightarrow>
   ('s, string list gomap \<times> string list) op" where
  "link_of c projectName secretName links = (case links of (linkedComponents, linkedServices) \<Rightarrow>
     bind (wrapping ''unable to get info about secret %s'' [secretName] (GetSecret c secretName projectName))
       (\<lambda>secret. case lookup (om_labels (sec_meta secret)) ComponentLabel of
          Some componentName \<Rightarrow>
            (case lookup (om_annotations (sec_meta secret)) ComponentPortAnnotationName of
               Some port \<Rightarrow> return (put componentName
                 ((case lookup linkedComponents componentName of None \<Rightarrow> [] | Some ps \<Rightarrow> ps) @ [port])
                 linkedComponents, linkedServices)
             | None \<Rightarrow> return (linkedComponents, linkedServices))
        | None \<Rightarrow> return (linkedComponents, linkedServices @ [secretName])))"

definition GetComponent :: "'s client \<Rightarrow> string \<Rightarrow> string \<Rightarrow> string \<Rightarrow> ('s, Component) op" where
  "GetComponent c componentName applicationName projectName =
     bind (wrapping ''unable to get source type'' [] (GetComponentType c componentName applicationName)) (\<lambda>componentType.
     bind (wrapping ''unable to get source path'' [] (GetComponentSource c componentName applicationName)) (\<lambda>(_, path).
     bind (wrapping ''unable to get url list'' [] (UrlListAll c componentName applicationName)) (\<lambda>urlList.
     bind (wrapping ''unable to get storage list'' [] (StorageListAll c componentName applicationName)) (\<lambda>appStore.
     bind (wrapping ''unable to get DC list'' [] (lift (NamespaceOpenShiftObject componentName applicationName))) (\<lambda>DC.
     bind (wrapping ''unable to get envVars list'' [] (GetEnvVarsFromDC c DC)) (\<lambda>envVars.
     bind (wrapping ''unable to list linked secrets'' []
            (GetComponentLinkedSecretNames c componentName applicationName)) (\<lambda>linkedSecretNames.
     bind (fold_op (link_of c projectName) linkedSecretNames ([], [])) (\<lambda>(linkedComponents, linkedServices).
       return ((component_format componentName componentType)\<lparr>co_source := path,
         co_url := foldl (\<lambda>urls url. urls @ [ur_name url]) [] (ul_items urlList),
         co_storage := foldl (\<lambda>names store. names @ [sg_name store]) [] (sl_items appStore),
         co_env := foldl (\<lambda>es env. if \<not> contains_str (ev_name env) ''ODO'' then es @ [env] else es) [] envVars,
         co_linked_components := linkedComponents, co_linked_services := linkedServices,
         co_state := ''Pushed''\<rparr>)))))))))"

definition ListComponents :: "'s client \<Rightarrow> string \<Rightarrow> ('s, ComponentList) op" where
  "ListComponents c applicationName =
     (let applicationSelector = (if applicationName \<noteq> [] then ApplicationLabel @ ''='' @ applicationName else [])
      in bind (wrapping ''unable to list components'' [] (GetDeploymentConfigsFromSelector c applicationSelector)) (\<lambda>dcList.
         bind (fold_op (\<lambda>elem components.
             bind (wrapping ''Unable to get component'' [] (GetComponent c
                     (get_str (om_labels (dc_meta elem)) ComponentLabel) applicationName (cl_namespace c)))
               (\<lambda>component. return (components @ [component\<lparr>co_state := ''Pushed''\<rparr>]))) dcList [])
           (\<lambda>components. return (component_list_format components))))"

definition ComponentExists :: "'s client \<Rightarrow> string \<Rightarrow> string \<Rightarrow> ('s, bool) op" where
  "ComponentExists c componentName applicationName =
     bind (wrapping ''unable to get the component list'' [] (ListComponents c applicationName)) (\<lambda>componentList.
       return (list_ex (\<lambda>component. co_name component = componentName) (cl_items componentList)))"

text \<open>
  The walk over one path: the files it meets with their names, in its order. \<open>load\<close> reads the
  configuration of a directory. The error of a path is lost when another path follows it.
\<close>

fun walk_files ::
  "'s client \<Rightarrow> (string \<Rightarrow> LocalConfigInfo result) \<Rightarrow> string result \<Rightarrow> (string \<times> string) list \<Rightarrow>
   Component list \<Rightarrow> ('s, error option \<times> Component list) op" where
  "walk_files c load cwd [] components = return (None, components)"
| "walk_files c load cwd ((path, name) # files) components =
     (if contains_str name ''.odo'' then
        bind (attempt (bind (lift (load (path_dir path))) (\<lambda>data.
               bind (ComponentExists c (LocalGetName data) (LocalGetApplication data)) (\<lambda>ex. return (data, ex)))))
          (\<lambda>r. case r of
             Inl err \<Rightarrow> return (Some err, components)
           | Inr (data, ex) \<Rightarrow>
               let con = (case path_abs cwd (path_dir path) of Inl _ \<Rightarrow> [] | Inr p \<Rightarrow> p);
                   a = (component_format (LocalGetName data) (LocalGetType data))
                         \<lparr>co_source := LocalGetSourceLocation data, co_context := con,
                          co_state := (if ex then ''Pushed'' else ''Not Pushed'')\<rparr>
               in walk_files c load cwd files (components @ [a]))
      else walk_files c load cwd files components)"

fun walk_paths ::
  "'s client \<Rightarrow> (string \<Rightarrow> LocalConfigInfo result) \<Rightarrow> string result \<Rightarrow> (string \<Rightarrow> (string \<times> string) list) \<Rightarrow>
   string list \<Rightarrow> error option \<Rightarrow> Component list \<Rightarrow> ('s, error option \<times> Component list) op" where
  "walk_paths c load cwd walk [] err components = return (err, components)"
| "walk_paths c load cwd walk (path # paths) err components =
     bind (walk_files c load cwd (walk path) components) (\<lambda>(err, components).
       walk_paths c load cwd walk paths err components)"

definition ListIfPathGiven ::
  "'s client \<Rightarrow> (string \<Rightarrow> LocalConfigInfo result) \<Rightarrow> string result \<Rightarrow> (string \<Rightarrow> (string \<times> string) list) \<Rightarrow>
   string list \<Rightarrow> ('s, error option \<times> ComponentList) op" where
  "ListIfPathGiven c load cwd walk paths = bind (walk_paths c load cwd walk paths None []) (\<lambda>(err, components).
     return (err, component_list_format components))"


section \<open>Validation of a request\<close>

definition ValidateComponentCreateRequest ::
  "'s client \<Rightarrow> 's outside \<Rightarrow> ComponentSettings \<Rightarrow> bool \<Rightarrow> ('s, unit) op" where
  "ValidateComponentCreateRequest c io cs isCmpExistsCheck =
     bind (lift (CheckComponentMandatoryParams cs)) (\<lambda>_.
     let (_, componentType, _, componentVersion) = ParseComponentImageName (the (cs_type cs));
         name = the (cs_name cs); app = the (cs_application cs)
     in bind (wrapping ''Failed to create component of type %s'' [componentType] (CatalogExists c componentType)) (\<lambda>ex.
        if \<not> ex then failing ''Failed to find component of type %s'' [componentType] else
        bind (wrapping ''Failed to create component of type %s of version %s'' [componentType, componentVersion]
               (VersionExists c componentType componentVersion)) (\<lambda>versionExists.
        if \<not> versionExists then failing ''Invalid component version %s:%s'' [componentType, componentVersion] else
        bind (wrapping ''failed to create component of name %s'' [name] (lift (ValidateName name))) (\<lambda>_.
        bind (if isCmpExistsCheck then
                bind (wrapping ''failed to check if component of name %s exists in application %s'' [name, app]
                       (ComponentExists c name app)) (\<lambda>ex.
                  if ex then failing ''component with name %s already exists in application %s'' [name, app]
                  else return ())
              else return ()) (\<lambda>_.
        if the (cs_source_type cs) = LOCAL then
          bind (wrapping ''failed to create component. Please view the settings used using the command `odo config view`'' []
                 (lift (io_stat io (the (cs_source_location cs))))) (\<lambda>is_dir.
            if \<not> is_dir then
              failing ''source path for component created for local source needs to be a directory'' []
            else return ())
        else return ())))))"


section \<open>URLs of the configuration\<close>

definition checkIfUrlPresentInConfig :: "ConfigUrl list \<Rightarrow> string \<Rightarrow> bool" where
  "checkIfUrlPresentInConfig localUrl url = list_ex (\<lambda>u. cu_name u = url) localUrl"

definition applyConfigDeleteURL :: "'s client \<Rightarrow> LocalConfigInfo \<Rightarrow> ('s, unit) op" where
  "applyConfigDeleteURL c cfg =
     bind (UrlListAll c (LocalGetName cfg) (LocalGetApplication cfg)) (\<lambda>urlList.
       each (\<lambda>u. if \<not> checkIfUrlPresentInConfig (LocalGetUrl cfg) (ur_name u)
                 then UrlDelete c (ur_name u) (LocalGetApplication cfg) else return ()) (ul_items urlList))"

definition ApplyConfigCreateURL :: "'s client \<Rightarrow> LocalConfigInfo \<Rightarrow> ('s, unit) op" where
  "ApplyConfigCreateURL c cfg =
     each (\<lambda>urlo.
       bind (wrapping ''unable to check url'' []
              (UrlExists c (cu_name urlo) (LocalGetName cfg) (LocalGetApplication cfg))) (\<lambda>exist.
         if exist then return ()
         else bind (wrapping ''unable to create url'' []
                (UrlCreate c (cu_name urlo) (cu_port urlo) (LocalGetName cfg) (LocalGetApplication cfg)))
                (\<lambda>_. return ()))) (LocalGetUrl cfg)"

definition checkIfURLChangesWillBeMade :: "'s client \<Rightarrow> LocalConfigInfo \<Rightarrow> ('s, bool) op" where
  "checkIfURLChangesWillBeMade c cfg =
     bind (UrlListAll c (LocalGetName cfg) (LocalGetApplication cfg)) (\<lambda>urlList.
       return (length (LocalGetUrl cfg) > 0 \<or> length (LocalGetUrl cfg) = 0 \<and> length (ul_items urlList) > 0))"


section \<open>Update\<close>

text \<open>
  The update of a git component, whatever it was before: the image is built before the
  deployment is replaced.
\<close>

definition update_git ::
  "'s client \<Rightarrow> 's outside \<Rightarrow> string \<Rightarrow> string \<Rightarrow> string \<Rightarrow> string \<Rightarrow> build_config \<Rightarrow>
   UpdateComponentParams \<Rightarrow> ('s, unit option) op" where
  "update_git c io fmt componentName applicationName oldSourceType bc params =
     bindW (wrapping fmt [componentName] (Build c io componentName applicationName True)) (\<lambda>_.
       wrapping ''unable to update DeploymentConfig image for %s component'' [componentName]
         (UpdateDCToGit c (io_dc_watch io)
           (params\<lparr>ucp_image := (ucp_image params)\<lparr>ci_name := ref_name (bc_output bc)\<rparr>\<rparr>)
           (oldSourceType \<noteq> GIT)))"

definition with_source :: "string \<Rightarrow> UpdateComponentParams \<Rightarrow> UpdateComponentParams" where
  "with_source sourceURL params = params\<lparr>ucp_meta := (ucp_meta params)\<lparr>om_annotations :=
     put componentSourceURLAnnotation sourceURL (om_annotations (ucp_meta params))\<rparr>\<rparr>"

definition update_supervised ::
  "'s client \<Rightarrow> 's outside \<Rightarrow> string \<Rightarrow> string \<Rightarrow> string \<Rightarrow> bool \<Rightarrow> UpdateComponentParams \<Rightarrow>
   ('s, unit option) op" where
  "update_supervised c io componentName newSource newSourceType createPVC params =
     wrapping ''unable to update DeploymentConfig for %s component'' [componentName]
       (UpdateDCToSupervisor (io_bootstrapper io) c (io_dc_watch io)
         (with_source (GenFileURL newSource (io_os io)) params) (newSourceType = LOCAL) createPVC)"

text \<open>The second step of an update: what the old and the new kind of source ask for.\<close>

definition update_source ::
  "'s client \<Rightarrow> 's outside \<Rightarrow> LocalConfigInfo \<Rightarrow> string \<Rightarrow> string \<Rightarrow> string \<Rightarrow> env_var list \<Rightarrow>
   UpdateComponentParams \<Rightarrow> ('s, unit option) op" where
  "update_source c io cfg newSource oldSourceType namespaced evl params =
     (let componentName = LocalGetName cfg; applicationName = LocalGetApplication cfg;
          newSourceType = LocalGetSourceType cfg in
      if (oldSourceType = ''local'' \<or> oldSourceType = ''binary'') \<and> newSourceType = ''git'' then
        bind (wrapping ''unable to update BuildConfig  for %s component'' [componentName]
               (CreateBuildConfig c (ucp_meta params) (LocalGetType cfg) newSource (LocalGetRef cfg) evl)) (\<lambda>bc.
          update_git c io ''unable to build the component %s'' componentName applicationName oldSourceType bc params)
      else if oldSourceType = ''git'' \<and> (newSourceType = ''binary'' \<or> newSourceType = ''local'') then
        bind (wrapping ''unable to delete BuildConfig for %s component'' [componentName]
               (DeleteBuildConfig c (ucp_meta params))) (\<lambda>_.
          update_supervised c io componentName newSource newSourceType True params)
      else if newSourceType = ''git'' then
        bind (wrapping ''unable to update the build config %v'' [componentName]
               (UpdateBuildConfig c namespaced newSource (om_annotations (ucp_meta params)))) (\<lambda>_.
        bind (wrapping ''unable to get the BuildConfig file'' [] (GetBuildConfigFromName c namespaced)) (\<lambda>bc.
          update_git c io ''unable to build the component: %v'' componentName applicationName oldSourceType bc params))
      else if newSourceType = ''local'' \<or> newSourceType = ''binary'' then
        update_supervised c io componentName newSource newSourceType False params
      else finished)"

definition Update ::
  "'s client \<Rightarrow> 's outside \<Rightarrow> LocalConfigInfo \<Rightarrow> string \<Rightarrow> ('s, unit option) op" where
  "Update c io cfg newSource =
     (let componentName = LocalGetName cfg; applicationName = LocalGetApplication cfg;
          newSourceType = LocalGetSourceType cfg;
          componentImageType = LocalGetType cfg; cmpPorts = LocalGetPorts cfg in
      bind (wrapping ''unable to get storage to mount and unmount'' []
             (Push c (getStorageFromConfig cfg) componentName applicationName True))
        (\<lambda>(storageToMount, storageToUnMount).
      bind (wrapping ''unable to get source of %s component'' [componentName]
             (GetComponentSource c componentName applicationName)) (\<lambda>(oldSourceType, _).
      bind (wrapping ''unable to create namespaced name'' []
             (lift (NamespaceOpenShiftObject componentName applicationName))) (\<lambda>namespaced.
      bind (wrapping ''unable to parse image name'' [] (lift (ParseImageName componentImageType)))
        (\<lambda>(imageNS, imageName, imageTag, _).
      let commonObjectMeta = common_meta namespaced
            (component_labels componentName applicationName imageName imageTag)
            (source_annotations newSource newSourceType) in
      bind (wrapping ''unable to get DeploymentConfig %s'' [namespaced] (GetDeploymentConfigFromName c namespaced))
        (\<lambda>currentDC.
      bind (lift (template_of currentDC)) (\<lambda>t.
      bind (wrapping ''Unable to find container %s'' [namespaced]
             (lift (FindContainer (pt_containers t) namespaced))) (\<lambda>foundCurrentDCContainer.
      bind (if length cmpPorts > 0
            then wrapping ''failed to apply component config %+v to component %s'' [componentName, namespaced]
                   (lift (GetContainerPortsFromStrings cmpPorts))
            else return (ct_ports foundCurrentDCContainer)) (\<lambda>ports.
      bind (wrapping ''failed to update component'' []
             (lift (GetResourceRequirementsFromCmpSettings (cl_parse_quantity c) cfg))) (\<lambda>resLts.
      bind (lift (GetInputEnvVarsFromStrings (ToStringSlice (LocalGetEnvVars cfg)))) (\<lambda>evl.
      let params = \<lparr>ucp_meta = commonObjectMeta, ucp_limits = resLts, ucp_env = [], ucp_existing = currentDC,
            ucp_wait_cond = IsDCRolledOut,
            ucp_image = \<lparr>ci_name = imageName, ci_tag = imageTag, ci_namespace = imageNS, ci_ports = ports\<rparr>,
            ucp_mount = storageToMount, ucp_unmount = storageToUnMount\<rparr> in
      update_source c io cfg newSource oldSourceType namespaced evl params)))))))))))"

definition ApplyConfig :: "'s client \<Rightarrow> 's outside \<Rightarrow> LocalConfigInfo \<Rightarrow> bool \<Rightarrow> ('s, unit option) op" where
  "ApplyConfig c io cfg cmpExist =
     bindW (if cmpExist then Update c io cfg (LocalGetSourceLocation cfg) else finished) (\<lambda>_.
     bind (checkIfURLChangesWillBeMade c cfg) (\<lambda>showChanges.
       if showChanges then
         bind (ApplyConfigCreateURL c cfg) (\<lambda>_.
         bind (applyConfigDeleteURL c cfg) (\<lambda>_. finished))
       else finished))"


section \<open>Sources in the pod\<close>

fun getEnvFromPodEnvs :: "string \<Rightarrow> env_var list \<Rightarrow> string" where
  "getEnvFromPodEnvs envName [] = []"
| "getEnvFromPodEnvs envName (podEnv # es) =
     (if ev_name podEnv = envName then ev_value podEnv else getEnvFromPodEnvs envName es)"

definition s2i_path_step :: "env_var list \<Rightarrow> string list \<Rightarrow> string \<Rightarrow> string list" where
  "s2i_path_step podEnvs retVal s2iPathEnv =
     (let envVal = getEnvFromPodEnvs s2iPathEnv podEnvs
      in if envVal \<noteq> [] \<and> \<not> list_ex (\<lambda>e. envVal = e) retVal then
           retVal @ [if path_base envVal \<noteq> ''src'' then path_join [envVal, ''src''] else envVal]
         else retVal)"

definition getS2IPaths :: "env_var list \<Rightarrow> string list" where
  "getS2IPaths podEnvs =
     foldl (s2i_path_step podEnvs) []
       [''ODO_S2I_DEPLOYMENT_DIR'', ''ODO_S2I_SRC_BIN_PATH'', ''ODO_S2I_WORKING_DIR'', EnvS2ISrcBackupDir]
     @ [''/opt/app-root/deployment-backup'']"

text \<open>One command removes every deleted path below every directory.\<close>

definition PropagateDeletes :: "'s outside \<Rightarrow> string \<Rightarrow> string list \<Rightarrow> string list \<Rightarrow> ('s, unit) op" where
  "PropagateDeletes io targetPodName delSrcRelPaths s2iPaths =
     (if length s2iPaths = 0 \<or> length delSrcRelPaths = 0 then
        failing ''Failed to propagate deletions: s2iPaths: %+v and delSrcRelPaths: %+v''
          [''['' @ join_with '' '' s2iPaths @ '']'', ''['' @ join_with '' '' delSrcRelPaths @ '']'']
      else io_exec io targetPodName ([''rm'', ''-rf''] @
        foldl (\<lambda>rm s2iPath. foldl (\<lambda>rm delRelPath. rm @ [path_join [s2iPath, delRelPath]]) rm delSrcRelPaths)
          [] s2iPaths))"

text \<open>\<open>Readdirnames(1)\<close> of a directory: \<open>io.EOF\<close> when there is no name.\<close>

definition isEmpty :: "'s outside \<Rightarrow> string \<Rightarrow> bool result" where
  "isEmpty io name = bindR (io_readdir io name) (\<lambda>names. Inr (names = []))"

definition pod_container :: "pod \<Rightarrow> container result" where
  "pod_container p = (case pd_containers p of [] \<Rightarrow> Inl (Panic ''index out of range'') | ct # _ \<Rightarrow> Inr ct)"

definition PushLocal ::
  "'s client \<Rightarrow> 's outside \<Rightarrow> string \<Rightarrow> string \<Rightarrow> string \<Rightarrow> string list \<Rightarrow> string list \<Rightarrow> bool \<Rightarrow> string list \<Rightarrow>
   ('s, unit option) op" where
  "PushLocal c io componentName applicationName path files delFiles isForcePush globExps =
     bind (wrapping ''Unable to check directory: %s'' [path] (lift (isEmpty io path))) (\<lambda>emptyDir.
     if emptyDir then failing (''Directory / file '' @ path @ '' is empty'') [] else
     bind (wrapping ''unable to get deployment for component'' []
            (GetOneDeploymentConfigFromSelector c (component_selector c componentName applicationName))) (\<lambda>d.
     let podSelector = ''deploymentconfig='' @ om_name (dc_meta d) in
     bindW (wrapping ''error while waiting for pod  %s'' [podSelector]
             (awaiting (io_pod_watch io podSelector) (\<lambda>w. WaitAndGetPod w podSelector ''Running''))) (\<lambda>p.
     bind (lift (pod_container p)) (\<lambda>ct.
     let podName = om_name (pd_meta p);
         s2iSrcPath = getEnvFromPodEnvs ''ODO_S2I_SRC_BIN_PATH'' (ct_env ct);
         s2iSrcPath = (if s2iSrcPath = [] then DefaultS2ISrcOrBinPath else s2iSrcPath);
         targetPath = s2iSrcPath @ ''/src''
     in bind (if length delFiles > 0 then
                wrapping ''unable to propagate file deletions %+v'' [''['' @ join_with '' '' delFiles @ '']'']
                  (PropagateDeletes io podName delFiles (getS2IPaths (ct_env ct)))
              else return ()) (\<lambda>_.
        if \<not> isForcePush \<and> length files = 0 \<and> length delFiles = 0 then
          failing ''pass files modifications/deletions to sync to component pod or force push'' []
        else
        bind (if isForcePush \<or> length files > 0 then
                wrapping ''unable push files to pod'' [] (io_copy io path podName targetPath files globExps)
              else return ()) (\<lambda>_.
        bind (wrapping ''unable to execute assemble script'' []
               (io_exec io podName [''/var/lib/supervisord/bin/assemble-and-restart''])) (\<lambda>_. finished)))))))"


section \<open>Facts\<close>

lemma bindW_ok_iff:
  "bindW m k s = (Inr (Some b), t) \<longleftrightarrow> (\<exists>a s1. m s = (Inr (Some a), s1) \<and> k a s1 = (Inr (Some b), t))"
  unfolding bindW_def bind_ok_iff by (auto simp: op_simps split: option.splits)

lemma finished_ok_iff [simp]: "finished s = (Inr r, t) \<longleftrightarrow> r = Some () \<and> t = s"
  by (auto simp: finished_def)

lemma validateSourceType_iff: "validateSourceType t \<longleftrightarrow> t \<in> {GIT, LOCAL, BINARY}"
  by (auto simp: validateSourceType_def GIT_def LOCAL_def BINARY_def)

subsection \<open>Updates\<close>

text \<open>
  The first write of a deployment replaces one by an object whose first container has only the
  S2I variables.
\<close>

definition sent_with_s2i_env :: "'s client \<Rightarrow> ('s \<Rightarrow> 'b) \<Rightarrow> 's \<Rightarrow> bool" where
  "sent_with_s2i_env c f s \<longleftrightarrow> (\<exists>d u s1 s2 ct. f s1 = f s
     \<and> ra_update (cl_dcs c) (cl_namespace c) d s1 = (Inr u, s2)
     \<and> first_container d = Inr ct \<and> ev_name ` set (ct_env ct) \<subseteq> s2i_env_names)"

text \<open>What the outside does while a build runs leaves a view of the deployments alone too.\<close>

locale component_view = deployment_view +
  fixes io :: "'a outside"
  assumes build_log: "preserves f (io_build_log io n)" and build_watch: "preserves f (io_build_watch io n)"
begin

lemma awaited_view: "preserves f m \<Longrightarrow> preserves f (awaiting m h)"
  unfolding preserves_def
  by (auto simp: awaiting_def captured_def bind_def op_simps split: prod.splits option.splits sum.splits)
    (metis snd_conv)+

lemma build_view: "preserves f (Build c io cmp app wait)"
  unfolding Build_def finished_def by (intro keeping operations build_log build_watch awaited_view)

lemma push_view: "preserves f (Push c l cmp app ex)"
  unfolding Push_def push_delete_def push_create_def StorageDelete_def StorageCreate_def ListMounted_def
    StorageListAll_def component_dc_def getPVCNameFromStorageName_def Let_def
  by (intro keeping operations)

lemma source_view: "preserves f (GetComponentSource c cmp app)"
  unfolding GetComponentSource_def Let_def by (intro keeping operations)

lemma update_git_env:
  assumes "update_git c io fmt cmp app old bc params s = (Inr (Some ()), s')" and "ucp_env params = []"
  shows "sent_with_s2i_env c f s"
proof -
  obtain a s1 where b: "Build c io cmp app True s = (Inr (Some a), s1)" and "UpdateDCToGit c (io_dc_watch io)
       (params\<lparr>ucp_image := (ucp_image params)\<lparr>ci_name := ref_name (bc_output bc)\<rparr>\<rparr>) (old \<noteq> GIT) s1
     = (Inr (Some ()), s')"
    using assms by (auto simp: update_git_def bindW_ok_iff)
  from UpdateDCToGit_env [OF this(2)] obtain d u s2 s3 ct where "f s2 = f s1"
    "ra_update (cl_dcs c) (cl_namespace c) d s2 = (Inr u, s3)" "first_container d = Inr ct" "ct_env ct = []"
    using assms(2) by auto
  with preservesD [OF build_view b] show ?thesis
    unfolding sent_with_s2i_env_def by (intro exI [of _ d] exI [of _ u] exI [of _ s2] exI [of _ s3] exI [of _ ct]) simp
qed

lemma update_supervised_env:
  assumes "update_supervised c io cmp src st createPVC params s = (Inr r, s')" and "ucp_env params = []"
  shows "sent_with_s2i_env c f s"
proof -
  have "UpdateDCToSupervisor (io_bootstrapper io) c (io_dc_watch io)
      (with_source (GenFileURL src (io_os io)) params) (st = LOCAL) createPVC s = (Inr r, s')"
    using assms(1) by (simp add: update_supervised_def)
  from UpdateDCToSupervisor_env [OF this] assms(2) show ?thesis
    by (auto simp: sent_with_s2i_env_def with_source_def)
qed

lemma sent_later: "sent_with_s2i_env c f t \<Longrightarrow> f t = f s \<Longrightarrow> sent_with_s2i_env c f s"
  by (simp add: sent_with_s2i_env_def)

lemma update_source_env:
  assumes "update_source c io cfg src old ns evl params s = (Inr (Some ()), s')" and "ucp_env params = []"
    and "validateSourceType (LocalGetSourceType cfg)"
  shows "sent_with_s2i_env c f s"
  using assms unfolding update_source_def Let_def validateSourceType_iff GIT_def LOCAL_def BINARY_def
  by (auto simp: bind_ok_iff dest!: update_git_env update_supervised_env preservesD [OF build_configs(1)]
      preservesD [OF build_configs(2)] preservesD [OF build_configs(3)] preservesD [OF build_configs(4)]
      intro: sent_later split: if_splits)

lemma choice_view: "preserves f (if b then wrapping fmt args (lift r) else return a)"
  by (intro keeping)

text \<open>Every update hands the second step parameters without variables.\<close>

lemma Update_source:
  assumes "Update c io cfg src s = (Inr r, s')"
  shows "\<exists>old ns evl params s1. ucp_env params = [] \<and> f s1 = f s
    \<and> update_source c io cfg src old ns evl params s1 = (Inr r, s')"
  using assms unfolding Update_def Let_def
  apply (elim bind_okE)
  apply (clarsimp simp only: wrapping_ok_iff lift_ok_iff split: prod.splits)
  apply (elim bind_okE)
  apply (clarsimp simp only: wrapping_ok_iff lift_ok_iff split: prod.splits)
  apply (elim bind_okE)
  apply (clarsimp simp only: wrapping_ok_iff lift_ok_iff split: prod.splits)
  apply (elim bind_okE)
  apply (clarsimp simp only: wrapping_ok_iff lift_ok_iff)
  apply (frule preservesD [OF push_view], frule preservesD [OF source_view],
    frule preservesD [OF deployment_reads(2)], frule preservesD [OF choice_view])
  apply (intro exI conjI)
    prefer 3
    apply assumption
   apply simp_all
  done

end

text \<open>The objects of a component are found by its selector, and by no other component's.\<close>

lemma selects_cong:
  "(\<And>k v. (k, v) \<in> set reqs \<Longrightarrow> lookup l k = lookup l' k) \<Longrightarrow> selects reqs l \<longleftrightarrow> selects reqs l'"
  unfolding selects_def list_all_iff has_key_def by (intro ball_cong refl) (auto split: prod.splits)

lemma component_labels_selected:
  assumes "map_order (cl_order c)" and "label_value n" and "label_value a"
  shows "selects (requirements (component_selector c n a)) (component_labels cmp app img tag)
    \<longleftrightarrow> n = cmp \<and> a = app"
proof -
  have reqs: "requirements (component_selector c n a) = range_map (cl_order c) (ComponentGetLabels n a False)"
    unfolding component_selector_def selector_of_def
    by (rule component_scheme.requirements_labels [of _ "(n, a)", simplified]) (use assms in simp_all)
  have "selects (requirements (component_selector c n a)) (component_labels cmp app img tag)
      \<longleftrightarrow> selects (requirements (component_selector c n a)) (ComponentGetLabels cmp app True)"
  proof (rule selects_cong)
    fix k v assume "(k, v) \<in> set (requirements (component_selector c n a))"
    then have "k = ComponentLabel \<or> k = ApplicationLabel"
      using mem_component_labels set_range_map [OF assms(1), of "ComponentGetLabels n a False"]
      by (auto simp: reqs)
    then show "lookup (component_labels cmp app img tag) k = lookup (ComponentGetLabels cmp app True) k"
      by (elim disjE) (simp_all add: component_labels_def lookup_put ComponentLabel_def ApplicationLabel_def
          ComponentTypeLabel_def ComponentTypeVersion_def)
  qed
  also have "\<dots> \<longleftrightarrow> n = cmp \<and> a = app"
    using component_scheme.selector_exact [of "cl_order c" "(n, a)" "(cmp, app)" True] assms
    by (auto simp: component_selector_def selector_of_def)
  finally show ?thesis .
qed

lemma Namespace_nonempty: "NamespaceOpenShiftObject n a = Inr x \<Longrightarrow> x \<noteq> []"
  by (auto simp: NamespaceOpenShiftObject_def TruncateString_def maxAllowedNamespacedStringLength_def Let_def
      replace_char_def fails_def split: if_splits)

lemma CreateFromPath_bootstraps:
  assumes "CreateFromPath c io params s = (Inr r, s')"
  shows "\<exists>img tag ns u s1. NamespaceOpenShiftObject (ca_name params) (ca_application params) = Inr ns \<and>
    BootstrapSupervisoredS2I (io_bootstrapper io) c params (common_meta ns
      (component_labels (ca_name params) (ca_application params) img tag)
      (source_annotations (GenFileURL (ca_source_path params) (io_os io)) (ca_source_type params))) s
    = (Inr u, s1)"
  using assms unfolding CreateFromPath_def Let_def
  apply (elim bind_okE)
  apply (clarsimp simp only: wrapping_ok_iff lift_ok_iff split: prod.splits)
  apply (elim bind_okE)
  apply (clarsimp simp only: wrapping_ok_iff lift_ok_iff)
  apply (simp only: sum.inject)
  apply (intro exI conjI, rule refl)
  apply (erule trans)
  apply simp
  done


subsection \<open>Listing\<close>

lemma GetComponent_name: "GetComponent c n app ns s = (Inr k, s') \<Longrightarrow> co_name k = n"
  by (auto simp: GetComponent_def bind_ok_iff component_format_def split: prod.splits)

lemma ListComponents_names:
  assumes "ListComponents c app s = (Inr l, s')"
  shows "\<exists>ds s1. GetDeploymentConfigsFromSelector c
      (if app \<noteq> [] then ApplicationLabel @ ''='' @ app else []) s = (Inr ds, s1)
    \<and> map co_name (cl_items l) = map (\<lambda>d. get_str (om_labels (dc_meta d)) ComponentLabel) ds"
proof -
  define step where "step = (\<lambda>(elem :: dc) components.
     bind (wrapping ''Unable to get component'' [] (GetComponent c
             (get_str (om_labels (dc_meta elem)) ComponentLabel) app (cl_namespace c)))
       (\<lambda>component. return (components @ [component\<lparr>co_state := ''Pushed''\<rparr>])))"
  have fold: "map co_name ks' = map co_name ks @ map (\<lambda>d. get_str (om_labels (dc_meta d)) ComponentLabel) ds"
    if "fold_op step ds ks s0 = (Inr ks', s2)" for ds ks ks' s0 s2
    using that
  proof (induction ds arbitrary: ks s0)
    case (Cons d ds)
    from Cons.prems obtain ks1 s1 where s: "step d ks s0 = (Inr ks1, s1)" and f: "fold_op step ds ks1 s1 = (Inr ks', s2)"
      by (auto simp: bind_ok_iff)
    from s have "map co_name ks1 = map co_name ks @ [get_str (om_labels (dc_meta d)) ComponentLabel]"
      by (auto simp: step_def bind_ok_iff dest: GetComponent_name)
    with Cons.IH [OF f] show ?case by simp
  qed simp
  from assms obtain ds s1 ks where
    "GetDeploymentConfigsFromSelector c (if app \<noteq> [] then ApplicationLabel @ ''='' @ app else []) s = (Inr ds, s1)"
    and "fold_op step ds [] s1 = (Inr ks, s')" and "l = component_list_format ks"
    unfolding ListComponents_def Let_def step_def by (elim bind_okE) (simp only: wrapping_ok_iff return_ok_iff)
  with fold [of ds "[]" s1 ks s'] show ?thesis
    by (auto simp: component_list_format_def)
qed


subsection \<open>Walks\<close>

lemma walk_paths_last:
  assumes "walk_paths c load cwd walk (paths @ [path]) err components s = (Inr (e, cs), s')"
  shows "\<exists>cs1 s1. walk_files c load cwd (walk path) cs1 s1 = (Inr (e, cs), s')"
  using assms
proof (induction paths arbitrary: err components s)
  case (Cons p paths)
  then show ?case by (auto simp: bind_ok_iff)
qed (auto simp: bind_ok_iff)


section \<open>Properties\<close>

text \<open>The inputs of the witnesses: a running component, and an outside where nothing goes wrong.\<close>

definition running_pod :: pod where
  "running_pod = \<lparr>pd_meta = named_meta ''web-app-1'', pd_phase = ''Running'', pd_containers = [empty_container]\<rparr>"

definition quiet_outside :: "cluster outside" where
  "quiet_outside = \<lparr>io_build_log = (\<lambda>n. return []),
     io_build_watch = (\<lambda>n. return [Received (Event Modified (Some \<lparr>bd_name = n, bd_phase = ''Complete''\<rparr>))]),
     io_dc_watch = rolled_signals,
     io_pod_watch = (\<lambda>sel. return [Received (Event Modified (Some running_pod))]),
     io_exec = (\<lambda>p cmd. return ()), io_copy = (\<lambda>a b d e f. return ()), io_stat = (\<lambda>p. Inr True),
     io_getwd = Inr ''/tmp'', io_readdir = (\<lambda>p. Inr [''main.js'']), io_os = ''linux'', io_bootstrapper = None\<rparr>"

definition web_config :: LocalConfigInfo where
  "web_config = \<lparr>lci_filename = ''config.yaml'', lci_type_meta = NewLocalConfig_meta,
     lci_settings = no_settings\<lparr>cs_type := Some ''nodejs:8'', cs_source_location := Some ''./'',
       cs_source_type := Some LOCAL, cs_application := Some ''app'', cs_name := Some ''web'',
       cs_envs := Some [\<lparr>ev_name = ''A'', ev_value = ''1''\<rparr>]\<rparr>, lci_file_exists = True\<rparr>"

definition new_state :: cluster where
  "new_state = empty_cluster\<lparr>k_streams := [example_stream ''8'']\<rparr>"

definition web_dc :: dc where
  "web_dc = generateSupervisordDeploymentConfig
     (common_meta ''web-app'' (component_labels ''web'' ''app'' ''nodejs'' ''8'') (source_annotations ''file://./'' LOCAL))
     \<lparr>ci_name = ''nodejs'', ci_tag = ''8'', ci_namespace = [], ci_ports = []\<rparr> [] [] None"

definition web_state :: cluster where
  "web_state = new_state\<lparr>k_dcs := [web_dc]\<rparr>"

interpretation stream_view: component_view stream_client k_dcs quiet_outside
  by (rule component_view.intro [OF stream_client_view], unfold_locales)
    (auto simp: quiet_outside_def)



text \<open>C7. The deployment a component is created with from a directory or a binary is named after the
  component and the application, and the selector of a component and an application chooses it
  exactly when they are the ones it was created for.\<close>

theorem created_component_found:
  assumes "deployment_view c f" and "map_order (cl_order c)" and "CreateFromPath c io params s = (Inr r, s')"
  shows "\<exists>d u s1 s2. f s1 = f s \<and> ra_create (cl_dcs c) (cl_namespace c) d s1 = (Inr u, s2)
    \<and> NamespaceOpenShiftObject (ca_name params) (ca_application params) = Inr (om_name (dc_meta d))
    \<and> (\<forall>n a. label_value n \<longrightarrow> label_value a \<longrightarrow>
        selects (requirements (component_selector c n a)) (om_labels (dc_meta d))
          = (n = ca_name params \<and> a = ca_application params))"
proof -
  obtain img tag ns v s3 where ns: "NamespaceOpenShiftObject (ca_name params) (ca_application params) = Inr ns"
    and b: "BootstrapSupervisoredS2I (io_bootstrapper io) c params (common_meta ns
      (component_labels (ca_name params) (ca_application params) img tag)
      (source_annotations (GenFileURL (ca_source_path params) (io_os io)) (ca_source_type params))) s
    = (Inr v, s3)"
    using CreateFromPath_bootstraps [OF assms(3)] by (elim exE conjE) (rule that)
  have "om_name (common_meta ns ls as) = ns" "om_labels (common_meta ns ls as) = ls" for ls as
    by (simp_all add: common_meta_def named_meta_def)
  note meta = this
  from b have b: "BootstrapSupervisoredS2I (io_bootstrapper io) c params (common_meta ns
      (component_labels (ca_name params) (ca_application params) img tag)
      (source_annotations (GenFileURL (ca_source_path params) (io_os io)) (ca_source_type params))) s
    = (Inr (), s3)" by simp
  have nonempty: "om_name (common_meta ns ls as) \<noteq> []" for ls as
    using Namespace_nonempty [OF ns] by (simp add: meta)
  obtain d u s1 s2 where "ra_create (cl_dcs c) (cl_namespace c) d s1 = (Inr u, s2)" and "f s1 = f s"
    and d: "dc_meta d = common_meta ns (component_labels (ca_name params) (ca_application params) img tag)
      (source_annotations (GenFileURL (ca_source_path params) (io_os io)) (ca_source_type params))"
    using deployment_view.bootstrap_created [OF assms(1) b nonempty] by (elim exE conjE) (rule that)
  moreover from ns have "NamespaceOpenShiftObject (ca_name params) (ca_application params) = Inr (om_name (dc_meta d))"
    by (simp add: d meta)
  moreover have "\<forall>n a. label_value n \<longrightarrow> label_value a \<longrightarrow>
        selects (requirements (component_selector c n a)) (om_labels (dc_meta d))
          = (n = ca_name params \<and> a = ca_application params)"
    using component_labels_selected [OF assms(2)] by (simp add: d meta)
  ultimately show ?thesis by (intro exI conjI)
qed

theorem created_component_found_witness:
  "\<exists>d u s1 s2. k_dcs s1 = [] \<and> ra_create (cl_dcs stream_client) (cl_namespace stream_client) d s1 = (Inr u, s2)
    \<and> om_name (dc_meta d) = ''web-app''
    \<and> \<not> selects (requirements (component_selector stream_client ''api'' ''app'')) (om_labels (dc_meta d))"
proof -
  let ?p = "local_args\<lparr>ca_application := ''app'', ca_name := ''web''\<rparr>"
  have "\<exists>r. fst (CreateFromPath stream_client quiet_outside ?p new_state) = Inr r"
    by (rule exI [of _ "Some ()"]) code_simp
  then obtain r s' where c: "CreateFromPath stream_client quiet_outside ?p new_state = (Inr r, s')"
    by (metis prod.collapse)
  have o: "map_order (cl_order stream_client)"
    by (simp add: stream_client_def memory_client_def map_order_def)
  have n: "NamespaceOpenShiftObject ''web'' ''app'' = Inr ''web-app''" by code_simp
  have l: "label_value ''api''" "label_value ''app''" by code_simp+
  from created_component_found [OF stream_client_view o c]
  obtain d u s1 s2 where "k_dcs s1 = k_dcs new_state"
    and "ra_create (cl_dcs stream_client) (cl_namespace stream_client) d s1 = (Inr u, s2)"
    and "NamespaceOpenShiftObject (ca_name ?p) (ca_application ?p) = Inr (om_name (dc_meta d))"
    and sel: "\<forall>n a. label_value n \<longrightarrow> label_value a \<longrightarrow>
        selects (requirements (component_selector stream_client n a)) (om_labels (dc_meta d))
          = (n = ca_name ?p \<and> a = ca_application ?p)"
    by (elim exE conjE) (rule that)
  moreover from sel l have "\<not> selects (requirements (component_selector stream_client ''api'' ''app'')) (om_labels (dc_meta d))"
    by simp
  ultimately show ?thesis using n by (intro exI conjI) (simp_all add: new_state_def empty_cluster_def)
qed

text \<open>C23. A component exists for \<open>Exists\<close> exactly when the component label of one of the deployments the
  application's selector finds is its name.\<close>

theorem component_exists_iff:
  assumes "ComponentExists c n app s = (Inr b, s')"
  shows "\<exists>ds s1. GetDeploymentConfigsFromSelector c
      (if app \<noteq> [] then ApplicationLabel @ ''='' @ app else []) s = (Inr ds, s1)
    \<and> b = (n \<in> (\<lambda>d. get_str (om_labels (dc_meta d)) ComponentLabel) ` set ds)"
proof -
  from assms obtain l where l: "ListComponents c app s = (Inr l, s')"
    and b: "b = list_ex (\<lambda>k. co_name k = n) (cl_items l)"
    by (auto simp: ComponentExists_def bind_ok_iff)
  from ListComponents_names [OF l] obtain ds s1 where "GetDeploymentConfigsFromSelector c
      (if app \<noteq> [] then ApplicationLabel @ ''='' @ app else []) s = (Inr ds, s1)"
    and m: "map co_name (cl_items l) = map (\<lambda>d. get_str (om_labels (dc_meta d)) ComponentLabel) ds"
    by (elim exE conjE) (rule that)
  moreover have "b = (n \<in> set (map co_name (cl_items l)))"
    by (auto simp: b list_ex_iff)
  ultimately show ?thesis unfolding m by auto
qed

theorem component_exists_iff_witness:
  "\<exists>(ds :: dc list) (s1 :: cluster). ''web'' \<in> (\<lambda>d. get_str (om_labels (dc_meta d)) ComponentLabel) ` set ds
    \<and> ''api'' \<notin> (\<lambda>d. get_str (om_labels (dc_meta d)) ComponentLabel) ` set ds"
proof -
  have "fst (ComponentExists stream_client ''web'' ''app'' web_state) = Inr True"
    "fst (ComponentExists stream_client ''api'' ''app'' web_state) = Inr False" by code_simp+
  then obtain s1 s2 where e: "ComponentExists stream_client ''web'' ''app'' web_state = (Inr True, s1)"
    "ComponentExists stream_client ''api'' ''app'' web_state = (Inr False, s2)"
    by (metis prod.collapse)
  show ?thesis using component_exists_iff [OF e(1)] component_exists_iff [OF e(2)] by fastforce
qed



text \<open>When the deployments a component's selector finds disagree about its type, the description of
  the component reports no type and no error: the error wrapped is the one of the call that succeeded.\<close>

theorem type_mismatch_hidden:
  assumes "GetDeploymentConfigLabelValues c ComponentTypeLabel
      (ComponentLabel @ ''='' @ n @ '','' @ ApplicationLabel @ ''='' @ app) s = (Inr ts, s1)"
    and "t \<in> set ts" and "t' \<in> set ts" and "t \<noteq> t'"
  shows "GetComponentType c n app s = (Inr [], s1)"
proof -
  from assms(2) obtain u us where ts: "ts = u # us" by (cases ts) auto
  moreover have "list_ex (\<lambda>x. u \<noteq> x) ts"
    using assms(2-4) unfolding list_ex_iff by metis
  ultimately have "list_ex (\<lambda>x. u \<noteq> x) (u # us)" by simp
  with assms(1) ts show ?thesis
    by (simp add: GetComponentType_def bind_ok wrapping_ok op_apply)
qed

definition typed_dc :: "string \<Rightarrow> string \<Rightarrow> dc" where
  "typed_dc n t = (example_dc [])\<lparr>dc_meta := (named_meta n)\<lparr>om_labels :=
     component_labels ''web'' ''app'' t ''8''\<rparr>\<rparr>"

theorem type_mismatch_hidden_witness:
  "fst (GetComponentType stream_client ''web'' ''app''
     (new_state\<lparr>k_dcs := [typed_dc ''web-app'' ''nodejs'', typed_dc ''web-old'' ''ruby'']\<rparr>)) = Inr []"
proof -
  let ?s = "new_state\<lparr>k_dcs := [typed_dc ''web-app'' ''nodejs'', typed_dc ''web-old'' ''ruby'']\<rparr>"
  have "fst (GetDeploymentConfigLabelValues stream_client ComponentTypeLabel
      (ComponentLabel @ ''='' @ ''web'' @ '','' @ ApplicationLabel @ ''='' @ ''app'') ?s) = Inr [''nodejs'', ''ruby'']"
    by code_simp
  then obtain s1 where "GetDeploymentConfigLabelValues stream_client ComponentTypeLabel
      (ComponentLabel @ ''='' @ ''web'' @ '','' @ ApplicationLabel @ ''='' @ ''app'') ?s = (Inr [''nodejs'', ''ruby''], s1)"
    by (metis prod.collapse)
  from type_mismatch_hidden [OF this, of "''nodejs''" "''ruby''"] show ?thesis by simp
qed

text \<open>Listing the components below several paths ends with the error of the last path alone: an error
  met below an earlier path is lost.\<close>

theorem only_last_path_reports:
  assumes "ListIfPathGiven c load cwd walk (paths @ [path]) s = (Inr (e, l), s')"
  shows "\<exists>cs cs' s1. walk_files c load cwd (walk path) cs s1 = (Inr (e, cs'), s') \<and> cl_items l = cs'"
proof -
  from assms obtain cs' where w: "walk_paths c load cwd walk (paths @ [path]) None [] s = (Inr (e, cs'), s')"
    and l: "l = component_list_format cs'"
    by (auto simp: ListIfPathGiven_def bind_ok_iff split: prod.splits)
  from walk_paths_last [OF w] show ?thesis
    by (auto simp: l component_list_format_def)
qed

theorem only_last_path_reports_witness:
  "\<exists>e l. ListIfPathGiven stream_client (\<lambda>p. fails ''unreadable'' []) (Inr ''/'')
      (\<lambda>p. if p = ''a'' then [(''a/.odo'', ''.odo'')] else []) [''a'', ''b''] new_state = (Inr (e, l), new_state)
    \<and> e = None"
proof -
  let ?walk = "\<lambda>p. if p = ''a'' then [(''a/.odo'', ''.odo'')] else []"
  have "\<exists>e l. ListIfPathGiven stream_client (\<lambda>p. fails ''unreadable'' []) (Inr ''/'') ?walk ([''a''] @ [''b'']) new_state
      = (Inr (e, l), new_state)"
    by (simp add: ListIfPathGiven_def op_simps fails_def)
  then obtain e l where r: "ListIfPathGiven stream_client (\<lambda>p. fails ''unreadable'' []) (Inr ''/'') ?walk
      ([''a''] @ [''b'']) new_state = (Inr (e, l), new_state)" by (elim exE) (rule that)
  from only_last_path_reports [OF r] have "e = None" by auto
  with r show ?thesis by simp
qed

end
