(* ===== verification/Files.thy ===== *)
theory Files
  imports Util
begin

text \<open>
  The parts of Go's \<open>path/filepath\<close> and \<open>os\<close> that the transfer of sources uses: \<open>filepath.Match\<close>
  and \<open>filepath.Glob\<close> on slash-separated paths, over what the file system answers for a path.
\<close>

text \<open>
  What \<open>os.Stat\<close> says of a path, and \<open>os.Lstat\<close>, which does not follow links, of one that
  exists; and what a program may ask of a disk.
\<close>

datatype path_stat = Missing string | Unreadable string | Regular | Directory | Special

datatype file_kind = KDir | KLink | KSocket | KOther

record source_disk =
  sd_lstat :: "string \<Rightarrow> file_kind result"
  sd_stat :: "string \<Rightarrow> path_stat"
  sd_readdir :: "string \<Rightarrow> string list result"
  sd_readlink :: "string \<Rightarrow> string result"
  sd_read :: "string \<Rightarrow> string result"


section \<open>Patterns of \<open>filepath.Match\<close>\<close>

definition bad_pattern :: "'a result" where
  "bad_pattern = fails ''syntax error in pattern'' []"

definition backslash :: char where "backslash = CHR 0x5C"

text \<open>A leading run of stars, the pattern up to the next star outside brackets, and the rest.\<close>

fun scan_to_star :: "bool \<Rightarrow> string \<Rightarrow> string \<times> string" where
  "scan_to_star inrange [] = ([], [])"
| "scan_to_star inrange (c # p) =
     (if c = backslash then
        (case p of [] \<Rightarrow> ([c], []) | d # q \<Rightarrow> let (a, b) = scan_to_star inrange q in (c # d # a, b))
      else if c = CHR ''*'' \<and> \<not> inrange then ([], c # p)
      else let (a, b) = scan_to_star
                 (if c = CHR ''['' then True else if c = CHR '']'' then False else inrange) p
           in (c # a, b))"

definition scan_chunk :: "string \<Rightarrow> bool \<times> string \<times> string" where
  "scan_chunk pattern =
     (let p = dropWhile (\<lambda>c. c = CHR ''*'') pattern
      in (has_prefix pattern ''*'', scan_to_star False p))"

fun get_esc :: "string \<Rightarrow> (char \<times> string) result" where
  "get_esc [] = bad_pattern"
| "get_esc (c # p) =
     (if c = CHR ''-'' \<or> c = CHR '']'' then bad_pattern
      else if c = backslash then (case p of d # e # q \<Rightarrow> Inr (d, e # q) | _ \<Rightarrow> bad_pattern)
      else if p = [] then bad_pattern else Inr (c, p))"

lemma get_esc_shorter: "get_esc p = Inr (c, q) \<Longrightarrow> length q < length p"
  by (cases p rule: get_esc.cases) (auto simp: bad_pattern_def split: if_splits list.splits)

text \<open>The ranges of a class up to its closing bracket; \<open>seen\<close> is whether one was read.\<close>

function class_ranges :: "char \<Rightarrow> bool \<Rightarrow> bool \<Rightarrow> string \<Rightarrow> (bool \<times> string) result" where
  "class_ranges r seen m chunk =
     (if seen \<and> has_prefix chunk '']'' then Inr (m, tl chunk)
      else case get_esc chunk of
          Inl f \<Rightarrow> Inl f
        | Inr (lo, chunk1) \<Rightarrow>
            if has_prefix chunk1 ''-'' then
              (case get_esc (tl chunk1) of
                 Inl f \<Rightarrow> Inl f
               | Inr (hi, chunk2) \<Rightarrow> class_ranges r True (m \<or> (lo \<le> r \<and> r \<le> hi)) chunk2)
            else class_ranges r True (m \<or> lo = r) chunk1)"
  by pat_completeness auto
termination
  by (relation "measure (\<lambda>(r, seen, m, chunk). length chunk)") (auto dest!: get_esc_shorter)

declare class_ranges.simps [simp del]

text \<open>\<open>None\<close>: the chunk does not match here; otherwise what is left of the name.\<close>

function match_chunk :: "string \<Rightarrow> string \<Rightarrow> string option result" where
  "match_chunk chunk s =
     (case (chunk, s) of
        ([], _) \<Rightarrow> Inr (Some s)
      | (_, []) \<Rightarrow> Inr None
      | (c # p, r # t) \<Rightarrow>
          if c = CHR ''['' then
            (if p = [] then bad_pattern
             else let negated = has_prefix p ''^'' in
               case class_ranges r False False (if negated then tl p else p) of
                 Inl f \<Rightarrow> Inl f
               | Inr (m, rest) \<Rightarrow> if m = negated then Inr None else match_chunk rest t)
          else if c = CHR ''?'' then (if r = CHR ''/'' then Inr None else match_chunk p t)
          else if c = backslash then
            (case p of [] \<Rightarrow> bad_pattern | d # q \<Rightarrow> if d \<noteq> r then Inr None else match_chunk q t)
          else if c \<noteq> r then Inr None else match_chunk p t)"
  by pat_completeness auto
termination
  by (relation "measure (\<lambda>(chunk, s). length s)") auto

declare match_chunk.simps [simp del]

text \<open>
  The first place, not beyond a slash, at which a chunk after a star matches; the last chunk has
  to match to the end of the name.
\<close>

fun skip_match :: "string \<Rightarrow> bool \<Rightarrow> string \<Rightarrow> string option result" where
  "skip_match chunk at_end [] = Inr None"
| "skip_match chunk at_end (c # name) =
     (if c = CHR ''/'' then Inr None
      else case match_chunk chunk name of
          Inl f \<Rightarrow> Inl f
        | Inr (Some t) \<Rightarrow> if at_end \<and> t \<noteq> [] then skip_match chunk at_end name else Inr (Some t)
        | Inr None \<Rightarrow> skip_match chunk at_end name)"

lemma scan_to_star_app: "scan_to_star b p = (x, y) \<Longrightarrow> x @ y = p"
proof (induction b p arbitrary: x y rule: scan_to_star.induct)
  case (2 b c p)
  show ?case
  proof (cases "c = backslash")
    case True
    with 2 show ?thesis by (cases p) (auto split: prod.splits)
  next
    case False
    with 2 show ?thesis by (fastforce split: if_splits prod.splits)
  qed
qed simp

lemma scan_to_star_progress:
  assumes "scan_to_star False (c # p) = (x, y)" and "c \<noteq> CHR ''*''"
  shows "x \<noteq> []"
  using assms by (cases p) (auto split: if_splits prod.splits)

lemma scan_chunk_shorter:
  assumes "pattern \<noteq> []" and "scan_chunk pattern = (star, chunk, rest)"
  shows "length rest < length pattern"
proof -
  let ?star = "\<lambda>c. c = CHR ''*''"
  have scan: "scan_to_star False (dropWhile ?star pattern) = (chunk, rest)"
    using assms(2) by (simp add: scan_chunk_def Let_def)
  have le: "length (dropWhile ?star pattern) \<le> length pattern" by (rule length_dropWhile_le)
  show ?thesis
  proof (cases "dropWhile ?star pattern")
    case Nil
    with scan have "scan_to_star False [] = (chunk, rest)" by (simp only:)
    then show ?thesis using assms(1) by simp
  next
    case (Cons c p)
    then have "c \<noteq> CHR ''*''" by (metis (full_types) dropWhile_eq_Cons_conv)
    with scan Cons have "chunk \<noteq> []" by (metis scan_to_star_progress)
    moreover have "length chunk + length rest = length (dropWhile ?star pattern)"
      using scan_to_star_app [OF scan] by (metis length_append)
    ultimately show ?thesis using le by (cases chunk) auto
  qed
qed

function path_match :: "string \<Rightarrow> string \<Rightarrow> bool result" where
  "path_match pattern name =
     (if pattern = [] then Inr (name = [])
      else let (star, chunk, rest) = scan_chunk pattern in
        if star \<and> chunk = [] then Inr (CHR ''/'' \<notin> set name)
        else case match_chunk chunk name of
            Inr (Some t) \<Rightarrow>
              if t = [] \<or> rest \<noteq> [] then path_match rest t
              else if star then
                (case skip_match chunk (rest = []) name of
                   Inl f \<Rightarrow> Inl f
                 | Inr None \<Rightarrow> Inr False
                 | Inr (Some t) \<Rightarrow> path_match rest t)
              else Inr False
          | Inl f \<Rightarrow> Inl f
          | Inr None \<Rightarrow>
              if star then
                (case skip_match chunk (rest = []) name of
                   Inl f \<Rightarrow> Inl f
                 | Inr None \<Rightarrow> Inr False
                 | Inr (Some t) \<Rightarrow> path_match rest t)
              else Inr False)"
  by pat_completeness auto
termination
  by (relation "measure (\<lambda>(pattern, name). length pattern)")
     (simp_all, (metis scan_chunk_shorter)+)

declare path_match.simps [simp del]


section \<open>\<open>filepath.Glob\<close>\<close>

definition is_meta :: "char \<Rightarrow> bool" where
  "is_meta c \<longleftrightarrow> c = CHR ''*'' \<or> c = CHR ''?'' \<or> c = CHR ''['' \<or> c = backslash"

definition has_meta :: "string \<Rightarrow> bool" where
  "has_meta p \<longleftrightarrow> list_ex is_meta p"

text \<open>The names in one directory that match; a directory that cannot be listed has none.\<close>

fun glob_names :: "string \<Rightarrow> string \<Rightarrow> string list \<Rightarrow> string list result" where
  "glob_names dir pattern [] = Inr []"
| "glob_names dir pattern (n # names) =
     bindR (path_match pattern n) (\<lambda>matched.
       bindR (glob_names dir pattern names) (\<lambda>m.
         Inr (if matched then path_join [dir, n] # m else m)))"

definition glob_dir :: "source_disk \<Rightarrow> string \<Rightarrow> string \<Rightarrow> string list result" where
  "glob_dir dk dir pattern =
     (if sd_stat dk dir \<noteq> Directory then Inr []
      else case sd_readdir dk dir of Inl _ \<Rightarrow> Inr [] | Inr names \<Rightarrow> glob_names dir pattern (sort names))"

text \<open>The directory part of a pattern without its last slash, and the rest.\<close>

definition glob_split :: "string \<Rightarrow> string \<times> string" where
  "glob_split p =
     (let file = after_last CHR ''/'' p; d = take (length p - length file) p
      in (if d = [] then ''.'' else if d = ''/'' then d else butlast d, file))"

lemma has_meta_Nil [simp]: "\<not> has_meta []"
  by (simp add: has_meta_def)

lemma glob_split_shorter: "p \<noteq> [] \<Longrightarrow> has_meta (fst (glob_split p)) \<Longrightarrow> length (fst (glob_split p)) < length p"
  by (auto simp: glob_split_def Let_def has_meta_def is_meta_def backslash_def split: if_splits)

function path_glob :: "source_disk \<Rightarrow> string \<Rightarrow> string list result" where
  "path_glob dk pattern =
     (if \<not> has_meta pattern then Inr (case sd_lstat dk pattern of Inl _ \<Rightarrow> [] | Inr _ \<Rightarrow> [pattern])
      else let (dir, file) = glob_split pattern in
        if \<not> has_meta dir then glob_dir dk dir file
        else bindR (path_glob dk dir) (\<lambda>ds. bindR (mapR (\<lambda>d. glob_dir dk d file) ds) (\<lambda>ms. Inr (concat ms))))"
  by pat_completeness auto
termination
  by (relation "measure (\<lambda>(dk, pattern). length pattern)")
     (simp_all, metis fst_conv glob_split_shorter has_meta_Nil)

declare path_glob.simps [simp del]

lemma path_glob_plain:
  "\<not> has_meta p \<Longrightarrow> path_glob dk p = Inr (case sd_lstat dk p of Inl _ \<Rightarrow> [] | Inr _ \<Rightarrow> [p])"
  by (subst path_glob.simps) simp


section \<open>Relative paths\<close>

text \<open>\<open>filepath.Rel\<close> on slash-separated paths.\<close>

fun drop_common :: "string list \<Rightarrow> string list \<Rightarrow> string list \<times> string list" where
  "drop_common (b # bs) (t # ts) = (if b = t then drop_common bs ts else (b # bs, t # ts))"
| "drop_common bs ts = (bs, ts)"

definition rel_parts :: "string \<Rightarrow> string list" where
  "rel_parts p = filter (\<lambda>e. e \<noteq> []) (split_on CHR ''/'' p)"

definition path_rel :: "string \<Rightarrow> string \<Rightarrow> error + string" where
  "path_rel basepath targpath =
     (let base = path_clean basepath; targ = path_clean targpath;
          failed = Inl (Errorf ''Rel: can't make %s relative to %s'' [targpath, basepath])
      in if targ = base then Inr ''.''
         else let base = (if base = ''.'' then [] else base)
              in if has_prefix base ''/'' \<noteq> has_prefix targ ''/'' then failed
                 else case drop_common (rel_parts base) (rel_parts targ) of
                     ([], ts) \<Rightarrow> Inr (join_with ''/'' ts)
                   | (b # bs, ts) \<Rightarrow>
                       if ts \<noteq> [] \<and> b = ''..'' then failed
                       else Inr (join_with ''/'' (map (\<lambda>_. ''..'') (b # bs) @ ts)))"


section \<open>Paths of plain names\<close>

text \<open>
  The names of ordinary files, without a slash or a special meaning, those that are their own
  pattern, and the paths made of them, from the root and relative.
\<close>

definition plain_name :: "string \<Rightarrow> bool" where
  "plain_name n \<longleftrightarrow> n \<noteq> [] \<and> n \<noteq> ''.'' \<and> n \<noteq> ''..'' \<and> CHR ''/'' \<notin> set n"

definition plain_names :: "string list \<Rightarrow> bool" where
  "plain_names ns \<longleftrightarrow> list_all plain_name ns"

definition literal_names :: "string list \<Rightarrow> bool" where
  "literal_names ns \<longleftrightarrow> plain_names ns \<and> list_all (\<lambda>n. \<not> has_meta n) ns"

definition below_path :: "string list \<Rightarrow> string" where
  "below_path ns = join_with ''/'' ns"

definition rooted_path :: "string list \<Rightarrow> string" where
  "rooted_path ns = CHR ''/'' # below_path ns"

lemma plain_names_simps [simp]:
  "plain_names []"
  "plain_names (n # ns) \<longleftrightarrow> plain_name n \<and> plain_names ns"
  "plain_names (ns @ ms) \<longleftrightarrow> plain_names ns \<and> plain_names ms"
  by (auto simp: plain_names_def)

lemma literal_names_simps [simp]:
  "literal_names []"
  "literal_names (n # ns) \<longleftrightarrow> plain_name n \<and> \<not> has_meta n \<and> literal_names ns"
  "literal_names (ns @ ms) \<longleftrightarrow> literal_names ns \<and> literal_names ms"
  by (auto simp: literal_names_def)

lemma literal_plain [simp]: "literal_names ns \<Longrightarrow> plain_names ns"
  by (simp add: literal_names_def)

lemma plain_names_in: "plain_names ns \<Longrightarrow> n \<in> set ns \<Longrightarrow> plain_name n"
  by (auto simp: plain_names_def list_all_iff)

lemma split_below: "plain_names ns \<Longrightarrow> ns \<noteq> [] \<Longrightarrow> split_on CHR ''/'' (below_path ns) = ns"
  unfolding below_path_def by (rule split_join) (auto dest: plain_names_in simp: plain_name_def)

lemma filter_plain:
  "plain_names ns \<Longrightarrow> filter (\<lambda>c. c \<noteq> [] \<and> c \<noteq> ''.'') ns = ns"
  "plain_names ns \<Longrightarrow> filter (\<lambda>e. e \<noteq> []) ns = ns"
  by (auto intro!: filter_True dest: plain_names_in simp: plain_name_def)

lemma parts_plain [simp]:
  assumes "plain_names ns"
  shows "path_parts (below_path ns) = ns" "path_parts (rooted_path ns) = ns"
    "rel_parts (below_path ns) = ns" "rel_parts (rooted_path ns) = ns"
  by (cases "ns = []";
      simp add: path_parts_def rel_parts_def rooted_path_def split_below [OF assms] filter_plain [OF assms];
      simp add: below_path_def)+

lemma clean_plain: "plain_names ns \<Longrightarrow> foldl (clean_step r) st ns = rev ns @ st"
  by (induction ns arbitrary: st) (auto simp: plain_name_def)

lemma below_Nil [simp]: "below_path [] = []"
  by (simp add: below_path_def)

lemma below_path_hd:
  assumes "plain_names ns"
  shows "has_prefix (below_path ns) ''/'' = False"
proof (cases ns)
  case (Cons n ms)
  then show ?thesis using assms
    by (cases ms; cases n) (auto simp: below_path_def has_prefix_def plain_name_def)
qed (simp add: has_prefix_def)

lemma rooted_prefix [simp]: "has_prefix (rooted_path ns) ''/''"
  by (simp add: rooted_path_def has_prefix_def)

lemma path_clean_plain [simp]:
  assumes "plain_names ns"
  shows "path_clean (rooted_path ns) = rooted_path ns"
    and "ns \<noteq> [] \<Longrightarrow> path_clean (below_path ns) = below_path ns"
  using assms by (simp_all add: path_clean_def clean_plain below_path_hd Let_def)
    (simp_all add: rooted_path_def below_path_def)

lemma below_append: "ns \<noteq> [] \<Longrightarrow> ms \<noteq> [] \<Longrightarrow> below_path (ns @ ms) = below_path ns @ ''/'' @ below_path ms"
proof (induction ns)
  case (Cons n ns)
  then show ?case by (cases "ns = []") (simp_all add: below_path_def join_with_Cons)
qed simp

lemma below_not_Nil: "plain_names ns \<Longrightarrow> ns \<noteq> [] \<Longrightarrow> below_path ns \<noteq> []"
  using split_below [of ns] by (auto simp: plain_name_def)

lemma join_below [simp]:
  assumes "plain_names ns" "ns \<noteq> []" "plain_names ms" "ms \<noteq> []"
  shows "path_join [below_path ns, below_path ms] = below_path (ns @ ms)"
proof -
  have "path_join [below_path ns, below_path ms] = path_clean (below_path (ns @ ms))"
    using assms by (simp add: path_join_def below_not_Nil below_append)
  then show ?thesis using assms by simp
qed

lemma join_rooted [simp]:
  assumes "plain_names ns" "plain_names ms" "ms \<noteq> []"
  shows "path_join [rooted_path ns, below_path ms] = rooted_path (ns @ ms)"
proof (cases "ns = []")
  case False
  have "path_join [rooted_path ns, below_path ms] = path_clean (rooted_path (ns @ ms))"
    using assms False by (simp add: path_join_def below_not_Nil below_append rooted_path_def)
  then show ?thesis using assms by simp
next
  case True
  have "path_parts (''//'' @ below_path ms) = ms"
    using parts_plain(2) [OF assms(2)] by (simp add: path_parts_def rooted_path_def)
  then show ?thesis using assms True
    by (simp add: path_join_def below_not_Nil rooted_path_def path_clean_def clean_plain Let_def has_prefix_def)
       (simp add: below_path_def)
qed

lemma join_name [simp]:
  assumes "plain_names ns" "ns \<noteq> []" "plain_name n"
  shows "path_join [below_path ns, n] = below_path (ns @ [n])"
  using join_below [of ns "[n]"] assms by (simp add: below_path_def [of "[n]"])

lemma after_last_app: "c \<notin> set t \<Longrightarrow> after_last c (s @ c # t) = t"
proof -
  assume "c \<notin> set t"
  then have "takeWhile (\<lambda>x. x \<noteq> c) (rev t @ c # rev s) = rev t"
    by (intro takeWhile_tail [of _ c, THEN trans]) auto
  then show ?thesis by (simp add: after_last_def)
qed

lemma rooted_snoc: "\<exists>s. rooted_path (ns @ [n]) = s @ CHR ''/'' # n \<and> (ns \<noteq> [] \<longrightarrow> s = rooted_path ns) \<and> (ns = [] \<longrightarrow> s = [])"
  by (cases "ns = []") (auto simp: rooted_path_def below_append below_path_def [of "[n]"])

lemma path_base_rooted [simp]:
  assumes "plain_name n"
  shows "path_base (rooted_path (ns @ [n])) = n"
proof -
  obtain s where s: "rooted_path (ns @ [n]) = s @ CHR ''/'' # n" using rooted_snoc by blast
  have "strip_suffix (\<lambda>c. c = CHR ''/'') (s @ CHR ''/'' # n) = s @ CHR ''/'' # n"
    using assms by (intro strip_suffix_id) (auto simp: plain_name_def dest: last_in_set)
  then show ?thesis using assms s by (simp add: path_base_def after_last_app plain_name_def)
qed

lemma path_dir_rooted [simp]:
  assumes "plain_names ns" "plain_name n"
  shows "path_dir (rooted_path (ns @ [n])) = rooted_path ns"
proof -
  obtain s where s: "rooted_path (ns @ [n]) = s @ CHR ''/'' # n"
      "ns \<noteq> [] \<Longrightarrow> s = rooted_path ns" "ns = [] \<Longrightarrow> s = []" using rooted_snoc by blast
  have cut: "path_dir (rooted_path (ns @ [n])) = path_clean (s @ ''/'')"
    using assms s(1) by (simp add: path_dir_def after_last_app plain_name_def)
  show ?thesis
  proof (cases "ns = []")
    case False
    have parts: "split_on CHR ''/'' (below_path ns @ ''/'') = ns @ [[]]"
      using split_join [of "ns @ [[]]" "CHR ''/''"] assms False
      by (force simp: plain_name_def below_append [of ns "[[]]", unfolded below_path_def] below_path_def
          dest: plain_names_in)
    show ?thesis using cut s(2) [OF False] assms False
      by (simp add: path_clean_def path_parts_def rooted_path_def parts filter_plain(1) clean_plain has_prefix_def)
         (simp add: below_path_def)
  next
    case True
    have "path_clean ''/'' = ''/''" by (simp add: path_clean_def path_parts_def has_prefix_def)
    then show ?thesis unfolding cut using s(3) [OF True] True by (simp add: rooted_path_def)
  qed
qed

lemma drop_common_app: "drop_common ns (ns @ ms) = ([], ms)"
  by (induction ns) (auto split: list.split)

lemma path_rel_below:
  assumes "plain_names ns" "plain_names ms" "ms \<noteq> []"
  shows "path_rel (rooted_path ns) (rooted_path (ns @ ms)) = Inr (below_path ms)"
proof -
  have "rooted_path (ns @ ms) \<noteq> rooted_path ns"
    using parts_plain(2) [of "ns @ ms"] parts_plain(2) [of ns] assms by fastforce
  moreover have "rooted_path ns \<noteq> ''.''" by (simp add: rooted_path_def)
  ultimately show ?thesis
    using assms by (simp add: path_rel_def Let_def drop_common_app below_path_def [symmetric])
qed

lemma has_meta_below: "literal_names ns \<Longrightarrow> \<not> has_meta (below_path ns)"
proof -
  assume ns: "literal_names ns"
  have "set (below_path ns) \<subseteq> insert CHR ''/'' (\<Union> (set ` set ns))"
    unfolding below_path_def by (induction "''/''" ns rule: join_with.induct) auto
  then show ?thesis using ns
    by (fastforce simp: has_meta_def list_ex_iff list_all_iff literal_names_def is_meta_def backslash_def)
qed

lemma has_meta_rooted: "literal_names ns \<Longrightarrow> \<not> has_meta (rooted_path ns)"
  using has_meta_below [of ns] by (simp add: rooted_path_def has_meta_def is_meta_def backslash_def)

lemma rooted_path_snoc: "ns \<noteq> [] \<Longrightarrow> rooted_path (ns @ [n]) = rooted_path ns @ CHR ''/'' # n"
  by (simp add: rooted_path_def below_append below_path_def [of "[n]"])


section \<open>Names with brackets\<close>

text \<open>A pattern without metacharacters up to some point has to be met literally up to it.\<close>

lemma match_chunk_literal:
  "\<not> has_meta a \<Longrightarrow> match_chunk (a @ q) s =
     (if length s < length a \<and> take (length s) a = s then Inr None
      else if take (length a) s = a then match_chunk q (drop (length a) s) else Inr None)"
proof (induction a arbitrary: s)
  case (Cons c a)
  then show ?case
    by (cases s) (auto simp: match_chunk.simps [of "c # _"] has_meta_def is_meta_def)
qed (simp add: match_chunk.simps [of _ s])

lemma match_chunk_end: "match_chunk [] s = Inr (Some s)"
  by (simp add: match_chunk.simps)

lemma scan_literal:
  "\<not> has_meta a \<Longrightarrow> scan_to_star b (a @ q) = (let (x, y) = scan_to_star (b \<and> CHR '']'' \<notin> set a) q in (a @ x, y))"
  by (induction a arbitrary: b) (auto simp: has_meta_def is_meta_def split: prod.splits)

text \<open>
  The pattern that a name with one character in brackets is: the name with the character alone
  matches it, the name itself does not.
\<close>

definition bracketed :: "string \<Rightarrow> char \<Rightarrow> string \<Rightarrow> string" where
  "bracketed a c b = a @ CHR ''['' # c # CHR '']'' # b"

lemma path_match_bracketed:
  assumes "\<not> has_meta a" "\<not> has_meta b" "\<not> is_meta c" "c \<notin> set ''-]^''"
  shows "path_match (bracketed a c b) n = Inr (n = a @ c # b)"
proof -
  have class_c: "class_ranges r False False (c # CHR '']'' # b) = Inr (c = r, b)" for r
    using assms(3,4) by (simp add: class_ranges.simps has_prefix_def is_meta_def)
  have chunk: "scan_chunk (bracketed a c b) = (False, bracketed a c b, [])"
    using assms scan_literal [of a False "CHR ''['' # c # CHR '']'' # b"] scan_literal [of b False "[]"]
    by (cases a) (auto simp: scan_chunk_def bracketed_def has_prefix_def Let_def is_meta_def has_meta_def backslash_def)
  have match_b: "match_chunk b t = Inr (if take (length b) t = b then Some (drop (length b) t) else None)" for t
    using match_chunk_literal [of b "[]" t] assms(2) by (auto simp: match_chunk_end)
  have match_c: "match_chunk (CHR ''['' # c # CHR '']'' # b) (r # t) = (if c = r then match_chunk b t else Inr None)" for r t
    using class_c assms(4) by (simp add: match_chunk.simps [of "CHR ''['' # _"] has_prefix_def)
  have match_rest: "match_chunk (CHR ''['' # c # CHR '']'' # b) t
      = Inr (if \<exists>u. t = c # b @ u then Some (drop (Suc (length b)) t) else None)" for t
    by (cases t) (auto simp: match_c match_b match_chunk.simps [of _ "[]"], metis append_take_drop_id)
  have "match_chunk (bracketed a c b) n
      = Inr (if \<exists>u. n = a @ c # b @ u then Some (drop (length a + Suc (length b)) n) else None)"
    unfolding bracketed_def match_chunk_literal [OF assms(1)] match_rest
    by (auto simp: add.commute) (metis append_take_drop_id append_eq_conv_conj)+
  moreover have "bracketed a c b \<noteq> []" by (simp add: bracketed_def)
  ultimately show ?thesis
    by (subst path_match.simps) (auto simp: chunk path_match.simps [of "[]"])
qed

end
