(* ===== verification/Watch.thy ===== *)
theory Watch
  imports Component Files "HOL-Library.Word"
begin

text \<open>
  \<open>pkg/component/watch.go\<close>: two goroutines share, under one lock, what changed in the watched
  directory. One gathers the events of the file system, the other pushes what was gathered once
  nothing has happened for a while. Each step of the relation is one section under the lock;
  a step carries the time and what the operating system answers during it.
\<close>

unbundle bit_operations_syntax


section \<open>Events and the file system\<close>

text \<open>\<open>fsnotify.Op\<close> is a set of bits of a \<open>uint32\<close>.\<close>

record fs_event =
  fe_name :: string
  fe_op :: "32 word"

definition op_create :: "32 word" where "op_create = 1"
definition op_write :: "32 word" where "op_write = 2"
definition op_remove :: "32 word" where "op_remove = 4"
definition op_rename :: "32 word" where "op_rename = 8"

definition has_op :: "fs_event \<Rightarrow> 32 word \<Rightarrow> bool" where
  "has_op event b \<longleftrightarrow> fe_op event AND b = b"

definition is_gone :: "fs_event \<Rightarrow> bool" where
  "is_gone event \<longleftrightarrow> has_op event op_remove \<or> has_op event op_rename"

text \<open>What \<open>filepath.Walk\<close> meets; a bad entry is passed with its error.\<close>

datatype walk_tree = WFile string | WDir string "walk_tree list" | WBad string

record file_system =
  fs_lstat :: "string \<Rightarrow> bool option"
  fs_stat :: "string \<Rightarrow> path_stat"
  fs_exists :: "string \<Rightarrow> bool"
  fs_tree :: "string \<Rightarrow> walk_tree"
  fs_add :: "string \<Rightarrow> bool"

section \<open>Watches below a path\<close>

text \<open>
  The folders of a walk that are not ignored, and whether the walk went on to the end: a
  directory that matches is skipped, an entry that cannot be read or a bad rule ends the walk.
\<close>

fun gather :: "(string \<Rightarrow> bool result) \<Rightarrow> walk_tree \<Rightarrow> string list \<Rightarrow> bool \<times> string list"
  and gathers :: "(string \<Rightarrow> bool result) \<Rightarrow> walk_tree list \<Rightarrow> string list \<Rightarrow> bool \<times> string list" where
  "gather match (WFile newPath) folders = (True, folders)"
| "gather match (WBad newPath) folders = (False, folders)"
| "gather match (WDir newPath ts) folders =
     (case match newPath of
        Inl _ \<Rightarrow> (False, folders)
      | Inr True \<Rightarrow> (True, folders)
      | Inr False \<Rightarrow> gathers match ts (folders @ [newPath]))"
| "gathers match [] folders = (True, folders)"
| "gathers match (t # ts) folders =
     (case gather match t folders of
        (False, folders) \<Rightarrow> (False, folders)
      | (True, folders) \<Rightarrow> gathers match ts folders)"

text \<open>The paths the watcher has; a failure of \<open>watcher.Add\<close> is only logged.\<close>

definition add_watch :: "file_system \<Rightarrow> string \<Rightarrow> (string list, unit) op" where
  "add_watch fs path = (if fs_add fs path then modify (List.insert path) else return ())"

definition addRecursiveWatch ::
  "(string \<Rightarrow> (string \<Rightarrow> bool) result) \<Rightarrow> file_system \<Rightarrow> string \<Rightarrow> string list \<Rightarrow> (string list, unit) op" where
  "addRecursiveWatch compile fs path ignores =
     (let match = (\<lambda>p. IsGlobExpMatch compile p ignores);
          watch_folders = each (\<lambda>folder. case match folder of
              Inr True \<Rightarrow> return ()
            | _ \<Rightarrow> if \<not> fs_exists fs path then return () else add_watch fs folder)
            (snd (gather match (fs_tree fs path) []))
      in case fs_stat fs path of
           Missing _ \<Rightarrow> return ()
         | Unreadable err \<Rightarrow> failing ''error introspecting path %s: %v'' [path, err]
         | Regular \<Rightarrow> bind (wrapping ''unable to watcher on %s'' [path] (lift (match path))) (\<lambda>matched.
             if \<not> matched then (if \<not> fs_exists fs path then return () else add_watch fs path)
             else watch_folders)
         | _ \<Rightarrow> watch_folders)"


section \<open>The shared state\<close>

datatype phase = Running | Returned error | Crashed fault | Stuck

record watching =
  wa_dirty :: bool
  wa_last :: int
  wa_error :: "error option"
  wa_deleted :: "string list"
  wa_changed :: "string list"
  wa_watched :: "string list"
  wa_phase :: phase

text \<open>The handler gets the component, the application, a path, the changed and the deleted files.\<close>

record 's WatchParameters =
  wp_component :: string
  wp_application :: string
  wp_path :: string
  wp_ignores :: "string list"
  wp_delay :: int
  wp_handler :: "string \<Rightarrow> string \<Rightarrow> string \<Rightarrow> string list \<Rightarrow> string list \<Rightarrow> ('s, unit option) op"

definition ErrUserRequestedWatchExit :: error where
  "ErrUserRequestedWatchExit = Errorf ''safely exiting from filesystem watch based on user request'' []"

text \<open>The watch before the loops; \<open>new_watcher\<close> is the answer of \<open>fsnotify.NewWatcher\<close>.\<close>

definition watch_start ::
  "(string \<Rightarrow> (string \<Rightarrow> bool) result) \<Rightarrow> 's WatchParameters \<Rightarrow> unit result \<Rightarrow> file_system \<Rightarrow> watching result" where
  "watch_start compile p new_watcher fs =
     (case new_watcher of
        Inl (Err err) \<Rightarrow> fails ''error setting up filesystem watcher: %v'' [error_text err]
      | Inl f \<Rightarrow> Inl f
      | Inr _ \<Rightarrow>
          (case addRecursiveWatch compile fs (wp_path p) (wp_ignores p) [] of
             (Inl (Err err), _) \<Rightarrow> fails ''error watching source path %s: %v'' [wp_path p, error_text err]
           | (Inl f, _) \<Rightarrow> Inl f
           | (Inr _, watched) \<Rightarrow> Inr \<lparr>wa_dirty = False, wa_last = 0, wa_error = None, wa_deleted = [],
               wa_changed = [], wa_watched = watched, wa_phase = Running\<rparr>))"


section \<open>The goroutine that gathers\<close>

text \<open>An event is noted when it is not a duplicate, not ignored, and, unless the file is gone, the file is there.\<close>

definition ignored_event :: "file_system \<Rightarrow> fs_event \<Rightarrow> bool" where
  "ignored_event fs event \<longleftrightarrow> \<not> is_gone event \<and>
     (case fs_lstat fs (fe_name event) of None \<Rightarrow> True | Some isDir \<Rightarrow> isDir \<and> has_op event op_write)"

definition note_change :: "bool \<Rightarrow> bool \<Rightarrow> file_system \<Rightarrow> fs_event \<Rightarrow> watching \<Rightarrow> watching" where
  "note_change already matched fs event w =
     (if \<not> already \<and> \<not> matched \<and> \<not> ignored_event fs event \<and> \<not> has_op event op_remove
      then w\<lparr>wa_changed := wa_changed w @ [fe_name event]\<rparr> else w)"

definition note_gone :: "bool \<Rightarrow> bool \<Rightarrow> string \<Rightarrow> fs_event \<Rightarrow> watching \<Rightarrow> watching" where
  "note_gone already matched path event w =
     (let w = w\<lparr>wa_watched := removeAll (fe_name event) (wa_watched w)\<rparr>
      in if \<not> already \<and> \<not> matched \<and> fe_name event \<noteq> [] then
           (case path_rel path (fe_name event) of
              Inl err \<Rightarrow> w\<lparr>wa_error := Some (Wrapf err
                  ''failed to propagate delete of file %s as its relative to %s couldn't be found'' [fe_name event, path]),
                wa_deleted := wa_deleted w @ [[]]\<rparr>
            | Inr relPath \<Rightarrow> w\<lparr>wa_deleted := wa_deleted w @ [relPath]\<rparr>)
         else w)"

definition note_watch ::
  "(string \<Rightarrow> (string \<Rightarrow> bool) result) \<Rightarrow> file_system \<Rightarrow> string list \<Rightarrow> fs_event \<Rightarrow> watching \<Rightarrow> watching" where
  "note_watch compile fs ignores event w =
     (case addRecursiveWatch compile fs (fe_name event) ignores (wa_watched w) of
        (Inr _, watched) \<Rightarrow> w\<lparr>wa_watched := watched\<rparr>
      | (Inl (Err e), watched) \<Rightarrow> w\<lparr>wa_watched := watched,
          wa_error := (case wa_error w of None \<Rightarrow> Some e | Some e' \<Rightarrow> Some e')\<rparr>
      | (Inl f, watched) \<Rightarrow> w\<lparr>wa_watched := watched, wa_phase := Crashed f\<rparr>)"

definition notified ::
  "(string \<Rightarrow> (string \<Rightarrow> bool) result) \<Rightarrow> 's WatchParameters \<Rightarrow> int \<Rightarrow> file_system \<Rightarrow> fs_event \<Rightarrow>
   watching \<Rightarrow> watching" where
  "notified compile p now fs event w =
     (let already = list_ex (\<lambda>cfile. cfile = fe_name event) (wa_changed w) in
      case IsGlobExpMatch compile (fe_name event) (wp_ignores p) of
        Inl (Panic m) \<Rightarrow> w\<lparr>wa_phase := Crashed (Panic m)\<rparr>
      | Inl (Exit m) \<Rightarrow> w\<lparr>wa_phase := Crashed (Exit m)\<rparr>
      | r \<Rightarrow>
        let matched = (case r of Inr b \<Rightarrow> b | Inl _ \<Rightarrow> False);
            w = (case r of Inl (Err err) \<Rightarrow> w\<lparr>wa_error := Some (Wrapf err ''unable to watch changes'' [])\<rparr> | _ \<Rightarrow> w);
            w = (note_change already matched fs event w)\<lparr>wa_last := now, wa_dirty := True\<rparr>
        in if is_gone event then note_gone already matched (wp_path p) event w
           else note_watch compile fs (wp_ignores p) event w)"


section \<open>The goroutine that pushes\<close>

definition handed_over :: "'s WatchParameters \<Rightarrow> path_stat \<Rightarrow> watching \<Rightarrow> ('s, unit option) op" where
  "handed_over p st w =
     (if st = Directory
      then wp_handler p (wp_component p) (wp_application p) (wp_path p) (wa_changed w) (wa_deleted w)
      else wp_handler p (wp_component p) (wp_application p) (path_dir (wp_path p)) [wp_path p] (wa_deleted w))"

text \<open>One turn of the loop. An error of the handler is only logged; a handler that waits keeps the lock.\<close>

definition turn :: "'s WatchParameters \<Rightarrow> int \<Rightarrow> path_stat \<Rightarrow> watching \<Rightarrow> 's \<Rightarrow> watching \<times> 's" where
  "turn p now st w s =
     (case wa_error w of
        Some err \<Rightarrow> (w\<lparr>wa_phase := Returned err\<rparr>, s)
      | None \<Rightarrow>
          if wa_dirty w \<and> wa_last w + wp_delay p < now \<and> (length (wa_changed w) > 0 \<or> length (wa_deleted w) > 0) then
            (case st of
               Missing err \<Rightarrow> (w\<lparr>wa_phase := Returned (Wrapf (Errorf err []) ''%s: file doesn't exist'' [wp_path p])\<rparr>, s)
             | Unreadable err \<Rightarrow> (w\<lparr>wa_phase := Returned (Wrapf (Errorf err []) ''%s: file doesn't exist'' [wp_path p])\<rparr>, s)
             | _ \<Rightarrow>
               (case handed_over p st w s of
                  (Inr None, s') \<Rightarrow> (w\<lparr>wa_phase := Stuck\<rparr>, s')
                | (Inl (Panic m), s') \<Rightarrow> (w\<lparr>wa_phase := Crashed (Panic m)\<rparr>, s')
                | (Inl (Exit m), s') \<Rightarrow> (w\<lparr>wa_phase := Crashed (Exit m)\<rparr>, s')
                | (_, s') \<Rightarrow> (w\<lparr>wa_dirty := False, wa_changed := [], wa_deleted := []\<rparr>, s')))
          else (w, s))"


section \<open>Steps and runs\<close>

datatype action =
    Notified int file_system fs_event
  | Asked bool
  | WatcherFailed string
  | Turn int path_stat

inductive watch_step ::
  "(string \<Rightarrow> (string \<Rightarrow> bool) result) \<Rightarrow> 's WatchParameters \<Rightarrow> watching \<times> 's \<Rightarrow> action \<Rightarrow> watching \<times> 's \<Rightarrow> bool"
  for compile p where
  event: "wa_phase w = Running \<Longrightarrow>
    watch_step compile p (w, s) (Notified now fs ev) (notified compile p now fs ev w, s)"
| asked: "wa_phase w = Running \<Longrightarrow> watch_step compile p (w, s) (Asked extMsg)
    ((if extMsg then w\<lparr>wa_error := Some ErrUserRequestedWatchExit\<rparr> else w), s)"
| failed: "wa_phase w = Running \<Longrightarrow> watch_step compile p (w, s) (WatcherFailed err)
    (w\<lparr>wa_error := Some (Errorf ''error watching filesystem for changes: %v'' [err])\<rparr>, s)"
| turned: "wa_phase w = Running \<Longrightarrow> turn p now st w s = (w', s') \<Longrightarrow>
    watch_step compile p (w, s) (Turn now st) (w', s')"

inductive watch_run ::
  "(string \<Rightarrow> (string \<Rightarrow> bool) result) \<Rightarrow> 's WatchParameters \<Rightarrow> watching \<times> 's \<Rightarrow> action list \<Rightarrow> watching \<times> 's \<Rightarrow> bool"
  for compile p where
  stop: "watch_run compile p c [] c"
| more: "watch_run compile p c as c1 \<Longrightarrow> watch_step compile p c1 a c2 \<Longrightarrow> watch_run compile p c (as @ [a]) c2"

inductive_cases watch_eventE: "watch_step compile p c (Notified now fs ev) c'"
inductive_cases watch_askedE: "watch_step compile p c (Asked b) c'"
inductive_cases watch_failedE: "watch_step compile p c (WatcherFailed m) c'"
inductive_cases watch_turnE: "watch_step compile p c (Turn now st) c'"

inductive_simps watch_step_iff [simp]:
  "watch_step compile p (w, s) (Notified now fs ev) c'"
  "watch_step compile p (w, s) (Asked b) c'"
  "watch_step compile p (w, s) (WatcherFailed m) c'"
  "watch_step compile p (w, s) (Turn now st) c'"

text \<open>The same steps as a function, for concrete runs.\<close>

fun watch_next ::
  "(string \<Rightarrow> (string \<Rightarrow> bool) result) \<Rightarrow> 's WatchParameters \<Rightarrow> action \<Rightarrow> watching \<times> 's \<Rightarrow> watching \<times> 's" where
  "watch_next compile p (Notified now fs ev) (w, s) = (notified compile p now fs ev w, s)"
| "watch_next compile p (Asked b) (w, s) =
     ((if b then w\<lparr>wa_error := Some ErrUserRequestedWatchExit\<rparr> else w), s)"
| "watch_next compile p (WatcherFailed m) (w, s) =
     (w\<lparr>wa_error := Some (Errorf ''error watching filesystem for changes: %v'' [m])\<rparr>, s)"
| "watch_next compile p (Turn now st) (w, s) = turn p now st w s"

fun watch_exec ::
  "(string \<Rightarrow> (string \<Rightarrow> bool) result) \<Rightarrow> 's WatchParameters \<Rightarrow> action list \<Rightarrow> watching \<times> 's \<Rightarrow> (watching \<times> 's) option" where
  "watch_exec compile p [] c = Some c"
| "watch_exec compile p (a # as) c =
     (if wa_phase (fst c) = Running then watch_exec compile p as (watch_next compile p a c) else None)"


section \<open>Facts\<close>

text \<open>The function and the relation agree.\<close>

lemma watch_step_next:
  "watch_step compile p c a c' \<longleftrightarrow> wa_phase (fst c) = Running \<and> c' = watch_next compile p a c"
  by (cases c; cases a) auto

lemma watch_run_Cons:
  assumes "watch_step compile p c a c1" and "watch_run compile p c1 as c2"
  shows "watch_run compile p c (a # as) c2"
  using assms(2,1)
proof (induction rule: watch_run.induct)
  case (stop c)
  then show ?case using watch_run.more [OF watch_run.stop] by fastforce
next
  case (more c1 as c2 b c3)
  then show ?case using watch_run.more [of compile p c "a # as" c2 b c3] by simp
qed

lemma watch_run_append:
  "watch_run compile p c1 bs c2 \<Longrightarrow> watch_run compile p c as c1 \<Longrightarrow> watch_run compile p c (as @ bs) c2"
proof (induction rule: watch_run.induct)
  case (more c1 bs c2 a c3)
  then show ?case using watch_run.more [of compile p c "as @ bs" c2 a c3] by simp
qed simp

lemma watch_exec_run: "watch_exec compile p as c = Some c' \<Longrightarrow> watch_run compile p c as c'"
proof (induction as arbitrary: c)
  case Nil
  then show ?case by (auto intro: watch_run.stop)
next
  case (Cons a as)
  then have "wa_phase (fst c) = Running" "watch_exec compile p as (watch_next compile p a c) = Some c'"
    by (auto split: if_splits)
  with Cons.IH [of "watch_next compile p a c"] show ?case
    by (intro watch_run_Cons [of compile p c a "watch_next compile p a c"]) (simp_all add: watch_step_next)
qed

lemma watch_run_snoc: "watch_run compile p c (as @ [a]) c2 \<Longrightarrow>
    \<exists>c1. watch_run compile p c as c1 \<and> watch_step compile p c1 a c2"
  by (erule watch_run.cases) auto

lemma watch_run_nil: "watch_run compile p c [] c' \<Longrightarrow> c' = c"
  by (erule watch_run.cases) auto

text \<open>What a single event does to each part of the state.\<close>

lemma note_simps [simp]:
  "wa_dirty (note_change already matched fs event w) = wa_dirty w"
  "wa_last (note_change already matched fs event w) = wa_last w"
  "wa_error (note_change already matched fs event w) = wa_error w"
  "wa_deleted (note_change already matched fs event w) = wa_deleted w"
  "wa_phase (note_change already matched fs event w) = wa_phase w"
  "wa_dirty (note_gone already matched path event w) = wa_dirty w"
  "wa_last (note_gone already matched path event w) = wa_last w"
  "wa_changed (note_gone already matched path event w) = wa_changed w"
  "wa_phase (note_gone already matched path event w) = wa_phase w"
  "wa_dirty (note_watch compile fs ignores event w) = wa_dirty w"
  "wa_last (note_watch compile fs ignores event w) = wa_last w"
  "wa_changed (note_watch compile fs ignores event w) = wa_changed w"
  "wa_deleted (note_watch compile fs ignores event w) = wa_deleted w"
  by (simp_all add: note_change_def note_gone_def note_watch_def Let_def
      split: sum.split prod.split fault.split)

lemma note_change_changed:
  "wa_changed (note_change already matched fs event w) = wa_changed w @
     (if \<not> already \<and> \<not> matched \<and> \<not> ignored_event fs event \<and> \<not> has_op event op_remove then [fe_name event] else [])"
  by (simp add: note_change_def)

lemma note_gone_deleted:
  "wa_deleted w = d \<Longrightarrow> \<exists>ds. wa_deleted (note_gone already matched path event w) = d @ ds"
  by (auto simp: note_gone_def Let_def split: sum.split)

lemma note_errors:
  "wa_error w \<noteq> None \<Longrightarrow> wa_error (note_gone already matched path event w) \<noteq> None"
  "wa_error w \<noteq> None \<Longrightarrow> wa_error (note_watch compile fs ignores event w) \<noteq> None"
  by (auto simp: note_gone_def note_watch_def Let_def split: sum.split prod.split fault.split)

lemma notified_changed:
  "wa_changed (notified compile p now fs ev w) = wa_changed w \<or>
   (wa_changed (notified compile p now fs ev w) = wa_changed w @ [fe_name ev] \<and> fe_name ev \<notin> set (wa_changed w)
     \<and> IsGlobExpMatch compile (fe_name ev) (wp_ignores p) \<noteq> Inr True
     \<and> wa_dirty (notified compile p now fs ev w))"
  by (auto simp: notified_def Let_def note_change_changed list_ex_iff split: sum.split fault.split)

lemma notified_deleted:
  "\<exists>ds. wa_deleted (notified compile p now fs ev w) = wa_deleted w @ ds
    \<and> (ds \<noteq> [] \<longrightarrow> wa_dirty (notified compile p now fs ev w))"
  by (auto simp: notified_def Let_def split: sum.split fault.split
      intro: note_gone_deleted exI [of _ "[]"])

lemma notified_dirty:
  "wa_dirty (notified compile p now fs ev w) = wa_dirty w \<and> wa_last (notified compile p now fs ev w) = wa_last w
     \<and> (\<exists>f. wa_phase (notified compile p now fs ev w) = Crashed f)
   \<or> wa_dirty (notified compile p now fs ev w) \<and> wa_last (notified compile p now fs ev w) = now"
  by (auto simp: notified_def Let_def split: sum.split fault.split)

lemma notified_error: "wa_error w \<noteq> None \<Longrightarrow> wa_error (notified compile p now fs ev w) \<noteq> None"
  by (auto simp: notified_def Let_def split: sum.split fault.split intro!: note_errors [simplified])

text \<open>A turn that calls the handler.\<close>

definition pushes :: "'s WatchParameters \<Rightarrow> int \<Rightarrow> path_stat \<Rightarrow> watching \<Rightarrow> bool" where
  "pushes p now st w \<longleftrightarrow> wa_error w = None \<and> wa_dirty w \<and> wa_last w + wp_delay p < now
     \<and> (wa_changed w \<noteq> [] \<or> wa_deleted w \<noteq> []) \<and> (st = Regular \<or> st = Directory \<or> st = Special)"

text \<open>A turn either leaves what is pending, or hands all of it over.\<close>

lemma turn_cases:
  assumes "turn p now st w s = (w', s')"
  shows "(s' = s \<and> wa_changed w' = wa_changed w \<and> wa_deleted w' = wa_deleted w \<and> wa_dirty w' = wa_dirty w
      \<and> wa_last w' = wa_last w)
    \<or> (pushes p now st w \<and> (\<exists>r. handed_over p st w s = (r, s')) \<and> wa_last w' = wa_last w
      \<and> (wa_changed w' = wa_changed w \<and> wa_deleted w' = wa_deleted w \<and> wa_dirty w'
         \<or> wa_changed w' = [] \<and> wa_deleted w' = []))"
proof -
  obtain r t where h: "handed_over p st w s = (r, t)" by (cases "handed_over p st w s")
  let ?due = "wa_dirty w \<and> wa_last w + wp_delay p < now \<and> (length (wa_changed w) > 0 \<or> length (wa_deleted w) > 0)"
  consider (err) e where "wa_error w = Some e" | (idle) "wa_error w = None" "\<not> ?due"
    | (lost) "wa_error w = None" "?due" "\<exists>m. st = Missing m \<or> st = Unreadable m"
    | (due) "wa_error w = None" "?due" "st = Regular \<or> st = Directory \<or> st = Special"
    by (cases "wa_error w"; cases st) auto
  then show ?thesis
  proof cases
    case due
    then have t: "turn p now st w s = (case (r, t) of
                  (Inr None, s') \<Rightarrow> (w\<lparr>wa_phase := Stuck\<rparr>, s')
                | (Inl (Panic m), s') \<Rightarrow> (w\<lparr>wa_phase := Crashed (Panic m)\<rparr>, s')
                | (Inl (Exit m), s') \<Rightarrow> (w\<lparr>wa_phase := Crashed (Exit m)\<rparr>, s')
                | (_, s') \<Rightarrow> (w\<lparr>wa_dirty := False, wa_changed := [], wa_deleted := []\<rparr>, s'))"
      using h by (auto simp: turn_def)
    have "s' = t \<and> wa_last w' = wa_last w \<and>
      (wa_changed w' = wa_changed w \<and> wa_deleted w' = wa_deleted w \<and> wa_dirty w' = wa_dirty w
       \<or> wa_changed w' = [] \<and> wa_deleted w' = [])"
      using assms unfolding t by (auto split: sum.splits fault.splits option.splits)
    moreover have "pushes p now st w" using due by (auto simp: pushes_def)
    ultimately show ?thesis using due h by blast
  next
    case idle
    then have "turn p now st w s = (w, s)" unfolding turn_def by (simp only: option.case if_False)
    with assms show ?thesis by simp
  next
    case lost
    then obtain e where "turn p now st w s = (w\<lparr>wa_phase := Returned e\<rparr>, s)" by (auto simp: turn_def)
    with assms show ?thesis by auto
  next
    case err
    with assms show ?thesis by (auto simp: turn_def)
  qed
qed

definition watch_inv ::
  "(string \<Rightarrow> (string \<Rightarrow> bool) result) \<Rightarrow> 's WatchParameters \<Rightarrow> watching \<Rightarrow> bool" where
  "watch_inv compile p w \<longleftrightarrow> distinct (wa_changed w)
     \<and> (\<forall>f\<in>set (wa_changed w). IsGlobExpMatch compile f (wp_ignores p) \<noteq> Inr True)
     \<and> (wa_changed w \<noteq> [] \<or> wa_deleted w \<noteq> [] \<longrightarrow> wa_dirty w)"

lemma notified_inv:
  assumes "watch_inv compile p w"
  shows "watch_inv compile p (notified compile p now fs ev w)"
proof -
  have d: "wa_dirty (notified compile p now fs ev w)" if "wa_dirty w"
    using that notified_dirty [of compile p now fs ev w] by auto
  show ?thesis
    using assms d notified_changed [of compile p now fs ev w] notified_deleted [of compile p now fs ev w]
    unfolding watch_inv_def by auto
qed

lemma watch_step_inv:
  assumes "watch_step compile p c a c'" and "watch_inv compile p (fst c)"
  shows "watch_inv compile p (fst c')"
  using assms
proof (induction rule: watch_step.induct)
  case (turned w now st s w' s')
  then show ?case using turn_cases [OF turned(2)] by (auto simp: watch_inv_def)
qed (auto simp: notified_inv, auto simp: watch_inv_def)

lemma watch_run_inv:
  "watch_run compile p c as c' \<Longrightarrow> watch_inv compile p (fst c) \<Longrightarrow> watch_inv compile p (fst c')"
  by (induction rule: watch_run.induct) (auto intro: watch_step_inv)

lemma watch_start_state:
  assumes "watch_start compile p nw fs = Inr w"
  shows "wa_dirty w = False \<and> wa_error w = None \<and> wa_changed w = [] \<and> wa_deleted w = [] \<and> wa_phase w = Running"
  using assms by (auto simp: watch_start_def fails_def split: sum.splits fault.splits prod.splits)

text \<open>The times of the events of a run.\<close>

fun event_times :: "action list \<Rightarrow> int list" where
  "event_times [] = []"
| "event_times (Notified now fs ev # as) = now # event_times as"
| "event_times (a # as) = event_times as"

lemma event_times_append [simp]: "event_times (as @ bs) = event_times as @ event_times bs"
  by (induction as rule: event_times.induct) auto

lemma watch_run_last:
  assumes "watch_run compile p c as c'" and "sorted (event_times as)" and "wa_phase (fst c') = Running"
  shows "\<forall>t\<in>set (event_times as). t \<le> wa_last (fst c')"
  using assms
proof (induction rule: watch_run.induct)
  case (more c as c1 a c2)
  have run: "wa_phase (fst c1) = Running" and nxt: "c2 = watch_next compile p a c1"
    using more(2) by (simp_all add: watch_step_next)
  have IH: "\<forall>t\<in>set (event_times as). t \<le> wa_last (fst c1)"
    using more(3) more(4) run by (simp add: sorted_append)
  show ?case
  proof (cases a)
    case (Notified now fs ev)
    obtain w s where c1: "c1 = (w, s)" by (cases c1)
    have "wa_last (fst c2) = now"
      using more(5) notified_dirty [of compile p now fs ev w] by (auto simp: nxt Notified c1)
    with more(4) Notified show ?thesis by (auto simp: sorted_append)
  next
    case (Turn now st)
    obtain w s where c1: "c1 = (w, s)" by (cases c1)
    obtain w' s' where t: "turn p now st w s = (w', s')" by fastforce
    from turn_cases [OF t] have "wa_last w' = wa_last w" by auto
    with IH t show ?thesis by (simp add: nxt Turn c1)
  qed (use IH in \<open>cases c1; simp add: nxt\<close>)+
qed simp

lemma watch_step_keeps:
  assumes "watch_step compile p c a c'" and "sel = wa_changed \<or> sel = wa_deleted" and "f \<in> set (sel (fst c))"
  shows "f \<in> set (sel (fst c')) \<or>
    (\<exists>now st r. a = Turn now st \<and> pushes p now st (fst c) \<and> handed_over p st (fst c) (snd c) = (r, snd c'))"
  using assms
proof (induction rule: watch_step.induct)
  case (event w s now fs ev)
  then show ?case
    using notified_changed [of compile p now fs ev w] notified_deleted [of compile p now fs ev w] by auto
next
  case (turned w now st s w' s')
  then show ?case using turn_cases [OF turned(2)] by auto
qed auto


section \<open>Properties\<close>

text \<open>The inputs of the witnesses: a directory with one file, rules that ignore equal paths, and a
  handler that keeps what it is given.\<close>

definition exact_globs :: "string \<Rightarrow> (string \<Rightarrow> bool) result" where
  "exact_globs g = Inr (\<lambda>s. s = g)"

definition source_fs :: file_system where
  "source_fs = \<lparr>fs_lstat = (\<lambda>p. Some (p = ''/src'')), fs_stat = (\<lambda>p. if p = ''/src'' then Directory else Regular),
     fs_exists = (\<lambda>p. True), fs_tree = (\<lambda>p. WDir ''/src'' [WFile ''/src/a'']), fs_add = (\<lambda>p. True)\<rparr>"

definition keeping_watch :: "(string list \<times> string list) list WatchParameters" where
  "keeping_watch = \<lparr>wp_component = ''web'', wp_application = ''app'', wp_path = ''/src'',
     wp_ignores = [''/src/.git''], wp_delay = 1,
     wp_handler = (\<lambda>cmp app path files deleted s. (Inr (Some ()), s @ [(files, deleted)]))\<rparr>"

definition started :: watching where
  "started = \<lparr>wa_dirty = False, wa_last = 0, wa_error = None, wa_deleted = [], wa_changed = [],
     wa_watched = [''/src''], wa_phase = Running\<rparr>"

lemma started_start: "watch_start exact_globs keeping_watch (Inr ()) source_fs = Inr started"
  by code_simp

text \<open>C13. Whatever events, requests and turns follow a start, in any order: no file is listed twice as
  changed, none that matches a rule to ignore is listed, and while anything is listed the watch is
  marked dirty, so that it is pushed after the delay.\<close>

theorem watch_invariant:
  assumes "watch_start compile p nw fs = Inr w" and "watch_run compile p (w, s) as (w', s')"
  shows "distinct (wa_changed w') \<and> (\<forall>f\<in>set (wa_changed w'). IsGlobExpMatch compile f (wp_ignores p) \<noteq> Inr True)
    \<and> (wa_changed w' \<noteq> [] \<or> wa_deleted w' \<noteq> [] \<longrightarrow> wa_dirty w')"
proof -
  have "watch_inv compile p w"
    using watch_start_state [OF assms(1)] by (simp add: watch_inv_def)
  with watch_run_inv [OF assms(2)] have "watch_inv compile p w'" by simp
  then show ?thesis by (simp add: watch_inv_def)
qed

definition two_writes :: "action list" where
  "two_writes = [Notified 1 source_fs \<lparr>fe_name = ''/src/a'', fe_op = 2\<rparr>,
     Notified 2 source_fs \<lparr>fe_name = ''/src/a'', fe_op = 2\<rparr>]"

lemma two_writes_run: "\<exists>w. watch_run exact_globs keeping_watch (started, []) two_writes (w, [])
    \<and> wa_changed w = [''/src/a''] \<and> wa_last w = 2 \<and> wa_phase w = Running \<and> wa_error w = None \<and> wa_dirty w
    \<and> wa_deleted w = []"
proof -
  have "map_option (\<lambda>(w, s). (wa_changed w, wa_last w, wa_phase w, wa_error w, wa_dirty w, wa_deleted w, s))
      (watch_exec exact_globs keeping_watch two_writes (started, []))
    = Some ([''/src/a''], 2, Running, None, True, [], [])" by code_simp
  then show ?thesis by (auto dest: watch_exec_run)
qed

theorem watch_invariant_witness:
  "\<exists>w :: watching. wa_changed w = [''/src/a''] \<and> distinct (wa_changed w) \<and> wa_dirty w"
proof -
  obtain w :: watching where run: "watch_run exact_globs keeping_watch (started, []) two_writes (w, [])"
    and w: "wa_changed w = [''/src/a'']" "wa_dirty w"
    using two_writes_run by (elim exE conjE) (rule that; assumption)
  from watch_invariant [OF started_start run] have "distinct (wa_changed w)" by (elim conjE)
  with w show ?thesis by (intro exI conjI)
qed





text \<open>C25. The removal of a file that is listed as changed and not pushed yet leaves both lists as they are:
  the file stays among those to copy, and its deletion is not passed on to the pod.\<close>

theorem removed_change_lost:
  assumes "watch_step compile p (w, s) (Notified now fs ev) (w', s')" and "has_op ev op_remove"
    and "fe_name ev \<in> set (wa_changed w)"
  shows "wa_changed w' = wa_changed w \<and> wa_deleted w' = wa_deleted w"
proof -
  from assms(1) have w': "w' = notified compile p now fs ev w" by auto
  have "list_ex (\<lambda>cfile. cfile = fe_name ev) (wa_changed w)" using assms(3) by (auto simp: list_ex_iff)
  moreover have "is_gone ev" using assms(2) by (simp add: is_gone_def)
  ultimately show ?thesis
    by (auto simp: w' notified_def Let_def note_change_def note_gone_def split: sum.split fault.split)
qed

theorem removed_change_lost_witness:
  "\<exists>(w :: watching) w'. wa_changed w = [''/src/a''] \<and> wa_deleted w = []
    \<and> watch_step exact_globs keeping_watch (w, []) (Notified 3 source_fs \<lparr>fe_name = ''/src/a'', fe_op = 4\<rparr>) (w', [])
    \<and> wa_changed w' = [''/src/a''] \<and> wa_deleted w' = []"
proof -
  obtain w :: watching where w: "wa_changed w = [''/src/a'']" "wa_phase w = Running" "wa_deleted w = []"
    using two_writes_run by (elim exE conjE) (rule that; assumption)
  let ?ev = "\<lparr>fe_name = ''/src/a'', fe_op = 4\<rparr>"
  have step: "watch_step exact_globs keeping_watch (w, []) (Notified 3 source_fs ?ev)
      (notified exact_globs keeping_watch 3 source_fs ?ev w, [])"
    using w by simp
  have "has_op ?ev op_remove" by (simp add: has_op_def op_remove_def)
  from removed_change_lost [OF step this] w step show ?thesis by auto
qed

text \<open>Once an error is noted nothing is pushed any more, whatever follows, and the first turn after it
  ends the watch.\<close>

theorem no_push_after_error:
  assumes "watch_run compile p (w, s) as (w', s')" and "wa_error w \<noteq> None"
  shows "s' = s \<and> wa_error w' \<noteq> None \<and> (\<forall>now st bs. as = bs @ [Turn now st] \<longrightarrow> (\<exists>e. wa_phase w' = Returned e))"
  using assms
proof (induction as arbitrary: w' s' rule: rev_induct)
  case (snoc a as)
  obtain w1 s1 where run: "watch_run compile p (w, s) as (w1, s1)"
    and step: "watch_step compile p (w1, s1) a (w', s')"
    using watch_run_snoc [OF snoc.prems(1)] by auto
  from snoc.IH [OF run snoc.prems(2)] have "s1 = s" "wa_error w1 \<noteq> None" by simp_all
  with step show ?case
    by (cases a) (auto simp: turn_def notified_error [simplified] split: if_splits)
qed (auto dest: watch_run_nil)

theorem no_push_after_error_witness:
  "\<exists>(w :: watching) w' (s' :: (string list \<times> string list) list). wa_changed w = [''/src/a'']
    \<and> watch_run exact_globs keeping_watch (w, []) [Turn 5 Directory] (w', s') \<and> s' = []
    \<and> (\<exists>e. wa_phase w' = Returned e)"
proof -
  define w where "w = started\<lparr>wa_changed := [''/src/a''], wa_dirty := True, wa_error := Some ErrUserRequestedWatchExit\<rparr>"
  define w' where "w' = w\<lparr>wa_phase := Returned ErrUserRequestedWatchExit\<rparr>"
  have "watch_step exact_globs keeping_watch (w, []) (Turn 5 Directory) (w', [])"
    by (simp add: w_def w'_def started_def turn_def)
  then have run: "watch_run exact_globs keeping_watch (w, []) [Turn 5 Directory] (w', [])"
    using watch_run.more [OF watch_run.stop] by fastforce
  have "wa_error w \<noteq> None" "wa_changed w = [''/src/a'']" by (simp_all add: w_def)
  with no_push_after_error [OF run] run show ?thesis by fastforce
qed

end
