(* ===== verification/Sync.thy ===== *)
theory Sync
  imports Watch
begin

text \<open>
  The transfer of sources into a pod, \<open>CopyFile\<close> of \<open>pkg/occlient/occlient.go\<close>: the archive of a
  directory or of the changed files, with the ignored paths left out, as the stream that a
  \<open>tar\<close> in the container unpacks. The separator is the slash, where \<open>filepath.ToSlash\<close> changes
  nothing; sizes, owners and times in the headers are left out.
\<close>

text \<open>A member of an archive: its name in the header and what it is.\<close>

datatype member = Folder | SymLink string | Content string

record tar_entry =
  te_name :: string
  te_member :: member

definition tar_entry_of :: "string \<Rightarrow> member \<Rightarrow> tar_entry" where
  "tar_entry_of name m = \<lparr>te_name = name, te_member = m\<rparr>"

definition write_header :: "string \<Rightarrow> member \<Rightarrow> (tar_entry list, unit) op" where
  "write_header name m = modify (\<lambda>tw. tw @ [tar_entry_of name m])"

text \<open>The data that follows the last header.\<close>

definition write_content :: "string \<Rightarrow> (tar_entry list, unit) op" where
  "write_content c = modify (\<lambda>tw. butlast tw @ [(last tw)\<lparr>te_member := Content c\<rparr>])"


section \<open>One path of the source\<close>

text \<open>The files of a directory, one after the other.\<close>

fun tar_files :: "(string \<Rightarrow> ('s, unit option) op) \<Rightarrow> string list \<Rightarrow> ('s, unit option) op" where
  "tar_files below [] = finished"
| "tar_files below (f # files) = bindW (below f) (\<lambda>_. tar_files below files)"

text \<open>
  The matched paths. The loop ends with the first directory or regular file; a link goes on, and
  a link or file is read from the joined path, not from the one that matched.
\<close>

fun tar_matched ::
  "source_disk \<Rightarrow> string \<Rightarrow> string \<Rightarrow> (string \<Rightarrow> (tar_entry list, unit option) op) \<Rightarrow> string list \<Rightarrow>
   (tar_entry list, unit option) op" where
  "tar_matched dk joinedPath destFile below [] = finished"
| "tar_matched dk joinedPath destFile below (matchedPath # matchedPaths) =
     bind (lift (sd_lstat dk matchedPath)) (\<lambda>stat. case stat of
       KDir \<Rightarrow> bind (lift (sd_readdir dk matchedPath)) (\<lambda>files.
         bind (if length files = 0 then write_header destFile Folder else return ()) (\<lambda>_.
         tar_files below (sort files)))
     | KLink \<Rightarrow> bind (lift (sd_readlink dk joinedPath)) (\<lambda>target.
         bind (write_header destFile (SymLink target)) (\<lambda>_.
         tar_matched dk joinedPath destFile below matchedPaths))
     | KSocket \<Rightarrow> failing ''archive/tar: sockets not supported'' []
     | KOther \<Rightarrow> bind (write_header destFile (Content [])) (\<lambda>_.
         bind (lift (sd_read dk joinedPath)) (\<lambda>c. bind (write_content c) (\<lambda>_. finished))))"

text \<open>The paths that no rule matches.\<close>

fun not_ignored :: "(string \<Rightarrow> (string \<Rightarrow> bool) result) \<Rightarrow> string list \<Rightarrow> string list \<Rightarrow> string list result" where
  "not_ignored compile globExps [] = Inr []"
| "not_ignored compile globExps (path # paths) =
     bindR (IsGlobExpMatch compile path globExps) (\<lambda>matched.
       bindR (not_ignored compile globExps paths) (\<lambda>ps. Inr (if matched then ps else path # ps)))"

text \<open>
  The recursion follows the directories of the disk; \<open>fuel\<close> bounds its depth, and \<open>None\<close> says
  that it was not enough.
\<close>

fun recursiveTar ::
  "nat \<Rightarrow> (string \<Rightarrow> (string \<Rightarrow> bool) result) \<Rightarrow> source_disk \<Rightarrow> string \<Rightarrow> string \<Rightarrow> string \<Rightarrow> string \<Rightarrow> string list \<Rightarrow>
   (tar_entry list, unit option) op" where
  "recursiveTar 0 compile dk srcBase srcFile destBase destFile globExps = return None"
| "recursiveTar (Suc fuel) compile dk srcBase srcFile destBase destFile globExps =
     (let joinedPath = path_join [srcBase, srcFile] in
      bind (lift (path_glob dk joinedPath)) (\<lambda>matchedPathsDir.
      bind (lift (not_ignored compile globExps matchedPathsDir)) (\<lambda>matchedPaths.
      tar_matched dk joinedPath destFile
        (\<lambda>f. recursiveTar fuel compile dk srcBase (path_join [srcFile, f]) destBase (path_join [destFile, f]) globExps)
        matchedPaths)))"


section \<open>The archive\<close>

definition checkFileExist :: "source_disk \<Rightarrow> string \<Rightarrow> bool" where
  "checkFileExist dk fileName \<longleftrightarrow> (case sd_stat dk fileName of Missing _ \<Rightarrow> False | _ \<Rightarrow> True)"

text \<open>The changed files that are still there.\<close>

fun tar_changed ::
  "nat \<Rightarrow> (string \<Rightarrow> (string \<Rightarrow> bool) result) \<Rightarrow> source_disk \<Rightarrow> string \<Rightarrow> string \<Rightarrow> string list \<Rightarrow> string list \<Rightarrow>
   (tar_entry list, unit option) op" where
  "tar_changed fuel compile dk srcPath destPath globExps [] = finished"
| "tar_changed fuel compile dk srcPath destPath globExps (fileName # files) =
     (if checkFileExist dk fileName then
        (case path_rel srcPath fileName of
           Inl err \<Rightarrow> fault (Err err)
         | Inr rel \<Rightarrow>
             let srcFile = path_join [path_base srcPath, rel] in
             bindW (recursiveTar fuel compile dk (path_dir srcPath) srcFile (path_dir destPath) srcFile globExps) (\<lambda>_.
             tar_changed fuel compile dk srcPath destPath globExps files))
      else tar_changed fuel compile dk srcPath destPath globExps files)"

definition makeTar ::
  "nat \<Rightarrow> (string \<Rightarrow> (string \<Rightarrow> bool) result) \<Rightarrow> source_disk \<Rightarrow> string \<Rightarrow> string \<Rightarrow> string list \<Rightarrow> string list \<Rightarrow>
   (tar_entry list, unit option) op" where
  "makeTar fuel compile dk srcPath destPath files globExps =
     (let srcPath = path_clean srcPath; destPath = path_clean destPath
      in if length files \<noteq> 0 then tar_changed fuel compile dk srcPath destPath globExps files
         else recursiveTar fuel compile dk (path_dir srcPath) (path_base srcPath)
                (path_dir destPath) (path_base destPath) globExps)"

text \<open>
  \<open>exec\<close> runs a command in a container and hands it an archive. The archive is written while the
  command reads it; when writing fails the process stops.
\<close>

definition untar_command :: "string \<Rightarrow> string list" where
  "untar_command targetPath = [''tar'', ''xf'', ''-'', ''-C'', targetPath, ''--strip'', ''1'']"

definition CopyFile ::
  "nat \<Rightarrow> (string \<Rightarrow> (string \<Rightarrow> bool) result) \<Rightarrow> source_disk \<Rightarrow>
   (string \<Rightarrow> string list \<Rightarrow> tar_entry list \<Rightarrow> ('s, unit) op) \<Rightarrow>
   string \<Rightarrow> string \<Rightarrow> string \<Rightarrow> string list \<Rightarrow> string list \<Rightarrow> ('s, unit option) op" where
  "CopyFile fuel compile dk exec localPath targetPodName targetPath copyFiles globExps =
     (let dest = path_join [targetPath, path_base localPath]
      in case makeTar fuel compile dk localPath dest copyFiles globExps [] of
           (Inr None, _) \<Rightarrow> return None
         | (Inl (Err err), _) \<Rightarrow> fault (Exit ''Error while creating tar'')
         | (Inl f, _) \<Rightarrow> fault f
         | (Inr (Some _), archive) \<Rightarrow>
             bind (exec targetPodName (untar_command targetPath) archive) (\<lambda>_. finished))"

text \<open>The older helper for one file, which no command calls.\<close>

fun pieces_around :: "nat \<Rightarrow> string \<Rightarrow> string \<Rightarrow> string list" where
  "pieces_around skip [] sep = [[]]"
| "pieces_around 0 (c # s) sep =
     (if has_prefix (c # s) sep then [] # pieces_around (length sep - 1) s sep
      else case pieces_around 0 s sep of [] \<Rightarrow> [[c]] | h # t \<Rightarrow> (c # h) # t)"
| "pieces_around (Suc n) (c # s) sep = pieces_around n s sep"


section \<open>Trees of files\<close>

text \<open>
  What a path of the disk holds, as a finite tree: a directory with its entries in the order of
  their names, whatever order the disk lists them in.
\<close>

datatype node = File string | Link string | Dir "(string \<times> node) list"

fun holds :: "source_disk \<Rightarrow> string list \<Rightarrow> node \<Rightarrow> bool" where
  "holds dk ns (File c) \<longleftrightarrow> sd_lstat dk (rooted_path ns) = Inr KOther \<and> sd_read dk (rooted_path ns) = Inr c"
| "holds dk ns (Link l) \<longleftrightarrow> sd_lstat dk (rooted_path ns) = Inr KLink \<and> sd_readlink dk (rooted_path ns) = Inr l"
| "holds dk ns (Dir es) \<longleftrightarrow> sd_lstat dk (rooted_path ns) = Inr KDir \<and>
     (case sd_readdir dk (rooted_path ns) of Inl _ \<Rightarrow> False | Inr names \<Rightarrow> sort names = map fst es) \<and>
     distinct (map fst es) \<and> (\<forall>(n, t)\<in>set es. plain_name n \<and> \<not> has_meta n \<and> holds dk (ns @ [n]) t)"

fun tree_height :: "node \<Rightarrow> nat" where
  "tree_height (Dir es) = Suc (fold (\<lambda>(n, t). max (tree_height t)) es 0)"
| "tree_height _ = 0"

text \<open>The members of a tree that no rule hides, with their paths below its top.\<close>

fun visible :: "(string \<Rightarrow> bool) \<Rightarrow> string list \<Rightarrow> node \<Rightarrow> (string list \<times> member) list" where
  "visible ign ns (File c) = (if ign (rooted_path ns) then [] else [([], Content c)])"
| "visible ign ns (Link l) = (if ign (rooted_path ns) then [] else [([], SymLink l)])"
| "visible ign ns (Dir es) =
     (if ign (rooted_path ns) then [] else if es = [] then [([], Folder)]
      else concat (map (\<lambda>(n, t). map (\<lambda>(r, m). (n # r, m)) (visible ign (ns @ [n]) t)) es))"

definition sent_as :: "string list \<Rightarrow> string list \<times> member \<Rightarrow> tar_entry" where
  "sent_as ds = (\<lambda>(r, m). tar_entry_of (below_path (ds @ r)) m)"

text \<open>The member of a tree at a path below its top.\<close>

fun member_at :: "node \<Rightarrow> string list \<Rightarrow> member option" where
  "member_at (File c) [] = Some (Content c)"
| "member_at (Link l) [] = Some (SymLink l)"
| "member_at (Dir es) [] = (if es = [] then Some Folder else None)"
| "member_at (Dir es) (n # r) =
     (case find (\<lambda>(k, t). k = n) es of None \<Rightarrow> None | Some (k, t) \<Rightarrow> member_at t r)"
| "member_at _ (n # r) = None"

lemma max_height: "(n, t) \<in> set es \<Longrightarrow> tree_height t \<le> fold (\<lambda>(n, t). max (tree_height t)) es b"
proof (induction es arbitrary: b)
  case (Cons e es)
  have mono: "b \<le> fold (\<lambda>(n, t). max (tree_height t)) es b" for b :: nat
    by (induction es arbitrary: b) (auto, metis le_trans max.cobounded2)
  from Cons show ?case using mono [of "max (tree_height t) b"] by (auto split: prod.splits)
qed simp


section \<open>Facts\<close>

lemma not_ignored_one:
  assumes "IsGlobExpMatch compile p globs = Inr b"
  shows "not_ignored compile globs [p] = Inr (if b then [] else [p])"
  using assms by simp

lemma tar_files_all:
  assumes "\<And>e tw. e \<in> set es \<Longrightarrow> below (fst e) tw = (Inr (Some ()), tw @ g e)"
  shows "tar_files below (map fst es) tw = (Inr (Some ()), tw @ concat (map g es))"
  using assms
proof (induction es arbitrary: tw)
  case (Cons e es)
  then show ?case by (simp add: bindW_def bind_ok)
qed (simp add: finished_def return_def)

text \<open>
  The archive of a plain tree: fuel beyond its height is enough, and the archive grows by exactly
  the visible members under their destination names.
\<close>

lemma recursiveTar_tree:
  assumes rules: "\<And>p. IsGlobExpMatch compile p globs = Inr (ign p)"
    and ns: "literal_names ns"
  shows "holds dk (ns @ ms) t \<Longrightarrow> tree_height t < fuel \<Longrightarrow> literal_names ms \<Longrightarrow> ms \<noteq> [] \<Longrightarrow>
    plain_names ds \<Longrightarrow> ds \<noteq> [] \<Longrightarrow>
    recursiveTar fuel compile dk (rooted_path ns) (below_path ms) destBase (below_path ds) globs tw
      = (Inr (Some ()), tw @ map (sent_as ds) (visible ign (ns @ ms) t))"
proof (induction t arbitrary: ms ds tw fuel)
  case (File c)
  then show ?case using ns rules
    by (cases fuel) (simp_all add: has_meta_rooted path_glob_plain Let_def op_simps write_header_def
        write_content_def finished_def sent_as_def tar_entry_of_def)
next
  case (Link l)
  then show ?case using ns rules
    by (cases fuel) (simp_all add: has_meta_rooted path_glob_plain Let_def op_simps write_header_def
        finished_def sent_as_def tar_entry_of_def)
next
  case (Dir es)
  then obtain n where fuel: "fuel = Suc n" by (cases fuel) auto
  from Dir.prems(1) obtain names where dir: "sd_lstat dk (rooted_path (ns @ ms)) = Inr KDir"
    "sd_readdir dk (rooted_path (ns @ ms)) = Inr names" "sort names = map fst es"
    and children: "\<And>f t. (f, t) \<in> set es \<Longrightarrow> plain_name f \<and> \<not> has_meta f \<and> holds dk (ns @ ms @ [f]) t"
    by (auto split: sum.splits)
  let ?below = "\<lambda>f. recursiveTar n compile dk (rooted_path ns) (path_join [below_path ms, f])
        destBase (path_join [below_path ds, f]) globs"
  let ?g = "\<lambda>(f, t). map (sent_as (ds @ [f])) (visible ign (ns @ ms @ [f]) t)"
  have below: "?below (fst e) tw = (Inr (Some ()), tw @ ?g e)" if "e \<in> set es" for e tw
  proof (cases e)
    case (Pair f t)
    with that have e: "(f, t) \<in> set es" by simp
    then have "t \<in> Basic_BNFs.snds (f, t)" "tree_height t < n"
      using max_height [OF e, of 0] Dir.prems(2) fuel by auto
    with Dir.IH [OF e, of t "ms @ [f]" n "ds @ [f]" tw] children [OF e] Dir.prems Pair
    show ?thesis by simp
  qed
  have files: "tar_files ?below (map fst es) tw = (Inr (Some ()), tw @ concat (map ?g es))"
    by (rule tar_files_all) (rule below)
  have "length names = length es" using dir(3) by (metis length_map length_sort)
  with files dir Dir.prems ns rules show ?case unfolding fuel
    by (auto simp: has_meta_rooted path_glob_plain Let_def op_simps write_header_def finished_def
        sent_as_def tar_entry_of_def map_concat comp_def intro!: arg_cong [where f = concat])
qed

lemma find_entry: "find (\<lambda>(k, t). k = n) es = map_option (Pair n) (map_of es n)"
  by (induction es) auto

lemma visible_Dir: "(n # r, m) \<in> set (visible ign ns (Dir es)) \<longleftrightarrow> \<not> ign (rooted_path ns) \<and>
    (\<exists>t. (n, t) \<in> set es \<and> (r, m) \<in> set (visible ign (ns @ [n]) t))"
proof -
  have "(n # r, m) \<in> (\<lambda>(r, m). (k # r, m)) ` S \<longleftrightarrow> n = k \<and> (r, m) \<in> S" for k S by force
  then show ?thesis by (auto split: prod.split)
qed

text \<open>A member of the tree is visible when no rule matches its path or a directory above it.\<close>

lemma visible_exact:
  "holds dk ns t \<Longrightarrow> (r, m) \<in> set (visible ign ns t) \<longleftrightarrow>
     member_at t r = Some m \<and> (\<forall>k\<le>length r. \<not> ign (rooted_path (ns @ take k r)))"
proof (induction t arbitrary: ns r m)
  case (Dir es)
  have split_k: "(\<forall>k\<le>Suc j. P k) \<longleftrightarrow> P 0 \<and> (\<forall>k\<le>j. P (Suc k))" for j and P :: "nat \<Rightarrow> bool"
    by (metis Suc_le_mono le0 old.nat.exhaust)
  show ?case
  proof (cases r)
    case Nil
    then show ?thesis by auto
  next
    case (Cons n r')
    have dist: "distinct (map fst es)" and sub: "\<And>t. (n, t) \<in> set es \<Longrightarrow> holds dk (ns @ [n]) t"
      using Dir.prems by auto
    have "(n, t) \<in> set es \<Longrightarrow> (r', m) \<in> set (visible ign (ns @ [n]) t) \<longleftrightarrow>
        member_at t r' = Some m \<and> (\<forall>k\<le>length r'. \<not> ign (rooted_path (ns @ n # take k r')))" for t
      using Dir.IH [of "(n, t)" t "ns @ [n]" r' m] sub by simp
    moreover have "member_at (Dir es) r = Some m \<longleftrightarrow> (\<exists>t. (n, t) \<in> set es \<and> member_at t r' = Some m)"
      using map_of_eq_Some_iff [OF dist, of n, symmetric] Cons
      by (auto simp: find_entry simp del: map_of_eq_Some_iff split: option.split)
    moreover have "(r, m) \<in> set (visible ign ns (Dir es)) \<longleftrightarrow> \<not> ign (rooted_path ns) \<and>
        (\<exists>t. (n, t) \<in> set es \<and> (r', m) \<in> set (visible ign (ns @ [n]) t))"
      unfolding Cons by (rule visible_Dir)
    moreover have "(\<forall>k\<le>length r. \<not> ign (rooted_path (ns @ take k r))) \<longleftrightarrow>
        \<not> ign (rooted_path ns) \<and> (\<forall>k\<le>length r'. \<not> ign (rooted_path (ns @ n # take k r')))"
      using Cons by (simp add: split_k)
    ultimately show ?thesis by blast
  qed
next
  case (File c)
  show ?case by (cases r) auto
next
  case (Link l)
  show ?case by (cases r) auto
qed

lemma visible_plain: "holds dk ns t \<Longrightarrow> (r, m) \<in> set (visible ign ns t) \<Longrightarrow> plain_names r"
  by (induction t arbitrary: ns r m) (fastforce split: if_splits)+


text \<open>A small source directory, with a rule that ignores its log.\<close>

definition answers :: "(string \<times> 'a) list \<Rightarrow> string \<Rightarrow> 'a result" where
  "answers kvs x = (case map_of kvs x of None \<Rightarrow> fails ''open %s: no such file or directory'' [x] | Some v \<Rightarrow> Inr v)"

definition shop_disk :: source_disk where
  "shop_disk = (let p = rooted_path in
    \<lparr>sd_lstat = answers
       [(p [''shop''], KDir), (p [''shop'', ''run.log''], KOther), (p [''shop'', ''main.js''], KOther),
        (p [''shop'', ''lib''], KDir), (p [''shop'', ''lib'', ''a[1].js''], KOther)],
     sd_stat = (\<lambda>x. case map_of [(p [''shop'', ''main.js''], Regular), (p [''shop'', ''lib''], Directory),
        (p [''shop'', ''lib'', ''a[1].js''], Regular)] x of None \<Rightarrow> Missing ''no such file'' | Some st \<Rightarrow> st),
     sd_readdir = answers
       [(p [''shop''], [''run.log'', ''main.js'']), (p [''shop'', ''lib''], [''a[1].js''])],
     sd_readlink = answers [],
     sd_read = answers
       [(p [''shop'', ''main.js''], ''start()''), (p [''shop'', ''run.log''], ''up'')]\<rparr>)"

definition shop_tree :: node where
  "shop_tree = Dir [(''main.js'', File ''start()''), (''run.log'', File ''up'')]"

definition shop_rules :: "string \<Rightarrow> (string \<Rightarrow> bool) result" where
  "shop_rules e = Inr (\<lambda>p. p = e)"

lemma shop_holds: "holds shop_disk [''shop''] shop_tree"
  by code_simp

lemma shop_match: "IsGlobExpMatch shop_rules p [''/shop/run.log''] = Inr (replace_char backslash CHR ''/'' p = ''/shop/run.log'')"
  by (simp add: shop_rules_def backslash_def replace_char_def)

definition unpacked :: "string \<Rightarrow> string list \<Rightarrow> tar_entry list \<Rightarrow> (tar_entry list, unit) op" where
  "unpacked podName cmd archive = (\<lambda>s. (Inr (), s @ archive))"




text \<open>C26. The names of files are taken for patterns: a changed file that has one character between brackets
  in its name is not sent, and no error is reported, unless a file without the brackets lies
  beside it.\<close>

theorem bracket_file_lost:
  assumes "literal_names (ns @ [d])" and "\<not> has_meta a" "\<not> has_meta e" "\<not> is_meta c" "c \<notin> set ''-]^/''"
    and "CHR ''/'' \<notin> set a \<union> set e"
    and "sd_stat dk (rooted_path (ns @ [d])) = Directory"
    and "sd_readdir dk (rooted_path (ns @ [d])) = Inr names" and "a @ c # e \<notin> set names"
  shows "makeTar (Suc n) compile dk (rooted_path (ns @ [d])) dest
      [rooted_path (ns @ [d, bracketed a c e])] globs tw = (Inr (Some ()), tw)"
proof -
  let ?name = "bracketed a c e"
  have plain: "plain_name ?name"
    using assms(5,6) by (cases a) (auto simp: plain_name_def bracketed_def)
  have none: "glob_names dir ?name ks = Inr []" if "a @ c # e \<notin> set ks" for ks dir
    using that path_match_bracketed [OF assms(2-4)] assms(5) by (induction ks) auto
  have split: "glob_split (rooted_path (ns @ [d, ?name])) = (rooted_path (ns @ [d]), ?name)"
    using rooted_path_snoc [of "ns @ [d]" ?name] plain
    by (simp add: glob_split_def Let_def after_last_app plain_name_def) (simp add: rooted_path_def)
  have "has_meta (rooted_path (ns @ [d, ?name]))"
    using rooted_path_snoc [of "ns @ [d]" ?name] by (simp add: has_meta_def bracketed_def is_meta_def)
  then have glob: "path_glob dk (rooted_path (ns @ [d, ?name])) = Inr []"
    using split none assms(1,7-9) by (subst path_glob.simps) (simp add: has_meta_rooted glob_dir_def)
  have join: "path_join [d, ?name] = below_path [d, ?name]"
    using join_name [of "[d]" ?name] assms(1) plain by (simp add: below_path_def [of "[d]"])
  have rel: "path_rel (rooted_path (ns @ [d])) (rooted_path (ns @ [d, ?name])) = Inr ?name"
    using path_rel_below [of "ns @ [d]" "[?name]"] assms(1) plain by (simp add: below_path_def [of "[_]"])
  show ?thesis
    using rel join glob assms(1) plain join_rooted [of ns "[d, ?name]"]
    by (simp add: makeTar_def Let_def op_simps bindW_def finished_def)
qed

theorem bracket_file_lost_witness:
  "checkFileExist shop_disk (rooted_path [''shop'', ''lib'', ''a[1].js'']) \<and>
   makeTar 1 shop_rules shop_disk (rooted_path [''shop'', ''lib'']) ''/tmp/src/lib''
     [rooted_path [''shop'', ''lib'', ''a[1].js'']] [] [] = (Inr (Some ()), [])"
proof -
  have "literal_names ([''shop''] @ [''lib''])" "\<not> has_meta ''a''" "\<not> has_meta ''.js''" "\<not> is_meta CHR ''1''"
    "sd_stat shop_disk (rooted_path ([''shop''] @ [''lib''])) = Directory"
    "sd_readdir shop_disk (rooted_path ([''shop''] @ [''lib''])) = Inr [''a[1].js'']"
    "checkFileExist shop_disk (rooted_path [''shop'', ''lib'', ''a[1].js''])" by code_simp+
  with bracket_file_lost [of "[''shop'']" "''lib''" "''a''" "''.js''" "CHR ''1''" shop_disk "[''a[1].js'']" 0
      shop_rules "''/tmp/src/lib''" "[]" "[]"]
  show ?thesis by (simp add: bracketed_def)
qed

end
