(* ===== verification/Connection.thy ===== *)
theory Connection
  imports Sync
begin

text \<open>
  The connection to the cluster, \<open>pkg/occlient/occlient.go\<close> and \<open>pkg/auth\<close>: how a client is made
  and checked, login and logout, the server's version, logs and commands in a container.
\<close>

text \<open>
  The answers of the client libraries: the configuration of the REST client with host and
  token, the raw configuration with its tokens, the API clients, the user, the network.
\<close>

record rest_config =
  rc_host :: string
  rc_token :: string

record auth_config =
  ac_tokens :: "string gomap"
  ac_contexts :: "string gomap"
  ac_current :: string

record 's kube_access =
  ka_config :: "('s, rest_config) op"
  ka_clients :: "('s, unit) op list"
  ka_namespace :: "('s, string) op"
  ka_user :: "('s, string) op"
  ka_dial :: "string \<Rightarrow> 64 word \<Rightarrow> ('s, unit) op"
  ka_oauth :: "rest_config \<Rightarrow> ('s, unit) op"
  ka_delete_token :: "string \<Rightarrow> ('s, unit) op"
  ka_raw :: "('s, auth_config) op"
  ka_modify :: "auth_config \<Rightarrow> ('s, unit) op"
  ka_get_raw :: "string \<Rightarrow> ('s, string) op"
  ka_parse_url :: "string \<Rightarrow> parsed_url result"
  ka_lookup_port :: "string \<Rightarrow> int result"
  ka_git_version :: "string \<Rightarrow> string result"
  ka_prefs :: "PreferenceInfo result"


section \<open>The client\<close>

text \<open>\<open>time.Duration\<close> is a signed 64-bit count of nanoseconds.\<close>

definition seconds :: "int \<Rightarrow> 64 word" where
  "seconds t = word_of_int t * word_of_int 1000000000"

definition request_timeout :: "PreferenceInfo result \<Rightarrow> 64 word" where
  "request_timeout prefs = (case prefs of Inl _ \<Rightarrow> seconds DefaultTimeout | Inr cfg \<Rightarrow> seconds (GetTimeout cfg))"

definition isServerUp :: "'s kube_access \<Rightarrow> string \<Rightarrow> ('s, bool) op" where
  "isServerUp ka server =
     (let address = (case GetHostWithPort (ka_parse_url ka) (ka_lookup_port ka) server of Inl _ \<Rightarrow> [] | Inr a \<Rightarrow> a)
      in bind (attempt (ka_dial ka address (request_timeout (ka_prefs ka)))) (\<lambda>r. return (is_ok (map_sum Err id r))))"

definition isLoggedIn :: "'s kube_access \<Rightarrow> ('s, bool) op" where
  "isLoggedIn ka = bind (attempt (ka_user ka)) (\<lambda>r. return (is_ok (map_sum Err id r)))"

definition errorMsg :: string where
  "errorMsg = newline # ''Please login to your server: '' @ [newline, newline] @
     ''odo login https://mycluster.mydomain.com'' @ [newline]"

text \<open>\<open>connect\<close> gives the client over the API groups, for a namespace.\<close>

definition New :: "'s kube_access \<Rightarrow> (string \<Rightarrow> 's client) \<Rightarrow> bool \<Rightarrow> ('s, 's client) op" where
  "New ka connect skipConnectionCheck =
     bind (attempt (ka_config ka)) (\<lambda>r. case r of
       Inl err \<Rightarrow> failing ''%s'' [error_text err @ errorMsg]
     | Inr config \<Rightarrow>
         bind (each (\<lambda>new_client. new_client) (ka_clients ka)) (\<lambda>_.
         bind (ka_namespace ka) (\<lambda>namespace.
         if skipConnectionCheck then return (connect namespace)
         else bind (isServerUp ka (rc_host config)) (\<lambda>up.
           if \<not> up then failing ''Unable to connect to OpenShift cluster, is it down?'' []
           else bind (isLoggedIn ka) (\<lambda>inn.
             if \<not> inn then failing ''Please log in to the cluster'' []
             else return (connect namespace))))))"


section \<open>Login and logout\<close>

text \<open>
  Every error on the way is only logged; without a client configuration, or without a client
  made from it, the next call dereferences a nil pointer, and so does a token table beside
  which the current context is missing. The answer for the user is an empty object on error.
\<close>

definition without_token :: "auth_config \<Rightarrow> auth_config result" where
  "without_token rawConfig =
     (if ac_tokens rawConfig = [] then Inr rawConfig
      else case lookup (ac_contexts rawConfig) (ac_current rawConfig) of
          None \<Rightarrow> Inl (Panic ''nil pointer dereference: Contexts'')
        | Some user \<Rightarrow> Inr (rawConfig\<lparr>ac_tokens :=
            map (\<lambda>(key, token). (key, if key = user then [] else token)) (ac_tokens rawConfig)\<rparr>))"

definition RunLogout :: "'s kube_access \<Rightarrow> (string \<Rightarrow> ('s, unit) op) \<Rightarrow> ('s, unit) op" where
  "RunLogout ka write =
     bind (attempt (ka_user ka)) (\<lambda>output.
     bind (attempt (ka_config ka)) (\<lambda>conf. case conf of
       Inl _ \<Rightarrow> fault (Panic ''nil pointer dereference: conf'')
     | Inr conf \<Rightarrow>
         bind (attempt (ka_oauth ka conf)) (\<lambda>client. case client of
           Inl _ \<Rightarrow> fault (Panic ''nil pointer dereference: client'')
         | Inr _ \<Rightarrow>
             bind (attempt (ka_delete_token ka (rc_token conf))) (\<lambda>_.
             bind (attempt (ka_raw ka)) (\<lambda>raw.
             bind (lift (without_token (case raw of
                 Inl _ \<Rightarrow> \<lparr>ac_tokens = [], ac_contexts = [], ac_current = []\<rparr> | Inr c \<Rightarrow> c))) (\<lambda>rawConfig.
             bind (attempt (ka_modify ka rawConfig)) (\<lambda>_.
               write (''Logged '' @ [CHR 0x22] @ (case output of Inl _ \<Rightarrow> [] | Inr n \<Rightarrow> n) @ [CHR 0x22] @
                 '' out on '' @ [CHR 0x22] @ rc_host conf @ [CHR 0x22, newline]))))))))"

text \<open>\<open>bytes.Replace\<close> of every occurrence of a text that is not empty.\<close>

fun replace_skipping :: "nat \<Rightarrow> string \<Rightarrow> string \<Rightarrow> string \<Rightarrow> string" where
  "replace_skipping skip [] old new = []"
| "replace_skipping (Suc n) (c # s) old new = replace_skipping n s old new"
| "replace_skipping 0 (c # s) old new =
     (if has_prefix (c # s) old then new @ replace_skipping (length old - 1) s old new
      else c # replace_skipping 0 s old new)"

definition replace_all :: "string \<Rightarrow> string \<Rightarrow> string \<Rightarrow> string" where
  "replace_all s old new = replace_skipping 0 s old new"

definition filteredInformation :: "string \<Rightarrow> string" where
  "filteredInformation s =
     (let s = replace_all s ''new-project'' ''project create'';
          s = replace_all s ''<projectname>'' ''<project-name>'';
          s = replace_all s ''project <project-name>'' ''project set <project-name>''
      in s)"

text \<open>
  What the reader delivers in one call and whether the reading ended, with an error or not. Each
  piece is filtered on its own. The texts returned are what was read, not what was written.
\<close>

datatype read_end = More | EndOfFile | ReadError error

fun copyAndFilter :: "(string \<Rightarrow> ('s, unit) op) \<Rightarrow> (string \<times> read_end) list \<Rightarrow> string \<Rightarrow> ('s, string option) op" where
  "copyAndFilter write [] out = return None"
| "copyAndFilter write ((d, end_of) # pieces) out =
     bind (if d \<noteq> [] then write (filteredInformation d) else return ()) (\<lambda>_.
       let out = out @ d in
       case end_of of
         More \<Rightarrow> copyAndFilter write pieces out
       | EndOfFile \<Rightarrow> return (Some out)
       | ReadError err \<Rightarrow> fault (Err err))"

text \<open>
  The library's login with the options it gets: \<open>gather_info\<close> asks the server, \<open>save\<close> writes the
  configuration and answers whether it made a new file, \<open>causes\<close> are the messages in the details of a status.
  Without a server, the one of the current context is taken: \<open>contexts\<close> names the cluster of each context,
  and \<open>clusters\<close> gives the server of each cluster.
\<close>

record login_options =
  lo_server :: string
  lo_username :: string
  lo_password :: string
  lo_token :: string
  lo_ca :: string
  lo_skip_tls :: bool

definition Login ::
  "(string \<Rightarrow> ('s, unit) op) \<Rightarrow> string gomap \<Rightarrow> string gomap \<Rightarrow> string \<Rightarrow> (login_options \<Rightarrow> ('s, login_options) op) \<Rightarrow>
   (login_options \<Rightarrow> ('s, bool) op) \<Rightarrow> (error \<Rightarrow> string list) \<Rightarrow> login_options \<Rightarrow> ('s, unit) op" where
  "Login print clusters contexts current gather_info save causes a =
     (let a = (if length (lo_server a) = 0
               then (case lookup contexts current of
                   None \<Rightarrow> a
                 | Some name \<Rightarrow> (case lookup clusters name of None \<Rightarrow> a | Some server \<Rightarrow> a\<lparr>lo_server := server\<rparr>))
               else a) in
      bind (print (''Connecting to the OpenShift cluster'' @ [newline])) (\<lambda>_.
      bind (attempt (gather_info a)) (\<lambda>r. case r of
        Inl err \<Rightarrow>
          (case err of
             StatusError reason msg \<Rightarrow>
               if reason = ''Unauthorized'' then
                 bind (print ''Login failed (401 Unauthorized)'') (\<lambda>_.
                 bind (print ''Verify you have provided correct credentials.'') (\<lambda>_.
                 bind (each print (causes err)) (\<lambda>_. fault (Err err))))
               else fault (Err err)
           | _ \<Rightarrow> fault (Err err))
      | Inr a \<Rightarrow>
          bind (save a) (\<lambda>newFileCreated.
            if newFileCreated then print (''Welcome! See '' @ [CHR 0x27] @ ''odo help'' @ [CHR 0x27] @ '' to get started.'')
            else return ()))))"


section \<open>The server\<close>

record ServerInfo =
  svr_address :: string
  svr_openshift :: string
  svr_kubernetes :: string

definition GetServerVersion :: "'s kube_access \<Rightarrow> ('s, ServerInfo) op" where
  "GetServerVersion ka =
     bind (wrapping (''unable to get server'' @ [CHR 0x27] @ ''s address'') [] (ka_config ka)) (\<lambda>config.
     bind (isServerUp ka (rc_host config)) (\<lambda>up.
     if \<not> up then failing ''Unable to connect to OpenShift cluster, is it down?'' []
     else bind (ka_user ka) (\<lambda>_.
     bind (attempt (ka_get_raw ka ''/version/openshift'')) (\<lambda>rawOpenShiftVersion.
     bind (case rawOpenShiftVersion of
             Inl _ \<Rightarrow> return []
           | Inr raw \<Rightarrow> wrapping ''unable to unmarshal OpenShift version %v'' [raw] (lift (ka_git_version ka raw)))
       (\<lambda>openShiftVersion.
     bind (wrapping ''unable to get Kubernetes Version'' [] (ka_get_raw ka ''/version'')) (\<lambda>raw.
     bind (wrapping ''unable to unmarshal Kubernetes Version: %v'' [raw] (lift (ka_git_version ka raw)))
       (\<lambda>kubernetesVersion.
       return \<lparr>svr_address = rc_host config, svr_openshift = openShiftVersion, svr_kubernetes = kubernetesVersion\<rparr>)))))))"

text \<open>A stream delivers its content, and perhaps an error after it.\<close>

type_synonym log_stream = "string \<times> error option"

definition copy_stream :: "(string \<Rightarrow> ('s, unit) op) \<Rightarrow> log_stream \<Rightarrow> ('s, unit) op" where
  "copy_stream write rd = bind (write (fst rd)) (\<lambda>_. case snd rd of None \<Rightarrow> return () | Some err \<Rightarrow> fault (Err err))"

definition FollowBuildLog ::
  "'s client \<Rightarrow> (string \<Rightarrow> string \<Rightarrow> ('s, log_stream) op) \<Rightarrow> (string \<Rightarrow> ('s, unit) op) \<Rightarrow> string \<Rightarrow> ('s, unit) op" where
  "FollowBuildLog c stream stdout buildName =
     bind (wrapping ''unable get build log %s'' [buildName] (stream (cl_namespace c) buildName)) (\<lambda>rd.
       wrapping ''error streaming logs for %s'' [buildName] (copy_stream stdout rd))"

text \<open>\<open>stream\<close> gets whether to follow; the reader it answers may be nil.\<close>

definition DisplayDeploymentConfigLog ::
  "'s client \<Rightarrow> (string \<Rightarrow> string \<Rightarrow> bool \<Rightarrow> ('s, log_stream option) op) \<Rightarrow> (string \<Rightarrow> ('s, unit) op) \<Rightarrow>
   string \<Rightarrow> bool \<Rightarrow> ('s, unit) op" where
  "DisplayDeploymentConfigLog c stream stdout deploymentConfigName followLog =
     bind (wrapping ''unable get deploymentconfigs log %s'' [deploymentConfigName]
            (stream (cl_namespace c) deploymentConfigName followLog)) (\<lambda>rd. case rd of
       None \<Rightarrow> failing ''unable to retrieve DeploymentConfig from OpenShift, does your component exist?'' []
     | Some rd \<Rightarrow>
         if followLog then
           wrapping ''error followLoging logs for %s'' [deploymentConfigName] (copy_stream stdout rd)
         else
           bind (wrapping ''unable to copy followLog to buffer'' []
                  (case snd rd of None \<Rightarrow> return () | Some err \<Rightarrow> fault (Err err))) (\<lambda>_.
             wrapping ''error copying logs to stdout'' [] (stdout (fst rd))))"

definition GetLogs ::
  "'s client \<Rightarrow> (string \<Rightarrow> string \<Rightarrow> bool \<Rightarrow> ('s, log_stream option) op) \<Rightarrow> (string \<Rightarrow> ('s, unit) op) \<Rightarrow>
   string \<Rightarrow> string \<Rightarrow> bool \<Rightarrow> ('s, unit) op" where
  "GetLogs c stream stdout componentName applicationName follow =
     bind (wrapping ''unable to create namespaced name'' []
            (lift (NamespaceOpenShiftObject componentName applicationName))) (\<lambda>namespacedOpenShiftObject.
       DisplayDeploymentConfigLog c stream stdout namespacedOpenShiftObject follow)"

text \<open>\<open>executor\<close> prepares the request for a pod, \<open>stream\<close> runs it with an input.\<close>

definition ExecCMDInContainer ::
  "'s client \<Rightarrow> 's kube_access \<Rightarrow> (rest_config \<Rightarrow> string \<Rightarrow> string \<Rightarrow> string list \<Rightarrow> ('s, unit) op) \<Rightarrow>
   (string \<Rightarrow> string \<Rightarrow> string list \<Rightarrow> 'i option \<Rightarrow> ('s, unit) op) \<Rightarrow>
   string \<Rightarrow> string list \<Rightarrow> 'i option \<Rightarrow> ('s, unit) op" where
  "ExecCMDInContainer c ka executor stream podName cmd stdin =
     bind (wrapping ''unable to get Kubernetes client config'' [] (ka_config ka)) (\<lambda>config.
     bind (wrapping ''unable execute command via SPDY'' [] (executor config (cl_namespace c) podName cmd)) (\<lambda>_.
       wrapping ''error while streaming command'' [] (stream (cl_namespace c) podName cmd stdin)))"

definition GetOnePodFromSelector :: "'s client \<Rightarrow> (string \<Rightarrow> string \<Rightarrow> ('s, pod list) op) \<Rightarrow> string \<Rightarrow> ('s, pod) op" where
  "GetOnePodFromSelector c list_pods selector =
     bind (wrapping ''unable to get Pod for the selector: %v'' [selector] (list_pods (cl_namespace c) selector)) (\<lambda>pods.
       let numPods = length pods in
       if numPods = 0 then failing ''no Pod was found for the selector: %v'' [selector]
       else if numPods > 1 then failing ''multiple Pods exist for the selector: %v. Only one must be present'' [selector]
       else return (pods ! 0))"


section \<open>Smaller operations\<close>

text \<open>An image whose metadata may be raw text or an object; the size of the object is what is looked at.\<close>

record image_meta =
  im_object :: "int option"
  im_raw :: string
  im_version :: string

definition imageWithMetadata :: "(string \<Rightarrow> int result) \<Rightarrow> (image_meta, unit) op" where
  "imageWithMetadata unmarshal_json = bind get_state (\<lambda>image.
     if (case im_object image of None \<Rightarrow> False | Some sz \<Rightarrow> sz > 0) then return ()
     else let version = (if length (im_version image) = 0 then ''1.0'' else im_version image) in
       bind (if length (im_raw image) \<noteq> 0 then
               bind (lift (unmarshal_json (im_raw image))) (\<lambda>obj. modify (im_object_update (\<lambda>_. Some obj)))
             else return ()) (\<lambda>_.
         modify (im_version_update (\<lambda>_. version))))"

definition clusterServiceClassExists :: "'s client \<Rightarrow> string \<Rightarrow> ('s, bool) op" where
  "clusterServiceClassExists c name =
     bind (attempt (GetClusterServiceClassExternalNamesAndPlans c)) (\<lambda>r.
       return (list_ex (\<lambda>class. sv_name class = name) (case r of Inl _ \<Rightarrow> [] | Inr classes \<Rightarrow> classes)))"

definition CheckPathExists :: "source_disk \<Rightarrow> string \<Rightarrow> bool" where
  "CheckPathExists dk path \<longleftrightarrow> (case sd_stat dk path of Missing _ \<Rightarrow> False | _ \<Rightarrow> True)"

definition OpenBrowser :: "(string list \<Rightarrow> ('s, unit) op) \<Rightarrow> string \<Rightarrow> string \<Rightarrow> ('s, unit) op" where
  "OpenBrowser start os url =
     (if os = ''linux'' then start [''xdg-open'', url]
      else if os = ''windows'' then start [''rundll32'', ''url.dll,FileProtocolHandler'', url]
      else if os = ''darwin'' then start [''open'', url]
      else failing ''unsupported platform'' [])"


section \<open>The timeout\<close>

lemma sint_word_of_int_times: "sint (word_of_int a * word_of_int b :: 64 word) = signed_take_bit 63 (a * b)"
  by transfer (simp add: signed_take_bit_mult)

lemma sint_seconds: "sint (seconds t) = signed_take_bit 63 (t * 1000000000)"
  unfolding seconds_def sint_word_of_int_times ..

lemma seconds_fit: "0 \<le> t \<Longrightarrow> sint (seconds t) = t * 1000000000 \<longleftrightarrow> t \<le> 9223372036"
  by (auto simp: sint_seconds signed_take_bit_int_eq_self_iff)

text \<open>C40. A timeout that \<open>odo preference set\<close> accepts is the number it was given, and it is stored as given;
  but the connection to the server is tried for that many seconds exactly when it is at most
  9223372036: beyond that the product with the length of a second does not fit the duration.\<close>

theorem timeout_fits:
  assumes "PrefSetConfiguration y p v (pref, d) = (Inr (), (pref', d'))" and "to_lower p = ''timeout''"
  shows "\<exists>t. parse_int 64 v = Inr t \<and> GetTimeout pref' = t \<and> 0 \<le> t \<and>
    (sint (request_timeout (Inr pref')) = t * 1000000000 \<longleftrightarrow> t \<le> 9223372036)"
proof -
  from PrefSetConfiguration_ok [OF assms(1)] assms(2) obtain f
    where f: "pref_update p ''timeout'' v = Inr f" and pref': "pref' = pref\<lparr>pi_settings := f (pi_settings pref)\<rparr>"
    by auto
  from f obtain t where "parse_int 64 v = Inr t" "0 \<le> t" "f = os_timeout_update (\<lambda>_. Some t)"
    by (auto simp: pref_update_def bindR_Inr_iff fails_def split: if_splits)
  with pref' seconds_fit [of t] show ?thesis by (simp add: GetTimeout_def request_timeout_def)
qed

text \<open>Ten thousand million seconds are accepted and make a negative duration.\<close>

theorem timeout_fits_witness:
  "\<exists>pref' d'. PrefSetConfiguration \<lparr>marshal = \<lambda>_. Inr ''x'', unmarshal = \<lambda>_ c. Inr c\<rparr> ''Timeout'' ''10000000000''
      (\<lparr>pi_filename = ''/h/p.yaml'', pi_type_meta = fst NewPreference, pi_settings = no_odo_settings\<rparr>,
       \<lparr>dk_files = [], dk_dirs = [''/h''], dk_unreadable = [], dk_unwritable = []\<rparr>) = (Inr (), (pref', d'))
    \<and> GetTimeout pref' = 10000000000 \<and> sint (request_timeout (Inr pref')) \<noteq> 10000000000 * 1000000000
    \<and> sint (request_timeout (Inr pref')) < 0"
proof -
  let ?y = "\<lparr>marshal = \<lambda>_. Inr ''x'', unmarshal = \<lambda>_ c. Inr c\<rparr> :: preference yaml"
  let ?w = "(\<lparr>pi_filename = ''/h/p.yaml'', pi_type_meta = fst NewPreference, pi_settings = no_odo_settings\<rparr>,
       \<lparr>dk_files = [], dk_dirs = [''/h''], dk_unreadable = [], dk_unwritable = []\<rparr>)"
  have low: "to_lower ''Timeout'' = ''timeout''" and dir: "path_dir ''/h/p.yaml'' = ''/h''" by code_simp+
  have num: "parse_int 64 ''10000000000'' = Inr 10000000000"
    by (simp add: parse_int_def parse_digits_def is_digit_def digits_val_def digit_val_def)
  have "fst (PrefSetConfiguration ?y ''Timeout'' ''10000000000'' ?w) = Inr ()"
    using dir num
    by (simp add: PrefSetConfiguration_def asSupportedParameter_eq low pref_parameters_def op_simps
        pref_update_def pref_write_def WriteToFile_def CreateIfNotExists_def create_file_def
        write_file_def not_exist_def has_key_def put_def)
  then obtain pref' d' where ok: "PrefSetConfiguration ?y ''Timeout'' ''10000000000'' ?w = (Inr (), (pref', d'))"
    by (metis prod.collapse)
  from timeout_fits [OF this low] num have "GetTimeout pref' = 10000000000"
    "sint (request_timeout (Inr pref')) \<noteq> 10000000000 * 1000000000" by auto
  moreover from this(1) have "sint (request_timeout (Inr pref')) < 0"
    by (simp add: request_timeout_def sint_seconds)
  ultimately show ?thesis using ok by blast
qed

end
