(* ===== verification/Invocation.thy ===== *)
theory Invocation
  imports Connection Apps
begin

text \<open>
  What every command does before its own work, \<open>pkg/odo/genericclioptions\<close> and
  \<open>pkg/odo/util/cmdutils.go\<close>: which commands run without a local configuration, how the project,
  the application and the component of a command are found, and how errors end the process. The
  state is the disk with the configuration files beside the cluster.
\<close>

type_synonym 's world = "disk \<times> 's"

definition on_fst :: "('t, 'a) op \<Rightarrow> ('t \<times> 's, 'a) op" where
  "on_fst m = (\<lambda>(t, s). case m t of (r, t') \<Rightarrow> (r, (t', s)))"

abbreviation on_cluster :: "('s, 'a) op \<Rightarrow> ('s world, 'a) op" where
  "on_cluster \<equiv> on_snd"

lemma on_fst_apply [op_simps]: "on_fst m ts = (fst (m (fst ts)), (snd (m (fst ts)), snd ts))"
  by (simp add: on_fst_def split: prod.split)

lemma on_fst_ok_iff: "on_fst m (t, s) = (Inr a, (t', s')) \<longleftrightarrow> m t = (Inr a, t') \<and> s' = s"
  by (auto simp: on_fst_def split: prod.splits)

lemma on_snd_ok_iff: "on_snd m (t, s) = (Inr a, (t', s')) \<longleftrightarrow> m s = (Inr a, s') \<and> t' = t"
  by (auto simp: on_snd_def split: prod.splits)


section \<open>The end of a process\<close>

text \<open>\<open>errors.Cause\<close>, and \<open>LogErrorAndExit\<close> on the error of a call, with and without a context.\<close>

fun cause_of :: "error \<Rightarrow> error" where
  "cause_of (Wrapf e fmt args) = cause_of e"
| "cause_of e = e"

definition or_exit :: "('s, 'a) op \<Rightarrow> ('s, 'a) op" where
  "or_exit m = (\<lambda>s. case m s of
      (Inl (Err err), s') \<Rightarrow> (Inl (Exit (error_text (cause_of err))), s')
    | r \<Rightarrow> r)"

definition or_exit_saying :: "string \<Rightarrow> ('s, 'a) op \<Rightarrow> ('s, 'a) op" where
  "or_exit_saying context m = (\<lambda>s. case m s of
      (Inl (Err err), s') \<Rightarrow> (Inl (Exit context), s')
    | r \<Rightarrow> r)"

lemma or_exit_ok_iff [simp]: "or_exit m s = (Inr a, t) \<longleftrightarrow> m s = (Inr a, t)"
  by (auto simp: or_exit_def split: prod.splits sum.splits fault.splits)

lemma or_exit_saying_ok_iff [simp]: "or_exit_saying c m s = (Inr a, t) \<longleftrightarrow> m s = (Inr a, t)"
  by (auto simp: or_exit_saying_def split: prod.splits sum.splits fault.splits)

lemma or_exit_no_error: "or_exit m s \<noteq> (Inl (Err e), t)"
  by (auto simp: or_exit_def split: prod.splits sum.splits fault.splits)

definition checkOutputFlag :: "string \<Rightarrow> unit result" where
  "checkOutputFlag outputFlag =
     (if outputFlag = [] \<or> outputFlag = ''json'' then Inr ()
      else fails ''Please input valid output format. available format: json'' [])"

definition GetFullName :: "string \<Rightarrow> string \<Rightarrow> string" where
  "GetFullName parentName name = parentName @ '' '' @ name"

definition ThrowContextError :: "'a result" where
  "ThrowContextError = fails (''Please specify the application name and project name'' @ [newline] @
     ''Or use the command from inside a directory containing an odo component.'') []"

text \<open>The three steps of a command; a step that waits may never end.\<close>

definition GenericRun ::
  "('s, 'o option) op \<Rightarrow> ('o \<Rightarrow> ('s, 'o option) op) \<Rightarrow> ('o \<Rightarrow> ('s, 'r option) op) \<Rightarrow> ('s, 'r option) op" where
  "GenericRun complete validate run =
     bindW (or_exit complete) (\<lambda>o1. bindW (or_exit (validate o1)) (\<lambda>o2. or_exit (run o2)))"


section \<open>Commands\<close>

text \<open>A command of cobra with the commands above it, and the values of its flags.\<close>

datatype cobra = RootCommand string | SubCommand string cobra

fun command_name :: "cobra \<Rightarrow> string" where
  "command_name (RootCommand n) = n"
| "command_name (SubCommand n p) = n"

fun command_root :: "cobra \<Rightarrow> cobra" where
  "command_root (RootCommand n) = RootCommand n"
| "command_root (SubCommand n p) = command_root p"

fun getFirstChildOfCommand :: "cobra \<Rightarrow> cobra option" where
  "getFirstChildOfCommand (RootCommand n) = None"
| "getFirstChildOfCommand (SubCommand n (RootCommand r)) = Some (SubCommand n (RootCommand r))"
| "getFirstChildOfCommand (SubCommand n (SubCommand m p)) = getFirstChildOfCommand (SubCommand m p)"

record invocation =
  iv_command :: cobra
  iv_flags :: "string gomap"
  iv_skip_check :: "bool result"

definition FlagValueIfSet :: "invocation \<Rightarrow> string \<Rightarrow> string" where
  "FlagValueIfSet iv flagName = (case lookup (iv_flags iv) flagName of None \<Rightarrow> [] | Some v \<Rightarrow> v)"

definition ContextFlagName :: string where "ContextFlagName = ''context''"
definition ProjectFlagName :: string where "ProjectFlagName = ''project''"
definition ApplicationFlagName :: string where "ApplicationFlagName = ''app''"
definition ComponentFlagName :: string where "ComponentFlagName = ''component''"
definition OutputFlagName :: string where "OutputFlagName = ''output''"
definition DefaultAppName :: string where "DefaultAppName = ''app''"

text \<open>
  What a command finds outside: the YAML library, \<open>LOCALODOCONFIG\<close>, the directories of the
  process, \<open>url.Parse\<close>, the ignore files, the connection, the API for a namespace, the pods
  and the projects.
\<close>

record 's tools =
  to_yaml :: "proxy_config yaml"
  to_env :: "string option"
  to_cwd :: "string result"
  to_home :: string
  to_user_home :: "string result"
  to_parse_url :: "string \<Rightarrow> parsed_url result"
  to_stat :: "string \<Rightarrow> bool"
  to_lines :: "string \<Rightarrow> (string list \<times> error option) result"
  to_access :: "'s kube_access"
  to_connect :: "string \<Rightarrow> 's client"
  to_outside :: "string \<Rightarrow> 's outside"
  to_project_watch :: "('s, project signal list) op"
  to_project_create :: "string \<Rightarrow> ('s, unit) op"

definition absolute :: "'s tools \<Rightarrow> string \<Rightarrow> string result" where
  "absolute te p = GetAbsPath (to_home te) (to_user_home te) (to_cwd te) p"

definition load_config :: "'s tools \<Rightarrow> string \<Rightarrow> ('s world, LocalConfigInfo) op" where
  "load_config te dir = on_fst (NewLocalConfigInfo (to_yaml te) (to_env te) (to_cwd te) dir)"

definition ConfigFileExists :: "LocalConfigInfo \<Rightarrow> bool" where
  "ConfigFileExists lci \<longleftrightarrow> lci_file_exists lci"

definition make_client :: "'s tools \<Rightarrow> invocation \<Rightarrow> ('s world, 's client) op" where
  "make_client te iv = bind (or_exit (lift (iv_skip_check iv))) (\<lambda>skipConnectionCheck.
     or_exit (on_cluster (New (to_access te) (to_connect te) skipConnectionCheck)))"

definition checkProjectCreateOrDeleteOnlyOnInvalidNamespace :: "invocation \<Rightarrow> string \<Rightarrow> ('s, unit) op" where
  "checkProjectCreateOrDeleteOnlyOnInvalidNamespace iv errFormat =
     (case iv_command iv of
        RootCommand _ \<Rightarrow> return ()
      | SubCommand name parent \<Rightarrow>
          if command_name parent \<noteq> ''project'' \<and> (name = ''create'' \<or> name = ''delete'')
          then or_exit (failing errFormat [command_name (command_root parent)])
          else return ())"


section \<open>The local configuration of a command\<close>

definition getValidConfig :: "'s tools \<Rightarrow> invocation \<Rightarrow> ('s world, LocalConfigInfo) op" where
  "getValidConfig te iv =
     (let configFileName = FlagValueIfSet iv ContextFlagName in
      bind (if configFileName \<noteq> [] then or_exit (lift (absolute te configFileName)) else return configFileName)
        (\<lambda>configFileName.
      bind (load_config te configFileName) (\<lambda>lci.
      case iv_command iv of
        RootCommand _ \<Rightarrow> return lci
      | SubCommand name p \<Rightarrow>
          let r = command_root p; afs = FlagValueIfSet iv ApplicationFlagName in
          (case getFirstChildOfCommand (SubCommand name p) of
             None \<Rightarrow> failing ''Unable to get first child of command'' []
           | Some fcc \<Rightarrow>
               if name = ''create'' \<and> (command_name p = ''component'' \<or> command_name p = command_name r) then return lci
               else if (command_name fcc = ''describe'' \<or> command_name fcc = ''delete'') \<and> length afs > 0 then return lci
               else if command_name fcc = ''list'' then return lci
               else if command_name fcc = ''project'' then return lci
               else if command_name fcc = ''app'' then return lci
               else if command_name fcc = ''catalog'' \<and> command_name p = ''list'' then return lci
               else if command_name fcc = ''component'' \<and> name = ''list'' then return lci
               else if command_name fcc = ''component'' \<and> length afs > 0 then return lci
               else if \<not> ConfigFileExists lci then
                 failing (''the current directory does not represent an odo component.'' @ [newline] @ ''Maybe use '' @
                   [CHR 0x27] @ ''odo create'' @ [CHR 0x27] @
                   '' to create component here or switch to directory with a component'') []
               else return lci))))"


section \<open>Project, application, component\<close>

text \<open>Whether the project is there is asked, and only an error of the question is looked at.\<close>

definition resolveProject ::
  "invocation \<Rightarrow> 's client \<Rightarrow> LocalConfigInfo \<Rightarrow> ('s, string \<times> 's client) op" where
  "resolveProject iv c lci =
     (let projectFlag = FlagValueIfSet iv ProjectFlagName in
      bind (if length projectFlag > 0 then
              bind (or_exit (ProjectExists c projectFlag)) (\<lambda>_. return projectFlag)
            else
              bind (if LocalGetProject lci = [] then
                      bind (if length (GetCurrentProjectName c) \<le> 0
                            then checkProjectCreateOrDeleteOnlyOnInvalidNamespace iv
                              (''Could not get current project. Please create or set a project'' @ [newline, CHR 0x09] @
                               ''%s project create|set <project_name>'')
                            else return ()) (\<lambda>_. return (GetCurrentProjectName c))
                    else return (LocalGetProject lci)) (\<lambda>ns.
              bind (attempt (ProjectExists c ns)) (\<lambda>r. case r of
                Inl err \<Rightarrow> bind (checkProjectCreateOrDeleteOnlyOnInvalidNamespace iv
                    (''You dont have permission to project '' @ [CHR 0x27] @ ns @ [CHR 0x27] @
                     '' or it doesnt exist. Please create or set a different project'' @ [newline, CHR 0x09] @
                     ''%s project create|set <project_name>'')) (\<lambda>_. return ns)
              | Inr ex \<Rightarrow> return ns)))
        (\<lambda>ns. return (ns, c\<lparr>cl_namespace := ns\<rparr>)))"

definition resolveApp :: "invocation \<Rightarrow> bool \<Rightarrow> LocalConfigInfo \<Rightarrow> string" where
  "resolveApp iv createAppIfNeeded lci =
     (let appFlag = FlagValueIfSet iv ApplicationFlagName in
      if length appFlag > 0 then appFlag
      else let app = LocalGetApplication lci in
        if app = [] \<and> createAppIfNeeded then DefaultAppName else app)"

record 's cmd_context =
  cx_client :: "'s client"
  cx_project :: string
  cx_application :: string
  cx_cmp :: string
  cx_output :: string

definition checkComponentExistsOrFail :: "'s cmd_context \<Rightarrow> string \<Rightarrow> ('s, unit) op" where
  "checkComponentExistsOrFail cx cmp =
     bind (or_exit (ComponentExists (cx_client cx) cmp (cx_application cx))) (\<lambda>ex.
       if ex then return ()
       else fault (Exit (sprintf ''Component %v does not exist in application %s'' [cmp, cx_application cx])))"

definition resolveComponent :: "invocation \<Rightarrow> LocalConfigInfo \<Rightarrow> 's cmd_context \<Rightarrow> ('s, string) op" where
  "resolveComponent iv lci cx =
     (let cmpFlag = FlagValueIfSet iv ComponentFlagName in
      if length cmpFlag = 0 then return (LocalGetName lci)
      else bind (checkComponentExistsOrFail cx cmpFlag) (\<lambda>_. return cmpFlag))"

definition newContext :: "'s tools \<Rightarrow> invocation \<Rightarrow> bool \<Rightarrow> ('s world, 's cmd_context) op" where
  "newContext te iv createAppIfNeeded =
     bind (make_client te iv) (\<lambda>c.
     let configFileName = FlagValueIfSet iv ContextFlagName in
     bind (if configFileName \<noteq> [] then or_exit (lift (absolute te configFileName)) else return configFileName) (\<lambda>_.
     bind (or_exit (getValidConfig te iv)) (\<lambda>lci.
     bind (on_cluster (resolveProject iv c lci)) (\<lambda>(ns, c).
     let app = resolveApp iv createAppIfNeeded lci;
         outputFlag = FlagValueIfSet iv OutputFlagName;
         cx = \<lparr>cx_client = c, cx_project = ns, cx_application = app, cx_cmp = [], cx_output = outputFlag\<rparr>
     in bind (on_cluster (resolveComponent iv lci cx)) (\<lambda>cmp. return (cx\<lparr>cx_cmp := cmp\<rparr>))))))"

definition NewContext :: "'s tools \<Rightarrow> invocation \<Rightarrow> ('s world, 's cmd_context) op" where
  "NewContext te iv = newContext te iv False"

definition NewContextCreatingAppIfNeeded :: "'s tools \<Rightarrow> invocation \<Rightarrow> ('s world, 's cmd_context) op" where
  "NewContextCreatingAppIfNeeded te iv = newContext te iv True"

text \<open>The component of a context, or the one given; the context is updated with it.\<close>

definition ComponentAllowingEmpty :: "'s cmd_context \<Rightarrow> bool \<Rightarrow> string list \<Rightarrow> ('s, string \<times> 's cmd_context) op" where
  "ComponentAllowingEmpty cx allowEmpty optionalComponent =
     (case optionalComponent of
        [] \<Rightarrow> if \<not> allowEmpty \<and> length (cx_cmp cx) = 0 then fault (Exit ''No component is set'')
              else return (cx_cmp cx, cx)
      | [cmp] \<Rightarrow> if length cmp > 0 then
            bind (checkComponentExistsOrFail cx cmp) (\<lambda>_. return (cmp, cx\<lparr>cx_cmp := cmp\<rparr>))
          else return (cx_cmp cx, cx)
      | _ \<Rightarrow> fault (Exit (sprintf ''ComponentAllowingEmpty function only accepts one optional argument, was given: %v''
            [''['' @ join_with '' '' optionalComponent @ '']''])))"

definition ContextComponent :: "'s cmd_context \<Rightarrow> string list \<Rightarrow> ('s, string \<times> 's cmd_context) op" where
  "ContextComponent cx optionalComponent = ComponentAllowingEmpty cx False optionalComponent"

text \<open>The rules of an ignore file are asked for only when no rule was given.\<close>

definition ApplyIgnore :: "'s tools \<Rightarrow> string list \<Rightarrow> string \<Rightarrow> ('w, string list) op" where
  "ApplyIgnore te ignores sourcePath =
     (if length ignores = 0 then
        bind (or_exit (lift (GetIgnoreRulesFromDirectory (to_stat te) (to_lines te) sourcePath))) (\<lambda>(rules, err).
          case err of Some err \<Rightarrow> or_exit (fault (Err err)) | None \<Rightarrow> return (ignores @ rules))
      else return ignores)"


section \<open>Facts\<close>

lemma getFirstChild_Some: "getFirstChildOfCommand (SubCommand n p) \<noteq> None"
  by (induction "SubCommand n p" arbitrary: n p rule: getFirstChildOfCommand.induct) auto

lemma load_config_reads: "load_config te dir (d, s) = (r, (d', s')) \<Longrightarrow> d' = d \<and> s' = s"
proof -
  have "reads (NewLocalConfigInfo (to_yaml te) (to_env te) (to_cwd te) dir)"
    unfolding NewLocalConfigInfo_def reads_def
    by (auto simp: op_simps Let_def getFromFile_def GetFromFile_def read_file_def split: prod.split sum.split)
  then show "load_config te dir (d, s) = (r, (d', s')) \<Longrightarrow> d' = d \<and> s' = s"
    by (auto simp: load_config_def on_fst_def dest: readsD split: prod.splits)
qed


text \<open>The commands for which a missing configuration file is accepted, by their path from the root.\<close>

fun command_path :: "cobra \<Rightarrow> string list" where
  "command_path (RootCommand n) = [n]"
| "command_path (SubCommand n p) = command_path p @ [n]"

definition config_optional :: "string list \<Rightarrow> bool \<Rightarrow> bool" where
  "config_optional path app \<longleftrightarrow>
     (let name = last path; parent = last (butlast path); first = path ! 1 in
      length path = 1 \<or> name = ''create'' \<and> parent \<in> {''component'', hd path}
      \<or> first \<in> {''list'', ''project'', ''app''} \<or> app \<and> first \<in> {''describe'', ''delete'', ''component''}
      \<or> first = ''catalog'' \<and> parent = ''list'' \<or> first = ''component'' \<and> name = ''list'')"

lemma command_path_facts [simp]:
  "command_path c \<noteq> []"
  "last (command_path c) = command_name c"
  "hd (command_path c) = command_name (command_root c)"
  by (induction c) (auto simp: hd_append)

lemma first_child_path:
  "getFirstChildOfCommand (SubCommand n p) = Some fcc \<Longrightarrow> (command_path p @ [n]) ! 1 = command_name fcc"
proof (induction "SubCommand n p" arbitrary: n p rule: getFirstChildOfCommand.induct)
  case (3 n m p)
  then have "(command_path p @ [m]) ! 1 = command_name fcc" by simp
  moreover have "1 < length (command_path p @ [m])" by (cases "command_path p") auto
  ultimately show ?case by (metis command_path.simps(2) nth_append)
qed auto


text \<open>The names a command works with: a flag wins over the configuration, a default comes last.\<close>

definition first_set :: "string list \<Rightarrow> string" where
  "first_set xs = (case filter (\<lambda>x. x \<noteq> []) xs of [] \<Rightarrow> [] | x # _ \<Rightarrow> x)"

lemma resolveProject_ok:
  assumes "resolveProject iv c lci s = (Inr (ns, c'), t)"
  shows "ns = first_set [FlagValueIfSet iv ProjectFlagName, LocalGetProject lci, cl_namespace c]"
    and "c' = c\<lparr>cl_namespace := ns\<rparr>"
  using assms
  by (auto simp: resolveProject_def Let_def bind_ok_iff first_set_def GetCurrentProjectName_def attempt_ok_iff
      split: if_splits sum.splits) (metis sum.exhaust)+

lemma make_client_disk: "make_client te iv (d, s) = (Inr c, w) \<Longrightarrow> \<exists>s1. w = (d, s1)"
  by (cases w) (auto simp: make_client_def bind_ok_iff on_snd_ok_iff)

lemma load_config_state: "load_config te dir w = (r, w') \<Longrightarrow> w' = w"
  by (cases w; cases w') (auto dest: load_config_reads)

lemma getValidConfig_state: "getValidConfig te iv w = (Inr lci, w') \<Longrightarrow> w' = w"
  by (auto simp: getValidConfig_def Let_def bind_ok_iff dest!: load_config_state
      split: if_splits cobra.splits option.splits)

lemma resolveComponent_ok:
  assumes "resolveComponent iv lci cx s = (Inr cmp, t)"
  shows "cmp = first_set [FlagValueIfSet iv ComponentFlagName, LocalGetName lci]"
    and "FlagValueIfSet iv ComponentFlagName \<noteq> [] \<Longrightarrow>
      ComponentExists (cx_client cx) cmp (cx_application cx) s = (Inr True, t)"
  using assms by (auto simp: resolveComponent_def Let_def bind_ok_iff checkComponentExistsOrFail_def
      first_set_def split: if_splits)

lemma resolveApp_first: "resolveApp iv create lci =
    first_set ([FlagValueIfSet iv ApplicationFlagName, LocalGetApplication lci] @ (if create then [DefaultAppName] else []))"
  by (simp add: resolveApp_def first_set_def Let_def DefaultAppName_def)

text \<open>C14. Every command finds its project, application and component in the same order: the flag if it is
  set, then the configuration, then the current project of the client, for a command that makes
  applications the default application, for the component nothing. The client it goes on with
  works in that project, and a component named by the flag is one the cluster has.\<close>

theorem context_resolved:
  assumes "newContext te iv create (d, s) = (Inr cx, (d', s'))"
  shows "d' = d \<and> (\<exists>lci c s1 s2.
    make_client te iv (d, s) = (Inr c, (d, s1)) \<and> getValidConfig te iv (d, s1) = (Inr lci, (d, s1)) \<and>
    resolveProject iv c lci s1 = (Inr (cx_project cx, cx_client cx), s2) \<and>
    cx_client cx = c\<lparr>cl_namespace := cx_project cx\<rparr> \<and>
    cx_project cx = first_set [FlagValueIfSet iv ProjectFlagName, LocalGetProject lci, cl_namespace c] \<and>
    cx_application cx = first_set ([FlagValueIfSet iv ApplicationFlagName, LocalGetApplication lci]
      @ (if create then [DefaultAppName] else [])) \<and>
    cx_cmp cx = first_set [FlagValueIfSet iv ComponentFlagName, LocalGetName lci] \<and>
    (FlagValueIfSet iv ComponentFlagName \<noteq> [] \<longrightarrow>
       ComponentExists (cx_client cx) (cx_cmp cx) (cx_application cx) s2 = (Inr True, s')))"
proof -
  obtain c w1 w2 w3 w4 lci ns c2 cmp where
    client: "make_client te iv (d, s) = (Inr c, w1)"
    and abs: "w2 = w1"
    and config: "getValidConfig te iv w2 = (Inr lci, w3)"
    and project: "on_cluster (resolveProject iv c lci) w3 = (Inr (ns, c2), w4)"
    and component: "on_cluster (resolveComponent iv lci \<lparr>cx_client = c2, cx_project = ns,
        cx_application = resolveApp iv create lci, cx_cmp = [], cx_output = FlagValueIfSet iv OutputFlagName\<rparr>) w4
      = (Inr cmp, (d', s'))"
    and cx: "cx = \<lparr>cx_client = c2, cx_project = ns, cx_application = resolveApp iv create lci,
        cx_cmp = cmp, cx_output = FlagValueIfSet iv OutputFlagName\<rparr>"
    using assms by (auto simp: newContext_def Let_def bind_ok_iff split: if_splits)
  from make_client_disk [OF client] obtain s1 where w1: "w1 = (d, s1)" by blast
  from getValidConfig_state [OF config] abs w1 have w3: "w3 = (d, s1)" by simp
  from project w3 obtain s2 where w4: "w4 = (d, s2)" and resolved: "resolveProject iv c lci s1 = (Inr (ns, c2), s2)"
    by (cases w4) (auto simp: on_snd_ok_iff)
  note ns = resolveProject_ok [OF resolved]
  from component w4 have d: "d' = d" and cmp: "resolveComponent iv lci \<lparr>cx_client = c2, cx_project = ns,
        cx_application = resolveApp iv create lci, cx_cmp = [], cx_output = FlagValueIfSet iv OutputFlagName\<rparr> s2
      = (Inr cmp, s')" by (auto simp: on_snd_ok_iff)
  show ?thesis
    using config client abs w1 w3 ns d cx resolveComponent_ok [OF cmp] resolveApp_first [of iv create lci]
    by (intro conjI exI [of _ lci] exI [of _ c] exI [of _ s1] exI [of _ s2])
      (use resolved in auto)
qed


text \<open>A connection that answers, and tools of a process in the directory \<open>/p\<close>.\<close>

definition quiet_access :: "cluster kube_access" where
  "quiet_access = \<lparr>ka_config = return \<lparr>rc_host = ''https://a:1'', rc_token = ''t''\<rparr>, ka_clients = [],
     ka_namespace = return ''dev'', ka_user = return ''ann'', ka_dial = (\<lambda>_ _. return ()),
     ka_oauth = (\<lambda>_. return ()), ka_delete_token = (\<lambda>_. return ()),
     ka_raw = return \<lparr>ac_tokens = [(''ann'', ''t'')], ac_contexts = [(''c'', ''ann'')], ac_current = ''c''\<rparr>,
     ka_modify = (\<lambda>_. return ()), ka_get_raw = (\<lambda>_. return []),
     ka_parse_url = (\<lambda>u. Inr \<lparr>url_host = ''a:1'', url_port = ''1'', url_scheme = ''https''\<rparr>),
     ka_lookup_port = (\<lambda>_. Inr 443), ka_git_version = Inr, ka_prefs = fails ''no preferences'' []\<rparr>"

definition shop_tools :: "proxy_config \<Rightarrow> cluster tools" where
  "shop_tools cfg = \<lparr>to_yaml = one_yaml cfg, to_env = None, to_cwd = Inr ''/p'', to_home = [],
     to_user_home = Inr ''/home/ann'', to_parse_url = (\<lambda>_. Inr \<lparr>url_host = [], url_port = [], url_scheme = []\<rparr>),
     to_stat = (\<lambda>_. False), to_lines = (\<lambda>p. fails ''open %s'' [p]), to_access = quiet_access,
     to_connect = (\<lambda>ns. stream_client\<lparr>cl_namespace := ns\<rparr>), to_outside = (\<lambda>_. quiet_outside),
     to_project_watch = return [], to_project_create = (\<lambda>_. return ())\<rparr>"

definition odo_command :: "string \<Rightarrow> (string \<times> string) list \<Rightarrow> invocation" where
  "odo_command name flags = \<lparr>iv_command = SubCommand name (RootCommand ''odo''), iv_flags = flags, iv_skip_check = Inr False\<rparr>"

definition fresh_lci :: LocalConfigInfo where
  "fresh_lci = \<lparr>lci_filename = ''/p/.odo/config.yaml'', lci_type_meta = NewLocalConfig_meta,
     lci_settings = no_settings, lci_file_exists = False\<rparr>"

lemma fresh_load: "load_config (shop_tools cfg) [] (example_disk, s) = (Inr fresh_lci, (example_disk, s))"
proof -
  have "path_join [''/p'', ''.odo'', ''config.yaml''] = ''/p/.odo/config.yaml''" by code_simp
  then show ?thesis by (simp add: load_config_def shop_tools_def on_fst_def NewLocalConfigInfo_def fresh_lci_def
      getLocalConfigFile_def op_simps Let_def example_disk_def not_exist_def has_key_def)
qed


lemma shop_client:
  "make_client (shop_tools cfg) (odo_command n fl) (d, s) = (Inr (stream_client\<lparr>cl_namespace := ''dev''\<rparr>), (d, s))"
  by (simp add: make_client_def shop_tools_def odo_command_def New_def quiet_access_def or_exit_def
      isServerUp_def isLoggedIn_def op_simps attempt_def)

lemma fresh_config: "getValidConfig (shop_tools cfg) (odo_command ''create'' fl) (example_disk, s) = (Inr fresh_lci, (example_disk, s))"
  if "FlagValueIfSet (odo_command ''create'' fl) ContextFlagName = []"
  using that fresh_load [of cfg s] by (simp add: getValidConfig_def bind_ok odo_command_def op_apply)

theorem context_resolved_witness:
  "\<exists>(cx :: cluster cmd_context) s. newContext (shop_tools (NewLocalConfig_meta, no_settings)) (odo_command ''create'' [(''app'', ''shop'')]) True (example_disk, new_state)
      = (Inr cx, (example_disk, s))
    \<and> cx_project cx = ''dev'' \<and> cl_namespace (cx_client cx) = ''dev'' \<and> cx_application cx = ''shop'' \<and> cx_cmp cx = []"
proof -
  let ?iv = "odo_command ''create'' [(''app'', ''shop'')]"
  have flags: "FlagValueIfSet ?iv ContextFlagName = []" "FlagValueIfSet ?iv ProjectFlagName = []"
    "FlagValueIfSet ?iv ComponentFlagName = []" "FlagValueIfSet ?iv ApplicationFlagName = ''shop''" by code_simp+
  have "is_ok (fst (resolveProject ?iv (stream_client\<lparr>cl_namespace := ''dev''\<rparr>) fresh_lci new_state))" by code_simp
  then obtain ns c2 s2 where "resolveProject ?iv (stream_client\<lparr>cl_namespace := ''dev''\<rparr>) fresh_lci new_state = (Inr (ns, c2), s2)"
    by (metis is_ok_iff prod.collapse)
  then obtain cx :: "cluster cmd_context" and d s where cx: "newContext (shop_tools (NewLocalConfig_meta, no_settings)) ?iv True (example_disk, new_state) = (Inr cx, (d, s))"
    using flags fresh_config [of "[(''app'', ''shop'')]" "(NewLocalConfig_meta, no_settings)" new_state]
      shop_client [of "(NewLocalConfig_meta, no_settings)" "''create''" "[(''app'', ''shop'')]" example_disk new_state]
    by (simp add: newContext_def bind_ok on_snd_apply Let_def resolveComponent_def op_apply)
  from context_resolved [OF cx] fresh_config [OF flags(1)] shop_client flags cx
  show ?thesis by (auto simp: first_set_def fresh_lci_def local_getters no_settings_def)
qed

text \<open>A project flag that names a project the cluster does not have is accepted: the command goes on in
  that project. The answer is asked for and only its error is looked at.\<close>

theorem missing_project_accepted:
  assumes "FlagValueIfSet iv ProjectFlagName = p" and "p \<noteq> []"
    and "ra_get (cl_projects c) [] p s = (Inl (Err (StatusError reason msg)), s')"
    and "reason = ''NotFound'' \<or> reason = ''Forbidden''"
  shows "ProjectExists c p s = (Inr False, s') \<and> resolveProject iv c lci s = (Inr (p, c\<lparr>cl_namespace := p\<rparr>), s')"
proof -
  have "GetProject c p s = (Inr None, s')"
    using assms(3,4) by (auto simp: GetProject_def op_simps)
  then have ex: "ProjectExists c p s = (Inr False, s')" by (simp add: ProjectExists_def bind_ok op_simps)
  moreover from ex have e: "or_exit (ProjectExists c p) s = (Inr False, s')" by simp
  moreover have "bind (or_exit (ProjectExists c p)) (\<lambda>_. return p) s = (Inr p, s')"
    by (rule trans, rule bind_ok, rule e) (simp add: op_apply)
  ultimately show ?thesis using assms(1,2) by (simp add: resolveProject_def bind_ok op_apply)
qed

theorem missing_project_accepted_witness:
  "\<exists>s'. ProjectExists stream_client ''typo'' new_state = (Inr False, s') \<and>
     resolveProject (odo_command ''list'' [(''project'', ''typo'')]) stream_client fresh_lci new_state
       = (Inr (''typo'', stream_client\<lparr>cl_namespace := ''typo''\<rparr>), s')"
proof -
  have "ra_get (cl_projects stream_client) [] ''typo'' new_state
      = (Inl (Err (StatusError ''NotFound'' (''typo'' @ '' not found''))), new_state)"
    by (simp add: stream_client_def memory_client_def new_state_def empty_cluster_def store_api_def op_simps status_not_found_def)
  moreover have "FlagValueIfSet (odo_command ''list'' [(''project'', ''typo'')]) ProjectFlagName = ''typo''" by code_simp
  ultimately show ?thesis
    using missing_project_accepted [of "odo_command ''list'' [(''project'', ''typo'')]" "''typo''" stream_client new_state]
    by blast
qed

end
