(* ===== verification/PushCmd.thy ===== *)
theory PushCmd
  imports Invocation
begin

text \<open>
  The commands that bring sources and configuration to the cluster, \<open>push.go\<close>, \<open>watch.go\<close> and
  \<open>update.go\<close> of \<open>pkg/odo/cli/component\<close>. Each has a step that completes its options, one that
  validates them and one that runs.
\<close>


section \<open>odo push\<close>

record push_flags =
  pf_ignores :: "string list"
  pf_context :: string
  pf_config :: bool
  pf_source :: bool

record 's push_options =
  po_flags :: push_flags
  po_local :: LocalConfigInfo
  po_source_type :: SrcType
  po_source_path :: string
  po_context :: "'s cmd_context"

definition resolveSrcAndConfigFlags :: "push_flags \<Rightarrow> push_flags" where
  "resolveSrcAndConfigFlags fl =
     (if \<not> pf_config fl \<and> \<not> pf_source fl then fl\<lparr>pf_config := True, pf_source := True\<rparr> else fl)"

text \<open>The path that \<open>GetAbsPath\<close> gives, empty beside an error.\<close>

definition source_path :: "'s tools \<Rightarrow> LocalConfigInfo \<Rightarrow> string result" where
  "source_path te lci = GetOSSourcePath (to_parse_url te)
     (\<lambda>p. case absolute te p of Inl _ \<Rightarrow> [] | Inr a \<Rightarrow> a) lci"

definition ensure_project :: "'s tools \<Rightarrow> 's client \<Rightarrow> string \<Rightarrow> ('s, unit option) op" where
  "ensure_project te c prjName =
     bind (wrapping ''failed to check if project with name %s exists'' [prjName] (ProjectExists c prjName))
       (\<lambda>isPrjExists.
          if isPrjExists then finished
          else wrapping ''project %s does not exist. Failed creating it.Please try after creating project using `odo project create <project_name>`''
                 [prjName] (ProjectCreate (to_project_watch te) (to_project_create te) prjName True))"

definition PushComplete :: "'s tools \<Rightarrow> invocation \<Rightarrow> push_flags \<Rightarrow> ('s world, 's push_options option) op" where
  "PushComplete te iv fl =
     (let fl = resolveSrcAndConfigFlags fl in
      bind (wrapping ''unable to retrieve configuration information'' [] (load_config te (pf_context fl))) (\<lambda>conf.
      bind (wrapping ''unable to retrieve absolute path to source location'' [] (lift (source_path te conf)))
        (\<lambda>sourcePath.
      bind (wrapping ''unable to apply ignore information'' [] (ApplyIgnore te (pf_ignores fl) sourcePath)) (\<lambda>ignores.
      bind (NewContextCreatingAppIfNeeded te iv) (\<lambda>cx.
      bindW (on_cluster (ensure_project te (cx_client cx) (LocalGetProject conf))) (\<lambda>_.
        return (Some \<lparr>po_flags = fl\<lparr>pf_ignores := ignores\<rparr>, po_local = conf,
          po_source_type = LocalGetSourceType conf, po_source_path = sourcePath,
          po_context = cx\<lparr>cx_client := (cx_client cx)\<lparr>cl_namespace := LocalGetProject conf\<rparr>\<rparr>\<rparr>)))))))"

text \<open>The client and the pods a command works with.\<close>

definition po_client :: "'s push_options \<Rightarrow> 's client" where
  "po_client po = cx_client (po_context po)"

definition po_outside :: "'s tools \<Rightarrow> 's push_options \<Rightarrow> 's outside" where
  "po_outside te po = to_outside te (cl_namespace (po_client po))"

definition PushValidate :: "'s tools \<Rightarrow> 's push_options \<Rightarrow> ('s, 's push_options option) op" where
  "PushValidate te po =
     bind (ValidateComponentCreateRequest (po_client po) (po_outside te po) (lci_settings (po_local po)) False) (\<lambda>_.
     bind (ComponentExists (po_client po) (LocalGetName (po_local po)) (LocalGetApplication (po_local po)))
       (\<lambda>isCmpExists.
     if \<not> isCmpExists \<and> pf_source (po_flags po) \<and> \<not> pf_config (po_flags po)
     then failing ''Component %s does not exist and hence cannot push only source. Please use `odo push` without any flags or with both `--source` and `--config` flags''
            [LocalGetName (po_local po)]
     else return (Some po)))"

definition createCmpIfNotExistsAndApplyCmpConfig :: "'s tools \<Rightarrow> 's push_options \<Rightarrow> ('s, unit option) op" where
  "createCmpIfNotExistsAndApplyCmpConfig te po =
     (if \<not> pf_config (po_flags po) then finished
      else
        let c = po_client po; io = po_outside te po; cfg = po_local po;
            cmpName = LocalGetName cfg; appName = LocalGetApplication cfg in
        bind (wrapping ''failed to check if component %s exists or not'' [cmpName] (ComponentExists c cmpName appName))
          (\<lambda>isCmpExists.
        bindW (if \<not> isCmpExists
               then or_exit_saying (sprintf ''Failed to create component with name %s. Please use `odo config view` to view settings used to create component.'' [cmpName])
                      (CreateComponent c io cfg)
               else finished) (\<lambda>_.
          or_exit_saying ''Failed to update config to component deployed'' (ApplyConfig c io cfg isCmpExists))))"

definition push_source :: "'s tools \<Rightarrow> 's push_options \<Rightarrow> ('s, unit option) op" where
  "push_source te po =
     (let c = po_client po; io = po_outside te po; cfg = po_local po;
          cmpName = LocalGetName cfg; appName = LocalGetApplication cfg in
      bind (wrapping ''unable to retrieve OS source path to source location'' [] (lift (source_path te cfg)))
        (\<lambda>sourcePath.
          if po_source_type po = LOCAL then
            wrapping (''Failed to push component: '' @ cmpName) []
              (PushLocal c io cmpName appName sourcePath [] [] True
                (GetAbsGlobExps sourcePath (pf_ignores (po_flags po))))
          else if po_source_type po = BINARY then
            wrapping (''Failed to push component: '' @ cmpName) []
              (PushLocal c io cmpName appName (path_dir sourcePath) [sourcePath] [] True
                (GetAbsGlobExps sourcePath (pf_ignores (po_flags po))))
          else finished))"

definition PushRun :: "'s tools \<Rightarrow> 's push_options \<Rightarrow> ('s, unit option) op" where
  "PushRun te po =
     bindW (createCmpIfNotExistsAndApplyCmpConfig te po) (\<lambda>_.
       if \<not> pf_source (po_flags po) then finished else push_source te po)"

definition odo_push :: "'s tools \<Rightarrow> invocation \<Rightarrow> push_flags \<Rightarrow> ('s world, unit option) op" where
  "odo_push te iv fl = GenericRun (PushComplete te iv fl)
     (\<lambda>po. on_cluster (PushValidate te po)) (\<lambda>po. on_cluster (PushRun te po))"


section \<open>odo watch\<close>

record watch_flags =
  wf_ignores :: "string list"
  wf_delay :: int
  wf_context :: string

record 's watch_options =
  wo_flags :: watch_flags
  wo_client :: "'s client"
  wo_local :: LocalConfigInfo
  wo_source_type :: SrcType
  wo_source_path :: string
  wo_context :: "'s cmd_context"

definition WatchComplete :: "'s tools \<Rightarrow> invocation \<Rightarrow> watch_flags \<Rightarrow> ('s world, 's watch_options option) op" where
  "WatchComplete te iv fl =
     bind (make_client te iv) (\<lambda>c.
     bind (wrapping ''unable to retrieve configuration information'' [] (load_config te (wf_context fl))) (\<lambda>conf.
     bind (wrapping ''unable to retrieve absolute path to source location'' [] (lift (source_path te conf)))
       (\<lambda>sourcePath.
     bind (wrapping ''unable to apply ignore information'' [] (ApplyIgnore te (wf_ignores fl) sourcePath)) (\<lambda>ignores.
     bind (NewContextCreatingAppIfNeeded te iv) (\<lambda>cx.
       return (Some \<lparr>wo_flags = fl\<lparr>wf_ignores := ignores\<rparr>, wo_client = c, wo_local = conf,
         wo_source_type = LocalGetSourceType conf, wo_source_path = sourcePath, wo_context = cx\<rparr>))))))"

definition wo_outside :: "'s tools \<Rightarrow> 's watch_options \<Rightarrow> 's outside" where
  "wo_outside te wo = to_outside te (cl_namespace (cx_client (wo_context wo)))"

definition WatchValidate :: "'s tools \<Rightarrow> 's watch_options \<Rightarrow> ('s, 's watch_options option) op" where
  "WatchValidate te wo =
     bind (wrapping ''Cannot watch %s'' [wo_source_path wo]
            (lift (io_stat (wo_outside te wo) (wo_source_path wo)))) (\<lambda>_.
     if wo_source_type wo \<noteq> ''binary'' \<and> wo_source_type wo \<noteq> ''local'' then
       failing ''Watch is supported by binary and local components only and source type of component %s is %s''
         [LocalGetName (wo_local wo), wo_source_type wo]
     else if wf_delay (wo_flags wo) < 0 then
       failing ''Delay cannot be lesser than 0 and delay=0 means changes will be pushed as soon as they are detected which can cause performance issues'' []
     else bind (ComponentExists (cx_client (wo_context wo)) (LocalGetName (wo_local wo)) (LocalGetApplication (wo_local wo)))
       (\<lambda>ex. if \<not> ex then failing ''component does not exist. Please use `odo push` to create you component'' []
         else return (Some wo)))"

text \<open>What the watch of sources gets; its handler pushes the changes it is given.\<close>

definition watch_parameters :: "'s tools \<Rightarrow> 's watch_options \<Rightarrow> 's WatchParameters" where
  "watch_parameters te wo =
     \<lparr>wp_component = LocalGetName (wo_local wo), wp_application = cx_application (wo_context wo),
      wp_path = wo_source_path wo,
      wp_ignores = GetAbsGlobExps (wo_source_path wo) (wf_ignores (wo_flags wo)),
      wp_delay = wf_delay (wo_flags wo),
      wp_handler = (\<lambda>cmp app path changed deleted.
        PushLocal (cx_client (wo_context wo)) (wo_outside te wo) cmp app path changed deleted False
          (GetAbsGlobExps (wo_source_path wo) (wf_ignores (wo_flags wo))))\<rparr>"

text \<open>\<open>WatchRun\<close>: the states the watch can be in after some actions, and the error it returns with.\<close>

definition WatchRun ::
  "(string \<Rightarrow> (string \<Rightarrow> bool) result) \<Rightarrow> 's tools \<Rightarrow> 's watch_options \<Rightarrow> unit result \<Rightarrow> file_system \<Rightarrow>
   action list \<Rightarrow> 's \<Rightarrow> (watching \<times> 's) option result" where
  "WatchRun compile te wo new_watcher fs as s =
     wrapR ''Error while trying to watch %s'' [wo_source_path wo]
       (bindR (watch_start compile (watch_parameters te wo) new_watcher fs) (\<lambda>w.
         case watch_exec compile (watch_parameters te wo) as (w, s) of
           None \<Rightarrow> Inr None
         | Some (w, s') \<Rightarrow> (case wa_phase w of
             Returned err \<Rightarrow> Inl (Err err) | Crashed f \<Rightarrow> Inl f | _ \<Rightarrow> Inr (Some (w, s')))))"


section \<open>odo update\<close>

record update_flags =
  uf_binary :: string
  uf_git :: string
  uf_local :: string
  uf_ref :: string
  uf_context :: string

record 's update_options =
  uo_flags :: update_flags
  uo_config :: LocalConfigInfo
  uo_name :: string
  uo_context :: "'s cmd_context"

text \<open>\<open>ComponentOptions.Complete\<close>: the component of the context, or the first argument.\<close>

definition component_options :: "'s tools \<Rightarrow> invocation \<Rightarrow> string list \<Rightarrow> ('s world, string \<times> 's cmd_context) op" where
  "component_options te iv args =
     bind (NewContext te iv) (\<lambda>cx. on_cluster (ContextComponent cx (if length args = 0 then [] else [args ! 0])))"

definition UpdateComplete ::
  "'s tools \<Rightarrow> invocation \<Rightarrow> update_flags \<Rightarrow> string list \<Rightarrow> ('s world, 's update_options option) op" where
  "UpdateComplete te iv fl args =
     bind (wrapping ''failed to update component'' [] (component_options te iv args)) (\<lambda>(name, cx).
     bind (wrapping ''failed to update component'' [] (load_config te (uf_context fl))) (\<lambda>cfg.
       return (Some \<lparr>uo_flags = fl, uo_config = cfg, uo_name = name, uo_context = cx\<rparr>)))"

definition UpdateValidate :: "'s update_options \<Rightarrow> unit result" where
  "UpdateValidate uo =
     (let fl = uo_flags uo; checkFlag = (0 :: int);
          checkFlag = (if length (uf_binary fl) \<noteq> 0 then checkFlag + 1 else checkFlag);
          checkFlag = (if length (uf_git fl) \<noteq> 0 then checkFlag + 1 else checkFlag);
          checkFlag = (if length (uf_local fl) \<noteq> 0 then checkFlag + 1 else checkFlag)
      in if checkFlag \<noteq> 1 then fails ''The source can be either --binary or --local or --git'' []
         else if length (uf_git fl) = 0 \<and> length (uf_ref fl) \<noteq> 0
         then fails ''The --ref flag is only valid for --git flag'' []
         else if length (cx_application (uo_context uo)) = 0
         then fails ''Cannot update as no application is set as active'' []
         else Inr ())"

definition UpdateRun :: "'s tools \<Rightarrow> 's update_options \<Rightarrow> ('s, unit option) op" where
  "UpdateRun te uo =
     (let c = cx_client (uo_context uo); io = to_outside te (cl_namespace c); cfg = uo_config uo;
          cmpSrcType = LocalGetSourceType cfg
      in if cmpSrcType = GIT then Update c io cfg (LocalGetSourceLocation cfg)
         else if cmpSrcType = LOCAL then
           bind (if length (uf_context (uo_flags uo)) > 0 then return (uf_context (uo_flags uo))
                 else wrapping ''failed to update component %s'' [LocalGetName cfg] (lift (to_cwd te))) (\<lambda>cmpPath.
           bind (lift (io_stat io cmpPath)) (\<lambda>is_dir.
             if \<not> is_dir then failing ''Please provide a path to the directory'' []
             else Update c io cfg cmpPath))
         else if cmpSrcType = BINARY then
           bind (lift (absolute te (uf_binary (uo_flags uo)))) (\<lambda>path. Update c io cfg path)
         else finished)"

definition odo_update :: "'s tools \<Rightarrow> invocation \<Rightarrow> update_flags \<Rightarrow> string list \<Rightarrow> ('s world, unit option) op" where
  "odo_update te iv fl args = GenericRun (UpdateComplete te iv fl args)
     (\<lambda>uo. bind (lift (UpdateValidate uo)) (\<lambda>_. return (Some uo))) (\<lambda>uo. on_cluster (UpdateRun te uo))"


section \<open>Facts\<close>

lemma newContext_disk: "newContext te iv create (d, s) = (Inr cx, w) \<Longrightarrow> \<exists>s'. w = (d, s')"
  by (cases w) (auto simp: newContext_def Let_def bind_ok_iff on_snd_ok_iff split: if_splits
      dest!: make_client_disk getValidConfig_state)

lemma newContext_application:
  "newContext te iv create w = (Inr cx, w') \<Longrightarrow> \<exists>lci. cx_application cx =
    first_set ([FlagValueIfSet iv ApplicationFlagName, LocalGetApplication lci] @ (if create then [DefaultAppName] else []))"
  by (auto simp: newContext_def Let_def bind_ok_iff resolveApp_first split: if_splits)

lemma ApplyIgnore_ok: "ApplyIgnore te ignores p w = (Inr rules, w') \<Longrightarrow> w' = w \<and> (ignores \<noteq> [] \<longrightarrow> rules = ignores)"
  by (auto simp: ApplyIgnore_def bind_ok_iff split: if_splits option.splits)

lemma on_snd_Some: "on_snd m (d, s) = (Inr a, w) \<Longrightarrow> \<exists>s'. w = (d, s') \<and> m s = (Inr a, s')"
  by (cases w) (simp add: on_snd_ok_iff)

lemma PushComplete_ok:
  assumes "PushComplete te iv fl (d, s) = (Inr (Some po), w)"
  shows "(\<exists>s'. w = (d, s')) \<and> load_config te (pf_context fl) (d, s) = (Inr (po_local po), (d, s)) \<and>
    po_source_type po = LocalGetSourceType (po_local po) \<and>
    cl_namespace (po_client po) = LocalGetProject (po_local po) \<and>
    (pf_config (po_flags po) \<longleftrightarrow> pf_config fl \<or> \<not> pf_source fl) \<and>
    (pf_source (po_flags po) \<longleftrightarrow> pf_source fl \<or> \<not> pf_config fl) \<and>
    (pf_ignores fl \<noteq> [] \<longrightarrow> pf_ignores (po_flags po) = pf_ignores fl)"
proof -
  let ?fl = "resolveSrcAndConfigFlags fl"
  obtain conf w1 p rules cx w2 w3 where
    load: "load_config te (pf_context ?fl) (d, s) = (Inr conf, w1)"
    and ignores: "ApplyIgnore te (pf_ignores ?fl) p w1 = (Inr rules, w2)"
    and cx: "NewContextCreatingAppIfNeeded te iv w2 = (Inr cx, w3)"
    and project: "on_cluster (ensure_project te (cx_client cx) (LocalGetProject conf)) w3 = (Inr (Some ()), w)"
    and po: "po = \<lparr>po_flags = ?fl\<lparr>pf_ignores := rules\<rparr>, po_local = conf, po_source_type = LocalGetSourceType conf,
        po_source_path = p, po_context = cx\<lparr>cx_client := (cx_client cx)\<lparr>cl_namespace := LocalGetProject conf\<rparr>\<rparr>\<rparr>"
    using assms by (auto simp: PushComplete_def Let_def bind_ok_iff bindW_ok_iff)
  have fl: "pf_context ?fl = pf_context fl" "pf_ignores ?fl = pf_ignores fl"
    "pf_config ?fl \<longleftrightarrow> pf_config fl \<or> \<not> pf_source fl" "pf_source ?fl \<longleftrightarrow> pf_source fl \<or> \<not> pf_config fl"
    by (auto simp: resolveSrcAndConfigFlags_def)
  from load_config_state [OF load] have "w1 = (d, s)" .
  moreover from ApplyIgnore_ok [OF ignores] have "w2 = w1" "pf_ignores fl \<noteq> [] \<longrightarrow> rules = pf_ignores fl"
    by (simp_all add: fl)
  ultimately obtain s3 where "w3 = (d, s3)"
    using \<open>w1 = (d, s)\<close> newContext_disk [of te iv True d s cx w3] cx
    by (auto simp: NewContextCreatingAppIfNeeded_def)
  with project have "\<exists>s'. w = (d, s')" by (auto dest: on_snd_Some)
  with load \<open>w1 = (d, s)\<close> \<open>pf_ignores fl \<noteq> [] \<longrightarrow> rules = pf_ignores fl\<close> po fl
  show ?thesis by (simp add: po_client_def)
qed

text \<open>What a push of the configuration did, and one of the sources.\<close>

definition config_pushed :: "'s tools \<Rightarrow> 's push_options \<Rightarrow> 's \<Rightarrow> 's \<Rightarrow> bool" where
  "config_pushed te po s t \<longleftrightarrow> (let c = po_client po; io = po_outside te po; cfg = po_local po in
     \<exists>ex s1 s2. ComponentExists c (LocalGetName cfg) (LocalGetApplication cfg) s = (Inr ex, s1) \<and>
       (if ex then s2 = s1 else CreateComponent c io cfg s1 = (Inr (Some ()), s2)) \<and>
       ApplyConfig c io cfg ex s2 = (Inr (Some ()), t))"

definition source_pushed :: "'s tools \<Rightarrow> 's push_options \<Rightarrow> 's \<Rightarrow> 's \<Rightarrow> bool" where
  "source_pushed te po s t \<longleftrightarrow> (let c = po_client po; io = po_outside te po; cfg = po_local po in
     \<exists>p. source_path te cfg = Inr p \<and>
       (if LocalGetSourceType cfg = LOCAL then
          PushLocal c io (LocalGetName cfg) (LocalGetApplication cfg) p [] [] True
            (GetAbsGlobExps p (pf_ignores (po_flags po))) s = (Inr (Some ()), t)
        else if LocalGetSourceType cfg = BINARY then
          PushLocal c io (LocalGetName cfg) (LocalGetApplication cfg) (path_dir p) [p] [] True
            (GetAbsGlobExps p (pf_ignores (po_flags po))) s = (Inr (Some ()), t)
        else t = s))"

lemma createCmp_ok:
  assumes "createCmpIfNotExistsAndApplyCmpConfig te po s = (Inr (Some ()), t)" and "pf_config (po_flags po)"
  shows "config_pushed te po s t"
  using assms
  by (auto simp: createCmpIfNotExistsAndApplyCmpConfig_def config_pushed_def Let_def bind_ok_iff bindW_ok_iff
      split: if_splits) blast+

lemma createCmp_skipped:
  assumes "createCmpIfNotExistsAndApplyCmpConfig te po s = (Inr (Some ()), t)" and "\<not> pf_config (po_flags po)"
  shows "t = s"
  using assms(1) unfolding createCmpIfNotExistsAndApplyCmpConfig_def if_P [OF assms(2)] by simp

lemma push_source_ok:
  assumes "push_source te po s = (Inr (Some ()), t)" and "po_source_type po = LocalGetSourceType (po_local po)"
  shows "source_pushed te po s t"
  using assms by (auto simp: push_source_def source_pushed_def Let_def bind_ok_iff split: if_splits)


definition web_settings :: ComponentSettings where
  "web_settings = (lci_settings web_config)\<lparr>cs_project := Some ''dev''\<rparr>"

definition web_disk :: disk where
  "web_disk = example_disk\<lparr>dk_files := [(''/p/.odo/config.yaml'', ''x'')]\<rparr>"

definition only_source :: push_flags where
  "only_source = \<lparr>pf_ignores = [''*.log''], pf_context = [], pf_config = False, pf_source = True\<rparr>"


text \<open>\<open>odo update\<close> takes the kind and the place of the source from the configuration file: whatever the
  flags \<open>--git\<close>, \<open>--local\<close> and \<open>--ref\<close> say that it asks for, it does the same; and as no flag
  sets the binary, a binary component is updated with the current directory as its source.\<close>

theorem update_ignores_flags:
  "UpdateRun te (uo\<lparr>uo_flags := (uo_flags uo)\<lparr>uf_git := g, uf_local := l, uf_ref := r\<rparr>\<rparr>) = UpdateRun te uo \<and>
   (LocalGetSourceType (uo_config uo) = BINARY \<and> uf_binary (uo_flags uo) = [] \<and> to_cwd te = Inr dir \<and> dir \<noteq> [] \<longrightarrow>
     UpdateRun te uo = Update (cx_client (uo_context uo)) (to_outside te (cl_namespace (cx_client (uo_context uo))))
       (uo_config uo) (path_clean dir))"
  by (simp add: UpdateRun_def Let_def absolute_def GetAbsPath_def path_abs_def path_join_def has_prefix_def
      GIT_def LOCAL_def BINARY_def fun_eq_iff bind_def lift_def)

definition binary_update :: "cluster update_options" where
  "binary_update = \<lparr>uo_flags = \<lparr>uf_binary = [], uf_git = ''https://a/b.git'', uf_local = [], uf_ref = [], uf_context = []\<rparr>,
     uo_config = web_config\<lparr>lci_settings := (lci_settings web_config)\<lparr>cs_source_type := Some BINARY\<rparr>\<rparr>, uo_name = ''web'',
     uo_context = \<lparr>cx_client = stream_client, cx_project = ''app'', cx_application = ''app'', cx_cmp = ''web'', cx_output = []\<rparr>\<rparr>"

theorem update_ignores_flags_witness:
  "UpdateValidate binary_update = Inr () \<and> UpdateRun (shop_tools (NewLocalConfig_meta, no_settings)) binary_update
     = Update stream_client quiet_outside (uo_config binary_update) (path_clean ''/p'')"
proof -
  have "UpdateValidate binary_update = Inr ()" "LocalGetSourceType (uo_config binary_update) = BINARY"
    "uf_binary (uo_flags binary_update) = []" by code_simp+
  with update_ignores_flags [where te = "shop_tools (NewLocalConfig_meta, no_settings)" and uo = binary_update and dir = "''/p''"]
  show ?thesis by (simp add: shop_tools_def) (simp add: binary_update_def)
qed

text \<open>\<open>odo watch\<close> looks for the component in the application of the configuration file, and hands the
  changes over to the one its flag names: with a flag that names another application the watch
  starts, and every push of it is for a component that was not looked for.\<close>

theorem watch_pushes_to_flag_application:
  assumes "WatchComplete te iv fl (d, s) = (Inr (Some wo), w)" and "FlagValueIfSet iv ApplicationFlagName = app" and "app \<noteq> []"
    and "WatchValidate te wo t = (Inr (Some wo), t')"
  shows "ComponentExists (cx_client (wo_context wo)) (LocalGetName (wo_local wo)) (LocalGetApplication (wo_local wo)) t = (Inr True, t')
    \<and> handed_over (watch_parameters te wo) Directory v = PushLocal (cx_client (wo_context wo)) (wo_outside te wo)
        (LocalGetName (wo_local wo)) app (wo_source_path wo) (wa_changed v) (wa_deleted v) False
        (GetAbsGlobExps (wo_source_path wo) (wf_ignores (wo_flags wo)))"
proof -
  obtain w0 w1 cx where cx: "newContext te iv True w0 = (Inr cx, w1)" and wo: "wo_context wo = cx"
    using assms(1) by (auto simp: WatchComplete_def NewContextCreatingAppIfNeeded_def bind_ok_iff)
  from newContext_application [OF cx] assms(2,3) wo have "cx_application (wo_context wo) = app"
    by (auto simp: first_set_def)
  moreover have "ComponentExists (cx_client (wo_context wo)) (LocalGetName (wo_local wo)) (LocalGetApplication (wo_local wo)) t = (Inr True, t')"
    using assms(4) by (auto simp: WatchValidate_def bind_ok_iff split: if_splits)
  ultimately show ?thesis by (simp add: handed_over_def watch_parameters_def)
qed

lemma WatchValidate_same: "WatchValidate te wo t = (Inr (Some wo'), t') \<Longrightarrow> wo' = wo"
  by (auto simp: WatchValidate_def bind_ok_iff split: if_splits)

lemma case_ok: "(case r of Inr (Some x) \<Rightarrow> P x | _ \<Rightarrow> False) \<Longrightarrow> \<exists>x. r = Inr (Some x) \<and> P x"
  by (auto split: sum.splits option.splits)

definition main_changed :: watching where
  "main_changed = \<lparr>wa_dirty = True, wa_last = 0, wa_error = None, wa_deleted = [], wa_changed = [''/p/main.js''],
     wa_watched = [''/p''], wa_phase = Running\<rparr>"

theorem watch_pushes_to_flag_application_witness:
  "\<exists>(wo :: cluster watch_options) t t'. LocalGetApplication (wo_local wo) = ''app''
    \<and> ComponentExists (cx_client (wo_context wo)) (LocalGetName (wo_local wo)) ''app'' t = (Inr True, t')
    \<and> handed_over (watch_parameters (shop_tools (NewLocalConfig_meta, web_settings)) wo) Directory main_changed
        = PushLocal (cx_client (wo_context wo)) (wo_outside (shop_tools (NewLocalConfig_meta, web_settings)) wo)
            (LocalGetName (wo_local wo)) ''shop'' (wo_source_path wo) [''/p/main.js''] [] False
            (GetAbsGlobExps (wo_source_path wo) (wf_ignores (wo_flags wo)))"
proof -
  let ?te = "shop_tools (NewLocalConfig_meta, web_settings)"
  let ?iv = "odo_command ''watch'' [(''app'', ''shop'')]"
  let ?fl = "\<lparr>wf_ignores = [], wf_delay = 1, wf_context = []\<rparr>"
  have ok: "case fst (WatchComplete ?te ?iv ?fl (web_disk, web_state)) of
      Inr (Some wo) \<Rightarrow> (LocalGetApplication (wo_local wo) = ''app'' \<and>
        (case fst (WatchValidate ?te wo web_state) of Inr (Some _) \<Rightarrow> True | _ \<Rightarrow> False)) | _ \<Rightarrow> False" by code_simp
  from case_ok [OF this] obtain wo where "fst (WatchComplete ?te ?iv ?fl (web_disk, web_state)) = Inr (Some wo)"
    and a: "LocalGetApplication (wo_local wo) = ''app''"
    and v: "case fst (WatchValidate ?te wo web_state) of Inr (Some _) \<Rightarrow> True | _ \<Rightarrow> False" by blast
  then obtain w where c: "WatchComplete ?te ?iv ?fl (web_disk, web_state) = (Inr (Some wo), w)" by (metis prod.collapse)
  from case_ok [OF v] obtain t' where v: "WatchValidate ?te wo web_state = (Inr (Some wo), t')"
    by (metis prod.collapse WatchValidate_same)
  have "FlagValueIfSet ?iv ApplicationFlagName = ''shop''" by code_simp
  from watch_pushes_to_flag_application [OF c this _ v] a show ?thesis by (fastforce simp: main_changed_def)
qed

end
