(* ===== verification/CreateCmd.thy ===== *)
theory CreateCmd
  imports PushCmd Validation
begin

text \<open>
  \<open>odo create\<close>, \<open>pkg/odo/cli/component/create.go\<close>, with the prompts of
  \<open>pkg/odo/cli/component/ui/ui.go\<close>: from flags and arguments, or from the answers of the user, to the settings
  that are validated and written to the configuration file.
\<close>


section \<open>Prompts\<close>

text \<open>
  The survey library asks until its validator accepts, and delivers an answer, an interrupt or
  another error; an interrupt ends the process, after another error the answer is the zero value.
\<close>

datatype 'a reply = Interrupted | NoReply error | Reply 'a

record 's survey =
  sy_select :: "string \<Rightarrow> string list \<Rightarrow> ('s, string reply) op"
  sy_input :: "string \<Rightarrow> string \<Rightarrow> (string \<Rightarrow> ('s, unit) op) \<Rightarrow> ('s, string reply) op"
  sy_confirm :: "string \<Rightarrow> ('s, bool reply) op"

definition HandleError :: "'a \<Rightarrow> ('s, 'a reply) op \<Rightarrow> ('s, 'a) op" where
  "HandleError zero m = bind m (\<lambda>r. case r of
     Interrupted \<Rightarrow> fault (Exit []) | NoReply err \<Rightarrow> return zero | Reply a \<Rightarrow> return a)"

definition Proceed :: "'s survey \<Rightarrow> string \<Rightarrow> ('s, bool) op" where
  "Proceed sy message = HandleError False (sy_confirm sy message)"

definition by_validator :: "validator \<Rightarrow> string \<Rightarrow> ('s, unit) op" where
  "by_validator v s = lift (v (AString s))"

definition getComponentTypeNameCandidates :: "CatalogImage list \<Rightarrow> string list" where
  "getComponentTypeNameCandidates options = sort (map cg_name options)"

definition SelectComponentType :: "'s survey \<Rightarrow> CatalogImage list \<Rightarrow> ('s, string) op" where
  "SelectComponentType sy options = HandleError []
     (sy_select sy ''Which component type do you wish to create'' (getComponentTypeNameCandidates options))"

fun getTagCandidates :: "CatalogImage list \<Rightarrow> string \<Rightarrow> string list" where
  "getTagCandidates [] selectedComponentType = []"
| "getTagCandidates (option # options) selectedComponentType =
     (if cg_name option = selectedComponentType then sort (cg_visible_tags option)
      else getTagCandidates options selectedComponentType)"

definition SelectImageTag :: "'s survey \<Rightarrow> CatalogImage list \<Rightarrow> string \<Rightarrow> ('s, string) op" where
  "SelectImageTag sy options selectedComponentType = HandleError []
     (sy_select sy (''Which version of '' @ [CHR 0x27] @ selectedComponentType @ [CHR 0x27] @ '' component type do you wish to create'')
       (getTagCandidates options selectedComponentType))"

definition SelectSourceType :: "'s survey \<Rightarrow> SrcType list \<Rightarrow> ('s, SrcType) op" where
  "SelectSourceType sy sourceTypes =
     bind (HandleError [] (sy_select sy ''Which input type do you wish to use for the component'' sourceTypes))
       (\<lambda>selectedSourceType.
          return (case find (\<lambda>sourceType. selectedSourceType = sourceType) sourceTypes of None \<Rightarrow> NONE | Some t \<Rightarrow> t))"

text \<open>The absolute form of the path; its error is only logged.\<close>

definition EnterInputTypePath ::
  "'s tools \<Rightarrow> 's survey \<Rightarrow> (string \<Rightarrow> bool) \<Rightarrow> string \<Rightarrow> string \<Rightarrow> string \<Rightarrow> ('s, string) op" where
  "EnterInputTypePath te sy path_exists inputType currentDir default_path =
     bind (HandleError [] (sy_input sy (''Location of '' @ inputType @ '' component, relative to '' @ [CHR 0x27] @ currentDir @ [CHR 0x27])
       default_path (by_validator (PathValidator path_exists)))) (\<lambda>path.
       return (case absolute te path of Inl _ \<Rightarrow> [] | Inr absPath \<Rightarrow> absPath))"

definition createComponentNameValidator :: "'s cmd_context \<Rightarrow> string \<Rightarrow> ('s, unit) op" where
  "createComponentNameValidator cx s =
     bind (lift (ValidateName s)) (\<lambda>_.
     bind (attempt (ComponentExists (cx_client cx) s (cx_application cx))) (\<lambda>r. case r of
       Inl err \<Rightarrow> failing (''Unable to determine if component '' @ [CHR 0x27] @ ''%s'' @ [CHR 0x27] @ '' exists or not'') [s]
     | Inr ex \<Rightarrow>
         if ex then failing (''Component with name '' @ [CHR 0x27] @ ''%s'' @ [CHR 0x27] @ '' already exists in application '' @
             [CHR 0x27] @ ''%s'' @ [CHR 0x27]) [s, cx_application cx]
         else return ()))"

definition EnterComponentName :: "'s survey \<Rightarrow> string \<Rightarrow> 's cmd_context \<Rightarrow> ('s, string) op" where
  "EnterComponentName sy defaultName cx = HandleError []
     (sy_input sy ''What do you wish to name the new component'' defaultName (createComponentNameValidator cx))"

definition EnterOpenshiftName :: "'s survey \<Rightarrow> string \<Rightarrow> string \<Rightarrow> ('s, string) op" where
  "EnterOpenshiftName sy defaultName message = HandleError [] (sy_input sy message defaultName (by_validator NameValidator))"

definition enterGitInputTypePath :: "'s survey \<Rightarrow> ('s, string) op" where
  "enterGitInputTypePath sy = HandleError [] (sy_input sy
     ''What is the URL of the git repository you wish the new component to use'' [] (by_validator survey_required))"

definition enterGitRef :: "'s survey \<Rightarrow> string \<Rightarrow> ('s, string) op" where
  "enterGitRef sy defaultRef = HandleError [] (sy_input sy
     ''What git ref (branch, tag, commit) do you wish to use'' defaultRef (by_validator survey_required))"

definition EnterGitInfo :: "'s survey \<Rightarrow> ('s, string \<times> string) op" where
  "EnterGitInfo sy = bind (enterGitInputTypePath sy) (\<lambda>gitURL.
     bind (enterGitRef sy ''master'') (\<lambda>gitRef. return (gitURL, gitRef)))"

definition EnterPorts :: "'s survey \<Rightarrow> ('s, string list) op" where
  "EnterPorts sy = bind (HandleError [] (sy_input sy
     (''Enter the ports you wish to set (for example: 8080,8100/tcp,9100/udp). Simply press '' @ [CHR 0x27] @ ''Enter'' @ [CHR 0x27] @
      '' to avoid setting them'') [] (by_validator PortsValidator))) (\<lambda>portsStr. return (GetSplitValuesFromStr portsStr))"

definition EnterEnvVars :: "'s survey \<Rightarrow> ('s, string list) op" where
  "EnterEnvVars sy = bind (HandleError [] (sy_input sy
     (''Enter the environment variables you would like to set (for example: MY_TYPE=backed,PROFILE=dev). Simply press '' @ [CHR 0x27] @
      ''Enter'' @ [CHR 0x27] @ '' to avoid setting them'') [] (by_validator KeyEqValFormatValidator)))
     (\<lambda>envVarsStr. return (GetSplitValuesFromStr envVarsStr))"

definition EnterMemory :: "'s survey \<Rightarrow> string \<Rightarrow> string \<Rightarrow> ('s, string) op" where
  "EnterMemory sy typeStr defaultValue = HandleError [] (sy_input sy
     (''Enter the '' @ typeStr @ '' memory (for example 100Mi)'') defaultValue (by_validator survey_required))"

definition EnterCPU :: "'s survey \<Rightarrow> string \<Rightarrow> string \<Rightarrow> ('s, string) op" where
  "EnterCPU sy typeStr defaultValue = HandleError [] (sy_input sy
     (''Enter the '' @ typeStr @ '' CPU (for example 100m or 2)'') defaultValue (by_validator survey_required))"

text \<open>Images all of whose tags are hidden are not offered.\<close>

definition FilterHiddenComponents :: "CatalogImage list \<Rightarrow> CatalogImage list" where
  "FilterHiddenComponents input =
     foldl (\<lambda>filteredComponents component.
       if length (cg_visible_tags component) > 0 then filteredComponents @ [component] else filteredComponents) [] input"


section \<open>Options\<close>

record create_flags =
  cf_binary :: string
  cf_git :: string
  cf_ref :: string
  cf_context :: string
  cf_ports :: "string list"
  cf_env :: "string list"
  cf_memory_max :: string
  cf_memory_min :: string
  cf_memory :: string
  cf_cpu_max :: string
  cf_cpu_min :: string
  cf_cpu :: string

text \<open>
  What the creation asks of the machine besides the tools: \<open>filepath.EvalSymlinks\<close>, the existence
  of a path, the preferences, and the random suffixes of a default name.
\<close>

record create_answers =
  cn_eval_symlinks :: "string \<Rightarrow> string result"
  cn_exists :: "string \<Rightarrow> bool"
  cn_prefs :: "PreferenceInfo result"
  cn_suffix :: "int \<Rightarrow> string"

definition LocalDirectoryDefaultLocation :: string where
  "LocalDirectoryDefaultLocation = ''./''"

definition setComponentSourceAttributes ::
  "create_answers \<Rightarrow> create_flags \<Rightarrow> string \<Rightarrow> ComponentSettings \<Rightarrow> ComponentSettings result" where
  "setComponentSourceAttributes cn fl app cs =
     (let cs = cs\<lparr>cs_application := Some app\<rparr>;
          componentSourceType = (if length (cf_binary fl) \<noteq> 0 then BINARY
            else if length (cf_git fl) \<noteq> 0 then GIT else LOCAL);
          cs = cs\<lparr>cs_source_type := Some componentSourceType\<rparr>
      in bindR (if componentSourceType = BINARY then
                  bindR (cn_eval_symlinks cn (cf_binary fl)) (\<lambda>cPath. Inr (cs\<lparr>cs_source_location := Some cPath\<rparr>))
                else if componentSourceType = GIT then Inr (cs\<lparr>cs_source_location := Some (cf_git fl)\<rparr>)
                else Inr (cs\<lparr>cs_source_location := Some LocalDirectoryDefaultLocation\<rparr>)) (\<lambda>cs.
         let cs = (if length (cf_ref fl) \<noteq> 0 then cs\<lparr>cs_ref := Some (cf_ref fl)\<rparr> else cs)
         in if length (cf_git fl) = 0 \<and> length (cf_ref fl) \<noteq> 0
            then fails ''The --ref flag is only valid for --git flag'' [] else Inr cs))"

text \<open>An error of the default name gives the empty name.\<close>

definition createDefaultComponentName ::
  "'s tools \<Rightarrow> create_answers \<Rightarrow> string \<Rightarrow> SrcType \<Rightarrow> string \<Rightarrow> string result" where
  "createDefaultComponentName te cn componentType sourceType sourcePath =
     (case GetDefaultComponentName (cn_prefs cn) (to_cwd te) (cn_suffix cn) sourcePath sourceType componentType [] of
        Inl (Err err) \<Rightarrow> Inr [] | r \<Rightarrow> r)"

definition setComponentName ::
  "'s tools \<Rightarrow> create_answers \<Rightarrow> create_flags \<Rightarrow> string list \<Rightarrow> ComponentSettings \<Rightarrow> ComponentSettings result" where
  "setComponentName te cn fl args cs =
     (if args = [] then Inl (Panic ''index out of range'')
      else let (componentImageName, componentType, _, _) = ParseComponentImageName (args ! 0);
               cs = cs\<lparr>cs_type := Some componentImageName\<rparr>
           in if length args = 2 then Inr (cs\<lparr>cs_name := Some (args ! 1)\<rparr>)
              else case cs_source_type cs of
                  None \<Rightarrow> Inr cs
                | Some sourceType \<Rightarrow>
                    bindR (createDefaultComponentName te cn componentType sourceType (cf_context fl)) (\<lambda>componentName.
                      Inr (cs\<lparr>cs_name := Some componentName\<rparr>)))"

definition getSourceLocation :: "string \<Rightarrow> string \<Rightarrow> string result" where
  "getSourceLocation componentContext currentDirectory =
     (case path_rel currentDirectory componentContext of
        Inl err \<Rightarrow> Inl (Err (Wrapf err ''unable to get a path relative to the current directory'' []))
      | Inr sourceLocation \<Rightarrow>
          Inr (if sourceLocation = ''.'' then LocalDirectoryDefaultLocation else sourceLocation))"

definition ensureAndLogProperResourceUsage :: "string \<Rightarrow> string \<Rightarrow> string \<Rightarrow> string \<Rightarrow> unit result" where
  "ensureAndLogProperResourceUsage resource resourceMin resourceMax resourceName =
     (if has_prefix resourceMin ''-'' then Inl (Exit (sprintf ''min-%s cannot be negative'' [resource]))
      else if has_prefix resourceMax ''-'' then Inl (Exit (sprintf ''max-%s cannot be negative'' [resource]))
      else if has_prefix resource ''-'' then Inl (Exit (sprintf ''%s cannot be negative'' [resource]))
      else if ((resourceMin = []) \<noteq> (resourceMax = [])) \<and> resource = [] then
        Inl (Exit (sprintf ''`--min-%s` should accompany `--max-%s` or pass `--%s` to use same value for both min and max or try not passing any of them''
          [resourceName, resourceName, resourceName]))
      else Inr ())"

definition limit_memory :: "ResourceRequirementInfo option \<Rightarrow> ComponentSettings \<Rightarrow> ComponentSettings" where
  "limit_memory memoryQuantity cs = (case memoryQuantity of None \<Rightarrow> cs
     | Some m \<Rightarrow> cs\<lparr>cs_min_memory := Some (quantity_string (rri_min m)),
         cs_max_memory := Some (quantity_string (rri_max m))\<rparr>)"

definition limit_cpu :: "ResourceRequirementInfo option \<Rightarrow> ComponentSettings \<Rightarrow> ComponentSettings" where
  "limit_cpu cpuQuantity cs = (case cpuQuantity of None \<Rightarrow> cs
     | Some m \<Rightarrow> cs\<lparr>cs_min_cpu := Some (quantity_string (rri_min m)),
         cs_max_cpu := Some (quantity_string (rri_max m))\<rparr>)"

definition setResourceLimits ::
  "(string \<Rightarrow> quantity result) \<Rightarrow> create_flags \<Rightarrow> ComponentSettings \<Rightarrow> ComponentSettings result" where
  "setResourceLimits parse fl cs =
     bindR (ensureAndLogProperResourceUsage (cf_memory fl) (cf_memory_min fl) (cf_memory_max fl) ''memory'') (\<lambda>_.
     bindR (ensureAndLogProperResourceUsage (cf_cpu fl) (cf_cpu_min fl) (cf_cpu_max fl) ''cpu'') (\<lambda>_.
     bindR (FetchResourceQuantity parse ''memory'' (cf_memory_min fl) (cf_memory_max fl) (cf_memory fl)) (\<lambda>memoryQuantity.
     bindR (FetchResourceQuantity parse ''cpu'' (cf_cpu_min fl) (cf_cpu_max fl) (cf_cpu fl)) (\<lambda>cpuQuantity.
     Inr (limit_cpu cpuQuantity (limit_memory memoryQuantity cs))))))"


section \<open>Interactive answers\<close>

text \<open>The kind and the place of the source: the settings, the context the user chose, the path for a default name.\<close>

definition interactive_source ::
  "'s tools \<Rightarrow> 's survey \<Rightarrow> create_answers \<Rightarrow> SrcType \<Rightarrow> string \<Rightarrow> ComponentSettings \<Rightarrow>
   ('s, ComponentSettings \<times> string) op" where
  "interactive_source te sy cn selectedSourceType currentDirectory cs =
     (if selectedSourceType = BINARY then
        bind (EnterInputTypePath te sy (cn_exists cn) ''context'' currentDirectory currentDirectory) (\<lambda>componentContext.
        bind (EnterInputTypePath te sy (cn_exists cn) ''binary'' currentDirectory []) (\<lambda>selectedSourcePath.
        bind (wrapping ''unable to get source location'' [] (lift (getSourceLocation selectedSourcePath currentDirectory)))
          (\<lambda>sourceLocation. return (cs\<lparr>cs_source_location := Some sourceLocation\<rparr>, selectedSourcePath))))
      else if selectedSourceType = GIT then
        bind (EnterGitInfo sy) (\<lambda>(cmpSrcLOC, selectedGitRef).
          return (cs\<lparr>cs_source_location := Some cmpSrcLOC, cs_ref := Some selectedGitRef\<rparr>, LocalDirectoryDefaultLocation))
      else if selectedSourceType = LOCAL then
        bind (EnterInputTypePath te sy (cn_exists cn) ''path'' currentDirectory currentDirectory) (\<lambda>componentContext.
        bind (wrapping ''unable to get source location'' [] (lift (getSourceLocation componentContext currentDirectory)))
          (\<lambda>sourceLocation. return (cs\<lparr>cs_source_location := Some sourceLocation\<rparr>, LocalDirectoryDefaultLocation)))
      else return (cs, LocalDirectoryDefaultLocation))"

definition interactive_limits ::
  "'s survey \<Rightarrow> (string \<Rightarrow> quantity result) \<Rightarrow> ComponentSettings \<Rightarrow> ('s, ComponentSettings) op" where
  "interactive_limits sy parse cs =
     bind (EnterMemory sy ''maximum'' ''512Mi'') (\<lambda>memMax.
     bind (EnterMemory sy ''minimum'' memMax) (\<lambda>memMin.
     bind (EnterCPU sy ''maximum'' ''1'') (\<lambda>cpuMax.
     bind (EnterCPU sy ''minimum'' cpuMax) (\<lambda>cpuMin.
     bind (lift (FetchResourceQuantity parse ''memory'' memMin memMax [])) (\<lambda>memoryQuantity.
     let cs = (case memoryQuantity of None \<Rightarrow> cs
               | Some _ \<Rightarrow> cs\<lparr>cs_min_memory := Some memMin, cs_max_memory := Some memMax\<rparr>) in
     bind (lift (FetchResourceQuantity parse ''cpu'' cpuMin cpuMax [])) (\<lambda>cpuQuantity.
     return (case cpuQuantity of None \<Rightarrow> cs
             | Some _ \<Rightarrow> cs\<lparr>cs_min_cpu := Some cpuMin, cs_max_cpu := Some cpuMax\<rparr>)))))))"

definition interactive_advanced ::
  "'s survey \<Rightarrow> (string \<Rightarrow> quantity result) \<Rightarrow> string list \<Rightarrow> ComponentSettings \<Rightarrow>
   ('s, ComponentSettings \<times> string list) op" where
  "interactive_advanced sy parse envVars cs =
     bind (Proceed sy ''Do you wish to set advanced options'') (\<lambda>advanced.
       if \<not> advanced then return (cs, envVars)
       else
         bind (EnterPorts sy) (\<lambda>ports.
         let cs = (if length ports > 0 then cs\<lparr>cs_ports := Some ports\<rparr> else cs) in
         bind (EnterEnvVars sy) (\<lambda>envVars.
         bind (Proceed sy ''Do you wish to set resource limits'') (\<lambda>limits.
           if \<not> limits then return (cs, envVars)
           else bind (interactive_limits sy parse cs) (\<lambda>cs. return (cs, envVars))))))"

definition interactive_settings ::
  "'s tools \<Rightarrow> 's survey \<Rightarrow> create_answers \<Rightarrow> string list \<Rightarrow> 's cmd_context \<Rightarrow> ComponentSettings \<Rightarrow>
   ('s, ComponentSettings \<times> string list) op" where
  "interactive_settings te sy cn envVars cx cs =
     (let c = cx_client cx in
      bind (CatalogList c) (\<lambda>componentTypeCandidates.
      let componentTypeCandidates = FilterHiddenComponents componentTypeCandidates in
      bind (SelectComponentType sy componentTypeCandidates) (\<lambda>selectedComponentType.
      bind (SelectImageTag sy componentTypeCandidates selectedComponentType) (\<lambda>selectedImageTag.
      let cs = cs\<lparr>cs_type := Some (selectedComponentType @ '':'' @ selectedImageTag)\<rparr> in
      bind (SelectSourceType sy [LOCAL, GIT, BINARY]) (\<lambda>selectedSourceType.
      let cs = cs\<lparr>cs_source_type := Some selectedSourceType\<rparr> in
      bind (lift (to_cwd te)) (\<lambda>currentDirectory.
      bind (interactive_source te sy cn selectedSourceType currentDirectory cs) (\<lambda>(cs, selectedSourcePath).
      bind (lift (createDefaultComponentName te cn selectedComponentType selectedSourceType selectedSourcePath))
        (\<lambda>defaultComponentName.
      bind (EnterComponentName sy defaultComponentName cx) (\<lambda>componentName.
      bind (EnterOpenshiftName sy (cx_application cx)
             ''Which application do you want the commponent to be associated with'') (\<lambda>appName.
      let cs = cs\<lparr>cs_application := Some appName\<rparr> in
      bind (EnterOpenshiftName sy (cx_project cx)
             ''Which project go you want the component to be created in'') (\<lambda>projectName.
      let cs = cs\<lparr>cs_project := Some projectName, cs_name := Some componentName\<rparr> in
      interactive_advanced sy (cl_parse_quantity c) envVars cs)))))))))))"


section \<open>The command\<close>

record 's create_options =
  co_settings :: ComponentSettings
  co_local :: LocalConfigInfo
  co_context :: "'s cmd_context"

definition flag_settings ::
  "'s tools \<Rightarrow> create_answers \<Rightarrow> create_flags \<Rightarrow> string list \<Rightarrow> 's cmd_context \<Rightarrow> ComponentSettings \<Rightarrow>
   ComponentSettings result" where
  "flag_settings te cn fl args cx cs =
     bindR (setComponentSourceAttributes cn fl (cx_application cx) cs) (\<lambda>cs.
     bindR (setComponentName te cn fl args cs) (\<lambda>cs.
     bindR (setResourceLimits (cl_parse_quantity (cx_client cx)) fl cs) (\<lambda>cs.
       Inr (if length (cf_ports fl) > 0 then cs\<lparr>cs_ports := Some (cf_ports fl)\<rparr> else cs))))"

definition chosen_settings ::
  "'s tools \<Rightarrow> 's survey \<Rightarrow> create_answers \<Rightarrow> create_flags \<Rightarrow> bool \<Rightarrow> string list \<Rightarrow> 's cmd_context \<Rightarrow>
   ComponentSettings \<Rightarrow> ('s world, ComponentSettings \<times> string list) op" where
  "chosen_settings te sy cn fl interactive args cx cs =
     (if interactive then on_cluster (interactive_settings te sy cn (cf_env fl) cx cs)
      else bind (lift (flag_settings te cn fl args cx cs)) (\<lambda>cs. return (cs, cf_env fl)))"

definition CreateComplete ::
  "'s tools \<Rightarrow> 's survey \<Rightarrow> create_answers \<Rightarrow> invocation \<Rightarrow> create_flags \<Rightarrow> bool \<Rightarrow> string list \<Rightarrow>
   ('s world, 's create_options option) op" where
  "CreateComplete te sy cn iv fl has_flags args =
     (let interactive = (length args = 0 \<or> \<not> has_flags) in
      bind (wrapping ''failed intiating local config'' [] (load_config te (cf_context fl))) (\<lambda>localConfigInfo.
      if ConfigFileExists localConfigInfo then failing ''this directory already contains a component'' []
      else
        bind (NewContextCreatingAppIfNeeded te iv) (\<lambda>cx.
        bind (chosen_settings te sy cn fl interactive args cx (lci_settings localConfigInfo)) (\<lambda>(cs, envVars).
        let cs = cs\<lparr>cs_project := Some (cx_project cx)\<rparr> in
        bind (lift (NewEnvVarListFromSlice envVars)) (\<lambda>envs.
          return (Some \<lparr>co_settings = cs\<lparr>cs_envs := (if envs = [] then None else Some envs)\<rparr>,
            co_local = localConfigInfo, co_context = cx\<rparr>))))))"

definition CreateValidate :: "'s tools \<Rightarrow> 's create_options \<Rightarrow> ('s, 's create_options option) op" where
  "CreateValidate te co =
     (let c = cx_client (co_context co) in
      bind (ValidateComponentCreateRequest c (to_outside te (cl_namespace c)) (co_settings co) False)
        (\<lambda>_. return (Some co)))"

text \<open>An operation on the configuration object of a command and the disk; the object is kept.\<close>

definition on_config :: "LocalConfigInfo \<Rightarrow> (local_state, 'a) op \<Rightarrow> ('s world, 'a) op" where
  "on_config lci m = (\<lambda>(d, s). case m (lci, d) of (r, (_, d')) \<Rightarrow> (r, (d', s)))"

definition CreateRun :: "'s tools \<Rightarrow> 's create_options \<Rightarrow> ('s world, unit option) op" where
  "CreateRun te co =
     bind (wrapping ''failed to persist the component settings to config file'' []
            (on_config (co_local co) (SetComponentSettings (to_yaml te) (co_settings co)))) (\<lambda>_. finished)"

definition odo_create ::
  "'s tools \<Rightarrow> 's survey \<Rightarrow> create_answers \<Rightarrow> invocation \<Rightarrow> create_flags \<Rightarrow> bool \<Rightarrow> string list \<Rightarrow>
   ('s world, unit option) op" where
  "odo_create te sy cn iv fl has_flags args = GenericRun (CreateComplete te sy cn iv fl has_flags args)
     (\<lambda>co. on_cluster (CreateValidate te co)) (CreateRun te)"


section \<open>Facts\<close>

definition limits_paired :: "ComponentSettings \<Rightarrow> bool" where
  "limits_paired cs \<longleftrightarrow> (cs_min_memory cs = None \<longleftrightarrow> cs_max_memory cs = None) \<and>
     (cs_min_cpu cs = None \<longleftrightarrow> cs_max_cpu cs = None)"

text \<open>What the limits leave alone.\<close>

definition essentials where
  "essentials cs = (cs_name cs, cs_type cs, cs_application cs, cs_source_location cs, cs_source_type cs, cs_ref cs)"

lemma limit_facts [simp]:
  "essentials (limit_memory m cs) = essentials cs" "limits_paired cs \<Longrightarrow> limits_paired (limit_memory m cs)"
  "essentials (limit_cpu m cs) = essentials cs" "limits_paired cs \<Longrightarrow> limits_paired (limit_cpu m cs)"
  by (simp_all add: limit_memory_def limit_cpu_def essentials_def limits_paired_def split: option.split)

lemma fresh_lci_ok:
  assumes "load_config te dir (d, s) = (Inr lci, w)" and "\<not> ConfigFileExists lci"
  shows "lci_settings lci = no_settings \<and> lci_type_meta lci = NewLocalConfig_meta \<and>
    getLocalConfigFile (to_env te) (to_cwd te) dir = Inr (lci_filename lci)"
  using assms by (auto simp: load_config_def on_fst_def NewLocalConfigInfo_def op_simps Let_def ConfigFileExists_def
      split: if_splits prod.splits sum.splits)

lemma CreateComplete_cases:
  assumes "CreateComplete te sy cn iv fl hf args (d, s) = (Inr (Some co), w)"
  obtains lci cx s1 cs env envs where
    "load_config te (cf_context fl) (d, s) = (Inr lci, (d, s))" "\<not> ConfigFileExists lci"
    "chosen_settings te sy cn fl (length args = 0 \<or> \<not> hf) args cx no_settings (d, s1) = (Inr (cs, env), w)"
    "co = \<lparr>co_settings = cs\<lparr>cs_project := Some (cx_project cx), cs_envs := (if envs = [] then None else Some envs)\<rparr>,
       co_local = lci, co_context = cx\<rparr>"
proof -
  obtain lci w1 where load: "load_config te (cf_context fl) (d, s) = (Inr lci, w1)" and new: "\<not> ConfigFileExists lci"
    and rest: "bind (NewContextCreatingAppIfNeeded te iv) (\<lambda>cx.
        bind (chosen_settings te sy cn fl (length args = 0 \<or> \<not> hf) args cx (lci_settings lci)) (\<lambda>(cs, envVars).
        bind (lift (NewEnvVarListFromSlice envVars)) (\<lambda>envs.
          return (Some \<lparr>co_settings = cs\<lparr>cs_project := Some (cx_project cx), cs_envs := (if envs = [] then None else Some envs)\<rparr>,
            co_local = lci, co_context = cx\<rparr>)))) w1 = (Inr (Some co), w)"
    using assms by (auto simp: CreateComplete_def Let_def bind_ok_iff [of "wrapping _ _ _"] split: if_splits)
  have w1: "w1 = (d, s)" by (rule load_config_state [OF load])
  from rest obtain cx w2 cs env envs where cx: "NewContextCreatingAppIfNeeded te iv (d, s) = (Inr cx, w2)"
    and cs: "chosen_settings te sy cn fl (length args = 0 \<or> \<not> hf) args cx (lci_settings lci) w2 = (Inr (cs, env), w)"
    and co: "co = \<lparr>co_settings = cs\<lparr>cs_project := Some (cx_project cx), cs_envs := (if envs = [] then None else Some envs)\<rparr>,
       co_local = lci, co_context = cx\<rparr>"
    unfolding w1 by (auto simp: bind_ok_iff)
  from newContext_disk [OF cx [unfolded NewContextCreatingAppIfNeeded_def]] obtain s1 where "w2 = (d, s1)" by blast
  with that [OF load [unfolded w1] new _ co] cs fresh_lci_ok [OF load new] show thesis by simp
qed

lemma CreateComplete_ok:
  assumes "CreateComplete te sy cn iv fl hf args (d, s) = (Inr (Some co), w)"
  shows "(\<exists>s1. w = (d, s1)) \<and> load_config te (cf_context fl) (d, s) = (Inr (co_local co), (d, s)) \<and>
    \<not> ConfigFileExists (co_local co) \<and> cs_envs (co_settings co) \<noteq> Some []"
  using assms
proof (rule CreateComplete_cases)
  fix lci cx s1 cs env envs
  assume "chosen_settings te sy cn fl (length args = 0 \<or> \<not> hf) args cx no_settings (d, s1) = (Inr (cs, env), w)"
  then have "\<exists>s1. w = (d, s1)"
    by (auto simp: chosen_settings_def bind_ok_iff dest: on_snd_Some split: if_splits)
  moreover assume "load_config te (cf_context fl) (d, s) = (Inr lci, (d, s))" "\<not> ConfigFileExists lci"
    "co = \<lparr>co_settings = cs\<lparr>cs_project := Some (cx_project cx), cs_envs := (if envs = [] then None else Some envs)\<rparr>,
       co_local = lci, co_context = cx\<rparr>"
  ultimately show ?thesis by simp
qed


text \<open>The project the user answers with is thrown away: whatever it is, the component is made in the
  project of the context.\<close>

theorem answered_project_lost:
  assumes "CreateComplete te sy cn iv fl has_flags args w = (Inr (Some co), w')"
  shows "cs_project (co_settings co) = Some (cx_project (co_context co))"
  by (cases w) (rule CreateComplete_cases [of te sy cn iv fl has_flags args "fst w" "snd w" co w'], use assms in auto)

lemma CreateRun_ok:
  assumes "CreateRun te co (d, s) = (Inr (Some ()), (d', s'))"
  shows "s' = s" and "writeToFile (to_yaml te) ((co_local co)\<lparr>lci_settings := co_settings co\<rparr>, d)
      = (Inr (), ((co_local co)\<lparr>lci_settings := co_settings co\<rparr>, d'))"
proof -
  have "\<exists>lci'. s' = s \<and> SetComponentSettings (to_yaml te) (co_settings co) (co_local co, d) = (Inr (), (lci', d'))"
    using assms by (auto simp: CreateRun_def bind_ok_iff on_config_def split: prod.splits)
  then show "s' = s" "writeToFile (to_yaml te) ((co_local co)\<lparr>lci_settings := co_settings co\<rparr>, d)
      = (Inr (), ((co_local co)\<lparr>lci_settings := co_settings co\<rparr>, d'))"
    by (auto simp: SetComponentSettings_def set_settings_def bind_ok_iff op_simps writeToFile_apply Let_def split: prod.splits)
qed

text \<open>C8. What \<open>odo create\<close> has written is what the next command in that directory reads: the settings that
  were validated, from a file that exists now; and a second \<open>odo create\<close> there is refused,
  whatever it is given.\<close>

theorem created_config_loaded:
  assumes "yaml_roundtrip (to_yaml te) newProxyLocalConfig kept_by_yaml"
    and "odo_create te sy cn iv fl hf args (d, s) = (Inr (Some ()), (d', s'))"
    and "getLocalConfigFile (to_env te) (to_cwd te) (cf_context fl) = Inr p" and "p \<notin> set (dk_unreadable d)"
  shows "\<exists>co s1 lci. CreateComplete te sy cn iv fl hf args (d, s) = (Inr (Some co), (d, s1)) \<and>
      CreateValidate te co s1 = (Inr (Some co), s') \<and>
      load_config te (cf_context fl) (d', t) = (Inr lci, (d', t)) \<and> lci_settings lci = co_settings co \<and>
      ConfigFileExists lci \<and>
      CreateComplete te sy2 cn2 iv2 (fl2\<lparr>cf_context := cf_context fl\<rparr>) hf2 args2 (d', t)
        = (fails ''this directory already contains a component'' [], (d', t))"
proof -
  obtain co w1 co' w2 where complete: "CreateComplete te sy cn iv fl hf args (d, s) = (Inr (Some co), w1)"
    and validate: "on_cluster (CreateValidate te co) w1 = (Inr (Some co'), w2)"
    and run: "CreateRun te co' w2 = (Inr (Some ()), (d', s'))"
    using assms(2) by (auto simp: odo_create_def GenericRun_def bindW_ok_iff)
  note ok = CreateComplete_ok [OF complete]
  then obtain s1 where w1: "w1 = (d, s1)" by blast
  with validate obtain s2 where w2: "w2 = (d, s2)" and validate: "CreateValidate te co s1 = (Inr (Some co'), s2)"
    by (auto dest: on_snd_Some)
  then have co': "co' = co" by (auto simp: CreateValidate_def Let_def bind_ok_iff)
  note written = CreateRun_ok [OF run [unfolded w2 co']]
  let ?lci = "(co_local co)\<lparr>lci_settings := co_settings co\<rparr>"
  have name: "lci_filename (co_local co) = p" "lci_type_meta (co_local co) = NewLocalConfig_meta"
    using fresh_lci_ok [of te "cf_context fl" d s "co_local co" "(d, s)"] ok assms(3) by auto
  obtain d1 where w: "WriteToFile (to_yaml te) (NewLocalConfig_meta, co_settings co) p d = (Inr (), d')"
    using written(2) name by (auto simp: writeToFile_apply Let_def split: prod.splits)
  have read: "GetFromFile (to_yaml te) newProxyLocalConfig p d' = (Inr (NewLocalConfig_meta, co_settings co), d')"
    using WriteToFile_GetFromFile [OF assms(1) _ assms(4) w] ok by (simp add: kept_by_yaml_def)
  moreover have "\<not> not_exist d' p" using WriteToFile_ok [OF w] by (auto simp: not_exist_def has_key_def)
  ultimately have load: "load_config te (cf_context fl) (d', t) = (Inr \<lparr>lci_filename = p,
      lci_type_meta = NewLocalConfig_meta, lci_settings = co_settings co, lci_file_exists = True\<rparr>, (d', t))"
    using assms(3) by (simp add: load_config_def on_fst_def NewLocalConfigInfo_def op_simps Let_def getFromFile_def)
  have "CreateComplete te sy2 cn2 iv2 (fl2\<lparr>cf_context := cf_context fl\<rparr>) hf2 args2 (d', t)
        = (fails ''this directory already contains a component'' [], (d', t))"
    using load by (simp add: CreateComplete_def bind_ok wrapping_ok ConfigFileExists_def Let_def failing_def fault_def fails_def)
  with load complete w1 validate co' written(1) w2 show ?thesis
    by (auto simp: ConfigFileExists_def)
qed


section \<open>An example\<close>

definition no_answers :: create_answers where
  "no_answers = \<lparr>cn_eval_symlinks = Inr, cn_exists = (\<lambda>_. True), cn_prefs = fails ''no preferences'' [], cn_suffix = (\<lambda>_. ''abcd'')\<rparr>"

text \<open>A user who takes the first choice and the defaults, calls the component \<open>web\<close> and wants the project \<open>other\<close>.\<close>

definition eager_user :: "cluster survey" where
  "eager_user = \<lparr>sy_select = (\<lambda>_ choices. return (Reply (hd choices))),
     sy_input = (\<lambda>message proposed _. return (Reply (
       if message = ''Which project go you want the component to be created in'' then ''other''
       else if message = ''What do you wish to name the new component'' then ''web'' else proposed))),
     sy_confirm = (\<lambda>_. return (Reply False))\<rparr>"

definition git_flags :: create_flags where
  "git_flags = \<lparr>cf_binary = [], cf_git = ''https://a/b.git'', cf_ref = ''dev'', cf_context = [], cf_ports = [''80/TCP''],
     cf_env = [''A=1''], cf_memory_max = [], cf_memory_min = [], cf_memory = ''1Gi'', cf_cpu_max = ''2'', cf_cpu_min = ''1'', cf_cpu = []\<rparr>"

definition git_settings :: ComponentSettings where
  "git_settings = no_settings\<lparr>cs_type := Some ''nodejs:8'', cs_source_location := Some ''https://a/b.git'',
     cs_ref := Some ''dev'', cs_source_type := Some GIT, cs_ports := Some [''80/TCP''], cs_application := Some ''shop'',
     cs_project := Some ''dev'', cs_name := Some ''web'', cs_min_memory := Some ''1Gi'', cs_max_memory := Some ''1Gi'',
     cs_min_cpu := Some ''1'', cs_max_cpu := Some ''2'', cs_envs := Some [\<lparr>ev_name = ''A'', ev_value = ''1''\<rparr>]\<rparr>"

definition git_tools :: "cluster tools" where
  "git_tools = shop_tools (NewLocalConfig_meta, git_settings)"

abbreviation "create_shop \<equiv> odo_command ''create'' [(''app'', ''shop'')]"


theorem answered_project_lost_witness:
  "\<exists>(co :: cluster create_options) w.
     CreateComplete git_tools eager_user no_answers create_shop git_flags False [] (example_disk, new_state) = (Inr (Some co), w)
     \<and> cx_project (co_context co) = ''dev'' \<and> cs_project (co_settings co) = Some ''dev''"
proof -
  have ok: "case fst (CreateComplete git_tools eager_user no_answers create_shop git_flags False [] (example_disk, new_state)) of
      Inr (Some co) \<Rightarrow> cx_project (co_context co) = ''dev'' | _ \<Rightarrow> False" by code_simp
  from case_ok [OF this] obtain co where "fst (CreateComplete git_tools eager_user no_answers create_shop git_flags False []
      (example_disk, new_state)) = Inr (Some co)" and co: "cx_project (co_context co) = ''dev''" by blast
  then obtain w where c: "CreateComplete git_tools eager_user no_answers create_shop git_flags False []
      (example_disk, new_state) = (Inr (Some co), w)" by (metis prod.collapse)
  from answered_project_lost [OF c] c co show ?thesis by auto
qed

theorem created_config_loaded_witness:
  "\<exists>d' s'. odo_create git_tools eager_user no_answers create_shop git_flags True [''nodejs:8'', ''web''] (example_disk, new_state)
       = (Inr (Some ()), (d', s'))
     \<and> (\<exists>lci. load_config git_tools [] (d', s') = (Inr lci, (d', s')) \<and> lci_settings lci = git_settings)"
proof -
  let ?run = "odo_create git_tools eager_user no_answers create_shop git_flags True [''nodejs:8'', ''web''] (example_disk, new_state)"
  have "fst ?run = Inr (Some ())" by code_simp
  then obtain d' s' where run: "?run = (Inr (Some ()), (d', s'))" by (metis prod.collapse)
  have ok: "case fst (CreateComplete git_tools eager_user no_answers create_shop git_flags True [''nodejs:8'', ''web'']
      (example_disk, new_state)) of Inr (Some co) \<Rightarrow> co_settings co = git_settings | _ \<Rightarrow> False" by code_simp
  have rt: "yaml_roundtrip (to_yaml git_tools) newProxyLocalConfig kept_by_yaml"
    by (simp add: git_tools_def shop_tools_def one_yaml_roundtrip)
  have p: "getLocalConfigFile (to_env git_tools) (to_cwd git_tools) (cf_context git_flags) = Inr ''/p/.odo/config.yaml''"
    by code_simp
  have "''/p/.odo/config.yaml'' \<notin> set (dk_unreadable example_disk)" by code_simp
  from created_config_loaded [OF rt run p this, of s' eager_user no_answers create_shop git_flags True "[]"]
  obtain co s1 lci where "CreateComplete git_tools eager_user no_answers create_shop git_flags True [''nodejs:8'', ''web'']
      (example_disk, new_state) = (Inr (Some co), (example_disk, s1))"
    "load_config git_tools (cf_context git_flags) (d', s') = (Inr lci, (d', s'))" "lci_settings lci = co_settings co"
    by blast
  moreover have "cf_context git_flags = []" by (simp add: git_flags_def)
  ultimately show ?thesis using ok run by auto
qed

end
