(* ===== verification/EditCmd.thy ===== *)
theory EditCmd
  imports CreateCmd
begin

text \<open>
  The commands that edit the configuration file of a component, \<open>pkg/odo/cli/config\<close>, \<open>pkg/odo/cli/url\<close> and
  \<open>pkg/odo/cli/storage\<close>: setting and unsetting parameters, the URLs and the storage that the next push brings to
  the cluster; and the commands that mount and unmount the storage of the cluster. What they print is left out.
\<close>

text \<open>An argument that cobra's check of the arguments lets a command use.\<close>

definition arg :: "string list \<Rightarrow> nat \<Rightarrow> string result" where
  "arg args n = (if n < length args then Inr (args ! n) else Inl (Panic ''index out of range''))"


section \<open>odo config set and unset\<close>

record 's config_options =
  cp_name :: string
  cp_value :: string
  cp_force :: bool
  cp_dir :: string
  cp_env :: "string list option"
  cp_context :: "'s cmd_context"

definition ConfigSetArgs :: "string list option \<Rightarrow> string list \<Rightarrow> unit result" where
  "ConfigSetArgs envArray args =
     (if envArray \<noteq> None then (if length args > 0 then fails ''expected 0 args'' [] else Inr ())
      else if length args < 2 then fails ''please provide a parameter name and value'' []
      else if length args > 2 then fails ''only one value per parameter is allowed'' []
      else Inr ())"

definition ConfigSetComplete ::
  "'s tools \<Rightarrow> invocation \<Rightarrow> bool \<Rightarrow> string \<Rightarrow> string list option \<Rightarrow> string list \<Rightarrow> ('s world, 's config_options option) op" where
  "ConfigSetComplete te iv force dir envArray args =
     bind (if envArray = None then bind (lift (arg args 0)) (\<lambda>n. bind (lift (arg args 1)) (\<lambda>v. return (n, v)))
           else return ([], [])) (\<lambda>(paramName, paramValue).
     bind (NewContext te iv) (\<lambda>cx.
       return (Some \<lparr>cp_name = paramName, cp_value = paramValue, cp_force = force, cp_dir = dir, cp_env = envArray,
         cp_context = cx\<rparr>)))"

definition ConfigSetRun :: "'s tools \<Rightarrow> 's survey \<Rightarrow> 's config_options \<Rightarrow> ('s world, unit option) op" where
  "ConfigSetRun te sy co =
     bind (wrapping ''unable to set configuration'' [] (load_config te (cp_dir co))) (\<lambda>cfg.
       case cp_env co of
         Some envArray \<Rightarrow>
           bind (lift (NewEnvVarListFromSlice envArray)) (\<lambda>newEnvVarList.
           let presentEnvVarList = LocalGetEnvVars cfg;
               newEnvVarList = Merge (cl_order (cx_client (cp_context co))) presentEnvVarList newEnvVarList
           in bind (on_config cfg (SetEnvVars (to_yaml te) newEnvVarList)) (\<lambda>_. finished))
       | None \<Rightarrow>
           bind (if \<not> cp_force co \<and> LocalIsSet cfg (cp_name co)
                 then on_cluster (Proceed sy (sprintf ''%v is already set. Do you want to override it in the config'' [cp_name co]))
                 else return True) (\<lambda>go.
             if \<not> go then finished
             else bind (on_config cfg (SetConfiguration (to_yaml te) (to_lower (cp_name co)) (VString (cp_value co))))
                    (\<lambda>_. finished)))"

definition odo_config_set ::
  "'s tools \<Rightarrow> 's survey \<Rightarrow> invocation \<Rightarrow> bool \<Rightarrow> string \<Rightarrow> string list option \<Rightarrow> string list \<Rightarrow> ('s world, unit option) op" where
  "odo_config_set te sy iv force dir envArray args =
     bind (lift (ConfigSetArgs envArray args)) (\<lambda>_.
       GenericRun (ConfigSetComplete te iv force dir envArray args) (\<lambda>co. return (Some co)) (ConfigSetRun te sy))"

definition ConfigUnsetArgs :: "string list option \<Rightarrow> string list \<Rightarrow> unit result" where
  "ConfigUnsetArgs envArray args =
     (if envArray \<noteq> None then (if length args > 0 then fails ''expected 0 args'' [] else Inr ())
      else if length args < 1 then fails ''please provide a parameter name'' []
      else if length args > 1 then fails ''only one parameter is allowed'' []
      else Inr ())"

definition ConfigUnsetComplete ::
  "'s tools \<Rightarrow> invocation \<Rightarrow> bool \<Rightarrow> string \<Rightarrow> string list option \<Rightarrow> string list \<Rightarrow> ('s world, 's config_options option) op" where
  "ConfigUnsetComplete te iv force dir envArray args =
     bind (if envArray = None then lift (arg args 0) else return []) (\<lambda>paramName.
     bind (NewContext te iv) (\<lambda>cx.
       return (Some \<lparr>cp_name = paramName, cp_value = [], cp_force = force, cp_dir = dir, cp_env = envArray, cp_context = cx\<rparr>)))"

definition ConfigUnsetRun :: "'s tools \<Rightarrow> 's survey \<Rightarrow> 's config_options \<Rightarrow> ('s world, unit option) op" where
  "ConfigUnsetRun te sy co =
     bind (wrapping [] [] (load_config te (cp_dir co))) (\<lambda>cfg.
       case cp_env co of
         Some envArray \<Rightarrow>
           bind (on_config cfg (SetEnvVars (to_yaml te) (RemoveEnvVarsFromList (LocalGetEnvVars cfg) envArray)))
             (\<lambda>_. finished)
       | None \<Rightarrow>
           if LocalIsSet cfg (cp_name co) then
             bind (if \<not> cp_force co
                   then on_cluster (Proceed sy (sprintf ''Do you want to unset %s in the config'' [cp_name co]))
                   else return True) (\<lambda>go.
               if \<not> go then finished
               else bind (on_config cfg (LocalDeleteConfiguration (to_yaml te) (to_lower (cp_name co)))) (\<lambda>_. finished))
           else failing ''config already unset, cannot unset a configuration which is not set'' [])"

definition odo_config_unset ::
  "'s tools \<Rightarrow> 's survey \<Rightarrow> invocation \<Rightarrow> bool \<Rightarrow> string \<Rightarrow> string list option \<Rightarrow> string list \<Rightarrow> ('s world, unit option) op" where
  "odo_config_unset te sy iv force dir envArray args =
     bind (lift (ConfigUnsetArgs envArray args)) (\<lambda>_.
       GenericRun (ConfigUnsetComplete te iv force dir envArray args) (\<lambda>co. return (Some co)) (ConfigUnsetRun te sy))"


section \<open>odo url create and delete\<close>

record 's url_options =
  ue_local :: LocalConfigInfo
  ue_name :: string
  ue_port :: int
  ue_component_port :: int
  ue_context :: "'s cmd_context"

definition URLCreateComplete ::
  "'s tools \<Rightarrow> invocation \<Rightarrow> string \<Rightarrow> int \<Rightarrow> string list \<Rightarrow> ('s world, 's url_options option) op" where
  "URLCreateComplete te iv dir urlPort args =
     bind (NewContext te iv) (\<lambda>cx.
     bind (on_cluster (ContextComponent cx [])) (\<lambda>(cmp, cx).
     bind (on_cluster (GetValidPortNumber (cx_client cx) urlPort cmp (cx_application cx))) (\<lambda>componentPort.
     let urlName = (if length args = 0 then GetURLName cmp componentPort else args ! 0) in
     bind (load_config te dir) (\<lambda>lci.
       return (Some \<lparr>ue_local = lci, ue_name = urlName, ue_port = urlPort, ue_component_port = componentPort, ue_context = cx\<rparr>)))))"

definition URLCreateValidate :: "'s url_options \<Rightarrow> unit result" where
  "URLCreateValidate uo =
     (if list_ex (\<lambda>localUrl. ue_name uo = cu_name localUrl) (LocalGetUrl (ue_local uo)) then
        fails ''the url %s already exists in the application: %s'' [ue_name uo, cx_application (ue_context uo)]
      else if length (ue_name uo) > 63 then fails ''url name must be shorter than 63 characters'' []
      else if \<not> CheckOutputFlag (cx_output (ue_context uo)) then
        fails ''given output format %s is not supported'' [cx_output (ue_context uo)]
      else Inr ())"

definition URLCreateRun :: "'s tools \<Rightarrow> 's url_options \<Rightarrow> ('s world, unit option) op" where
  "URLCreateRun te uo =
     bind (wrapping ''failed to persist the component settings to config file'' []
            (on_config (ue_local uo) (SetConfiguration (to_yaml te) ''url''
              (VUrl \<lparr>cu_name = ue_name uo, cu_port = ue_port uo\<rparr>)))) (\<lambda>_. finished)"

definition odo_url_create ::
  "'s tools \<Rightarrow> invocation \<Rightarrow> string \<Rightarrow> int \<Rightarrow> string list \<Rightarrow> ('s world, unit option) op" where
  "odo_url_create te iv dir urlPort args = GenericRun (URLCreateComplete te iv dir urlPort args)
     (\<lambda>uo. bind (lift (URLCreateValidate uo)) (\<lambda>_. return (Some uo))) (URLCreateRun te)"

definition URLDeleteComplete ::
  "'s tools \<Rightarrow> invocation \<Rightarrow> string \<Rightarrow> string list \<Rightarrow> ('s world, 's url_options option) op" where
  "URLDeleteComplete te iv dir args =
     bind (NewContext te iv) (\<lambda>cx.
     bind (lift (arg args 0)) (\<lambda>urlName.
     bind (load_config te dir) (\<lambda>lci.
       return (Some \<lparr>ue_local = lci, ue_name = urlName, ue_port = 0, ue_component_port = 0, ue_context = cx\<rparr>))))"

definition URLDeleteValidate :: "'s url_options \<Rightarrow> ('s, 's url_options option) op" where
  "URLDeleteValidate uo =
     (let found = foldl (\<lambda>found u. if cu_name u = ue_name uo then True else found) False (LocalGetUrl (ue_local uo)) in
      if \<not> found then
        bind (ContextComponent (ue_context uo) []) (\<lambda>(cmp, _).
          failing ''the URL %s does not exist within the component %s'' [ue_name uo, cmp])
      else return (Some uo))"

definition URLDeleteRun :: "'s tools \<Rightarrow> 's survey \<Rightarrow> bool \<Rightarrow> 's url_options \<Rightarrow> ('s world, unit option) op" where
  "URLDeleteRun te sy force uo =
     bind (if force then return True
           else on_cluster (Proceed sy (sprintf ''Are you sure you want to delete the url %v'' [ue_name uo]))) (\<lambda>go.
       if go then bind (on_config (ue_local uo) (DeleteUrl (to_yaml te) (ue_name uo))) (\<lambda>_. finished)
       else failing ''aborting deletion of URL: %v'' [ue_name uo])"

definition odo_url_delete ::
  "'s tools \<Rightarrow> 's survey \<Rightarrow> invocation \<Rightarrow> string \<Rightarrow> bool \<Rightarrow> string list \<Rightarrow> ('s world, unit option) op" where
  "odo_url_delete te sy iv dir force args = GenericRun (URLDeleteComplete te iv dir args)
     (\<lambda>uo. on_cluster (URLDeleteValidate uo)) (URLDeleteRun te sy force)"


section \<open>odo storage create and delete\<close>

record 's storage_options =
  st_name :: string
  st_size :: string
  st_path :: string
  st_local :: LocalConfigInfo
  st_context :: "'s cmd_context"

text \<open>Both make the context twice, before and after the configuration is read. \<open>suffix\<close> is the random suffix.\<close>

definition StorageCreateComplete ::
  "'s tools \<Rightarrow> invocation \<Rightarrow> string \<Rightarrow> string \<Rightarrow> string \<Rightarrow> string \<Rightarrow> string list \<Rightarrow> ('s world, 's storage_options option) op" where
  "StorageCreateComplete te iv suffix dir sz path args =
     bind (NewContext te iv) (\<lambda>_.
     bind (load_config te dir) (\<lambda>lci.
     bind (NewContext te iv) (\<lambda>cx.
     bind (if length args \<noteq> 0 then return (args ! 0, cx)
           else on_cluster (bind (ContextComponent cx []) (\<lambda>(cmp, cx). return (cmp @ ''-'' @ suffix, cx)))) (\<lambda>(storageName, cx).
       return (Some \<lparr>st_name = storageName, st_size = sz, st_path = path, st_local = lci, st_context = cx\<rparr>)))))"

definition StorageCreateValidate :: "'s storage_options \<Rightarrow> unit result" where
  "StorageCreateValidate so =
     (if \<not> CheckOutputFlag (cx_output (st_context so)) then
        fails ''given output format %s is not supported'' [cx_output (st_context so)]
      else LocalValidateStorage (st_local so) (st_name so) (st_path so))"

definition StorageCreateRun ::
  "'s tools \<Rightarrow> (Storage \<Rightarrow> string result) \<Rightarrow> 's storage_options \<Rightarrow> ('s world, unit option) op" where
  "StorageCreateRun te marshal_json so =
     bind (on_config (st_local so) (LocalStorageCreate (to_yaml te) (st_name so) (st_size so) (st_path so))) (\<lambda>storageResult.
     bind (lift (MachineOutput marshal_json (cx_output (st_context so))
            (GetMachineReadableFormat (css_name storageResult) (css_size storageResult) (css_path storageResult)))) (\<lambda>out.
       finished))"

definition odo_storage_create ::
  "'s tools \<Rightarrow> (Storage \<Rightarrow> string result) \<Rightarrow> invocation \<Rightarrow> string \<Rightarrow> string \<Rightarrow> string \<Rightarrow> string \<Rightarrow> string list \<Rightarrow>
   ('s world, unit option) op" where
  "odo_storage_create te marshal_json iv suffix dir sz path args =
     GenericRun (StorageCreateComplete te iv suffix dir sz path args)
       (\<lambda>so. bind (lift (StorageCreateValidate so)) (\<lambda>_. return (Some so))) (StorageCreateRun te marshal_json)"

definition StorageDeleteComplete ::
  "'s tools \<Rightarrow> invocation \<Rightarrow> string \<Rightarrow> string list \<Rightarrow> ('s world, 's storage_options option) op" where
  "StorageDeleteComplete te iv dir args =
     bind (NewContext te iv) (\<lambda>_.
     bind (load_config te dir) (\<lambda>lci.
     bind (NewContext te iv) (\<lambda>cx.
     bind (lift (arg args 0)) (\<lambda>storageName.
       return (Some \<lparr>st_name = storageName, st_size = [], st_path = [], st_local = lci, st_context = cx\<rparr>)))))"

text \<open>The cause in the message is the error result, which is nil there.\<close>

definition StorageDeleteValidate :: "'s storage_options \<Rightarrow> unit result" where
  "StorageDeleteValidate so =
     (if \<not> LocalStorageExists (st_local so) (st_name so) then
        fails ''the storage %v does not exists in the application %v, cause %v''
          [st_name so, cx_application (st_context so), ''<nil>'']
      else Inr ())"

definition StorageDeleteRun :: "'s tools \<Rightarrow> 's survey \<Rightarrow> bool \<Rightarrow> 's storage_options \<Rightarrow> ('s world, unit option) op" where
  "StorageDeleteRun te sy force so =
     (let mPath = LocalGetMountPath (st_local so) (st_name so);
          deleteMsg = sprintf ''Are you sure you want to delete the storage %v mounted to %v in %v component''
            [st_name so, mPath, LocalGetName (st_local so)] in
      bind (if force then return True else on_cluster (Proceed sy deleteMsg)) (\<lambda>go.
        if go then
          bind (attempt (on_config (st_local so) (LocalStorageDelete (to_yaml te) (st_name so)))) (\<lambda>r. case r of
            Inl err \<Rightarrow> failing ''failed to delete storage, cause %v'' [error_text err]
          | Inr _ \<Rightarrow> finished)
        else failing ''aborting deletion of storage: %v'' [st_name so]))"

definition odo_storage_delete ::
  "'s tools \<Rightarrow> 's survey \<Rightarrow> invocation \<Rightarrow> string \<Rightarrow> bool \<Rightarrow> string list \<Rightarrow> ('s world, unit option) op" where
  "odo_storage_delete te sy iv dir force args = GenericRun (StorageDeleteComplete te iv dir args)
     (\<lambda>so. bind (lift (StorageDeleteValidate so)) (\<lambda>_. return (Some so))) (StorageDeleteRun te sy force)"

text \<open>The check of a path against the storage of the cluster.\<close>

definition validateStoragePath :: "'s client \<Rightarrow> string \<Rightarrow> string \<Rightarrow> string \<Rightarrow> ('s, unit) op" where
  "validateStoragePath c storagePath componentName applicationName =
     bind (StorageListAll c componentName applicationName) (\<lambda>storeList.
       if list_ex (\<lambda>store. sg_path store = storagePath) (sl_items storeList)
       then failing ''there already is a storage mounted at %s'' [storagePath] else return ())"


section \<open>Facts\<close>

lemma on_config_ok_iff:
  "on_config lci m (d, s) = (Inr a, (d', s')) \<longleftrightarrow> s' = s \<and> (\<exists>lci'. m (lci, d) = (Inr a, (lci', d')))"
  by (auto simp: on_config_def split: prod.splits)

definition config_in :: "'s tools \<Rightarrow> string \<Rightarrow> disk \<Rightarrow> LocalConfigInfo \<Rightarrow> bool" where
  "config_in te dir d lci \<longleftrightarrow> NewLocalConfigInfo (to_yaml te) (to_env te) (to_cwd te) dir d = (Inr lci, d)"

lemma load_config_ok_iff: "load_config te dir (d, s) = (Inr lci, w) \<longleftrightarrow> config_in te dir d lci \<and> w = (d, s)"
proof
  assume load: "load_config te dir (d, s) = (Inr lci, w)"
  from load_config_state [OF this] have "w = (d, s)" .
  with load show "config_in te dir d lci \<and> w = (d, s)"
    by (simp add: load_config_def config_in_def on_fst_ok_iff)
qed (simp add: load_config_def config_in_def on_fst_ok_iff)

lemma config_in_filename: "config_in te dir d lci \<Longrightarrow> getLocalConfigFile (to_env te) (to_cwd te) dir = Inr (lci_filename lci)"
  by (auto simp: config_in_def NewLocalConfigInfo_def op_simps Let_def split: if_splits prod.splits sum.splits)

text \<open>Reading what was written; the list of variables that became empty is read as none.\<close>

definition as_read :: "ComponentSettings \<Rightarrow> ComponentSettings" where
  "as_read cs = (if cs_envs cs = Some [] then cs\<lparr>cs_envs := None\<rparr> else cs)"

definition omits_empty :: "proxy_config yaml \<Rightarrow> bool" where
  "omits_empty y \<longleftrightarrow> (\<forall>tm cs. marshal y (tm, cs\<lparr>cs_envs := Some []\<rparr>) = marshal y (tm, cs\<lparr>cs_envs := None\<rparr>))"

lemma marshal_as_read: "omits_empty y \<Longrightarrow> marshal y (tm, as_read cs) = marshal y (tm, cs)"
proof (cases "cs_envs cs = Some []")
  case True
  then have "cs\<lparr>cs_envs := Some []\<rparr> = cs" by simp
  then show "omits_empty y \<Longrightarrow> ?thesis" using True by (metis omits_empty_def as_read_def)
qed (simp add: as_read_def)

lemma config_in_written:
  assumes "yaml_roundtrip (to_yaml te) newProxyLocalConfig kept_by_yaml" and "omits_empty (to_yaml te)"
    and "config_in te dir d lci" and "lci_filename lci \<notin> set (dk_unreadable d)"
    and "writeToFile (to_yaml te) (lci', d) = (Inr (), (lci', d'))" and "lci_filename lci' = lci_filename lci"
  shows "config_in te dir d' (lci'\<lparr>lci_settings := as_read (lci_settings lci'), lci_file_exists := True\<rparr>)"
proof -
  let ?c = "(lci_type_meta lci', as_read (lci_settings lci'))"
  have "WriteToFile (to_yaml te) (lci_type_meta lci', lci_settings lci') (lci_filename lci') d = (Inr (), d')"
    using assms(5) by (auto simp: writeToFile_apply Let_def split: prod.splits)
  then have w: "WriteToFile (to_yaml te) ?c (lci_filename lci') d = (Inr (), d')"
    using marshal_as_read [OF assms(2)] by (simp add: WriteToFile_def)
  have "kept_by_yaml ?c" by (simp add: kept_by_yaml_def as_read_def)
  from WriteToFile_GetFromFile [OF assms(1) this _ w] assms(4,6)
  have read: "GetFromFile (to_yaml te) newProxyLocalConfig (lci_filename lci') d' = (Inr ?c, d')" by simp
  have "\<not> not_exist d' (lci_filename lci')" using WriteToFile_ok [OF w] by (auto simp: not_exist_def has_key_def)
  with read config_in_filename [OF assms(3)] assms(6) show ?thesis
    by (simp add: config_in_def NewLocalConfigInfo_def op_simps Let_def getFromFile_def)
qed

text \<open>What a command that edits the configuration of a directory did: it read the file and wrote
  it again or left it; a \<open>tidy\<close> configuration, whose URLs and storages have their own names and
  paths, stayed tidy.\<close>

definition tidy :: "LocalConfigInfo \<Rightarrow> bool" where
  "tidy lci \<longleftrightarrow> distinct (map cu_name (LocalGetUrl lci)) \<and> distinct (map css_name (LocalGetStorage lci)) \<and>
     distinct (map css_path (LocalGetStorage lci))"

definition rewritten :: "'s tools \<Rightarrow> string \<Rightarrow> disk \<Rightarrow> disk \<Rightarrow> bool" where
  "rewritten te dir d d' \<longleftrightarrow> (\<exists>lci lci'. config_in te dir d lci \<and> lci_filename lci' = lci_filename lci \<and>
     (d' = d \<or> writeToFile (to_yaml te) (lci', d) = (Inr (), (lci', d')) \<and> (tidy lci \<longrightarrow> tidy lci')))"

lemma tidy_update:
  "tidy (lci\<lparr>lci_settings := cs\<rparr>) \<longleftrightarrow>
     distinct (map cu_name (case cs_url cs of None \<Rightarrow> [] | Some us \<Rightarrow> us)) \<and>
     distinct (map css_name (case cs_storage cs of None \<Rightarrow> [] | Some ss \<Rightarrow> ss)) \<and>
     distinct (map css_path (case cs_storage cs of None \<Rightarrow> [] | Some ss \<Rightarrow> ss))"
  by (simp add: tidy_def LocalGetUrl_def LocalGetStorage_def)

lemma tidy_same:
  "cs_url cs = cs_url (lci_settings lci) \<Longrightarrow> cs_storage cs = cs_storage (lci_settings lci) \<Longrightarrow>
     tidy (lci\<lparr>lci_settings := cs\<rparr>) = tidy lci"
  unfolding tidy_update by (simp add: tidy_def LocalGetUrl_def LocalGetStorage_def)

lemma tidy_as_read: "tidy (lci\<lparr>lci_settings := as_read (lci_settings lci), lci_file_exists := True\<rparr>) = tidy lci"
  by (simp add: tidy_def LocalGetUrl_def LocalGetStorage_def as_read_def)

lemma rewrittenI:
  "config_in te dir d lci \<Longrightarrow> writeToFile (to_yaml te) (lci', d) = (Inr (), (lci', d')) \<Longrightarrow>
     lci_filename lci' = lci_filename lci \<Longrightarrow> (tidy lci \<Longrightarrow> tidy lci') \<Longrightarrow> rewritten te dir d d'"
  unfolding rewritten_def by blast

lemma rewritten_same: "config_in te dir d lci \<Longrightarrow> rewritten te dir d d"
  unfolding rewritten_def by blast

lemma set_parameter_lists:
  assumes "set_parameter p v = Inr f" and "\<forall>u. v \<noteq> VUrl u" and "p \<noteq> ''storage''"
  shows "cs_url (f cs) = cs_url cs \<and> cs_storage (f cs) = cs_storage cs"
  using assms by (cases v) (auto simp: set_parameter_def Let_def bindR_Inr_iff split: if_splits)

lemma tidy_set_parameter:
  "set_parameter p (VString v) = Inr f \<Longrightarrow> p \<noteq> ''storage'' \<Longrightarrow>
     tidy (lci\<lparr>lci_settings := f (lci_settings lci)\<rparr>) = tidy lci"
  using set_parameter_lists [of p "VString v" f "lci_settings lci"] by (intro tidy_same) auto

lemma reset_lists:
  "n \<in> set local_parameters \<Longrightarrow> cs_url (reset_by_lower n cs) \<in> {None, cs_url cs} \<and> cs_storage (reset_by_lower n cs) \<in> {None, cs_storage cs}"
  by (drule local_parameter_cases) (elim disjE; simp add: reset_by_lower_def settings_by_lower_def settings_table_def)

lemma tidy_reset: "n \<in> set local_parameters \<Longrightarrow> tidy lci \<Longrightarrow> tidy (lci\<lparr>lci_settings := reset_by_lower n (lci_settings lci)\<rparr>)"
  unfolding tidy_update using reset_lists [of n "lci_settings lci"]
  by (auto simp: tidy_def LocalGetUrl_def LocalGetStorage_def)

lemma SetEnvVars_ok:
  "SetEnvVars y vs (lci, d) = (Inr (), (lci', d')) \<Longrightarrow>
     lci' = lci\<lparr>lci_settings := (lci_settings lci)\<lparr>cs_envs := Some vs\<rparr>\<rparr> \<and> writeToFile y (lci', d) = (Inr (), (lci', d'))"
  by (auto simp: SetEnvVars_def bind_ok_iff set_settings_apply dest: writeToFile_lci)


text \<open>Each command that succeeds.\<close>

lemma GenericRun_ok:
  assumes "GenericRun complete (\<lambda>x. bind (check x) (\<lambda>_. return (Some x))) run w = (Inr (Some ()), w')"
  obtains x w1 w2 a where "complete w = (Inr (Some x), w1)" "check x w1 = (Inr a, w2)" "run x w2 = (Inr (Some ()), w')"
  using assms by (auto simp: GenericRun_def bindW_ok_iff bind_ok_iff)

lemma GenericRun_unchecked:
  assumes "GenericRun complete (\<lambda>x. return (Some x)) run w = (Inr (Some ()), w')"
  obtains x w1 where "complete w = (Inr (Some x), w1)" "run x w1 = (Inr (Some ()), w')"
  using assms by (auto simp: GenericRun_def bindW_ok_iff)

lemma url_create_rewrites:
  assumes "odo_url_create te iv dir port args (d, s) = (Inr (Some ()), (d', s'))"
  shows "rewritten te dir d d'"
proof -
  from assms obtain uo w1 w2 where complete: "URLCreateComplete te iv dir port args (d, s) = (Inr (Some uo), w1)"
    and valid: "URLCreateValidate uo = Inr ()" and w2: "w2 = w1"
    and run: "URLCreateRun te uo w2 = (Inr (Some ()), (d', s'))"
    unfolding odo_url_create_def by (elim GenericRun_ok) (auto simp: lift_ok_iff)
  have "config_in te dir d (ue_local uo) \<and> (\<exists>t. w1 = (d, t))"
    using complete by (auto simp: URLCreateComplete_def NewContext_def Let_def bind_ok_iff load_config_ok_iff
        dest!: newContext_disk on_snd_Some)
  then obtain t where c: "config_in te dir d (ue_local uo)" and w1: "w1 = (d, t)" by blast
  from run w2 w1 obtain lci' where set: "SetConfiguration (to_yaml te) ''url''
      (VUrl \<lparr>cu_name = ue_name uo, cu_port = ue_port uo\<rparr>) (ue_local uo, d) = (Inr (), (lci', d'))"
    by (auto simp: URLCreateRun_def bind_ok_iff on_config_ok_iff)
  have lists: "LocalGetUrl lci' = LocalGetUrl (ue_local uo) @ [\<lparr>cu_name = ue_name uo, cu_port = ue_port uo\<rparr>]"
    using SetConfiguration_url [OF set] .
  have "ue_name uo \<notin> cu_name ` set (LocalGetUrl (ue_local uo))"
    using valid by (auto simp: URLCreateValidate_def list_ex_iff split: if_splits)
  with lists set show ?thesis
    by (intro rewrittenI [OF c, of lci']) (auto simp: SetConfiguration_ok_iff tidy_def LocalGetStorage_def)
qed


lemma url_delete_rewrites:
  assumes "odo_url_delete te sy iv dir force args (d, s) = (Inr (Some ()), (d', s'))"
  shows "rewritten te dir d d'"
proof -
  from assms obtain uo w1 uo' w2 where complete: "URLDeleteComplete te iv dir args (d, s) = (Inr (Some uo), w1)"
    and valid: "on_cluster (URLDeleteValidate uo) w1 = (Inr (Some uo'), w2)"
    and run: "URLDeleteRun te sy force uo' w2 = (Inr (Some ()), (d', s'))"
    by (auto simp: odo_url_delete_def GenericRun_def bindW_ok_iff)
  from complete obtain t where c: "config_in te dir d (ue_local uo)" and w1: "w1 = (d, t)"
    by (auto simp: URLDeleteComplete_def NewContext_def bind_ok_iff load_config_ok_iff lift_ok_iff dest!: newContext_disk)
  from valid w1 have "\<exists>t'. w2 = (d, t')" and same: "uo' = uo"
    by (auto simp: URLDeleteValidate_def Let_def bind_ok_iff dest!: on_snd_Some split: if_splits)
  with run obtain lci' where del: "DeleteUrl (to_yaml te) (ue_name uo) (ue_local uo, d) = (Inr (), (lci', d'))"
    by (auto simp: URLDeleteRun_def bind_ok_iff on_config_ok_iff dest!: on_snd_Some split: if_splits)
  have "writeToFile (to_yaml te) (lci', d) = (Inr (), (lci', d')) \<and> lci_filename lci' = lci_filename (ue_local uo)"
    using del by (auto simp: DeleteUrl_def bind_ok_iff op_simps set_settings_apply split: option.splits sum.splits)
      (frule writeToFile_lci, simp)+
  moreover have "tidy (ue_local uo) \<Longrightarrow> tidy lci'"
    using DeleteUrl_ok [OF _ del] by (auto simp: tidy_def LocalGetUrl_def LocalGetStorage_def distinct_map_filter)
  ultimately show ?thesis by (intro rewrittenI [OF c, of lci']) auto
qed

lemma validate_storage_iff:
  "validate_storage_in n path ss = Inr () \<longleftrightarrow> n \<notin> css_name ` set ss \<and> path \<notin> css_path ` set ss"
  by (induction ss) auto

lemma storage_create_rewrites:
  assumes "odo_storage_create te json iv suffix dir sz path args (d, s) = (Inr (Some ()), (d', s'))"
  shows "rewritten te dir d d'"
proof -
  from assms obtain so w1 w2 where complete: "StorageCreateComplete te iv suffix dir sz path args (d, s) = (Inr (Some so), w1)"
    and valid: "StorageCreateValidate so = Inr ()" and w2: "w2 = w1"
    and run: "StorageCreateRun te json so w2 = (Inr (Some ()), (d', s'))"
    unfolding odo_storage_create_def by (elim GenericRun_ok) (auto simp: lift_ok_iff)
  from complete obtain t where c: "config_in te dir d (st_local so)" and w1: "w1 = (d, t)"
    by (auto simp: StorageCreateComplete_def NewContext_def bind_ok_iff load_config_ok_iff
        dest!: newContext_disk on_snd_Some split: if_splits)
  from run w1 w2 obtain r lci' where create: "LocalStorageCreate (to_yaml te) (st_name so) (st_size so) (st_path so) (st_local so, d)
      = (Inr r, (lci', d'))"
    by (auto simp: StorageCreateRun_def bind_ok_iff on_config_ok_iff lift_ok_iff)
  then have set: "SetConfiguration (to_yaml te) ''storage'' (VStorage \<lparr>css_name = st_name so, css_size = st_size so, css_path = st_path so\<rparr>)
      (st_local so, d) = (Inr (), (lci', d'))"
    by (auto simp: LocalStorageCreate_def Let_def bind_ok_iff)
  from valid have "st_name so \<notin> css_name ` set (LocalGetStorage (st_local so)) \<and> st_path so \<notin> css_path ` set (LocalGetStorage (st_local so))"
    by (auto simp: StorageCreateValidate_def LocalValidateStorage_def validate_storage_iff split: if_splits)
  with SetConfiguration_storage [OF set] set show ?thesis
    by (intro rewrittenI [OF c, of lci']) (auto simp: SetConfiguration_ok_iff tidy_def LocalGetUrl_def)
qed

lemma case_sum_fail: "(case r of Inl e \<Rightarrow> failing (f e) (as e) | Inr x \<Rightarrow> m x) w = (Inr a, w') \<longleftrightarrow> (\<exists>x. r = Inr x \<and> m x w = (Inr a, w'))"
  by (cases r) (auto simp: op_simps)

lemma storage_delete_rewrites:
  assumes "odo_storage_delete te sy iv dir force args (d, s) = (Inr (Some ()), (d', s'))"
  shows "rewritten te dir d d'"
proof -
  from assms obtain so w1 w2 where complete: "StorageDeleteComplete te iv dir args (d, s) = (Inr (Some so), w1)"
    and w2: "w2 = w1" and run: "StorageDeleteRun te sy force so w2 = (Inr (Some ()), (d', s'))"
    unfolding odo_storage_delete_def by (elim GenericRun_ok) (auto simp: lift_ok_iff)
  from complete obtain t where c: "config_in te dir d (st_local so)" and w1: "w1 = (d, t)"
    by (auto simp: StorageDeleteComplete_def NewContext_def bind_ok_iff load_config_ok_iff lift_ok_iff dest!: newContext_disk)
  from run w1 w2 obtain lci' where "LocalStorageDelete (to_yaml te) (st_name so) (st_local so, d) = (Inr (), (lci', d'))"
    by (auto simp: StorageDeleteRun_def Let_def bind_ok_iff on_config_ok_iff attempt_ok_iff case_sum_fail dest!: on_snd_Some
        split: if_splits)
  then have del: "DeleteFromConfigurationList (to_yaml te) ''storage'' (st_name so) (st_local so, d) = (Inr (), (lci', d'))"
    by (auto simp: LocalStorageDelete_def bind_ok_iff lci_state_apply op_simps split: if_splits)
  then have "writeToFile (to_yaml te) (lci', d) = (Inr (), (lci', d')) \<and> lci_filename lci' = lci_filename (st_local so) \<and>
      LocalGetUrl lci' = LocalGetUrl (st_local so)"
    by (auto simp: DeleteFromConfigurationList_def asLocallySupportedParameter_eq bind_ok_iff op_simps set_settings_apply
        LocalGetUrl_def split: sum.splits)
      (frule writeToFile_lci, simp)+
  moreover have "tidy (st_local so) \<Longrightarrow> tidy lci'"
    using DeleteStorage_ok [OF _ del] calculation by (auto simp: tidy_def distinct_map_filter)
  ultimately show ?thesis by (intro rewrittenI [OF c, of lci']) auto
qed


lemma config_set_rewrites:
  assumes "odo_config_set te sy iv force dir envs args (d, s) = (Inr (Some ()), (d', s'))"
    and "envs \<noteq> None \<or> to_lower (args ! 0) \<noteq> ''storage''"
  shows "rewritten te dir d d'"
proof -
  from assms(1) obtain co w1 where complete: "ConfigSetComplete te iv force dir envs args (d, s) = (Inr (Some co), w1)"
    and run: "ConfigSetRun te sy co w1 = (Inr (Some ()), (d', s'))"
    by (auto simp: odo_config_set_def bind_ok_iff lift_ok_iff elim: GenericRun_unchecked)
  from complete have co: "cp_dir co = dir" "cp_env co = envs" "envs = None \<Longrightarrow> cp_name co = args ! 0"
    by (auto simp: ConfigSetComplete_def bind_ok_iff lift_ok_iff arg_def split: if_splits)
  from complete obtain t where w1: "w1 = (d, t)"
    by (auto simp: ConfigSetComplete_def NewContext_def bind_ok_iff lift_ok_iff dest!: newContext_disk split: if_splits)
  from run w1 co obtain cfg where c: "config_in te dir d cfg"
    and cases: "d' = d \<or> (\<exists>vs lci'. SetEnvVars (to_yaml te) vs (cfg, d) = (Inr (), (lci', d'))) \<or>
      envs = None \<and> (\<exists>lci'. SetConfiguration (to_yaml te) (to_lower (cp_name co)) (VString (cp_value co)) (cfg, d) = (Inr (), (lci', d')))"
    by (auto simp: ConfigSetRun_def Let_def bind_ok_iff load_config_ok_iff on_config_ok_iff lift_ok_iff finished_def failing_def fault_def
        dest!: on_snd_Some split: if_splits option.splits)
  from cases show ?thesis
  proof (elim disjE exE conjE)
    assume "d' = d" with c show ?thesis by (simp add: rewritten_same)
  next
    fix vs lci' assume "SetEnvVars (to_yaml te) vs (cfg, d) = (Inr (), (lci', d'))"
    from SetEnvVars_ok [OF this] show ?thesis by (intro rewrittenI [OF c, of lci']) (auto simp: tidy_same)
  next
    fix lci' assume none: "envs = None"
      and set: "SetConfiguration (to_yaml te) (to_lower (cp_name co)) (VString (cp_value co)) (cfg, d) = (Inr (), (lci', d'))"
    have "to_lower (to_lower (cp_name co)) = to_lower (cp_name co)" by (simp add: to_lower_def lower_char_idem)
    then have "to_lower (to_lower (cp_name co)) \<noteq> ''storage''" using assms(2) none co(3) by simp
    with set show ?thesis
      by (intro rewrittenI [OF c, of lci']) (auto simp: SetConfiguration_ok_iff tidy_set_parameter)
  qed
qed

lemma config_unset_rewrites:
  assumes "odo_config_unset te sy iv force dir envs args (d, s) = (Inr (Some ()), (d', s'))"
  shows "rewritten te dir d d'"
proof -
  from assms(1) obtain co w1 where complete: "ConfigUnsetComplete te iv force dir envs args (d, s) = (Inr (Some co), w1)"
    and run: "ConfigUnsetRun te sy co w1 = (Inr (Some ()), (d', s'))"
    by (auto simp: odo_config_unset_def bind_ok_iff lift_ok_iff elim: GenericRun_unchecked)
  from complete obtain t where w1: "w1 = (d, t)" and co: "cp_dir co = dir"
    by (auto simp: ConfigUnsetComplete_def NewContext_def bind_ok_iff lift_ok_iff dest!: newContext_disk split: if_splits)
  from run w1 co obtain cfg where c: "config_in te dir d cfg"
    and cases: "d' = d \<or> (\<exists>vs lci'. SetEnvVars (to_yaml te) vs (cfg, d) = (Inr (), (lci', d'))) \<or>
      (\<exists>n lci'. LocalDeleteConfiguration (to_yaml te) n (cfg, d) = (Inr (), (lci', d')))"
    by (auto simp: ConfigUnsetRun_def bind_ok_iff load_config_ok_iff on_config_ok_iff finished_def failing_def fault_def
        dest!: on_snd_Some split: if_splits option.splits) blast+
  from cases show ?thesis
  proof (elim disjE exE)
    assume "d' = d" with c show ?thesis by (simp add: rewritten_same)
  next
    fix vs lci' assume "SetEnvVars (to_yaml te) vs (cfg, d) = (Inr (), (lci', d'))"
    from SetEnvVars_ok [OF this] show ?thesis by (intro rewrittenI [OF c, of lci']) (auto simp: tidy_same)
  next
    fix n lci' assume "LocalDeleteConfiguration (to_yaml te) n (cfg, d) = (Inr (), (lci', d'))"
    then show ?thesis
      by (intro rewrittenI [OF c, of lci']) (auto simp: LocalDeleteConfiguration_ok_iff tidy_reset)
  qed
qed


section \<open>A session of edits\<close>

text \<open>The commands that edit the configuration of a directory, one after the other, each with its own
  flags, answers and cluster. A storage given as the text of a parameter is left out.\<close>

inductive edit :: "'s tools \<Rightarrow> string \<Rightarrow> disk \<Rightarrow> disk \<Rightarrow> bool" for te dir where
  url_created: "odo_url_create te iv dir port args (d, s) = (Inr (Some ()), (d', s')) \<Longrightarrow> edit te dir d d'"
| url_deleted: "odo_url_delete te sy iv dir force args (d, s) = (Inr (Some ()), (d', s')) \<Longrightarrow> edit te dir d d'"
| storage_created: "odo_storage_create te json iv suffix dir sz path args (d, s) = (Inr (Some ()), (d', s')) \<Longrightarrow> edit te dir d d'"
| storage_deleted: "odo_storage_delete te sy iv dir force args (d, s) = (Inr (Some ()), (d', s')) \<Longrightarrow> edit te dir d d'"
| parameter_set: "odo_config_set te sy iv force dir envs args (d, s) = (Inr (Some ()), (d', s')) \<Longrightarrow>
    envs \<noteq> None \<or> to_lower (args ! 0) \<noteq> ''storage'' \<Longrightarrow> edit te dir d d'"
| parameter_unset: "odo_config_unset te sy iv force dir envs args (d, s) = (Inr (Some ()), (d', s')) \<Longrightarrow> edit te dir d d'"

lemma edit_rewrites: "edit te dir d d' \<Longrightarrow> rewritten te dir d d'"
  by (cases rule: edit.cases)
    (auto intro: url_create_rewrites url_delete_rewrites storage_create_rewrites storage_delete_rewrites
      config_set_rewrites config_unset_rewrites)

inductive edits :: "'s tools \<Rightarrow> string \<Rightarrow> disk \<Rightarrow> disk \<Rightarrow> bool" for te dir d where
  no_edit: "edits te dir d d"
| more_edits: "edits te dir d d1 \<Longrightarrow> edit te dir d1 d2 \<Longrightarrow> edits te dir d d2"

lemma rewritten_keeps:
  assumes "yaml_roundtrip (to_yaml te) newProxyLocalConfig kept_by_yaml" and "omits_empty (to_yaml te)"
    and "config_in te dir d lci" "tidy lci" "lci_filename lci \<notin> set (dk_unreadable d)" and "rewritten te dir d d'"
  shows "dk_unreadable d' = dk_unreadable d \<and> (\<exists>lci'. config_in te dir d' lci' \<and> tidy lci' \<and> lci_filename lci' = lci_filename lci)"
proof -
  from assms(6) obtain l l' where l: "config_in te dir d l" and name: "lci_filename l' = lci_filename l"
    and w: "d' = d \<or> writeToFile (to_yaml te) (l', d) = (Inr (), (l', d')) \<and> (tidy l \<longrightarrow> tidy l')"
    unfolding rewritten_def by blast
  from l assms(3) have "l = lci" by (simp add: config_in_def)
  from w show ?thesis
  proof (elim disjE conjE)
    assume "d' = d" with assms(3,4) show ?thesis by blast
  next
    assume w: "writeToFile (to_yaml te) (l', d) = (Inr (), (l', d'))" and "tidy l \<longrightarrow> tidy l'"
    with assms(4) \<open>l = lci\<close> have "tidy l'" by simp
    from w have "dk_unreadable d' = dk_unreadable d"
      using WriteToFile_frame [of "to_yaml te" _ "lci_filename l'" d] by (auto simp: writeToFile_apply Let_def split: prod.splits)
    with config_in_written [OF assms(1-3,5) w] name \<open>tidy l'\<close> \<open>l = lci\<close> show ?thesis
      by (auto simp: tidy_as_read)
  qed
qed

lemma tidy_delete_url:
  assumes "tidy lci" and "n \<in> cu_name ` set (LocalGetUrl lci)"
  shows "DeleteUrl y n (lci, d) = writeToFile y (lci\<lparr>lci_settings := (lci_settings lci)
    \<lparr>cs_url := Some (filter (\<lambda>u. cu_name u \<noteq> n) (LocalGetUrl lci))\<rparr>\<rparr>, d)"
proof -
  obtain us where us: "cs_url (lci_settings lci) = Some us"
    using assms(2) by (cases "cs_url (lci_settings lci)") (auto simp: LocalGetUrl_def)
  with assms(1) have "delete_in_range (\<lambda>u. cu_name u = n) us = Inr (n \<in> cu_name ` set us, filter (\<lambda>u. cu_name u \<noteq> n) us)"
    by (simp add: delete_in_range_key tidy_def LocalGetUrl_def)
  then show ?thesis using us by (simp add: DeleteUrl_def bind_ok op_simps set_settings_apply LocalGetUrl_def)
qed



text \<open>\<open>odo config set\<close> takes any text for the parameters that are lists: \<open>odo config set url\<close> ends in a panic, whatever
  the text is, and \<open>odo config set storage\<close> ignores the text and adds a storage without name,
  size and path to the configuration.\<close>

theorem list_parameters_mistaken:
  assumes "config_in te (cp_dir co) d cfg" and "cp_env co = None" and "cp_force co \<or> \<not> LocalIsSet cfg (cp_name co)"
  shows "(to_lower (cp_name co) = ''url'' \<longrightarrow>
      ConfigSetRun te sy co (d, s) = (Inl (Panic ''interface conversion: not config.ConfigUrl''), (d, s)))
    \<and> (to_lower (cp_name co) = ''storage'' \<longrightarrow>
      ConfigSetRun te sy co (d, s) = bind (on_config cfg (SetConfiguration (to_yaml te) ''storage''
        (VStorage \<lparr>css_name = [], css_size = [], css_path = []\<rparr>))) (\<lambda>_. finished) (d, s))"
proof -
  have load: "load_config te (cp_dir co) (d, s) = (Inr cfg, (d, s))" using assms(1) by (simp add: load_config_ok_iff)
  have go: "(if \<not> cp_force co \<and> LocalIsSet cfg (cp_name co) then m else return True) w = (Inr True, w)" for m :: "('a world, bool) op" and w
    using assms(3) by (auto simp: op_simps)
  have run: "ConfigSetRun te sy co (d, s) = bind (on_config cfg (SetConfiguration (to_yaml te) (to_lower (cp_name co)) (VString (cp_value co))))
      (\<lambda>_. finished) (d, s)"
    unfolding ConfigSetRun_def assms(2) option.case
    by (rule trans, rule bind_ok, rule wrapping_ok, rule load, rule trans, rule bind_ok, rule go) simp
  have "SetConfiguration (to_yaml te) ''storage'' (VString v) = SetConfiguration (to_yaml te) ''storage''
      (VStorage \<lparr>css_name = [], css_size = [], css_path = []\<rparr>)" for v
    by (simp add: SetConfiguration_def asLocallySupportedParameter_eq)
  moreover have "SetConfiguration (to_yaml te) ''url'' (VString v) (cfg, d)
      = (Inl (Panic ''interface conversion: not config.ConfigUrl''), (cfg, d))" for v
    by (simp add: SetConfiguration_def asLocallySupportedParameter_eq op_simps)
  ultimately show ?thesis unfolding run by (auto simp: op_simps on_config_def split: prod.split)
qed

definition two_yaml :: "proxy_config \<Rightarrow> proxy_config \<Rightarrow> proxy_config yaml" where
  "two_yaml c1 c2 = \<lparr>marshal = (\<lambda>c. if c = c1 then Inr ''1'' else if c = c2 then Inr ''2'' else fails ''unsupported'' []),
     unmarshal = (\<lambda>text _. Inr (if text = ''1'' then c1 else c2))\<rparr>"

lemma two_yaml_facts:
  "yaml_roundtrip (two_yaml c1 c2) c0 keeps"
  "cs_envs (snd c1) \<notin> {None, Some []} \<Longrightarrow> cs_envs (snd c2) \<notin> {None, Some []} \<Longrightarrow> omits_empty (two_yaml c1 c2)"
  by (auto simp: yaml_roundtrip_def two_yaml_def omits_empty_def fails_def split: if_splits)

definition stored_settings :: ComponentSettings where
  "stored_settings = web_settings\<lparr>cs_storage := Some [\<lparr>css_name = ''data'', css_size = ''1Gi'', css_path = ''/data''\<rparr>]\<rparr>"

definition edit_tools :: "cluster tools" where
  "edit_tools = (shop_tools (NewLocalConfig_meta, web_settings))
     \<lparr>to_yaml := two_yaml (NewLocalConfig_meta, web_settings) (NewLocalConfig_meta, stored_settings)\<rparr>"

definition edit_disk :: disk where
  "edit_disk = example_disk\<lparr>dk_files := [(''/p/.odo/config.yaml'', ''1'')]\<rparr>"

abbreviation "storage_create \<equiv> \<lparr>iv_command = SubCommand ''create'' (SubCommand ''storage'' (RootCommand ''odo'')), iv_flags = [],
  iv_skip_check = Inr False\<rparr>"


definition config_set_url :: "string \<Rightarrow> cluster config_options" where
  "config_set_url parameter = \<lparr>cp_name = parameter, cp_value = ''frontend'', cp_force = True, cp_dir = [], cp_env = None,
     cp_context = \<lparr>cx_client = stream_client, cx_project = ''app'', cx_application = ''app'', cx_cmp = ''web'', cx_output = []\<rparr>\<rparr>"

theorem list_parameters_mistaken_witness:
  "ConfigSetRun edit_tools eager_user (config_set_url ''Url'') (edit_disk, web_state)
    = (Inl (Panic ''interface conversion: not config.ConfigUrl''), (edit_disk, web_state))"
proof -
  let ?lci = "\<lparr>lci_filename = ''/p/.odo/config.yaml'', lci_type_meta = NewLocalConfig_meta, lci_settings = web_settings,
     lci_file_exists = True\<rparr>"
  have "NewLocalConfigInfo (to_yaml edit_tools) (to_env edit_tools) (to_cwd edit_tools) (cp_dir (config_set_url ''Url'')) edit_disk
      = (Inr ?lci, edit_disk)" "to_lower (cp_name (config_set_url ''Url'')) = ''url''" by code_simp+
  then show ?thesis
    using list_parameters_mistaken [of edit_tools "config_set_url ''Url''" edit_disk ?lci eager_user web_state]
    by (simp add: config_in_def) (simp add: config_set_url_def)
qed

end
