(* ===== verification/ServiceCmd.thy ===== *)
theory ServiceCmd
  imports CreateCmd Services
begin

text \<open>
  The commands for services, \<open>pkg/odo/cli/service\<close> with its prompts in \<open>ui/ui.go\<close>: a service is created from flags or
  from the answers of the user, deleted with the links to it, and listed.
\<close>


section \<open>Prompts\<close>

definition getServiceClassesCategories :: "service_class list gomap \<Rightarrow> string list" where
  "getServiceClassesCategories categories = sort (keys_of categories)"

definition GetServicePlanNames :: "service_plan gomap \<Rightarrow> string list" where
  "GetServicePlanNames stringMap = sort (keys_of stringMap)"

definition getServiceClassMap :: "service_class list \<Rightarrow> service_class gomap" where
  "getServiceClassMap classes = foldl (\<lambda>classMap v. put (sc_external_name v) v classMap) [] classes"

definition getServiceClassNames :: "service_class gomap \<Rightarrow> string list" where
  "getServiceClassNames stringMap = sort (keys_of stringMap)"

definition SelectPlanNameInteractively :: "'s survey \<Rightarrow> service_plan gomap \<Rightarrow> string \<Rightarrow> ('s, string) op" where
  "SelectPlanNameInteractively sy plans promptText = HandleError [] (sy_select sy promptText (GetServicePlanNames plans))"

definition EnterServiceNameInteractively ::
  "'s survey \<Rightarrow> string \<Rightarrow> string \<Rightarrow> (string \<Rightarrow> ('s, unit) op) \<Rightarrow> ('s, string) op" where
  "EnterServiceNameInteractively sy defaultValue promptText validateName =
     HandleError [] (sy_input sy promptText defaultValue validateName)"

text \<open>The zero values a map gives for a key it does not have.\<close>

definition no_class :: service_class where
  "no_class = \<lparr>sc_name = [], sc_external_name = [], sc_external_id = [], sc_bindable = False, sc_description = [],
     sc_tags = [], sc_broker = [], sc_metadata = []\<rparr>"

definition no_plan :: service_plan where
  "no_plan = \<lparr>pl_external_name = [], pl_description = [], pl_class_ref = [], pl_metadata = [], pl_schema = []\<rparr>"

definition SelectClassInteractively ::
  "'s survey \<Rightarrow> service_class list gomap \<Rightarrow> ('s, service_class \<times> string) op" where
  "SelectClassInteractively sy classesByCategory =
     bind (HandleError [] (sy_select sy ''Which kind of service do you wish to create''
            (getServiceClassesCategories classesByCategory))) (\<lambda>category.
     let classes = getServiceClassMap (case lookup classesByCategory category of None \<Rightarrow> [] | Some cs \<Rightarrow> cs) in
     bind (HandleError [] (sy_select sy (''Which '' @ category @ '' service class should we use'')
            (getServiceClassNames classes))) (\<lambda>serviceType.
       return (case lookup classes serviceType of None \<Rightarrow> no_class | Some cls \<Rightarrow> cls, serviceType)))"

text \<open>
  What the prompt shows of a class: \<open>color\<close> is the terminal's colour code, \<open>width\<close> the answer for its
  width. Texts that are too long are broken between words.
\<close>

definition StyledOutput :: "(string \<Rightarrow> string) \<Rightarrow> string \<Rightarrow> string \<Rightarrow> string" where
  "StyledOutput color text style = color style @ text @ color ''reset''"

definition wrap_word :: "nat \<Rightarrow> nat \<Rightarrow> string \<times> nat \<Rightarrow> string \<Rightarrow> string \<times> nat" where
  "wrap_word width prefixSize acc word = (case acc of (newLine, lineSize) \<Rightarrow>
     if lineSize + length word + 1 + prefixSize < width
     then (newLine @ '' '' @ word, lineSize + 1 + length word)
     else (newLine @ [newline] @ word, length word))"

definition wrap_line :: "nat \<Rightarrow> nat \<Rightarrow> string \<Rightarrow> string" where
  "wrap_line width prefixSize line =
     trim_space (fst (foldl (wrap_word width prefixSize) ([], 0) (split_on CHR '' '' (trim_space line))))"

definition defaultColumnNumberBeforeWrap :: nat where
  "defaultColumnNumberBeforeWrap = 80"

definition wrapIfNeeded :: "nat option \<Rightarrow> string \<Rightarrow> nat \<Rightarrow> string" where
  "wrapIfNeeded terminal_width val prefixSize =
     (let width = (case terminal_width of None \<Rightarrow> defaultColumnNumberBeforeWrap
            | Some w \<Rightarrow> if w = 0 then defaultColumnNumberBeforeWrap else w)
      in if length val + prefixSize \<ge> width
         then join_with [newline] (map (wrap_line width prefixSize) (split_on newline val))
         else val)"

definition classInfoItem :: "(string \<Rightarrow> string) \<Rightarrow> nat option \<Rightarrow> string \<Rightarrow> string \<Rightarrow> string" where
  "classInfoItem color terminal_width name val =
     (let val = wrapIfNeeded terminal_width val (length name + 3)
      in if length val > 0 then StyledOutput color name ''default+b'' @ '': '' @ val @ [newline] else [])"

text \<open>A class without metadata has the empty text; an error of the parser leaves no entries.\<close>

definition getLongDescription :: "(string \<Rightarrow> error + json_value gomap) \<Rightarrow> service_class \<Rightarrow> string result" where
  "getLongDescription parse_meta cls =
     (if sc_metadata cls = [] then Inr []
      else string_value (case parse_meta (sc_metadata cls) of Inl _ \<Rightarrow> [] | Inr meta \<Rightarrow> meta) ''longDescription'' [])"

definition propDesc :: "ServicePlanParameter \<Rightarrow> string" where
  "propDesc prop =
     (let msg = (if length (pp_title prop) > 0 then pp_title prop
            else if length (pp_description prop) > 0 then pp_description prop else []);
          msg = (if length msg > 0 then '' ('' @ trim_space msg @ '')'' else msg)
      in pp_name prop @ msg)"

definition addValueFor :: "'s survey \<Rightarrow> ServicePlanParameter \<Rightarrow> string gomap \<Rightarrow> ('s, string gomap) op" where
  "addValueFor sy prop vals =
     bind (HandleError [] (sy_input sy
       (sprintf ''Enter a value for %s property %s:'' [va_type (pp_validatable prop), propDesc prop]) (pp_default prop)
       (by_validator (GetValidatorFor (pp_validatable prop))))) (\<lambda>result.
       return (put (pp_name prop) result vals))"

text \<open>
  The required properties in the order of their names, then, if the user wants, the others as
  the map delivers them. The error of the plan is dropped.
\<close>

definition enterServicePropertiesInteractively ::
  "(string list \<Rightarrow> string list) \<Rightarrow> (string \<Rightarrow> error + json_value gomap) \<Rightarrow>
   (string \<Rightarrow> error + string list \<times> ServicePlanParameter gomap) \<Rightarrow> 's survey \<Rightarrow> service_plan \<Rightarrow>
   ('s, string gomap) op" where
  "enterServicePropertiesInteractively order parse_meta parse_schema sy svcPlan =
     bind (lift (NewServicePlan order parse_meta parse_schema svcPlan)) (\<lambda>(planDetails, _).
     let properties = foldl (\<lambda>properties v. put (pp_name v) v properties) [] (pn_parameters planDetails) in
     bind (fold_op (\<lambda>prop (vals, properties).
            if va_required (pp_validatable prop) then
              bind (addValueFor sy prop vals) (\<lambda>vals. return (vals, filter (\<lambda>p. fst p \<noteq> pp_name prop) properties))
            else return (vals, properties)) (sort_key pp_name (pn_parameters planDetails)) ([], properties))
       (\<lambda>(vals, properties).
     bind (if length properties > 0 then Proceed sy ''Provide values for non-required properties'' else return False)
       (\<lambda>go. if go then fold_op (\<lambda>(_, prop) vals. addValueFor sy prop vals) (range_map order properties) vals
            else return vals)))"


section \<open>odo service create\<close>

record 's service_options =
  sr_parameters :: "string list"
  sr_plan :: string
  sr_type :: string
  sr_name :: string
  sr_map :: "string gomap"
  sr_interactive :: bool
  sr_output :: bool
  sr_full_name :: string
  sr_wait :: bool
  sr_context :: "'s cmd_context"

record service_flags =
  sf_parameters :: "string list"
  sf_plan :: string
  sf_wait :: bool

definition validateServiceName :: "'s service_options \<Rightarrow> string \<Rightarrow> ('s, unit) op" where
  "validateServiceName so s =
     bind (lift (ValidateName s)) (\<lambda>_.
     bind (SvcExists (cx_client (sr_context so)) s (cx_application (sr_context so))) (\<lambda>ex.
       if ex then failing ''%s service already exists in the current application'' [sr_name so] else return ()))"

text \<open>The answers of the user; the JSON readers are those of the plans.\<close>

definition interactive_service ::
  "(string \<Rightarrow> error + json_value gomap) \<Rightarrow> (string \<Rightarrow> error + string list \<times> ServicePlanParameter gomap) \<Rightarrow>
   's survey \<Rightarrow> 's service_options \<Rightarrow> ('s, 's service_options) op" where
  "interactive_service parse_meta parse_schema sy so =
     (let c = cx_client (sr_context so) in
      bind (attempt (GetServiceClassesByCategory c)) (\<lambda>r. case r of
        Inl err \<Rightarrow> failing ''unable to retrieve service classes: %v'' [error_text err]
      | Inr classesByCategory \<Rightarrow>
          if length classesByCategory = 0 then failing ''no available service classes'' []
          else
            bind (SelectClassInteractively sy classesByCategory) (\<lambda>(cls, serviceType).
            let so = so\<lparr>sr_type := serviceType\<rparr> in
            bind (attempt (GetMatchingPlans c cls)) (\<lambda>r. case r of
              Inl err \<Rightarrow> failing (''couldn'' @ [CHR 0x27] @ ''t retrieve plans for class %s: %v'') [sc_external_name cls, error_text err]
            | Inr plans \<Rightarrow>
                bind (if length plans = 1 then return (hd plans)
                      else bind (SelectPlanNameInteractively sy plans ''Which service plan should we use '') (\<lambda>plan.
                        return (plan, case lookup plans plan of None \<Rightarrow> no_plan | Some p \<Rightarrow> p))) (\<lambda>(plan, svcPlan).
                let so = so\<lparr>sr_plan := plan\<rparr> in
                bind (enterServicePropertiesInteractively (cl_order c) parse_meta parse_schema sy svcPlan) (\<lambda>vals.
                let so = so\<lparr>sr_map := vals\<rparr> in
                bind (EnterServiceNameInteractively sy (sr_type so) ''How should we name your service '' (validateServiceName so))
                  (\<lambda>name.
                bind (Proceed sy ''Output the non-interactive version of the selected options'') (\<lambda>outputCLI.
                bind (Proceed sy ''Wait for the service to be ready'') (\<lambda>wait.
                  return (so\<lparr>sr_name := name, sr_output := outputCLI, sr_wait := wait\<rparr>))))))))))"

definition ServiceCreateComplete ::
  "'s tools \<Rightarrow> (string \<Rightarrow> error + json_value gomap) \<Rightarrow> (string \<Rightarrow> error + string list \<times> ServicePlanParameter gomap) \<Rightarrow>
   's survey \<Rightarrow> invocation \<Rightarrow> string \<Rightarrow> service_flags \<Rightarrow> bool \<Rightarrow> string list \<Rightarrow> ('s world, 's service_options option) op" where
  "ServiceCreateComplete te parse_meta parse_schema sy iv fullName fl has_flags args =
     (let interactive = (length args = 0 \<or> \<not> has_flags) in
      bind (NewContextCreatingAppIfNeeded te iv) (\<lambda>cx.
      let so = \<lparr>sr_parameters = sf_parameters fl, sr_plan = sf_plan fl, sr_type = [], sr_name = [], sr_map = [],
                sr_interactive = interactive, sr_output = False, sr_full_name = fullName, sr_wait = sf_wait fl,
                sr_context = cx\<rparr> in
      bind (if interactive then on_cluster (interactive_service parse_meta parse_schema sy so)
            else return (so\<lparr>sr_type := args ! 0, sr_name := (if length args = 2 then args ! 1 else args ! 0)\<rparr>))
        (\<lambda>so. return (Some so))))"

text \<open>The plan is the given one, or the only one.\<close>

definition check_plan :: "'s service_options \<Rightarrow> service_plan gomap \<Rightarrow> 's service_options result" where
  "check_plan so plans =
     (if length (sr_plan so) = 0 then
        (if length plans = 1 then Inr (so\<lparr>sr_plan := fst (hd plans)\<rparr>)
         else fails (''no plan was supplied for service %v.'' @ [newline] @ ''Please select one of: %v'' @ [newline])
                [sr_type so, join_with '','' (GetServicePlanNames plans)])
      else if \<not> has_key plans (sr_plan so) then
        fails (''plan %s is invalid for service %v.'' @ [newline] @ ''Please select one of: %v'' @ [newline])
          [sr_plan so, sr_type so, join_with '','' (GetServicePlanNames plans)]
      else Inr so)"

text \<open>\<open>GetClusterServiceClass\<close> never answers nil without an error.\<close>

definition ServiceCreateValidate :: "'s service_options \<Rightarrow> ('s, 's service_options option) op" where
  "ServiceCreateValidate so =
     (if sr_interactive so then return (Some so)
      else let c = cx_client (sr_context so) in
        bind (wrapping ''unable to create service because Service Catalog is not enabled in your cluster'' []
               (GetClusterServiceClass c (sr_type so))) (\<lambda>cls.
        bind (GetMatchingPlans c cls) (\<lambda>plans.
        bind (lift (check_plan so plans)) (\<lambda>so.
        bind (validateServiceName so (sr_name so)) (\<lambda>_. return (Some so))))))"

definition outputNonInteractiveEquivalent :: "'s service_options \<Rightarrow> string" where
  "outputNonInteractiveEquivalent so =
     (if sr_output so then
        trim_space (sr_full_name so @ '' '' @ sr_type so @
          (if sr_name so \<noteq> [] then '' '' @ sr_name so else []) @
          (if sr_plan so \<noteq> [] then '' --plan '' @ sr_plan so else []) @
          concat (map (\<lambda>k. '' -p '' @ k @ ''='' @ the (lookup (sr_map so) k)) (sort (keys_of (sr_map so)))))
      else [])"

text \<open>
  The error of the creation is replaced by that of the wait when there is one. \<open>watch_secret\<close> gets the namespace
  and the name.
\<close>

definition ServiceCreateRun ::
  "(string gomap \<Rightarrow> string result) \<Rightarrow> (string \<Rightarrow> string \<Rightarrow> ('s, secret signal list) op) \<Rightarrow> 's service_options \<Rightarrow>
   ('s, unit option) op" where
  "ServiceCreateRun json watch_secret so =
     bind (attempt (ServiceCreate json (cx_client (sr_context so)) (sr_name so) (sr_type so) (sr_plan so) (sr_map so)
            (cx_application (sr_context so)))) (\<lambda>err.
       if sr_wait so then
         bindW (awaiting (watch_secret (cx_project (sr_context so)) (sr_name so)) (\<lambda>w. WaitAndGetSecret w (sr_name so)))
           (\<lambda>_. finished)
       else (case err of Inl e \<Rightarrow> fault (Err e) | Inr _ \<Rightarrow> finished))"

definition odo_service_create ::
  "'s tools \<Rightarrow> (string \<Rightarrow> error + json_value gomap) \<Rightarrow> (string \<Rightarrow> error + string list \<times> ServicePlanParameter gomap) \<Rightarrow>
   (string gomap \<Rightarrow> string result) \<Rightarrow> (string \<Rightarrow> string \<Rightarrow> ('s, secret signal list) op) \<Rightarrow>
   's survey \<Rightarrow> invocation \<Rightarrow> string \<Rightarrow> service_flags \<Rightarrow> bool \<Rightarrow> string list \<Rightarrow> ('s world, unit option) op" where
  "odo_service_create te parse_meta parse_schema json watch_secret sy iv fullName fl has_flags args =
     GenericRun (ServiceCreateComplete te parse_meta parse_schema sy iv fullName fl has_flags args)
       (\<lambda>so. on_cluster (ServiceCreateValidate so)) (\<lambda>so. on_cluster (ServiceCreateRun json watch_secret so))"


section \<open>odo service delete and list\<close>

definition ServiceDeleteComplete ::
  "'s tools \<Rightarrow> invocation \<Rightarrow> string list \<Rightarrow> ('s world, (string \<times> 's cmd_context) option) op" where
  "ServiceDeleteComplete te iv args = bind (NewContext te iv) (\<lambda>cx.
     if args = [] then fault (Panic ''index out of range'') else return (Some (args ! 0, cx)))"

definition ServiceDeleteValidate :: "string \<times> 's cmd_context \<Rightarrow> ('s, (string \<times> 's cmd_context) option) op" where
  "ServiceDeleteValidate so = (case so of (serviceName, cx) \<Rightarrow>
     bind (attempt (SvcExists (cx_client cx) serviceName (cx_application cx))) (\<lambda>r. case r of
       Inl err \<Rightarrow> failing (''unable to delete service because Service Catalog is not enabled in your cluster:'' @ [newline] @ ''%v'')
         [error_text err]
     | Inr ex \<Rightarrow>
         if \<not> ex then failing (''Service with the name %s does not exist in the current application'' @ [newline]) [serviceName]
         else return (Some so)))"

definition ServiceDeleteRun :: "'s survey \<Rightarrow> bool \<Rightarrow> string \<times> 's cmd_context \<Rightarrow> ('s, unit option) op" where
  "ServiceDeleteRun sy force so = (case so of (serviceName, cx) \<Rightarrow>
     bind (if force then return True
           else Proceed sy (sprintf ''Are you sure you want to delete %v from %v'' [serviceName, cx_application cx])) (\<lambda>go.
       if go then
         bind (attempt (DeleteServiceAndUnlinkComponents (cx_client cx) serviceName (cx_application cx))) (\<lambda>r. case r of
           Inl err \<Rightarrow> failing (''unable to delete service %s:'' @ [newline] @ ''%v'') [serviceName, error_text err]
         | Inr _ \<Rightarrow> finished)
       else finished))"

definition odo_service_delete ::
  "'s tools \<Rightarrow> 's survey \<Rightarrow> invocation \<Rightarrow> bool \<Rightarrow> string list \<Rightarrow> ('s world, unit option) op" where
  "odo_service_delete te sy iv force args = GenericRun (ServiceDeleteComplete te iv args)
     (\<lambda>so. on_cluster (ServiceDeleteValidate so)) (\<lambda>so. on_cluster (ServiceDeleteRun sy force so))"

text \<open>The rows that are printed, of name, type and status.\<close>

definition ServiceListRun :: "'s cmd_context \<Rightarrow> ('s, (string \<times> string \<times> string) list) op" where
  "ServiceListRun cx =
     bind (attempt (ListWithDetailedStatus (cx_client cx) (cx_application cx))) (\<lambda>r. case r of
       Inl err \<Rightarrow> failing ''Service catalog is not enabled within your cluster: %v'' [error_text err]
     | Inr services \<Rightarrow> return (map (\<lambda>comp. (sf_name comp, sf_type comp, sf_status comp)) services))"


section \<open>Properties\<close>

lemma check_plan_ok:
  assumes "check_plan so plans = Inr so'"
  shows "\<exists>plan. has_key plans plan \<and> (if sr_plan so = [] then length plans = 1 else plan = sr_plan so) \<and>
    so' = so\<lparr>sr_plan := plan\<rparr>"
proof (cases "sr_plan so = []")
  case True
  then have "length plans = 1" and so': "so' = so\<lparr>sr_plan := fst (hd plans)\<rparr>"
    using assms by (auto simp: check_plan_def fails_def split: if_splits)
  then have "has_key plans (fst (hd plans))" by (cases plans) (auto simp: has_key_def lookup_Cons)
  with True so' \<open>length plans = 1\<close> show ?thesis by auto
next
  case False
  then show ?thesis using assms by (auto simp: check_plan_def fails_def split: if_splits)
qed

text \<open>C17. \<open>odo service create\<close> with arguments and without waiting: when it succeeds the class is the one of
  that name, the plan is one of its plans, the given one or the only one, the name is valid and no
  service of the application had it; and the instance is created without parameters, whatever
  the \<open>--parameters\<close> flag gives.\<close>

theorem service_created_from_flags:
  assumes "odo_service_create te parse_meta parse_schema json watch_secret sy iv full_name fl True args (d, s)
      = (Inr (Some ()), (d', s'))"
    and "args \<noteq> []" and "\<not> sf_wait fl"
  shows "d' = d \<and> (\<exists>cx cls plans plan s1 s2 s3 s4. NewContextCreatingAppIfNeeded te iv (d, s) = (Inr cx, (d, s1)) \<and>
    GetClusterServiceClass (cx_client cx) (hd args) s1 = (Inr cls, s2) \<and>
    GetMatchingPlans (cx_client cx) cls s2 = (Inr plans, s3) \<and> has_key plans plan \<and>
    (if sf_plan fl = [] then length plans = 1 else plan = sf_plan fl) \<and>
    (let name = (if length args = 2 then args ! 1 else hd args) in
      ValidateName name = Inr () \<and> SvcExists (cx_client cx) name (cx_application cx) s3 = (Inr False, s4) \<and>
      ServiceCreate json (cx_client cx) name (hd args) plan [] (cx_application cx) s4 = (Inr (), s')))"
proof -
  let ?name = "if length args = 2 then args ! 1 else hd args"
  from assms(1) obtain so w1 so' w2 where
    complete: "ServiceCreateComplete te parse_meta parse_schema sy iv full_name fl True args (d, s) = (Inr (Some so), w1)"
    and valid: "on_cluster (ServiceCreateValidate so) w1 = (Inr (Some so'), w2)"
    and run: "on_cluster (ServiceCreateRun json watch_secret so') w2 = (Inr (Some ()), (d', s'))"
    by (auto simp: odo_service_create_def GenericRun_def bindW_ok_iff)
  have first: "args ! 0 = hd args" using assms(2) by (simp add: hd_conv_nth)
  from complete assms(2) obtain cx where cx: "newContext te iv True (d, s) = (Inr cx, w1)"
    and so: "so = \<lparr>sr_parameters = sf_parameters fl, sr_plan = sf_plan fl, sr_type = hd args, sr_name = ?name, sr_map = [],
      sr_interactive = False, sr_output = False, sr_full_name = full_name, sr_wait = sf_wait fl, sr_context = cx\<rparr>"
    by (auto simp: ServiceCreateComplete_def Let_def bind_ok_iff NewContextCreatingAppIfNeeded_def first cong: if_cong)
  from newContext_disk [OF cx] cx obtain s1 where cx: "NewContextCreatingAppIfNeeded te iv (d, s) = (Inr cx, (d, s1))"
    and w1: "w1 = (d, s1)" by (auto simp: NewContextCreatingAppIfNeeded_def)
  from valid w1 obtain s4 where w2: "w2 = (d, s4)" and valid: "ServiceCreateValidate so s1 = (Inr (Some so'), s4)"
    by (auto dest: on_snd_Some)
  from run w2 have d: "d' = d" and run: "ServiceCreateRun json watch_secret so' s4 = (Inr (Some ()), s')"
    by (auto dest: on_snd_Some)
  from valid so obtain cls plans s2 s3 where
    cls: "GetClusterServiceClass (cx_client cx) (hd args) s1 = (Inr cls, s2)"
    and plans: "GetMatchingPlans (cx_client cx) cls s2 = (Inr plans, s3)"
    and check: "check_plan so plans = Inr so'"
    and name: "validateServiceName so' (sr_name so') s3 = (Inr (), s4)"
    by (auto simp: ServiceCreateValidate_def Let_def bind_ok_iff)
  from check_plan_ok [OF check] obtain plan where plan: "has_key plans plan" "if sr_plan so = [] then length plans = 1 else plan = sr_plan so"
    and so': "so' = so\<lparr>sr_plan := plan\<rparr>" by blast
  from run so' so assms(3) obtain r t where "attempt (ServiceCreate json (cx_client cx) ?name (hd args) plan [] (cx_application cx)) s4 = (Inr r, t)"
    and "(case r of Inl e \<Rightarrow> fault (Err e) | Inr _ \<Rightarrow> finished) t = (Inr (Some ()), s')"
    by (auto simp: ServiceCreateRun_def bind_ok_iff)
  then have "ServiceCreate json (cx_client cx) ?name (hd args) plan [] (cx_application cx) s4 = (Inr (), s')"
    by (cases r) (auto simp: attempt_ok_iff fault_def finished_def)
  moreover from name so' so have "ValidateName ?name = Inr () \<and> SvcExists (cx_client cx) ?name (cx_application cx) s3 = (Inr False, s4)"
    by (auto simp: validateServiceName_def bind_ok_iff failing_def fault_def split: if_splits)
  ultimately show ?thesis using d cx cls plans plan so unfolding Let_def by auto
qed

text \<open>With \<open>--wait\<close> an error of the creation is lost: once a secret of the name of the service shows up the command
  reports that the service is ready, and while none does it waits.\<close>

theorem wait_hides_failed_creation:
  assumes "ServiceCreate json (cx_client (sr_context so)) (sr_name so) (sr_type so) (sr_plan so) (sr_map so)
      (cx_application (sr_context so)) s = (Inl (Err e), s1)"
    and "sr_wait so" and "watch_secret (cx_project (sr_context so)) (sr_name so) s1 = (Inr signals, s2)"
  shows "ServiceCreateRun json watch_secret so s = (case wait_secret (sr_name so) signals of
      None \<Rightarrow> (Inr None, s2) | Some (Inr _) \<Rightarrow> (Inr (Some ()), s2) | Some (Inl f) \<Rightarrow> (Inl f, s2))"
proof -
  have "attempt (ServiceCreate json (cx_client (sr_context so)) (sr_name so) (sr_type so) (sr_plan so) (sr_map so)
      (cx_application (sr_context so))) s = (Inr (Inl e), s1)" using assms(1) by (simp add: attempt_ok_iff)
  moreover have "captured (watch_secret (cx_project (sr_context so)) (sr_name so)) s1 = (Inr (Inr signals), s2)"
    using assms(3) by (simp add: captured_def)
  ultimately show ?thesis using assms(2)
    by (auto simp: ServiceCreateRun_def bind_ok bindW_def awaiting_def WaitAndGetSecret_def finished_def op_simps
        split: option.split sum.split)
qed


definition mysql_class :: service_class where
  "mysql_class = no_class\<lparr>sc_name := ''1'', sc_external_name := ''mysql'', sc_external_id := ''1''\<rparr>"

definition mysql_state :: cluster where
  "mysql_state = web_state\<lparr>k_classes := [mysql_class], k_plans := [no_plan\<lparr>pl_external_name := ''dev'', pl_class_ref := ''1''\<rparr>]\<rparr>"

definition given_parameters :: "string gomap \<Rightarrow> string result" where
  "given_parameters m = Inr (if m = [] then ''none'' else ''some'')"

text \<open>The user name given with the flag does not reach the instance.\<close>

theorem service_created_from_flags_witness:
  "\<exists>s'. odo_service_create (shop_tools (NewLocalConfig_meta, web_settings)) (\<lambda>_. Inr []) (\<lambda>_. Inr ([], [])) given_parameters (\<lambda>_ _. return [])
      eager_user (odo_command ''create'' []) ''odo service create'' \<lparr>sf_parameters = [''user=luke''], sf_plan = [], sf_wait = False\<rparr> True
      [''mysql''] (web_disk, mysql_state) = (Inr (Some ()), (web_disk, s'))
    \<and> (\<exists>s (cx :: cluster cmd_context) plan. ServiceCreate given_parameters (cx_client cx) ''mysql'' ''mysql'' plan [] (cx_application cx) s = (Inr (), s'))"
proof -
  let ?run = "odo_service_create (shop_tools (NewLocalConfig_meta, web_settings)) (\<lambda>_. Inr []) (\<lambda>_. Inr ([], [])) given_parameters (\<lambda>_ _. return [])
      eager_user (odo_command ''create'' []) ''odo service create'' \<lparr>sf_parameters = [''user=luke''], sf_plan = [], sf_wait = False\<rparr> True
      [''mysql''] (web_disk, mysql_state)"
  have "fst ?run = Inr (Some ())" by code_simp
  then obtain d' s' where run: "?run = (Inr (Some ()), (d', s'))" by (metis prod.collapse)
  from service_created_from_flags [OF run] run show ?thesis by (auto simp: Let_def)
qed


definition named_options :: "cluster service_options" where
  "named_options = \<lparr>sr_parameters = [], sr_plan = ''dev'', sr_type = ''mysql'', sr_name = ''db'', sr_map = [], sr_interactive = False,
     sr_output = False, sr_full_name = ''odo service create'', sr_wait = True,
     sr_context = \<lparr>cx_client = memory_client ''app'', cx_project = ''app'', cx_application = ''app'', cx_cmp = [], cx_output = []\<rparr>\<rparr>"

text \<open>An instance of that name is there already, and so is its secret.\<close>

theorem wait_hides_failed_creation_witness:
  "\<exists>s. fst (ServiceCreate given_parameters (memory_client ''app'') ''db'' ''mysql'' ''dev'' [] ''app'' s) \<noteq> Inr () \<and>
     fst (ServiceCreateRun given_parameters (\<lambda>_ n. return [Received (Event Added (Some (example_secret n ''3306'')))]) named_options s)
       = Inr (Some ())"
proof -
  let ?s = "empty_cluster\<lparr>k_instances := [\<lparr>si_meta = named_meta ''db'', si_class = ''mysql'', si_plan = ''dev'', si_parameters = [],
     si_conditions = []\<rparr>]\<rparr>"
  let ?watch = "\<lambda>(_ :: string) n. return [Received (Event Added (Some (example_secret n ''3306'')))] :: (cluster, secret signal list) op"
  have "case ServiceCreate given_parameters (memory_client ''app'') ''db'' ''mysql'' ''dev'' [] ''app'' ?s of
      (Inl (Err e), _) \<Rightarrow> True | _ \<Rightarrow> False" by code_simp
  then obtain e s1 where "ServiceCreate given_parameters (memory_client ''app'') ''db'' ''mysql'' ''dev'' [] ''app'' ?s = (Inl (Err e), s1)"
    by (auto split: prod.splits sum.splits fault.splits)
  then have failed: "ServiceCreate given_parameters (cx_client (sr_context named_options)) (sr_name named_options) (sr_type named_options)
      (sr_plan named_options) (sr_map named_options) (cx_application (sr_context named_options)) ?s = (Inl (Err e), s1)"
    by (simp add: named_options_def)
  have "?watch (cx_project (sr_context named_options)) (sr_name named_options) s1 =
      (Inr [Received (Event Added (Some (example_secret ''db'' ''3306'')))], s1)"
    by (simp add: named_options_def return_def)
  from wait_hides_failed_creation [where watch_secret = ?watch, OF failed _ this] failed show ?thesis
    by (intro exI [of _ ?s]) (simp add: named_options_def)
qed

end
