(* ===== verification/LinkCmd.thy ===== *)
theory LinkCmd
  imports EditCmd Services
begin

text \<open>
  The commands that link a component to a service or to another component and unlink it,
  \<open>common_link.go\<close>, \<open>link.go\<close> and \<open>unlink.go\<close> of \<open>pkg/odo/cli/component\<close>, and the one that deletes a
  component, \<open>delete.go\<close>.
\<close>


section \<open>odo link and unlink\<close>

record 's link_options =
  lk_wait :: bool
  lk_port :: string
  lk_secret :: string
  lk_is_service :: bool
  lk_supplied :: string
  lk_operation :: "string \<Rightarrow> string \<Rightarrow> string \<Rightarrow> ('s, unit) op"
  lk_operation_name :: string
  lk_context :: "'s cmd_context"

text \<open>
  What the name stands for: a service, when one has it, else a component. That the services
  cannot be listed is taken for there being none.
\<close>

definition link_target :: "'s client \<Rightarrow> string \<Rightarrow> string \<Rightarrow> string \<Rightarrow> string \<Rightarrow> ('s, bool \<times> string) op" where
  "link_target c app port operationName suppliedName =
     bind (attempt (SvcExists c suppliedName app)) (\<lambda>svcExists.
     let svcExists = (case svcExists of Inl _ \<Rightarrow> False | Inr b \<Rightarrow> b) in
     bind (attempt (ComponentExists c suppliedName app)) (\<lambda>r. case r of
       Inl err \<Rightarrow> failing (''Unable to determine if component exists:'' @ [newline] @ ''%v'') [error_text err]
     | Inr cmpExists \<Rightarrow>
         if \<not> cmpExists \<and> \<not> svcExists then
           failing (''Neither a service nor a component named %s could be located. Please create one of the two before attempting to use '' @
             [CHR 0x27] @ ''odo %s'' @ [CHR 0x27]) [suppliedName, operationName]
         else if svcExists then return (True, suppliedName)
         else bind (DetermineSecretName c suppliedName app port) (\<lambda>secretName. return (False, secretName))))"

definition link_complete ::
  "'s tools \<Rightarrow> invocation \<Rightarrow> string \<Rightarrow> string \<Rightarrow> bool \<Rightarrow> string list \<Rightarrow>
   ('s client \<Rightarrow> string \<Rightarrow> string \<Rightarrow> string \<Rightarrow> ('s, unit) op) \<Rightarrow> ('s world, 's link_options option) op" where
  "link_complete te iv name port wait args operation =
     (if args = [] then fault (Panic ''index out of range'')
      else let suppliedName = args ! 0 in
        bind (NewContextCreatingAppIfNeeded te iv) (\<lambda>cx.
        bind (on_cluster (link_target (cx_client cx) (cx_application cx) port name suppliedName)) (\<lambda>(is_service, secretName).
          return (Some \<lparr>lk_wait = wait, lk_port = port, lk_secret = secretName, lk_is_service = is_service,
            lk_supplied = suppliedName, lk_operation = operation (cx_client cx), lk_operation_name = name, lk_context = cx\<rparr>))))"

text \<open>\<open>watch_secret\<close> gets the namespace and the name.\<close>

definition link_validate ::
  "(string \<Rightarrow> string \<Rightarrow> ('s, secret signal list) op) \<Rightarrow> bool \<Rightarrow> 's link_options \<Rightarrow> ('s, unit option) op" where
  "link_validate watch_secret wait lk =
     (let c = cx_client (lk_context lk); project = cx_project (lk_context lk); secretName = lk_secret lk in
      if lk_is_service lk then
        bind (attempt (GetServiceBinding c secretName project)) (\<lambda>r. case r of
          Inl _ \<Rightarrow> failing (''The service was not created via odo. Please delete the service and recreate it using '' @ [CHR 0x27] @
            ''odo service create %s'' @ [CHR 0x27]) [secretName]
        | Inr _ \<Rightarrow>
            if wait then bindW (awaiting (watch_secret project secretName) (\<lambda>w. WaitAndGetSecret w secretName)) (\<lambda>_. finished)
            else bind (attempt (GetSecret c secretName project)) (\<lambda>r. case r of
              Inl _ \<Rightarrow> failing (''The service %s created by '' @ [CHR 0x27] @ ''odo service create'' @ [CHR 0x27] @
                '' is being provisioned. You may have to wait a few seconds until OpenShift fully provisions it before executing '' @
                [CHR 0x27] @ ''odo %s'' @ [CHR 0x27] @ ''.'') [secretName, lk_operation_name lk]
            | Inr _ \<Rightarrow> finished))
      else finished)"

text \<open>The redeployment first makes the pod pending, then running.\<close>

definition waitForLinkToComplete :: "'s outside \<Rightarrow> string \<Rightarrow> string \<Rightarrow> ('s, unit option) op" where
  "waitForLinkToComplete io cmp app =
     (let labels = ComponentGetLabels cmp app True in
      bind (lift (NamespaceOpenShiftObject (get_str labels ComponentLabel) (get_str labels ''app''))) (\<lambda>selectorLabels.
      let podSelector = ''deploymentconfig='' @ selectorLabels in
      bindW (awaiting (io_pod_watch io podSelector) (\<lambda>w. WaitAndGetPod w podSelector ''Pending'')) (\<lambda>_.
      bindW (awaiting (io_pod_watch io podSelector) (\<lambda>w. WaitAndGetPod w podSelector ''Running'')) (\<lambda>_. finished))))"

definition link_run :: "'s tools \<Rightarrow> 's link_options \<Rightarrow> ('s, unit option) op" where
  "link_run te lk =
     bind (ContextComponent (lk_context lk) []) (\<lambda>(cmp, cx).
     bind (lk_operation lk (lk_secret lk) cmp (cx_application cx)) (\<lambda>_.
       if lk_wait lk then waitForLinkToComplete (to_outside te (cl_namespace (cx_client cx))) cmp (cx_application cx)
       else finished))"

definition LinkValidate ::
  "(string \<Rightarrow> string \<Rightarrow> ('s, secret signal list) op) \<Rightarrow> bool \<Rightarrow> 's link_options \<Rightarrow> ('s, 's link_options option) op" where
  "LinkValidate watch_secret waitForTarget lk =
     bindW (link_validate watch_secret waitForTarget lk) (\<lambda>_.
     bind (ContextComponent (lk_context lk) []) (\<lambda>(cmp, cx).
     bind (GetComponentLinkedSecretNames (cx_client cx) cmp (cx_application cx)) (\<lambda>alreadyLinkedSecretNames.
       if list_ex (\<lambda>n. n = lk_secret lk) alreadyLinkedSecretNames then
         failing ''Component %s has previously been linked to %s %s''
           [cmp, if lk_is_service lk then ''service'' else ''component'', lk_supplied lk]
       else return (Some lk))))"

definition odo_link ::
  "'s tools \<Rightarrow> (string \<Rightarrow> string \<Rightarrow> ('s, secret signal list) op) \<Rightarrow> invocation \<Rightarrow> string \<Rightarrow> bool \<Rightarrow> bool \<Rightarrow>
   string list \<Rightarrow> ('s world, unit option) op" where
  "odo_link te watch_secret iv port wait waitForTarget args = GenericRun (link_complete te iv ''link'' port wait args LinkSecret)
     (\<lambda>lk. on_cluster (LinkValidate watch_secret waitForTarget lk)) (\<lambda>lk. on_cluster (link_run te lk))"

definition UnlinkValidate ::
  "(string \<Rightarrow> string \<Rightarrow> ('s, secret signal list) op) \<Rightarrow> 's link_options \<Rightarrow> ('s, 's link_options option) op" where
  "UnlinkValidate watch_secret lk = bindW (link_validate watch_secret False lk) (\<lambda>_. return (Some lk))"

definition odo_unlink ::
  "'s tools \<Rightarrow> (string \<Rightarrow> string \<Rightarrow> ('s, secret signal list) op) \<Rightarrow> invocation \<Rightarrow> string \<Rightarrow> bool \<Rightarrow> string list \<Rightarrow>
   ('s world, unit option) op" where
  "odo_unlink te watch_secret iv port wait args = GenericRun (link_complete te iv ''unlink'' port wait args UnlinkSecret)
     (\<lambda>lk. on_cluster (UnlinkValidate watch_secret lk)) (\<lambda>lk. on_cluster (link_run te lk))"


section \<open>odo delete\<close>

record delete_flags =
  df_force :: bool
  df_all :: bool
  df_context :: string

definition DeleteValidate :: "string \<times> 's cmd_context \<Rightarrow> ('s, (string \<times> 's cmd_context) option) op" where
  "DeleteValidate opts = (case opts of (componentName, cx) \<Rightarrow>
     if cx_project cx = [] \<or> cx_application cx = [] then lift ThrowContextError
     else bind (ComponentExists (cx_client cx) componentName (cx_application cx)) (\<lambda>isExists.
       if \<not> isExists then failing ''failed to delete component %s as it doesn't exist'' [componentName]
       else return (Some opts)))"

text \<open>What is printed of the component: its URLs and its storages.\<close>

definition printDeleteComponentInfo :: "'s client \<Rightarrow> string \<Rightarrow> string \<Rightarrow> string \<Rightarrow> ('s, Url list \<times> Storage list) op" where
  "printDeleteComponentInfo c componentName appName projectName =
     bind (wrapping ''unable to get component description'' [] (GetComponent c componentName appName projectName)) (\<lambda>componentDesc.
     bind (if length (co_url componentDesc) \<noteq> 0 then
             bind (wrapping ''Could not get url list'' [] (UrlListAll c (co_name componentDesc) appName)) (\<lambda>ul. return (ul_items ul))
           else return []) (\<lambda>urls.
     bind (or_exit (StorageListAll c (co_name componentDesc) appName)) (\<lambda>storages.
       return (urls, if length (sl_items storages) \<noteq> 0 then map (storage_get (sl_items storages)) (co_storage componentDesc) else []))))"

definition DeleteRun ::
  "'s tools \<Rightarrow> 's survey \<Rightarrow> delete_flags \<Rightarrow> string \<times> 's cmd_context \<Rightarrow> ('s world, unit option) op" where
  "DeleteRun te sy fl opts = (case opts of (componentName, cx) \<Rightarrow>
     bind (on_cluster (printDeleteComponentInfo (cx_client cx) componentName (cx_application cx) (cx_project cx))) (\<lambda>_.
     bind (if df_force fl then return True
           else on_cluster (Proceed sy (sprintf ''Are you sure you want to delete %v from %v?'' [componentName, cx_application cx]))) (\<lambda>go.
     if \<not> go then failing ''Aborting deletion of component: %v'' [componentName]
     else
       bind (on_cluster (ComponentDelete (cx_client cx) componentName (cx_application cx))) (\<lambda>_.
         if \<not> df_all fl then finished
         else
           bind (if df_force fl then return True
                 else on_cluster (Proceed sy (sprintf ''Are you sure you want to delete local config for %v?'' [componentName]))) (\<lambda>go.
             if \<not> go then failing ''Aborting deletion of config for component: %s'' [componentName]
             else bind (load_config te (df_context fl)) (\<lambda>cfg.
               bind (on_config cfg DeleteConfigDir) (\<lambda>_. finished)))))))"

definition odo_delete ::
  "'s tools \<Rightarrow> 's survey \<Rightarrow> invocation \<Rightarrow> delete_flags \<Rightarrow> string list \<Rightarrow> ('s world, unit option) op" where
  "odo_delete te sy iv fl args = GenericRun (bind (component_options te iv args) (\<lambda>opts. return (Some opts)))
     (\<lambda>opts. on_cluster (DeleteValidate opts)) (DeleteRun te sy fl)"


section \<open>Properties\<close>

lemma link_complete_ok:
  assumes "link_complete te iv n port wait args operation (d, s) = (Inr (Some lk), w)"
  obtains cx s1 s2 where "w = (d, s2)" "NewContextCreatingAppIfNeeded te iv (d, s) = (Inr cx, (d, s1))" "args \<noteq> []"
    "link_target (cx_client cx) (cx_application cx) port n (hd args) s1 = (Inr (lk_is_service lk, lk_secret lk), s2)"
    "lk_context lk = cx" "lk_operation lk = operation (cx_client cx)" "lk_wait lk = wait"
proof -
  from assms obtain cx w1 is_service secret where args: "args \<noteq> []" and cx: "newContext te iv True (d, s) = (Inr cx, w1)"
    and target: "on_cluster (link_target (cx_client cx) (cx_application cx) port n (args ! 0)) w1 = (Inr (is_service, secret), w)"
    and lk: "lk = \<lparr>lk_wait = wait, lk_port = port, lk_secret = secret, lk_is_service = is_service, lk_supplied = args ! 0,
      lk_operation = operation (cx_client cx), lk_operation_name = n, lk_context = cx\<rparr>"
    by (auto simp: link_complete_def Let_def bind_ok_iff NewContextCreatingAppIfNeeded_def fault_def split: if_splits)
  from newContext_disk [OF cx] obtain s1 where w1: "w1 = (d, s1)" by blast
  with target obtain s2 where "w = (d, s2)" "link_target (cx_client cx) (cx_application cx) port n (args ! 0) s1 = (Inr (is_service, secret), s2)"
    by (auto dest: on_snd_Some)
  with that [of s2 cx s1] args cx w1 lk show thesis by (simp add: NewContextCreatingAppIfNeeded_def hd_conv_nth)
qed

lemma ContextComponent_current: "ContextComponent cx [] s = (Inr (cmp, cx'), t) \<longleftrightarrow> cx_cmp cx \<noteq> [] \<and> cmp = cx_cmp cx \<and> cx' = cx \<and> t = s"
  by (auto simp: ContextComponent_def ComponentAllowingEmpty_def fault_def)

lemma link_validate_ok:
  assumes "link_validate watch_secret False lk s = (Inr (Some ()), t)"
  shows "lk_is_service lk \<longrightarrow> (\<exists>b secret s1. GetServiceBinding (cx_client (lk_context lk)) (lk_secret lk) (cx_project (lk_context lk)) s = (Inr b, s1)
    \<and> GetSecret (cx_client (lk_context lk)) (lk_secret lk) (cx_project (lk_context lk)) s1 = (Inr secret, t))"
  and "\<not> lk_is_service lk \<longrightarrow> t = s"
proof -
  show "\<not> lk_is_service lk \<longrightarrow> t = s" using assms by (auto simp: link_validate_def Let_def finished_def)
  show "lk_is_service lk \<longrightarrow> (\<exists>b secret s1. GetServiceBinding (cx_client (lk_context lk)) (lk_secret lk) (cx_project (lk_context lk)) s = (Inr b, s1)
    \<and> GetSecret (cx_client (lk_context lk)) (lk_secret lk) (cx_project (lk_context lk)) s1 = (Inr secret, t))"
    using assms by (auto simp: link_validate_def Let_def bind_ok_iff case_sum_fail attempt_ok_iff finished_def)
qed


text \<open>\<open>odo delete --all\<close> removes the configuration directory of the context whichever component it is told
  to delete: after the component of the given name is deleted from the cluster nothing is left of
  that directory, though it may describe another component.\<close>

theorem delete_all_takes_directory:
  assumes "odo_delete te sy iv fl args (d, s) = (Inr (Some ()), (d', s'))" and "df_force fl" "df_all fl"
  shows "\<exists>cx cmp cfg s1. component_options te iv args (d, s) = (Inr (cmp, cx), (d, s1)) \<and>
    (\<exists>t. ComponentDelete (cx_client cx) cmp (cx_application cx) t = (Inr (), s')) \<and>
    load_config te (df_context fl) (d, s') = (Inr cfg, (d, s')) \<and>
    (\<forall>p\<in>fst ` set (dk_files d'). path_dir (lci_filename cfg) \<notin> set (dirs_above p))"
proof -
  from assms(1) obtain cmp cx w1 opts w2 where options: "component_options te iv args (d, s) = (Inr (cmp, cx), w1)"
    and valid: "on_cluster (DeleteValidate (cmp, cx)) w1 = (Inr (Some opts), w2)"
    and run: "DeleteRun te sy fl opts w2 = (Inr (Some ()), (d', s'))"
    by (auto simp: odo_delete_def GenericRun_def bindW_ok_iff bind_ok_iff)
  from options obtain s1 where w1: "w1 = (d, s1)"
    by (auto simp: component_options_def NewContext_def bind_ok_iff dest!: newContext_disk on_snd_Some)
  from valid w1 obtain s2 where w2: "w2 = (d, s2)" and "DeleteValidate (cmp, cx) s1 = (Inr (Some opts), s2)"
    by (auto dest: on_snd_Some)
  then have opts: "opts = (cmp, cx)"
    by (auto simp: DeleteValidate_def ThrowContextError_def bind_ok_iff failing_def fault_def fails_def split: if_splits)
  from run w2 opts assms(2,3) obtain t cfg where delete: "ComponentDelete (cx_client cx) cmp (cx_application cx) t = (Inr (), s')"
    and load: "load_config te (df_context fl) (d, s') = (Inr cfg, (d, s'))"
    and dir: "\<exists>lci'. DeleteConfigDir (cfg, d) = (Inr (), (lci', d'))"
    by (auto simp: DeleteRun_def bind_ok_iff load_config_ok_iff on_config_ok_iff finished_def dest!: on_snd_Some)
  from dir have "\<forall>p\<in>fst ` set (dk_files d'). path_dir (lci_filename cfg) \<notin> set (dirs_above p)"
    by (auto simp: DeleteConfigDir_def bind_ok_iff lci_state_apply on_snd_ok_iff remove_all_def fails_def split: if_splits)
  with options w1 delete load show ?thesis by blast
qed


text \<open>A service \<open>db\<close> beside the component \<open>web\<close>, and a patch that is accepted.\<close>

definition db_state :: cluster where
  "db_state = web_state\<lparr>
     k_instances := [\<lparr>si_meta = (named_meta ''db'')\<lparr>om_labels := ComponentGetLabels ''db'' ''app'' True\<rparr>, si_class = ''mysql'', si_plan = ''dev'',
       si_parameters = [], si_conditions = []\<rparr>],
     k_bindings := [\<lparr>sb_meta = named_meta ''db'', sb_instance = ''db'', sb_secret = ''db''\<rparr>],
     k_secrets := [\<lparr>sec_meta = named_meta ''db'', sec_type = ''Opaque'', sec_string_data = []\<rparr>]\<rparr>"

definition link_tools :: "cluster tools" where
  "link_tools = (shop_tools (NewLocalConfig_meta, web_settings))\<lparr>to_connect := (\<lambda>ns. stream_client\<lparr>cl_namespace := ns,
     cl_patch_dc := (\<lambda>_ _ _. return web_dc)\<rparr>)\<rparr>"


definition other_tools :: "cluster tools" where
  "other_tools = shop_tools (NewLocalConfig_meta, web_settings\<lparr>cs_name := Some ''cart''\<rparr>)"

text \<open>The directory is that of the component \<open>cart\<close>; deleted is the component \<open>web\<close>.\<close>

theorem delete_all_takes_directory_witness:
  "\<exists>d' s' cfg. odo_delete other_tools eager_user (odo_command ''delete'' []) \<lparr>df_force = True, df_all = True, df_context = []\<rparr> [''web'']
      (web_disk, web_state) = (Inr (Some ()), (d', s')) \<and> load_config other_tools [] (web_disk, s') = (Inr cfg, (web_disk, s'))
    \<and> LocalGetName cfg = ''cart'' \<and> (\<forall>e\<in>set (dk_files d'). path_dir (lci_filename cfg) \<notin> set (dirs_above (fst e)))"
proof -
  let ?run = "odo_delete other_tools eager_user (odo_command ''delete'' []) \<lparr>df_force = True, df_all = True, df_context = []\<rparr> [''web'']
      (web_disk, web_state)"
  have "fst ?run = Inr (Some ())" by code_simp
  then obtain d' s' where run: "?run = (Inr (Some ()), (d', s'))" by (metis prod.collapse)
  have name: "case NewLocalConfigInfo (to_yaml other_tools) (to_env other_tools) (to_cwd other_tools) [] web_disk of
      (Inr cfg, _) \<Rightarrow> LocalGetName cfg = ''cart'' | _ \<Rightarrow> False" by code_simp
  from delete_all_takes_directory [OF run] obtain cfg where cfg: "load_config other_tools [] (web_disk, s') = (Inr cfg, (web_disk, s'))"
    and gone: "\<forall>p\<in>fst ` set (dk_files d'). path_dir (lci_filename cfg) \<notin> set (dirs_above p)" by auto
  from cfg name have "LocalGetName cfg = ''cart''" by (simp add: load_config_ok_iff config_in_def)
  with run cfg gone show ?thesis by blast
qed

end
