(* ===== verification/ProjectCmd.thy ===== *)
theory ProjectCmd
  imports EditCmd Services
begin

text \<open>
  The commands on projects and applications, \<open>pkg/odo/cli/project\<close> and \<open>pkg/odo/cli/application\<close>,
  and the description of a component they print (\<open>pkg/odo/util/cmdutils.go\<close>). What a command
  prints is its result: a list of lines, each a list of words.
\<close>

type_synonym printed = "string list list"


section \<open>Projects\<close>

text \<open>How the kube configuration is read and written, and the watch on the projects.\<close>

record 's project_access =
  pa_raw :: "('s, kube_config) op"
  pa_modify :: "kube_config \<Rightarrow> ('s, unit) op"
  pa_watch :: "('s, project signal list) op"

record 's project_options =
  pr_name :: string
  pr_flag :: bool
  pr_context :: "'s cmd_context"

definition ProjectComplete :: "'s tools \<Rightarrow> invocation \<Rightarrow> bool \<Rightarrow> string list \<Rightarrow> ('s world, 's project_options option) op" where
  "ProjectComplete te iv flag args =
     bind (lift (arg args 0)) (\<lambda>projectName.
     bind (NewContext te iv) (\<lambda>cx. return (Some \<lparr>pr_name = projectName, pr_flag = flag, pr_context = cx\<rparr>)))"

definition ProjectSetComplete :: "'s tools \<Rightarrow> invocation \<Rightarrow> bool \<Rightarrow> string list \<Rightarrow> ('s world, 's project_options option) op" where
  "ProjectSetComplete te iv flag args =
     bind (NewContext te iv) (\<lambda>cx.
     bind (lift (arg args 0)) (\<lambda>projectName. return (Some \<lparr>pr_name = projectName, pr_flag = flag, pr_context = cx\<rparr>)))"

definition ProjectSetValidate :: "'s project_options \<Rightarrow> ('s, 's project_options option) op" where
  "ProjectSetValidate po =
     bind (attempt (ProjectExists (cx_client (pr_context po)) (pr_name po))) (\<lambda>r.
       if (case r of Inl _ \<Rightarrow> False | Inr ex \<Rightarrow> ex) then return (Some po)
       else failing ''The project %s does not exist'' [pr_name po])"

definition ProjectSetRun :: "'s project_access \<Rightarrow> 's project_options \<Rightarrow> ('s, printed option) op" where
  "ProjectSetRun pa po =
     (let current = cx_project (pr_context po) in
      bind (ProjectSetCurrent (pa_raw pa) (pa_modify pa) (cx_client (pr_context po)) (pr_name po)) (\<lambda>_.
        return (Some (
          if pr_flag po then [[pr_name po]]
          else if current = pr_name po then [[''Already on project : '' @ pr_name po]]
          else [[''Switched to project : '' @ pr_name po]]))))"

definition odo_project_set ::
  "'s tools \<Rightarrow> 's project_access \<Rightarrow> invocation \<Rightarrow> bool \<Rightarrow> string list \<Rightarrow> ('s world, printed option) op" where
  "odo_project_set te pa iv short args = GenericRun (ProjectSetComplete te iv short args)
     (\<lambda>po. on_cluster (ProjectSetValidate po)) (\<lambda>po. on_cluster (ProjectSetRun pa po))"

definition ProjectCreateRun :: "'s tools \<Rightarrow> 's project_access \<Rightarrow> 's project_options \<Rightarrow> ('s, printed option) op" where
  "ProjectCreateRun te pa po =
     bindW (ProjectCreate (to_project_watch te) (to_project_create te) (pr_name po) (pr_flag po)) (\<lambda>_.
     bind (ProjectSetCurrent (pa_raw pa) (pa_modify pa) (cx_client (pr_context po)) (pr_name po)) (\<lambda>_.
       return (Some (
         (if pr_flag po then [[''Project '' @ [CHR 0x27] @ pr_name po @ [CHR 0x27] @ '' is ready for use'']] else [])
         @ [[''New project created and now using project : '' @ pr_name po]]))))"

definition odo_project_create ::
  "'s tools \<Rightarrow> 's project_access \<Rightarrow> invocation \<Rightarrow> bool \<Rightarrow> string list \<Rightarrow> ('s world, printed option) op" where
  "odo_project_create te pa iv wait args = GenericRun (ProjectComplete te iv wait args)
     (\<lambda>po. return (Some po)) (\<lambda>po. on_cluster (ProjectCreateRun te pa po))"

definition ProjectListRun :: "(Project list \<Rightarrow> string result) \<Rightarrow> 's cmd_context \<Rightarrow> ('s, printed option) op" where
  "ProjectListRun json cx =
     bind (DescribeProjects (cx_client cx)) (\<lambda>projects.
       if cx_output cx = ''json'' then bind (lift (json projects)) (\<lambda>out. return (Some [[out]]))
       else if length projects = 0 then
         failing ''You are not a member of any projects. You can request a project to be created using the `odo project create <project_name>` command'' []
       else return (Some ([''ACTIVE'', ''NAME''] #
         map (\<lambda>p. [if pj_active p then ''*'' else '' '', pj_name p]) projects)))"

definition odo_project_list ::
  "'s tools \<Rightarrow> (Project list \<Rightarrow> string result) \<Rightarrow> invocation \<Rightarrow> ('s world, printed option) op" where
  "odo_project_list te json iv = GenericRun (bind (NewContext te iv) (\<lambda>cx. return (Some cx)))
     (\<lambda>cx. return (Some cx)) (\<lambda>cx. on_cluster (ProjectListRun json cx))"

definition ProjectGetRun :: "bool \<Rightarrow> 's cmd_context \<Rightarrow> printed" where
  "ProjectGetRun short cx =
     (if short then [[cx_project cx]] else [[''The current project is: '' @ cx_project cx]])"

definition odo_project_get :: "'s tools \<Rightarrow> invocation \<Rightarrow> bool \<Rightarrow> ('s world, printed option) op" where
  "odo_project_get te iv short = GenericRun (bind (NewContext te iv) (\<lambda>cx. return (Some cx)))
     (\<lambda>cx. return (Some cx)) (\<lambda>cx. return (Some (ProjectGetRun short cx)))"


section \<open>What a deletion takes with it\<close>

definition url_line :: "Url \<Rightarrow> string list" where
  "url_line u = [''URL named'', ur_name u, ''with host'', ur_host u, ''having protocol'', ur_protocol u, ''at port'', show_int (ur_port u)]"

definition url_lines :: "'s client \<Rightarrow> string \<Rightarrow> Component \<Rightarrow> ('s, printed) op" where
  "url_lines c app componentDesc =
     (if length (co_url componentDesc) \<noteq> 0 then
        bind (wrapping ''Could not get url list'' [] (UrlListAll c (co_name componentDesc) app)) (\<lambda>ul.
          return ([''This component has following urls that will be deleted with component''] # map url_line (ul_items ul)))
      else return [])"

text \<open>That the services cannot be listed is only told.\<close>

definition service_lines :: "'s client \<Rightarrow> string \<Rightarrow> ('s, printed) op" where
  "service_lines c app = bind (attempt (ServiceList c app)) (\<lambda>r. case r of
       Inl err \<Rightarrow> return [[''No services / could not get services'']]
     | Inr serviceList \<Rightarrow> return (if length serviceList \<noteq> 0 then
         [''This application has following service that will be deleted''] #
           map (\<lambda>ser. [''service named'', sf_name ser, ''of type'', sf_type ser]) serviceList
       else []))"

definition project_component_lines ::
  "'s client \<Rightarrow> LocalConfigInfo \<Rightarrow> string \<Rightarrow> string \<Rightarrow> Component \<Rightarrow> ('s, printed) op" where
  "project_component_lines c localConfig app projectName currentComponent =
     bind (wrapping ''unable to get component description'' [] (GetComponent c (co_name currentComponent) app projectName)) (\<lambda>componentDesc.
     bind (url_lines c app componentDesc) (\<lambda>urls.
     let storages = LocalStorageList localConfig in
     return ([''component named'', co_name componentDesc] # urls
       @ (if length storages \<noteq> 0 then
            [''This component has following storages which will be deleted with the component''] #
              map (\<lambda>store. [''Storage named'', css_name store, ''of size'', css_size store]) storages
          else []))))"

definition project_application_lines :: "'s client \<Rightarrow> LocalConfigInfo \<Rightarrow> string \<Rightarrow> string \<Rightarrow> ('s, printed) op" where
  "project_application_lines c localConfig projectName app =
     bind (wrapping ''failed to get Component list'' [] (ListComponents c app)) (\<lambda>componentList.
     bind (fold_op (\<lambda>currentComponent out.
            bind (project_component_lines c localConfig app projectName currentComponent) (\<lambda>ls. return (out @ ls)))
          (cl_items componentList) []) (\<lambda>components.
     bind (service_lines c app) (\<lambda>services.
       return ([''Application'', app]
         # (if length (cl_items componentList) \<noteq> 0
            then [''This application has following components that will be deleted''] # components else [])
         @ services))))"

definition printDeleteProjectInfo :: "'s tools \<Rightarrow> 's client \<Rightarrow> string \<Rightarrow> ('s world, printed) op" where
  "printDeleteProjectInfo te c projectName =
     bind (wrapping ''unable to get the local config'' [] (load_config te [])) (\<lambda>localConfig.
     bind (wrapping ''failed to get application list'' [] (on_cluster (AppList c))) (\<lambda>applicationList.
     bind (on_cluster (fold_op (\<lambda>app out.
            bind (project_application_lines c localConfig projectName app) (\<lambda>ls. return (out @ ls)))
          applicationList [])) (\<lambda>applications.
       return (if length applicationList \<noteq> 0
         then [''This project contains the following applications, which will be deleted''] # applications else []))))"

definition ProjectDeleteValidate :: "'s project_options \<Rightarrow> ('s, 's project_options option) op" where
  "ProjectDeleteValidate po =
     bind (attempt (ProjectExists (cx_client (pr_context po)) (pr_name po))) (\<lambda>r.
       if (case r of Inl _ \<Rightarrow> False | Inr isValidProject \<Rightarrow> isValidProject) then return (Some po)
       else failing ''The project %s does not exist. Please check the list of projects using `odo project list`'' [pr_name po])"

definition ProjectDeleteRun ::
  "'s tools \<Rightarrow> 's project_access \<Rightarrow> 's survey \<Rightarrow> 's project_options \<Rightarrow> ('s world, printed option) op" where
  "ProjectDeleteRun te pa sy po =
     bind (on_cluster (ProjectSetCurrent (pa_raw pa) (pa_modify pa) (cx_client (pr_context po)) (pr_name po))) (\<lambda>c.
     bind (printDeleteProjectInfo te c (pr_name po)) (\<lambda>out.
     bind (if pr_flag po then return True
           else on_cluster (Proceed sy (sprintf ''Are you sure you want to delete project %v'' [pr_name po]))) (\<lambda>go.
     if go then
       bindW (on_cluster (ProjectDelete c (pa_watch pa) (pr_name po))) (\<lambda>_.
         return (Some (out @ [[''Deleted project : '' @ pr_name po]])))
     else failing ''Aborting deletion of project: %v'' [pr_name po])))"

definition odo_project_delete ::
  "'s tools \<Rightarrow> 's project_access \<Rightarrow> 's survey \<Rightarrow> invocation \<Rightarrow> bool \<Rightarrow> string list \<Rightarrow> ('s world, printed option) op" where
  "odo_project_delete te pa sy iv force args = GenericRun (ProjectComplete te iv force args)
     (\<lambda>po. on_cluster (ProjectDeleteValidate po)) (ProjectDeleteRun te pa sy)"


section \<open>The description of a component\<close>

text \<open>The storage is that of the configuration in the current directory, whatever component is described.\<close>

definition PrintComponentInfo ::
  "'s tools \<Rightarrow> 's client \<Rightarrow> string \<Rightarrow> Component \<Rightarrow> string \<Rightarrow> ('s world, printed) op" where
  "PrintComponentInfo te c currentComponentName componentDesc applicationName =
     bind (or_exit (load_config te [])) (\<lambda>localConfig.
     bind (if co_url componentDesc \<noteq> [] then
             bind (or_exit (on_cluster (UrlListAll c currentComponentName applicationName))) (\<lambda>urls.
               return ([''URLs''] # map (\<lambda>componentURL. let url = url_get (ul_items urls) componentURL in
                 ['' - '' @ GetURLString (ur_protocol url) (ur_host url) @ '' exposed via '' @ show_int (ur_port url)])
                   (co_url componentDesc)))
           else return []) (\<lambda>urls.
       return ([[''Component Name: '' @ currentComponentName], [''Type: '' @ co_type componentDesc]]
         @ (if co_source componentDesc \<noteq> [] then [[''Source: '' @ co_source componentDesc]] else [])
         @ (if co_env componentDesc \<noteq> [] then [''Environment variables:''] #
              map (\<lambda>env. ['' - '' @ ev_name env @ ''='' @ ev_value env]) (co_env componentDesc) else [])
         @ (if length (co_storage componentDesc) > 0 then [''Storage:''] #
              map (\<lambda>store. ['' - '' @ css_name store @ '' of size '' @ css_size store @ '' mounted to '' @ css_path store])
                (LocalStorageList localConfig) else [])
         @ urls
         @ (if length (co_linked_services componentDesc) > 0
            then [[''Linked Services: '' @ join_with '','' (co_linked_services componentDesc)]] else [])
         @ (if length (co_linked_components componentDesc) > 0 then [''Linked Components''] #
              concat (map (\<lambda>name. let ports = (case lookup (co_linked_components componentDesc) name of None \<Rightarrow> [] | Some ps \<Rightarrow> ps) in
                  if length ports > 0 then [[''Name: '' @ name @ '' - Port(s): '' @ join_with '','' ports]] else [])
                (cl_order c (map fst (co_linked_components componentDesc)))) else []))))"


section \<open>Applications\<close>

record App =
  ap_type :: type_meta
  ap_name :: string
  ap_namespace :: string
  ap_components :: "string list"
  ap_active :: bool

text \<open>That the components cannot be listed is not looked at.\<close>

definition AppMachineReadable :: "'s client \<Rightarrow> string \<Rightarrow> string \<Rightarrow> ('s, App) op" where
  "AppMachineReadable c appName projectName =
     bind (attempt (ListComponents c appName)) (\<lambda>r.
       return \<lparr>ap_type = \<lparr>tm_kind = ''app'', tm_api_version = ''odo.openshift.io/v1alpha1''\<rparr>,
         ap_name = appName, ap_namespace = projectName,
         ap_components = (case r of Inl _ \<Rightarrow> [] | Inr componentList \<Rightarrow> map co_name (cl_items componentList)),
         ap_active = False\<rparr>)"

definition AppMachineReadableForList :: "App list \<Rightarrow> type_meta \<times> App list" where
  "AppMachineReadableForList apps = (\<lparr>tm_kind = ''List'', tm_api_version = ''odo.openshift.io/v1alpha1''\<rparr>, apps)"

record 's app_options =
  aq_name :: string
  aq_force :: bool
  aq_output :: string
  aq_context :: "'s cmd_context"

definition AppComplete ::
  "'s tools \<Rightarrow> invocation \<Rightarrow> bool \<Rightarrow> string \<Rightarrow> string list \<Rightarrow> ('s world, 's app_options option) op" where
  "AppComplete te iv force outputFormat args =
     bind (NewContext te iv) (\<lambda>cx.
       return (Some \<lparr>aq_name = (if length args = 1 then args ! 0 else cx_application cx), aq_force = force,
         aq_output = outputFormat, aq_context = cx\<rparr>))"

definition AppDescribeValidate :: "'s app_options \<Rightarrow> unit result" where
  "AppDescribeValidate ao =
     (if cx_project (aq_context ao) = [] \<or> aq_name ao = [] then ThrowContextError
      else bindR (checkOutputFlag (aq_output ao)) (\<lambda>_.
        if aq_name ao = [] then fails (''There'' @ [CHR 0x27] @ ''s no active application in project: %v'') [cx_project (aq_context ao)]
        else Inr ()))"

definition rule_line :: printed where
  "rule_line = [[''--------------------------------------'']]"

definition AppDescribeRun ::
  "'s tools \<Rightarrow> (App \<Rightarrow> string result) \<Rightarrow> 's app_options \<Rightarrow> ('s world, printed option) op" where
  "AppDescribeRun te json ao =
     (let cx = aq_context ao; c = cx_client cx; appName = aq_name ao in
      if aq_output ao = ''json'' then
        bind (on_cluster (AppMachineReadable c appName (cx_project cx))) (\<lambda>appDef.
        bind (lift (json appDef)) (\<lambda>out. return (Some [[out]])))
      else
        bind (on_cluster (ListComponents c appName)) (\<lambda>componentList.
        bind (on_cluster (attempt (ListWithDetailedStatus c appName))) (\<lambda>r.
        let serviceList = (case r of Inl _ \<Rightarrow> [] | Inr ss \<Rightarrow> ss) in
        if length (cl_items componentList) = 0 \<and> length serviceList = 0 then
          return (Some [[''Application '' @ appName @ '' has no components or services deployed.'']])
        else
          bind (fold_op (\<lambda>currentComponent out.
              bind (or_exit (on_cluster (GetComponent c (co_name currentComponent) appName (cx_project cx)))) (\<lambda>componentDesc.
              bind (PrintComponentInfo te c (co_name currentComponent) componentDesc (cx_application cx)) (\<lambda>ls.
                return (out @ ls @ rule_line))))
            (cl_items componentList) []) (\<lambda>components.
            return (Some ([[''Application Name: '' @ appName @ '' has '' @ show_nat (length (cl_items componentList)) @
                '' component(s) and '' @ show_nat (length serviceList) @ '' service(s):'']]
              @ rule_line @ components
              @ concat (map (\<lambda>s. [[''Service Name: '' @ sf_name s], [''Type: '' @ sf_type s], [''Status: '' @ sf_status s]] @ rule_line)
                  serviceList)))))))"

definition odo_app_describe ::
  "'s tools \<Rightarrow> (App \<Rightarrow> string result) \<Rightarrow> invocation \<Rightarrow> string \<Rightarrow> string list \<Rightarrow> ('s world, printed option) op" where
  "odo_app_describe te json iv outputFormat args = GenericRun (AppComplete te iv False outputFormat args)
     (\<lambda>ao. bind (lift (AppDescribeValidate ao)) (\<lambda>_. return (Some ao))) (AppDescribeRun te json)"

definition AppListValidate :: "string \<Rightarrow> 's cmd_context \<Rightarrow> unit result" where
  "AppListValidate outputFormat cx =
     (if cx_project cx = [] then ThrowContextError else checkOutputFlag outputFormat)"

definition AppListRun ::
  "(type_meta \<times> App list \<Rightarrow> string result) \<Rightarrow> string \<Rightarrow> 's cmd_context \<Rightarrow> ('s, printed option) op" where
  "AppListRun json outputFormat cx =
     bind (attempt (AppList (cx_client cx))) (\<lambda>r. case r of
       Inl err \<Rightarrow> failing ''unable to get list of applications: %v'' [error_text err]
     | Inr apps \<Rightarrow>
         if length apps > 0 then
           if outputFormat = ''json'' then
             bind (fold_op (\<lambda>app appList. bind (AppMachineReadable (cx_client cx) app (cx_project cx)) (\<lambda>appDef.
                 return (appList @ [appDef]))) apps []) (\<lambda>appList.
             bind (lift (json (AppMachineReadableForList appList))) (\<lambda>out. return (Some [[out]])))
           else return (Some ([[''The project '' @ [CHR 0x27] @ cx_project cx @ [CHR 0x27] @ '' has the following applications:''],
             [''NAME'']] @ map (\<lambda>app. [app]) apps))
         else if outputFormat = ''json'' then
           bind (lift (json (AppMachineReadableForList []))) (\<lambda>out. return (Some [[out]]))
         else return (Some [[''There are no applications deployed in the project '' @ [CHR 0x27] @ cx_project cx @ [CHR 0x27] @ ''.'']]))"

definition odo_app_list ::
  "'s tools \<Rightarrow> (type_meta \<times> App list \<Rightarrow> string result) \<Rightarrow> invocation \<Rightarrow> string \<Rightarrow> ('s world, printed option) op" where
  "odo_app_list te json iv outputFormat = GenericRun (bind (NewContext te iv) (\<lambda>cx. return (Some cx)))
     (\<lambda>cx. bind (lift (AppListValidate outputFormat cx)) (\<lambda>_. return (Some cx)))
     (\<lambda>cx. on_cluster (AppListRun json outputFormat cx))"

definition app_component_lines :: "'s client \<Rightarrow> string \<Rightarrow> string \<Rightarrow> Component \<Rightarrow> ('s, printed) op" where
  "app_component_lines c appName projectName currentComponent =
     bind (wrapping ''unable to get component description'' [] (GetComponent c (co_name currentComponent) appName projectName)) (\<lambda>componentDesc.
     bind (url_lines c appName componentDesc) (\<lambda>urls.
     bind (or_exit (StorageListAll c (co_name currentComponent) appName)) (\<lambda>storages.
       return ([''component named'', co_name currentComponent] # urls
         @ (if length (sl_items storages) \<noteq> 0 then
              [''The component has following storages which will be deleted with the component''] #
                map (\<lambda>storageName. let store = storage_get (sl_items storages) storageName in
                  [''Storage named'', sg_name store, ''of size'', sg_size store]) (co_storage componentDesc)
            else [])))))"

definition printDeleteAppInfo :: "'s client \<Rightarrow> string \<Rightarrow> string \<Rightarrow> ('s, printed) op" where
  "printDeleteAppInfo c appName projectName =
     bind (wrapping ''failed to get Component list'' [] (ListComponents c appName)) (\<lambda>componentList.
     if length (cl_items componentList) \<noteq> 0 then
       bind (fold_op (\<lambda>currentComponent out.
              bind (app_component_lines c appName projectName currentComponent) (\<lambda>ls. return (out @ ls)))
            (cl_items componentList) []) (\<lambda>components.
       bind (service_lines c appName) (\<lambda>services.
         return ([''This application has following components that will be deleted''] # components @ services)))
     else return [])"

text \<open>Any failure to learn whether the application exists counts as its absence.\<close>

definition AppDeleteValidate :: "'s app_options \<Rightarrow> ('s, 's app_options option) op" where
  "AppDeleteValidate ao =
     (let cx = aq_context ao in
      if cx_project cx = [] \<or> aq_name ao = [] then lift ThrowContextError
      else if \<not> CheckOutputFlag (cx_output cx) then failing ''given output format %s is not supported'' [cx_output cx]
      else bind (attempt (AppExists (aq_name ao) (cx_client cx))) (\<lambda>r.
        if (case r of Inl _ \<Rightarrow> False | Inr exist \<Rightarrow> exist) then return (Some ao)
        else failing ''%s app does not exists'' [aq_name ao]))"

definition AppDeleteRun :: "'s survey \<Rightarrow> 's app_options \<Rightarrow> ('s, printed option) op" where
  "AppDeleteRun sy ao =
     (let cx = aq_context ao; c = cx_client cx; appName = aq_name ao in
      if cx_output cx = ''json'' then bind (AppDelete c appName) (\<lambda>_. return (Some []))
      else
        bind (printDeleteAppInfo c appName (cx_project cx)) (\<lambda>out.
        bind (if aq_force ao then return True
              else Proceed sy (sprintf ''Are you sure you want to delete the application: %v from project: %v'' [appName, cx_project cx])) (\<lambda>go.
        if go then bind (AppDelete c appName) (\<lambda>_.
            return (Some (out @ [[''Deleted application: '' @ appName @ '' from project: '' @ cx_project cx]])))
        else return (Some (out @ [[''Aborting deletion of application: '' @ appName]])))))"

definition odo_app_delete ::
  "'s tools \<Rightarrow> 's survey \<Rightarrow> invocation \<Rightarrow> bool \<Rightarrow> string list \<Rightarrow> ('s world, printed option) op" where
  "odo_app_delete te sy iv force args = GenericRun (AppComplete te iv force [] args)
     (\<lambda>ao. on_cluster (AppDeleteValidate ao)) (\<lambda>ao. on_cluster (AppDeleteRun sy ao))"


section \<open>Facts\<close>

text \<open>A loop whose iterations leave the state alone and add to the output.\<close>

lemma fold_op_adds:
  assumes "\<And>x acc. x \<in> set xs \<Longrightarrow> f x acc w = (Inr (acc @ g x), w)"
  shows "fold_op f xs acc w = (Inr (acc @ concat (map g xs)), w)"
  using assms
proof (induction xs arbitrary: acc)
  case (Cons x xs)
  then have "f x acc w = (Inr (acc @ g x), w)" by simp
  with Cons show ?case by (simp add: bind_ok)
qed (simp add: return_def)

lemma SetCurrent_switches:
  assumes "ProjectSetCurrent raw modifyConfig c name s = (Inr c', s1)"
  shows "(\<exists>kc t. modifyConfig (kc\<lparr>kc_contexts := put (kc_current kc) name (kc_contexts kc)\<rparr>) t = (Inr (), s1)) \<and>
    c' = c\<lparr>cl_namespace := name\<rparr>"
  using assms by (auto simp: ProjectSetCurrent_def SetCurrentProject_def bind_ok_iff fault_def split: if_splits)

text \<open>C36. Before \<open>odo project delete\<close> asks whether it shall, it has made the project the current one in the
  kube configuration: when the user declines, the command fails and the project stays switched.\<close>

theorem declined_deletion_switches:
  assumes "ProjectDeleteRun te pa sy po (d, s) = (r, w)"
    and "ProjectSetCurrent (pa_raw pa) (pa_modify pa) (cx_client (pr_context po)) (pr_name po) s = (Inr c, s1)"
    and "\<not> pr_flag po" and "\<And>msg t. Proceed sy msg t = (Inr False, t)"
  shows "(\<exists>kc t. pa_modify pa (kc\<lparr>kc_contexts := put (kc_current kc) (pr_name po) (kc_contexts kc)\<rparr>) t = (Inr (), s1)) \<and>
    (\<forall>out. r \<noteq> Inr out) \<and> w = snd (printDeleteProjectInfo te (cx_client (pr_context po)\<lparr>cl_namespace := pr_name po\<rparr>) (pr_name po) (d, s1))"
proof -
  note switched = SetCurrent_switches [OF assms(2)]
  have "on_cluster (ProjectSetCurrent (pa_raw pa) (pa_modify pa) (cx_client (pr_context po)) (pr_name po)) (d, s) = (Inr c, (d, s1))"
    using assms(2) by (simp add: on_snd_ok_iff)
  then have "ProjectDeleteRun te pa sy po (d, s) = bind (printDeleteProjectInfo te c (pr_name po)) (\<lambda>out.
      bind (on_cluster (Proceed sy (sprintf ''Are you sure you want to delete project %v'' [pr_name po]))) (\<lambda>go.
      if go then bindW (on_cluster (ProjectDelete c (pa_watch pa) (pr_name po))) (\<lambda>_. return (Some (out @ [[''Deleted project : '' @ pr_name po]])))
      else failing ''Aborting deletion of project: %v'' [pr_name po])) (d, s1)"
    using assms(3) by (simp add: ProjectDeleteRun_def bind_ok)
  then have "(\<forall>out. r \<noteq> Inr out) \<and> w = snd (printDeleteProjectInfo te c (pr_name po) (d, s1))"
    using assms(1) by (cases "printDeleteProjectInfo te c (pr_name po) (d, s1)")
      (auto simp: bind_def on_snd_def assms(4) failing_def fault_def split: sum.splits)
  with switched show ?thesis by auto
qed

definition one_context :: "'s project_access" where
  "one_context = \<lparr>pa_raw = return \<lparr>kc_contexts = [(''ctx'', ''dev'')], kc_current = ''ctx''\<rparr>, pa_modify = (\<lambda>_. return ()),
     pa_watch = return []\<rparr>"

definition delete_shop :: "cluster project_options" where
  "delete_shop = \<lparr>pr_name = ''shop'', pr_flag = False,
     pr_context = \<lparr>cx_client = stream_client, cx_project = ''dev'', cx_application = [], cx_cmp = [], cx_output = []\<rparr>\<rparr>"

theorem declined_deletion_switches_witness:
  "\<forall>out. fst (ProjectDeleteRun (shop_tools (NewLocalConfig_meta, web_settings)) one_context eager_user delete_shop (web_disk, web_state))
     \<noteq> Inr out"
proof -
  let ?te = "shop_tools (NewLocalConfig_meta, web_settings)"
  have "ProjectSetCurrent (pa_raw one_context) (pa_modify one_context) (cx_client (pr_context delete_shop)) (pr_name delete_shop) web_state
      = (Inr (stream_client\<lparr>cl_namespace := ''shop''\<rparr>), web_state)"
    by (simp add: ProjectSetCurrent_def SetCurrentProject_def one_context_def delete_shop_def wrapping_def bind_def return_def
        has_key_def lookup_def)
  moreover have "Proceed eager_user msg t = (Inr False, t)" for msg t
    by (simp add: Proceed_def HandleError_def eager_user_def bind_def return_def)
  ultimately show ?thesis
    using declined_deletion_switches [of ?te one_context eager_user delete_shop web_disk web_state, OF prod.collapse [symmetric]]
    by (simp add: delete_shop_def)
qed

text \<open>A URL that the list does not have is printed without host and port.\<close>

lemma unknown_url_line:
  assumes "load_config te [] (d, s) = (Inr lci, (d, s))" and "UrlListAll c n app s = (Inr (url_list_format []), s)"
  shows "\<exists>ls. PrintComponentInfo te c n desc app (d, s) = (Inr ls, (d, s)) \<and>
    (co_url desc \<noteq> [] \<longrightarrow> ['' - :// exposed via 0''] \<in> set ls)"
proof -
  have "digit_char 0 = CHR ''0''" by code_simp
  then have zero: "show_int 0 = ''0''" by (simp add: show_int_def show_nat.simps)
  have lci: "or_exit (load_config te []) (d, s) = (Inr lci, (d, s))" using assms(1) by simp
  have urls: "or_exit (on_cluster (UrlListAll c n app)) (d, s) = (Inr (url_list_format []), (d, s))"
    using assms(2) by (simp add: on_snd_ok_iff)
  show ?thesis
    by (cases "co_url desc") (simp_all add: PrintComponentInfo_def bind_ok lci urls url_list_format_def no_url_def
        GetURLString_def zero return_def Let_def)
qed

text \<open>\<open>odo app describe\<close> of an application that is not the current one looks for the URLs of its
  components in the current one: where that has none, it prints an address without host and port for
  each URL of a component.\<close>

theorem described_urls_blank:
  assumes "aq_output ao \<noteq> ''json''" and "cx = aq_context ao" and "c = cx_client cx"
    and "load_config te [] (d, s) = (Inr lci, (d, s))"
    and "ListComponents c (aq_name ao) s = (Inr (component_list_format cmps), s)"
    and "ListWithDetailedStatus c (aq_name ao) s = (Inr services, s)"
    and "\<And>x. x \<in> set cmps \<Longrightarrow> GetComponent c (co_name x) (aq_name ao) (cx_project cx) s = (Inr (desc x), s) \<and>
      UrlListAll c (co_name x) (cx_application cx) s = (Inr (url_list_format []), s)"
    and "x \<in> set cmps" and "co_url (desc x) \<noteq> []"
  shows "\<exists>out. AppDescribeRun te json ao (d, s) = (Inr (Some out), (d, s)) \<and> ['' - :// exposed via 0''] \<in> set out"
proof -
  have "\<exists>ls. PrintComponentInfo te c (co_name y) (desc y) (cx_application cx) (d, s) = (Inr ls, (d, s)) \<and>
      (co_url (desc y) \<noteq> [] \<longrightarrow> ['' - :// exposed via 0''] \<in> set ls)" if "y \<in> set cmps" for y
    using unknown_url_line [OF assms(4)] assms(7) that by blast
  then obtain ls where ls: "\<And>y. y \<in> set cmps \<Longrightarrow>
      PrintComponentInfo te c (co_name y) (desc y) (cx_application cx) (d, s) = (Inr (ls y), (d, s)) \<and>
      (co_url (desc y) \<noteq> [] \<longrightarrow> ['' - :// exposed via 0''] \<in> set (ls y))" by metis
  have "or_exit (on_cluster (GetComponent c (co_name y) (aq_name ao) (cx_project cx))) (d, s) = (Inr (desc y), (d, s))"
    if "y \<in> set cmps" for y using assms(7) [OF that] by (simp add: on_snd_ok_iff)
  with ls have loop: "fold_op (\<lambda>currentComponent out.
      bind (or_exit (on_cluster (GetComponent c (co_name currentComponent) (aq_name ao) (cx_project cx)))) (\<lambda>componentDesc.
      bind (PrintComponentInfo te c (co_name currentComponent) componentDesc (cx_application cx)) (\<lambda>ls.
        return (out @ ls @ rule_line)))) cmps [] (d, s)
    = (Inr ([] @ concat (map (\<lambda>y. ls y @ rule_line) cmps)), (d, s))"
    by (intro fold_op_adds) (simp add: bind_ok return_def)
  have "cmps \<noteq> []" using assms(8) by auto
  moreover have "on_cluster (ListComponents c (aq_name ao)) (d, s) = (Inr (component_list_format cmps), (d, s))"
    "on_cluster (attempt (ListWithDetailedStatus c (aq_name ao))) (d, s) = (Inr (Inr services), (d, s))"
    using assms(5,6) by (simp_all add: on_snd_ok_iff attempt_ok_iff)
  ultimately have "\<exists>pre post. AppDescribeRun te json ao (d, s)
      = (Inr (Some (pre @ concat (map (\<lambda>y. ls y @ rule_line) cmps) @ post)), (d, s))"
    using assms(1) loop
    by (intro exI [where x = "[[''Application Name: '' @ aq_name ao @ '' has '' @ show_nat (length cmps) @
          '' component(s) and '' @ show_nat (length services) @ '' service(s):'']] @ rule_line"]
        exI [where x = "concat (map (\<lambda>s. [[''Service Name: '' @ sf_name s], [''Type: '' @ sf_type s], [''Status: '' @ sf_status s]] @ rule_line)
          services)"])
      (simp add: AppDescribeRun_def Let_def bind_ok component_list_format_def assms(2,3) [symmetric] return_def)
  moreover have "['' - :// exposed via 0''] \<in> set (concat (map (\<lambda>y. ls y @ rule_line) cmps))"
    using ls [OF assms(8)] assms(8,9) by auto
  ultimately show ?thesis by auto
qed

definition shown_app :: "cluster app_options" where
  "shown_app = \<lparr>aq_name = ''app'', aq_force = False, aq_output = [],
     aq_context = \<lparr>cx_client = stream_client, cx_project = ''app'', cx_application = ''other'', cx_cmp = [], cx_output = []\<rparr>\<rparr>"

definition routed_state :: cluster where
  "routed_state = web_state\<lparr>k_routes := [example_route ''www'' ''web'']\<rparr>"

definition shown_web :: Component where
  "shown_web = (component_format ''web'' ''nodejs'')\<lparr>co_source := ''file://./'', co_url := [''www''], co_state := ''Pushed''\<rparr>"

theorem described_urls_blank_witness:
  "\<exists>out. AppDescribeRun (shop_tools (NewLocalConfig_meta, web_settings)) (\<lambda>_. Inr []) shown_app (web_disk, routed_state)
      = (Inr (Some out), (web_disk, routed_state)) \<and> ['' - :// exposed via 0''] \<in> set out"
proof -
  let ?te = "shop_tools (NewLocalConfig_meta, web_settings)"
  have l: "ListComponents stream_client ''app'' routed_state = (Inr (component_list_format [shown_web]), routed_state)" by code_simp
  have g: "GetComponent stream_client ''web'' ''app'' ''app'' routed_state = (Inr shown_web, routed_state)" by code_simp
  have u: "UrlListAll stream_client ''web'' ''other'' routed_state = (Inr (url_list_format []), routed_state)" by code_simp
  have v: "ListWithDetailedStatus stream_client ''app'' routed_state = (Inr [], routed_state)" by code_simp
  have "case NewLocalConfigInfo (to_yaml ?te) (to_env ?te) (to_cwd ?te) [] web_disk of (Inr _, d) \<Rightarrow> d = web_disk | _ \<Rightarrow> False" by code_simp
  then obtain lci where "load_config ?te [] (web_disk, routed_state) = (Inr lci, (web_disk, routed_state))"
    by (auto simp: load_config_def on_fst_def split: prod.splits sum.splits)
  from described_urls_blank [of shown_app "aq_context shown_app" stream_client, OF _ refl _ this, of "[shown_web]" "[]" "\<lambda>_. shown_web" shown_web "\<lambda>_. Inr []"]
  show ?thesis using l g u v by (simp add: shown_app_def shown_web_def component_format_def)
qed

lemma AppDeleteValidate_ok:
  assumes "AppDeleteValidate ao s = (Inr (Some ao'), s')"
  shows "ao' = ao \<and> aq_name ao \<noteq> [] \<and> (\<exists>apps. AppList (cx_client (aq_context ao)) s = (Inr apps, s') \<and> aq_name ao \<in> set apps)"
  using assms by (auto simp: AppDeleteValidate_def Let_def bind_ok_iff attempt_ok_iff AppExists_def list_ex_iff failing_def
      fault_def ThrowContextError_def fails_def lift_ok_iff split: if_splits)




end
