(* ===== verification/ListCmd.thy ===== *)
theory ListCmd
  imports ProjectCmd
begin

text \<open>
  The commands that show and list: components, URLs, storage, the catalog, the configuration and
  the preferences (\<open>pkg/odo/cli/component\<close>, \<open>url\<close>, \<open>storage\<close>, \<open>catalog\<close>, \<open>config\<close>, \<open>preference\<close>), and
  the ones that set a preference. A line of a table is the list of its cells.
\<close>


section \<open>Components\<close>

text \<open>The directory of the process reads configurations; \<open>walk\<close> lists the files below a path with their names.\<close>

record 's list_options =
  li_path :: string
  li_output :: string
  li_context :: "'s cmd_context"

definition ListValidate :: "'s list_options \<Rightarrow> unit result" where
  "ListValidate lo =
     (if li_path lo = [] \<and> (cx_project (li_context lo) = [] \<or> cx_application (li_context lo) = [])
      then ThrowContextError else checkOutputFlag (li_output lo))"

definition ListRun ::
  "'s tools \<Rightarrow> (string \<Rightarrow> (string \<times> string) list) \<Rightarrow> (ComponentList \<Rightarrow> string result) \<Rightarrow> 's list_options \<Rightarrow>
   ('s world, printed option) op" where
  "ListRun te walk json lo =
     (let c = cx_client (li_context lo) in
      if length (li_path lo) \<noteq> 0 then
        bind get_state (\<lambda>(d, _).
        bind (on_cluster (ListIfPathGiven c (\<lambda>dir. fst (NewLocalConfigInfo (to_yaml te) (to_env te) (to_cwd te) dir d))
               (to_cwd te) walk (split_on CHR '':'' (li_path lo)))) (\<lambda>(err, components).
          case err of Some err \<Rightarrow> fault (Err err)
          | None \<Rightarrow>
              if li_output lo = ''json'' then bind (lift (json components)) (\<lambda>out. return (Some [[out]]))
              else return (Some ([''NAME'', ''TYPE'', ''SOURCE'', ''STATE'', ''CONTEXT''] #
                map (\<lambda>f. [co_name f, co_type f, co_source f, co_state f, Component.co_context f]) (cl_items components)))))
      else
        bind (wrapping ''failed to fetch components list'' []
               (on_cluster (ListComponents c (cx_application (li_context lo))))) (\<lambda>components.
          if li_output lo = ''json'' then bind (lift (json components)) (\<lambda>out. return (Some [[out]]))
          else if length (cl_items components) = 0 then return (Some [[''There are no components deployed.'']])
          else return (Some ([''NAME'', ''TYPE'', ''SOURCE'', ''STATE''] #
            map (\<lambda>comp. [co_name comp, co_type comp, co_source comp, co_state comp]) (cl_items components)))))"

definition odo_list ::
  "'s tools \<Rightarrow> (string \<Rightarrow> (string \<times> string) list) \<Rightarrow> (ComponentList \<Rightarrow> string result) \<Rightarrow> invocation \<Rightarrow> string \<Rightarrow> string \<Rightarrow>
   ('s world, printed option) op" where
  "odo_list te walk json iv outputFlag pathFlag = GenericRun
     (bind (NewContext te iv) (\<lambda>cx. return (Some \<lparr>li_path = pathFlag, li_output = outputFlag, li_context = cx\<rparr>)))
     (\<lambda>lo. bind (lift (ListValidate lo)) (\<lambda>_. return (Some lo))) (ListRun te walk json)"

definition DescribeValidate :: "string \<Rightarrow> string \<times> 's cmd_context \<Rightarrow> ('s, (string \<times> 's cmd_context) option) op" where
  "DescribeValidate outputFlag opts = (case opts of (componentName, cx) \<Rightarrow>
     if cx_project cx = [] \<or> cx_application cx = [] then lift ThrowContextError
     else bind (ComponentExists (cx_client cx) componentName (cx_application cx)) (\<lambda>isExists.
       if \<not> isExists then failing ''component %s does not exist'' [componentName]
       else bind (lift (checkOutputFlag outputFlag)) (\<lambda>_. return (Some opts))))"

definition DescribeRun ::
  "'s tools \<Rightarrow> (Component \<Rightarrow> string result) \<Rightarrow> string \<Rightarrow> string \<times> 's cmd_context \<Rightarrow> ('s world, printed option) op" where
  "DescribeRun te json outputFlag opts = (case opts of (componentName, cx) \<Rightarrow>
     bind (on_cluster (GetComponent (cx_client cx) componentName (cx_application cx) (cx_project cx))) (\<lambda>componentDesc.
       if outputFlag = ''json'' then bind (lift (json componentDesc)) (\<lambda>out. return (Some [[out]]))
       else bind (PrintComponentInfo te (cx_client cx) componentName componentDesc (cx_application cx)) (\<lambda>out.
         return (Some out))))"

definition odo_describe ::
  "'s tools \<Rightarrow> (Component \<Rightarrow> string result) \<Rightarrow> invocation \<Rightarrow> string \<Rightarrow> string list \<Rightarrow> ('s world, printed option) op" where
  "odo_describe te json iv outputFlag args = GenericRun (bind (component_options te iv args) (\<lambda>opts. return (Some opts)))
     (\<lambda>opts. on_cluster (DescribeValidate outputFlag opts)) (DescribeRun te json outputFlag)"

definition GetRun :: "bool \<Rightarrow> string \<Rightarrow> printed" where
  "GetRun short componentName =
     (if short then [[componentName]]
      else if componentName = [] then [[''No component is set as current'']]
      else [[''The current component is: '' @ componentName]])"

definition odo_get :: "'s tools \<Rightarrow> invocation \<Rightarrow> bool \<Rightarrow> ('s world, printed option) op" where
  "odo_get te iv short = GenericRun
     (bind (NewContext te iv) (\<lambda>cx. bind (on_cluster (ComponentAllowingEmpty cx True [])) (\<lambda>(cmp, _). return (Some cmp))))
     (\<lambda>cmp. return (Some cmp)) (\<lambda>cmp. return (Some (GetRun short cmp)))"

definition odo_log ::
  "'s tools \<Rightarrow> (string \<Rightarrow> string \<Rightarrow> bool \<Rightarrow> ('s, log_stream option) op) \<Rightarrow> (string \<Rightarrow> ('s, unit) op) \<Rightarrow> invocation \<Rightarrow> bool \<Rightarrow>
   string list \<Rightarrow> ('s world, unit option) op" where
  "odo_log te stream stdout iv logFollow args = GenericRun (bind (component_options te iv args) (\<lambda>opts. return (Some opts)))
     (\<lambda>opts. return (Some opts))
     (\<lambda>(componentName, cx). bind (on_cluster (GetLogs (cx_client cx) stream stdout componentName (cx_application cx) logFollow))
       (\<lambda>_. finished))"


section \<open>URLs and storage\<close>

text \<open>One line for each URL of the configuration and each URL of the cluster of its name.\<close>

definition url_rows :: "Url list \<Rightarrow> ConfigUrl \<Rightarrow> printed" where
  "url_rows urls i =
     (let present = filter (\<lambda>u. cu_name i = ur_name u) urls in
      map (\<lambda>u. [ur_name u, GetURLString (ur_protocol u) (ur_host u), show_int (ur_port u)]) present
      @ (if present = [] then [[cu_name i, ''<not created on cluster>'', show_int (cu_port i)]] else []))"

definition URLListRun ::
  "(UrlList \<Rightarrow> string result) \<Rightarrow> 's cmd_context \<times> LocalConfigInfo \<Rightarrow> ('s, printed option) op" where
  "URLListRun json opts = (case opts of (cx, localConfigInfo) \<Rightarrow>
     bind (ContextComponent cx []) (\<lambda>(cmp, cx).
     bind (UrlListAll (cx_client cx) cmp (cx_application cx)) (\<lambda>urls.
     let localUrls = LocalGetUrl localConfigInfo in
     if cx_output cx = ''json'' then bind (lift (json urls)) (\<lambda>out. return (Some [[out]]))
     else if length (ul_items urls) = 0 \<and> length localUrls = 0 then
       failing ''no URLs found for component %v in application %v'' [cmp, cx_application cx]
     else return (Some ([[''Found the following URLs for component '' @ cmp @ '' in application '' @ cx_application cx @ '':''],
         [''NAME'', ''URL'', ''PORT'']] @ concat (map (url_rows (ul_items urls)) localUrls)
         @ [[''Use `odo push` to create url on cluster'']])))))"

definition odo_url_list ::
  "'s tools \<Rightarrow> (UrlList \<Rightarrow> string result) \<Rightarrow> invocation \<Rightarrow> string \<Rightarrow> ('s world, printed option) op" where
  "odo_url_list te json iv componentContext = GenericRun
     (bind (NewContext te iv) (\<lambda>cx. bind (wrapping ''failed intiating local config'' [] (load_config te componentContext)) (\<lambda>lci.
       return (Some (cx, lci)))))
     (\<lambda>(cx, lci). bind (lift (checkOutputFlag (cx_output cx))) (\<lambda>_. return (Some (cx, lci))))
     (\<lambda>opts. on_cluster (URLListRun json opts))"

definition StorageListRun ::
  "(StorageList \<Rightarrow> string result) \<Rightarrow> 's cmd_context \<times> LocalConfigInfo \<Rightarrow> printed option result" where
  "StorageListRun json opts = (case opts of (cx, localConfig) \<Rightarrow>
     let storageListConfig = LocalStorageList localConfig;
         machineReadable = GetMachineReadableFormatForList
           (map (\<lambda>s. GetMachineReadableFormat (css_name s) (css_size s) (css_path s)) storageListConfig)
     in bindR (MachineOutput json (cx_output cx) machineReadable) (\<lambda>out.
          Inr (Some (
            if out \<noteq> [] then [[out]]
            else if length storageListConfig > 0 then
              [[''The component '' @ [CHR 0x27] @ LocalGetName localConfig @ [CHR 0x27] @ '' has the following storage attached:''],
               [''NAME'', ''SIZE'', ''PATH'']] @ map (\<lambda>s. [css_name s, css_size s, css_path s]) storageListConfig
            else [[''The component '' @ [CHR 0x27] @ LocalGetName localConfig @ [CHR 0x27] @ '' has no storage attached'']]))))"

definition StorageListValidate :: "'s cmd_context \<times> LocalConfigInfo \<Rightarrow> unit result" where
  "StorageListValidate opts =
     (if \<not> CheckOutputFlag (cx_output (fst opts))
      then fails ''given output format %s is not supported'' [cx_output (fst opts)] else Inr ())"

definition odo_storage_list ::
  "'s tools \<Rightarrow> (StorageList \<Rightarrow> string result) \<Rightarrow> invocation \<Rightarrow> string \<Rightarrow> ('s world, printed option) op" where
  "odo_storage_list te json iv componentContext = GenericRun
     (bind (NewContext te iv) (\<lambda>cx. bind (load_config te componentContext) (\<lambda>lci. return (Some (cx, lci)))))
     (\<lambda>opts. bind (lift (StorageListValidate opts)) (\<lambda>_. return (Some opts)))
     (\<lambda>opts. lift (StorageListRun json opts))"

text \<open>Mounting and unmounting; the commands are written but not offered (\<open>storage.go\<close>).\<close>

definition StorageMountValidate :: "string \<times> 's cmd_context \<Rightarrow> ('s, (string \<times> 's cmd_context) option) op" where
  "StorageMountValidate opts = (case opts of (storageName, cx) \<Rightarrow>
     bind (StorageExists (cx_client cx) storageName (cx_application cx)) (\<lambda>exists.
     if \<not> exists then failing (''the storage %v does not exists in the current application '' @ [CHR 0x27] @ ''%v'' @ [CHR 0x27])
       [storageName, cx_application cx]
     else bind (ContextComponent cx []) (\<lambda>(cmp, cx).
       bind (attempt (IsMounted (cx_client cx) storageName cmp (cx_application cx))) (\<lambda>r. case r of
         Inl err \<Rightarrow> failing ''unable to check if the component is already mounted or not, cause %v'' [error_text err]
       | Inr isMounted \<Rightarrow>
           if isMounted then failing (''the storage %v is already mounted on the current component '' @ [CHR 0x27] @ ''%v'' @ [CHR 0x27])
             [storageName, cmp]
           else return (Some opts)))))"

definition StorageMountRun :: "string \<Rightarrow> string \<times> 's cmd_context \<Rightarrow> ('s, unit option) op" where
  "StorageMountRun storagePath opts = (case opts of (storageName, cx) \<Rightarrow>
     bind (ContextComponent cx []) (\<lambda>(cmp, cx).
     bind (Mount (cx_client cx) storagePath storageName cmp (cx_application cx)) (\<lambda>_. finished)))"

definition StorageUnMountComplete ::
  "'s tools \<Rightarrow> invocation \<Rightarrow> string list \<Rightarrow> ('s world, (string \<times> string \<times> 's cmd_context) option) op" where
  "StorageUnMountComplete te iv args =
     bind (NewContext te iv) (\<lambda>cx. bind (lift (arg args 0)) (\<lambda>a.
       return (Some (if has_prefix a ''/'' then (a, [], cx) else ([], a, cx)))))"

definition StorageUnMountValidate ::
  "string \<times> string \<times> 's cmd_context \<Rightarrow> ('s, (string \<times> string \<times> 's cmd_context) option) op" where
  "StorageUnMountValidate opts = (case opts of (storagePath, storageName, cx) \<Rightarrow>
     bind (ContextComponent cx []) (\<lambda>(cmp, cx).
     if length storagePath > 0 then
       bind (attempt (GetStorageNameFromMountPath (cx_client cx) storagePath cmp (cx_application cx))) (\<lambda>r. case r of
         Inl err \<Rightarrow> failing ''unable to get storage name from mount path, cause %v'' [error_text err]
       | Inr name \<Rightarrow>
           if name = [] then failing ''no storage is mounted to %s in the component %s'' [storagePath, cmp]
           else return (Some (storagePath, name, cx)))
     else
       bind (attempt (IsMounted (cx_client cx) storageName cmp (cx_application cx))) (\<lambda>r. case r of
         Inl err \<Rightarrow> failing ''unable to check if storage is mounted or not, cause %v'' [error_text err]
       | Inr exists \<Rightarrow>
           if \<not> exists then fault (Exit (sprintf ''Storage %v does not exist in component %v'' [storageName, cmp]))
           else return (Some (storagePath, storageName, cx)))))"

definition StorageUnMountRun :: "string \<times> string \<times> 's cmd_context \<Rightarrow> ('s, unit option) op" where
  "StorageUnMountRun opts = (case opts of (storagePath, storageName, cx) \<Rightarrow>
     bind (ContextComponent cx []) (\<lambda>(cmp, cx).
     bind (attempt (Unmount (cx_client cx) storageName cmp (cx_application cx) True)) (\<lambda>r. case r of
       Inl err \<Rightarrow> failing ''unable to unmount storage %v from component %v'' [storageName, cmp]
     | Inr _ \<Rightarrow> finished)))"


section \<open>The catalog\<close>

definition FilterHiddenServices :: "Service list \<Rightarrow> Service list" where
  "FilterHiddenServices input =
     foldl (\<lambda>filteredServices service. if \<not> sv_hidden service then filteredServices @ [service] else filteredServices) [] input"

definition DisplayServices :: "Service list \<Rightarrow> printed" where
  "DisplayServices services = [''NAME'', ''PLANS''] # map (\<lambda>service. [sv_name service, join_with '','' (sv_plans service)]) services"

definition CatalogComponentsComplete ::
  "'s tools \<Rightarrow> invocation \<Rightarrow> ('s world, (CatalogImage list \<times> 's cmd_context) option) op" where
  "CatalogComponentsComplete te iv =
     bind (NewContext te iv) (\<lambda>cx. bind (on_cluster (CatalogList (cx_client cx))) (\<lambda>catalogList.
       return (Some (FilterHiddenComponents catalogList, cx))))"

text \<open>A component of the current project is marked when another project has one of its name.\<close>

definition catalog_row :: "CatalogImage list \<Rightarrow> string \<Rightarrow> CatalogImage \<Rightarrow> string list" where
  "catalog_row catalogList project component =
     (let componentName = (if cg_namespace component = project \<and>
           list_ex (\<lambda>comp. cg_name comp = cg_name component \<and> cg_namespace component \<noteq> cg_namespace comp) catalogList
         then cg_name component @ '' (*)'' else cg_name component)
      in [componentName, cg_namespace component, join_with '','' (cg_visible_tags component)])"

definition CatalogComponentsRun :: "CatalogImage list \<times> 's cmd_context \<Rightarrow> printed" where
  "CatalogComponentsRun opts = [''NAME'', ''PROJECT'', ''TAGS''] #
     map (catalog_row (fst opts) (cx_project (snd opts))) (fst opts)"

definition odo_catalog_list_components :: "'s tools \<Rightarrow> invocation \<Rightarrow> ('s world, printed option) op" where
  "odo_catalog_list_components te iv = GenericRun (CatalogComponentsComplete te iv)
     (\<lambda>opts. if length (fst opts) = 0 then failing ''no deployable components found'' [] else return (Some opts))
     (\<lambda>opts. return (Some (CatalogComponentsRun opts)))"

definition catalog_services :: "('s, Service list) op \<Rightarrow> ('s, Service list option) op" where
  "catalog_services m = bind (attempt m) (\<lambda>r. case r of
       Inl err \<Rightarrow> failing ''unable to list services because Service Catalog is not enabled in your cluster: %v'' [error_text err]
     | Inr services \<Rightarrow> return (Some (FilterHiddenServices services)))"

definition odo_catalog_list_services :: "'s tools \<Rightarrow> invocation \<Rightarrow> ('s world, printed option) op" where
  "odo_catalog_list_services te iv = GenericRun
     (bind (NewContext te iv) (\<lambda>cx. on_cluster (catalog_services (ListCatalog (cx_client cx)))))
     (\<lambda>services. if length services = 0 then failing ''no deployable services found'' [] else return (Some services))
     (\<lambda>services. return (Some (DisplayServices services)))"

definition odo_catalog_search_service :: "'s tools \<Rightarrow> invocation \<Rightarrow> string list \<Rightarrow> ('s world, printed option) op" where
  "odo_catalog_search_service te iv args = GenericRun
     (bind (NewContext te iv) (\<lambda>cx. bind (lift (arg args 0)) (\<lambda>searchTerm.
        on_cluster (catalog_services (ServiceSearch (cx_client cx) searchTerm)))))
     (\<lambda>services. if length services = 0 then failing ''no service matched the query: %s'' [args ! 0] else return (Some services))
     (\<lambda>services. return (Some (DisplayServices services)))"

definition odo_catalog_search_component :: "'s tools \<Rightarrow> invocation \<Rightarrow> string list \<Rightarrow> ('s world, printed option) op" where
  "odo_catalog_search_component te iv args = GenericRun
     (bind (NewContext te iv) (\<lambda>cx. bind (lift (arg args 0)) (\<lambda>searchTerm.
        bind (on_cluster (CatalogSearch (cx_client cx) searchTerm)) (\<lambda>components. return (Some components)))))
     (\<lambda>components. if length components = 0 then failing ''no component matched the query: %s'' [args ! 0] else return (Some components))
     (\<lambda>components. return (Some ([''The following components were found:''] # map (\<lambda>component. [''- '' @ component]) components)))"

text \<open>The parameters of a plan: the required ones the user has to give, the required ones with a default, the optional ones.\<close>

definition plan_parameter_names :: "ServicePlanParameter list \<Rightarrow> string list \<times> string list \<times> string list" where
  "plan_parameter_names parameters = foldl (\<lambda>(mandatory, defaulted, optional) parameter.
     if va_required (pp_validatable parameter) then
       if length (pp_default parameter) > 0 then
         (mandatory, defaulted @ [pp_name parameter @ '' (default: '' @ [CHR 0x27] @ pp_default parameter @ [CHR 0x27] @ '')''], optional)
       else (mandatory @ [pp_name parameter], defaulted, optional)
     else (mandatory, defaulted, optional @ [pp_name parameter])) ([], [], []) parameters"

definition plan_rows :: "ServicePlan \<Rightarrow> printed" where
  "plan_rows plan =
     (let (mandatory, defaulted, optional) = plan_parameter_names (pn_parameters plan);
          planLineSeparator = [''-----------------'', ''-----------------'']
      in [[''***********************'', ''*****************************************************''],
          [''Name'', pn_name plan], planLineSeparator,
          [''Display Name'', pn_display plan], planLineSeparator,
          [''Short Description'', pn_description plan], planLineSeparator,
          [''Required Params without a default value'', join_with '', '' mandatory], planLineSeparator,
          [''Required Params with a default value'', join_with '', '' defaulted], planLineSeparator,
          [''Optional Params'', join_with '', '' optional], [[], []]])"

definition DescribeServiceRun :: "string \<Rightarrow> ServiceClass \<times> ServicePlan list \<Rightarrow> printed option result" where
  "DescribeServiceRun serviceName opts = (case opts of (service, plans) \<Rightarrow>
     if length plans > 0 then Inr (Some (
       [[''Name'', sk_name service], [''Bindable'', if sk_bindable service then ''true'' else ''false''],
        [''Operated by the broker'', sk_broker service], [''Short Description'', sk_short service],
        [''Long Description'', sk_long service], [''Versions Available'', join_with '','' (sk_versions service)],
        [''Tags'', join_with '','' (sk_tags service)], [[]], [''PLANS'']] @ concat (map plan_rows plans)))
     else fails ''no plans found for service %s'' [serviceName])"


definition odo_catalog_describe_service ::
  "'s tools \<Rightarrow> (string \<Rightarrow> error + json_value gomap) \<Rightarrow> (string \<Rightarrow> error + string list \<times> ServicePlanParameter gomap) \<Rightarrow>
   invocation \<Rightarrow> string list \<Rightarrow> ('s world, printed option) op" where
  "odo_catalog_describe_service te parse_meta parse_schema iv args = GenericRun
     (bind (NewContext te iv) (\<lambda>cx. bind (lift (arg args 0)) (\<lambda>serviceName. return (Some (cx, serviceName, None)))))
     (\<lambda>(cx, serviceName, _). bind (on_cluster (GetServiceClassAndPlans parse_meta parse_schema (cx_client cx) serviceName))
       (\<lambda>described. return (Some (cx, serviceName, Some described))))
     (\<lambda>(_, serviceName, described). lift (DescribeServiceRun serviceName (the described)))"


section \<open>The configuration and the preferences\<close>

definition showBlankIfNil :: "string option \<Rightarrow> string" where
  "showBlankIfNil intf = (case intf of None \<Rightarrow> [] | Some s \<Rightarrow> s)"

definition formatArray :: "string list option \<Rightarrow> string" where
  "formatArray arr = (case arr of None \<Rightarrow> [] | Some xs \<Rightarrow> if length xs = 0 then [] else join_with '','' xs)"

definition show_bool :: "bool \<Rightarrow> string" where
  "show_bool b = (if b then ''true'' else ''false'')"

definition ConfigViewRun :: "LocalConfigInfo \<Rightarrow> printed" where
  "ConfigViewRun lci =
     (let cs = lci_settings lci; envVarList = LocalGetEnvVars lci;
          rule = [''------------------------------------------------'']
      in (if length envVarList \<noteq> 0 then [[''ENVIRONMENT VARIABLES''], rule, [''NAME'', ''VALUE'']]
            @ map (\<lambda>envVar. [ev_name envVar, ev_value envVar]) envVarList @ [[]] else [])
         @ [[''COMPONENT SETTINGS''], rule, [''PARAMETER'', ''CURRENT_VALUE''],
            [''Type'', showBlankIfNil (cs_type cs)], [''Application'', showBlankIfNil (cs_application cs)],
            [''Project'', showBlankIfNil (cs_project cs)], [''SourceType'', showBlankIfNil (cs_source_type cs)],
            [''Ref'', showBlankIfNil (cs_ref cs)], [''SourceLocation'', showBlankIfNil (cs_source_location cs)],
            [''Ports'', formatArray (cs_ports cs)], [''Name'', showBlankIfNil (cs_name cs)],
            [''MinMemory'', showBlankIfNil (cs_min_memory cs)], [''MaxMemory'', showBlankIfNil (cs_max_memory cs)],
            [''Ignore'', showBlankIfNil (map_option show_bool (cs_ignore cs))],
            [''MinCPU'', showBlankIfNil (cs_min_cpu cs)], [''MaxCPU'', showBlankIfNil (cs_max_cpu cs)]])"

definition odo_config_view :: "'s tools \<Rightarrow> string \<Rightarrow> ('s world, printed option) op" where
  "odo_config_view te contextDir = GenericRun (bind (load_config te contextDir) (\<lambda>cfg. return (Some cfg)))
     (\<lambda>cfg. return (Some cfg)) (\<lambda>cfg. return (Some (ConfigViewRun cfg)))"

text \<open>The preferences with what they are found by.\<close>

record preference_tools =
  pt_yaml :: "preference yaml"
  pt_env :: "string option"
  pt_custom_home :: string
  pt_user_home :: "string result"

definition load_preference :: "preference_tools \<Rightarrow> (disk, PreferenceInfo) op" where
  "load_preference pt = NewPreferenceInfo (pt_yaml pt) (pt_env pt) (pt_custom_home pt) (pt_user_home pt)"

definition on_preference :: "PreferenceInfo \<Rightarrow> (pref_state, 'a) op \<Rightarrow> ('s world, 'a) op" where
  "on_preference cfg m = (\<lambda>(d, s). case m (cfg, d) of (r, (_, d')) \<Rightarrow> (r, (d', s)))"

definition PreferenceViewRun :: "preference_tools \<Rightarrow> ('s world, printed option) op" where
  "PreferenceViewRun pt = bind (or_exit (on_fst (load_preference pt))) (\<lambda>cfg.
     let os = pi_settings cfg in
     return (Some [[''PARAMETER'', ''CURRENT_VALUE''],
       [''UpdateNotification'', showBlankIfNil (map_option show_bool (os_update_notification os))],
       [''NamePrefix'', showBlankIfNil (os_name_prefix os)],
       [''Timeout'', showBlankIfNil (map_option show_int (os_timeout os))]]))"

definition PreferenceSetArgs :: "string list \<Rightarrow> unit result" where
  "PreferenceSetArgs args =
     (if length args < 2 then fails ''please provide a parameter name and value'' []
      else if length args > 2 then fails ''only one value per parameter is allowed'' [] else Inr ())"

definition PreferenceSetRun ::
  "preference_tools \<Rightarrow> 's survey \<Rightarrow> bool \<Rightarrow> string \<times> string \<Rightarrow> ('s world, printed option) op" where
  "PreferenceSetRun pt sy force param = (case param of (paramName, paramValue) \<Rightarrow>
     bind (wrapping ''unable to set preference'' [] (on_fst (load_preference pt))) (\<lambda>cfg.
     bind (if \<not> force \<and> PrefIsSet cfg paramName
           then on_cluster (Proceed sy (sprintf ''%v is already set. Do you want to override it in the config'' [paramName]))
           else return True) (\<lambda>go.
     if \<not> go then return (Some [[''Aborted by the user.'']])
     else bind (on_preference cfg (PrefSetConfiguration (pt_yaml pt) (to_lower paramName) paramValue)) (\<lambda>_.
       return (Some [[''Global preference was successfully updated.'']])))))"

definition PreferenceUnsetArgs :: "string list \<Rightarrow> unit result" where
  "PreferenceUnsetArgs args =
     (if length args < 1 then fails ''please provide a parameter name'' []
      else if length args > 1 then fails ''only one parameter is allowed'' [] else Inr ())"

definition PreferenceUnsetRun :: "preference_tools \<Rightarrow> 's survey \<Rightarrow> bool \<Rightarrow> string \<Rightarrow> ('s world, printed option) op" where
  "PreferenceUnsetRun pt sy force paramName =
     bind (wrapping [] [] (on_fst (load_preference pt))) (\<lambda>cfg.
     if \<not> force \<and> \<not> PrefIsSet cfg paramName
     then failing ''preference already unset, cannot unset a preference which is not set'' []
     else
       bind (if \<not> force then on_cluster (Proceed sy (sprintf ''Do you want to unset %s in the preference'' [paramName]))
             else return True) (\<lambda>go.
       if \<not> go then return (Some [[''Aborted by the user.'']])
       else bind (on_preference cfg (PrefDeleteConfiguration (pt_yaml pt) (to_lower paramName))) (\<lambda>_.
         return (Some [[''Global preference was successfully updated.'']]))))"

definition odo_preference_set ::
  "preference_tools \<Rightarrow> 's survey \<Rightarrow> bool \<Rightarrow> string list \<Rightarrow> ('s world, printed option) op" where
  "odo_preference_set pt sy force args =
     bind (lift (PreferenceSetArgs args)) (\<lambda>_.
       GenericRun (return (Some (args ! 0, args ! 1))) (\<lambda>p. return (Some p)) (PreferenceSetRun pt sy force))"

definition odo_preference_unset ::
  "preference_tools \<Rightarrow> 's survey \<Rightarrow> bool \<Rightarrow> string list \<Rightarrow> ('s world, printed option) op" where
  "odo_preference_unset pt sy force args =
     bind (lift (PreferenceUnsetArgs args)) (\<lambda>_.
       GenericRun (return (Some (args ! 0))) (\<lambda>p. return (Some p)) (PreferenceUnsetRun pt sy force))"


section \<open>Version and logout\<close>

text \<open>The server is asked when it can be reached; an error leaves its part out.\<close>

definition VersionComplete :: "'s tools \<Rightarrow> bool \<Rightarrow> ('s, ServerInfo option) op" where
  "VersionComplete te clientFlag =
     (if \<not> clientFlag then
        bind (attempt (New (to_access te) (to_connect te) True)) (\<lambda>r. case r of
          Inl _ \<Rightarrow> return None
        | Inr _ \<Rightarrow> bind (attempt (GetServerVersion (to_access te))) (\<lambda>r.
            return (case r of Inl _ \<Rightarrow> None | Inr serverInfo \<Rightarrow> Some serverInfo)))
      else return None)"

definition VersionRun :: "string \<Rightarrow> string \<Rightarrow> bool \<Rightarrow> ServerInfo option \<Rightarrow> printed" where
  "VersionRun version commit clientFlag serverInfo =
     [''odo '' @ version @ '' ('' @ commit @ '')''] #
     (case serverInfo of
        Some info \<Rightarrow> if clientFlag then [] else
          [[], [''Server: '' @ svr_address info]]
          @ (if length (svr_openshift info) > 0 then [[''OpenShift: '' @ svr_openshift info]] else [])
          @ [[''Kubernetes: '' @ svr_kubernetes info]]
      | None \<Rightarrow> [])"

definition odo_version :: "'s tools \<Rightarrow> string \<Rightarrow> string \<Rightarrow> bool \<Rightarrow> ('s, printed option) op" where
  "odo_version te version commit clientFlag = GenericRun
     (bind (VersionComplete te clientFlag) (\<lambda>serverInfo. return (Some serverInfo)))
     (\<lambda>serverInfo. return (Some serverInfo)) (\<lambda>serverInfo. return (Some (VersionRun version commit clientFlag serverInfo)))"

definition odo_logout :: "'s tools \<Rightarrow> (string \<Rightarrow> ('s, unit) op) \<Rightarrow> invocation \<Rightarrow> ('s world, unit option) op" where
  "odo_logout te write iv = GenericRun (bind (NewContext te iv) (\<lambda>cx. return (Some cx)))
     (\<lambda>cx. return (Some cx)) (\<lambda>cx. bind (on_cluster (RunLogout (to_access te) write)) (\<lambda>_. finished))"


section \<open>Properties\<close>

lemma row_names:
  assumes "distinct (map ur_name urls)"
  shows "map hd (url_rows urls i) = [cu_name i]"
proof -
  have "filter (\<lambda>u. cu_name i = ur_name u) urls = [] \<or> (\<exists>u. filter (\<lambda>u. cu_name i = ur_name u) urls = [u] \<and> ur_name u = cu_name i)"
    using assms
  proof (induction urls)
    case (Cons u us)
    have "ur_name u = cu_name i \<Longrightarrow> filter (\<lambda>w. cu_name i = ur_name w) us = []"
      using Cons.prems by (auto simp: filter_empty_conv image_iff)
    with Cons show ?case by auto
  qed simp
  then show ?thesis by (auto simp: url_rows_def Let_def)
qed


definition web_context :: "cluster cmd_context" where
  "web_context = \<lparr>cx_client = stream_client, cx_project = ''app'', cx_application = ''app'', cx_cmp = ''web'', cx_output = []\<rparr>"

text \<open>The cluster has \<open>www\<close>, the configuration only \<open>api\<close>.\<close>

definition api_lci :: LocalConfigInfo where
  "api_lci = example_lci (web_settings\<lparr>cs_url := Some [\<lparr>cu_name = ''api'', cu_port = 8080\<rparr>]\<rparr>)"


lemma view_loaded:
  assumes "load_preference pt d = (Inr cfg, d)"
  shows "PreferenceViewRun pt (d, t) = (Inr (Some [[''PARAMETER'', ''CURRENT_VALUE''],
       [''UpdateNotification'', showBlankIfNil (map_option show_bool (os_update_notification (pi_settings cfg)))],
       [''NamePrefix'', showBlankIfNil (os_name_prefix (pi_settings cfg))],
       [''Timeout'', showBlankIfNil (map_option show_int (os_timeout (pi_settings cfg)))]]), (d, t))"
  using assms by (simp add: PreferenceViewRun_def on_fst_def or_exit_def bind_def return_def Let_def)

lemma load_preference_ok:
  assumes "load_preference pt d = (Inr cfg, d')" and "getPreferenceFile (pt_env pt) (pt_custom_home pt) (pt_user_home pt) = Inr p"
  shows "d' = d" and "pi_filename cfg = p"
proof -
  have get: "GetFromFile y c p d = (r, d'') \<Longrightarrow> d'' = d" for y :: "preference yaml" and c r d''
    by (auto simp: GetFromFile_def read_file_def op_simps split: option.splits sum.splits if_splits prod.splits)
  show "d' = d" and "pi_filename cfg = p"
    using assms by (auto simp: load_preference_def NewPreferenceInfo_def bind_ok_iff wrapping_ok_iff lift_ok_iff return_ok_iff get_state_def
        split: if_splits dest: get)
qed

text \<open>C33. 
  C0. Round trip: after \<open>odo preference set NamePrefix\<close> has said that the preference was updated, \<open>odo preference
  view\<close> shows the new prefix, and the other preferences as it showed them before.
\<close>

theorem preference_set_viewed:
  assumes "yaml_roundtrip (pt_yaml pt) NewPreference (\<lambda>_. True)"
    and "PreferenceSetRun pt sy force (''NamePrefix'', v) (d, s) = (Inr (Some [[''Global preference was successfully updated.'']]), (d', s'))"
    and "getPreferenceFile (pt_env pt) (pt_custom_home pt) (pt_user_home pt) = Inr p" and "p \<notin> set (dk_unreadable d)"
  shows "\<exists>head notify prefix timeout.
     PreferenceViewRun pt (d, t) = (Inr (Some [head, notify, prefix, timeout]), (d, t)) \<and>
     PreferenceViewRun pt (d', t) = (Inr (Some [head, notify, [''NamePrefix'', v], timeout]), (d', t))"
proof -
  obtain cfg where load: "load_preference pt d = (Inr cfg, d)" and name: "pi_filename cfg = p"
    and run: "\<exists>c' s1. PrefSetConfiguration (pt_yaml pt) (to_lower ''NamePrefix'') v (cfg, d) = (Inr (), (c', d'))"
  proof -
    from assms(2) obtain cfg d1 where load: "load_preference pt d = (Inr cfg, d1)"
      and rest: "\<exists>c' s1. PrefSetConfiguration (pt_yaml pt) (to_lower ''NamePrefix'') v (cfg, d1) = (Inr (), (c', d'))"
      by (auto simp: PreferenceSetRun_def bind_ok_iff wrapping_ok_iff on_fst_def on_preference_def on_snd_ok_iff
          return_ok_iff split: prod.splits if_splits)
    note ok = load_preference_ok [OF load assms(3)]
    show thesis using that load rest ok by blast
  qed
  from run obtain c' where "PrefSetConfiguration (pt_yaml pt) (to_lower ''NamePrefix'') v (cfg, d) = (Inr (), (c', d'))" by blast
  from PrefSetConfiguration_ok [OF this] obtain f where f: "pref_update (to_lower ''NamePrefix'') (to_lower (to_lower ''NamePrefix'')) v = Inr f"
    and c': "c' = cfg\<lparr>pi_settings := f (pi_settings cfg)\<rparr>"
    and w: "WriteToFile (pt_yaml pt) (pi_type_meta c', pi_settings c') (pi_filename c') d = (Inr (), d')" by blast
  have "to_lower (to_lower ''NamePrefix'') = ''nameprefix''" by code_simp
  with f have f: "f = os_name_prefix_update (\<lambda>_. Some v)" by (simp add: pref_update_def)
  have w: "WriteToFile (pt_yaml pt) (pi_type_meta c', pi_settings c') p d = (Inr (), d')"
    using w c' name by simp
  have "GetFromFile (pt_yaml pt) NewPreference p d' = (Inr (pi_type_meta c', pi_settings c'), d')"
    by (rule WriteToFile_GetFromFile [OF assms(1) _ assms(4) w]) simp
  moreover have "\<not> not_exist d' p" using WriteToFile_ok [OF w] by (auto simp: not_exist_def has_key_def)
  ultimately have load': "load_preference pt d' =
      (Inr \<lparr>pi_filename = p, pi_type_meta = pi_type_meta c', pi_settings = pi_settings c'\<rparr>, d')"
    using assms(3) by (simp add: load_preference_def NewPreferenceInfo_def op_simps)
  show ?thesis using view_loaded [OF load, of t] view_loaded [OF load', of t] c' f by (simp add: showBlankIfNil_def)
qed

text \<open>A library that keeps the preferences with the prefix \<open>shop\<close> only.\<close>

definition shop_preference :: preference where
  "shop_preference = (fst NewPreference, no_odo_settings\<lparr>os_name_prefix := Some ''shop''\<rparr>)"

definition shop_preferences :: preference_tools where
  "shop_preferences = \<lparr>pt_yaml = \<lparr>marshal = (\<lambda>c. if c = shop_preference then Inr ''shop'' else fails ''unsupported'' []),
       unmarshal = (\<lambda>_ _. Inr shop_preference)\<rparr>, pt_env = Some ''/p/.odo/preference.yaml'', pt_custom_home = [], pt_user_home = Inr []\<rparr>"

theorem preference_set_viewed_witness:
  "\<exists>d head notify timeout. fst (PreferenceSetRun shop_preferences eager_user True (''NamePrefix'', ''shop'') (example_disk, web_state)) =
       Inr (Some [[''Global preference was successfully updated.'']]) \<and>
     PreferenceViewRun shop_preferences (d, web_state) = (Inr (Some [head, notify, [''NamePrefix'', ''shop''], timeout]), (d, web_state))"
proof -
  let ?run = "PreferenceSetRun shop_preferences eager_user True (''NamePrefix'', ''shop'') (example_disk, web_state)"
  have set: "fst ?run = Inr (Some [[''Global preference was successfully updated.'']])" by code_simp
  obtain d u where run: "?run = (Inr (Some [[''Global preference was successfully updated.'']]), (d, u))"
    using set by (metis prod.collapse)
  have y: "yaml_roundtrip (pt_yaml shop_preferences) NewPreference (\<lambda>_. True)"
    by (auto simp: yaml_roundtrip_def shop_preferences_def fails_def split: if_splits)
  have p: "getPreferenceFile (pt_env shop_preferences) (pt_custom_home shop_preferences) (pt_user_home shop_preferences)
      = Inr ''/p/.odo/preference.yaml''"
    by (simp add: getPreferenceFile_def shop_preferences_def)
  have "''/p/.odo/preference.yaml'' \<notin> set (dk_unreadable example_disk)" by (simp add: example_disk_def)
  from preference_set_viewed [OF y run p this, of web_state] set show ?thesis by blast
qed

end
