(* ===== verification/Completion.thy ===== *)
theory Completion
  imports ListCmd
begin

text \<open>
  Completion on the command line, \<open>pkg/odo/util/completion\<close> and \<open>createCompletion\<close> of \<open>cmd/odo\<close>: what
  the user has typed is parsed, a handler looks up the names that fit, and the tree of commands
  becomes a tree of completions. No suggestion and an empty list of suggestions are one.
\<close>


section \<open>What the user typed\<close>

record parsed_args =
  pg_original :: "string list"
  pg_typed :: "string list"
  pg_commands :: "bool gomap"
  pg_flags :: "string gomap"

text \<open>The words after the first occurrence of the name of the command.\<close>

fun typed_words :: "bool \<Rightarrow> string \<Rightarrow> string list \<Rightarrow> string list" where
  "typed_words found name [] = []"
| "typed_words found name (a # completed) =
     (if a = name \<and> \<not> found then typed_words True name completed
      else if found then a # typed_words found name completed
      else typed_words found name completed)"

definition getUserTypedCommands :: "string list \<Rightarrow> string \<Rightarrow> string list" where
  "getUserTypedCommands completed name = typed_words False name completed"

text \<open>
  The flag library: parsing changes the flags of the command, and answers with the arguments that
  are no flags and the flags that are set.
\<close>

definition getCommandsAndFlags ::
  "(string list \<Rightarrow> ('s, string list \<times> (string \<times> string) list) op) \<Rightarrow> string list \<Rightarrow> ('s, bool gomap \<times> string gomap) op" where
  "getCommandsAndFlags parse args =
     (if length args = 0 then return ([], [])
      else bind (attempt (parse args)) (\<lambda>r. case r of
        Inl _ \<Rightarrow> return ([], [])
      | Inr (cmds, visited) \<Rightarrow> return (foldl (\<lambda>m strippedCommand. put strippedCommand True m) [] cmds,
          foldl (\<lambda>m (name, v). put name v m) [] visited)))"

definition NewParsedArgs ::
  "(string list \<Rightarrow> ('s, string list \<times> (string \<times> string) list) op) \<Rightarrow> string list \<Rightarrow> string \<Rightarrow> ('s, parsed_args) op" where
  "NewParsedArgs parse completed name =
     (let typed = getUserTypedCommands completed name in
      bind (getCommandsAndFlags parse typed) (\<lambda>(commands, flagValues).
      bind (if length typed > 2 then
              bind (getCommandsAndFlags parse (butlast typed)) (\<lambda>(_, flagValuesWithoutLast).
                return (foldl (\<lambda>m (k, v). put k v m) flagValues flagValuesWithoutLast))
            else return flagValues) (\<lambda>flagValues.
      bind (attempt (parse typed)) (\<lambda>_.
        return \<lparr>pg_original = completed, pg_typed = typed, pg_commands = commands, pg_flags = flagValues\<rparr>))))"

definition typed_command :: "parsed_args \<Rightarrow> string \<Rightarrow> bool" where
  "typed_command args name = (case lookup (pg_commands args) name of None \<Rightarrow> False | Some b \<Rightarrow> b)"


section \<open>Handlers\<close>

type_synonym 's handler = "parsed_args \<Rightarrow> 's cmd_context \<Rightarrow> ('s world, string list) op"

text \<open>The loop of most handlers: a name that has been typed ends the suggestions.\<close>

fun suggest_names :: "parsed_args \<Rightarrow> string list \<Rightarrow> string list \<Rightarrow> string list" where
  "suggest_names args completions [] = completions"
| "suggest_names args completions (name # names) =
     (if typed_command args name then [] else suggest_names args (completions @ [name]) names)"

definition suggesting :: "('s, string list) op \<Rightarrow> parsed_args \<Rightarrow> ('s, string list) op" where
  "suggesting names args = bind (attempt names) (\<lambda>r. case r of
     Inl _ \<Rightarrow> return [] | Inr ns \<Rightarrow> return (suggest_names args [] ns))"

definition ServiceCompletionHandler :: "'s handler" where
  "ServiceCompletionHandler args cx = on_cluster (suggesting
     (bind (ServiceList (cx_client cx) (cx_application cx)) (\<lambda>services. return (map sf_name services))) args)"

definition ServiceClassCompletionHandler :: "'s handler" where
  "ServiceClassCompletionHandler args cx = on_cluster (suggesting
     (bind (GetClusterServiceClasses (cx_client cx)) (\<lambda>services. return (map sc_external_name services))) args)"

definition ServicePlanCompletionHandler :: "'s handler" where
  "ServicePlanCompletionHandler args cx =
     (if length (pg_original args) < 2 then return []
      else let inputServiceName = pg_original args ! 1 in
        on_cluster (bind (attempt (GetClusterServiceClass (cx_client cx) inputServiceName)) (\<lambda>r. case r of
          Inl _ \<Rightarrow> return []
        | Inr clusterServiceClass \<Rightarrow>
            bind (attempt (GetClusterPlansFromServiceName (cx_client cx) (sc_name clusterServiceClass))) (\<lambda>r. case r of
              Inl _ \<Rightarrow> return []
            | Inr servicePlans \<Rightarrow> return (map pl_external_name servicePlans)))))"

fun find_plan :: "string \<Rightarrow> ServicePlan list \<Rightarrow> ServicePlan option" where
  "find_plan name [] = None"
| "find_plan name (servicePlan # plans) = (if pn_name servicePlan = name then Some servicePlan else find_plan name plans)"

text \<open>A parameter is left out when its name occurs anywhere in the text of the parameters already given.\<close>

definition ServiceParameterCompletionHandler ::
  "(string \<Rightarrow> error + json_value gomap) \<Rightarrow> (string \<Rightarrow> error + string list \<times> ServicePlanParameter gomap) \<Rightarrow> 's handler" where
  "ServiceParameterCompletionHandler parse_meta parse_schema args cx =
     (if length (pg_original args) < 2 then return []
      else let inputServiceName = pg_original args ! 1; inputPlanName = get_str (pg_flags args) ''plan'' in
        on_cluster (bind (attempt (GetServiceClassAndPlans parse_meta parse_schema (cx_client cx) inputServiceName)) (\<lambda>r. case r of
          Inl _ \<Rightarrow> return []
        | Inr (_, servicePlans) \<Rightarrow>
            return (
              if length servicePlans = 0 then []
              else case (if length servicePlans = 1 \<and> inputPlanName = [] then Some (hd servicePlans)
                         else find_plan inputPlanName servicePlans) of
                None \<Rightarrow> []
              | Some matchingServicePlan \<Rightarrow>
                  let alreadyAddedParameters = get_str (pg_flags args) ''parameters'' in
                  foldl (\<lambda>completions parameter.
                    if \<not> contains_str alreadyAddedParameters (pp_name parameter) then completions @ [pp_name parameter]
                    else completions) [] (pn_parameters matchingServicePlan)))))"

definition AppCompletionHandler :: "'s handler" where
  "AppCompletionHandler args cx = on_cluster (suggesting (AppList (cx_client cx)) args)"

text \<open>\<open>predict\<close> lists the files that fit what is typed.\<close>

definition FileCompletionHandler :: "(string list \<Rightarrow> string list) \<Rightarrow> 's handler" where
  "FileCompletionHandler predict args cx = return ([] @ predict (pg_original args))"

definition ProjectNameCompletionHandler :: "'s handler" where
  "ProjectNameCompletionHandler args cx = on_cluster (suggesting (GetProjectNames (cx_client cx)) args)"

definition URLCompletionHandler :: "'s handler" where
  "URLCompletionHandler args cx = on_cluster (bind (ContextComponent cx []) (\<lambda>(cmp, cx). suggesting
     (bind (UrlListAll (cx_client cx) cmp (cx_application cx)) (\<lambda>urls. return (map ur_name (ul_items urls)))) args))"

definition StorageDeleteCompletionHandler :: "'s tools \<Rightarrow> 's handler" where
  "StorageDeleteCompletionHandler te args cx = suggesting
     (bind (load_config te []) (\<lambda>localConfig. return (map css_name (LocalStorageList localConfig)))) args"

definition StorageMountCompletionHandler :: "'s handler" where
  "StorageMountCompletionHandler args cx = on_cluster (suggesting
     (bind (ListUnmounted (cx_client cx) (cx_application cx)) (\<lambda>storages. return (map sg_name (sl_items storages)))) args)"

definition StorageUnMountCompletionHandler :: "'s handler" where
  "StorageUnMountCompletionHandler args cx = on_cluster (bind (ContextComponent cx []) (\<lambda>(cmp, cx). suggesting
     (bind (ListMounted (cx_client cx) cmp (cx_application cx)) (\<lambda>storageList. return (map sg_name (sl_items storageList)))) args))"

definition CreateCompletionHandler :: "'s handler" where
  "CreateCompletionHandler args cx = on_cluster (suggesting
     (bind (CatalogList (cx_client cx)) (\<lambda>catalogList. return (map cg_name catalogList))) args)"

definition ComponentNameCompletionHandler :: "'s handler" where
  "ComponentNameCompletionHandler args cx = on_cluster (suggesting
     (bind (ListComponents (cx_client cx) (cx_application cx)) (\<lambda>components. return (map co_name (cl_items components)))) args)"

text \<open>
  The components and services a loop goes over: \<open>None\<close> when one of them has been typed. The
  current component is asked for at each other component.
\<close>

fun other_components ::
  "parsed_args \<Rightarrow> 's cmd_context \<Rightarrow> (string \<Rightarrow> string list result) \<Rightarrow> string list \<Rightarrow> string list \<Rightarrow> ('s, string list option) op" where
  "other_components args cx chosen completions [] = return (Some completions)"
| "other_components args cx chosen completions (name # names) =
     (if typed_command args name then return None
      else bind (ContextComponent cx []) (\<lambda>(cmp, _).
        bind (if name \<noteq> cmp then lift (chosen name) else return []) (\<lambda>ns.
          other_components args cx chosen (completions @ ns) names)))"

fun with_services ::
  "parsed_args \<Rightarrow> (string \<Rightarrow> string list result) \<Rightarrow> string list \<Rightarrow> string list \<Rightarrow> string list result" where
  "with_services args chosen completions [] = Inr completions"
| "with_services args chosen completions (name # names) =
     (if typed_command args name then Inr []
      else bindR (chosen name) (\<lambda>ns. with_services args chosen (completions @ ns) names))"

definition linkable :: "parsed_args \<Rightarrow> 's cmd_context \<Rightarrow> (string \<Rightarrow> string list result) \<Rightarrow> ('s, string list) op" where
  "linkable args cx chosen =
     bind (attempt (ListComponents (cx_client cx) (cx_application cx))) (\<lambda>r. case r of
       Inl _ \<Rightarrow> return []
     | Inr components \<Rightarrow>
         bind (attempt (ServiceList (cx_client cx) (cx_application cx))) (\<lambda>r. case r of
           Inl _ \<Rightarrow> return []
         | Inr services \<Rightarrow>
             bind (other_components args cx chosen [] (map co_name (cl_items components))) (\<lambda>r. case r of
               None \<Rightarrow> return []
             | Some completions \<Rightarrow> lift (with_services args chosen completions (map sf_name services)))))"

definition LinkCompletionHandler :: "'s handler" where
  "LinkCompletionHandler args cx = on_cluster (linkable args cx (\<lambda>name. Inr [name]))"

definition getDCOfComponent :: "'s cmd_context \<Rightarrow> ('s, dc) op" where
  "getDCOfComponent cx = bind (ContextComponent cx []) (\<lambda>(cmp, cx).
     GetOneDeploymentConfigFromSelector (cx_client cx) (selector_of (cx_client cx) (ComponentGetLabels cmp (cx_application cx) False)))"

text \<open>A name is suggested once for each environment source whose secret has the name anywhere in its own.\<close>

fun sources_naming :: "string \<Rightarrow> env_from list \<Rightarrow> string list result" where
  "sources_naming name [] = Inr []"
| "sources_naming name (None # envs) = Inl (Panic ''nil pointer dereference: SecretRef.Name'')"
| "sources_naming name (Some secret # envs) = bindR (sources_naming name envs) (\<lambda>ns.
     Inr (if contains_str secret name then name # ns else ns))"

definition UnlinkCompletionHandler :: "'s handler" where
  "UnlinkCompletionHandler args cx = on_cluster (bind (attempt (getDCOfComponent cx)) (\<lambda>r. case r of
     Inl _ \<Rightarrow> return []
   | Inr dcOfCurrentComponent \<Rightarrow> linkable args cx (\<lambda>name.
       bindR (first_container dcOfCurrentComponent) (\<lambda>ct. sources_naming name (ct_env_from ct)))))"


section \<open>The registry\<close>

text \<open>
  A handler belongs to a command, or to a flag of a command when the flag is not empty. The full
  name of a command stands for its pointer.
\<close>

type_synonym 'p registry = "((string \<times> string) \<times> 'p) list"

definition RegisterCommandFlagHandler :: "string \<Rightarrow> string \<Rightarrow> 'p \<Rightarrow> 'p registry \<Rightarrow> 'p registry" where
  "RegisterCommandFlagHandler command flag predictor completionHandlers =
     ((command, flag), predictor) # filter (\<lambda>e. fst e \<noteq> (command, flag)) completionHandlers"

definition RegisterCommandHandler :: "string \<Rightarrow> 'p \<Rightarrow> 'p registry \<Rightarrow> 'p registry" where
  "RegisterCommandHandler command predictor completionHandlers = RegisterCommandFlagHandler command [] predictor completionHandlers"

definition GetCommandFlagHandler :: "string \<Rightarrow> string \<Rightarrow> 'p registry \<Rightarrow> 'p option" where
  "GetCommandFlagHandler command flag completionHandlers = map_of completionHandlers (command, flag)"

definition GetCommandHandler :: "string \<Rightarrow> 'p registry \<Rightarrow> 'p option" where
  "GetCommandHandler command completionHandlers = map_of completionHandlers (command, [])"

text \<open>What the registry finds is what was registered last for the command and the flag.\<close>

lemma GetCommandFlagHandler_register [simp]:
  "GetCommandFlagHandler c f (RegisterCommandFlagHandler c' f' p reg) =
     (if (c, f) = (c', f') then Some p else GetCommandFlagHandler c f reg)"
  unfolding GetCommandFlagHandler_def RegisterCommandFlagHandler_def
  by (induction reg) auto

text \<open>A handler runs on what is typed and the context of the command.\<close>

definition Predict ::
  "'s handler \<Rightarrow> (string list \<Rightarrow> ('s world, string list \<times> (string \<times> string) list) op) \<Rightarrow> ('s world, 's cmd_context) op \<Rightarrow>
   string list \<Rightarrow> string \<Rightarrow> ('s world, string list) op" where
  "Predict predictor parse ctxLoader completed name =
     bind (NewParsedArgs parse completed name) (\<lambda>args. bind ctxLoader (\<lambda>cx. predictor args cx))"


section \<open>What is suggested\<close>

lemma suggest_names_eq:
  "suggest_names args completions names = (if list_ex (typed_command args) names then [] else completions @ names)"
  by (induction names arbitrary: completions) simp_all

text \<open>The contract of the handlers that suggest the names of a listing.\<close>

locale name_suggestions =
  fixes handler :: "'s handler" and names :: "'s cmd_context \<Rightarrow> ('s world, string list) op"
  assumes suggests: "handler args cx = suggesting (names cx) args"
begin

lemma suggested:
  "names cx w = (Inr ns, w') \<Longrightarrow> handler args cx w = (Inr (if list_ex (typed_command args) ns then [] else ns), w')"
  by (simp add: suggests suggesting_def bind_def attempt_def return_def suggest_names_eq)

lemma silent: "names cx w = (Inl (Err e), w') \<Longrightarrow> handler args cx w = (Inr [], w')"
  by (simp add: suggests suggesting_def bind_def attempt_def return_def)

lemma only_listed: "names cx w = (Inr ns, w') \<Longrightarrow> handler args cx w = (Inr out, w'') \<Longrightarrow> set out \<subseteq> set ns"
  by (auto simp: suggested split: if_splits)

end

lemma suggesting_on_cluster: "on_cluster (suggesting m args) = suggesting (on_cluster m) args"
  by (rule ext) (auto simp: suggesting_def on_snd_def bind_def attempt_def return_def split: prod.splits sum.splits fault.splits)

lemma suggesting_after:
  assumes "\<And>w. (\<exists>a. m w = (Inr a, w)) \<or> (\<exists>f. m w = (Inl f, w) \<and> (\<forall>e. f \<noteq> Err e))"
  shows "bind m (\<lambda>a. suggesting (k a) args) = suggesting (bind m k) args"
proof
  fix w
  show "bind m (\<lambda>a. suggesting (k a) args) w = suggesting (bind m k) args w"
    using assms [of w] by (auto simp: suggesting_def bind_def attempt_def split: fault.splits)
qed

lemma suggesting_after_pair:
  assumes "\<And>w. (\<exists>a. m w = (Inr a, w)) \<or> (\<exists>f. m w = (Inl f, w) \<and> (\<forall>e. f \<noteq> Err e))"
  shows "bind m (\<lambda>(a, b). suggesting (k a b) args) = suggesting (bind m (\<lambda>(a, b). k a b)) args"
  using suggesting_after [OF assms, of "\<lambda>(a, b). k a b" args] by (simp add: case_prod_unfold)

lemma component_or_exit:
  "(\<exists>a. ContextComponent cx [] w = (Inr a, w)) \<or> (\<exists>f. ContextComponent cx [] w = (Inl f, w) \<and> (\<forall>e. f \<noteq> Err e))"
  by (simp add: ContextComponent_def ComponentAllowingEmpty_def fault_def return_def)

interpretation services_suggested: name_suggestions ServiceCompletionHandler
  "\<lambda>cx. on_cluster (bind (ServiceList (cx_client cx) (cx_application cx)) (\<lambda>services. return (map sf_name services)))"
  by unfold_locales (simp add: ServiceCompletionHandler_def suggesting_on_cluster)

interpretation classes_suggested: name_suggestions ServiceClassCompletionHandler
  "\<lambda>cx. on_cluster (bind (GetClusterServiceClasses (cx_client cx)) (\<lambda>services. return (map sc_external_name services)))"
  by unfold_locales (simp add: ServiceClassCompletionHandler_def suggesting_on_cluster)

interpretation apps_suggested: name_suggestions AppCompletionHandler "\<lambda>cx. on_cluster (AppList (cx_client cx))"
  by unfold_locales (simp add: AppCompletionHandler_def suggesting_on_cluster)

interpretation projects_suggested: name_suggestions ProjectNameCompletionHandler "\<lambda>cx. on_cluster (GetProjectNames (cx_client cx))"
  by unfold_locales (simp add: ProjectNameCompletionHandler_def suggesting_on_cluster)

interpretation types_suggested: name_suggestions CreateCompletionHandler
  "\<lambda>cx. on_cluster (bind (CatalogList (cx_client cx)) (\<lambda>catalogList. return (map cg_name catalogList)))"
  by unfold_locales (simp add: CreateCompletionHandler_def suggesting_on_cluster)

interpretation unmounted_suggested: name_suggestions StorageMountCompletionHandler
  "\<lambda>cx. on_cluster (bind (ListUnmounted (cx_client cx) (cx_application cx)) (\<lambda>storages. return (map sg_name (sl_items storages))))"
  by unfold_locales (simp add: StorageMountCompletionHandler_def suggesting_on_cluster)

interpretation configured_suggested: name_suggestions "StorageDeleteCompletionHandler te"
  "\<lambda>cx. bind (load_config te []) (\<lambda>localConfig. return (map css_name (LocalStorageList localConfig)))" for te
  by unfold_locales (simp add: StorageDeleteCompletionHandler_def)

interpretation urls_suggested: name_suggestions URLCompletionHandler
  "\<lambda>cx. on_cluster (bind (ContextComponent cx []) (\<lambda>(cmp, cx).
     bind (UrlListAll (cx_client cx) cmp (cx_application cx)) (\<lambda>urls. return (map ur_name (ul_items urls)))))"
  by unfold_locales (simp add: URLCompletionHandler_def suggesting_after_pair [OF component_or_exit] suggesting_on_cluster)

interpretation mounted_suggested: name_suggestions StorageUnMountCompletionHandler
  "\<lambda>cx. on_cluster (bind (ContextComponent cx []) (\<lambda>(cmp, cx).
     bind (ListMounted (cx_client cx) cmp (cx_application cx)) (\<lambda>storages. return (map sg_name (sl_items storages)))))"
  by unfold_locales (simp add: StorageUnMountCompletionHandler_def suggesting_after_pair [OF component_or_exit] suggesting_on_cluster)

interpretation components_suggested: name_suggestions ComponentNameCompletionHandler
  "\<lambda>cx. on_cluster (bind (ListComponents (cx_client cx) (cx_application cx)) (\<lambda>components. return (map co_name (cl_items components))))"
  by unfold_locales (simp add: ComponentNameCompletionHandler_def suggesting_on_cluster)

text \<open>
  C0. Functional: the suggestions for the name of a component are the components of the application in the order
  they are listed, or none once one of them has been typed; when they cannot be listed nothing is suggested and
  no error is reported. The configuration on the disk is not touched.
\<close>

theorem component_names_suggested:
  "ListComponents (cx_client cx) (cx_application cx) s = (listed, s') \<Longrightarrow> (case listed of Inl f \<Rightarrow> \<exists>e. f = Err e | Inr _ \<Rightarrow> True) \<Longrightarrow>
     ComponentNameCompletionHandler args cx (d, s) = (Inr (case listed of
        Inl _ \<Rightarrow> []
      | Inr components \<Rightarrow> let ns = map co_name (cl_items components) in if list_ex (typed_command args) ns then [] else ns), (d, s'))"
  by (cases listed)
    (auto simp: components_suggested.suggested components_suggested.silent on_snd_def bind_def return_def Let_def)

definition typing :: "string list \<Rightarrow> parsed_args" where
  "typing names = \<lparr>pg_original = [], pg_typed = names, pg_commands = map (\<lambda>n. (n, True)) names, pg_flags = []\<rparr>"

theorem component_names_suggested_witness:
  "ComponentNameCompletionHandler (typing [''db'']) web_context (web_disk, routed_state) = (Inr [''web''], (web_disk, routed_state))
   \<and> ComponentNameCompletionHandler (typing [''web'']) web_context (web_disk, routed_state) = (Inr [], (web_disk, routed_state))"
proof -
  have "ListComponents stream_client ''app'' routed_state = (Inr (component_list_format [shown_web]), routed_state)" by code_simp
  then have l: "ListComponents (cx_client web_context) (cx_application web_context) routed_state
      = (Inr (component_list_format [shown_web]), routed_state)" by (simp add: web_context_def)
  have "co_name shown_web = ''web''" by code_simp
  then show ?thesis
    using component_names_suggested [OF l, of "typing [''db'']" web_disk] component_names_suggested [OF l, of "typing [''web'']" web_disk]
    by (simp add: component_list_format_def typing_def typed_command_def lookup_def)
qed

text \<open>
  C0. Error: a name is suggested to \<open>odo unlink\<close> once for every linked secret in whose name it occurs, at
  whatever place: a service that is not linked is suggested when its name is part of the name of one that is.
\<close>

theorem unlink_by_part_of_name:
  "sources_naming name (map Some secrets) = Inr (map (\<lambda>_. name) (filter (\<lambda>secret. contains_str secret name) secrets))"
  by (induction secrets) (simp_all add: bindR_def)

text \<open>A missing secret reference is a nil dereference.\<close>

lemma sources_naming_nil: "None \<in> set envs \<Longrightarrow> \<exists>m. sources_naming name envs = Inl (Panic m)"
  by (induction envs rule: sources_naming.induct) (auto simp: bindR_def)

lemma part_of_name_example: "sources_naming ''db'' [Some ''mydb-app''] = Inr [''db'']"
  by code_simp

text \<open>
  C0. Functional: of the words of the command line, what comes after the first occurrence of the name of the
  command is what the user typed; without an occurrence nothing is.
\<close>

theorem typed_after_command:
  "getUserTypedCommands completed name = tl (dropWhile (\<lambda>a. a \<noteq> name) completed)"
proof -
  have "typed_words True name xs = xs" for xs by (induction xs) simp_all
  then show ?thesis unfolding getUserTypedCommands_def by (induction completed) simp_all
qed

end
