(* ===== verification/Commands.thy ===== *)
theory Commands
  imports Completion
begin

text \<open>
  The commands of odo as they are built, one definition per constructor \<open>NewCmd...\<close> of
  \<open>pkg/odo/cli\<close>: the name and usage line of each command, its positional arguments, its flags, the
  completions registered for it and its subcommands, up to the root command of
  \<open>pkg/odo/cli/cli.go\<close>. The long descriptions and the examples of the commands are prose and come
  from a parameter; the examples of a group are put together here. What a command does when it runs
  is in the theories of the commands.
\<close>


section \<open>A command\<close>

record command_flag =
  fl_name :: string
  fl_shorthand :: string
  fl_hidden :: bool
  fl_usage :: string

datatype positional = NoArgs | ExactArgs nat | MaximumNArgs nat | RangeArgs nat nat | ArbitraryArgs | OwnArgs

datatype completer = CompleteServices | CompleteServiceClasses | CompleteServicePlans | CompleteServiceParameters | CompleteApps
  | CompleteFiles | CompleteProjects | CompleteURLs | CompleteConfiguredStorage | CompleteUnmountedStorage
  | CompleteMountedStorage | CompleteComponentTypes | CompleteLinks | CompleteUnlinks | CompleteComponents

text \<open>
  The full name stands for the pointer to the command. \<open>cd_run\<close> and \<open>cd_run_e\<close> say whether \<open>Run\<close> and
  \<open>RunE\<close> are set; a completer with an empty flag is the one of the command.
\<close>

record command_data =
  cd_id :: string
  cd_use :: string
  cd_short :: string
  cd_long :: string
  cd_example :: string
  cd_aliases :: "string list"
  cd_annotation :: string
  cd_hidden :: bool
  cd_args :: "positional option"
  cd_run :: bool
  cd_run_e :: bool
  cd_flags :: "command_flag list"
  cd_persistent :: "command_flag list"
  cd_required :: "string list"
  cd_completers :: "(string \<times> completer) list"

datatype command = Command (cmd_data: command_data) (cmd_subs: "command list")

text \<open>The long description and the example of the command of a full name.\<close>

type_synonym prose = "string \<Rightarrow> string \<times> string"

definition group_command :: "prose \<Rightarrow> string \<Rightarrow> string \<Rightarrow> string \<Rightarrow> command_data" where
  "group_command prose fullName use short = \<lparr>cd_id = fullName, cd_use = use, cd_short = short, cd_long = fst (prose fullName),
     cd_example = snd (prose fullName), cd_aliases = [], cd_annotation = [], cd_hidden = False, cd_args = None, cd_run = False,
     cd_run_e = False, cd_flags = [], cd_persistent = [], cd_required = [], cd_completers = []\<rparr>"

text \<open>A command that runs something, unlike most groups.\<close>

definition cobra_command :: "prose \<Rightarrow> string \<Rightarrow> string \<Rightarrow> string \<Rightarrow> command_data" where
  "cobra_command prose fullName use short = (group_command prose fullName use short)\<lparr>cd_run := True\<rparr>"

abbreviation example :: "command \<Rightarrow> string" where
  "example c \<equiv> cd_example (cmd_data c)"

definition on_data :: "(command_data \<Rightarrow> command_data) \<Rightarrow> command \<Rightarrow> command" where
  "on_data f c = Command (f (cmd_data c)) (cmd_subs c)"

definition with_flag :: "command_flag \<Rightarrow> command_data \<Rightarrow> command_data" where
  "with_flag flag d = d\<lparr>cd_flags := cd_flags d @ [flag]\<rparr>"

definition with_completer :: "string \<Rightarrow> completer \<Rightarrow> command_data \<Rightarrow> command_data" where
  "with_completer flag h d = d\<lparr>cd_completers := cd_completers d @ [(flag, h)]\<rparr>"

abbreviation completing :: "completer \<Rightarrow> command \<Rightarrow> command" where
  "completing h c \<equiv> on_data (with_completer [] h) c"

definition plain_flag :: "string \<Rightarrow> string \<Rightarrow> string \<Rightarrow> command_flag" where
  "plain_flag name shorthand usage = \<lparr>fl_name = name, fl_shorthand = shorthand, fl_hidden = False, fl_usage = usage\<rparr>"

definition AddProjectFlag :: "command_data \<Rightarrow> command_data" where
  "AddProjectFlag cmd = with_completer ''project'' CompleteProjects
     (with_flag (plain_flag ProjectFlagName [] ''Project, defaults to active project'') cmd)"

definition AddApplicationFlag :: "command_data \<Rightarrow> command_data" where
  "AddApplicationFlag cmd = with_completer ''app'' CompleteApps
     (with_flag (plain_flag ApplicationFlagName [] ''Application, defaults to active application'') cmd)"

definition AddComponentFlag :: "command_data \<Rightarrow> command_data" where
  "AddComponentFlag cmd = with_completer ''component'' CompleteComponents
     (with_flag (plain_flag ComponentFlagName [] ''Component, defaults to active component.'') cmd)"

definition AddOutputFlag :: "command_data \<Rightarrow> command_data" where
  "AddOutputFlag cmd = with_flag (plain_flag OutputFlagName ''o'' ''Specify output format, supported format: json'') cmd"

definition context_flag :: command_flag where
  "context_flag = plain_flag ''context'' [] ''Use given context directory as a source for component settings''"

definition AddContextFlag :: "command_data \<Rightarrow> command_data" where
  "AddContextFlag cmd = with_flag context_flag cmd"

text \<open>The flags of a set that are not in another one are added to it.\<close>

definition AddFlagSet :: "command_flag list \<Rightarrow> command_flag list \<Rightarrow> command_flag list" where
  "AddFlagSet flags new = foldl (\<lambda>fs flag. if fl_name flag \<in> set (map fl_name fs) then fs else fs @ [flag]) flags new"


section \<open>Applications\<close>

definition NewCmdAppDelete :: "prose \<Rightarrow> string \<Rightarrow> string \<Rightarrow> command" where
  "NewCmdAppDelete prose name fullName = Command (AddProjectFlag (AddOutputFlag ((cobra_command prose fullName name ''Delete the given application'')
     \<lparr>cd_args := Some (MaximumNArgs 1),
      cd_flags := [plain_flag ''force'' ''f'' ''Delete application without prompting''],
      cd_completers := [('''', CompleteApps)]\<rparr>))) []"

definition NewCmdAppDescribe :: "prose \<Rightarrow> string \<Rightarrow> string \<Rightarrow> command" where
  "NewCmdAppDescribe prose name fullName = Command (AddProjectFlag ((cobra_command prose fullName (name @ '' [application_name]'') ''Describe the given application'')
     \<lparr>cd_args := Some (MaximumNArgs 1),
      cd_flags := [plain_flag ''output'' ''o'' ''output in json format''],
      cd_completers := [('''', CompleteApps)]\<rparr>)) []"

definition NewCmdAppList :: "prose \<Rightarrow> string \<Rightarrow> string \<Rightarrow> command" where
  "NewCmdAppList prose name fullName = Command (AddProjectFlag ((cobra_command prose fullName name ''List all applications in the current project'')
     \<lparr>cd_args := Some NoArgs,
      cd_flags := [plain_flag ''output'' ''o'' ''output in json format'']\<rparr>)) []"

definition NewCmdApplication :: "prose \<Rightarrow> string \<Rightarrow> string \<Rightarrow> command" where
  "NewCmdApplication prose name fullName =
     (let appDelete = NewCmdAppDelete prose ''delete'' (GetFullName fullName ''delete'');
          appDescribe = NewCmdAppDescribe prose ''describe'' (GetFullName fullName ''describe'');
          appList = NewCmdAppList prose ''list'' (GetFullName fullName ''list'')
      in Command ((group_command prose fullName name ''Perform application operations'')\<lparr>cd_example := example appDelete @ [newline] @ example appDescribe @ [newline] @ example appList, cd_aliases := [''application''], cd_annotation := ''main'', cd_run := True\<rparr>)
           [appDelete, appDescribe, appList])"


section \<open>The catalog\<close>

definition NewCmdCatalogDescribeService :: "prose \<Rightarrow> string \<Rightarrow> string \<Rightarrow> command" where
  "NewCmdCatalogDescribeService prose name fullName = Command ((cobra_command prose fullName name ''Describe a service'')
     \<lparr>cd_args := Some (ExactArgs 1)\<rparr>) []"

definition NewCmdCatalogDescribe :: "prose \<Rightarrow> string \<Rightarrow> string \<Rightarrow> command" where
  "NewCmdCatalogDescribe prose name fullName =
     (let describeService = NewCmdCatalogDescribeService prose ''service'' (GetFullName fullName ''service'')
      in Command ((group_command prose fullName name ''Describe catalog item'')\<lparr>cd_example := example describeService, cd_args := Some (ExactArgs 1)\<rparr>)
           [describeService])"

definition NewCmdCatalogListComponents :: "prose \<Rightarrow> string \<Rightarrow> string \<Rightarrow> command" where
  "NewCmdCatalogListComponents prose name fullName = Command ((cobra_command prose fullName name ''List all components available.'')) []"

definition NewCmdCatalogListServices :: "prose \<Rightarrow> string \<Rightarrow> string \<Rightarrow> command" where
  "NewCmdCatalogListServices prose name fullName = Command ((cobra_command prose fullName name ''Lists all available services'')
     \<lparr>cd_args := Some (ExactArgs 0)\<rparr>) []"

definition NewCmdCatalogList :: "prose \<Rightarrow> string \<Rightarrow> string \<Rightarrow> command" where
  "NewCmdCatalogList prose name fullName =
     (let listComponents = NewCmdCatalogListComponents prose ''components'' (GetFullName fullName ''components'');
          listServices = NewCmdCatalogListServices prose ''services'' (GetFullName fullName ''services'')
      in Command ((group_command prose fullName name ''List all available component & service types.'')\<lparr>cd_example := example listComponents @ [newline, newline] @ example listServices @ [newline]\<rparr>)
           [listComponents, listServices])"

definition NewCmdCatalogSearchComponent :: "prose \<Rightarrow> string \<Rightarrow> string \<Rightarrow> command" where
  "NewCmdCatalogSearchComponent prose name fullName = Command ((cobra_command prose fullName name ''Search component type in catalog'')
     \<lparr>cd_args := Some (ExactArgs 1)\<rparr>) []"

definition NewCmdCatalogSearchService :: "prose \<Rightarrow> string \<Rightarrow> string \<Rightarrow> command" where
  "NewCmdCatalogSearchService prose name fullName = Command ((cobra_command prose fullName name ''Search service type in catalog'')
     \<lparr>cd_args := Some (ExactArgs 1)\<rparr>) []"

definition NewCmdCatalogSearch :: "prose \<Rightarrow> string \<Rightarrow> string \<Rightarrow> command" where
  "NewCmdCatalogSearch prose name fullName =
     (let searchComponent = NewCmdCatalogSearchComponent prose ''component'' (GetFullName fullName ''component'');
          searchService = NewCmdCatalogSearchService prose ''service'' (GetFullName fullName ''service'')
      in Command ((group_command prose fullName name ''Search available component & service types.'')\<lparr>cd_example := example searchComponent @ [newline, newline] @ example searchService @ [newline]\<rparr>)
           [searchComponent, searchService])"

definition NewCmdCatalog :: "prose \<Rightarrow> string \<Rightarrow> string \<Rightarrow> command" where
  "NewCmdCatalog prose name fullName =
     (let catalogDescribe = NewCmdCatalogDescribe prose ''describe'' (GetFullName fullName ''describe'');
          catalogSearch = NewCmdCatalogSearch prose ''search'' (GetFullName fullName ''search'');
          catalogList = NewCmdCatalogList prose ''list'' (GetFullName fullName ''list'')
      in Command ((group_command prose fullName (name @ '' [options]'') ''Catalog related operations'')\<lparr>cd_example := example catalogList @ [newline] @ example catalogSearch @ [newline] @ example catalogDescribe, cd_annotation := ''main''\<rparr>)
           [catalogSearch, catalogList, catalogDescribe])"


section \<open>Components\<close>

definition NewCmdGet :: "prose \<Rightarrow> string \<Rightarrow> string \<Rightarrow> command" where
  "NewCmdGet prose name fullName = Command (AddApplicationFlag (AddProjectFlag (AddContextFlag ((cobra_command prose fullName name ''Get currently active component'')
     \<lparr>cd_args := Some NoArgs,
      cd_hidden := True,
      cd_flags := [plain_flag ''short'' ''q'' ''If true, display only the component name'']\<rparr>)))) []"

definition NewCmdCreate :: "prose \<Rightarrow> string \<Rightarrow> string \<Rightarrow> command" where
  "NewCmdCreate prose name fullName = Command (AddApplicationFlag (AddProjectFlag ((cobra_command prose fullName (name @ '' <component_type> [component_name] [flags]'') ''Create a new component'')
     \<lparr>cd_annotation := ''component'',
      cd_args := Some (RangeArgs 0 2),
      cd_flags := [plain_flag ''binary'' ''b'' ''Use a binary as the source file for the component'',
       plain_flag ''git'' ''g'' ''Use a git repository as the source file for the component'',
       plain_flag ''ref'' ''r'' ''Use a specific ref e.g. commit, branch or tag of the git repository'',
       context_flag,
       plain_flag ''memory'' [] ''Amount of memory to be allocated to the component. ex. 100Mi'',
       plain_flag ''min-memory'' [] ''Limit minimum amount of memory to be allocated to the component. ex. 100Mi'',
       plain_flag ''max-memory'' [] ''Limit maximum amount of memory to be allocated to the component. ex. 100Mi'',
       plain_flag ''cpu'' [] ''Amount of cpu to be allocated to the component. ex. 100m or 0.1'',
       plain_flag ''min-cpu'' [] ''Limit minimum amount of cpu to be allocated to the component. ex. 100m'',
       plain_flag ''max-cpu'' [] ''Limit maximum amount of cpu to be allocated to the component. ex. 1'',
       plain_flag ''port'' ''p'' ''Ports to be used when the component is created (ex. 8080,8100/tcp,9100/udp)'',
       plain_flag ''env'' [] ''Environmental variables for the component. For example --env VariableName=Value''],
      cd_completers := [('''', CompleteComponentTypes), (''context'', CompleteFiles), (''binary'', CompleteFiles)]\<rparr>))) []"

definition NewCmdDelete :: "prose \<Rightarrow> string \<Rightarrow> string \<Rightarrow> command" where
  "NewCmdDelete prose name fullName = Command (AddApplicationFlag (AddProjectFlag (AddContextFlag ((cobra_command prose fullName (name @ '' <component_name>'') ''Delete an existing component'')
     \<lparr>cd_annotation := ''component'',
      cd_args := Some (MaximumNArgs 1),
      cd_flags := [plain_flag ''force'' ''f'' ''Delete component without prompting'',
       plain_flag ''all'' ''a'' ''Delete component and local config''],
      cd_completers := [('''', CompleteComponents)]\<rparr>)))) []"

definition NewCmdDescribe :: "prose \<Rightarrow> string \<Rightarrow> string \<Rightarrow> command" where
  "NewCmdDescribe prose name fullName = Command (AddApplicationFlag (AddProjectFlag (AddContextFlag ((cobra_command prose fullName (name @ '' [component_name]'') ''Describe the given component'')
     \<lparr>cd_annotation := ''component'',
      cd_args := Some (RangeArgs 0 1),
      cd_flags := [plain_flag ''output'' ''o'' ''output in json format''],
      cd_completers := [('''', CompleteComponents)]\<rparr>)))) []"

definition NewCmdLink :: "prose \<Rightarrow> string \<Rightarrow> string \<Rightarrow> command" where
  "NewCmdLink prose name fullName = Command (AddContextFlag (AddComponentFlag (AddApplicationFlag (AddProjectFlag ((cobra_command prose fullName (name @ '' <service> --component [component] OR '' @ name @ '' <component> --component [component]'') ''Link component to a service or component'')
     \<lparr>cd_annotation := ''component'',
      cd_args := Some (ExactArgs 1),
      cd_persistent := [plain_flag ''port'' [] ''Port of the backend to which to link'',
       plain_flag ''wait'' ''w'' ''If enabled the link will return only when the component is fully running after the link is created'',
       plain_flag ''wait-for-target'' [] ''If enabled, the link command will wait for the service to be provisioned (has no effect when linking to a component)''],
      cd_completers := [('''', CompleteLinks)]\<rparr>))))) []"

definition NewCmdUnlink :: "prose \<Rightarrow> string \<Rightarrow> string \<Rightarrow> command" where
  "NewCmdUnlink prose name fullName = Command (AddContextFlag (AddComponentFlag (AddApplicationFlag (AddProjectFlag ((cobra_command prose fullName (name @ '' <service> --component [component] OR '' @ name @ '' <component> --component [component]'') ''Unlink component to a service or component'')
     \<lparr>cd_annotation := ''component'',
      cd_args := Some (ExactArgs 1),
      cd_persistent := [plain_flag ''port'' [] ''Port of the backend to which to unlink'',
       plain_flag ''wait'' ''w'' ''If enabled the link will return only when the component is fully running after the link is deleted''],
      cd_completers := [('''', CompleteUnlinks)]\<rparr>))))) []"

definition NewCmdList :: "prose \<Rightarrow> string \<Rightarrow> string \<Rightarrow> command" where
  "NewCmdList prose name fullName = Command (AddApplicationFlag (AddProjectFlag ((cobra_command prose fullName name ''List all components in the current application'')
     \<lparr>cd_annotation := ''component'',
      cd_args := Some NoArgs,
      cd_flags := [context_flag,
       plain_flag ''output'' ''o'' ''output in json format'',
       plain_flag ''path'' [] ''path''],
      cd_completers := [(''path'', CompleteFiles)]\<rparr>))) []"

definition NewCmdLog :: "prose \<Rightarrow> string \<Rightarrow> string \<Rightarrow> command" where
  "NewCmdLog prose name fullName = Command (AddApplicationFlag (AddProjectFlag (AddContextFlag ((cobra_command prose fullName (name @ '' [component_name]'') ''Retrieve the log for the given component'')
     \<lparr>cd_annotation := ''component'',
      cd_args := Some (RangeArgs 0 1),
      cd_flags := [plain_flag ''follow'' ''f'' ''Follow logs''],
      cd_completers := [('''', CompleteComponents)]\<rparr>)))) []"

definition NewCmdPush :: "prose \<Rightarrow> string \<Rightarrow> string \<Rightarrow> command" where
  "NewCmdPush prose name fullName = Command ((cobra_command prose fullName (name @ '' [component name]'') ''Push source code to a component'')
     \<lparr>cd_annotation := ''component'',
      cd_args := Some (MaximumNArgs 1),
      cd_flags := [context_flag,
       plain_flag ''show-log'' [] ''If enabled, logs will be shown when built'',
       plain_flag ''ignore'' [] ''Files or folders to be ignored via glob expressions.'',
       plain_flag ''config'' [] ''Use config flag to only apply config on to cluster'',
       plain_flag ''source'' [] ''Use source flag to only push latest source on to cluster''],
      cd_completers := [('''', CompleteComponents), (''context'', CompleteFiles)]\<rparr>) []"

definition NewCmdUpdate :: "prose \<Rightarrow> string \<Rightarrow> string \<Rightarrow> command" where
  "NewCmdUpdate prose name fullName = Command (AddProjectFlag (AddApplicationFlag ((cobra_command prose fullName name ''Update the source code path of a component'')
     \<lparr>cd_annotation := ''component'',
      cd_args := Some (MaximumNArgs 1),
      cd_flags := [context_flag,
       plain_flag ''git'' ''g'' ''git source'',
       plain_flag ''local'' ''l'' ''Use local directory as a source for component.'',
       plain_flag ''ref'' ''r'' ''Use a specific ref e.g. commit, branch or tag of the git repository''],
      cd_completers := [(''local'', CompleteFiles), (''binary'', CompleteFiles), ('''', CompleteComponents)]\<rparr>))) []"

definition NewCmdWatch :: "prose \<Rightarrow> string \<Rightarrow> string \<Rightarrow> command" where
  "NewCmdWatch prose name fullName = Command (AddProjectFlag (AddApplicationFlag (AddContextFlag ((cobra_command prose fullName (name @ '' [component name]'') ''Watch for changes, update component on change'')
     \<lparr>cd_annotation := ''component'',
      cd_args := Some (MaximumNArgs 1),
      cd_flags := [plain_flag ''show-log'' [] ''If enabled, logs will be shown when built'',
       plain_flag ''ignore'' [] ''Files or folders to be ignored via glob expressions.'',
       plain_flag ''delay'' [] ''Time in seconds between a detection of code change and push.delay=0 means changes will be pushed as soon as they are detected which can cause performance issues''],
      cd_completers := [('''', CompleteComponents)]\<rparr>)))) []"

text \<open>The group has the flags of \<open>component get\<close>.\<close>

definition NewCmdComponent :: "prose \<Rightarrow> string \<Rightarrow> string \<Rightarrow> command" where
  "NewCmdComponent prose name fullName =
     (let componentGet = NewCmdGet prose ''get'' (GetFullName fullName ''get'');
          componentCreate = NewCmdCreate prose ''create'' (GetFullName fullName ''create'');
          componentDelete = NewCmdDelete prose ''delete'' (GetFullName fullName ''delete'');
          componentDescribe = NewCmdDescribe prose ''describe'' (GetFullName fullName ''describe'');
          componentLink = NewCmdLink prose ''link'' (GetFullName fullName ''link'');
          componentUnlink = NewCmdUnlink prose ''unlink'' (GetFullName fullName ''unlink'');
          componentList = NewCmdList prose ''list'' (GetFullName fullName ''list'');
          componentLog = NewCmdLog prose ''log'' (GetFullName fullName ''log'');
          componentPush = NewCmdPush prose ''push'' (GetFullName fullName ''push'');
          componentUpdate = NewCmdUpdate prose ''update'' (GetFullName fullName ''update'');
          componentWatch = NewCmdWatch prose ''watch'' (GetFullName fullName ''watch'')
      in Command ((group_command prose fullName name ''Components of an application'')\<lparr>cd_example := fullName @ [newline] @ ''create'' @ [newline, newline] @ ''  See sub-commands individually for more examples'', cd_annotation := ''main'', cd_run := True, cd_long := [],
          cd_flags := AddFlagSet [] (cd_flags (cmd_data componentGet))\<rparr>)
           [componentGet, componentCreate, componentDelete, componentDescribe, componentLink, componentUnlink, componentList, componentLog, componentPush, componentUpdate, componentWatch])"


section \<open>Configuration and preferences\<close>

definition NewCmdConfigView :: "prose \<Rightarrow> string \<Rightarrow> string \<Rightarrow> command" where
  "NewCmdConfigView prose name fullName = Command ((cobra_command prose fullName name ''View current configuration values'')
     \<lparr>cd_args := Some (ExactArgs 0),
      cd_flags := [context_flag]\<rparr>) []"

definition NewCmdConfigSet :: "prose \<Rightarrow> string \<Rightarrow> string \<Rightarrow> command" where
  "NewCmdConfigSet prose name fullName = Command ((cobra_command prose fullName name ''Set a value in odo config file'')
     \<lparr>cd_args := Some OwnArgs,
      cd_flags := [plain_flag ''force'' ''f'' (''Don'' @ [CHR 0x27] @ ''t ask for confirmation, set the config directly''),
       plain_flag ''env'' ''e'' ''Set the environment variables in config'',
       context_flag]\<rparr>) []"

definition NewCmdConfigUnset :: "prose \<Rightarrow> string \<Rightarrow> string \<Rightarrow> command" where
  "NewCmdConfigUnset prose name fullName = Command ((cobra_command prose fullName name ''Unset a value in odo config file'')
     \<lparr>cd_args := Some OwnArgs,
      cd_flags := [plain_flag ''force'' ''f'' (''Don'' @ [CHR 0x27] @ ''t ask for confirmation, unsetting the config directly''),
       plain_flag ''env'' ''e'' ''Unset the environment variables in config'',
       context_flag]\<rparr>) []"

definition NewCmdConfiguration :: "prose \<Rightarrow> string \<Rightarrow> string \<Rightarrow> command" where
  "NewCmdConfiguration prose name fullName =
     (let configView = NewCmdConfigView prose ''view'' (GetFullName fullName ''view'');
          configSet = NewCmdConfigSet prose ''set'' (GetFullName fullName ''set'');
          configUnset = NewCmdConfigUnset prose ''unset'' (GetFullName fullName ''unset'')
      in Command ((group_command prose fullName name ''Modifies configuration settings'')\<lparr>cd_example := example configView @ [newline] @ example configSet @ [newline] @ example configUnset, cd_aliases := [''configuration''], cd_annotation := ''main''\<rparr>)
           [configView, configSet, configUnset])"

definition NewCmdPreferenceView :: "prose \<Rightarrow> string \<Rightarrow> string \<Rightarrow> command" where
  "NewCmdPreferenceView prose name fullName = Command ((cobra_command prose fullName name ''View current preference values'')
     \<lparr>cd_args := Some (ExactArgs 0)\<rparr>) []"

definition NewCmdPreferenceSet :: "prose \<Rightarrow> string \<Rightarrow> string \<Rightarrow> command" where
  "NewCmdPreferenceSet prose name fullName = Command ((cobra_command prose fullName name ''Set a value in odo config file'')
     \<lparr>cd_args := Some OwnArgs,
      cd_flags := [plain_flag ''force'' ''f'' (''Don'' @ [CHR 0x27] @ ''t ask for confirmation, set the preference directly'')]\<rparr>) []"

definition NewCmdPreferenceUnset :: "prose \<Rightarrow> string \<Rightarrow> string \<Rightarrow> command" where
  "NewCmdPreferenceUnset prose name fullName = Command ((cobra_command prose fullName name ''Unset a value in odo preference file'')
     \<lparr>cd_args := Some OwnArgs,
      cd_flags := [plain_flag ''force'' ''f'' (''Don'' @ [CHR 0x27] @ ''t ask for confirmation, unsetting the preference directly'')]\<rparr>) []"

definition NewCmdPreference :: "prose \<Rightarrow> string \<Rightarrow> string \<Rightarrow> command" where
  "NewCmdPreference prose name fullName =
     (let preferenceView = NewCmdPreferenceView prose ''view'' (GetFullName fullName ''view'');
          preferenceSet = NewCmdPreferenceSet prose ''set'' (GetFullName fullName ''set'');
          preferenceUnset = NewCmdPreferenceUnset prose ''unset'' (GetFullName fullName ''unset'')
      in Command ((group_command prose fullName name ''Modifies preference settings'')\<lparr>cd_example := example preferenceView @ [newline] @ example preferenceSet @ [newline] @ example preferenceUnset, cd_annotation := ''main''\<rparr>)
           [preferenceView, preferenceSet, preferenceUnset])"


section \<open>Projects\<close>

definition NewCmdProjectCreate :: "prose \<Rightarrow> string \<Rightarrow> string \<Rightarrow> command" where
  "NewCmdProjectCreate prose name fullName = Command ((cobra_command prose fullName name ''Create a new project'')
     \<lparr>cd_args := Some (ExactArgs 1),
      cd_flags := [plain_flag ''wait'' ''w'' ''Wait until the project is ready'']\<rparr>) []"

definition NewCmdProjectSet :: "prose \<Rightarrow> string \<Rightarrow> string \<Rightarrow> command" where
  "NewCmdProjectSet prose name fullName = Command ((cobra_command prose fullName name ''Set the current active project'')
     \<lparr>cd_args := Some (ExactArgs 1),
      cd_flags := [plain_flag ''short'' ''q'' ''If true, display only the project name'']\<rparr>) []"

definition NewCmdProjectList :: "prose \<Rightarrow> string \<Rightarrow> string \<Rightarrow> command" where
  "NewCmdProjectList prose name fullName = Command (AddOutputFlag ((cobra_command prose fullName name (fst (prose fullName)))
     \<lparr>cd_args := Some (ExactArgs 0)\<rparr>)) []"

definition NewCmdProjectDelete :: "prose \<Rightarrow> string \<Rightarrow> string \<Rightarrow> command" where
  "NewCmdProjectDelete prose name fullName = Command ((cobra_command prose fullName name ''Delete a project'')
     \<lparr>cd_args := Some (ExactArgs 1),
      cd_flags := [plain_flag ''force'' ''f'' ''Delete project without prompting'']\<rparr>) []"

definition NewCmdProjectGet :: "prose \<Rightarrow> string \<Rightarrow> string \<Rightarrow> command" where
  "NewCmdProjectGet prose name fullName = Command ((cobra_command prose fullName name ''Get the active project'')
     \<lparr>cd_args := Some (ExactArgs 0),
      cd_flags := [plain_flag ''short'' ''q'' ''If true, display only the project name'']\<rparr>) []"

text \<open>The group has the flags of \<open>project get\<close>; the completions of two subcommands are registered here.\<close>

definition NewCmdProject :: "prose \<Rightarrow> string \<Rightarrow> string \<Rightarrow> command" where
  "NewCmdProject prose name fullName =
     (let projectCreate = NewCmdProjectCreate prose ''create'' (GetFullName fullName ''create'');
          projectSet = NewCmdProjectSet prose ''set'' (GetFullName fullName ''set'');
          projectList = NewCmdProjectList prose ''list'' (GetFullName fullName ''list'');
          projectDelete = NewCmdProjectDelete prose ''delete'' (GetFullName fullName ''delete'');
          projectGet = NewCmdProjectGet prose ''get'' (GetFullName fullName ''get'')
      in Command ((group_command prose fullName (name @ '' [options]'') ''Perform project operations'')\<lparr>cd_example := example projectSet @ [newline, newline] @ example projectCreate @ [newline, newline] @ example projectList @ [newline, newline] @ example projectDelete @ [newline, newline] @ example projectGet, cd_annotation := ''main'', cd_run := True,
          cd_flags := AddFlagSet [] (cd_flags (cmd_data projectGet))\<rparr>)
           [projectGet, completing CompleteProjects projectSet, projectCreate, completing CompleteProjects projectDelete, projectList])"


section \<open>Services\<close>

definition NewCmdServiceCreate :: "prose \<Rightarrow> string \<Rightarrow> string \<Rightarrow> command" where
  "NewCmdServiceCreate prose name fullName = Command ((cobra_command prose fullName (name @ '' <service_type> --plan <plan_name> [service_name]'') ''Create a new service from service catalog using the plan defined and deploy it on OpenShift.'')
     \<lparr>cd_args := Some (RangeArgs 0 2),
      cd_flags := [plain_flag ''plan'' [] ''The name of the plan of the service to be created'',
       plain_flag ''parameters'' ''p'' ''Parameters of the plan where a parameter is expressed as <key>=<value'',
       plain_flag ''wait'' ''w'' ''Wait until the service is ready''],
      cd_completers := [('''', CompleteServiceClasses), (''plan'', CompleteServicePlans), (''parameters'', CompleteServiceParameters)]\<rparr>) []"

definition NewCmdServiceDelete :: "prose \<Rightarrow> string \<Rightarrow> string \<Rightarrow> command" where
  "NewCmdServiceDelete prose name fullName = Command ((cobra_command prose fullName (name @ '' <service_name>'') ''Delete an existing service'')
     \<lparr>cd_args := Some (ExactArgs 1),
      cd_flags := [plain_flag ''force'' ''f'' ''Delete service without prompting''],
      cd_completers := [('''', CompleteServices)]\<rparr>) []"

definition NewCmdServiceList :: "prose \<Rightarrow> string \<Rightarrow> string \<Rightarrow> command" where
  "NewCmdServiceList prose name fullName = Command ((cobra_command prose fullName name ''List all services in the current application'')
     \<lparr>cd_args := Some NoArgs\<rparr>) []"

text \<open>The flags for the project and the application are added to the subcommands by the group.\<close>

definition NewCmdService :: "prose \<Rightarrow> string \<Rightarrow> string \<Rightarrow> command" where
  "NewCmdService prose name fullName =
     (let serviceCreate = NewCmdServiceCreate prose ''create'' (GetFullName fullName ''create'');
          serviceList = NewCmdServiceList prose ''list'' (GetFullName fullName ''list'');
          serviceDelete = NewCmdServiceDelete prose ''delete'' (GetFullName fullName ''delete'')
      in Command ((group_command prose fullName name ''Perform service catalog operations'')\<lparr>cd_example := example serviceCreate @ [newline, newline] @ example serviceDelete @ [newline, newline] @ example serviceList, cd_args := Some (RangeArgs 1 3), cd_annotation := ''main''\<rparr>)
           [on_data (\<lambda>d. AddApplicationFlag (AddProjectFlag d)) serviceCreate, on_data (\<lambda>d. AddApplicationFlag (AddProjectFlag d)) serviceDelete, 
            on_data (\<lambda>d. AddApplicationFlag (AddProjectFlag d)) serviceList])"


section \<open>Storage\<close>

definition NewCmdStorageCreate :: "prose \<Rightarrow> string \<Rightarrow> string \<Rightarrow> command" where
  "NewCmdStorageCreate prose name fullName = Command (AddContextFlag (AddOutputFlag (AddComponentFlag (AddApplicationFlag (AddProjectFlag ((cobra_command prose fullName name ''Create storage and mount to a component'')
     \<lparr>cd_args := Some (MaximumNArgs 1),
      cd_flags := [plain_flag ''size'' [] ''Size of storage to add'',
       plain_flag ''path'' [] ''Path to mount the storage on''],
      cd_required := [''path'', ''size''],
      cd_completers := [(''context'', CompleteFiles)]\<rparr>)))))) []"

definition NewCmdStorageDelete :: "prose \<Rightarrow> string \<Rightarrow> string \<Rightarrow> command" where
  "NewCmdStorageDelete prose name fullName = Command (AddContextFlag (AddComponentFlag (AddApplicationFlag (AddProjectFlag ((cobra_command prose fullName name ''Delete storage from component'')
     \<lparr>cd_args := Some (ExactArgs 1),
      cd_flags := [plain_flag ''force'' ''f'' ''Delete storage without prompting''],
      cd_completers := [('''', CompleteConfiguredStorage), (''context'', CompleteFiles)]\<rparr>))))) []"

definition NewCmdStorageList :: "prose \<Rightarrow> string \<Rightarrow> string \<Rightarrow> command" where
  "NewCmdStorageList prose name fullName = Command (AddContextFlag (AddOutputFlag (AddComponentFlag (AddApplicationFlag (AddProjectFlag ((cobra_command prose fullName name ''List storage attached to a component'')
     \<lparr>cd_args := Some (MaximumNArgs 1),
      cd_completers := [(''context'', CompleteFiles)]\<rparr>)))))) []"

text \<open>The commands that mount and unmount exist but are not in the tree.\<close>

definition NewCmdStorageMount :: "prose \<Rightarrow> string \<Rightarrow> string \<Rightarrow> command" where
  "NewCmdStorageMount prose name fullName = Command (AddComponentFlag (AddApplicationFlag (AddProjectFlag ((cobra_command prose fullName (name @ '' [storage name]'') ''mount storage to a component'')
     \<lparr>cd_args := Some (MaximumNArgs 1),
      cd_flags := [plain_flag ''path'' [] ''Path to mount the storage on''],
      cd_required := [''path''],
      cd_completers := [('''', CompleteUnmountedStorage)]\<rparr>)))) []"

definition NewCmdStorageUnMount :: "prose \<Rightarrow> string \<Rightarrow> string \<Rightarrow> command" where
  "NewCmdStorageUnMount prose name fullName = Command (AddComponentFlag (AddApplicationFlag (AddProjectFlag ((cobra_command prose fullName (name @ '' PATH | STORAGE_NAME'') ''Unmount storage from the given path or identified by its name, from the current component'')
     \<lparr>cd_aliases := [''umount''],
      cd_args := Some (ExactArgs 1),
      cd_completers := [('''', CompleteMountedStorage)]\<rparr>)))) []"

definition NewCmdStorage :: "prose \<Rightarrow> string \<Rightarrow> string \<Rightarrow> command" where
  "NewCmdStorage prose name fullName =
     (let storageCreate = NewCmdStorageCreate prose ''create'' (GetFullName fullName ''create'');
          storageDelete = NewCmdStorageDelete prose ''delete'' (GetFullName fullName ''delete'');
          storageList = NewCmdStorageList prose ''list'' (GetFullName fullName ''list'')
      in Command ((group_command prose fullName name ''Perform storage operations'')\<lparr>cd_example := example storageCreate @ [newline] @ example storageDelete @ [newline] @ example storageList, cd_annotation := ''main''\<rparr>)
           [storageCreate, storageDelete, storageList])"


section \<open>URLs\<close>

definition NewCmdURLCreate :: "prose \<Rightarrow> string \<Rightarrow> string \<Rightarrow> command" where
  "NewCmdURLCreate prose name fullName = Command (AddContextFlag (AddOutputFlag ((cobra_command prose fullName (name @ '' [component name]'') ''Create a URL for a component'')
     \<lparr>cd_args := Some (MaximumNArgs 1),
      cd_flags := [plain_flag ''port'' [] ''port number for the url of the component, required in case of components which expose more than one service port''],
      cd_required := [''port''],
      cd_completers := [(''context'', CompleteFiles)]\<rparr>))) []"

definition NewCmdURLDelete :: "prose \<Rightarrow> string \<Rightarrow> string \<Rightarrow> command" where
  "NewCmdURLDelete prose name fullName = Command (AddContextFlag ((cobra_command prose fullName (name @ '' [component name]'') ''Delete a URL'')
     \<lparr>cd_args := Some (ExactArgs 1),
      cd_flags := [plain_flag ''force'' ''f'' ''Delete url without prompting''],
      cd_completers := [('''', CompleteURLs), (''context'', CompleteFiles)]\<rparr>)) []"

definition NewCmdURLList :: "prose \<Rightarrow> string \<Rightarrow> string \<Rightarrow> command" where
  "NewCmdURLList prose name fullName = Command (AddContextFlag (AddOutputFlag ((cobra_command prose fullName name ''List URLs'')
     \<lparr>cd_args := Some NoArgs,
      cd_completers := [(''context'', CompleteFiles)]\<rparr>))) []"

definition NewCmdURL :: "prose \<Rightarrow> string \<Rightarrow> string \<Rightarrow> command" where
  "NewCmdURL prose name fullName =
     (let urlCreate = NewCmdURLCreate prose ''create'' (GetFullName fullName ''create'');
          urlDelete = NewCmdURLDelete prose ''delete'' (GetFullName fullName ''delete'');
          urlList = NewCmdURLList prose ''list'' (GetFullName fullName ''list'')
      in Command ((group_command prose fullName name ''Expose component to the outside world'')\<lparr>cd_example := example urlCreate @ [newline] @ example urlDelete @ [newline] @ example urlList, cd_annotation := ''main''\<rparr>)
           [on_data (\<lambda>d. AddComponentFlag (AddApplicationFlag (AddProjectFlag d))) urlCreate, 
            on_data (\<lambda>d. AddComponentFlag (AddApplicationFlag (AddProjectFlag d))) urlDelete, 
            on_data (\<lambda>d. AddComponentFlag (AddApplicationFlag (AddProjectFlag d))) urlList])"


section \<open>Login, logout, utilities and the version\<close>

definition NewCmdLogin :: "prose \<Rightarrow> string \<Rightarrow> string \<Rightarrow> command" where
  "NewCmdLogin prose name fullName = Command ((cobra_command prose fullName name ''Login to cluster'')
     \<lparr>cd_annotation := ''utility'',
      cd_args := Some (MaximumNArgs 1),
      cd_flags := [plain_flag ''username'' ''u'' ''username, will prompt if not provided'',
       plain_flag ''password'' ''p'' ''password, will prompt if not provided'',
       plain_flag ''token'' ''t'' ''token, will prompt if not provided'',
       plain_flag ''insecure-skip-tls-verify'' [] (''If true, the server'' @ [CHR 0x27] @ ''s certificate will not be checked for validity. This will make your HTTPS connections insecure''),
       plain_flag ''certificate-authority'' [] ''Path to a cert file for the certificate authority'']\<rparr>) []"

definition NewCmdLogout :: "prose \<Rightarrow> string \<Rightarrow> string \<Rightarrow> command" where
  "NewCmdLogout prose name fullName = Command ((cobra_command prose fullName name ''Log out of the current OpenShift session'')
     \<lparr>cd_annotation := ''utility'',
      cd_args := Some NoArgs\<rparr>) []"

definition NewCmdTerminal :: "prose \<Rightarrow> string \<Rightarrow> string \<Rightarrow> command" where
  "NewCmdTerminal prose name fullName = Command ((cobra_command prose fullName name ''Add Odo terminal support to your development environment'')
     \<lparr>cd_args := Some (ExactArgs 1)\<rparr>) []"

definition NewCmdUtils :: "prose \<Rightarrow> string \<Rightarrow> string \<Rightarrow> command" where
  "NewCmdUtils prose name fullName =
     (let terminal = NewCmdTerminal prose ''terminal'' (GetFullName fullName ''terminal'')
      in Command ((group_command prose fullName name ''Utilities for terminal commands and modifying odo configurations'')\<lparr>cd_example := example terminal @ [newline], cd_annotation := ''utility''\<rparr>)
           [terminal])"

definition NewCmdVersion :: "prose \<Rightarrow> string \<Rightarrow> string \<Rightarrow> command" where
  "NewCmdVersion prose name fullName = Command ((cobra_command prose fullName name (fst (prose fullName)))
     \<lparr>cd_annotation := ''utility'',
      cd_flags := [plain_flag ''client'' [] ''Client version only (no server required).'']\<rparr>) []"


section \<open>The root\<close>

text \<open>
  The flags of the logging library are flags of the process, and all but two of them are hidden; the root command
  has one persistent flag of its own. The flags of the process join it when the library first looks at the flags
  of a command.
\<close>

definition process_flags :: "command_flag list" where
  "process_flags = map (\<lambda>n. (plain_flag n [] ''logging'')\<lparr>fl_hidden := True\<rparr>)
       [''alsologtostderr'', ''log_backtrace_at'', ''log_dir'', ''logtostderr'', ''stderrthreshold'']
     @ [plain_flag ''v'' ''v'' ''log level for V logs. Level varies from 0 to 9 (default 0).'',
        plain_flag ''vmodule'' [] ''comma-separated list of pattern=N settings for file-filtered logging'']"

definition global_flags :: "command_flag list" where
  "global_flags = AddFlagSet [plain_flag ''skip-connection-check'' [] ''Skip cluster check''] process_flags"

text \<open>The root with its subcommands, before they are visited.\<close>

definition root_command :: "prose \<Rightarrow> string \<Rightarrow> string \<Rightarrow> command" where
  "root_command prose name fullName =
     (let sub = (\<lambda>make_command n. make_command prose n (GetFullName fullName n))
      in Command ((group_command prose fullName name ''odo (OpenShift Do)'')
            \<lparr>cd_persistent := global_flags\<rparr>)
           [sub NewCmdApplication ''app'',
            sub NewCmdCatalog ''catalog'',
            sub NewCmdComponent ''component'',
            sub NewCmdCreate ''create'',
            sub NewCmdDelete ''delete'',
            sub NewCmdDescribe ''describe'',
            sub NewCmdLink ''link'',
            sub NewCmdUnlink ''unlink'',
            sub NewCmdList ''list'',
            sub NewCmdLog ''log'',
            sub NewCmdPush ''push'',
            sub NewCmdUpdate ''update'',
            sub NewCmdWatch ''watch'',
            sub NewCmdLogin ''login'',
            sub NewCmdLogout ''logout'',
            sub NewCmdProject ''project'',
            sub NewCmdService ''service'',
            sub NewCmdStorage ''storage'',
            sub NewCmdURL ''url'',
            sub NewCmdUtils ''utils'',
            sub NewCmdVersion ''version'',
            sub NewCmdConfiguration ''config'',
            sub NewCmdPreference ''preference''])"

end
