(* ===== verification/CommandTree.thy ===== *)
theory CommandTree
  imports Commands
begin

text \<open>
  The tree of commands at work: how flags are gathered (and when the flag library panics), how the
  groups are reconfigured by \<open>pkg/odo/cli/cli.go\<close>, which command a command line runs, the
  completions \<open>cmd/odo\<close> makes of the tree, the reference \<open>cmd/cli-doc\<close> prints of it, and the program
  itself with its notice of a newer release (\<open>pkg/notify\<close>).
\<close>


section \<open>Names and flags\<close>

definition Name :: "command \<Rightarrow> string" where
  "Name c = takeWhile (\<lambda>x. x \<noteq> CHR '' '') (cd_use (cmd_data c))"

definition has_flag :: "command_flag list \<Rightarrow> string \<Rightarrow> bool" where
  "has_flag flags name \<longleftrightarrow> name \<in> set (map fl_name flags)"

text \<open>A flag of a set: its name and its shorthand may not be taken.\<close>

definition AddFlag :: "command_flag \<Rightarrow> command_flag list \<Rightarrow> command_flag list result" where
  "AddFlag flag flags =
     (if has_flag flags (fl_name flag) then Inl (Panic (''flag redefined: '' @ fl_name flag))
      else if length (fl_shorthand flag) = 0 then Inr (flags @ [flag])
      else if length (fl_shorthand flag) > 1 then
        Inl (Panic (fl_shorthand flag @ '' shorthand is more than one ASCII character''))
      else if fl_shorthand flag \<in> set (map fl_shorthand flags) then
        Inl (Panic (''unable to redefine the shorthand '' @ fl_shorthand flag))
      else Inr (flags @ [flag]))"

fun add_flags :: "command_flag list \<Rightarrow> command_flag list \<Rightarrow> command_flag list result" where
  "add_flags [] flags = Inr flags"
| "add_flags (f # fs) flags = bindR (AddFlag f flags) (add_flags fs)"

fun merge_flags :: "command_flag list \<Rightarrow> command_flag list \<Rightarrow> command_flag list result" where
  "merge_flags [] flags = Inr flags"
| "merge_flags (f # fs) flags = bindR (if has_flag flags (fl_name f) then Inr flags else AddFlag f flags) (merge_flags fs)"

text \<open>
  All flags of a command that runs: its own, its persistent ones, the persistent ones of the
  commands above it, and \<open>help\<close>.
\<close>

definition command_flags :: "command_flag list \<Rightarrow> command_data \<Rightarrow> command_flag list result" where
  "command_flags inherited d =
     bindR (add_flags (cd_flags d) []) (\<lambda>flags.
     bindR (add_flags (cd_persistent d) []) (\<lambda>persistent.
     bindR (merge_flags persistent flags) (\<lambda>flags.
     bindR (merge_flags inherited flags) (\<lambda>flags.
       if has_flag flags ''help'' then Inr flags
       else AddFlag (plain_flag ''help'' ''h'' (''help for '' @ takeWhile (\<lambda>x. x \<noteq> CHR '' '') (cd_use d))) flags))))"

text \<open>Every command of a tree with the persistent flags above it.\<close>

fun all_commands :: "command_flag list \<Rightarrow> command \<Rightarrow> (command_flag list \<times> command) list" where
  "all_commands inherited (Command d cs) =
     (inherited, Command d cs) # concat (map (all_commands (AddFlagSet (cd_persistent d) inherited)) cs)"

text \<open>Capitalising the description of a flag.\<close>

definition CapitalizeFlagDescription :: "command_flag \<Rightarrow> command_flag result" where
  "CapitalizeFlagDescription f = (case fl_usage f of
     [] \<Rightarrow> Inl (Panic ''index out of range: cap[0]'')
   | c # cs \<Rightarrow> Inr (f\<lparr>fl_usage := upper_char c # cs\<rparr>))"

definition CapitalizeFlagDescriptions :: "command_flag list \<Rightarrow> command_flag list result" where
  "CapitalizeFlagDescriptions flags = mapR CapitalizeFlagDescription flags"

text \<open>What building, running and describing the commands rely on.\<close>

definition well_built :: "command_flag list \<times> command \<Rightarrow> bool" where
  "well_built ic = (case ic of (inherited, c) \<Rightarrow>
     (case command_flags inherited (cmd_data c) of
        Inl _ \<Rightarrow> False
      | Inr flags \<Rightarrow> list_all (\<lambda>f. fl_usage f \<noteq> []) flags \<and> list_all (has_flag flags) (cd_required (cmd_data c)))
     \<and> distinct (concat (map (\<lambda>s. Name s # cd_aliases (cmd_data s)) (cmd_subs c))))"


section \<open>The root command and its groups\<close>

fun VisitCommands :: "(command_data \<Rightarrow> command list \<Rightarrow> command_data) \<Rightarrow> command \<Rightarrow> command" where
  "VisitCommands f (Command d cs) = Command (f d cs) (map (VisitCommands f) cs)"

definition visible_subcommands :: "command list \<Rightarrow> command list" where
  "visible_subcommands cs = filter (\<lambda>c. \<not> cd_hidden (cmd_data c)) (sort_key Name cs)"

definition reconfigureCmdWithSubcmd :: "command_data \<Rightarrow> command list \<Rightarrow> command_data" where
  "reconfigureCmdWithSubcmd d cs =
     (if length cs = 0 then d
      else d\<lparr>cd_args := (case cd_args d of None \<Rightarrow> Some ArbitraryArgs | Some a \<Rightarrow> Some a),
             cd_run_e := True,
             cd_short := cd_short d @ '' ('' @ join_with '', '' (map Name (visible_subcommands cs)) @ '')''\<rparr>)"

definition ShowSubcommands :: "command \<Rightarrow> string" where
  "ShowSubcommands c = sprintf ''Subcommand not found, use one of the available commands: %s''
     [join_with '', '' (map Name (visible_subcommands (cmd_subs c)))]"

definition NewCmdOdo :: "prose \<Rightarrow> string \<Rightarrow> string \<Rightarrow> command" where
  "NewCmdOdo prose name fullName = VisitCommands reconfigureCmdWithSubcmd (root_command prose name fullName)"


section \<open>Running a command line\<close>

text \<open>
  The words of a command line without its flags, and the flags that are given. The command \<open>help\<close>,
  which the library adds to the root when it runs, is left out.
\<close>

definition positional_ok :: "positional option \<Rightarrow> string list \<Rightarrow> bool" where
  "positional_ok p args = (case p of
     None \<Rightarrow> True | Some NoArgs \<Rightarrow> args = [] | Some (ExactArgs n) \<Rightarrow> length args = n
   | Some (MaximumNArgs n) \<Rightarrow> length args \<le> n | Some (RangeArgs a b) \<Rightarrow> a \<le> length args \<and> length args \<le> b
   | Some ArbitraryArgs \<Rightarrow> True | Some OwnArgs \<Rightarrow> True)"

definition findNext :: "string \<Rightarrow> command list \<Rightarrow> command option" where
  "findNext next cs = find (\<lambda>c. Name c = next \<or> next \<in> set (cd_aliases (cmd_data c))) cs"

fun Find :: "command \<Rightarrow> string list \<Rightarrow> command \<times> string list" where
  "Find c [] = (c, [])"
| "Find c (next # args) = (case findNext next (cmd_subs c) of None \<Rightarrow> (c, next # args) | Some c' \<Rightarrow> Find c' args)"

datatype outcome = Ran string "string list" | Refused string | HelpShown

definition execute :: "command \<Rightarrow> string list \<Rightarrow> string list \<Rightarrow> outcome" where
  "execute root words given = (case Find root words of (c, args) \<Rightarrow>
     let d = cmd_data c in
     if \<not> cd_run d \<and> \<not> cd_run_e d then HelpShown
     else if \<not> positional_ok (cd_args d) args then Refused ''wrong arguments''
     else if \<not> list_all (\<lambda>r. r \<in> set given) (cd_required d) then Refused ''required flag(s) not set''
     else if cd_run_e d then Refused (ShowSubcommands c)
     else Ran (cd_id d) args)"

text \<open>What the \<open>Run\<close> of \<open>odo project\<close> would do with its arguments: which subcommand it hands them to.\<close>

definition NewCmdProjectRun :: "string list \<Rightarrow> string" where
  "NewCmdProjectRun args =
     (if length args > 0 \<and> args ! 0 \<noteq> ''get'' \<and> args ! 0 \<noteq> ''set'' then ''set'' else ''get'')"


section \<open>Completions of the tree\<close>

text \<open>The registrations of all commands.\<close>

definition register_command :: "completer registry \<Rightarrow> command \<Rightarrow> completer registry" where
  "register_command reg c = foldl (\<lambda>reg (flag, h).
     if flag = [] then RegisterCommandHandler (cd_id (cmd_data c)) h reg
     else RegisterCommandFlagHandler (cd_id (cmd_data c)) flag h reg) reg (cd_completers (cmd_data c))"

definition registrations :: "command \<Rightarrow> completer registry" where
  "registrations root = foldl register_command [] (map snd (all_commands [] root))"

text \<open>The handler a registration stands for.\<close>

definition newHandler ::
  "'s tools \<Rightarrow> (string \<Rightarrow> error + json_value gomap) \<Rightarrow> (string \<Rightarrow> error + string list \<times> ServicePlanParameter gomap) \<Rightarrow>
   (string list \<Rightarrow> string list) \<Rightarrow> completer \<Rightarrow> 's handler" where
  "newHandler te parse_meta parse_schema predict predictor = (case predictor of
     CompleteServices \<Rightarrow> ServiceCompletionHandler
   | CompleteServiceClasses \<Rightarrow> ServiceClassCompletionHandler
   | CompleteServicePlans \<Rightarrow> ServicePlanCompletionHandler
   | CompleteServiceParameters \<Rightarrow> ServiceParameterCompletionHandler parse_meta parse_schema
   | CompleteApps \<Rightarrow> AppCompletionHandler
   | CompleteFiles \<Rightarrow> FileCompletionHandler predict
   | CompleteProjects \<Rightarrow> ProjectNameCompletionHandler
   | CompleteURLs \<Rightarrow> URLCompletionHandler
   | CompleteConfiguredStorage \<Rightarrow> StorageDeleteCompletionHandler te
   | CompleteUnmountedStorage \<Rightarrow> StorageMountCompletionHandler
   | CompleteMountedStorage \<Rightarrow> StorageUnMountCompletionHandler
   | CompleteComponentTypes \<Rightarrow> CreateCompletionHandler
   | CompleteLinks \<Rightarrow> LinkCompletionHandler
   | CompleteUnlinks \<Rightarrow> UnlinkCompletionHandler
   | CompleteComponents \<Rightarrow> ComponentNameCompletionHandler)"

datatype 'p completion = Complete (cm_sub: "(string \<times> 'p completion) list") (cm_flags: "'p gomap") (cm_args: 'p)

text \<open>The flags of a command alone, and the ones it has from above.\<close>

definition LocalFlags :: "command_flag list \<Rightarrow> command_data \<Rightarrow> command_flag list" where
  "LocalFlags inherited d = filter (\<lambda>f. \<not> has_flag inherited (fl_name f)) (AddFlagSet (cd_flags d) (cd_persistent d))"

definition add_flag_completion :: "'p registry \<Rightarrow> 'p \<Rightarrow> string \<Rightarrow> 'p gomap \<Rightarrow> command_flag \<Rightarrow> 'p gomap" where
  "add_flag_completion reg anything command flags flag =
     (if fl_hidden flag then flags
      else let handler = (case GetCommandFlagHandler command (fl_name flag) reg of None \<Rightarrow> anything | Some h \<Rightarrow> h);
               flags = (if length (fl_shorthand flag) > 0 then put (''-'' @ fl_shorthand flag) handler flags else flags)
           in put (''--'' @ fl_name flag) handler flags)"

fun HasAvailableSubCommands :: "command \<Rightarrow> bool" where
  "HasAvailableSubCommands (Command d cs) = list_ex (\<lambda>b. b) (map (\<lambda>c.
     \<not> cd_hidden (cmd_data c) \<and> (cd_run (cmd_data c) \<or> cd_run_e (cmd_data c) \<or> HasAvailableSubCommands c)) cs)"

fun createCompletion :: "'p registry \<Rightarrow> 'p \<Rightarrow> 'p \<Rightarrow> command_flag list \<Rightarrow> command \<Rightarrow> 'p completion" where
  "createCompletion reg anything nothing inherited (Command d cs) =
     Complete
       (if HasAvailableSubCommands (Command d cs) then
          map snd (filter fst (map (\<lambda>c. (\<not> cd_hidden (cmd_data c),
            (Name c, createCompletion reg anything nothing (AddFlagSet (cd_persistent d) inherited) c))) cs))
        else [])
       (foldl (add_flag_completion reg anything (cd_id d)) [] (LocalFlags inherited d @ inherited))
       (case GetCommandHandler (cd_id d) reg of None \<Rightarrow> nothing | Some h \<Rightarrow> h)"


section \<open>The reference of the command line\<close>

definition referenceCommandFormatter :: "command \<Rightarrow> string" where
  "referenceCommandFormatter command =
     (let d = cmd_data command; n = Name command; rule = ''----'' @ [newline] in
      ''[['' @ n @ '']]'' @ [newline] @ n @ [newline] @ map (\<lambda>_. CHR ''~'') n @ [newline, newline] @
      ''[source,sh]'' @ [newline] @ rule @ cd_use d @ [newline] @ rule @ [newline] @
      ''_________________'' @ [newline] @ ''Example using '' @ n @ [newline] @ ''_________________'' @ [newline, newline] @
      ''[source,sh]'' @ [newline] @ rule @ cd_example d @ [newline] @ rule @ [newline] @ cd_long d @ [newline, newline])"

definition getFlags :: "command_flag list \<Rightarrow> string list" where
  "getFlags flags = map (\<lambda>n. ''--'' @ n) (sort (map fl_name flags))"

definition flattenFlags :: "string list \<Rightarrow> string" where
  "flattenFlags flags = concat (map (\<lambda>flag. flag @ '' '') flags)"

definition command_line :: "command_flag list \<Rightarrow> command \<Rightarrow> nat \<Rightarrow> string" where
  "command_line inherited command level =
     concat (replicate level ''    '') @ Name command @ '' '' @ flattenFlags (getFlags (LocalFlags inherited (cmd_data command)))
     @ '': '' @ cd_short (cmd_data command) @ [newline]"

fun commandPrinter :: "command_flag list \<Rightarrow> command \<Rightarrow> nat \<Rightarrow> string" where
  "commandPrinter inherited (Command d cs) level =
     command_line inherited (Command d cs) level @
     concat (map snd (sort_key fst (map (\<lambda>c. (Name c, commandPrinter (AddFlagSet (cd_persistent d) inherited) c (level + 1))) cs)))"

definition referencePrinter :: "command_flag list \<Rightarrow> command \<Rightarrow> string" where
  "referencePrinter inherited command =
     (let d = cmd_data command; subs = sort_key Name (cmd_subs command); rule = ''----'' @ [newline];
          commandListTable = [newline] @ ''.List of Commands'' @ [newline]
            @ ''[width='' @ [CHR 0x22] @ ''100%'' @ [CHR 0x22] @ '',cols='' @ [CHR 0x22] @ ''21%,79%'' @ [CHR 0x22]
            @ '',options='' @ [CHR 0x22] @ ''header'' @ [CHR 0x22] @ '',]'' @ [newline]
            @ ''|==='' @ [newline] @ ''| Name | Description'' @ [newline, newline]
            @ concat (map (\<lambda>s. ''| link:#'' @ Name s @ ''['' @ Name s @ '']'' @ [newline] @ ''| '' @ cd_short (cmd_data s)
                @ [newline, newline]) subs) @ ''|==='';
          commandOutput = concat (map referenceCommandFormatter subs)
      in ''= Overview of the Odo (OpenShift Do) CLI Structure'' @ [newline, newline] @
         ''___________________'' @ [newline] @ ''Example application'' @ [newline] @ ''___________________'' @ [newline, newline] @
         ''[source,sh]'' @ [newline] @ rule @ cd_example d @ '' '' @ [newline] @ rule @ [newline] @
         cd_long d @ [newline, newline] @
         ''[[syntax]]'' @ [newline] @ ''Syntax'' @ [newline] @ ''------'' @ [newline, newline] @
         commandListTable @ [newline, newline] @
         ''[[cli-structure]]'' @ [newline] @ ''CLI Structure'' @ [newline] @ ''+++++++++++++'' @ [newline, newline] @
         ''[source,sh]'' @ [newline] @ rule @ commandPrinter inherited command 0 @ [newline] @ rule @ [newline] @
         commandOutput @ [newline])"

text \<open>\<open>cli-doc\<close>: the page, the structure, or the usage when neither is asked for.\<close>

definition cli_doc :: "prose \<Rightarrow> string \<Rightarrow> string list \<Rightarrow> string" where
  "cli_doc prose usage args = (case args of
     [] \<Rightarrow> usage
   | a # _ \<Rightarrow>
       if a = ''reference'' then referencePrinter [] (NewCmdOdo prose ''odo'' ''odo'')
       else if a = ''structure'' then commandPrinter [] (NewCmdOdo prose ''odo'' ''odo'') 0
       else usage)"


section \<open>A newer release\<close>

definition VersionFetchURL :: string where
  "VersionFetchURL = ''https://raw.githubusercontent.com/openshift/odo/master/build/VERSION''"

definition InstallScriptURL :: string where
  "InstallScriptURL = ''https://raw.githubusercontent.com/openshift/odo/master/scripts/installer.sh''"

text \<open>\<open>get\<close> is the request, \<open>read\<close> the body of its answer.\<close>

definition getLatestReleaseTag :: "(string \<Rightarrow> ('s, 'r) op) \<Rightarrow> ('r \<Rightarrow> ('s, string) op) \<Rightarrow> ('s, string) op" where
  "getLatestReleaseTag get read =
     bind (wrapping ''error getting latest release'' [] (get VersionFetchURL)) (\<lambda>resp.
     bind (wrapping ''error getting latest release'' [] (read resp)) (\<lambda>body.
       return (trim_suffix body [newline])))"

text \<open>\<open>semver\<close> and \<open>lt\<close> are the library for versions.\<close>

definition CheckLatestReleaseTag ::
  "(string \<Rightarrow> 'v result) \<Rightarrow> ('v \<Rightarrow> 'v \<Rightarrow> bool) \<Rightarrow> (string \<Rightarrow> ('s, 'r) op) \<Rightarrow> ('r \<Rightarrow> ('s, string) op) \<Rightarrow> string \<Rightarrow> ('s, string) op" where
  "CheckLatestReleaseTag semver lt get read currentVersion =
     bind (wrapping ''unable to make semver from the current version: %v'' [currentVersion]
             (lift (semver (trim_prefix currentVersion ''v'')))) (\<lambda>currentSemver.
     bind (wrapping ''unable to get latest release tag'' [] (getLatestReleaseTag get read)) (\<lambda>latestTag.
     bind (wrapping ''unable to make semver from the latest release tag: %v'' [latestTag]
             (lift (semver (trim_prefix latestTag ''v'')))) (\<lambda>latestSemver.
       return (if lt currentSemver latestSemver then latestTag else []))))"

text \<open>The message for the user, if there is one; an error is not reported.\<close>

definition GetLatestReleaseInfo :: "('s, string) op \<Rightarrow> ('s, string option) op" where
  "GetLatestReleaseInfo check = bind (attempt check) (\<lambda>r.
     let newTag = (case r of Inl _ \<Rightarrow> [] | Inr tag \<Rightarrow> tag) in
     return (if length newTag > 0 then Some (
         ''---'' @ [newline] @ ''A newer version of odo (version: '' @ newTag @ '') is available.'' @ [newline] @
         ''Update using your package manager, or run'' @ [newline] @ ''curl '' @ InstallScriptURL @ '' | sh'' @ [newline] @
         ''to update manually, or visit https://github.com/openshift/odo/releases'' @ [newline] @ ''---'' @ [newline] @
         ''If you wish to disable the update notifications, you can disable it by running'' @ [newline] @
         [CHR 0x27] @ ''odo config set UpdateNotification false'' @ [CHR 0x27] @ [newline])
       else None))"

text \<open>
  The program after the completions: the preferences, the command, and the notice. The notice is
  fetched meanwhile; \<open>in_time\<close> says whether it is there when the command has ended.
\<close>

definition odo_main ::
  "preference_tools \<Rightarrow> ('s world, printed) op \<Rightarrow> ('s, string) op \<Rightarrow> bool \<Rightarrow> ('s world, printed) op" where
  "odo_main pt run check in_time =
     bind (or_exit (on_fst (load_preference pt))) (\<lambda>cfg.
       if GetUpdateNotification cfg then
         bind (on_cluster (GetLatestReleaseInfo check)) (\<lambda>updateInfo.
         bind (or_exit run) (\<lambda>out. return (case updateInfo of
             Some message \<Rightarrow> if in_time then out @ [[message]] else out
           | None \<Rightarrow> out)))
       else or_exit run)"


section \<open>Utilities and login\<close>

text \<open>\<open>supportedShells\<close>, the snippets being a parameter.\<close>

definition TerminalValidate :: "(string list \<Rightarrow> string list) \<Rightarrow> string gomap \<Rightarrow> string \<Rightarrow> unit result" where
  "TerminalValidate order supportedShells shellType =
     (if has_key supportedShells shellType then Inr ()
      else fails ''unknown shell type %s, supported shells: %v''
        [shellType, ''['' @ join_with '' '' (GetSortedKeys order supportedShells) @ '']''])"

definition odo_terminal ::
  "(string list \<Rightarrow> string list) \<Rightarrow> string gomap \<Rightarrow> string list \<Rightarrow> ('s, printed option) op" where
  "odo_terminal order supportedShells args = GenericRun (bind (lift (arg args 0)) (\<lambda>shellType. return (Some shellType)))
     (\<lambda>shellType. bind (lift (TerminalValidate order supportedShells shellType)) (\<lambda>_. return (Some shellType)))
     (\<lambda>shellType. return (Some [[get_str supportedShells shellType]]))"

definition LoginComplete :: "string list \<Rightarrow> string" where
  "LoginComplete args = (if length args = 1 then args ! 0 else [])"

definition odo_login ::
  "(string \<Rightarrow> ('s, unit) op) \<Rightarrow> string gomap \<Rightarrow> string gomap \<Rightarrow> string \<Rightarrow> (login_options \<Rightarrow> ('s, login_options) op) \<Rightarrow>
   (login_options \<Rightarrow> ('s, bool) op) \<Rightarrow> (error \<Rightarrow> string list) \<Rightarrow> login_options \<Rightarrow> string list \<Rightarrow> ('s, unit option) op" where
  "odo_login print clusters contexts current gather_info save causes flags args =
     GenericRun (return (Some (flags\<lparr>lo_server := LoginComplete args\<rparr>))) (\<lambda>a. return (Some a))
       (\<lambda>a. bind (Login print clusters contexts current gather_info save causes a) (\<lambda>_. finished))"


section \<open>How the tree is built\<close>

lemma AddFlagSet_global [simp]: "AddFlagSet [] global_flags = global_flags"
  by code_simp

lemma built_components:
  "list_all well_built (all_commands global_flags (NewCmdGet prose ''get'' fullName))"
  "list_all well_built (all_commands global_flags (NewCmdCreate prose ''create'' fullName))"
  "list_all well_built (all_commands global_flags (NewCmdDelete prose ''delete'' fullName))"
  "list_all well_built (all_commands global_flags (NewCmdDescribe prose ''describe'' fullName))"
  "list_all well_built (all_commands global_flags (NewCmdLink prose ''link'' fullName))"
  by code_simp+

lemma built_components2:
  "list_all well_built (all_commands global_flags (NewCmdUnlink prose ''unlink'' fullName))"
  "list_all well_built (all_commands global_flags (NewCmdList prose ''list'' fullName))"
  "list_all well_built (all_commands global_flags (NewCmdLog prose ''log'' fullName))"
  "list_all well_built (all_commands global_flags (NewCmdPush prose ''push'' fullName))"
  "list_all well_built (all_commands global_flags (NewCmdUpdate prose ''update'' fullName))"
  "list_all well_built (all_commands global_flags (NewCmdWatch prose ''watch'' fullName))"
  by code_simp+

lemma built_component: "list_all well_built (all_commands global_flags (NewCmdComponent prose ''component'' fullName))"
proof -
  obtain d cs where c: "NewCmdComponent prose ''component'' fullName = Command d cs" by (cases "NewCmdComponent prose ''component'' fullName")
  have "well_built (global_flags, NewCmdComponent prose ''component'' fullName)" by code_simp
  moreover have "cd_persistent d = [] \<and> list_all (\<lambda>s. list_all well_built (all_commands global_flags s)) cs"
    using c by (auto simp: NewCmdComponent_def group_command_def Let_def built_components built_components2)
  ultimately show ?thesis by (simp add: c list_all_iff)
qed

lemma built_groups:
  "list_all well_built (all_commands global_flags (NewCmdApplication prose ''app'' fullName))"
  "list_all well_built (all_commands global_flags (NewCmdCatalog prose ''catalog'' fullName))"
  "list_all well_built (all_commands global_flags (NewCmdLogin prose ''login'' fullName))"
  "list_all well_built (all_commands global_flags (NewCmdLogout prose ''logout'' fullName))"
  by code_simp+

lemma built_groups2:
  "list_all well_built (all_commands global_flags (NewCmdProject prose ''project'' fullName))"
  "list_all well_built (all_commands global_flags (NewCmdService prose ''service'' fullName))"
  "list_all well_built (all_commands global_flags (NewCmdStorage prose ''storage'' fullName))"
  by code_simp+

lemma built_groups3:
  "list_all well_built (all_commands global_flags (NewCmdURL prose ''url'' fullName))"
  "list_all well_built (all_commands global_flags (NewCmdUtils prose ''utils'' fullName))"
  "list_all well_built (all_commands global_flags (NewCmdVersion prose ''version'' fullName))"
  "list_all well_built (all_commands global_flags (NewCmdConfiguration prose ''config'' fullName))"
  "list_all well_built (all_commands global_flags (NewCmdPreference prose ''preference'' fullName))"
  by code_simp+

lemma all_commands_visit:
  assumes "\<And>d cs. cd_persistent (f d cs) = cd_persistent d"
  shows "all_commands inherited (VisitCommands f c) = map (map_prod id (VisitCommands f)) (all_commands inherited c)"
proof (induction c arbitrary: inherited)
  case (Command d cs)
  then show ?case by (simp add: assms map_concat o_def cong: map_cong)
qed

lemma Name_visit:
  assumes "\<And>d cs. cd_use (f d cs) = cd_use d"
  shows "Name (VisitCommands f c) = Name c"
  by (cases c) (simp add: Name_def assms)

lemma reconfigure_keeps [simp]:
  "cd_id (reconfigureCmdWithSubcmd d cs) = cd_id d"
  "cd_use (reconfigureCmdWithSubcmd d cs) = cd_use d"
  "cd_aliases (reconfigureCmdWithSubcmd d cs) = cd_aliases d"
  "cd_flags (reconfigureCmdWithSubcmd d cs) = cd_flags d"
  "cd_persistent (reconfigureCmdWithSubcmd d cs) = cd_persistent d"
  "cd_required (reconfigureCmdWithSubcmd d cs) = cd_required d"
  "cd_hidden (reconfigureCmdWithSubcmd d cs) = cd_hidden d"
  by (simp_all add: reconfigureCmdWithSubcmd_def)

lemma command_flags_reconfigured [simp]:
  "command_flags inherited (reconfigureCmdWithSubcmd d cs) = command_flags inherited d"
  by (simp add: command_flags_def cong: if_cong)

lemma data_visit: "cmd_data (VisitCommands f c) = f (cmd_data c) (cmd_subs c)"
  by (cases c) simp

lemma well_built_visit:
  "well_built (inherited, VisitCommands reconfigureCmdWithSubcmd c) = well_built (inherited, c)"
proof (cases c)
  case (Command d cs)
  show ?thesis unfolding well_built_def prod.case data_visit
    by (simp add: Command o_def Name_visit data_visit cong: sum.case_cong)
qed

lemma built_root: "list_all well_built (all_commands [] (root_command prose ''odo'' ''odo''))"
proof -
  obtain d cs where c: "root_command prose ''odo'' ''odo'' = Command d cs" by (cases "root_command prose ''odo'' ''odo''")
  have "well_built ([], root_command prose ''odo'' ''odo'')" by code_simp
  moreover have "cd_persistent d = global_flags \<and> list_all (\<lambda>s. list_all well_built (all_commands global_flags s)) cs"
    using c by (auto simp: root_command_def group_command_def Let_def built_components built_components2 built_component built_groups built_groups2 built_groups3)
  moreover have "AddFlagSet global_flags [] = global_flags" by (simp add: AddFlagSet_def)
  ultimately show ?thesis by (simp add: c list_all_iff)
qed

lemma built_odo: "list_all well_built (all_commands [] (NewCmdOdo prose ''odo'' ''odo''))"
  using built_root [of prose]
  by (simp add: NewCmdOdo_def all_commands_visit list.pred_map o_def split_beta map_prod_def well_built_visit)


lemma CapitalizeFlagDescriptions_ok: "is_ok (CapitalizeFlagDescriptions flags) \<longleftrightarrow> list_all (\<lambda>f. fl_usage f \<noteq> []) flags"
proof (induction flags)
  case (Cons f fs)
  then show ?case
    by (cases "fl_usage f") (auto simp: CapitalizeFlagDescriptions_def CapitalizeFlagDescription_def bindR_def is_ok_def split: sum.splits)
qed (simp add: CapitalizeFlagDescriptions_def is_ok_def)


section \<open>Which command runs\<close>

text \<open>The commands of a tree by the names that lead to them.\<close>

fun command_paths :: "command \<Rightarrow> (string list \<times> command) list" where
  "command_paths (Command d cs) =
     ([], Command d cs) # concat (map (\<lambda>c. map (\<lambda>(path, c'). (Name c # path, c')) (command_paths c)) cs)"

lemma find_distinct:
  assumes "distinct (concat (map (\<lambda>s. Name s # cd_aliases (cmd_data s)) cs))" and "c \<in> set cs"
  shows "findNext (Name c) cs = Some c"
  using assms by (induction cs) (auto simp: findNext_def)

lemma Find_path:
  assumes "list_all well_built (all_commands inherited root)" and "(path, c) \<in> set (command_paths root)"
  shows "Find root path = (c, [])"
  using assms
proof (induction root arbitrary: inherited path)
  case (Command d cs)
  show ?case
  proof (cases path)
    case Nil
    with Command.prems(2) show ?thesis by auto
  next
    case (Cons n rest)
    with Command.prems(2) obtain s where s: "s \<in> set cs" "n = Name s" "(rest, c) \<in> set (command_paths s)" by auto
    have "findNext n cs = Some s"
      using Command.prems(1) find_distinct [OF _ s(1)] s(2) by (simp add: well_built_def)
    moreover have "Find s rest = (c, [])"
      using Command.prems(1) s by (intro Command.IH [OF s(1) _ s(3)]) (auto simp: list_all_iff)
    ultimately show ?thesis using Cons by simp
  qed
qed

text \<open>C20. 
  C0. Round trip: every command of odo is found by the names that lead to it, with no argument left over: no
  name or alias of another command shadows it, at any depth.
\<close>

theorem commands_found:
  assumes "(path, c) \<in> set (command_paths (NewCmdOdo prose ''odo'' ''odo''))"
  shows "Find (NewCmdOdo prose ''odo'' ''odo'') path = (c, [])"
  using built_odo assms by (rule Find_path)

lemma command_paths_self [simp]: "([], c) \<in> set (command_paths c)"
  by (cases c) simp

lemma command_paths_sub:
  "s \<in> set (cmd_subs c) \<Longrightarrow> (path, x) \<in> set (command_paths s) \<Longrightarrow> (Name s # path, x) \<in> set (command_paths c)"
  by (cases c) force

lemma subs_visit [simp]: "cmd_subs (VisitCommands f c) = map (VisitCommands f) (cmd_subs c)"
  by (cases c) simp

theorem commands_found_witness:
  "cd_id (cmd_data (fst (Find (NewCmdOdo (\<lambda>_. ([], [])) ''odo'' ''odo'') [''component'', ''push'']))) = ''odo component push''"
proof -
  let ?visit = "VisitCommands reconfigureCmdWithSubcmd" and ?odo = "NewCmdOdo (\<lambda>_. ([], [])) ''odo'' ''odo''"
  let ?component = "NewCmdComponent (\<lambda>_. ([], [])) ''component'' (GetFullName ''odo'' ''component'')"
  let ?push = "NewCmdPush (\<lambda>_. ([], [])) ''push'' (GetFullName (GetFullName ''odo'' ''component'') ''push'')"
  have "?component \<in> set (cmd_subs (root_command (\<lambda>_. ([], [])) ''odo'' ''odo''))"
    unfolding root_command_def Let_def by simp
  then have c: "?visit ?component \<in> set (cmd_subs ?odo)" by (simp add: NewCmdOdo_def)
  have "?push \<in> set (cmd_subs ?component)" unfolding NewCmdComponent_def Let_def by simp
  then have p: "?visit ?push \<in> set (cmd_subs (?visit ?component))" by simp
  have "Name ?component = ''component''" "Name ?push = ''push''" by code_simp+
  then have n: "Name (?visit ?component) = ''component''" "Name (?visit ?push) = ''push''" by (simp_all add: Name_visit)
  have "([''component'', ''push''], ?visit ?push) \<in> set (command_paths ?odo)"
    using command_paths_sub [OF c command_paths_sub [OF p command_paths_self]] unfolding n .
  from commands_found [OF this] have "fst (Find ?odo [''component'', ''push'']) = ?visit ?push" by (simp only: fst_conv)
  moreover have "cd_id (cmd_data ?push) = ''odo component push''" by code_simp
  ultimately show ?thesis by (simp only: data_visit reconfigure_keeps)
qed

lemma Find_in_tree:
  "Find root words = (c, args) \<Longrightarrow> \<exists>inh. (inh, c) \<in> set (all_commands inherited root)"
proof (induction root words arbitrary: inherited rule: Find.induct)
  case (1 c')
  then show ?case by (cases c') auto
next
  case (2 root word words)
  obtain d cs where root: "root = Command d cs" by (cases root)
  show ?case
  proof (cases "findNext word cs")
    case None
    then show ?thesis using 2(2) root by auto
  next
    case (Some s)
    then have "s \<in> set cs" by (auto simp: findNext_def find_Some_iff)
    moreover have "\<exists>inh. (inh, c) \<in> set (all_commands (AddFlagSet (cd_persistent d) inherited) s)"
      using 2 Some root by simp
    ultimately show ?thesis using root by auto
  qed
qed

lemma groups_have_RunE:
  assumes "(inh, c) \<in> set (all_commands inherited (VisitCommands reconfigureCmdWithSubcmd root))" and "cmd_subs c \<noteq> []"
  shows "cd_run_e (cmd_data c)"
proof -
  obtain i s where s: "(i, s) \<in> set (all_commands inherited root)" "c = VisitCommands reconfigureCmdWithSubcmd s"
    using assms(1) by (auto simp: all_commands_visit)
  with assms(2) show ?thesis by (cases s) (simp add: reconfigureCmdWithSubcmd_def)
qed




section \<open>What is completed and printed\<close>

text \<open>
  C0. Error: \<open>odo update\<close> registers a completion for a flag it does not have, \<open>binary\<close>: no flag of the
  command, own or from above, has that name.
\<close>

theorem update_completes_binary:
  "\<exists>flags. command_flags global_flags (cmd_data (NewCmdUpdate prose name fullName)) = Inr flags \<and>
     \<not> has_flag flags ''binary'' \<and>
     (''binary'', CompleteFiles) \<in> set (cd_completers (cmd_data (NewCmdUpdate prose name fullName)))"
proof -
  have "case command_flags global_flags (cmd_data (NewCmdUpdate prose name fullName)) of
      Inl _ \<Rightarrow> False | Inr flags \<Rightarrow> \<not> has_flag flags ''binary''"
    by code_simp
  moreover have "(''binary'', CompleteFiles) \<in> set (cd_completers (cmd_data (NewCmdUpdate prose name fullName)))"
    by code_simp
  ultimately show ?thesis by (auto split: sum.splits)
qed

lemma add_flag_completions:
  assumes "list_all (\<lambda>g. length (fl_shorthand g) \<le> 1) gs" and "f \<noteq> []"
  shows "lookup (foldl (add_flag_completion reg anything command) m gs) (''--'' @ f) =
     (if \<exists>g \<in> set gs. fl_name g = f \<and> \<not> fl_hidden g
      then Some (case GetCommandFlagHandler command f reg of None \<Rightarrow> anything | Some h \<Rightarrow> h)
      else lookup m (''--'' @ f))"
  using assms(1)
proof (induction gs arbitrary: m)
  case (Cons g gs)
  have "''-'' @ fl_shorthand g \<noteq> ''--'' @ f"
    using Cons.prems assms(2) by (cases "fl_shorthand g") auto
  then have "lookup (add_flag_completion reg anything command m g) (''--'' @ f) =
      (if fl_name g = f \<and> \<not> fl_hidden g
       then Some (case GetCommandFlagHandler command f reg of None \<Rightarrow> anything | Some h \<Rightarrow> h)
       else lookup m (''--'' @ f))"
    by (auto simp: add_flag_completion_def Let_def)
  then show ?case using Cons by auto
qed simp

text \<open>C37. 
  C0. Functional: the completion of a command offers \<open>--\<close> and a name exactly when a flag of the command, its own
  or one from above, has the name and is not hidden, and then with the handler registered for that flag, or
  with the one that predicts anything.
\<close>

theorem flags_completed:
  assumes "list_all (\<lambda>g. length (fl_shorthand g) \<le> 1) (LocalFlags inherited d @ inherited)" and "f \<noteq> []"
  shows "lookup (cm_flags (createCompletion reg anything nothing inherited (Command d cs))) (''--'' @ f) =
     (if \<exists>g \<in> set (LocalFlags inherited d @ inherited). fl_name g = f \<and> \<not> fl_hidden g
      then Some (case GetCommandFlagHandler (cd_id d) f reg of None \<Rightarrow> anything | Some h \<Rightarrow> h)
      else None)"
  using add_flag_completions [OF assms, of reg anything "cd_id d" "[]"] by simp

theorem flags_completed_witness:
  "lookup (cm_flags (createCompletion [((''odo log'', ''app''), ''apps'')] ''anything'' ''nothing'' global_flags (NewCmdLog (\<lambda>_. ([], [])) ''log'' ''odo log'')))
     ''--app'' = Some ''apps''"
proof -
  obtain d cs where c: "NewCmdLog (\<lambda>_. ([], [])) ''log'' ''odo log'' = Command d cs" by (cases "NewCmdLog (\<lambda>_. ([], [])) ''log'' ''odo log''")
  have d: "d = cmd_data (NewCmdLog (\<lambda>_. ([], [])) ''log'' ''odo log'')" by (simp add: c)
  have "list_all (\<lambda>g. length (fl_shorthand g) \<le> 1) (LocalFlags global_flags d @ global_flags)" unfolding d by code_simp
  from flags_completed [OF this, of "''app''" "[((''odo log'', ''app''), ''apps'')]" "''anything''" "''nothing''" cs]
  have "lookup (cm_flags (createCompletion [((''odo log'', ''app''), ''apps'')] ''anything'' ''nothing'' global_flags (Command d cs))) ''--app'' =
      (if list_ex (\<lambda>g. fl_name g = ''app'' \<and> \<not> fl_hidden g) (LocalFlags global_flags d @ global_flags)
       then Some (case GetCommandFlagHandler (cd_id d) ''app'' [((''odo log'', ''app''), ''apps'')] of None \<Rightarrow> ''anything'' | Some h \<Rightarrow> h) else None)"
    by (simp add: list_ex_iff)
  moreover have "list_ex (\<lambda>g. fl_name g = ''app'' \<and> \<not> fl_hidden g) (LocalFlags global_flags d @ global_flags)"
    unfolding d by code_simp
  moreover have "(case GetCommandFlagHandler (cd_id d) ''app'' [((''odo log'', ''app''), ''apps'')] of None \<Rightarrow> ''anything'' | Some h \<Rightarrow> h) = ''apps''"
    unfolding d by code_simp
  ultimately show ?thesis by (simp add: c)
qed

text \<open>The commands of a tree in the order of the reference, with their depths.\<close>

fun in_order :: "command_flag list \<Rightarrow> nat \<Rightarrow> command \<Rightarrow> (command_flag list \<times> command \<times> nat) list" where
  "in_order inherited level (Command d cs) = (inherited, Command d cs, level) #
     concat (map snd (sort_key fst (map (\<lambda>c. (Name c, in_order (AddFlagSet (cd_persistent d) inherited) (level + 1) c)) cs)))"

lemma map_insort_key: "map (\<lambda>(n, x). (n, h x)) (insort_key fst y xs) = insort_key fst (fst y, h (snd y)) (map (\<lambda>(n, x). (n, h x)) xs)"
  by (induction xs) (auto simp: split_beta)

lemma map_sort_key: "map (\<lambda>(n, x). (n, h x)) (sort_key fst xs) = sort_key fst (map (\<lambda>(n, x). (n, h x)) xs)"
  by (induction xs) (auto simp: map_insort_key)

lemma concat_map_concat: "concat (map f (concat xss)) = concat (map (\<lambda>xs. concat (map f xs)) xss)"
  by (induction xss) simp_all

text \<open>
  C0. Equivalence: the structure that \<open>cli-doc\<close> prints is one line per command, each command before its
  subcommands and those in the order of their names, indented by the depth.
\<close>

theorem structure_printed:
  "commandPrinter inherited c level = concat (map (\<lambda>(i, s, l). command_line i s l) (in_order inherited level c))"
proof (induction c arbitrary: inherited level)
  case (Command d cs)
  let ?i = "AddFlagSet (cd_persistent d) inherited"
  let ?h = "\<lambda>xs. concat (map (\<lambda>(i, s, l). command_line i s l) xs)"
  have "map (\<lambda>c. (Name c, commandPrinter ?i c (level + 1))) cs =
      map (\<lambda>(n, x). (n, ?h x)) (map (\<lambda>c. (Name c, in_order ?i (level + 1) c)) cs)"
    using Command.IH by simp
  then have "sort_key fst (map (\<lambda>c. (Name c, commandPrinter ?i c (level + 1))) cs) =
      map (\<lambda>(n, x). (n, ?h x)) (sort_key fst (map (\<lambda>c. (Name c, in_order ?i (level + 1) c)) cs))"
    unfolding map_sort_key by (rule arg_cong)
  then have "map snd (sort_key fst (map (\<lambda>c. (Name c, commandPrinter ?i c (level + 1))) cs)) =
      map ?h (map snd (sort_key fst (map (\<lambda>c. (Name c, in_order ?i (level + 1) c)) cs)))"
    by (simp only: map_map) (simp add: o_def split_beta)
  then show ?case by (simp only: commandPrinter.simps in_order.simps list.map concat.simps prod.case concat_map_concat)
qed


section \<open>The notice of a newer release\<close>

text \<open>
  C0. Functional: the check for a release answers with a tag exactly when the version library orders the current
  version before it; the tag is the body of the answer less a newline, and a leading \<open>v\<close> plays no part.
\<close>

theorem newer_release_only:
  assumes "CheckLatestReleaseTag semver lt get read currentVersion s = (Inr tag, s')" and "tag \<noteq> []"
  shows "\<exists>current latest. semver (trim_prefix currentVersion ''v'') = Inr current \<and>
     semver (trim_prefix tag ''v'') = Inr latest \<and> lt current latest"
  using assms unfolding CheckLatestReleaseTag_def
  by (auto simp: bind_ok_iff wrapping_ok_iff lift_ok_iff return_ok_iff split: if_splits)

theorem newer_release_only_witness:
  "\<exists>current latest. parse_int 10 (trim_prefix ''v1'' ''v'') = Inr current \<and> parse_int 10 (trim_prefix ''v2'' ''v'') = Inr latest \<and> current < latest"
proof (rule newer_release_only)
  show "CheckLatestReleaseTag (parse_int 10) (<) return (\<lambda>_. return (''v2'' @ [newline])) ''v1'' () = (Inr ''v2'', ())"
    by code_simp
qed simp

text \<open>
  C0. Error: the notice of a newer release advises \<open>odo config set UpdateNotification false\<close>, which always fails:
  \<open>UpdateNotification\<close> is a preference and no parameter of the configuration, whose setting it refuses.
\<close>

theorem notice_advice_refused:
  "(\<exists>pre post. fst (GetLatestReleaseInfo (return ''v2.0.0'') s) =
       Inr (Some (pre @ ''odo config set UpdateNotification false'' @ post))) \<and>
   SetConfiguration y (to_lower ''UpdateNotification'') v ls =
     (Inl (Err (Errorf ''unknown parameter :'%s' is not a parameter in local odo config'' [to_lower ''UpdateNotification''])), ls)"
proof
  let ?advice = "''odo config set UpdateNotification false''"
  let ?pre = "''---'' @ [newline] @ ''A newer version of odo (version: '' @ ''v2.0.0'' @ '') is available.'' @ [newline] @
         ''Update using your package manager, or run'' @ [newline] @ ''curl '' @ InstallScriptURL @ '' | sh'' @ [newline] @
         ''to update manually, or visit https://github.com/openshift/odo/releases'' @ [newline] @ ''---'' @ [newline] @
         ''If you wish to disable the update notifications, you can disable it by running'' @ [newline] @ [CHR 0x27]"
  have "fst (GetLatestReleaseInfo (return ''v2.0.0'') s) = Inr (Some (?pre @ ?advice @ [CHR 0x27] @ [newline]))"
    by (simp add: GetLatestReleaseInfo_def op_simps)
  then show "\<exists>pre post. fst (GetLatestReleaseInfo (return ''v2.0.0'') s) = Inr (Some (pre @ ?advice @ post))" by blast
next
  have "to_lower (to_lower ''UpdateNotification'') \<notin> set local_parameters" by code_simp
  then show "SetConfiguration y (to_lower ''UpdateNotification'') v ls =
     (Inl (Err (Errorf ''unknown parameter :'%s' is not a parameter in local odo config'' [to_lower ''UpdateNotification''])), ls)"
    by (rule SetConfiguration_unknown)
qed

end
