(* ===== verification/Status.thy ===== *)
theory Status
  imports Util
begin

text \<open>
  What odo shows while it works, \<open>pkg/log\<close>: the lines of the log functions, and the status with its
  spinner as a machine in which the goroutine of the command and the goroutines of the spinner take
  turns. The channel that stops the spinner holds one signal: a send waits while it is full.
\<close>


section \<open>The console\<close>

text \<open>The operating system, whether the output is a terminal, and the library for colours.\<close>

record console =
  cs_windows :: bool
  cs_file_terminal :: bool
  cs_paint :: "string \<Rightarrow> string \<Rightarrow> string"

definition IsTerminal :: "console \<Rightarrow> bool" where
  "IsTerminal c \<longleftrightarrow> cs_windows c \<or> cs_file_terminal c"

definition prefixSpacing :: string where "prefixSpacing = '' ''"
definition suffixSpacing :: string where "suffixSpacing = ''  ''"

definition getErrString :: "console \<Rightarrow> string" where
  "getErrString c = (if cs_windows c then ''X'' else [CHR 0xE2, CHR 0x9C, CHR 0x97])"

definition getWarningString :: "console \<Rightarrow> string" where
  "getWarningString c = (if cs_windows c then ''!'' else [CHR 0xE2, CHR 0x9A, CHR 0xA0])"

definition getSuccessString :: "console \<Rightarrow> string" where
  "getSuccessString c = (if cs_windows c then ''V'' else [CHR 0xE2, CHR 0x9C, CHR 0x93])"

definition getSpacingString :: "console \<Rightarrow> string" where
  "getSpacingString c = (if cs_windows c then ''-'' else [CHR 0xE2, CHR 0x80, CHR 0xA2])"

text \<open>The verbosity of the command line, if the flag is known.\<close>

definition IsDebug :: "string option \<Rightarrow> bool" where
  "IsDebug v = (case v of Some value \<Rightarrow> \<not> contains_str value ''0'' | None \<Rightarrow> False)"

text \<open>The log functions, on a text that is already put together.\<close>

definition Namef :: "console \<Rightarrow> string \<Rightarrow> string" where
  "Namef c text = cs_paint c ''bold'' text @ [newline]"

definition Progressf :: "string \<Rightarrow> string" where
  "Progressf text = '' '' @ prefixSpacing @ text @ [newline]"

definition Success :: "console \<Rightarrow> string \<Rightarrow> string" where
  "Success c text = prefixSpacing @ cs_paint c ''green'' (getSuccessString c) @ suffixSpacing @ text @ [newline]"

definition Warningf :: "console \<Rightarrow> string \<Rightarrow> string" where
  "Warningf c text = '' '' @ cs_paint c ''yellow'' (getWarningString c) @ suffixSpacing @ text @ [newline]"

definition Warning :: "console \<Rightarrow> string \<Rightarrow> string" where
  "Warning c text = prefixSpacing @ cs_paint c ''yellow'' (getWarningString c) @ suffixSpacing @ text @ [newline]"

definition Errorf_line :: "console \<Rightarrow> string \<Rightarrow> string" where
  "Errorf_line c text = '' '' @ cs_paint c ''red'' (getErrString c) @ suffixSpacing @ text @ [newline]"

definition Error_line :: "console \<Rightarrow> string \<Rightarrow> string" where
  "Error_line c text = prefixSpacing @ cs_paint c ''red'' (getErrString c) @ suffixSpacing @ text @ [newline]"

definition Info :: "console \<Rightarrow> string \<Rightarrow> string" where
  "Info c text = cs_paint c ''bold'' (text @ [newline])"

definition Infof :: "console \<Rightarrow> string \<Rightarrow> string" where
  "Infof c text = cs_paint c ''bold'' text @ [newline]"

definition Askf :: "console \<Rightarrow> string \<Rightarrow> string" where
  "Askf c text = cs_paint c ''bold'' text"

text \<open>The time since the spinner was made, in nanoseconds; whole minutes and seconds are rounded by the library.\<close>

definition TimeSpent :: "(int \<Rightarrow> string) \<Rightarrow> (int \<Rightarrow> string) \<Rightarrow> int \<Rightarrow> string" where
  "TimeSpent minutes seconds timeElapsed =
     (if timeElapsed > 60000000000 then minutes timeElapsed @ ''m''
      else if timeElapsed < 60000000000 \<and> timeElapsed > 1000000000 then seconds timeElapsed @ ''s''
      else if timeElapsed < 1000000000 \<and> timeElapsed > 1000000 then show_int (timeElapsed div 1000000) @ ''ms''
      else show_int timeElapsed @ ''ns'')"


section \<open>The status and its spinner\<close>

text \<open>What is written: a line of the status, or a frame of the spinner.\<close>

datatype written = Line string | Frame string

record status =
  ss_status :: string
  ss_prefix :: string
  ss_suffix :: string
  ss_spinners :: nat
  ss_stop :: nat
  ss_written :: "written list"

definition NewStatus :: status where
  "NewStatus = \<lparr>ss_status = [], ss_prefix = [], ss_suffix = [], ss_spinners = 0, ss_stop = 0, ss_written = []\<rparr>"

text \<open>
  What the goroutine of the command has left to do: calls of the status with the time that is
  spent when they end it, and the steps they consist of.
\<close>

datatype action = Start string bool string | End bool string
  | Stop | Print string | SetStatus string | SetSpinner string string | Spin

definition start_line :: "console \<Rightarrow> string \<Rightarrow> string" where
  "start_line c status = prefixSpacing @ getSpacingString c @ suffixSpacing @ status @ ''  ...'' @ [newline]"

definition end_line :: "console \<Rightarrow> bool \<Rightarrow> string \<Rightarrow> string \<Rightarrow> string" where
  "end_line c success status spent =
     prefixSpacing @ (if success then cs_paint c ''green'' (getSuccessString c) else cs_paint c ''red'' (getErrString c))
     @ suffixSpacing @ status @ '' ['' @ spent @ '']'' @ [newline]"

definition EndActions :: "console \<Rightarrow> bool \<Rightarrow> string \<Rightarrow> string \<Rightarrow> action list" where
  "EndActions c success spent status =
     (if status = [] then []
      else (if IsTerminal c then [Stop, Print [CHR 0x0D]] else []) @ [Print (end_line c success status spent), SetStatus []])"

definition StartActions :: "console \<Rightarrow> string \<Rightarrow> bool \<Rightarrow> string \<Rightarrow> action list" where
  "StartActions c status debug spent =
     [End True spent, SetStatus status] @
     (if \<not> IsTerminal c \<or> debug then [Print (start_line c status)]
      else [SetSpinner prefixSpacing (suffixSpacing @ status), Spin])"

text \<open>The frames of the spinner on this system.\<close>

definition spinner_frames :: "console \<Rightarrow> string list" where
  "spinner_frames c = (if cs_windows c then [''<'', ''^'', ''>'', ''v'']
     else map (\<lambda>b. [CHR 0xE2, CHR 0x97, b]) [CHR 0x90, CHR 0x93, CHR 0x91, CHR 0x92])"

text \<open>
  The steps of all goroutines. A spinner that finds the signal and the ticker ready takes either:
  it ends, or writes one more frame.
\<close>

inductive status_step :: "console \<Rightarrow> action list \<times> status \<Rightarrow> action list \<times> status \<Rightarrow> bool" for c where
  starting: "status_step c (Start status debug spent # todo, s) (StartActions c status debug spent @ todo, s)"
| ending: "status_step c (End success spent # todo, s) (EndActions c success spent (ss_status s) @ todo, s)"
| stopping: "ss_stop s = 0 \<Longrightarrow> status_step c (Stop # todo, s) (todo, s\<lparr>ss_stop := 1\<rparr>)"
| printing: "status_step c (Print text # todo, s) (todo, s\<lparr>ss_written := ss_written s @ [Line text]\<rparr>)"
| setting: "status_step c (SetStatus status # todo, s) (todo, s\<lparr>ss_status := status\<rparr>)"
| fixing: "status_step c (SetSpinner prefix suffix # todo, s) (todo, s\<lparr>ss_prefix := prefix, ss_suffix := suffix\<rparr>)"
| spinning: "status_step c (Spin # todo, s) (todo, s\<lparr>ss_spinners := Suc (ss_spinners s)\<rparr>)"
| turning: "ss_spinners s > 0 \<Longrightarrow> frame \<in> set (spinner_frames c) \<Longrightarrow>
    status_step c (todo, s) (todo, s\<lparr>ss_written := ss_written s @ [Frame ([CHR 0x0D] @ ss_prefix s @ frame @ ss_suffix s)]\<rparr>)"
| stopped: "ss_spinners s > 0 \<Longrightarrow> ss_stop s = 1 \<Longrightarrow>
    status_step c (todo, s) (todo, s\<lparr>ss_spinners := ss_spinners s - 1, ss_stop := 0\<rparr>)"

inductive status_run :: "console \<Rightarrow> action list \<times> status \<Rightarrow> action list \<times> status \<Rightarrow> bool" for c where
  stay: "status_run c x x"
| go: "status_run c x y \<Longrightarrow> status_step c y z \<Longrightarrow> status_run c x z"

inductive_cases stuckE: "status_step c (Stop # todo, s) x"

text \<open>
  The idiom of the callers: the status starts when it is made, a deferred call marks it as failed,
  and the work ends it; \<open>Spinner\<close> spins unless odo is verbose, \<open>SpinnerNoSpin\<close> never does.
\<close>

definition Spinner :: "string option \<Rightarrow> string \<Rightarrow> action list" where
  "Spinner v status = [Start status (IsDebug v) []]"

definition SpinnerNoSpin :: "string \<Rightarrow> action list" where
  "SpinnerNoSpin status = [Start status True []]"

definition phase :: "action list \<Rightarrow> bool \<Rightarrow> string \<Rightarrow> string \<Rightarrow> action list" where
  "phase start success spent later = start @ [End success spent, End False later]"


text \<open>
  A writer that stops the spinner around each write; when the write fails the spinner stays stopped. It is used
  only when both outputs are terminals.
\<close>

definition friendly_write :: "bool \<Rightarrow> string \<Rightarrow> action list" where
  "friendly_write broken p = (if broken then [Stop] else [Stop, Print [CHR 0x0D], Print p, Spin])"

definition MaybeWrapWriter :: "console \<Rightarrow> console \<Rightarrow> bool" where
  "MaybeWrapWriter c w \<longleftrightarrow> IsTerminal c \<and> IsTerminal w"


section \<open>What the command writes, whatever the spinner does\<close>

text \<open>The lines the goroutine of the command still writes, and the signals it still sends, from its actions and the status.\<close>

definition ended_lines :: "console \<Rightarrow> bool \<Rightarrow> string \<Rightarrow> string \<Rightarrow> string list" where
  "ended_lines c success spent status =
     (if status = [] then [] else (if IsTerminal c then [[CHR 0x0D]] else []) @ [end_line c success status spent])"

definition ended_stops :: "console \<Rightarrow> string \<Rightarrow> nat" where
  "ended_stops c status = (if status \<noteq> [] \<and> IsTerminal c then 1 else 0)"

fun lines_left :: "console \<Rightarrow> action list \<Rightarrow> string \<Rightarrow> string list" where
  "lines_left c [] status = []"
| "lines_left c (Start new debug spent # todo) status =
     ended_lines c True spent status @ (if \<not> IsTerminal c \<or> debug then [start_line c new] else []) @ lines_left c todo new"
| "lines_left c (End success spent # todo) status = ended_lines c success spent status @ lines_left c todo []"
| "lines_left c (Print text # todo) status = text # lines_left c todo status"
| "lines_left c (SetStatus new # todo) status = lines_left c todo new"
| "lines_left c (action # todo) status = lines_left c todo status"

fun stops_left :: "console \<Rightarrow> action list \<Rightarrow> string \<Rightarrow> nat" where
  "stops_left c [] status = 0"
| "stops_left c (Start new debug spent # todo) status = ended_stops c status + stops_left c todo new"
| "stops_left c (End success spent # todo) status = ended_stops c status + stops_left c todo []"
| "stops_left c (Stop # todo) status = Suc (stops_left c todo status)"
| "stops_left c (SetStatus new # todo) status = stops_left c todo new"
| "stops_left c (action # todo) status = stops_left c todo status"

text \<open>The lines among what is written.\<close>

fun lines_of :: "written list \<Rightarrow> string list" where
  "lines_of [] = []"
| "lines_of (Line t # ws) = t # lines_of ws"
| "lines_of (Frame t # ws) = lines_of ws"

lemma lines_of_append [simp]: "lines_of (xs @ ys) = lines_of xs @ lines_of ys"
  by (induction xs rule: lines_of.induct) simp_all

lemma expanded [simp]:
  "lines_left c (EndActions c success spent status @ todo) status = ended_lines c success spent status @ lines_left c todo []"
  "stops_left c (EndActions c success spent status @ todo) status = ended_stops c status + stops_left c todo []"
  by (auto simp: EndActions_def ended_lines_def ended_stops_def)

lemma expanded_start [simp]:
  "lines_left c (StartActions c new debug spent @ todo) status =
     ended_lines c True spent status @ (if \<not> IsTerminal c \<or> debug then [start_line c new] else []) @ lines_left c todo new"
  "stops_left c (StartActions c new debug spent @ todo) status = ended_stops c status + stops_left c todo new"
  by (auto simp: StartActions_def)

lemma step_lines:
  assumes "status_step c (todo, s) (todo', s')"
  shows "lines_of (ss_written s') @ lines_left c todo' (ss_status s') = lines_of (ss_written s) @ lines_left c todo (ss_status s)"
  using assms by (cases rule: status_step.cases) auto

lemma step_stops:
  assumes "status_step c (todo, s) (todo', s')"
  shows "ss_stop s' + stops_left c todo' (ss_status s') \<le> ss_stop s + stops_left c todo (ss_status s)"
  using assms by (cases rule: status_step.cases) auto

lemma run_lines:
  assumes "status_run c (todo, s) (todo', s')"
  shows "lines_of (ss_written s') @ lines_left c todo' (ss_status s') = lines_of (ss_written s) @ lines_left c todo (ss_status s)"
  using assms by (induction "(todo, s)" "(todo', s')" arbitrary: todo' s' rule: status_run.induct)
    (auto dest: step_lines)

lemma run_stops:
  assumes "status_run c (todo, s) (todo', s')"
  shows "ss_stop s' + stops_left c todo' (ss_status s') \<le> ss_stop s + stops_left c todo (ss_status s)"
  using assms by (induction "(todo, s)" "(todo', s')" arbitrary: todo' s' rule: status_run.induct)
    (auto dest!: step_stops)

lemma phase_facts:
  "lines_left c (phase (Spinner v text) success spent later) [] =
     (if \<not> IsTerminal c \<or> IsDebug v then [start_line c text] else []) @ ended_lines c success spent text"
  "stops_left c (phase (Spinner v text) success spent later) [] = ended_stops c text"
  by (auto simp: phase_def Spinner_def ended_lines_def ended_stops_def)


section \<open>Properties\<close>

text \<open>C32. 
  C0. Safety: a status that is started once and ended never blocks the command: however the steps of the
  spinner come between, the channel is free whenever the command sends the signal to stop, although nobody
  takes it in verbose runs on a terminal, where no spinner was started.
\<close>

theorem status_never_blocks:
  assumes "status_run c (phase (Spinner v text) success spent later, NewStatus) (Stop # todo, s)"
  shows "status_step c (Stop # todo, s) (todo, s\<lparr>ss_stop := 1\<rparr>)"
proof -
  have "ss_stop s + stops_left c (Stop # todo) (ss_status s) \<le> ended_stops c text"
    using run_stops [OF assms] by (simp add: NewStatus_def phase_facts)
  then have "ss_stop s = 0" by (simp add: ended_stops_def split: if_splits)
  then show ?thesis by (rule status_step.stopping)
qed

definition plain_console :: console where
  "plain_console = \<lparr>cs_windows = False, cs_file_terminal = True, cs_paint = (\<lambda>_ t. t)\<rparr>"

text \<open>A run of the command alone up to the signal, with the spinner started.\<close>

definition building_status :: status where
  "building_status = NewStatus\<lparr>ss_status := ''Building'', ss_prefix := '' '', ss_suffix := ''  Building'', ss_spinners := 1\<rparr>"

lemma building_started:
  "status_run plain_console (phase (Spinner None ''Building'') True ''2s'' ''2s'', NewStatus)
     ([End True ''2s'', End False ''2s''], building_status)"
proof -
  let ?run = "status_run plain_console (phase (Spinner None ''Building'') True ''2s'' ''2s'', NewStatus)"
  have "?run ([Start ''Building'' False [], End True ''2s'', End False ''2s''], NewStatus)"
    using status_run.stay by (simp add: phase_def Spinner_def IsDebug_def)
  note run = status_run.go [OF this status_step.starting]
  have "?run ([SetStatus ''Building'', SetSpinner '' '' ''  Building'', Spin, End True ''2s'', End False ''2s''], NewStatus)"
    using status_run.go [OF run [unfolded StartActions_def, simplified] status_step.ending]
    by (simp add: NewStatus_def EndActions_def plain_console_def IsTerminal_def prefixSpacing_def suffixSpacing_def)
  note run = status_run.go [OF status_run.go [OF status_run.go [OF this status_step.setting] status_step.fixing] status_step.spinning]
  then show ?thesis by (simp add: building_status_def NewStatus_def)
qed

lemma building_signalled:
  "status_run plain_console (phase (Spinner None ''Building'') True ''2s'' ''2s'', NewStatus)
     ([Stop, Print [CHR 0x0D], Print (end_line plain_console True ''Building'' ''2s''), SetStatus [], End False ''2s''], building_status)"
  using status_run.go [OF building_started status_step.ending]
  by (simp add: EndActions_def building_status_def plain_console_def IsTerminal_def)

theorem status_never_blocks_witness:
  "status_step plain_console
     ([Stop, Print [CHR 0x0D], Print (end_line plain_console True ''Building'' ''2s''), SetStatus [], End False ''2s''], building_status)
     ([Print [CHR 0x0D], Print (end_line plain_console True ''Building'' ''2s''), SetStatus [], End False ''2s''],
       building_status\<lparr>ss_stop := 1\<rparr>)"
  using building_signalled by (rule status_never_blocks)

text \<open>C22. 
  C0. Functional: in every interleaving with the spinner, a status that is started and ended writes the same
  lines: one when it starts if nothing can spin, and one when it ends, with the mark of its result; the deferred
  call that marks a failure writes nothing more.
\<close>

theorem status_lines:
  assumes "status_run c (phase (Spinner v text) success spent later, NewStatus) ([], s)"
  shows "lines_of (ss_written s) =
     (if \<not> IsTerminal c \<or> IsDebug v then [start_line c text] else []) @
     (if text = [] then [] else (if IsTerminal c then [[CHR 0x0D]] else []) @ [end_line c success text spent])"
  using run_lines [OF assms] by (simp add: NewStatus_def phase_facts ended_lines_def)

lemma building_ended:
  "status_run plain_console (phase (Spinner None ''Building'') True ''2s'' ''2s'', NewStatus)
     ([], building_status\<lparr>ss_stop := 1, ss_status := [],
        ss_written := [Line [CHR 0x0D], Line (end_line plain_console True ''Building'' ''2s'')]\<rparr>)"
proof -
  note run = status_run.go [OF status_run.go [OF status_run.go [OF status_run.go [OF building_signalled
      status_step.stopping] status_step.printing] status_step.printing] status_step.setting]
  from status_run.go [OF run status_step.ending] show ?thesis
    by (simp add: building_status_def NewStatus_def EndActions_def)
qed

theorem status_lines_witness:
  "lines_of [Line [CHR 0x0D], Line (end_line plain_console True ''Building'' ''2s'')] =
     [[CHR 0x0D], end_line plain_console True ''Building'' ''2s'']"
  using status_lines [OF building_ended] by (simp add: plain_console_def IsTerminal_def IsDebug_def)

text \<open>
  C0. Error: the signal does not wait for the spinner to end, so a frame of the spinner may be written over the
  output after the line that ends the status.
\<close>

theorem frame_after_the_end:
  "\<exists>s lines frame. status_run plain_console (phase (Spinner None ''Building'') True ''2s'' ''2s'', NewStatus) ([], s) \<and>
     ss_written s = lines @ [Line (end_line plain_console True ''Building'' ''2s''), Frame frame]"
proof -
  let ?f = "[CHR 0xE2, CHR 0x97, CHR 0x90]"
  have "?f \<in> set (spinner_frames plain_console)" by (simp add: spinner_frames_def plain_console_def)
  from status_run.go [OF building_ended status_step.turning [OF _ this]]
  show ?thesis by (fastforce simp: building_status_def NewStatus_def)
qed

text \<open>
  C0. Error: a status that is started again on a terminal when odo is verbose blocks the command for ever at its
  second end: the signal of the first end is still in the channel, since no spinner was started to take it.
\<close>

theorem verbose_status_blocks:
  assumes "IsTerminal c" and "a \<noteq> []" and "b \<noteq> []"
  shows "\<exists>todo s. status_run c ([Start a True t1, Start b True t2, End True t3], NewStatus) (Stop # todo, s) \<and>
     (\<forall>x. \<not> status_step c (Stop # todo, s) x)"
proof -
  let ?run = "status_run c ([Start a True t1, Start b True t2, End True t3], NewStatus)"
  let ?s1 = "NewStatus\<lparr>ss_status := a, ss_written := [Line (start_line c a)]\<rparr>"
  let ?s2 = "NewStatus\<lparr>ss_status := b, ss_stop := 1,
      ss_written := [Line (start_line c a), Line [CHR 0x0D], Line (end_line c True a t2), Line (start_line c b)]\<rparr>"
  have "?run ([SetStatus a, Print (start_line c a), Start b True t2, End True t3], NewStatus)"
    using status_run.go [OF status_run.go [OF status_run.stay [of c "([Start a True t1, Start b True t2, End True t3], NewStatus)"]
        status_step.starting, unfolded StartActions_def, simplified] status_step.ending]
    by (simp add: NewStatus_def EndActions_def)
  from status_run.go [OF status_run.go [OF this status_step.setting] status_step.printing]
  have "?run ([Start b True t2, End True t3], ?s1)" by (simp add: NewStatus_def)
  from status_run.go [OF status_run.go [OF this status_step.starting, unfolded StartActions_def, simplified] status_step.ending]
  have "?run ([Stop, Print [CHR 0x0D], Print (end_line c True a t2), SetStatus [], SetStatus b, Print (start_line c b), End True t3], ?s1)"
    using assms by (simp add: EndActions_def)
  from status_run.go [OF status_run.go [OF status_run.go [OF this status_step.stopping] status_step.printing] status_step.printing]
  have "?run ([SetStatus [], SetStatus b, Print (start_line c b), End True t3], ?s1\<lparr>ss_stop := 1,
      ss_written := [Line (start_line c a), Line [CHR 0x0D], Line (end_line c True a t2)]\<rparr>)"
    by (simp add: NewStatus_def)
  from status_run.go [OF status_run.go [OF status_run.go [OF this status_step.setting] status_step.setting] status_step.printing]
  have "?run ([End True t3], ?s2)" by (simp add: NewStatus_def)
  from status_run.go [OF this status_step.ending]
  have "?run (Stop # [Print [CHR 0x0D], Print (end_line c True b t3), SetStatus []], ?s2)"
    using assms by (simp add: EndActions_def)
  moreover have "\<not> status_step c (Stop # todo, ?s2) x" for todo x
    by (auto simp: NewStatus_def elim!: stuckE)
  ultimately show ?thesis by blast
qed

theorem verbose_status_blocks_witness:
  "\<exists>todo s. status_run plain_console ([Start ''a'' True [], Start ''b'' True [], End True []], NewStatus) (Stop # todo, s) \<and>
     (\<forall>x. \<not> status_step plain_console (Stop # todo, s) x)"
  by (rule verbose_status_blocks) (simp_all add: plain_console_def IsTerminal_def)

text \<open>
  C0. Bounds: exactly one minute, one second or one millisecond is reported in nanoseconds, as the
  comparisons leave these times out.
\<close>

theorem round_times_in_nanoseconds:
  "map (TimeSpent minutes seconds) [60000000000, 1000000000, 1000000] =
     map (\<lambda>t. show_int t @ ''ns'') [60000000000, 1000000000, 1000000]"
  by (simp add: TimeSpent_def)

end
