(* ===== verification/Spec2Isabelle.thy ===== *)
theory Spec2Isabelle
  imports Preference Images Storage Url Apps Rollout Deploy Catalog Services Component Watch Sync
    Connection Invocation PushCmd CreateCmd EditCmd ServiceCmd LinkCmd ProjectCmd ListCmd CommandTree Status
begin

text \<open>
  A model of \<open>odo\<close>, the developer's command line for OpenShift: a local configuration of a
  component is pushed to a cluster as deployments, claims, routes and secrets.

  \<^bold>\<open>How the parts interact.\<close> A command reads the local configuration (\<open>pkg/config\<close>) and the
  preferences (\<open>pkg/preference\<close>), and works on the cluster through the client of
  \<open>pkg/occlient\<close>. Everything \<open>odo\<close> creates carries the labels of \<open>pkg/*/labels\<close>, and is
  found again by selectors made of them. The packages \<open>pkg/storage\<close>, \<open>pkg/url\<close>,
  \<open>pkg/secret\<close>, \<open>pkg/application\<close>, \<open>pkg/project\<close>, \<open>pkg/catalog\<close> and \<open>pkg/service\<close> are
  operations over that client. \<open>pkg/component\<close> composes them: a component is created or updated
  from its configuration, its sources are pushed into its pod, and a watch pushes what changes. The
  commands of \<open>pkg/odo/cli\<close> find their context (\<open>pkg/odo/genericclioptions\<close>) and run in three steps, \<open>Complete\<close>,
  \<open>Validate\<close> and \<open>Run\<close>; \<open>cmd/odo\<close> builds the tree of the commands, completes what is typed and runs one.

  \<^bold>\<open>State.\<close> A Go function with an \<open>error\<close> is a value of \<open>'a result\<close>; one that also changes
  state is an operation \<open>('s, 'a) op\<close>, a function to a result and the state left behind, also
  when it fails. A fault is an error value, a run-time panic or an exit, so the three are kept
  apart (\<open>Prelude\<close>). The cluster is abstract: a \<open>client\<close> is a record of API calls over a state
  \<open>'s\<close>, so the theorems hold for whatever the API answers; \<open>Cluster\<close> has a concrete one for
  the witnesses. The state of the configuration is the pair of the object in memory and a disk.
  A Go map is an association list with distinct keys; where the program ranges over a map, the
  order is a parameter. Slices that are shortened in place while a loop ranges over them are
  modelled with the backing array they share (\<open>GoData\<close>).

  \<^bold>\<open>Theories.\<close>
  \<^item> \<open>Prelude\<close>: faults, results, operations, loops over operations.
  \<^item> \<open>GoData\<close>, \<open>GoLib\<close>: maps, deletion from a ranged slice, strings, integers, paths.
  \<^item> \<open>Objects\<close>: the Kubernetes and OpenShift objects with the fields the source uses.
  \<^item> \<open>Util\<close> (\<open>pkg/util/util.go\<close>): selectors, names, ports, paths, quantities.
  \<^item> \<open>Labels\<close> (\<open>pkg/*/labels/labels.go\<close>): the label sets, and the locale \<open>label_scheme\<close>, the
    contract that a selector matches exactly what was labelled for the same names.
  \<^item> \<open>ConfigFiles\<close> (\<open>pkg/util/config_util.go\<close>): a disk, reading and writing YAML, reflective
    access to fields; the locales \<open>param_store\<close> and \<open>keyed_list\<close>.
  \<^item> \<open>EnvVars\<close>, \<open>LocalConfig\<close> (\<open>pkg/config\<close>), \<open>Preference\<close> (\<open>pkg/preference\<close>): the settings,
    with interpretations of the two locales.
  \<^item> \<open>Volumes\<close> (\<open>pkg/occlient/volumes.go\<close> and the parts of \<open>occlient.go\<close> that edit a deployment
    in memory), \<open>Templates\<close> (\<open>pkg/occlient/templates.go\<close>).
  \<^item> \<open>Client\<close>, \<open>Images\<close>, \<open>Rollout\<close> (\<open>pkg/occlient/occlient.go\<close>, \<open>utils.go\<close>): resources,
    image streams, waits on watches and projects.
  \<^item> \<open>Views\<close>: the locale \<open>deployment_view\<close>, what the API calls that write no deployment leave
    alone, so that the one write of a run can be told; interpreted on the cluster in memory.
  \<^item> \<open>Deploy\<close> (\<open>pkg/occlient/occlient.go\<close>): creating and replacing the deployment of a component.
  \<^item> \<open>Validation\<close> (\<open>pkg/odo/util/validation\<close>), \<open>Catalog\<close> (\<open>pkg/catalog\<close> and the service catalog
    in \<open>occlient.go\<close>), \<open>Services\<close> (\<open>pkg/service\<close>).
  \<^item> \<open>Component\<close> (\<open>pkg/component/component.go\<close>), with the locale \<open>component_view\<close> that extends
    \<open>deployment_view\<close>; \<open>Watch\<close> (\<open>pkg/component/watch.go\<close>): two goroutines as a step relation.
  \<^item> \<open>Cluster\<close>: an in-memory cluster for the witnesses.
  \<^item> \<open>Storage\<close>, \<open>Url\<close>, \<open>Apps\<close>: \<open>pkg/storage\<close>, \<open>pkg/url\<close> with \<open>pkg/secret\<close>,
    \<open>pkg/application\<close> with \<open>pkg/project\<close>.
  \<^item> \<open>Files\<close>, \<open>Sync\<close> (\<open>pkg/occlient/occlient.go\<close>): a file tree, the tar stream of a directory or of
    changed files as a list of entries, and the command that unpacks it in the pod.
  \<^item> \<open>Connection\<close> (\<open>pkg/occlient/occlient.go\<close>, \<open>pkg/auth\<close>): making a client, login, logout, the version of the
    server, logs.
  \<^item> \<open>Invocation\<close> (\<open>pkg/odo/genericclioptions\<close>, \<open>pkg/odo/util/cmdutils.go\<close>): the context of a command.
  \<^item> \<open>PushCmd\<close>, \<open>CreateCmd\<close>, \<open>EditCmd\<close>, \<open>ServiceCmd\<close>, \<open>LinkCmd\<close>, \<open>ProjectCmd\<close>, \<open>ListCmd\<close> (\<open>pkg/odo/cli\<close>): push, watch and
    update; create; the commands that edit the configuration; services; link, unlink and delete; projects and
    applications; lists, the catalog, preferences and versions.
  \<^item> \<open>Completion\<close> (\<open>pkg/odo/util/completion\<close>): what is typed, the handlers and their registry.
  \<^item> \<open>Commands\<close> (the constructors \<open>NewCmd...\<close> of \<open>pkg/odo/cli\<close>): usage line, arguments, flags and subcommands of each
    command; \<open>CommandTree\<close> (\<open>pkg/odo/cli/cli.go\<close>, \<open>cmd/odo\<close>, \<open>cmd/cli-doc\<close>, \<open>pkg/notify\<close>): the tree at work.
  \<^item> \<open>Status\<close> (\<open>pkg/log\<close>): the lines of the log, and the status with its spinner as a step relation.

  \<^bold>\<open>What is shown.\<close> Pushing storage does exactly what a plan computed from the configuration and
  the cluster says, reports the paths it changed, does nothing when the two agree, and stops at
  a mismatch after the deletions before it. Mounts keep their volumes through every edit of a
  deployment. Creating a component writes one deployment, consistent, with the S2I variables and
  labels only its own selector finds; replacing one keeps its name, status and volumes, waits for
  the roll-out, and removes the old sources after it; an update loses the variables of the
  configuration. A watch lists no ignored file and no file twice, drops nothing it has noted before
  a push, pushes only after a quiet delay and never after an error, but misses the removal of a
  file it has listed as changed. Selectors are exact, so listings and existence checks do not confuse components.
  A setting that is set is read back, one that is deleted is unset. References, ports and
  environment variables survive printing and parsing. Waits end with the first signal that
  decides them. A push does what its flags ask for, in the order of the command; what is copied is
  the tree without the ignored files; a command resolves its context from its flags, the
  configuration and the cluster in that order; a configuration that \<open>create\<close> writes is the one the
  next command loads, and the commands that edit it keep its names distinct. The flags of all
  commands fit together, each command is found by its names and by no others, the completion of
  a command offers its visible flags, and the lines of a status do not depend on how its spinner
  is scheduled. Several theorems state how the code fails: a panic of a loop that deletes what
  it ranges over, a nil dereference in an error message, a wait that does not wait.

  \<^bold>\<open>Bounds and fuel.\<close> Loops recurse on the list they range over or on a measure; there is no fuel
  in the model of the program except the four attempts of \<open>retry_on_conflict\<close>, which are the
  program's, and the walk of \<open>recursiveTar\<close> over a directory, whose fuel is its depth: the theorem
  on the copied tree gives enough of it, so that it is no hypothesis on the result. A wait consumes the list of signals it is given, and \<open>None\<close> means it is still
  blocked when the list is used up. Integers are \<open>int\<close>: ports are parsed with the 32-bit range
  check of the source, and the one product that can overflow 64 bits, the length of a timeout, is a
  \<open>64 word\<close>.

  \<^bold>\<open>Parameters.\<close> The API server, the watches on it, build logs, the copy of files into a pod and
  commands in it (record \<open>outside\<close>), the answers of the file system to a watch, YAML and JSON, URL parsing, glob matching, the operating system's
  directories and environment, random indices and the order of maps. JSON patches are kept as
  the text that is sent. Nil and empty slices are identified, as the code does not tell them
  apart where they are modelled.

  The terminal of a dialogue is a record \<open>survey\<close> of questions with
  their answers; what a command finds outside is a record \<open>tools\<close>. The parsing of flags, the library
  for versions, the request for the latest one, colours, and the prose of the commands are parameters.

  \<^bold>\<open>Not modelled.\<close> The parsing of flags by the flag library and the templates of the help; the
  installation of the completions in a shell; the writers for coloured output on Windows; the network and
  the process calls behind the parameters above; test fixtures (\<open>pkg/testingutil\<close>), and vendored packages but
  for the few functions the manifest names.
\<close>

end
